(* ===== verification/Elk_Prelude.thy ===== *)
theory Elk_Prelude
  imports Main "HOL-Library.Word"
begin

text \<open>
  The Python run-time behaviour the whole development shares: errors as values, indexing and
  slicing of strings and lists (negative indices included), the \<open>int(text, base)\<close> parser with
  its white space, sign, prefix and underscore rules, the \<open>:0w\<close> and \<open>:02X\<close> formats, and the
  statement algebra in which the handlers of the panel model are written (a statement changes a
  state and may stop with an error, keeping the changes it has already made, as a Python
  statement sequence does).
\<close>

unbundle bit_operations_syntax

named_theorems py_simps \<open>evaluation of the Python run-time functions\<close>
named_theorems stmt_intros \<open>preservation rules of the statement algebra\<close>

section \<open>Errors\<close>

datatype py_error =
    ValueError
  | IndexError
  | KeyError
  | TypeError
  | AttributeError
  | OverflowError
  | ConnectionError

type_synonym 'a result = "py_error + 'a"

fun bindr :: "'a result \<Rightarrow> ('a \<Rightarrow> 'b result) \<Rightarrow> 'b result" where
  "bindr (Inl e) f = Inl e"
| "bindr (Inr x) f = f x"

lemma bindr_eq_Inr: "bindr m f = Inr y \<longleftrightarrow> (\<exists>x. m = Inr x \<and> f x = Inr y)"
  by (cases m) auto

lemma bindr_eq_Inl: "bindr m f = Inl e \<longleftrightarrow> m = Inl e \<or> (\<exists>x. m = Inr x \<and> f x = Inl e)"
  by (cases m) auto

text \<open>A comprehension \<open>[f(x) for x in xs]\<close>: the first failing element raises.\<close>

fun mapr :: "('a \<Rightarrow> 'b result) \<Rightarrow> 'a list \<Rightarrow> 'b list result" where
  "mapr f [] = Inr []"
| "mapr f (x # xs) = bindr (f x) (\<lambda>y. bindr (mapr f xs) (\<lambda>ys. Inr (y # ys)))"

lemma mapr_length: "mapr f xs = Inr ys \<Longrightarrow> length ys = length xs"
  by (induction xs arbitrary: ys) (auto simp: bindr_eq_Inr)

lemma mapr_nth: "mapr f xs = Inr ys \<Longrightarrow> i < length xs \<Longrightarrow> f (xs ! i) = Inr (ys ! i)"
  by (induction xs arbitrary: ys i) (auto simp: bindr_eq_Inr nth_Cons split: nat.splits)

lemma mapr_Inr_map: "(\<And>x. x \<in> set xs \<Longrightarrow> f x = Inr (g x)) \<Longrightarrow> mapr f xs = Inr (map g xs)"
  by (induction xs) auto

lemma mapr_map: "mapr f (map g xs) = mapr (\<lambda>x. f (g x)) xs"
  by (induction xs) auto

lemma mapr_Inl: "mapr f xs = Inl e \<Longrightarrow> \<exists>x \<in> set xs. f x = Inl e"
  by (induction xs) (auto simp: bindr_eq_Inl)

lemma mapr_total: "(\<And>x. x \<in> set xs \<Longrightarrow> \<exists>y. f x = Inr y) \<Longrightarrow> \<exists>ys. mapr f xs = Inr ys"
proof (induction xs)
  case (Cons x xs)
  then obtain y ys where "f x = Inr y" "mapr f xs = Inr ys" by fastforce
  then show ?case by simp
qed simp

definition of_option :: "py_error \<Rightarrow> 'a option \<Rightarrow> 'a result" where
  "of_option e r = (case r of None \<Rightarrow> Inl e | Some x \<Rightarrow> Inr x)"

lemma of_option_simps [simp]:
  "of_option e None = Inl e"
  "of_option e (Some x) = Inr x"
  by (simp_all add: of_option_def)

lemma of_option_eq_Inr [simp]: "of_option e r = Inr x \<longleftrightarrow> r = Some x"
  by (cases r) (auto simp: of_option_def)

lemma of_option_eq_Inl [simp]: "of_option e r = Inl e' \<longleftrightarrow> r = None \<and> e' = e"
  by (cases r) (auto simp: of_option_def)

section \<open>Characters, slices and indexing\<close>

text \<open>
  The wire is decoded as ISO-8859-1, so a character is exactly one byte: \<open>char\<close> of HOL.
  \<open>pyord\<close> is Python's \<open>ord\<close>.
\<close>

definition pyord :: "char \<Rightarrow> nat" where
  "pyord c = of_char c"

lemma pyord_less [simp]: "pyord c < 256"
  by (simp add: pyord_def)

lemma pyord_inj: "pyord c = pyord d \<longleftrightarrow> c = d"
  by (simp add: pyord_def)

lemma pyord_char_of [simp]: "pyord (char_of n) = n mod 256" for n :: nat
  by (simp add: pyord_def)

definition py_slice :: "nat \<Rightarrow> nat \<Rightarrow> 'a list \<Rightarrow> 'a list" where
  "py_slice i j xs = take (j - i) (drop i xs)"

text \<open>\<open>xs[:-k]\<close> and \<open>xs[-k:]\<close>.\<close>

definition drop_end :: "nat \<Rightarrow> 'a list \<Rightarrow> 'a list" where
  "drop_end k xs = take (length xs - k) xs"

definition take_end :: "nat \<Rightarrow> 'a list \<Rightarrow> 'a list" where
  "take_end k xs = drop (length xs - k) xs"

lemma drop_end_append [simp]: "length ys = k \<Longrightarrow> drop_end k (xs @ ys) = xs"
  by (simp add: drop_end_def)

lemma take_end_append [simp]: "length ys = k \<Longrightarrow> take_end k (xs @ ys) = ys"
  by (simp add: take_end_def)

lemma drop_end_take_end: "drop_end k xs @ take_end k xs = xs"
  by (simp add: drop_end_def take_end_def)

lemma length_take_end [simp]: "length (take_end k xs) = min k (length xs)"
  by (simp add: take_end_def)

lemma length_drop_end [simp]: "length (drop_end k xs) = length xs - k"
  by (simp add: drop_end_def)

lemma py_slice_Cons:
  "py_slice (Suc i) (Suc j) (x # xs) = py_slice i j xs"
  "py_slice 0 (Suc j) (x # xs) = x # py_slice 0 j xs"
  by (simp_all add: py_slice_def)

lemma py_slice_append_mid:
  "length xs = i \<Longrightarrow> length ys = j - i \<Longrightarrow> py_slice i j (xs @ ys @ zs) = ys"
  by (simp add: py_slice_def)

lemma length_py_slice: "length (py_slice i j xs) = min (j - i) (length xs - i)"
  by (simp add: py_slice_def)

text \<open>\<open>xs[i]\<close> for a literal index.\<close>

definition item :: "'a list \<Rightarrow> nat \<Rightarrow> 'a result" where
  "item xs i = (if i < length xs then Inr (xs ! i) else Inl IndexError)"

lemma item_Cons [simp]:
  "item (x # xs) 0 = Inr x"
  "item (x # xs) (Suc i) = item xs i"
  by (simp_all add: item_def)

lemma item_Nil [simp]: "item [] i = Inl IndexError"
  by (simp add: item_def)

text \<open>
  \<open>xs[i]\<close> for a computed index: a negative one counts from the end. \<open>py_pos n i\<close> is the
  position it selects in a list of length \<open>n\<close>.
\<close>

definition py_pos :: "nat \<Rightarrow> int \<Rightarrow> nat option" where
  "py_pos n i =
     (let j = (if i < 0 then i + int n else i)
      in if 0 \<le> j \<and> j < int n then Some (nat j) else None)"

lemma py_pos_bound: "py_pos n i = Some k \<Longrightarrow> k < n"
  by (auto simp: py_pos_def Let_def split: if_splits)

lemma py_pos_nonneg [simp]: "0 \<le> i \<Longrightarrow> i < int n \<Longrightarrow> py_pos n i = Some (nat i)"
  by (simp add: py_pos_def)

lemma py_pos_nat [simp]: "k < n \<Longrightarrow> py_pos n (int k) = Some k"
  by (simp add: py_pos_def)

lemma py_pos_minus_one: "0 < n \<Longrightarrow> py_pos n (- 1) = Some (n - 1)"
  by (auto simp: py_pos_def Let_def)

definition py_index :: "'a list \<Rightarrow> int \<Rightarrow> 'a result" where
  "py_index xs i = (case py_pos (length xs) i of None \<Rightarrow> Inl IndexError | Some k \<Rightarrow> Inr (xs ! k))"

lemma py_index_nat [simp]: "k < length xs \<Longrightarrow> py_index xs (int k) = Inr (xs ! k)"
  by (simp add: py_index_def)

section \<open>Decimal and hexadecimal digits\<close>

definition digit_val :: "char \<Rightarrow> nat option" where
  "digit_val c =
     (let n = pyord c
      in if 48 \<le> n \<and> n \<le> 57 then Some (n - 48)
         else if 97 \<le> n \<and> n \<le> 122 then Some (n - 87)
         else if 65 \<le> n \<and> n \<le> 90 then Some (n - 55)
         else None)"

text \<open>The digit characters of \<open>:d\<close> and \<open>:X\<close> formatting.\<close>

definition digit_char :: "nat \<Rightarrow> char" where
  "digit_char d = (if d < 10 then char_of (48 + d) else char_of (55 + d))"

lemma pyord_digit_char: "d < 16 \<Longrightarrow> pyord (digit_char d) = (if d < 10 then 48 + d else 55 + d)"
  by (simp add: digit_char_def)

lemma digit_val_digit_char [simp]: "d < 16 \<Longrightarrow> digit_val (digit_char d) = Some d"
  by (auto simp: digit_val_def pyord_digit_char Let_def)

text \<open>White space that \<open>int()\<close> strips (one-byte characters only).\<close>

definition int_space :: "char \<Rightarrow> bool" where
  "int_space c = (let n = pyord c in (9 \<le> n \<and> n \<le> 13) \<or> n = 32 \<or> n = 133 \<or> n = 160)"

text \<open>White space that \<open>str.rstrip()\<close> strips.\<close>

definition str_space :: "char \<Rightarrow> bool" where
  "str_space c =
     (let n = pyord c in (9 \<le> n \<and> n \<le> 13) \<or> (28 \<le> n \<and> n \<le> 32) \<or> n = 133 \<or> n = 160)"

definition strip_by :: "(char \<Rightarrow> bool) \<Rightarrow> string \<Rightarrow> string" where
  "strip_by p s = rev (dropWhile p (rev (dropWhile p s)))"

definition rstrip_by :: "(char \<Rightarrow> bool) \<Rightarrow> string \<Rightarrow> string" where
  "rstrip_by p s = rev (dropWhile p (rev s))"

definition rstrip :: "string \<Rightarrow> string" where
  "rstrip s = rstrip_by str_space s"

lemma strip_by_none: "(\<And>c. c \<in> set s \<Longrightarrow> \<not> p c) \<Longrightarrow> strip_by p s = s"
proof -
  assume np: "\<And>c. c \<in> set s \<Longrightarrow> \<not> p c"
  have "dropWhile p s = s" using np by (cases s) auto
  moreover have "dropWhile p (rev s) = rev s" using np by (cases "rev s") (auto dest: sym)
  ultimately show ?thesis by (simp add: strip_by_def)
qed

lemma rstrip_by_last: "s \<noteq> [] \<Longrightarrow> \<not> p (last s) \<Longrightarrow> rstrip_by p s = s"
  by (cases s rule: rev_cases) (auto simp: rstrip_by_def)

lemma rstrip_by_replicate:
  "p c \<Longrightarrow> rstrip_by p (s @ replicate n c) = rstrip_by p s"
  by (simp add: rstrip_by_def dropWhile_append)

text \<open>
  The digit loop of \<open>int(text, base)\<close>: an underscore is allowed only between two digits.
  \<open>ok\<close> says that the previous character was a digit.
\<close>

fun parse_digits :: "nat \<Rightarrow> nat \<Rightarrow> bool \<Rightarrow> string \<Rightarrow> nat option" where
  "parse_digits base acc ok [] = (if ok then Some acc else None)"
| "parse_digits base acc ok (c # cs) =
     (if c = CHR ''_'' then (if ok then parse_digits base acc False cs else None)
      else case digit_val c of
             None \<Rightarrow> None
           | Some d \<Rightarrow> if d < base then parse_digits base (acc * base + d) True cs else None)"

definition strip_prefix :: "nat \<Rightarrow> string \<Rightarrow> string" where
  "strip_prefix base s =
     (case s of
        a # b # cs \<Rightarrow>
          if base = 16 \<and> a = CHR ''0'' \<and> (b = CHR ''x'' \<or> b = CHR ''X'')
          then (case cs of c # cs' \<Rightarrow> if c = CHR ''_'' then cs' else cs | [] \<Rightarrow> [])
          else s
      | _ \<Rightarrow> s)"

definition parse_int :: "nat \<Rightarrow> string \<Rightarrow> int option" where
  "parse_int base s =
     (case strip_by int_space s of
        [] \<Rightarrow> None
      | c # cs \<Rightarrow>
          if c = CHR ''-'' then map_option (\<lambda>n. - int n) (parse_digits base 0 False (strip_prefix base cs))
          else if c = CHR ''+'' then map_option int (parse_digits base 0 False (strip_prefix base cs))
          else map_option int (parse_digits base 0 False (strip_prefix base (c # cs))))"

definition py_int :: "nat \<Rightarrow> string \<Rightarrow> int result" where
  "py_int base s = of_option ValueError (parse_int base s)"

text \<open>A string of plain digits of a base, and the number it denotes.\<close>

definition all_digits :: "nat \<Rightarrow> string \<Rightarrow> bool" where
  "all_digits base s = list_all (\<lambda>c. \<exists>d < base. d < 16 \<and> c = digit_char d) s"

fun digits_value :: "nat \<Rightarrow> nat \<Rightarrow> string \<Rightarrow> nat" where
  "digits_value base acc [] = acc"
| "digits_value base acc (c # cs) = digits_value base (acc * base + the (digit_val c)) cs"

lemma digits_value_append:
  "digits_value base acc (xs @ ys) = digits_value base (digits_value base acc xs) ys"
  by (induction xs arbitrary: acc) auto

lemma digit_char_neq:
  "d < 16 \<Longrightarrow> digit_char d \<noteq> CHR ''_''"
  "d < 16 \<Longrightarrow> digit_char d \<noteq> CHR ''-''"
  "d < 16 \<Longrightarrow> digit_char d \<noteq> CHR ''+''"
  "d < 16 \<Longrightarrow> digit_char d \<noteq> CHR ''x''"
  "d < 16 \<Longrightarrow> digit_char d \<noteq> CHR ''X''"
  "d < 16 \<Longrightarrow> \<not> int_space (digit_char d)"
  "d < 16 \<Longrightarrow> \<not> str_space (digit_char d)"
proof -
  assume d: "d < 16"
  have o: "pyord (digit_char d) = (if d < 10 then 48 + d else 55 + d)"
    by (rule pyord_digit_char [OF d])
  show "digit_char d \<noteq> CHR ''_''" "digit_char d \<noteq> CHR ''-''" "digit_char d \<noteq> CHR ''+''"
       "digit_char d \<noteq> CHR ''x''" "digit_char d \<noteq> CHR ''X''"
    using d o by (auto simp: pyord_def dest!: arg_cong [of _ _ pyord] split: if_splits)
  show "\<not> int_space (digit_char d)" "\<not> str_space (digit_char d)"
    using d by (auto simp: int_space_def str_space_def o Let_def)
qed

lemma parse_digits_all:
  "all_digits base s \<Longrightarrow> s \<noteq> [] \<or> ok \<Longrightarrow> parse_digits base acc ok s = Some (digits_value base acc s)"
proof (induction s arbitrary: acc ok)
  case Nil
  then show ?case by simp
next
  case (Cons c cs)
  then obtain d where d: "d < base" "d < 16" "c = digit_char d" and cs: "all_digits base cs"
    by (auto simp: all_digits_def)
  show ?case using d Cons.IH [OF cs] by (simp add: digit_char_neq)
qed

lemma strip_prefix_all_digits: "all_digits base s \<Longrightarrow> strip_prefix base s = s"
  by (auto simp: strip_prefix_def all_digits_def digit_char_neq digit_char_neq(1-5) [symmetric]
           split: list.splits)

lemma parse_int_all_digits:
  assumes "all_digits base s" and "s \<noteq> []"
  shows "parse_int base s = Some (int (digits_value base 0 s))"
proof -
  have "strip_by int_space s = s"
    using assms(1) by (intro strip_by_none) (auto simp: all_digits_def list_all_iff digit_char_neq)
  moreover obtain c cs where s: "s = c # cs" using assms(2) by (cases s) auto
  moreover obtain d where "d < 16" "c = digit_char d" using assms(1) s by (auto simp: all_digits_def)
  moreover have "strip_prefix base s = s" by (rule strip_prefix_all_digits [OF assms(1)])
  moreover have "parse_digits base 0 False s = Some (digits_value base 0 s)"
    using assms by (intro parse_digits_all) auto
  ultimately show ?thesis
    by (simp add: parse_int_def digit_char_neq del: parse_digits.simps)
qed

declare pyord_def [py_simps] digit_val_def [py_simps] int_space_def [py_simps] str_space_def [py_simps]
  strip_by_def [py_simps] rstrip_by_def [py_simps] rstrip_def [py_simps] strip_prefix_def [py_simps]
  parse_int_def [py_simps] py_int_def [py_simps] py_slice_def [py_simps] drop_end_def [py_simps]
  take_end_def [py_simps] py_pos_def [py_simps] py_index_def [py_simps] item_def [py_simps]

section \<open>Number formatting\<close>

text \<open>The digits of a number in a base from 2 to 16, most significant first.\<close>

function to_digits :: "nat \<Rightarrow> nat \<Rightarrow> string" where
  "to_digits base n =
     (if n < base \<or> base < 2 then [digit_char n]
      else to_digits base (n div base) @ [digit_char (n mod base)])"
  by pat_completeness auto
termination
  by (relation "measure (\<lambda>(b, n). n)") auto

declare to_digits.simps [simp del]

definition zfill :: "nat \<Rightarrow> string \<Rightarrow> string" where
  "zfill w s = replicate (w - length s) (CHR ''0'') @ s"

text \<open>\<open>f"{i:0w}"\<close>: the sign counts towards the width.\<close>

definition fmt_dec :: "nat \<Rightarrow> int \<Rightarrow> string" where
  "fmt_dec w i =
     (if i < 0 then CHR ''-'' # zfill (w - 1) (to_digits 10 (nat (- i)))
      else zfill w (to_digits 10 (nat i)))"

text \<open>\<open>f"{n:02X}"\<close> for the non-negative numbers the code formats so.\<close>

definition fmt_hex2 :: "nat \<Rightarrow> string" where
  "fmt_hex2 n = zfill 2 (to_digits 16 n)"

lemma all_digits_to_digits:
  assumes "2 \<le> base" and "base \<le> 16"
  shows "all_digits base (to_digits base n)"
proof (induction n rule: less_induct)
  case (less n)
  show ?case
  proof (cases "n < base")
    case True
    then show ?thesis using assms by (subst to_digits.simps) (auto simp: all_digits_def)
  next
    case False
    then have "n div base < n" using assms by (intro div_less_dividend) auto
    from less [OF this] False show ?thesis
      using assms by (subst to_digits.simps) (auto simp: all_digits_def intro!: exI [of _ "n mod base"] order.strict_trans2 [of "n mod base" base 16])
  qed
qed

lemma digits_value_to_digits:
  assumes "2 \<le> base" and "base \<le> 16"
  shows "digits_value base 0 (to_digits base n) = n"
proof (induction n rule: less_induct)
  case (less n)
  show ?case
  proof (cases "n < base")
    case True
    then show ?thesis using assms by (subst to_digits.simps) simp
  next
    case False
    then have "n div base < n" using assms by (intro div_less_dividend) auto
    from less [OF this] False show ?thesis
      using assms by (subst to_digits.simps)
        (simp add: digits_value_append order.strict_trans2 [of "n mod base" base 16])
  qed
qed

lemma to_digits_nonempty [simp]: "to_digits base n \<noteq> []"
  by (subst to_digits.simps) simp

lemma length_to_digits:
  assumes "2 \<le> base" and "0 < w" and "n < base ^ w"
  shows "length (to_digits base n) \<le> w"
  using assms(2,3)
proof (induction w arbitrary: n)
  case 0
  then show ?case by simp
next
  case (Suc w)
  show ?case
  proof (cases "n < base")
    case True
    then show ?thesis by (subst to_digits.simps) simp
  next
    case False
    then have w: "0 < w" using Suc.prems by (cases w) auto
    have "n div base < base ^ w" using Suc.prems assms(1)
      by (simp add: less_mult_imp_div_less mult.commute)
    from Suc.IH [OF w this] False assms(1) show ?thesis
      by (subst to_digits.simps) simp
  qed
qed

lemma zero_digit_char: "CHR ''0'' = digit_char 0"
  by (simp add: pyord_inj [symmetric] pyord_digit_char) (simp add: pyord_def)

lemma all_digits_zfill:
  "0 < base \<Longrightarrow> all_digits base s \<Longrightarrow> all_digits base (zfill w s)"
  by (auto simp: all_digits_def zfill_def zero_digit_char list_all_iff)

lemma digits_value_zeros: "digits_value base 0 (replicate k (CHR ''0'') @ s) = digits_value base 0 s"
  by (induction k) (simp_all add: zero_digit_char)

lemma length_zfill [simp]: "length (zfill w s) = max w (length s)"
  by (simp add: zfill_def)

lemma length_fmt_dec: "0 < w \<Longrightarrow> n < 10 ^ w \<Longrightarrow> length (fmt_dec w (int n)) = w"
  using length_to_digits [of 10 w n] by (simp add: fmt_dec_def)

lemma length_fmt_hex2: "n < 256 \<Longrightarrow> length (fmt_hex2 n) = 2"
  using length_to_digits [of 16 2 n] by (simp add: fmt_hex2_def)

lemma all_digits_fmt_dec: "all_digits 10 (fmt_dec w (int n))"
  by (simp add: fmt_dec_def all_digits_zfill all_digits_to_digits)

lemma all_digits_fmt_hex2: "all_digits 16 (fmt_hex2 n)"
  by (simp add: fmt_hex2_def all_digits_zfill all_digits_to_digits)

lemma parse_int_fmt_dec [simp]: "parse_int 10 (fmt_dec w (int n)) = Some (int n)"
proof -
  have "fmt_dec w (int n) \<noteq> []" by (simp add: fmt_dec_def zfill_def)
  then show ?thesis
    by (simp add: parse_int_all_digits all_digits_fmt_dec)
       (simp add: fmt_dec_def zfill_def digits_value_zeros digits_value_to_digits)
qed

lemma parse_int_fmt_hex2 [simp]: "parse_int 16 (fmt_hex2 n) = Some (int n)"
proof -
  have "fmt_hex2 n \<noteq> []" by (simp add: fmt_hex2_def zfill_def)
  then show ?thesis
    by (simp add: parse_int_all_digits all_digits_fmt_hex2)
       (simp add: fmt_hex2_def zfill_def digits_value_zeros digits_value_to_digits)
qed

lemma py_int_fmt_dec [simp]: "py_int 10 (fmt_dec w (int n)) = Inr (int n)"
  by (simp add: py_int_def)

lemma py_int_fmt_hex2 [simp]: "py_int 16 (fmt_hex2 n) = Inr (int n)"
  by (simp add: py_int_def)

lemma py_int_digit:
  assumes "d < base" and "base \<le> 16"
  shows "py_int base [digit_char d] = Inr (int d)"
proof -
  have d: "d < 16" using assms by linarith
  then have "all_digits base [digit_char d]" using assms(1) by (auto simp: all_digits_def)
  then show ?thesis using parse_int_all_digits [of base "[digit_char d]"] d by (simp add: py_int_def)
qed

lemma digit_chars:
  "digit_char 0 = CHR ''0''" "digit_char 1 = CHR ''1''" "digit_char (Suc 0) = CHR ''1''" "digit_char 2 = CHR ''2''"
  "digit_char 3 = CHR ''3''" "digit_char 4 = CHR ''4''" "digit_char 5 = CHR ''5''" "digit_char 6 = CHR ''6''"
  "digit_char 7 = CHR ''7''" "digit_char 8 = CHR ''8''" "digit_char 9 = CHR ''9''"
  by code_simp+

lemma py_int_error: "py_int b s = Inl e \<Longrightarrow> e = ValueError"
  by (simp add: py_int_def)

section \<open>Statements\<close>

text \<open>
  A Python statement over a state \<open>'s\<close>: it returns the state it leaves and the error it stopped
  with, if any. The state is kept on an error, so the effects a handler had before it raised are
  visible.
\<close>

type_synonym 's stmt = "'s \<Rightarrow> 's \<times> py_error option"

definition skip :: "'s stmt" where
  "skip s = (s, None)"

definition raise_with :: "py_error \<Rightarrow> 's stmt" where
  "raise_with e s = (s, Some e)"

definition update_st :: "('s \<Rightarrow> 's) \<Rightarrow> 's stmt" where
  "update_st f s = (f s, None)"

definition and_then :: "'s stmt \<Rightarrow> 's stmt \<Rightarrow> 's stmt" where
  "and_then a b s = (case a s of (s', None) \<Rightarrow> b s' | (s', Some e) \<Rightarrow> (s', Some e))"

definition when_st :: "('s \<Rightarrow> bool) \<Rightarrow> 's stmt \<Rightarrow> 's stmt" where
  "when_st p a s = (if p s then a s else (s, None))"

fun seq :: "'s stmt list \<Rightarrow> 's stmt" where
  "seq [] s = (s, None)"
| "seq (a # as) s = (case a s of (s', None) \<Rightarrow> seq as s' | (s', Some e) \<Rightarrow> (s', Some e))"

fun for_each :: "'i list \<Rightarrow> ('i \<Rightarrow> 's stmt) \<Rightarrow> 's stmt" where
  "for_each [] f s = (s, None)"
| "for_each (i # is) f s = (case f i s of (s', None) \<Rightarrow> for_each is f s' | (s', Some e) \<Rightarrow> (s', Some e))"

text \<open>Evaluate an expression that may raise, then continue with its value.\<close>

definition eval_then :: "('s \<Rightarrow> 'a result) \<Rightarrow> ('a \<Rightarrow> 's stmt) \<Rightarrow> 's stmt" where
  "eval_then e k s = (case e s of Inl x \<Rightarrow> (s, Some x) | Inr v \<Rightarrow> k v s)"

text \<open>A statement keeps a predicate whether it ends normally or raises.\<close>

definition keeps :: "('s \<Rightarrow> bool) \<Rightarrow> 's stmt \<Rightarrow> bool" where
  "keeps P a = (\<forall>s. P s \<longrightarrow> P (fst (a s)))"

lemma keepsI: "(\<And>s. P s \<Longrightarrow> P (fst (a s))) \<Longrightarrow> keeps P a"
  by (simp add: keeps_def)

lemma keepsD: "keeps P a \<Longrightarrow> P s \<Longrightarrow> P (fst (a s))"
  by (simp add: keeps_def)

lemma keeps_skip [stmt_intros]: "keeps P skip"
  by (simp add: keeps_def skip_def)

lemma keeps_raise [stmt_intros]: "keeps P (raise_with e)"
  by (simp add: keeps_def raise_with_def)

lemma keeps_do: "(\<And>s. P s \<Longrightarrow> P (f s)) \<Longrightarrow> keeps P (update_st f)"
  by (simp add: keeps_def update_st_def)

lemma keeps_then [stmt_intros]: "keeps P a \<Longrightarrow> keeps P b \<Longrightarrow> keeps P (and_then a b)"
  by (fastforce simp: keeps_def and_then_def split: prod.splits option.splits)

lemma keeps_when [stmt_intros]: "keeps P a \<Longrightarrow> keeps P (when_st p a)"
  by (simp add: keeps_def when_st_def)

lemma keeps_seq [stmt_intros]: "(\<And>a. a \<in> set as \<Longrightarrow> keeps P a) \<Longrightarrow> keeps P (seq as)"
proof (induction as)
  case Nil
  then show ?case by (simp add: keeps_def)
next
  case (Cons a as)
  then have "keeps P a" "keeps P (seq as)" by auto
  then show ?case by (fastforce simp: keeps_def split: prod.splits option.splits)
qed

lemma keeps_for [stmt_intros]: "(\<And>i. i \<in> set is \<Longrightarrow> keeps P (f i)) \<Longrightarrow> keeps P (for_each is f)"
proof (induction "is")
  case Nil
  then show ?case by (simp add: keeps_def)
next
  case (Cons i "is")
  then have "keeps P (f i)" "keeps P (for_each is f)" by auto
  then show ?case by (fastforce simp: keeps_def split: prod.splits option.splits)
qed

lemma keeps_eval [stmt_intros]: "(\<And>v. keeps P (k v)) \<Longrightarrow> keeps P (eval_then e k)"
  by (auto simp: keeps_def eval_then_def split: sum.splits)

lemma keeps_if [stmt_intros]: "keeps P a \<Longrightarrow> keeps P b \<Longrightarrow> keeps P (if c then a else b)"
  by simp

end
