(* ===== verification/Elk_Const.thy ===== *)
theory Elk_Const
  imports Elk_Prelude
begin

text \<open>
  \<open>helpers/elk/const.py\<close>: the protocol's enumerations and sizes. Each enumeration is a datatype
  with its wire value; \<open>Enum(value)\<close>, the look-up every decoder uses, is \<open>enum_lookup\<close> over the
  members in declaration order. The locale \<open>wire_enum\<close> states what the decoders rely on (the list
  holds every member, no two members share a value) and is interpreted for every enumeration.
\<close>

section \<open>The look-up of an enumeration\<close>

definition enum_lookup :: "'e list \<Rightarrow> ('e \<Rightarrow> 'v) \<Rightarrow> 'v \<Rightarrow> 'e result" where
  "enum_lookup members val v = of_option ValueError (find (\<lambda>e. val e = v) members)"

lemma enum_lookup_error: "enum_lookup ms val v = Inl e \<Longrightarrow> e = ValueError"
  by (simp add: enum_lookup_def)

locale wire_enum =
  fixes members :: "'e list" and val :: "'e \<Rightarrow> 'v"
  assumes complete: "e \<in> set members"
    and distinct_values: "val e = val e' \<Longrightarrow> e = e'"
begin

lemma lookup_iff: "enum_lookup members val v = Inr e \<longleftrightarrow> val e = v"
proof
  assume "enum_lookup members val v = Inr e"
  then show "val e = v" by (auto simp: enum_lookup_def find_Some_iff)
next
  assume v: "val e = v"
  then have "find (\<lambda>e. val e = v) members \<noteq> None"
    using complete by (auto simp: find_None_iff)
  then obtain e' where f: "find (\<lambda>e. val e = v) members = Some e'" by auto
  then have "val e' = v" by (auto simp: find_Some_iff)
  with v have "e' = e" by (auto intro: distinct_values)
  with f show "enum_lookup members val v = Inr e" by (simp add: enum_lookup_def)
qed

lemma lookup_value [simp]: "enum_lookup members val (val e) = Inr e"
  by (simp add: lookup_iff)

lemma lookup_total: "(\<exists>e. enum_lookup members val v = Inr e) \<longleftrightarrow> v \<in> range val"
  by (auto simp: lookup_iff)

lemma mapr_lookup_value: "mapr (enum_lookup members val) (map val es) = Inr es"
  by (induction es) auto

end

lemma wire_enumI:
  assumes "\<And>e. e \<in> set ms" and "distinct (map val ms)"
  shows "wire_enum ms val"
proof
  show "e \<in> set ms" for e by (rule assms(1))
  show "e = e'" if "val e = val e'" for e e'
    using assms that by (auto simp: distinct_map inj_on_def)
qed

section \<open>Sizes\<close>

text \<open>\<open>Max\<close>: the number of elements of each collection.\<close>

definition MAX_AREAS :: nat where "MAX_AREAS = 8"

definition MAX_COUNTERS :: nat where "MAX_COUNTERS = 64"

definition MAX_KEYPADS :: nat where "MAX_KEYPADS = 16"

definition MAX_OUTPUTS :: nat where "MAX_OUTPUTS = 208"

definition MAX_SETTINGS :: nat where "MAX_SETTINGS = 20"

definition MAX_TASKS :: nat where "MAX_TASKS = 32"

definition MAX_THERMOSTATS :: nat where "MAX_THERMOSTATS = 16"

definition MAX_USERS :: nat where "MAX_USERS = 203"

definition MAX_LIGHTS :: nat where "MAX_LIGHTS = 256"

definition MAX_ZONES :: nat where "MAX_ZONES = 208"

definition MAX_ZONE_TEMPS :: nat where "MAX_ZONE_TEMPS = 16"

lemmas max_defs = MAX_AREAS_def
  MAX_COUNTERS_def
  MAX_KEYPADS_def
  MAX_OUTPUTS_def
  MAX_SETTINGS_def
  MAX_TASKS_def
  MAX_THERMOSTATS_def
  MAX_USERS_def
  MAX_LIGHTS_def
  MAX_ZONES_def
  MAX_ZONE_TEMPS_def

section \<open>Enumerations\<close>

text \<open>\<open>ZoneType\<close>.\<close>

datatype zone_type =
    ZT_DISABLED
  | ZT_BURGLAR_ENTRY_EXIT_1
  | ZT_BURGLAR_ENTRY_EXIT_2
  | ZT_BURGLAR_PERIMETER_INSTANT
  | ZT_BURGLAR_INTERIOR
  | ZT_BURGLAR_INTERIOR_FOLLOWER
  | ZT_BURGLAR_INTERIOR_NIGHT
  | ZT_BURGLAR_INTERIOR_NIGHT_DELAY
  | ZT_BURGLAR24_HOUR
  | ZT_BURGLAR_BOX_TAMPER
  | ZT_FIRE_ALARM
  | ZT_FIRE_VERIFIED
  | ZT_FIRE_SUPERVISORY
  | ZT_AUX_ALARM_1
  | ZT_AUX_ALARM_2
  | ZT_KEYFOB
  | ZT_NON_ALARM
  | ZT_CARBON_MONOXIDE
  | ZT_EMERGENCY_ALARM
  | ZT_FREEZE_ALARM
  | ZT_GAS_ALARM
  | ZT_HEAT_ALARM
  | ZT_MEDICAL_ALARM
  | ZT_POLICE_ALARM
  | ZT_POLICE_NO_INDICATION
  | ZT_WATER_ALARM
  | ZT_KEY_MOMENTARY_ARM_DISARM
  | ZT_KEY_MOMENTARY_ARM_AWAY
  | ZT_KEY_MOMENTARY_ARM_STAY
  | ZT_KEY_MOMENTARY_DISARM
  | ZT_KEY_ON_OFF
  | ZT_MUTE_AUDIBLES
  | ZT_POWER_SUPERVISORY
  | ZT_TEMPERATURE
  | ZT_ANALOG_ZONE
  | ZT_PHONE_KEY
  | ZT_INTERCOM_KEY

primrec zone_type_value :: "zone_type \<Rightarrow> int" where
    "zone_type_value ZT_DISABLED = 0"
  | "zone_type_value ZT_BURGLAR_ENTRY_EXIT_1 = 1"
  | "zone_type_value ZT_BURGLAR_ENTRY_EXIT_2 = 2"
  | "zone_type_value ZT_BURGLAR_PERIMETER_INSTANT = 3"
  | "zone_type_value ZT_BURGLAR_INTERIOR = 4"
  | "zone_type_value ZT_BURGLAR_INTERIOR_FOLLOWER = 5"
  | "zone_type_value ZT_BURGLAR_INTERIOR_NIGHT = 6"
  | "zone_type_value ZT_BURGLAR_INTERIOR_NIGHT_DELAY = 7"
  | "zone_type_value ZT_BURGLAR24_HOUR = 8"
  | "zone_type_value ZT_BURGLAR_BOX_TAMPER = 9"
  | "zone_type_value ZT_FIRE_ALARM = 10"
  | "zone_type_value ZT_FIRE_VERIFIED = 11"
  | "zone_type_value ZT_FIRE_SUPERVISORY = 12"
  | "zone_type_value ZT_AUX_ALARM_1 = 13"
  | "zone_type_value ZT_AUX_ALARM_2 = 14"
  | "zone_type_value ZT_KEYFOB = 15"
  | "zone_type_value ZT_NON_ALARM = 16"
  | "zone_type_value ZT_CARBON_MONOXIDE = 17"
  | "zone_type_value ZT_EMERGENCY_ALARM = 18"
  | "zone_type_value ZT_FREEZE_ALARM = 19"
  | "zone_type_value ZT_GAS_ALARM = 20"
  | "zone_type_value ZT_HEAT_ALARM = 21"
  | "zone_type_value ZT_MEDICAL_ALARM = 22"
  | "zone_type_value ZT_POLICE_ALARM = 23"
  | "zone_type_value ZT_POLICE_NO_INDICATION = 24"
  | "zone_type_value ZT_WATER_ALARM = 25"
  | "zone_type_value ZT_KEY_MOMENTARY_ARM_DISARM = 26"
  | "zone_type_value ZT_KEY_MOMENTARY_ARM_AWAY = 27"
  | "zone_type_value ZT_KEY_MOMENTARY_ARM_STAY = 28"
  | "zone_type_value ZT_KEY_MOMENTARY_DISARM = 29"
  | "zone_type_value ZT_KEY_ON_OFF = 30"
  | "zone_type_value ZT_MUTE_AUDIBLES = 31"
  | "zone_type_value ZT_POWER_SUPERVISORY = 32"
  | "zone_type_value ZT_TEMPERATURE = 33"
  | "zone_type_value ZT_ANALOG_ZONE = 34"
  | "zone_type_value ZT_PHONE_KEY = 35"
  | "zone_type_value ZT_INTERCOM_KEY = 36"

definition zone_type_members :: "zone_type list" where
  "zone_type_members =
     [ZT_DISABLED, ZT_BURGLAR_ENTRY_EXIT_1, ZT_BURGLAR_ENTRY_EXIT_2,
      ZT_BURGLAR_PERIMETER_INSTANT, ZT_BURGLAR_INTERIOR, ZT_BURGLAR_INTERIOR_FOLLOWER,
      ZT_BURGLAR_INTERIOR_NIGHT, ZT_BURGLAR_INTERIOR_NIGHT_DELAY, ZT_BURGLAR24_HOUR,
      ZT_BURGLAR_BOX_TAMPER, ZT_FIRE_ALARM, ZT_FIRE_VERIFIED, ZT_FIRE_SUPERVISORY,
      ZT_AUX_ALARM_1, ZT_AUX_ALARM_2, ZT_KEYFOB, ZT_NON_ALARM, ZT_CARBON_MONOXIDE,
      ZT_EMERGENCY_ALARM, ZT_FREEZE_ALARM, ZT_GAS_ALARM, ZT_HEAT_ALARM, ZT_MEDICAL_ALARM,
      ZT_POLICE_ALARM, ZT_POLICE_NO_INDICATION, ZT_WATER_ALARM,
      ZT_KEY_MOMENTARY_ARM_DISARM, ZT_KEY_MOMENTARY_ARM_AWAY, ZT_KEY_MOMENTARY_ARM_STAY,
      ZT_KEY_MOMENTARY_DISARM, ZT_KEY_ON_OFF, ZT_MUTE_AUDIBLES, ZT_POWER_SUPERVISORY,
      ZT_TEMPERATURE, ZT_ANALOG_ZONE, ZT_PHONE_KEY, ZT_INTERCOM_KEY]"

interpretation zone_type_enum: wire_enum zone_type_members zone_type_value
proof (rule wire_enumI)
  show "e \<in> set zone_type_members" for e by (cases e) (simp_all add: zone_type_members_def)
  show "distinct (map zone_type_value zone_type_members)" by (simp add: zone_type_members_def)
qed

text \<open>\<open>ZonePhysicalStatus\<close>.\<close>

datatype zone_physical_status =
    ZP_UNCONFIGURED
  | ZP_OPEN
  | ZP_EOL
  | ZP_SHORT

primrec zone_physical_status_value :: "zone_physical_status \<Rightarrow> int" where
    "zone_physical_status_value ZP_UNCONFIGURED = 0"
  | "zone_physical_status_value ZP_OPEN = 1"
  | "zone_physical_status_value ZP_EOL = 2"
  | "zone_physical_status_value ZP_SHORT = 3"

definition zone_physical_status_members :: "zone_physical_status list" where
  "zone_physical_status_members =
     [ZP_UNCONFIGURED, ZP_OPEN, ZP_EOL, ZP_SHORT]"

interpretation zone_physical_status_enum: wire_enum zone_physical_status_members zone_physical_status_value
proof (rule wire_enumI)
  show "e \<in> set zone_physical_status_members" for e by (cases e) (simp_all add: zone_physical_status_members_def)
  show "distinct (map zone_physical_status_value zone_physical_status_members)" by (simp add: zone_physical_status_members_def)
qed

text \<open>\<open>ZoneLogicalStatus\<close>.\<close>

datatype zone_logical_status =
    ZL_NORMAL
  | ZL_TROUBLED
  | ZL_VIOLATED
  | ZL_BYPASSED

primrec zone_logical_status_value :: "zone_logical_status \<Rightarrow> int" where
    "zone_logical_status_value ZL_NORMAL = 0"
  | "zone_logical_status_value ZL_TROUBLED = 1"
  | "zone_logical_status_value ZL_VIOLATED = 2"
  | "zone_logical_status_value ZL_BYPASSED = 3"

definition zone_logical_status_members :: "zone_logical_status list" where
  "zone_logical_status_members =
     [ZL_NORMAL, ZL_TROUBLED, ZL_VIOLATED, ZL_BYPASSED]"

interpretation zone_logical_status_enum: wire_enum zone_logical_status_members zone_logical_status_value
proof (rule wire_enumI)
  show "e \<in> set zone_logical_status_members" for e by (cases e) (simp_all add: zone_logical_status_members_def)
  show "distinct (map zone_logical_status_value zone_logical_status_members)" by (simp add: zone_logical_status_members_def)
qed

text \<open>\<open>ArmedStatus\<close>.\<close>

datatype armed_status =
    Armed_DISARMED
  | Armed_ARMED_AWAY
  | Armed_ARMED_STAY
  | Armed_ARMED_STAY_INSTANT
  | Armed_ARMED_TO_NIGHT
  | Armed_ARMED_TO_NIGHT_INSTANT
  | Armed_ARMED_TO_VACATION

primrec armed_status_value :: "armed_status \<Rightarrow> char" where
    "armed_status_value Armed_DISARMED = CHR ''0''"
  | "armed_status_value Armed_ARMED_AWAY = CHR ''1''"
  | "armed_status_value Armed_ARMED_STAY = CHR ''2''"
  | "armed_status_value Armed_ARMED_STAY_INSTANT = CHR ''3''"
  | "armed_status_value Armed_ARMED_TO_NIGHT = CHR ''4''"
  | "armed_status_value Armed_ARMED_TO_NIGHT_INSTANT = CHR ''5''"
  | "armed_status_value Armed_ARMED_TO_VACATION = CHR ''6''"

definition armed_status_members :: "armed_status list" where
  "armed_status_members =
     [Armed_DISARMED, Armed_ARMED_AWAY, Armed_ARMED_STAY, Armed_ARMED_STAY_INSTANT,
      Armed_ARMED_TO_NIGHT, Armed_ARMED_TO_NIGHT_INSTANT, Armed_ARMED_TO_VACATION]"

interpretation armed_status_enum: wire_enum armed_status_members armed_status_value
proof (rule wire_enumI)
  show "e \<in> set armed_status_members" for e by (cases e) (simp_all add: armed_status_members_def)
  show "distinct (map armed_status_value armed_status_members)" by (simp add: armed_status_members_def)
qed

text \<open>\<open>ArmUpState\<close>.\<close>

datatype arm_up_state =
    ArmUp_NOT_READY_TO_ARM
  | ArmUp_READY_TO_ARM
  | ArmUp_CAN_BE_FORCE_ARMED
  | ArmUp_ARMED_AND_EXIT_TIMER_RUNNING
  | ArmUp_FULLY_ARMED
  | ArmUp_FORCE_ARMED
  | ArmUp_ARMED_WITH_BYPASS

primrec arm_up_state_value :: "arm_up_state \<Rightarrow> char" where
    "arm_up_state_value ArmUp_NOT_READY_TO_ARM = CHR ''0''"
  | "arm_up_state_value ArmUp_READY_TO_ARM = CHR ''1''"
  | "arm_up_state_value ArmUp_CAN_BE_FORCE_ARMED = CHR ''2''"
  | "arm_up_state_value ArmUp_ARMED_AND_EXIT_TIMER_RUNNING = CHR ''3''"
  | "arm_up_state_value ArmUp_FULLY_ARMED = CHR ''4''"
  | "arm_up_state_value ArmUp_FORCE_ARMED = CHR ''5''"
  | "arm_up_state_value ArmUp_ARMED_WITH_BYPASS = CHR ''6''"

definition arm_up_state_members :: "arm_up_state list" where
  "arm_up_state_members =
     [ArmUp_NOT_READY_TO_ARM, ArmUp_READY_TO_ARM, ArmUp_CAN_BE_FORCE_ARMED,
      ArmUp_ARMED_AND_EXIT_TIMER_RUNNING, ArmUp_FULLY_ARMED, ArmUp_FORCE_ARMED,
      ArmUp_ARMED_WITH_BYPASS]"

interpretation arm_up_state_enum: wire_enum arm_up_state_members arm_up_state_value
proof (rule wire_enumI)
  show "e \<in> set arm_up_state_members" for e by (cases e) (simp_all add: arm_up_state_members_def)
  show "distinct (map arm_up_state_value arm_up_state_members)" by (simp add: arm_up_state_members_def)
qed

text \<open>\<open>AlarmState\<close>.\<close>

datatype alarm_state =
    Alarm_NO_ALARM_ACTIVE
  | Alarm_ENTRANCE_DELAY_ACTIVE
  | Alarm_ALARM_ABORT_DELAY_ACTIVE
  | Alarm_FIRE_ALARM
  | Alarm_MEDICAL_ALARM
  | Alarm_POLICE_ALARM
  | Alarm_BURGLAR_ALARM
  | Alarm_AUX_1_ALARM
  | Alarm_AUX_2_ALARM
  | Alarm_AUX_3_ALARM
  | Alarm_AUX_4_ALARM
  | Alarm_CARBON_MONOXIDE_ALARM
  | Alarm_EMERGENCY_ALARM
  | Alarm_FREEZE_ALARM
  | Alarm_GAS_ALARM
  | Alarm_HEAT_ALARM
  | Alarm_WATER_ALARM
  | Alarm_FIRE_SUPERVISORY
  | Alarm_VERIFY_FIRE
  | Alarm_UNSUPERVISED_ZONE_TROUBLE

primrec alarm_state_value :: "alarm_state \<Rightarrow> char" where
    "alarm_state_value Alarm_NO_ALARM_ACTIVE = CHR ''0''"
  | "alarm_state_value Alarm_ENTRANCE_DELAY_ACTIVE = CHR ''1''"
  | "alarm_state_value Alarm_ALARM_ABORT_DELAY_ACTIVE = CHR ''2''"
  | "alarm_state_value Alarm_FIRE_ALARM = CHR ''3''"
  | "alarm_state_value Alarm_MEDICAL_ALARM = CHR ''4''"
  | "alarm_state_value Alarm_POLICE_ALARM = CHR ''5''"
  | "alarm_state_value Alarm_BURGLAR_ALARM = CHR ''6''"
  | "alarm_state_value Alarm_AUX_1_ALARM = CHR ''7''"
  | "alarm_state_value Alarm_AUX_2_ALARM = CHR ''8''"
  | "alarm_state_value Alarm_AUX_3_ALARM = CHR ''9''"
  | "alarm_state_value Alarm_AUX_4_ALARM = CHR '':''"
  | "alarm_state_value Alarm_CARBON_MONOXIDE_ALARM = CHR '';''"
  | "alarm_state_value Alarm_EMERGENCY_ALARM = CHR ''<''"
  | "alarm_state_value Alarm_FREEZE_ALARM = CHR ''=''"
  | "alarm_state_value Alarm_GAS_ALARM = CHR ''>''"
  | "alarm_state_value Alarm_HEAT_ALARM = CHR ''?''"
  | "alarm_state_value Alarm_WATER_ALARM = CHR ''@''"
  | "alarm_state_value Alarm_FIRE_SUPERVISORY = CHR ''A''"
  | "alarm_state_value Alarm_VERIFY_FIRE = CHR ''B''"
  | "alarm_state_value Alarm_UNSUPERVISED_ZONE_TROUBLE = CHR ''U''"

definition alarm_state_members :: "alarm_state list" where
  "alarm_state_members =
     [Alarm_NO_ALARM_ACTIVE, Alarm_ENTRANCE_DELAY_ACTIVE, Alarm_ALARM_ABORT_DELAY_ACTIVE,
      Alarm_FIRE_ALARM, Alarm_MEDICAL_ALARM, Alarm_POLICE_ALARM, Alarm_BURGLAR_ALARM,
      Alarm_AUX_1_ALARM, Alarm_AUX_2_ALARM, Alarm_AUX_3_ALARM, Alarm_AUX_4_ALARM,
      Alarm_CARBON_MONOXIDE_ALARM, Alarm_EMERGENCY_ALARM, Alarm_FREEZE_ALARM,
      Alarm_GAS_ALARM, Alarm_HEAT_ALARM, Alarm_WATER_ALARM, Alarm_FIRE_SUPERVISORY,
      Alarm_VERIFY_FIRE, Alarm_UNSUPERVISED_ZONE_TROUBLE]"

interpretation alarm_state_enum: wire_enum alarm_state_members alarm_state_value
proof (rule wire_enumI)
  show "e \<in> set alarm_state_members" for e by (cases e) (simp_all add: alarm_state_members_def)
  show "distinct (map alarm_state_value alarm_state_members)" by (simp add: alarm_state_members_def)
qed

text \<open>\<open>ArmLevel\<close>.\<close>

datatype arm_level =
    Level_DISARM
  | Level_ARMED_AWAY
  | Level_ARMED_STAY
  | Level_ARMED_STAY_INSTANT
  | Level_ARMED_NIGHT
  | Level_ARMED_NIGHT_INSTANT
  | Level_ARMED_VACATION
  | Level_ARM_TO_NEXT_AWAY_MODE
  | Level_ARM_TO_NEXT_STAY_MODE
  | Level_FORCE_ARM_TO_AWAY_MODE
  | Level_FORCE_ARM_TO_STAY_MODE

primrec arm_level_value :: "arm_level \<Rightarrow> char" where
    "arm_level_value Level_DISARM = CHR ''0''"
  | "arm_level_value Level_ARMED_AWAY = CHR ''1''"
  | "arm_level_value Level_ARMED_STAY = CHR ''2''"
  | "arm_level_value Level_ARMED_STAY_INSTANT = CHR ''3''"
  | "arm_level_value Level_ARMED_NIGHT = CHR ''4''"
  | "arm_level_value Level_ARMED_NIGHT_INSTANT = CHR ''5''"
  | "arm_level_value Level_ARMED_VACATION = CHR ''6''"
  | "arm_level_value Level_ARM_TO_NEXT_AWAY_MODE = CHR ''7''"
  | "arm_level_value Level_ARM_TO_NEXT_STAY_MODE = CHR ''8''"
  | "arm_level_value Level_FORCE_ARM_TO_AWAY_MODE = CHR ''9''"
  | "arm_level_value Level_FORCE_ARM_TO_STAY_MODE = CHR '':''"

definition arm_level_members :: "arm_level list" where
  "arm_level_members =
     [Level_DISARM, Level_ARMED_AWAY, Level_ARMED_STAY, Level_ARMED_STAY_INSTANT,
      Level_ARMED_NIGHT, Level_ARMED_NIGHT_INSTANT, Level_ARMED_VACATION,
      Level_ARM_TO_NEXT_AWAY_MODE, Level_ARM_TO_NEXT_STAY_MODE,
      Level_FORCE_ARM_TO_AWAY_MODE, Level_FORCE_ARM_TO_STAY_MODE]"

interpretation arm_level_enum: wire_enum arm_level_members arm_level_value
proof (rule wire_enumI)
  show "e \<in> set arm_level_members" for e by (cases e) (simp_all add: arm_level_members_def)
  show "distinct (map arm_level_value arm_level_members)" by (simp add: arm_level_members_def)
qed

text \<open>\<open>ZoneAlarmState\<close>.\<close>

datatype zone_alarm_state =
    ZA_NO_ALARM
  | ZA_BURGLAR_ENTRY_EXIT_1
  | ZA_BURGLAR_ENTRY_EXIT_2
  | ZA_BURGLAR_PERIMETER_INSTANT
  | ZA_BURGLAR_INTERIOR
  | ZA_BURGLAR_INTERIOR_FOLLOWER
  | ZA_BURGLAR_INTERIOR_NIGHT
  | ZA_BURGLAR_INTERIOR_NIGHT_DELAY
  | ZA_BURGLAR_24_HOUR
  | ZA_BURGLAR_BOX_TAMPER
  | ZA_FIRE_ALARM
  | ZA_FIRE_VERIFIED
  | ZA_FIRE_SUPERVISORY
  | ZA_AUX_ALARM_1
  | ZA_AUX_ALARM_2
  | ZA_KEYFOB
  | ZA_NON_ALARM
  | ZA_CARBON_MONOXIDE
  | ZA_EMERGENCY_ALARM
  | ZA_FREEZE_ALARM
  | ZA_GAS_ALARM
  | ZA_HEAT_ALARM
  | ZA_MEDICAL_ALARM
  | ZA_POLICE_ALARM
  | ZA_POLICE_NO_INDICATION
  | ZA_WATER_ALARM

primrec zone_alarm_state_value :: "zone_alarm_state \<Rightarrow> char" where
    "zone_alarm_state_value ZA_NO_ALARM = CHR ''0''"
  | "zone_alarm_state_value ZA_BURGLAR_ENTRY_EXIT_1 = CHR ''1''"
  | "zone_alarm_state_value ZA_BURGLAR_ENTRY_EXIT_2 = CHR ''2''"
  | "zone_alarm_state_value ZA_BURGLAR_PERIMETER_INSTANT = CHR ''3''"
  | "zone_alarm_state_value ZA_BURGLAR_INTERIOR = CHR ''4''"
  | "zone_alarm_state_value ZA_BURGLAR_INTERIOR_FOLLOWER = CHR ''5''"
  | "zone_alarm_state_value ZA_BURGLAR_INTERIOR_NIGHT = CHR ''6''"
  | "zone_alarm_state_value ZA_BURGLAR_INTERIOR_NIGHT_DELAY = CHR ''7''"
  | "zone_alarm_state_value ZA_BURGLAR_24_HOUR = CHR ''8''"
  | "zone_alarm_state_value ZA_BURGLAR_BOX_TAMPER = CHR ''9''"
  | "zone_alarm_state_value ZA_FIRE_ALARM = CHR '':''"
  | "zone_alarm_state_value ZA_FIRE_VERIFIED = CHR '';''"
  | "zone_alarm_state_value ZA_FIRE_SUPERVISORY = CHR ''<''"
  | "zone_alarm_state_value ZA_AUX_ALARM_1 = CHR ''=''"
  | "zone_alarm_state_value ZA_AUX_ALARM_2 = CHR ''>''"
  | "zone_alarm_state_value ZA_KEYFOB = CHR ''?''"
  | "zone_alarm_state_value ZA_NON_ALARM = CHR ''@''"
  | "zone_alarm_state_value ZA_CARBON_MONOXIDE = CHR ''A''"
  | "zone_alarm_state_value ZA_EMERGENCY_ALARM = CHR ''B''"
  | "zone_alarm_state_value ZA_FREEZE_ALARM = CHR ''C''"
  | "zone_alarm_state_value ZA_GAS_ALARM = CHR ''D''"
  | "zone_alarm_state_value ZA_HEAT_ALARM = CHR ''E''"
  | "zone_alarm_state_value ZA_MEDICAL_ALARM = CHR ''F''"
  | "zone_alarm_state_value ZA_POLICE_ALARM = CHR ''G''"
  | "zone_alarm_state_value ZA_POLICE_NO_INDICATION = CHR ''H''"
  | "zone_alarm_state_value ZA_WATER_ALARM = CHR ''I''"

definition zone_alarm_state_members :: "zone_alarm_state list" where
  "zone_alarm_state_members =
     [ZA_NO_ALARM, ZA_BURGLAR_ENTRY_EXIT_1, ZA_BURGLAR_ENTRY_EXIT_2,
      ZA_BURGLAR_PERIMETER_INSTANT, ZA_BURGLAR_INTERIOR, ZA_BURGLAR_INTERIOR_FOLLOWER,
      ZA_BURGLAR_INTERIOR_NIGHT, ZA_BURGLAR_INTERIOR_NIGHT_DELAY, ZA_BURGLAR_24_HOUR,
      ZA_BURGLAR_BOX_TAMPER, ZA_FIRE_ALARM, ZA_FIRE_VERIFIED, ZA_FIRE_SUPERVISORY,
      ZA_AUX_ALARM_1, ZA_AUX_ALARM_2, ZA_KEYFOB, ZA_NON_ALARM, ZA_CARBON_MONOXIDE,
      ZA_EMERGENCY_ALARM, ZA_FREEZE_ALARM, ZA_GAS_ALARM, ZA_HEAT_ALARM, ZA_MEDICAL_ALARM,
      ZA_POLICE_ALARM, ZA_POLICE_NO_INDICATION, ZA_WATER_ALARM]"

interpretation zone_alarm_state_enum: wire_enum zone_alarm_state_members zone_alarm_state_value
proof (rule wire_enumI)
  show "e \<in> set zone_alarm_state_members" for e by (cases e) (simp_all add: zone_alarm_state_members_def)
  show "distinct (map zone_alarm_state_value zone_alarm_state_members)" by (simp add: zone_alarm_state_members_def)
qed

text \<open>\<open>KeypadKeys\<close>: \<open>USER_CODE_ENTERED\<close> is an alias of \<open>NO_KEY\<close>.\<close>

datatype keypad_keys =
    Key_NO_KEY
  | Key_STAR
  | Key_POUND
  | Key_F1
  | Key_F2
  | Key_F3
  | Key_F4
  | Key_STAY
  | Key_EXIT
  | Key_CHIME
  | Key_BYPASS
  | Key_ELK
  | Key_DOWN
  | Key_UP
  | Key_RIGHT
  | Key_LEFT
  | Key_F6
  | Key_F5
  | Key_DATA_KEY_MODE

primrec keypad_keys_value :: "keypad_keys \<Rightarrow> int" where
    "keypad_keys_value Key_NO_KEY = 0"
  | "keypad_keys_value Key_STAR = 11"
  | "keypad_keys_value Key_POUND = 12"
  | "keypad_keys_value Key_F1 = 13"
  | "keypad_keys_value Key_F2 = 14"
  | "keypad_keys_value Key_F3 = 15"
  | "keypad_keys_value Key_F4 = 16"
  | "keypad_keys_value Key_STAY = 17"
  | "keypad_keys_value Key_EXIT = 18"
  | "keypad_keys_value Key_CHIME = 19"
  | "keypad_keys_value Key_BYPASS = 20"
  | "keypad_keys_value Key_ELK = 21"
  | "keypad_keys_value Key_DOWN = 22"
  | "keypad_keys_value Key_UP = 23"
  | "keypad_keys_value Key_RIGHT = 24"
  | "keypad_keys_value Key_LEFT = 25"
  | "keypad_keys_value Key_F6 = 26"
  | "keypad_keys_value Key_F5 = 27"
  | "keypad_keys_value Key_DATA_KEY_MODE = 28"

definition keypad_keys_members :: "keypad_keys list" where
  "keypad_keys_members =
     [Key_NO_KEY, Key_STAR, Key_POUND, Key_F1, Key_F2, Key_F3, Key_F4, Key_STAY,
      Key_EXIT, Key_CHIME, Key_BYPASS, Key_ELK, Key_DOWN, Key_UP, Key_RIGHT, Key_LEFT,
      Key_F6, Key_F5, Key_DATA_KEY_MODE]"

primrec keypad_keys_name :: "keypad_keys \<Rightarrow> string" where
    "keypad_keys_name Key_NO_KEY = ''NO_KEY''"
  | "keypad_keys_name Key_STAR = ''STAR''"
  | "keypad_keys_name Key_POUND = ''POUND''"
  | "keypad_keys_name Key_F1 = ''F1''"
  | "keypad_keys_name Key_F2 = ''F2''"
  | "keypad_keys_name Key_F3 = ''F3''"
  | "keypad_keys_name Key_F4 = ''F4''"
  | "keypad_keys_name Key_STAY = ''STAY''"
  | "keypad_keys_name Key_EXIT = ''EXIT''"
  | "keypad_keys_name Key_CHIME = ''CHIME''"
  | "keypad_keys_name Key_BYPASS = ''BYPASS''"
  | "keypad_keys_name Key_ELK = ''ELK''"
  | "keypad_keys_name Key_DOWN = ''DOWN''"
  | "keypad_keys_name Key_UP = ''UP''"
  | "keypad_keys_name Key_RIGHT = ''RIGHT''"
  | "keypad_keys_name Key_LEFT = ''LEFT''"
  | "keypad_keys_name Key_F6 = ''F6''"
  | "keypad_keys_name Key_F5 = ''F5''"
  | "keypad_keys_name Key_DATA_KEY_MODE = ''DATA_KEY_MODE''"

interpretation keypad_keys_enum: wire_enum keypad_keys_members keypad_keys_value
proof (rule wire_enumI)
  show "e \<in> set keypad_keys_members" for e by (cases e) (simp_all add: keypad_keys_members_def)
  show "distinct (map keypad_keys_value keypad_keys_members)" by (simp add: keypad_keys_members_def)
qed

text \<open>\<open>FunctionKeys\<close>.\<close>

datatype function_keys =
    FKey_FORCE_KF_SYNC
  | FKey_F1
  | FKey_F2
  | FKey_F3
  | FKey_F4
  | FKey_F5
  | FKey_F6
  | FKey_STAR
  | FKey_CHIME

primrec function_keys_value :: "function_keys \<Rightarrow> char" where
    "function_keys_value FKey_FORCE_KF_SYNC = CHR ''0''"
  | "function_keys_value FKey_F1 = CHR ''1''"
  | "function_keys_value FKey_F2 = CHR ''2''"
  | "function_keys_value FKey_F3 = CHR ''3''"
  | "function_keys_value FKey_F4 = CHR ''4''"
  | "function_keys_value FKey_F5 = CHR ''5''"
  | "function_keys_value FKey_F6 = CHR ''6''"
  | "function_keys_value FKey_STAR = CHR ''*''"
  | "function_keys_value FKey_CHIME = CHR ''C''"

definition function_keys_members :: "function_keys list" where
  "function_keys_members =
     [FKey_FORCE_KF_SYNC, FKey_F1, FKey_F2, FKey_F3, FKey_F4, FKey_F5, FKey_F6,
      FKey_STAR, FKey_CHIME]"

primrec function_keys_name :: "function_keys \<Rightarrow> string" where
    "function_keys_name FKey_FORCE_KF_SYNC = ''FORCE_KF_SYNC''"
  | "function_keys_name FKey_F1 = ''F1''"
  | "function_keys_name FKey_F2 = ''F2''"
  | "function_keys_name FKey_F3 = ''F3''"
  | "function_keys_name FKey_F4 = ''F4''"
  | "function_keys_name FKey_F5 = ''F5''"
  | "function_keys_name FKey_F6 = ''F6''"
  | "function_keys_name FKey_STAR = ''STAR''"
  | "function_keys_name FKey_CHIME = ''CHIME''"

interpretation function_keys_enum: wire_enum function_keys_members function_keys_value
proof (rule wire_enumI)
  show "e \<in> set function_keys_members" for e by (cases e) (simp_all add: function_keys_members_def)
  show "distinct (map function_keys_value function_keys_members)" by (simp add: function_keys_members_def)
qed

text \<open>\<open>ChimeMode\<close>.\<close>

datatype chime_mode =
    Chime_OFF
  | Chime_CHIME
  | Chime_VOICE
  | Chime_CHIMEANDVOICE

primrec chime_mode_value :: "chime_mode \<Rightarrow> int" where
    "chime_mode_value Chime_OFF = 0"
  | "chime_mode_value Chime_CHIME = 1"
  | "chime_mode_value Chime_VOICE = 2"
  | "chime_mode_value Chime_CHIMEANDVOICE = 3"

definition chime_mode_members :: "chime_mode list" where
  "chime_mode_members =
     [Chime_OFF, Chime_CHIME, Chime_VOICE, Chime_CHIMEANDVOICE]"

primrec chime_mode_name :: "chime_mode \<Rightarrow> string" where
    "chime_mode_name Chime_OFF = ''OFF''"
  | "chime_mode_name Chime_CHIME = ''CHIME''"
  | "chime_mode_name Chime_VOICE = ''VOICE''"
  | "chime_mode_name Chime_CHIMEANDVOICE = ''CHIMEANDVOICE''"

interpretation chime_mode_enum: wire_enum chime_mode_members chime_mode_value
proof (rule wire_enumI)
  show "e \<in> set chime_mode_members" for e by (cases e) (simp_all add: chime_mode_members_def)
  show "distinct (map chime_mode_value chime_mode_members)" by (simp add: chime_mode_members_def)
qed

text \<open>\<open>ThermostatSetting\<close>.\<close>

datatype thermostat_setting =
    TSet_MODE
  | TSet_HOLD
  | TSet_FAN
  | TSet_GET_TEMPERATURE
  | TSet_COOL_SETPOINT
  | TSet_HEAT_SETPOINT

primrec thermostat_setting_value :: "thermostat_setting \<Rightarrow> int" where
    "thermostat_setting_value TSet_MODE = 0"
  | "thermostat_setting_value TSet_HOLD = 1"
  | "thermostat_setting_value TSet_FAN = 2"
  | "thermostat_setting_value TSet_GET_TEMPERATURE = 3"
  | "thermostat_setting_value TSet_COOL_SETPOINT = 4"
  | "thermostat_setting_value TSet_HEAT_SETPOINT = 5"

definition thermostat_setting_members :: "thermostat_setting list" where
  "thermostat_setting_members =
     [TSet_MODE, TSet_HOLD, TSet_FAN, TSet_GET_TEMPERATURE, TSet_COOL_SETPOINT,
      TSet_HEAT_SETPOINT]"

interpretation thermostat_setting_enum: wire_enum thermostat_setting_members thermostat_setting_value
proof (rule wire_enumI)
  show "e \<in> set thermostat_setting_members" for e by (cases e) (simp_all add: thermostat_setting_members_def)
  show "distinct (map thermostat_setting_value thermostat_setting_members)" by (simp add: thermostat_setting_members_def)
qed

text \<open>\<open>ThermostatMode\<close>.\<close>

datatype thermostat_mode =
    TMode_OFF
  | TMode_HEAT
  | TMode_COOL
  | TMode_AUTO
  | TMode_EMERGENCY_HEAT

primrec thermostat_mode_value :: "thermostat_mode \<Rightarrow> int" where
    "thermostat_mode_value TMode_OFF = 0"
  | "thermostat_mode_value TMode_HEAT = 1"
  | "thermostat_mode_value TMode_COOL = 2"
  | "thermostat_mode_value TMode_AUTO = 3"
  | "thermostat_mode_value TMode_EMERGENCY_HEAT = 4"

definition thermostat_mode_members :: "thermostat_mode list" where
  "thermostat_mode_members =
     [TMode_OFF, TMode_HEAT, TMode_COOL, TMode_AUTO, TMode_EMERGENCY_HEAT]"

interpretation thermostat_mode_enum: wire_enum thermostat_mode_members thermostat_mode_value
proof (rule wire_enumI)
  show "e \<in> set thermostat_mode_members" for e by (cases e) (simp_all add: thermostat_mode_members_def)
  show "distinct (map thermostat_mode_value thermostat_mode_members)" by (simp add: thermostat_mode_members_def)
qed

text \<open>\<open>ThermostatFan\<close>.\<close>

datatype thermostat_fan =
    TFan_AUTO
  | TFan_ON

primrec thermostat_fan_value :: "thermostat_fan \<Rightarrow> int" where
    "thermostat_fan_value TFan_AUTO = 0"
  | "thermostat_fan_value TFan_ON = 1"

definition thermostat_fan_members :: "thermostat_fan list" where
  "thermostat_fan_members =
     [TFan_AUTO, TFan_ON]"

interpretation thermostat_fan_enum: wire_enum thermostat_fan_members thermostat_fan_value
proof (rule wire_enumI)
  show "e \<in> set thermostat_fan_members" for e by (cases e) (simp_all add: thermostat_fan_members_def)
  show "distinct (map thermostat_fan_value thermostat_fan_members)" by (simp add: thermostat_fan_members_def)
qed

text \<open>\<open>SettingFormat\<close>.\<close>

datatype setting_format =
    SFmt_NUMBER
  | SFmt_TIMER
  | SFmt_TIME_OF_DAY

primrec setting_format_value :: "setting_format \<Rightarrow> int" where
    "setting_format_value SFmt_NUMBER = 0"
  | "setting_format_value SFmt_TIMER = 1"
  | "setting_format_value SFmt_TIME_OF_DAY = 2"

definition setting_format_members :: "setting_format list" where
  "setting_format_members =
     [SFmt_NUMBER, SFmt_TIMER, SFmt_TIME_OF_DAY]"

interpretation setting_format_enum: wire_enum setting_format_members setting_format_value
proof (rule wire_enumI)
  show "e \<in> set setting_format_members" for e by (cases e) (simp_all add: setting_format_members_def)
  show "distinct (map setting_format_value setting_format_members)" by (simp add: setting_format_members_def)
qed

text \<open>\<open>ElkRPStatus\<close>.\<close>

datatype elk_rp_status =
    RP_DISCONNECTED
  | RP_CONNECTED
  | RP_INITIALIZING

primrec elk_rp_status_value :: "elk_rp_status \<Rightarrow> int" where
    "elk_rp_status_value RP_DISCONNECTED = 0"
  | "elk_rp_status_value RP_CONNECTED = 1"
  | "elk_rp_status_value RP_INITIALIZING = 2"

definition elk_rp_status_members :: "elk_rp_status list" where
  "elk_rp_status_members =
     [RP_DISCONNECTED, RP_CONNECTED, RP_INITIALIZING]"

interpretation elk_rp_status_enum: wire_enum elk_rp_status_members elk_rp_status_value
proof (rule wire_enumI)
  show "e \<in> set elk_rp_status_members" for e by (cases e) (simp_all add: elk_rp_status_members_def)
  show "distinct (map elk_rp_status_value elk_rp_status_members)" by (simp add: elk_rp_status_members_def)
qed

section \<open>Text descriptions\<close>

text \<open>\<open>TextDescription\<close> and the members of \<open>TextDescriptions\<close>: the type code and the number of names.\<close>

record text_description =
  td_type :: int
  td_count :: int

datatype text_descriptions =
    TD_ZONE
  | TD_AREA
  | TD_USER
  | TD_KEYPAD
  | TD_OUTPUT
  | TD_TASK
  | TD_TELEPHONE
  | TD_LIGHT
  | TD_ALARM_DURATION
  | TD_SETTING
  | TD_COUNTER
  | TD_THERMOSTAT
  | TD_FUNCTION_KEY_1
  | TD_FUNCTION_KEY_2
  | TD_FUNCTION_KEY_3
  | TD_FUNCTION_KEY_4
  | TD_FUNCTION_KEY_5
  | TD_FUNCTION_KEY_6
  | TD_AUDIO_ZONE
  | TD_AUDIO_SOURCE

primrec text_desc_value :: "text_descriptions \<Rightarrow> text_description" where
    "text_desc_value TD_ZONE = \<lparr>td_type = 0, td_count = int MAX_ZONES\<rparr>"
  | "text_desc_value TD_AREA = \<lparr>td_type = 1, td_count = int MAX_AREAS\<rparr>"
  | "text_desc_value TD_USER = \<lparr>td_type = 2, td_count = int MAX_USERS\<rparr>"
  | "text_desc_value TD_KEYPAD = \<lparr>td_type = 3, td_count = int MAX_KEYPADS\<rparr>"
  | "text_desc_value TD_OUTPUT = \<lparr>td_type = 4, td_count = 64\<rparr>"
  | "text_desc_value TD_TASK = \<lparr>td_type = 5, td_count = int MAX_TASKS\<rparr>"
  | "text_desc_value TD_TELEPHONE = \<lparr>td_type = 6, td_count = 0\<rparr>"
  | "text_desc_value TD_LIGHT = \<lparr>td_type = 7, td_count = int MAX_LIGHTS\<rparr>"
  | "text_desc_value TD_ALARM_DURATION = \<lparr>td_type = 8, td_count = 0\<rparr>"
  | "text_desc_value TD_SETTING = \<lparr>td_type = 9, td_count = int MAX_SETTINGS\<rparr>"
  | "text_desc_value TD_COUNTER = \<lparr>td_type = 10, td_count = int MAX_COUNTERS\<rparr>"
  | "text_desc_value TD_THERMOSTAT = \<lparr>td_type = 11, td_count = int MAX_THERMOSTATS\<rparr>"
  | "text_desc_value TD_FUNCTION_KEY_1 = \<lparr>td_type = 12, td_count = 0\<rparr>"
  | "text_desc_value TD_FUNCTION_KEY_2 = \<lparr>td_type = 13, td_count = 0\<rparr>"
  | "text_desc_value TD_FUNCTION_KEY_3 = \<lparr>td_type = 14, td_count = 0\<rparr>"
  | "text_desc_value TD_FUNCTION_KEY_4 = \<lparr>td_type = 15, td_count = 0\<rparr>"
  | "text_desc_value TD_FUNCTION_KEY_5 = \<lparr>td_type = 16, td_count = 0\<rparr>"
  | "text_desc_value TD_FUNCTION_KEY_6 = \<lparr>td_type = 17, td_count = 0\<rparr>"
  | "text_desc_value TD_AUDIO_ZONE = \<lparr>td_type = 18, td_count = 0\<rparr>"
  | "text_desc_value TD_AUDIO_SOURCE = \<lparr>td_type = 19, td_count = 0\<rparr>"

end
