(* ===== verification/Elk_Frame.thy ===== *)
theory Elk_Frame
  imports Elk_Prelude
begin

text \<open>
  Frames of the ASCII protocol: the checksum and the length prefix of \<open>helpers/elk/message.py\<close>
  (\<open>checksum\<close>, \<open>_finalize\<close>, \<open>_is_valid_length_and_checksum\<close>), and the streaming frame extraction
  and the second validator of \<open>helpers/framing.py\<close>. A message is a string of one-byte characters.
\<close>

section \<open>Checksum and length prefix\<close>

text \<open>\<open>sum(ord(c) for c in body)\<close>.\<close>

definition ord_sum :: "string \<Rightarrow> nat" where
  "ord_sum s = sum_list (map pyord s)"

definition checksum :: "string \<Rightarrow> string" where
  "checksum body = (let total = ord_sum body mod 256 in fmt_hex2 (((total XOR 255) + 1) mod 256))"

definition finalize :: "string \<Rightarrow> string" where
  "finalize cmd_and_data =
     (let body_no_len = cmd_and_data @ ''00'';
          len = length body_no_len + 2;
          body = fmt_hex2 len @ body_no_len
      in body @ checksum body)"

text \<open>The verdict of \<open>_is_valid_length_and_checksum\<close>; each rejection is one of its messages.\<close>

datatype validity = Valid | Bad_length | Bad_checksum | Message_invalid

definition is_valid_length_and_checksum :: "string \<Rightarrow> validity" where
  "is_valid_length_and_checksum msg =
     (case py_int 16 (py_slice 0 2 msg) of
        Inl _ \<Rightarrow> Message_invalid
      | Inr n \<Rightarrow>
          if n \<noteq> int (length msg) - 2 then Bad_length
          else (case py_int 16 (take_end 2 msg) of
                  Inl _ \<Rightarrow> Message_invalid
                | Inr check_total \<Rightarrow>
                    if (check_total + int (ord_sum (drop_end 2 msg))) mod 256 \<noteq> 0 then Bad_checksum
                    else Valid))"

text \<open>The same check as \<open>helpers/framing.py\<close> writes it.\<close>

definition has_valid_length_and_checksum :: "string \<Rightarrow> bool" where
  "has_valid_length_and_checksum message =
     (if length message < 6 then False
      else case py_int 16 (py_slice 0 2 message) of
             Inl _ \<Rightarrow> False
           | Inr n \<Rightarrow>
               if n \<noteq> int (length message) - 2 then False
               else case py_int 16 (take_end 2 message) of
                      Inl _ \<Rightarrow> False
                    | Inr check \<Rightarrow> (int (ord_sum (drop_end 2 message)) + check) mod 256 = 0)"

section \<open>Streaming frame extraction\<close>

definition MAX_FRAME_CHARS :: nat where
  "MAX_FRAME_CHARS = 1024"

abbreviation CR :: char where "CR \<equiv> CHR 0x0D"
abbreviation LF :: char where "LF \<equiv> CHR 0x0A"

text \<open>
  The first match of the regular expression \<open>\r\n|\r|\n\<close>: the text before it and the text after
  it.
\<close>

fun next_terminator :: "string \<Rightarrow> (string \<times> string) option" where
  "next_terminator [] = None"
| "next_terminator (c # cs) =
     (if c = CR then Some ([], case cs of d # ds \<Rightarrow> if d = LF then ds else cs | [] \<Rightarrow> [])
      else if c = LF then Some ([], cs)
      else map_option (\<lambda>(before, after). (c # before, after)) (next_terminator cs))"

lemma next_terminator_shorter:
  "next_terminator s = Some (before, after) \<Longrightarrow> length after < length s"
  by (induction s arbitrary: before after) (auto split: if_splits list.splits)

text \<open>The \<open>finditer\<close> loop of \<open>extract_frames\<close>; empty frames are skipped.\<close>

function extract_frames :: "string \<Rightarrow> string list \<times> string" where
  "extract_frames buffer =
     (case next_terminator buffer of
        None \<Rightarrow> ([], buffer)
      | Some (frame, rest) \<Rightarrow>
          (let (frames, remaining) = extract_frames rest
           in (if frame \<noteq> [] then frame # frames else frames, remaining)))"
  by pat_completeness auto
termination
  by (relation "measure length") (auto dest: next_terminator_shorter)

declare extract_frames.simps [simp del]

text \<open>
  The specification: cut at every CR and at every LF, keep the pieces that are not empty; the
  last piece is what remains.
\<close>

definition is_term :: "char \<Rightarrow> bool" where
  "is_term c = (c = CR \<or> c = LF)"

fun pieces :: "string \<Rightarrow> string list" where
  "pieces [] = [[]]"
| "pieces (c # cs) =
     (if is_term c then [] # pieces cs
      else case pieces cs of p # ps \<Rightarrow> (c # p) # ps | [] \<Rightarrow> [])"

definition frames_spec :: "string \<Rightarrow> string list \<times> string" where
  "frames_spec s = (filter (\<lambda>p. p \<noteq> []) (butlast (pieces s)), last (pieces s))"

section \<open>Checksum arithmetic\<close>

lemma ord_sum_append [simp]: "ord_sum (xs @ ys) = ord_sum xs + ord_sum ys"
  by (simp add: ord_sum_def)

lemma ord_sum_Cons [simp]: "ord_sum (c # cs) = pyord c + ord_sum cs"
  by (simp add: ord_sum_def)

lemma ord_sum_Nil [simp]: "ord_sum [] = 0"
  by (simp add: ord_sum_def)

lemma xor_255:
  assumes "t < 256"
  shows "t XOR 255 = 255 - (t :: nat)"
proof -
  have tb: "take_bit 8 (int t) = int t" using assms by (simp add: take_bit_int_eq_self)
  have "int t XOR mask 8 = take_bit 8 (NOT (int t))"
  proof (rule bit_eqI)
    fix n
    have "bit (int t) n \<longleftrightarrow> n < 8 \<and> bit (int t) n" by (subst (1) tb [symmetric]) (simp add: bit_take_bit_iff)
    then show "bit (int t XOR mask 8) n = bit (take_bit 8 (NOT (int t))) n" by (auto simp: bit_simps)
  qed
  also have "\<dots> = mask 8 - int t" using take_bit_not_eq_mask_diff [of 8 "int t"] tb by simp
  finally have "int (t XOR 255) = 255 - int t" by (simp add: of_nat_xor_eq mask_eq_exp_minus_1)
  then show ?thesis by linarith
qed

lemma checksum_value: "checksum body = fmt_hex2 ((256 - ord_sum body mod 256) mod 256)"
proof -
  have t: "ord_sum body mod 256 < 256" by simp
  have "(ord_sum body mod 256 XOR 255) + 1 = 256 - ord_sum body mod 256"
    using t by (simp only: xor_255 [OF t])
  then show ?thesis by (simp only: checksum_def Let_def)
qed

lemma length_checksum [simp]: "length (checksum body) = 2"
  by (simp add: checksum_value length_fmt_hex2)

lemma checksum_cancels: "((256 - n mod 256) mod 256 + n) mod 256 = (0 :: nat)"
  by (metis add.commute le_add_diff_inverse mod_add_left_eq mod_add_right_eq mod_self
      mod_le_divisor zero_less_numeral)

lemma int_checksum_cancels: "(int ((256 - n mod 256) mod 256) + int n) mod 256 = 0"
  using arg_cong [OF checksum_cancels [of n], of int] by (simp only: of_nat_add of_nat_mod of_nat_0) simp

lemma parse_checksum:
  "py_int 16 (checksum body) = Inr (int ((256 - ord_sum body mod 256) mod 256))"
  by (simp add: checksum_value)

lemma length_finalize: "length s \<le> 251 \<Longrightarrow> length (finalize s) = length s + 6"
  by (simp add: finalize_def Let_def length_fmt_hex2)

text \<open>The parts of a finished frame: length, payload, reserved bytes, checksum.\<close>

lemma finalize_parts:
  "finalize s = fmt_hex2 (length s + 4) @ s @ ''00'' @ checksum (fmt_hex2 (length s + 4) @ s @ ''00'')"
  by (simp add: finalize_def Let_def add.commute [of 4] eval_nat_numeral)

lemma is_valid_parts:
  assumes "py_int 16 ll = Inr n" and "length ll = 2" and "py_int 16 cc = Inr k" and "length cc = 2"
  shows "is_valid_length_and_checksum (ll @ mid @ cc) =
     (if n \<noteq> int (length mid) + 2 then Bad_length
      else if (k + int (ord_sum (ll @ mid))) mod 256 \<noteq> 0 then Bad_checksum else Valid)"
proof -
  have "py_slice 0 2 (ll @ mid @ cc) = ll" using assms(2) by (simp add: py_slice_def)
  moreover have "take_end 2 (ll @ mid @ cc) = cc" "drop_end 2 (ll @ mid @ cc) = ll @ mid"
    using take_end_append [of cc 2 "ll @ mid"] drop_end_append [of cc 2 "ll @ mid"] assms(4) by simp_all
  ultimately show ?thesis using assms by (simp add: is_valid_length_and_checksum_def)
qed

lemma finalize_valid:
  assumes "length s \<le> 251"
  shows "is_valid_length_and_checksum (finalize s) = Valid"
proof -
  let ?ll = "fmt_hex2 (length s + 4)" and ?mid = "s @ ''00''"
  have ll: "length ?ll = 2" using assms by (intro length_fmt_hex2) simp
  have "is_valid_length_and_checksum (?ll @ ?mid @ checksum (?ll @ ?mid)) = Valid"
    by (subst is_valid_parts [OF py_int_fmt_hex2 ll parse_checksum length_checksum])
      (simp del: ord_sum_append add: int_checksum_cancels)
  then show ?thesis by (simp add: finalize_parts)
qed

lemma finalize_has_valid:
  assumes "length s \<le> 251"
  shows "has_valid_length_and_checksum (finalize s)"
  using finalize_valid [OF assms] assms
  by (auto simp: has_valid_length_and_checksum_def is_valid_length_and_checksum_def
        length_finalize add.commute split: sum.splits if_splits)

section \<open>Frame extraction\<close>

lemma pieces_nonempty [simp]: "pieces s \<noteq> []"
  by (induction s) (auto split: list.splits)

lemma pieces_append: "pieces (xs @ ys) = butlast (pieces xs) @ pieces (last (pieces xs) @ ys)"
proof (induction xs)
  case Nil
  then show ?case by simp
next
  case (Cons c cs)
  show ?case
  proof (cases "is_term c")
    case True
    then show ?thesis using Cons.IH by simp
  next
    case False
    obtain p ps where p: "pieces cs = p # ps" by (cases "pieces cs") auto
    then show ?thesis using Cons.IH False by (cases ps) (auto split: list.splits)
  qed
qed

lemma next_terminator_None: "next_terminator s = None \<Longrightarrow> pieces s = [s]"
  by (induction s) (auto simp: is_term_def split: if_splits)

lemma next_terminator_Some:
  "next_terminator s = Some (before, after) \<Longrightarrow>
     pieces s = before # pieces after \<or> pieces s = before # [] # pieces after"
proof (induction s arbitrary: before)
  case Nil
  then show ?case by simp
next
  case (Cons c cs)
  show ?case
  proof (cases "is_term c")
    case True
    then show ?thesis using Cons.prems
      by (auto simp: is_term_def split: list.splits if_splits)
  next
    case False
    then obtain b where b: "next_terminator cs = Some (b, after)" "before = c # b"
      using Cons.prems by (auto simp: is_term_def split: if_splits)
    from Cons.IH [OF b(1)] show ?thesis using False b(2) by auto
  qed
qed

lemma extract_frames_eq_spec: "extract_frames s = frames_spec s"
proof (induction s rule: extract_frames.induct)
  case (1 s)
  show ?case
  proof (cases "next_terminator s")
    case None
    then show ?thesis
      by (simp add: extract_frames.simps [of s] frames_spec_def next_terminator_None)
  next
    case (Some fr)
    obtain frame rest where fr: "fr = (frame, rest)" by (cases fr)
    have IH: "extract_frames rest = frames_spec rest" using 1 [OF Some] fr by simp
    from next_terminator_Some [of s frame rest] Some fr show ?thesis
      by (auto simp: extract_frames.simps [of s] IH frames_spec_def)
  qed
qed

lemma frames_spec_append:
  "frames_spec (xs @ ys) =
     (let (f1, r1) = frames_spec xs; (f2, r2) = frames_spec (r1 @ ys) in (f1 @ f2, r2))"
  by (simp add: frames_spec_def pieces_append [of xs ys] butlast_append)

lemma pieces_no_term: "p \<in> set (pieces s) \<Longrightarrow> c \<in> set p \<Longrightarrow> \<not> is_term c"
proof (induction s arbitrary: p)
  case Nil
  then show ?case by simp
next
  case (Cons d ds)
  obtain q qs where q: "pieces ds = q # qs" by (cases "pieces ds") auto
  show ?case
  proof (cases "is_term d")
    case True
    then show ?thesis using Cons by auto
  next
    case False
    then have "p = d # q \<or> p \<in> set qs" using Cons.prems q by auto
    then show ?thesis using Cons.IH [of q] Cons.IH [of p] Cons.prems(2) False q by auto
  qed
qed

lemma pieces_of_line: "(\<And>c. c \<in> set s \<Longrightarrow> \<not> is_term c) \<Longrightarrow> pieces s = [s]"
  by (induction s) auto

section \<open>Error detection\<close>

lemma ord_sum_update:
  assumes "i < length s"
  shows "int (ord_sum (s[i := c])) = int (ord_sum s) + int (pyord c) - int (pyord (s ! i))"
proof -
  have s: "s = take i s @ s ! i # drop (Suc i) s" using assms by (rule id_take_nth_drop)
  have "s[i := c] = take i s @ c # drop (Suc i) s" using assms by (rule upd_conv_take_nth_drop)
  then have "int (ord_sum (s[i := c])) = int (ord_sum (take i s)) + int (pyord c) + int (ord_sum (drop (Suc i) s))"
    by simp
  moreover have "int (ord_sum s) = int (ord_sum (take i s)) + int (pyord (s ! i)) + int (ord_sum (drop (Suc i) s))"
    by (subst s) simp
  ultimately show ?thesis by simp
qed

lemma Valid_cong:
  assumes "is_valid_length_and_checksum m = Valid"
  obtains k where "py_int 16 (take_end 2 m) = Inr k"
    and "(k + int (ord_sum (drop_end 2 m))) mod 256 = 0"
  using assms by (auto simp: is_valid_length_and_checksum_def split: sum.splits if_splits)

lemma ord_diff_mod:
  assumes "c \<noteq> d" and "(k + (a + int (pyord c) - int (pyord d))) mod 256 = 0"
  shows "(k + a) mod 256 \<noteq> 0"
proof
  let ?d = "int (pyord c) - int (pyord d)"
  assume "(k + a) mod 256 = 0"
  then have "256 dvd k + a" by (simp add: mod_eq_0_iff_dvd)
  moreover have "256 dvd (k + a) + ?d" using assms(2) by (simp add: mod_eq_0_iff_dvd algebra_simps)
  ultimately have dv: "256 dvd ?d" using dvd_add_right_iff by blast
  have "?d \<noteq> 0" using assms(1) by (simp add: pyord_inj)
  then have "256 \<le> \<bar>?d\<bar>" using dv dvd_imp_le_int [of ?d 256] by simp
  moreover have "\<bar>?d\<bar> < 256" using pyord_less [of c] pyord_less [of d] by linarith
  ultimately show False by linarith
qed

section \<open>Properties\<close>

text \<open>C1. A frame built by \<open>_finalize\<close> from a payload that fits the two-digit length field is
  accepted by both validators of the code, and both give back the payload's position.\<close>

theorem finalize_accepted:
  assumes "length s \<le> 251"
  shows "is_valid_length_and_checksum (finalize s) = Valid \<and>
    has_valid_length_and_checksum (finalize s) \<and>
    py_slice 2 (length s + 2) (finalize s) = s"
proof (intro conjI)
  show v: "is_valid_length_and_checksum (finalize s) = Valid" by (rule finalize_valid [OF assms])
  show "py_slice 2 (length s + 2) (finalize s) = s"
    using assms by (simp add: finalize_parts py_slice_def length_fmt_hex2)
  show "has_valid_length_and_checksum (finalize s)" by (rule finalize_has_valid [OF assms])
qed

theorem finalize_accepted_witness:
  "is_valid_length_and_checksum (finalize ''vn'') = Valid \<and>
   has_valid_length_and_checksum (finalize ''vn'') \<and> py_slice 2 4 (finalize ''vn'') = ''vn''"
  using finalize_accepted [of "''vn''"] by (simp add: numeral_eq_Suc)

text \<open>The two validators of the code agree: the stricter one of \<open>helpers/framing.py\<close> is the
  one of \<open>message.py\<close> on messages of at least six characters.\<close>

theorem validators_agree:
  "has_valid_length_and_checksum m \<longleftrightarrow> 6 \<le> length m \<and> is_valid_length_and_checksum m = Valid"
  by (auto simp: has_valid_length_and_checksum_def is_valid_length_and_checksum_def add.commute
       split: sum.splits if_splits)

text \<open>C2. Every single-character corruption in front of the checksum field is detected: replacing
  one character of a valid frame by another never gives a valid frame.\<close>

theorem single_char_corruption_detected:
  assumes "is_valid_length_and_checksum m = Valid" and "i < length m - 2" and "c \<noteq> m ! i"
  shows "is_valid_length_and_checksum (m[i := c]) \<noteq> Valid"
proof
  assume v': "is_valid_length_and_checksum (m[i := c]) = Valid"
  obtain k where k: "py_int 16 (take_end 2 m) = Inr k" "(k + int (ord_sum (drop_end 2 m))) mod 256 = 0"
    using Valid_cong [OF assms(1)] .
  obtain k' where k': "py_int 16 (take_end 2 (m[i := c])) = Inr k'"
      "(k' + int (ord_sum (drop_end 2 (m[i := c])))) mod 256 = 0"
    using Valid_cong [OF v'] .
  have t: "take_end 2 (m[i := c]) = take_end 2 m"
    using assms(2) by (simp add: take_end_def drop_update_cancel)
  have d: "drop_end 2 (m[i := c]) = (drop_end 2 m)[i := c]"
    by (simp add: drop_end_def take_update_swap)
  have i: "i < length (drop_end 2 m)" "drop_end 2 m ! i = m ! i"
    using assms(2) by (simp_all add: drop_end_def)
  have "(k + int (ord_sum (drop_end 2 m))) mod 256 \<noteq> 0"
  proof (rule ord_diff_mod)
    show "c \<noteq> m ! i" by (rule assms(3))
    show "(k + (int (ord_sum (drop_end 2 m)) + int (pyord c) - int (pyord (m ! i)))) mod 256 = 0"
      using k k' ord_sum_update [OF i(1), of c] i(2) by (simp add: t d)
  qed
  with k(2) show False by simp
qed

theorem single_char_corruption_detected_witness:
  "is_valid_length_and_checksum ''06vn0056'' = Valid \<and>
   is_valid_length_and_checksum (''06vn0056''[3 := CHR ''m'']) \<noteq> Valid"
proof -
  have v: "is_valid_length_and_checksum ''06vn0056'' = Valid"
    by (simp add: py_simps is_valid_length_and_checksum_def ord_sum_def)
  have "is_valid_length_and_checksum (''06vn0056''[3 := CHR ''m'']) \<noteq> Valid"
    by (rule single_char_corruption_detected [OF v]) simp_all
  with v show ?thesis by (rule conjI)
qed

text \<open>\<open>extract_frames\<close> computes the non-empty pieces between CR and LF characters, whichever
  of the three terminators ends a frame, and leaves the text after the last one.\<close>

theorem extract_frames_correct: "extract_frames s = frames_spec s"
  by (rule extract_frames_eq_spec)

text \<open>Streaming: extracting from a first chunk, and then from what remained joined with the
  next chunk, gives the frames of the whole text, wherever the cut falls (also between a CR and
  its LF).\<close>

theorem extract_frames_streaming:
  "extract_frames (xs @ ys) =
     (let (f1, r1) = extract_frames xs; (f2, r2) = extract_frames (r1 @ ys) in (f1 @ f2, r2))"
  unfolding extract_frames_eq_spec by (rule frames_spec_append)

end
