(* ===== verification/Elk_Decode.thy ===== *)
theory Elk_Decode
  imports Complex_Main Elk_Const Elk_Frame
begin

text \<open>
  The decoders of \<open>helpers/elk/message.py\<close>. A decoder takes the whole frame (length field
  included, as in the code) and returns the payload of its command or the Python exception it
  raises; \<open>decode\<close> is the dispatcher. The dictionary a decoder returns is one constructor of
  \<open>payload\<close>, its fields in the order of the dictionary's keys. The only part of the code that is
  a parameter is \<open>time.mktime\<close>, which reads the time zone of the machine (\<open>ld_decode\<close>).
\<close>

section \<open>Payloads\<close>

type_synonym zone_status = "zone_logical_status \<times> zone_physical_status"

text \<open>One custom value: a time of day is an (hour, minute) pair.\<close>

datatype setting_value = Plain int | Time_of_day int int

record custom_value =
  cvd_index :: int
  cvd_value :: setting_value
  cvd_format :: setting_format

record log_entry =
  le_event :: int
  le_number :: int
  le_index :: int
  le_timestamp :: string

datatype payload =
    P_AM "bool list"
  | P_AS "armed_status list" "arm_up_state list" "alarm_state list" "int option"
  | P_AZ "zone_alarm_state list"
  | P_CR "custom_value list"
  | P_CC int bool
  | P_CS "bool list"
  | P_CV int int
  | P_EE int bool int int armed_status
  | P_IC string int int
  | P_IE
  | P_KA "int list"
  | P_KC int int
  | P_KF int function_keys "chime_mode list"
  | P_LD int log_entry
  | P_LW "int list" "int list"
  | P_PC string int int
  | P_PC_ALL int int
  | P_PS int "int list"
  | P_RP elk_rp_status
  | P_RR string
  | P_SD int int string bool
  | P_SS string
  | P_ST int int int
  | P_TC int
  | P_TI string
  | P_TR int thermostat_mode bool thermostat_fan int int int int
  | P_UA int int string int int string
  | P_VN string string
  | P_XK string
  | P_ZB int bool
  | P_ZC int zone_status
  | P_ZD "zone_type list"
  | P_ZP "int list"
  | P_ZS "zone_status list"
  | P_ZV int rat
  | P_UNKNOWN string string
  | P_LOGIN bool

section \<open>Field access\<close>

text \<open>\<open>int(msg[i:j])\<close>, \<open>int(msg[i:j], 16)\<close> and \<open>int(msg[i])\<close>.\<close>

abbreviation dec_at :: "nat \<Rightarrow> nat \<Rightarrow> string \<Rightarrow> int result" where
  "dec_at i j msg \<equiv> py_int 10 (py_slice i j msg)"

abbreviation hex_at :: "nat \<Rightarrow> nat \<Rightarrow> string \<Rightarrow> int result" where
  "hex_at i j msg \<equiv> py_int 16 (py_slice i j msg)"

abbreviation dec_char :: "nat \<Rightarrow> string \<Rightarrow> int result" where
  "dec_char i msg \<equiv> bindr (item msg i) (\<lambda>c. py_int 10 [c])"

abbreviation is_one :: "char \<Rightarrow> bool" where
  "is_one c \<equiv> c = CHR ''1''"

text \<open>An enumeration over characters applied to a slice of at most one character.\<close>

definition char_enum :: "'e list \<Rightarrow> ('e \<Rightarrow> char) \<Rightarrow> string \<Rightarrow> 'e result" where
  "char_enum members val s = (case s of [c] \<Rightarrow> enum_lookup members val c | _ \<Rightarrow> Inl ValueError)"

definition chk_len :: "string \<Rightarrow> string \<Rightarrow> unit result" where
  "chk_len msg msg_len = (if py_slice 0 2 msg \<noteq> msg_len then Inl ValueError else Inr ())"

definition upper :: "char \<Rightarrow> char" where
  "upper c = (let n = pyord c in if 97 \<le> n \<and> n \<le> 122 then char_of (n - 32) else c)"

definition lower :: "char \<Rightarrow> char" where
  "lower c = (let n = pyord c in if 65 \<le> n \<and> n \<le> 90 then char_of (n + 32) else c)"

text \<open>The character class \<open>\d\<close> (over one-byte characters).\<close>

definition is_digit :: "char \<Rightarrow> bool" where
  "is_digit c = (48 \<le> pyord c \<and> pyord c \<le> 57)"

definition pc_all_decode :: "string \<Rightarrow> payload option" where
  "pc_all_decode msg =
     (if length msg < 9 \<or> py_slice 5 7 msg \<noteq> ''00'' then None
      else let house = upper (msg ! 4)
           in if pyord house < 65 \<or> pyord house > 80 then None
              else case dec_at 7 9 msg of
                     Inl _ \<Rightarrow> None
                   | Inr aggregate_code \<Rightarrow> Some (P_PC_ALL (int (pyord house) - 65) aggregate_code))"

section \<open>Decoders\<close>

definition am_decode :: "string \<Rightarrow> payload result" where
  "am_decode msg = bindr (chk_len msg ''0C'') (\<lambda>_.
     Inr (P_AM (map is_one (py_slice 4 (4 + MAX_AREAS) msg))))"

definition as_decode :: "string \<Rightarrow> payload result" where
  "as_decode msg =
     bindr (mapr (enum_lookup armed_status_members armed_status_value) (py_slice 4 12 msg)) (\<lambda>armed.
     bindr (mapr (enum_lookup arm_up_state_members arm_up_state_value) (py_slice 12 20 msg)) (\<lambda>arm_up.
     bindr (mapr (enum_lookup alarm_state_members alarm_state_value) (py_slice 20 28 msg)) (\<lambda>alarm.
     let timer_field = py_slice 28 30 msg
     in if length timer_field = 2
        then bindr (py_int 16 timer_field) (\<lambda>seconds. Inr (P_AS armed arm_up alarm (Some seconds)))
        else Inr (P_AS armed arm_up alarm None))))"

definition az_decode :: "string \<Rightarrow> payload result" where
  "az_decode msg = bindr (chk_len msg ''D6'') (\<lambda>_.
     bindr (mapr (enum_lookup zone_alarm_state_members zone_alarm_state_value)
              (py_slice 4 (4 + MAX_ZONES) msg)) (\<lambda>states.
     Inr (P_AZ states)))"

definition cr_one_custom_value_decode :: "int \<Rightarrow> string \<Rightarrow> custom_value result" where
  "cr_one_custom_value_decode index part =
     bindr (dec_at 0 5 part) (\<lambda>value.
     bindr (dec_char 5 part) (\<lambda>f.
     bindr (enum_lookup setting_format_members setting_format_value f) (\<lambda>value_format.
     let ret = (if value_format = SFmt_TIME_OF_DAY
                then Time_of_day (drop_bit 8 value AND 255) (value AND 255)
                else Plain value)
     in Inr \<lparr>cvd_index = index, cvd_value = ret, cvd_format = value_format\<rparr>)))"

definition cr_decode :: "string \<Rightarrow> payload result" where
  "cr_decode msg =
     bindr (dec_at 4 6 msg) (\<lambda>n.
     if 0 < n
     then bindr (cr_one_custom_value_decode (n - 1) (py_slice 6 12 msg)) (\<lambda>v. Inr (P_CR [v]))
     else bindr (mapr (\<lambda>i. cr_one_custom_value_decode (int i) (py_slice (6 + 6 * i) (12 + 6 * i) msg))
                   [0..<MAX_SETTINGS]) (\<lambda>ret.
          Inr (P_CR ret)))"

definition cc_decode :: "string \<Rightarrow> payload result" where
  "cc_decode msg =
     bindr (dec_at 4 7 msg) (\<lambda>n.
     bindr (item msg 7) (\<lambda>c. Inr (P_CC (n - 1) (is_one c))))"

definition cs_decode :: "string \<Rightarrow> payload result" where
  "cs_decode msg = Inr (P_CS (map is_one (py_slice 4 (4 + MAX_OUTPUTS) msg)))"

definition cv_decode :: "string \<Rightarrow> payload result" where
  "cv_decode msg =
     bindr (dec_at 4 6 msg) (\<lambda>n. bindr (dec_at 6 11 msg) (\<lambda>v. Inr (P_CV (n - 1) v)))"

definition ee_decode :: "string \<Rightarrow> payload result" where
  "ee_decode msg =
     bindr (dec_at 4 5 msg) (\<lambda>area.
     bindr (dec_at 6 9 msg) (\<lambda>timer1.
     bindr (dec_at 9 12 msg) (\<lambda>timer2.
     bindr (char_enum armed_status_members armed_status_value (py_slice 12 13 msg)) (\<lambda>armed.
     Inr (P_EE (area - 1) (py_slice 5 6 msg = ''0'') timer1 timer2 armed)))))"

text \<open>
  \<open>re.match(r"(0\d){6}", code)\<close> and \<open>re.sub(r"0(\d)", r"\1", code)\<close>: the second rewrites every
  pair of a zero and a digit, left to right.
\<close>

fun zero_digit_pairs :: "nat \<Rightarrow> string \<Rightarrow> bool" where
  "zero_digit_pairs 0 s = True"
| "zero_digit_pairs (Suc k) (a # b # cs) = (a = CHR ''0'' \<and> is_digit b \<and> zero_digit_pairs k cs)"
| "zero_digit_pairs (Suc k) s = False"

fun sub_zero_digit :: "string \<Rightarrow> string" where
  "sub_zero_digit (a # b # cs) =
     (if a = CHR ''0'' \<and> is_digit b then b # sub_zero_digit cs else a # sub_zero_digit (b # cs))"
| "sub_zero_digit s = s"

definition ic_decode :: "string \<Rightarrow> payload result" where
  "ic_decode msg =
     (let code = py_slice 4 16 msg;
          code = (if zero_digit_pairs 6 code then sub_zero_digit code else code)
      in bindr (dec_at 16 19 msg) (\<lambda>user.
         bindr (dec_at 19 21 msg) (\<lambda>keypad.
         Inr (P_IC code (user - 1) (keypad - 1)))))"

definition ie_decode :: "string \<Rightarrow> payload result" where
  "ie_decode msg = Inr P_IE"

definition ka_decode :: "string \<Rightarrow> payload result" where
  "ka_decode msg = Inr (P_KA (map (\<lambda>x. int (pyord x) - 49) (py_slice 4 (4 + MAX_KEYPADS) msg)))"

definition kc_decode :: "string \<Rightarrow> payload result" where
  "kc_decode msg =
     bindr (dec_at 4 6 msg) (\<lambda>k. bindr (dec_at 6 8 msg) (\<lambda>key. Inr (P_KC (k - 1) key)))"

record kc_detail =
  kcd_keypad :: int
  kcd_key :: int
  kcd_function_key_lights :: "int list"
  kcd_bypass_requires_code :: bool
  kcd_beep_chime_by_area :: "int list"

definition kc_detail_decode :: "string \<Rightarrow> kc_detail option" where
  "kc_detail_decode msg =
     (if length msg < 27 then None
      else case
        bindr (dec_at 4 6 msg) (\<lambda>k.
        bindr (dec_at 6 8 msg) (\<lambda>key.
        bindr (mapr (\<lambda>v. py_int 10 [v]) (py_slice 8 14 msg)) (\<lambda>lights.
        bindr (mapr (\<lambda>v. py_int 16 [v]) (py_slice 15 23 msg)) (\<lambda>beeps.
        Inr \<lparr>kcd_keypad = k - 1, kcd_key = key, kcd_function_key_lights = lights,
             kcd_bypass_requires_code = is_one (msg ! 14), kcd_beep_chime_by_area = beeps\<rparr>))))
        of Inl _ \<Rightarrow> None | Inr d \<Rightarrow> Some d)"

definition kf_decode :: "string \<Rightarrow> payload result" where
  "kf_decode msg =
     bindr (dec_at 4 6 msg) (\<lambda>k.
     bindr (item msg 6) (\<lambda>c.
     bindr (enum_lookup function_keys_members function_keys_value c) (\<lambda>key.
     bindr (mapr (\<lambda>x. bindr (py_int 10 [x]) (enum_lookup chime_mode_members chime_mode_value))
              (py_slice 7 15 msg)) (\<lambda>modes.
     Inr (P_KF (k - 1) key modes)))))"

section \<open>The log entry\<close>

record civil =
  c_year :: int
  c_month :: int
  c_day :: int
  c_hour :: int
  c_minute :: int

definition leap_year :: "int \<Rightarrow> bool" where
  "leap_year y = (y mod 4 = 0 \<and> (y mod 100 \<noteq> 0 \<or> y mod 400 = 0))"

definition month_days :: "int \<Rightarrow> int \<Rightarrow> int" where
  "month_days y m =
     (if m = 2 then (if leap_year y then 29 else 28)
      else if m \<in> {4, 6, 9, 11} then 30 else 31)"

text \<open>\<open>dt.datetime(year, month, day, hour, minute)\<close>.\<close>

definition datetime :: "int \<Rightarrow> int \<Rightarrow> int \<Rightarrow> int \<Rightarrow> int \<Rightarrow> civil result" where
  "datetime y mo d h mi =
     (if 1 \<le> y \<and> y \<le> 9999 \<and> 1 \<le> mo \<and> mo \<le> 12 \<and> 1 \<le> d \<and> d \<le> month_days y mo \<and>
         0 \<le> h \<and> h < 24 \<and> 0 \<le> mi \<and> mi < 60
      then Inr \<lparr>c_year = y, c_month = mo, c_day = d, c_hour = h, c_minute = mi\<rparr>
      else Inl ValueError)"

text \<open>
  \<open>time.gmtime(t)\<close> followed by \<open>dt.datetime(*..., tzinfo=dt.UTC).isoformat()\<close>: the proleptic
  Gregorian date of a number of days since 1970-01-01, by 400-year eras that begin in March.
\<close>

definition civil_of_days :: "int \<Rightarrow> int \<times> int \<times> int" where
  "civil_of_days days =
     (let z = days + 719468;
          era = z div 146097;
          doe = z - era * 146097;
          yoe = (doe - doe div 1460 + doe div 36524 - doe div 146096) div 365;
          doy = doe - (365 * yoe + yoe div 4 - yoe div 100);
          mp = (5 * doy + 2) div 153;
          d = doy - (153 * mp + 2) div 5 + 1;
          m = (if mp < 10 then mp + 3 else mp - 9);
          y = yoe + era * 400 + (if m \<le> 2 then 1 else 0)
      in (y, m, d))"

definition utc_isoformat :: "int \<Rightarrow> string" where
  "utc_isoformat t =
     (let (y, m, d) = civil_of_days (t div 86400); s = t mod 86400
      in fmt_dec 4 y @ ''-'' @ fmt_dec 2 m @ ''-'' @ fmt_dec 2 d @ ''T'' @
         fmt_dec 2 (s div 3600) @ '':'' @ fmt_dec 2 (s div 60 mod 60) @ '':'' @ fmt_dec 2 (s mod 60) @
         ''+00:00'')"

text \<open>
  \<open>mktime\<close> is \<open>time.mktime\<close> of the machine: the seconds since the epoch of a local time, or an
  \<open>OverflowError\<close>.
\<close>

definition ld_decode :: "(civil \<Rightarrow> int result) \<Rightarrow> string \<Rightarrow> payload result" where
  "ld_decode mktime msg =
     bindr (dec_char 11 msg) (\<lambda>area.
     bindr (dec_at 12 14 msg) (\<lambda>hour.
     bindr (dec_at 14 16 msg) (\<lambda>minute.
     bindr (dec_at 16 18 msg) (\<lambda>month.
     bindr (dec_at 18 20 msg) (\<lambda>day.
     bindr (dec_at 24 26 msg) (\<lambda>year.
     bindr (datetime (year + 2000) month day hour minute) (\<lambda>log_local_datetime.
     bindr (mktime log_local_datetime) (\<lambda>log_local_time.
     bindr (dec_at 4 8 msg) (\<lambda>event.
     bindr (dec_at 8 11 msg) (\<lambda>number.
     bindr (dec_at 20 23 msg) (\<lambda>index.
     Inr (P_LD (area - 1)
       \<lparr>le_event = event, le_number = number, le_index = index,
        le_timestamp = utc_isoformat log_local_time\<rparr>))))))))))))"

definition lw_decode :: "string \<Rightarrow> payload result" where
  "lw_decode msg =
     bindr (mapr (\<lambda>i. bindr (dec_at (4 + 3 * i) (7 + 3 * i) msg) (\<lambda>k.
                       bindr (dec_at (52 + 3 * i) (55 + 3 * i) msg) (\<lambda>z. Inr (k - 40, z - 60))))
              [0..<16]) (\<lambda>temps.
     Inr (P_LW (map fst temps) (map snd temps)))"

section \<open>X10 house codes\<close>

text \<open>
  \<open>re.search(r"^([A-P])(\d{1,2})$", housecode.upper())\<close>; \<open>$\<close> also matches before one final line
  feed.
\<close>

definition match_housecode :: "string \<Rightarrow> (char \<times> string) option" where
  "match_housecode code =
     (let code = (if code \<noteq> [] \<and> last code = CHR 0x0A then butlast code else code)
      in case code of
           [] \<Rightarrow> None
         | h # ds \<Rightarrow>
             if 65 \<le> pyord h \<and> pyord h \<le> 80 \<and> (length ds = 1 \<or> length ds = 2) \<and> list_all is_digit ds
             then Some (h, ds) else None)"

definition housecode_to_index :: "string \<Rightarrow> int result" where
  "housecode_to_index housecode =
     (case match_housecode (map upper housecode) of
        None \<Rightarrow> Inl ValueError
      | Some (h, ds) \<Rightarrow>
          bindr (py_int 10 ds) (\<lambda>house_index.
            if 1 \<le> house_index \<and> house_index \<le> 16
            then Inr ((int (pyord h) - 65) * 16 + house_index - 1)
            else Inl ValueError))"

definition index_to_housecode :: "int \<Rightarrow> string result" where
  "index_to_housecode index =
     (if index < 0 \<or> index > 255 then Inl ValueError
      else Inr (char_of (65 + nat (index div 16)) # fmt_dec 2 (index mod 16 + 1)))"

definition pc_decode :: "string \<Rightarrow> payload result" where
  "pc_decode msg =
     (let housecode = py_slice 4 7 msg
      in bindr (housecode_to_index housecode) (\<lambda>index.
         bindr (dec_at 7 9 msg) (\<lambda>level. Inr (P_PC housecode index level))))"

definition ps_decode :: "string \<Rightarrow> payload result" where
  "ps_decode msg =
     bindr (item msg 4) (\<lambda>b.
     Inr (P_PS (int (pyord b) - 48) (map (\<lambda>x. int (pyord x) - 48) (py_slice 5 69 msg))))"

definition rp_decode :: "string \<Rightarrow> payload result" where
  "rp_decode msg =
     bindr (dec_at 4 6 msg) (\<lambda>n.
     bindr (enum_lookup elk_rp_status_members elk_rp_status_value n) (\<lambda>st. Inr (P_RP st)))"

definition rr_decode :: "string \<Rightarrow> payload result" where
  "rr_decode msg = Inr (P_RR (py_slice 4 20 msg))"

definition sd_decode :: "string \<Rightarrow> payload result" where
  "sd_decode msg =
     bindr (item msg 9) (\<lambda>c.
     let show_on_keypad = (128 \<le> pyord c);
         desc_ch1 = (if show_on_keypad then char_of (pyord c AND 127) else c)
     in bindr (dec_at 4 6 msg) (\<lambda>desc_type.
        bindr (dec_at 6 9 msg) (\<lambda>unit.
        Inr (P_SD desc_type (unit - 1) (rstrip (desc_ch1 # py_slice 10 25 msg)) show_on_keypad))))"

definition ss_decode :: "string \<Rightarrow> payload result" where
  "ss_decode msg = Inr (P_SS (drop_end 2 (drop 4 msg)))"

definition st_decode :: "string \<Rightarrow> payload result" where
  "st_decode msg =
     bindr (dec_at 4 5 msg) (\<lambda>group.
     bindr (dec_at 7 10 msg) (\<lambda>t.
     let temperature = (if group = 0 then t - 60 else if group = 1 then t - 40 else t)
     in bindr (dec_at 5 7 msg) (\<lambda>device. Inr (P_ST group (device - 1) temperature))))"

definition tc_decode :: "string \<Rightarrow> payload result" where
  "tc_decode msg = bindr (dec_at 4 7 msg) (\<lambda>n. Inr (P_TC (n - 1)))"

definition ti_decode :: "string \<Rightarrow> payload result" where
  "ti_decode msg = Inr (P_TI (drop_end 2 (drop 4 msg)))"

definition tr_decode :: "string \<Rightarrow> payload result" where
  "tr_decode msg = bindr (chk_len msg ''13'') (\<lambda>_.
     bindr (dec_at 4 6 msg) (\<lambda>n.
     bindr (dec_char 6 msg) (\<lambda>m.
     bindr (enum_lookup thermostat_mode_members thermostat_mode_value m) (\<lambda>mode.
     bindr (item msg 7) (\<lambda>h.
     bindr (dec_char 8 msg) (\<lambda>f.
     bindr (enum_lookup thermostat_fan_members thermostat_fan_value f) (\<lambda>fan.
     bindr (dec_at 9 11 msg) (\<lambda>current_temp.
     bindr (dec_at 11 13 msg) (\<lambda>heat.
     bindr (dec_at 13 15 msg) (\<lambda>cool.
     bindr (dec_at 15 17 msg) (\<lambda>humidity.
     Inr (P_TR (n - 1) mode (is_one h) fan current_temp heat cool humidity))))))))))))"

definition ua_decode :: "string \<Rightarrow> payload result" where
  "ua_decode msg =
     bindr (dec_at 4 10 msg) (\<lambda>user_code.
     bindr (hex_at 10 12 msg) (\<lambda>valid_areas.
     bindr (dec_char 20 msg) (\<lambda>code_len.
     bindr (dec_char 21 msg) (\<lambda>code_type.
     bindr (item msg 22) (\<lambda>units.
     Inr (P_UA user_code valid_areas (py_slice 12 20 msg) code_len code_type [units]))))))"

text \<open>\<open>f"{int(...)}.{int(...)}.{int(...)}"\<close>.\<close>

definition dotted_version :: "nat \<Rightarrow> string \<Rightarrow> string result" where
  "dotted_version i msg =
     bindr (hex_at i (i + 2) msg) (\<lambda>a.
     bindr (hex_at (i + 2) (i + 4) msg) (\<lambda>b.
     bindr (hex_at (i + 4) (i + 6) msg) (\<lambda>c.
     Inr (fmt_dec 0 a @ ''.'' @ fmt_dec 0 b @ ''.'' @ fmt_dec 0 c))))"

definition vn_decode :: "string \<Rightarrow> payload result" where
  "vn_decode msg =
     bindr (dotted_version 4 msg) (\<lambda>elkm1_version.
     bindr (dotted_version 10 msg) (\<lambda>xep_version.
     Inr (P_VN elkm1_version xep_version)))"

definition xk_decode :: "string \<Rightarrow> payload result" where
  "xk_decode msg = Inr (P_XK (py_slice 4 20 msg))"

definition zb_decode :: "string \<Rightarrow> payload result" where
  "zb_decode msg =
     bindr (dec_at 4 7 msg) (\<lambda>n. bindr (item msg 7) (\<lambda>c. Inr (P_ZB (n - 1) (is_one c))))"

definition status_decode :: "int \<Rightarrow> zone_status result" where
  "status_decode status =
     bindr (enum_lookup zone_logical_status_members zone_logical_status_value
              (drop_bit 2 (status AND 12))) (\<lambda>logical.
     bindr (enum_lookup zone_physical_status_members zone_physical_status_value (status AND 3)) (\<lambda>physical.
     Inr (logical, physical)))"

definition zc_decode :: "string \<Rightarrow> payload result" where
  "zc_decode msg = bindr (chk_len msg ''0A'') (\<lambda>_.
     bindr (hex_at 7 8 msg) (\<lambda>s.
     bindr (status_decode s) (\<lambda>status.
     bindr (dec_at 4 7 msg) (\<lambda>n. Inr (P_ZC (n - 1) status)))))"

definition zd_decode :: "string \<Rightarrow> payload result" where
  "zd_decode msg = bindr (chk_len msg ''D6'') (\<lambda>_.
     bindr (mapr (\<lambda>x. enum_lookup zone_type_members zone_type_value (int (pyord x) - 48))
              (py_slice 4 (4 + MAX_ZONES) msg)) (\<lambda>types.
     Inr (P_ZD types)))"

definition zp_decode :: "string \<Rightarrow> payload result" where
  "zp_decode msg = Inr (P_ZP (map (\<lambda>x. int (pyord x) - 49) (py_slice 4 (4 + MAX_ZONES) msg)))"

definition zs_decode :: "string \<Rightarrow> payload result" where
  "zs_decode msg = bindr (chk_len msg ''D6'') (\<lambda>_.
     bindr (mapr (\<lambda>x. bindr (py_int 16 [x]) status_decode) (py_slice 4 (4 + MAX_ZONES) msg)) (\<lambda>st.
     Inr (P_ZS st)))"

text \<open>The voltage is the code's quotient \<open>int(...) / 10\<close>, kept exact.\<close>

definition zv_decode :: "string \<Rightarrow> payload result" where
  "zv_decode msg =
     bindr (dec_at 4 7 msg) (\<lambda>n. bindr (dec_at 7 10 msg) (\<lambda>v. Inr (P_ZV (n - 1) (rat_of_int v / 10))))"

section \<open>Dispatch\<close>

text \<open>The functions \<open>getattr(module, f"{cmd.lower()}_decode")\<close> can find.\<close>

definition decoders :: "(civil \<Rightarrow> int result) \<Rightarrow> (string \<times> (string \<Rightarrow> payload result)) list" where
  "decoders mktime =
     [(''am'', am_decode), (''as'', as_decode), (''az'', az_decode), (''cr'', cr_decode),
      (''cc'', cc_decode), (''cs'', cs_decode), (''cv'', cv_decode), (''ee'', ee_decode),
      (''ic'', ic_decode), (''ie'', ie_decode), (''ka'', ka_decode), (''kc'', kc_decode),
      (''kf'', kf_decode), (''ld'', ld_decode mktime), (''lw'', lw_decode), (''pc'', pc_decode),
      (''ps'', ps_decode), (''rp'', rp_decode), (''rr'', rr_decode), (''sd'', sd_decode),
      (''ss'', ss_decode), (''st'', st_decode), (''tc'', tc_decode), (''ti'', ti_decode),
      (''tr'', tr_decode), (''ua'', ua_decode), (''vn'', vn_decode), (''xk'', xk_decode),
      (''zb'', zb_decode), (''zc'', zc_decode), (''zd'', zd_decode), (''zp'', zp_decode),
      (''zs'', zs_decode), (''zv'', zv_decode)]"

text \<open>\<open>needle in hay\<close> on strings.\<close>

fun is_infix :: "string \<Rightarrow> string \<Rightarrow> bool" where
  "is_infix needle [] = (needle = [])"
| "is_infix needle (c # cs) = (take (length needle) (c # cs) = needle \<or> is_infix needle cs)"

abbreviation starts_with :: "string \<Rightarrow> string \<Rightarrow> bool" where
  "starts_with s prefix \<equiv> take (length prefix) s = prefix"

text \<open>The exceptions the dispatcher turns into its own \<open>ValueError\<close>.\<close>

definition caught :: "py_error \<Rightarrow> bool" where
  "caught e = (e \<in> {IndexError, ValueError, AttributeError})"

definition decode :: "(civil \<Rightarrow> int result) \<Rightarrow> string \<Rightarrow> (string \<times> payload) option result" where
  "decode mktime msg =
     (if is_valid_length_and_checksum msg = Valid then
        let cmd = py_slice 2 4 msg
        in case (if cmd = ''PC'' then pc_all_decode msg else None) of
             Some aggregate \<Rightarrow> Inr (Some (''PC_ALL'', aggregate))
           | None \<Rightarrow>
               (case map_of (decoders mktime) (map lower cmd) of
                  None \<Rightarrow> Inr (Some (''unknown'', P_UNKNOWN cmd (drop_end 2 (drop 4 msg))))
                | Some decoder \<Rightarrow>
                    (case decoder msg of
                       Inr decoded_msg \<Rightarrow> Inr (Some (cmd, decoded_msg))
                     | Inl exc \<Rightarrow> if caught exc then Inl ValueError else Inl exc))
      else if msg = [] \<or> starts_with msg ''Username: '' \<or> starts_with msg ''Password: '' then Inr None
      else if is_infix ''Login successful'' msg then Inr (Some (''login'', P_LOGIN True))
      else if starts_with msg ''Username/Password not found'' \<or> msg = ''Disabled''
      then Inr (Some (''login'', P_LOGIN False))
      else Inl ValueError)"

definition get_elk_command :: "string \<Rightarrow> string" where
  "get_elk_command line = (if length line < 4 then [] else py_slice 2 4 line)"

end
