(* ===== verification/Elk_Encode.thy ===== *)
theory Elk_Encode
  imports Elk_Decode
begin

text \<open>
  The encoders of \<open>helpers/elk/message.py\<close>, in the order of the file. Each returns the finished
  frame and the command of the reply the connection waits for, if any. The lighting encoders can
  raise, because \<open>index_to_housecode\<close> rejects an index outside 0 to 255.
\<close>

text \<open>\<open>MessageEncode\<close>.\<close>

record message_encode =
  me_message :: string
  me_response_command :: "string option"

definition message_of :: "string \<Rightarrow> string option \<Rightarrow> message_encode" where
  "message_of cmd_and_data response = \<lparr>me_message = finalize cmd_and_data, me_response_command = response\<rparr>"

lemma message_of_simps [simp]:
  "me_message (message_of s r) = finalize s"
  "me_response_command (message_of s r) = r"
  by (simp_all add: message_of_def)

text \<open>\<open>f"{line:^<16.16}"\<close>: at most sixteen characters, filled with carets on the right.\<close>

definition display_line :: "string \<Rightarrow> string" where
  "display_line s = (let s = take 16 s in s @ replicate (16 - length s) (CHR ''^''))"

section \<open>Encoders\<close>

definition al_encode :: "arm_level \<Rightarrow> int \<Rightarrow> int \<Rightarrow> message_encode" where
  "al_encode arm_mode area user_code =
     message_of (''a'' @ [arm_level_value arm_mode] @ fmt_dec 1 (area + 1) @ fmt_dec 6 user_code) (Some ''AS'')"

definition as_encode :: "message_encode" where
  "as_encode = message_of (''as'') (Some ''AS'')"

definition az_encode :: "message_encode" where
  "az_encode = message_of (''az'') (Some ''AZ'')"

definition cf_encode :: "int \<Rightarrow> message_encode" where
  "cf_encode output = message_of (''cf'' @ fmt_dec 3 (output + 1)) None"

definition ct_encode :: "int \<Rightarrow> message_encode" where
  "ct_encode output = message_of (''ct'' @ fmt_dec 3 (output + 1)) None"

definition cn_encode :: "int \<Rightarrow> int \<Rightarrow> message_encode" where
  "cn_encode output seconds = message_of (''cn'' @ fmt_dec 3 (output + 1) @ fmt_dec 5 seconds) None"

definition cs_encode :: "message_encode" where
  "cs_encode = message_of (''cs'') (Some ''CS'')"

definition cp_encode :: "message_encode" where
  "cp_encode = message_of (''cp'') (Some ''CR'')"

definition cr_encode :: "int \<Rightarrow> message_encode" where
  "cr_encode index = message_of (''cr'' @ fmt_dec 2 (index + 1)) (Some ''CR'')"

text \<open>
  The format decides how the value is read: a time of day must be an (hour, minute) pair, anything
  else a number; the other combinations raise a \<open>TypeError\<close> (indexing a number, formatting a
  pair).
\<close>

definition cw_encode :: "int \<Rightarrow> setting_value \<Rightarrow> setting_format \<Rightarrow> message_encode result" where
  "cw_encode index val value_format =
     bindr
       (case val of
          Time_of_day hour minute \<Rightarrow>
            if value_format = SFmt_TIME_OF_DAY then Inr (hour * 256 + minute) else Inl TypeError
        | Plain v \<Rightarrow> if value_format = SFmt_TIME_OF_DAY then Inl TypeError else Inr v)
       (\<lambda>enc. Inr (message_of (''cw'' @ fmt_dec 2 (index + 1) @ fmt_dec 5 enc) (Some ''CR'')))"

definition cv_encode :: "int \<Rightarrow> message_encode" where
  "cv_encode counter = message_of (''cv'' @ fmt_dec 2 (counter + 1)) (Some ''CV'')"

definition cx_encode :: "int \<Rightarrow> int \<Rightarrow> message_encode" where
  "cx_encode counter val = message_of (''cx'' @ fmt_dec 2 (counter + 1) @ fmt_dec 5 val) (Some ''CV'')"

definition dm_encode :: "int \<Rightarrow> int \<Rightarrow> bool \<Rightarrow> int \<Rightarrow> string \<Rightarrow> string \<Rightarrow> message_encode" where
  "dm_encode keypad_area clear beep timeout line1 line2 =
     message_of (''dm'' @ fmt_dec 1 (keypad_area + 1) @ fmt_dec 1 clear @ fmt_dec 1 (if beep then 1 else 0) @ fmt_dec 5 timeout @ display_line line1 @ display_line line2) None"

definition ka_encode :: "message_encode" where
  "ka_encode = message_of (''ka'') (Some ''KA'')"

definition kc_encode :: "int \<Rightarrow> message_encode" where
  "kc_encode keypad = message_of (''kc'' @ fmt_dec 2 (keypad + 1)) (Some ''KC'')"

definition kf_encode :: "int \<Rightarrow> function_keys \<Rightarrow> message_encode" where
  "kf_encode keypad functionkey =
     message_of (''kf'' @ fmt_dec 2 (keypad + 1) @ [function_keys_value functionkey]) (Some ''KF'')"

definition ld_encode :: "int \<Rightarrow> message_encode" where
  "ld_encode index = message_of (''ld'' @ fmt_dec 3 index) (Some ''LD'')"

definition lw_encode :: "message_encode" where
  "lw_encode = message_of (''lw'') (Some ''LW'')"

definition pc_encode :: "int \<Rightarrow> int \<Rightarrow> int \<Rightarrow> int \<Rightarrow> message_encode result" where
  "pc_encode index function_code extended_code seconds =
     bindr (index_to_housecode index) (\<lambda>code.
     Inr (message_of (''pc'' @ code @ fmt_dec 2 function_code @ fmt_dec 2 extended_code @ fmt_dec 4 seconds) None))"

definition pf_encode :: "int \<Rightarrow> message_encode result" where
  "pf_encode index =
     bindr (index_to_housecode index) (\<lambda>code. Inr (message_of (''pf'' @ code) None))"

definition pn_encode :: "int \<Rightarrow> message_encode result" where
  "pn_encode index =
     bindr (index_to_housecode index) (\<lambda>code. Inr (message_of (''pn'' @ code) None))"

definition ps_encode :: "int \<Rightarrow> message_encode" where
  "ps_encode bank = message_of (''ps'' @ fmt_dec 1 bank) (Some ''PS'')"

definition pt_encode :: "int \<Rightarrow> message_encode result" where
  "pt_encode index =
     bindr (index_to_housecode index) (\<lambda>code. Inr (message_of (''pt'' @ code) None))"

definition sd_encode :: "int \<Rightarrow> int \<Rightarrow> message_encode" where
  "sd_encode desc_type unit =
     message_of (''sd'' @ fmt_dec 2 desc_type @ fmt_dec 3 (unit + 1)) (Some ''SD'')"

definition sp_encode :: "int \<Rightarrow> message_encode" where
  "sp_encode phrase = message_of (''sp'' @ fmt_dec 3 phrase) None"

definition ss_encode :: "message_encode" where
  "ss_encode = message_of (''ss'') (Some ''SS'')"

definition sw_encode :: "int \<Rightarrow> message_encode" where
  "sw_encode word = message_of (''sw'' @ fmt_dec 3 word) None"

definition rr_encode :: "message_encode" where
  "rr_encode = message_of (''rr'') (Some ''RR'')"

text \<open>
  The days since 1970-01-01 of a date (the inverse of \<open>civil_of_days\<close>) and \<open>date.weekday()\<close>:
  1970-01-01 was a Thursday, weekday 3.
\<close>

definition days_of_civil :: "int \<Rightarrow> int \<Rightarrow> int \<Rightarrow> int" where
  "days_of_civil year month day =
     (let y = (if month \<le> 2 then year - 1 else year);
          era = y div 400;
          yoe = y - era * 400;
          doy = (153 * (if month > 2 then month - 3 else month + 9) + 2) div 5 + day - 1;
          doe = yoe * 365 + yoe div 4 - yoe div 100 + doy
      in era * 146097 + doe - 719468)"

definition weekday :: "civil \<Rightarrow> int" where
  "weekday t = (days_of_civil (c_year t) (c_month t) (c_day t) + 3) mod 7"

text \<open>
  \<open>strftime("%S%M%H.%d%m%y")\<close> with the weekday digit in the place of the dot. The seconds are an
  argument of their own.
\<close>

definition rw_encode :: "civil \<Rightarrow> int \<Rightarrow> message_encode" where
  "rw_encode date_time second =
     (let elk_weekday = (weekday date_time + 1) mod 7 + 1;
          time_str = fmt_dec 2 second @ fmt_dec 2 (c_minute date_time) @ fmt_dec 2 (c_hour date_time) @
            fmt_dec 0 elk_weekday @ fmt_dec 2 (c_day date_time) @ fmt_dec 2 (c_month date_time) @
            fmt_dec 2 (c_year date_time mod 100)
      in message_of (''rw'' @ time_str) (Some ''RR''))"

definition st_encode :: "int \<Rightarrow> int \<Rightarrow> message_encode" where
  "st_encode grp device = message_of (''st'' @ fmt_dec 1 grp @ fmt_dec 2 (device + 1)) (Some ''ST'')"

definition tn_encode :: "int \<Rightarrow> message_encode" where
  "tn_encode task = message_of (''tn'' @ fmt_dec 3 (task + 1)) None"

definition tr_encode :: "int \<Rightarrow> message_encode" where
  "tr_encode thermostat = message_of (''tr'' @ fmt_dec 2 (thermostat + 1)) (Some ''TR'')"

definition ts_encode :: "int \<Rightarrow> int \<Rightarrow> thermostat_setting \<Rightarrow> message_encode" where
  "ts_encode thermostat val element =
     message_of (''ts'' @ fmt_dec 2 (thermostat + 1) @ fmt_dec 2 val @ fmt_dec 1 (thermostat_setting_value element)) (Some ''TR'')"

definition ua_encode :: "int \<Rightarrow> message_encode" where
  "ua_encode user_code = message_of (''ua'' @ fmt_dec 6 user_code) (Some ''UA'')"

definition vn_encode :: "message_encode" where
  "vn_encode = message_of (''vn'') (Some ''VN'')"

definition zb_encode :: "int \<Rightarrow> int \<Rightarrow> int \<Rightarrow> message_encode" where
  "zb_encode zone area user_code =
     (let zone = (if zone < 0 then 0 else if zone > int MAX_ZONES then 999 else zone + 1)
      in message_of (''zb'' @ fmt_dec 3 zone @ fmt_dec 1 (area + 1) @ fmt_dec 6 user_code) (Some ''ZB''))"

definition zd_encode :: "message_encode" where
  "zd_encode = message_of (''zd'') (Some ''ZD'')"

definition zp_encode :: "message_encode" where
  "zp_encode = message_of (''zp'') (Some ''ZP'')"

definition zs_encode :: "message_encode" where
  "zs_encode = message_of (''zs'') (Some ''ZS'')"

definition zt_encode :: "int \<Rightarrow> message_encode" where
  "zt_encode zone = message_of (''zt'' @ fmt_dec 3 (zone + 1)) None"

definition zv_encode :: "int \<Rightarrow> message_encode" where
  "zv_encode zone = message_of (''zv'' @ fmt_dec 3 (zone + 1)) (Some ''ZV'')"

end
