(* ===== verification/Elk_Connection.thy ===== *)
theory Elk_Connection
  imports Elk_Encode
begin

text \<open>
  \<open>helpers/elk/connection.py\<close>: the outbound write queue, the request/response discipline of the
  write task, pause and resume, and the ways a transport is opened and closed
  (\<open>helpers/transport.py\<close>). The write task is a coroutine: its \<open>while True\<close> loop is cut at the
  awaits, so one step of the model is what the task does between two of them, and the other calls
  (sends, replies, pauses, a close) can come in between in any order.
\<close>

section \<open>State\<close>

text \<open>\<open>QueuedWrite\<close> (its \<open>timeout\<close> field is never read).\<close>

record queued_write =
  qw_msg :: string
  qw_response_cmd :: "string option"

text \<open>Where the write task is: not running, at the head of its loop, or waiting for a reply.\<close>

datatype write_task = No_task | At_loop | Waiting_reply

record connection =
  cn_writer :: bool
  cn_awaiting :: "string option"
  cn_paused :: bool
  cn_queue :: "queued_write list"
  cn_check :: bool
  cn_response :: bool
  cn_task :: write_task
  cn_written :: "string list"
  cn_timeouts :: "string option list"

definition connection_init :: connection where
  "connection_init =
     \<lparr>cn_writer = False, cn_awaiting = None, cn_paused = False, cn_queue = [], cn_check = False,
      cn_response = False, cn_task = No_task, cn_written = [], cn_timeouts = []\<rparr>"

section \<open>Operations\<close>

definition queue_write :: "queued_write \<Rightarrow> bool \<Rightarrow> connection \<Rightarrow> connection" where
  "queue_write q_entry priority_send c =
     (if cn_paused c then c
      else c\<lparr>cn_queue := (if priority_send then q_entry # cn_queue c else cn_queue c @ [q_entry]),
             cn_check := True\<rparr>)"

definition conn_send :: "message_encode \<Rightarrow> bool \<Rightarrow> connection stmt" where
  "conn_send msg priority_send c =
     (if cn_paused c then (c, Some ConnectionError)
      else if \<not> cn_writer c then (c, Some ConnectionError)
      else (queue_write \<lparr>qw_msg = me_message msg, qw_response_cmd = me_response_command msg\<rparr> priority_send c, None))"

definition conn_pause :: "connection \<Rightarrow> connection" where
  "conn_pause c = c\<lparr>cn_queue := [], cn_paused := True\<rparr>"

definition conn_resume :: "connection \<Rightarrow> connection" where
  "conn_resume c = c\<lparr>cn_paused := False\<rparr>"

text \<open>
  \<open>disconnect\<close> closes the writer and cancels the tasks of the connection; the notification it ends
  with belongs to the hub.
\<close>

definition conn_disconnect :: "connection \<Rightarrow> connection" where
  "conn_disconnect c = c\<lparr>cn_writer := False, cn_task := No_task\<rparr>"

text \<open>\<open>write_msg\<close>: the line that goes out for a queue entry.\<close>

definition wire_line :: "string \<Rightarrow> string" where
  "wire_line msg = msg @ checksum msg @ [CR, LF]"

text \<open>\<open>if q_entry.response_cmd\<close>: neither \<open>None\<close> nor the empty string.\<close>

definition wants_reply :: "queued_write \<Rightarrow> bool" where
  "wants_reply q = (case qw_response_cmd q of None \<Rightarrow> False | Some r \<Rightarrow> r \<noteq> [])"

text \<open>
  One turn of \<open>_write_stream\<close> from the head of the loop; \<open>None\<close> when it stays blocked in
  \<open>_check_write_queue.wait()\<close>.
\<close>

definition write_turn :: "connection \<Rightarrow> connection option" where
  "write_turn c =
     (if cn_task c \<noteq> At_loop then None
      else if cn_queue c = [] \<and> \<not> cn_check c then None
      else if \<not> cn_writer c then Some (c\<lparr>cn_task := No_task\<rparr>)
      else let c = c\<lparr>cn_check := False\<rparr>
           in case cn_queue c of
                [] \<Rightarrow> Some c
              | q_entry # rest \<Rightarrow>
                  let c = c\<lparr>cn_queue := rest, cn_written := cn_written c @ [wire_line (qw_msg q_entry)]\<rparr>
                  in if wants_reply q_entry
                     then Some (c\<lparr>cn_awaiting := qw_response_cmd q_entry, cn_task := Waiting_reply\<rparr>)
                     else Some c)"

text \<open>The two ends of \<open>await_msg_response\<close>.\<close>

definition reply_turn :: "connection \<Rightarrow> connection option" where
  "reply_turn c =
     (if cn_task c = Waiting_reply \<and> cn_response c
      then Some (c\<lparr>cn_response := False, cn_awaiting := None, cn_task := At_loop\<rparr>)
      else None)"

definition timeout_turn :: "connection \<Rightarrow> connection option" where
  "timeout_turn c =
     (if cn_task c = Waiting_reply
      then Some (c\<lparr>cn_timeouts := cn_timeouts c @ [cn_awaiting c], cn_response := False,
                    cn_awaiting := None, cn_task := At_loop\<rparr>)
      else None)"

text \<open>
  The reader's correlation (\<open>_entry_read_stream\<close>): a decoded frame of the awaited command sets the
  reply event.
\<close>

definition frame_received :: "string \<Rightarrow> connection \<Rightarrow> connection" where
  "frame_received command c =
     (if cn_awaiting c = Some command then c\<lparr>cn_response := True\<rparr> else c)"

text \<open>\<open>_entry_connect\<close> opens the transport and starts the stream tasks.\<close>

definition transport_open :: "connection \<Rightarrow> connection" where
  "transport_open c = c\<lparr>cn_writer := True, cn_task := At_loop\<rparr>"

text \<open>\<open>_async_close_transport\<close>: the tasks are cancelled, then the writer is closed.\<close>

definition transport_close :: "connection \<Rightarrow> connection" where
  "transport_close c = c\<lparr>cn_writer := False, cn_task := No_task\<rparr>"

lemmas conn_defs = queue_write_def conn_send_def conn_pause_def conn_resume_def conn_disconnect_def
  write_turn_def reply_turn_def timeout_turn_def frame_received_def transport_open_def transport_close_def

section \<open>Interleavings\<close>

text \<open>Everything that can happen to a connection, one event at a time.\<close>

datatype conn_event =
    Ev_send message_encode bool
  | Ev_pause
  | Ev_resume
  | Ev_disconnect
  | Ev_write
  | Ev_reply
  | Ev_timeout
  | Ev_frame string
  | Ev_open
  | Ev_close

inductive conn_step :: "connection \<Rightarrow> conn_event \<Rightarrow> connection \<Rightarrow> bool" where
  step_send: "conn_step c (Ev_send m p) (fst (conn_send m p c))"
| step_pause: "conn_step c Ev_pause (conn_pause c)"
| step_resume: "conn_step c Ev_resume (conn_resume c)"
| step_disconnect: "conn_step c Ev_disconnect (conn_disconnect c)"
| step_write: "write_turn c = Some c' \<Longrightarrow> conn_step c Ev_write c'"
| step_reply: "reply_turn c = Some c' \<Longrightarrow> conn_step c Ev_reply c'"
| step_timeout: "timeout_turn c = Some c' \<Longrightarrow> conn_step c Ev_timeout c'"
| step_frame: "conn_step c (Ev_frame cmd) (frame_received cmd c)"
| step_open: "\<not> cn_writer c \<Longrightarrow> cn_task c = No_task \<Longrightarrow> conn_step c Ev_open (transport_open c)"
| step_close: "conn_step c Ev_close (transport_close c)"

inductive_cases conn_stepE: "conn_step c e c'"

inductive_simps conn_write_simps: "conn_step c Ev_write c'"

inductive conn_reachable :: "connection \<Rightarrow> bool" where
  reach_init: "conn_reachable connection_init"
| reach_step: "conn_reachable c \<Longrightarrow> conn_step c e c' \<Longrightarrow> conn_reachable c'"

text \<open>A run of events, for the theorems about histories.\<close>

inductive conn_run :: "connection \<Rightarrow> conn_event list \<Rightarrow> connection \<Rightarrow> bool" where
  run_nil: "conn_run c [] c"
| run_cons: "conn_step c e c' \<Longrightarrow> conn_run c' es c'' \<Longrightarrow> conn_run c (e # es) c''"

inductive_cases conn_run_ConsE: "conn_run c (e # es) c''"
inductive_cases conn_run_NilE: "conn_run c [] c''"

section \<open>Invariants\<close>

text \<open>What holds of every reachable connection.\<close>

definition conn_inv :: "connection \<Rightarrow> bool" where
  "conn_inv c =
     ((cn_paused c \<longrightarrow> cn_queue c = []) \<and>
      (cn_task c = Waiting_reply \<longrightarrow> (\<exists>r. cn_awaiting c = Some r \<and> r \<noteq> [])) \<and>
      (cn_queue c \<noteq> [] \<and> cn_task c = At_loop \<longrightarrow> write_turn c \<noteq> None))"

lemma conn_inv_init: "conn_inv connection_init"
  by (simp add: conn_inv_def connection_init_def)

lemma write_turn_ready: "cn_queue c \<noteq> [] \<Longrightarrow> cn_task c = At_loop \<Longrightarrow> write_turn c \<noteq> None"
  by (auto simp: write_turn_def Let_def split: list.splits)

lemma conn_inv_step: "conn_step c e c' \<Longrightarrow> conn_inv c \<Longrightarrow> conn_inv c'"
proof (induction rule: conn_step.induct)
  case (step_write c c')
  then show ?case
    by (auto simp: conn_inv_def write_turn_ready write_turn_def [of c] wants_reply_def Let_def
        split: if_splits list.splits option.splits)
qed (auto simp: conn_inv_def write_turn_ready conn_send_def queue_write_def conn_pause_def
      conn_resume_def conn_disconnect_def reply_turn_def timeout_turn_def frame_received_def
      transport_open_def transport_close_def split: if_splits)

lemma conn_reachable_inv: "conn_reachable c \<Longrightarrow> conn_inv c"
  by (induction rule: conn_reachable.induct) (auto intro: conn_inv_init conn_inv_step)

section \<open>Histories\<close>

definition queued_lines :: "connection \<Rightarrow> string list" where
  "queued_lines c = map (\<lambda>q. wire_line (qw_msg q)) (cn_queue c)"

text \<open>The lines the sends of a history stand for.\<close>

fun sent_lines :: "conn_event list \<Rightarrow> string list" where
  "sent_lines [] = []"
| "sent_lines (Ev_send m p # es) = wire_line (me_message m) # sent_lines es"
| "sent_lines (_ # es) = sent_lines es"

text \<open>A history in which the transport stays as it is and nothing jumps the queue.\<close>

fun steady :: "conn_event \<Rightarrow> bool" where
  "steady (Ev_send m p) = (\<not> p)"
| "steady Ev_pause = False"
| "steady Ev_disconnect = False"
| "steady Ev_close = False"
| "steady _ = True"

lemma write_turn_lines:
  assumes "write_turn c = Some c'" and "cn_writer c"
  shows "cn_written c' @ queued_lines c' = cn_written c @ queued_lines c \<and>
    cn_writer c' \<and> cn_paused c' = cn_paused c"
  using assms by (auto simp: write_turn_def queued_lines_def Let_def split: if_splits list.splits)

lemma steady_step:
  assumes "conn_step c e c'" and "steady e" and "cn_writer c" and "\<not> cn_paused c"
  shows "cn_written c' @ queued_lines c' = cn_written c @ queued_lines c @ sent_lines [e] \<and>
    cn_writer c' \<and> \<not> cn_paused c'"
  using assms
proof (cases rule: conn_step.cases)
  case step_write
  with write_turn_lines [of c c'] assms(3,4) show ?thesis by simp
qed (auto simp: queued_lines_def conn_send_def queue_write_def conn_resume_def
      reply_turn_def timeout_turn_def frame_received_def split: if_splits)

lemma sent_lines_Cons: "sent_lines (e # es) = sent_lines [e] @ sent_lines es"
  by (cases e) auto

lemma steady_run:
  "conn_run c es c' \<Longrightarrow> list_all steady es \<Longrightarrow> cn_writer c \<Longrightarrow> \<not> cn_paused c \<Longrightarrow>
     cn_written c' @ queued_lines c' = cn_written c @ queued_lines c @ sent_lines es"
proof (induction rule: conn_run.induct)
  case (run_nil c)
  then show ?case by simp
next
  case (run_cons c e c' es c'')
  then have st: "cn_written c' @ queued_lines c' = cn_written c @ queued_lines c @ sent_lines [e]"
    "cn_writer c'" "\<not> cn_paused c'" using steady_step [of c e c'] by auto
  have "cn_written c'' @ queued_lines c'' = (cn_written c' @ queued_lines c') @ sent_lines es"
    using run_cons st by simp
  also have "\<dots> = cn_written c @ queued_lines c @ sent_lines (e # es)"
    unfolding st(1) by (subst sent_lines_Cons) simp
  finally show ?case .
qed

lemma drain_one:
  assumes "cn_writer c" and "cn_task c = At_loop" and "cn_queue c = q # qs"
  shows "\<exists>c' es. conn_run c es c' \<and> length es \<le> 2 \<and> set es \<subseteq> {Ev_write, Ev_timeout} \<and>
    cn_writer c' \<and> cn_task c' = At_loop \<and> cn_queue c' = qs \<and>
    cn_written c' = cn_written c @ [wire_line (qw_msg q)]"
proof (cases "wants_reply q")
  case False
  let ?c = "c\<lparr>cn_check := False, cn_queue := qs, cn_written := cn_written c @ [wire_line (qw_msg q)]\<rparr>"
  have "write_turn c = Some ?c" using assms False by (simp add: write_turn_def Let_def)
  then have "conn_run c [Ev_write] ?c" by (rule run_cons [OF step_write run_nil])
  then show ?thesis using assms by (intro exI [of _ ?c] exI [of _ "[Ev_write]"]) simp
next
  case True
  let ?c = "c\<lparr>cn_check := False, cn_queue := qs, cn_written := cn_written c @ [wire_line (qw_msg q)],
    cn_awaiting := qw_response_cmd q, cn_task := Waiting_reply\<rparr>"
  let ?d = "?c\<lparr>cn_timeouts := cn_timeouts c @ [qw_response_cmd q], cn_response := False,
    cn_awaiting := None, cn_task := At_loop\<rparr>"
  have "write_turn c = Some ?c" using assms True by (simp add: write_turn_def Let_def)
  moreover have "timeout_turn ?c = Some ?d" by (simp add: timeout_turn_def)
  ultimately have "conn_run c [Ev_write, Ev_timeout] ?d"
    by (rule run_cons [OF step_write run_cons [OF step_timeout run_nil]])
  then show ?thesis using assms by (intro exI [of _ ?d] exI [of _ "[Ev_write, Ev_timeout]"]) simp
qed

lemma conn_run_append: "conn_run c es c' \<Longrightarrow> conn_run c' fs c'' \<Longrightarrow> conn_run c (es @ fs) c''"
  by (induction rule: conn_run.induct) (auto intro: conn_run.intros)

lemma drain:
  assumes "cn_writer c" and "cn_task c = At_loop"
  shows "\<exists>c' es. conn_run c es c' \<and> length es \<le> 2 * length (cn_queue c) \<and>
    set es \<subseteq> {Ev_write, Ev_timeout} \<and> cn_queue c' = [] \<and> cn_written c' = cn_written c @ queued_lines c"
  using assms
proof (induction "cn_queue c" arbitrary: c)
  case Nil
  then show ?case by (intro exI [of _ c] exI [of _ "[]"]) (auto simp: queued_lines_def intro: conn_run.intros)
next
  case (Cons q qs)
  obtain c1 es1 where 1: "conn_run c es1 c1" "length es1 \<le> 2" "set es1 \<subseteq> {Ev_write, Ev_timeout}"
    "cn_writer c1" "cn_task c1 = At_loop" "cn_queue c1 = qs"
    "cn_written c1 = cn_written c @ [wire_line (qw_msg q)]"
    using drain_one [OF Cons.prems Cons.hyps(2) [symmetric]] by blast
  from Cons.hyps(1) [OF 1(6) [symmetric] 1(4,5)] obtain c2 es2 where
    2: "conn_run c1 es2 c2" "length es2 \<le> 2 * length (cn_queue c1)" "set es2 \<subseteq> {Ev_write, Ev_timeout}"
    "cn_queue c2 = []" "cn_written c2 = cn_written c1 @ queued_lines c1" by blast
  have "conn_run c (es1 @ es2) c2" by (rule conn_run_append [OF 1(1) 2(1)])
  moreover have "length (es1 @ es2) \<le> 2 * length (cn_queue c)"
    using 1(2,6) 2(2) Cons.hyps(2) [symmetric] by simp
  moreover have "cn_written c2 = cn_written c @ queued_lines c"
    using 2(5) 1(6,7) Cons.hyps(2) [symmetric] by (simp add: queued_lines_def)
  ultimately show ?case using 1(3) 2(3,4) by (intro exI [of _ c2] exI [of _ "es1 @ es2"]) simp
qed

text \<open>While the reply is awaited nothing is written.\<close>

lemma waiting_run:
  assumes "conn_run c es c'" and "cn_task c = Waiting_reply"
    and "set es \<inter> {Ev_reply, Ev_timeout, Ev_close, Ev_disconnect} = {}"
  shows "cn_task c' = Waiting_reply \<and> cn_written c' = cn_written c \<and> cn_awaiting c' = cn_awaiting c"
  using assms
proof (induction rule: conn_run.induct)
  case (run_nil c)
  then show ?case by simp
next
  case (run_cons c e c' es c'')
  have "cn_task c' = Waiting_reply \<and> cn_written c' = cn_written c \<and> cn_awaiting c' = cn_awaiting c"
    using run_cons.hyps(1) run_cons.prems
    by (cases rule: conn_step.cases) (auto simp: conn_defs split: if_splits)
  with run_cons show ?case by auto
qed

section \<open>Properties\<close>

text \<open>C5. While ElkRP owns the panel nothing is sent: in every reachable paused connection the
  queue is empty, a send is refused with \<open>ConnectionError\<close> without changing anything, and no
  event writes a line.\<close>

theorem paused_silence:
  assumes "conn_reachable c" and "cn_paused c"
  shows "cn_queue c = [] \<and> conn_send m p c = (c, Some ConnectionError) \<and>
    (conn_step c e c' \<longrightarrow> cn_written c' = cn_written c)"
proof -
  have q: "cn_queue c = []" using conn_reachable_inv [OF assms(1)] assms(2) by (simp add: conn_inv_def)
  have "cn_written c' = cn_written c" if "conn_step c e c'"
    using that q assms(2) by (cases rule: conn_step.cases) (auto simp: conn_defs Let_def split: if_splits)
  then show ?thesis using q assms(2) by (simp add: conn_send_def)
qed

theorem paused_silence_witness:
  "conn_send (as_encode) False (conn_pause (transport_open connection_init)) =
    (conn_pause (transport_open connection_init), Some ConnectionError)"
proof -
  have "conn_reachable (transport_open connection_init)"
    by (rule reach_step [OF reach_init step_open]) (simp_all add: connection_init_def)
  then have "conn_reachable (conn_pause (transport_open connection_init))"
    by (rule reach_step [OF _ step_pause])
  from paused_silence [OF this] show ?thesis by (simp add: conn_pause_def)
qed

text \<open>C6. Strict request and reply: when the write task takes a request that wants a reply from the
  queue, it writes that line, awaits that reply, and writes no other line until it has seen the reply
  or the timeout, or the transport is closed, whatever else happens in between.\<close>

theorem one_request_at_a_time:
  assumes "write_turn c = Some c1" and "cn_queue c = q # qs" and "wants_reply q" and "cn_writer c"
    and "conn_run c1 es c'" and "set es \<inter> {Ev_reply, Ev_timeout, Ev_close, Ev_disconnect} = {}"
  shows "cn_task c' = Waiting_reply \<and> cn_written c' = cn_written c @ [wire_line (qw_msg q)] \<and>
    cn_awaiting c' = qw_response_cmd q"
proof -
  have "cn_task c1 = Waiting_reply \<and> cn_written c1 = cn_written c @ [wire_line (qw_msg q)] \<and>
    cn_awaiting c1 = qw_response_cmd q"
    using assms(1-4) by (auto simp: write_turn_def Let_def split: if_splits)
  then show ?thesis using waiting_run [OF assms(5) _ assms(6)] by simp
qed

theorem one_request_at_a_time_witness:
  "\<exists>c'. conn_run (transport_open connection_init) [Ev_send as_encode False, Ev_write, Ev_send zs_encode False] c' \<and>
    cn_task c' = Waiting_reply \<and> cn_written c' = [wire_line (me_message as_encode)]"
proof -
  let ?c = "fst (conn_send as_encode False (transport_open connection_init))"
  let ?q = "\<lparr>qw_msg = me_message as_encode, qw_response_cmd = me_response_command as_encode\<rparr>"
  obtain c1 where w: "write_turn ?c = Some c1"
    by (cases "write_turn ?c") (auto simp: write_turn_def transport_open_def connection_init_def conn_send_def
      queue_write_def Let_def split: if_splits)
  have q: "cn_queue ?c = [?q]" "wants_reply ?q" "cn_writer ?c"
    by (simp_all add: transport_open_def connection_init_def conn_send_def queue_write_def wants_reply_def as_encode_def message_of_def)
  have r: "conn_run c1 [Ev_send zs_encode False] (fst (conn_send zs_encode False c1))"
    by (rule run_cons [OF step_send run_nil])
  have "conn_run (transport_open connection_init) [Ev_send as_encode False, Ev_write, Ev_send zs_encode False]
      (fst (conn_send zs_encode False c1))"
    by (rule run_cons [OF step_send run_cons [OF step_write [OF w] r]])
  moreover have "cn_written ?c = []"
    by (simp add: transport_open_def connection_init_def conn_send_def queue_write_def)
  ultimately show ?thesis using one_request_at_a_time [OF w q r] by auto
qed

text \<open>Nothing is lost, repeated or reordered: on an open, unpaused connection, over any
  history of sends, write turns, frames, replies and timeouts, the lines written followed by the
  lines still queued are the old ones followed by exactly the sent ones, in the order they were
  sent.\<close>

theorem queue_is_fifo:
  assumes "conn_run c es c'" and "list_all steady es" and "cn_writer c" and "\<not> cn_paused c"
  shows "cn_written c' @ queued_lines c' = cn_written c @ queued_lines c @ sent_lines es"
  by (rule steady_run [OF assms])

theorem queue_is_fifo_witness:
  "\<exists>c'. conn_run (transport_open connection_init) [Ev_send as_encode False, Ev_send zs_encode False] c' \<and>
    cn_written c' @ queued_lines c' = [wire_line (me_message as_encode), wire_line (me_message zs_encode)]"
proof -
  let ?c = "transport_open connection_init"
  let ?d = "fst (conn_send zs_encode False (fst (conn_send as_encode False ?c)))"
  have "conn_run ?c [Ev_send as_encode False, Ev_send zs_encode False] ?d"
    by (rule run_cons [OF step_send run_cons [OF step_send run_nil]])
  from queue_is_fifo [OF this] this show ?thesis
    by (intro exI [of _ ?d]) (simp add: transport_open_def connection_init_def queued_lines_def)
qed

text \<open>The queue always drains: on an open connection whose write task is at its loop, with
  every reply lost, a number of turns bounded by twice the queue writes every queued line, in
  order, and leaves the queue empty.\<close>

theorem queue_drains:
  assumes "cn_writer c" and "cn_task c = At_loop"
  shows "\<exists>c' es. conn_run c es c' \<and> length es \<le> 2 * length (cn_queue c) \<and>
    set es \<subseteq> {Ev_write, Ev_timeout} \<and> cn_queue c' = [] \<and> cn_written c' = cn_written c @ queued_lines c"
  by (rule drain [OF assms])

theorem queue_drains_witness:
  "\<exists>c' es. conn_run (fst (conn_send as_encode False (transport_open connection_init))) es c' \<and>
    cn_queue c' = [] \<and> cn_written c' = [wire_line (me_message as_encode)]"
proof -
  let ?c = "fst (conn_send as_encode False (transport_open connection_init))"
  have "cn_writer ?c" "cn_task ?c = At_loop" "cn_written ?c @ queued_lines ?c = [wire_line (me_message as_encode)]"
    by (simp_all add: conn_send_def queue_write_def transport_open_def connection_init_def queued_lines_def)
  with queue_drains [of ?c] show ?thesis by fastforce
qed

section \<open>What a transport failure leaves behind\<close>

text \<open>
  The line that goes out carries two checksums: \<open>_finalize\<close> has already appended one when
  \<open>write_msg\<close> appends another, so the text before the line end is not a frame the code's own
  validator accepts.
\<close>

lemma wire_line_not_valid:
  assumes "length s \<le> 249"
  shows "is_valid_length_and_checksum (finalize s @ checksum (finalize s)) = Bad_length"
proof -
  let ?ll = "fmt_hex2 (length s + 4)"
  obtain mid where mid: "finalize s = ?ll @ mid" "length mid = length s + 4"
    using finalize_parts [of s] by auto
  have "is_valid_length_and_checksum (?ll @ mid @ checksum (finalize s)) = Bad_length"
    using assms mid(2)
    by (subst is_valid_parts [OF py_int_fmt_hex2 _ parse_checksum length_checksum])
      (simp_all add: length_fmt_hex2)
  then show ?thesis by (simp add: mid(1))
qed

text \<open>
  A close keeps the queue and the awaited command: a command queued before the transport failed
  goes out after the reconnection, and a frame of the next session can answer the next request
  before it was written.
\<close>

lemma queue_survives_close:
  "cn_queue (transport_open (transport_close c)) = cn_queue c \<and>
   cn_awaiting (transport_open (transport_close c)) = cn_awaiting c"
  by (simp add: transport_open_def transport_close_def)

lemma stale_reply_accepted:
  assumes "cn_awaiting c = Some r"
  shows "cn_response (frame_received r (transport_open (transport_close c)))"
  using assms by (simp add: frame_received_def transport_open_def transport_close_def)

end
