(* ===== verification/Elk_Elements.thy ===== *)
theory Elk_Elements
  imports Elk_Connection
begin

text \<open>
  \<open>helpers/elk/elements.py\<close>: the state every panel element has (attributes, pending changes,
  callbacks), the collections, and the state of the hub that holds them. The public attributes of a
  Python element are a map from names to values, because \<open>setattr\<close> of the code is dynamic: it
  compares, stores and reports whatever attribute it is given.
\<close>

section \<open>Attribute values\<close>

datatype (discs_sels) pyval =
    V_none
  | V_bool bool
  | V_int int
  | V_rat rat
  | V_str string
  | V_armed armed_status
  | V_arm_up arm_up_state
  | V_alarm alarm_state
  | V_zone_type zone_type
  | V_logical zone_logical_status
  | V_physical zone_physical_status
  | V_tmode thermostat_mode
  | V_tfan thermostat_fan
  | V_format setting_format
  | V_rp elk_rp_status
  | V_fkey function_keys
  | V_time nat
  | V_hour_minute int int
  | V_named_key string int
  | V_named_fkey string function_keys
  | V_named_chime string chime_mode
  | V_log log_entry "int option"

text \<open>Python's \<open>==\<close>: booleans, integers and quotients compare as numbers (\<open>0 == False == 0.0\<close>).\<close>

fun numeric :: "pyval \<Rightarrow> rat option" where
  "numeric (V_bool b) = Some (if b then 1 else 0)"
| "numeric (V_int i) = Some (rat_of_int i)"
| "numeric (V_rat r) = Some r"
| "numeric _ = None"

definition py_eq :: "pyval \<Rightarrow> pyval \<Rightarrow> bool" where
  "py_eq a b = (case (numeric a, numeric b) of (Some x, Some y) \<Rightarrow> x = y | _ \<Rightarrow> a = b)"

lemma py_eq_refl [simp]: "py_eq v v"
  by (simp add: py_eq_def split: option.splits)

lemma py_eq_sym: "py_eq a b \<Longrightarrow> py_eq b a"
  by (auto simp: py_eq_def split: option.splits)

section \<open>Elements\<close>

datatype kind =
  K_area | K_counter | K_keypad | K_light | K_output | K_setting | K_task | K_thermostat | K_user | K_zone

text \<open>
  Callbacks are the integration's functions: an observer is a number, and a call of it is an entry
  of \<open>el_calls\<close>, with the changes it was given.
\<close>

record element =
  el_index :: nat
  el_attrs :: "string \<Rightarrow> pyval option"
  el_observers :: "nat list"
  el_changeset :: "(string \<times> pyval) list"
  el_configured :: bool
  el_calls :: "(nat \<times> (string \<times> pyval) list) list"

definition add_callback :: "nat \<Rightarrow> element \<Rightarrow> element" where
  "add_callback observer e = e\<lparr>el_observers := el_observers e @ [observer]\<rparr>"

definition remove_callback :: "nat \<Rightarrow> element \<Rightarrow> element" where
  "remove_callback observer e =
     (if observer \<in> set (el_observers e) then e\<lparr>el_observers := remove1 observer (el_observers e)\<rparr> else e)"

definition notify_element :: "element \<Rightarrow> element" where
  "notify_element e =
     e\<lparr>el_calls := el_calls e @ map (\<lambda>observer. (observer, el_changeset e)) (el_observers e),
       el_changeset := []\<rparr>"

definition get_attr :: "element \<Rightarrow> string \<Rightarrow> pyval" where
  "get_attr e attr = (case el_attrs e attr of None \<Rightarrow> V_none | Some v \<Rightarrow> v)"

text \<open>The dictionary update \<open>self._changeset[attr] = new_value\<close>.\<close>

fun dict_set :: "string \<Rightarrow> pyval \<Rightarrow> (string \<times> pyval) list \<Rightarrow> (string \<times> pyval) list" where
  "dict_set k v [] = [(k, v)]"
| "dict_set k v ((k', v') # kvs) = (if k' = k then (k, v) # kvs else (k', v') # dict_set k v kvs)"

definition set_attr :: "string \<Rightarrow> pyval \<Rightarrow> bool \<Rightarrow> element \<Rightarrow> element" where
  "set_attr attr new_value close_the_changeset e =
     (let existing_value = get_attr e attr;
          e = (if \<not> py_eq existing_value new_value
               then e\<lparr>el_attrs := (el_attrs e)(attr \<mapsto> new_value),
                      el_changeset := dict_set attr new_value (el_changeset e)\<rparr>
               else e)
      in if close_the_changeset \<and> el_changeset e \<noteq> [] then notify_element e else e)"

text \<open>A plain attribute assignment, without change tracking.\<close>

definition put_attr :: "string \<Rightarrow> pyval \<Rightarrow> element \<Rightarrow> element" where
  "put_attr attr v e = e\<lparr>el_attrs := (el_attrs e)(attr \<mapsto> v)\<rparr>"

primrec class_name :: "kind \<Rightarrow> string" where
  "class_name K_area = ''Area''"
| "class_name K_counter = ''Counter''"
| "class_name K_keypad = ''Keypad''"
| "class_name K_light = ''Light''"
| "class_name K_output = ''Output''"
| "class_name K_setting = ''Setting''"
| "class_name K_task = ''Task''"
| "class_name K_thermostat = ''Thermostat''"
| "class_name K_user = ''User''"
| "class_name K_zone = ''Zone''"

definition default_name :: "kind \<Rightarrow> nat \<Rightarrow> string" where
  "default_name k i = class_name k @ ''-'' @ fmt_dec 3 (int i + 1)"

definition is_default_name :: "kind \<Rightarrow> element \<Rightarrow> bool" where
  "is_default_name k e = (get_attr e ''name'' = V_str (default_name k (el_index e)))"

definition new_element :: "nat \<Rightarrow> (string \<times> pyval) list \<Rightarrow> element" where
  "new_element i attrs =
     \<lparr>el_index = i, el_attrs = map_of attrs, el_observers = [], el_changeset = [],
      el_configured = False, el_calls = []\<rparr>"

text \<open>The attributes each class sets in its constructor (the keypad's clock is read at creation).\<close>

definition area_attrs :: "(string \<times> pyval) list" where
  "area_attrs =
     [(''armed_status'', V_none), (''arm_up_state'', V_none), (''alarm_state'', V_none),
      (''alarm_memory'', V_bool False), (''is_exit'', V_bool False), (''timer1'', V_int 0),
      (''timer2'', V_int 0), (''last_log'', V_none), (''chime_mode'', V_none)]"

definition keypad_attrs :: "nat \<Rightarrow> (string \<times> pyval) list" where
  "keypad_attrs now =
     [(''area'', V_int (-1)), (''temperature'', V_int (-40)), (''last_user_time'', V_time now),
      (''last_user'', V_int (-1)), (''code'', V_str ''''), (''last_keypress'', V_none),
      (''last_function_key'', V_fkey FKey_FORCE_KF_SYNC)]"

definition setting_attrs :: "(string \<times> pyval) list" where
  "setting_attrs = [(''value_format'', V_format SFmt_NUMBER), (''value'', V_none)]"

definition thermostat_attrs :: "(string \<times> pyval) list" where
  "thermostat_attrs =
     [(''mode'', V_none), (''hold'', V_bool False), (''fan'', V_none), (''current_temp'', V_int 0),
      (''heat_setpoint'', V_int 0), (''cool_setpoint'', V_int 0), (''humidity'', V_int 0)]"

definition zone_attrs :: "(string \<times> pyval) list" where
  "zone_attrs =
     [(''definition'', V_zone_type ZT_DISABLED), (''logical_status'', V_logical ZL_NORMAL),
      (''physical_status'', V_physical ZP_UNCONFIGURED), (''area'', V_int (-1)),
      (''voltage'', V_int 0), (''temperature'', V_int (-60)), (''triggered_alarm'', V_bool False)]"

definition class_attrs :: "nat \<Rightarrow> kind \<Rightarrow> (string \<times> pyval) list" where
  "class_attrs now k =
     (case k of
        K_area \<Rightarrow> area_attrs
      | K_counter \<Rightarrow> [(''value'', V_none)]
      | K_keypad \<Rightarrow> keypad_attrs now
      | K_light \<Rightarrow> [(''status'', V_int 0)]
      | K_output \<Rightarrow> [(''output_on'', V_bool False)]
      | K_setting \<Rightarrow> setting_attrs
      | K_task \<Rightarrow> [(''last_change'', V_none)]
      | K_thermostat \<Rightarrow> thermostat_attrs
      | K_user \<Rightarrow> []
      | K_zone \<Rightarrow> zone_attrs)"

section \<open>Collections and the hub\<close>

record coll =
  co_elements :: "element list"
  co_text_desc :: "text_description option"

primrec max_elements :: "kind \<Rightarrow> nat" where
  "max_elements K_area = MAX_AREAS"
| "max_elements K_counter = MAX_COUNTERS"
| "max_elements K_keypad = MAX_KEYPADS"
| "max_elements K_light = MAX_LIGHTS"
| "max_elements K_output = MAX_OUTPUTS"
| "max_elements K_setting = MAX_SETTINGS"
| "max_elements K_task = MAX_TASKS"
| "max_elements K_thermostat = MAX_THERMOSTATS"
| "max_elements K_user = MAX_USERS"
| "max_elements K_zone = MAX_ZONES"

definition new_coll :: "nat \<Rightarrow> kind \<Rightarrow> coll" where
  "new_coll now k =
     \<lparr>co_elements =
        map (\<lambda>i. new_element i ((''name'', V_str (default_name k i)) # class_attrs now k)) [0..<max_elements k],
      co_text_desc = None\<rparr>"

text \<open>
  The bound methods that are ever attached to the notifier. A handler is a value: the notifier
  compares handlers to avoid a second registration.
\<close>

datatype handler =
    H_connected | H_disconnected | H_login_status | H_call_sync_handlers | H_got_first_message
  | H_sync_complete
  | H_sd kind
  | H_am | H_as | H_ee | H_area_kf | H_ld
  | H_cv
  | H_ic | H_ka | H_kc | H_keypad_kf | H_keypad_lw | H_keypad_st
  | H_pc | H_ps
  | H_cc | H_cs
  | H_vn | H_xk | H_rp | H_ss | H_ua
  | H_cr
  | H_tc
  | H_thermostat_st | H_tr
  | H_az | H_zone_lw | H_zone_st | H_zb | H_zc | H_zd | H_zp | H_zs | H_zv

text \<open>
  \<open>hb_now\<close> is the clock; \<open>hb_notified\<close> logs the notifications the hub itself raises
  (\<open>sync_complete\<close>, \<open>disconnected\<close>, \<open>login\<close>), which the integration observes.
\<close>

record hub =
  hb_colls :: "kind \<Rightarrow> coll"
  hb_panel :: element
  hb_conn :: connection
  hb_logged_in :: bool
  hb_handlers :: "string \<Rightarrow> handler list"
  hb_now :: nat
  hb_notified :: "string list"

definition elems :: "hub \<Rightarrow> kind \<Rightarrow> element list" where
  "elems h k = co_elements (hb_colls h k)"

definition map_elem :: "kind \<Rightarrow> nat \<Rightarrow> (element \<Rightarrow> element) \<Rightarrow> hub \<Rightarrow> hub" where
  "map_elem k j f h =
     h\<lparr>hb_colls := (hb_colls h)(k := (hb_colls h k)
         \<lparr>co_elements := (co_elements (hb_colls h k))[j := f (co_elements (hb_colls h k) ! j)]\<rparr>)\<rparr>"

definition set_text_desc :: "kind \<Rightarrow> text_description option \<Rightarrow> hub \<Rightarrow> hub" where
  "set_text_desc k d h = h\<lparr>hb_colls := (hb_colls h)(k := (hb_colls h k)\<lparr>co_text_desc := d\<rparr>)\<rparr>"

section \<open>Statements over the hub\<close>

text \<open>\<open>self._connection.send(...)\<close>.\<close>

definition hub_send :: "message_encode \<Rightarrow> bool \<Rightarrow> hub stmt" where
  "hub_send m priority_send h =
     (case conn_send m priority_send (hb_conn h) of (c, err) \<Rightarrow> (h\<lparr>hb_conn := c\<rparr>, err))"

text \<open>\<open>self.elements[i]\<close> with the index rules of Python, then the rest of the handler.\<close>

definition with_elem :: "kind \<Rightarrow> int \<Rightarrow> (nat \<Rightarrow> hub stmt) \<Rightarrow> hub stmt" where
  "with_elem k i body =
     eval_then (\<lambda>h. of_option IndexError (py_pos (length (elems h k)) i)) body"

definition elem_set :: "kind \<Rightarrow> nat \<Rightarrow> string \<Rightarrow> pyval \<Rightarrow> bool \<Rightarrow> hub stmt" where
  "elem_set k j attr v close = update_st (map_elem k j (set_attr attr v close))"

text \<open>\<open>for element in self.elements: ...\<close>; the body is given the position and the element's index.\<close>

definition each_elem :: "kind \<Rightarrow> (nat \<Rightarrow> int \<Rightarrow> hub stmt) \<Rightarrow> hub stmt" where
  "each_elem k body h =
     for_each [0..<length (elems h k)] (\<lambda>j h. body j (int (el_index (elems h k ! j))) h) h"

text \<open>\<open>xs[i]\<close> in a handler.\<close>

definition with_item :: "'a list \<Rightarrow> int \<Rightarrow> ('a \<Rightarrow> hub stmt) \<Rightarrow> hub stmt" where
  "with_item xs i body = eval_then (\<lambda>h. py_index xs i) body"

definition panel_set :: "string \<Rightarrow> pyval \<Rightarrow> bool \<Rightarrow> hub stmt" where
  "panel_set attr v close = update_st (\<lambda>h. h\<lparr>hb_panel := set_attr attr v close (hb_panel h)\<rparr>)"

end
