(* ===== verification/Elk_Hub.thy ===== *)
theory Elk_Hub
  imports Elk_Elements
begin

text \<open>
  The panel model: the notifier (\<open>helpers/elk/notify.py\<close>), every message handler of the element
  collections and of the panel, the synchronisation requests, and the hub (\<open>helpers/elk/hub.py\<close>)
  that ties them together. A handler is a statement over the hub; an exception ends the handler,
  keeps what it has already changed, and is caught by the notifier.
\<close>

section \<open>Registration\<close>

definition attach :: "string \<Rightarrow> handler \<Rightarrow> hub \<Rightarrow> hub" where
  "attach notify_type hnd h =
     (if hnd \<in> set (hb_handlers h notify_type) then h
      else h\<lparr>hb_handlers := (hb_handlers h)(notify_type := hb_handlers h notify_type @ [hnd])\<rparr>)"

definition detach :: "string \<Rightarrow> handler \<Rightarrow> hub \<Rightarrow> hub" where
  "detach notify_type hnd h =
     (if hnd \<in> set (hb_handlers h notify_type)
      then h\<lparr>hb_handlers := (hb_handlers h)(notify_type := remove1 hnd (hb_handlers h notify_type))\<rparr>
      else h)"

text \<open>The registrations of the constructors, in their order.\<close>

definition registrations :: "(string \<times> handler) list" where
  "registrations =
     [(''connected'', H_connected), (''disconnected'', H_disconnected), (''login'', H_login_status),
      (''IE'', H_call_sync_handlers), (''VN'', H_got_first_message),
      (''SD'', H_sd K_area), (''AM'', H_am), (''AS'', H_as), (''EE'', H_ee), (''KF'', H_area_kf), (''LD'', H_ld),
      (''SD'', H_sd K_counter), (''CV'', H_cv),
      (''SD'', H_sd K_keypad), (''IC'', H_ic), (''KA'', H_ka), (''KC'', H_kc), (''KF'', H_keypad_kf),
      (''LW'', H_keypad_lw), (''ST'', H_keypad_st),
      (''SD'', H_sd K_light), (''PC'', H_pc), (''PS'', H_ps),
      (''SD'', H_sd K_output), (''CC'', H_cc), (''CS'', H_cs),
      (''VN'', H_vn), (''XK'', H_xk), (''RR'', H_xk), (''RP'', H_rp), (''SS'', H_ss), (''UA'', H_ua),
      (''SD'', H_sd K_setting), (''CR'', H_cr),
      (''SD'', H_sd K_task), (''TC'', H_tc),
      (''SD'', H_sd K_thermostat), (''ST'', H_thermostat_st), (''TR'', H_tr),
      (''SD'', H_sd K_user),
      (''SD'', H_sd K_zone), (''AZ'', H_az), (''LW'', H_zone_lw), (''ST'', H_zone_st), (''ZB'', H_zb),
      (''ZC'', H_zc), (''ZD'', H_zd), (''ZP'', H_zp), (''ZS'', H_zs), (''ZV'', H_zv)]"

definition panel_attrs :: "(string \<times> pyval) list" where
  "panel_attrs =
     [(''name'', V_str ''ElkM1''), (''real_time_clock'', V_none), (''elkm1_version'', V_none),
      (''xep_version'', V_none), (''remote_programming_status'', V_int 0),
      (''system_trouble_status'', V_str ''''), (''temperature_units'', V_none),
      (''user_code_length'', V_none)]"

definition hub_init :: "nat \<Rightarrow> hub" where
  "hub_init now =
     fold (\<lambda>(ty, hnd). attach ty hnd) registrations
       \<lparr>hb_colls = new_coll now, hb_panel = (new_element 0 panel_attrs)\<lparr>el_configured := True\<rparr>,
        hb_conn = connection_init, hb_logged_in = False, hb_handlers = (\<lambda>_. []), hb_now = now,
        hb_notified = []\<rparr>"

section \<open>Names\<close>

text \<open>\<open>re.match(r"USER \d\d\d$", desc)\<close>.\<close>

definition is_default_user :: "string \<Rightarrow> bool" where
  "is_default_user desc =
     (take 5 desc = ''USER '' \<and> list_all is_digit (take 3 (drop 5 desc)) \<and>
      length desc \<ge> 8 \<and> drop 8 desc \<in> {[], [CHR 0x0A]})"

definition get_descriptions :: "kind \<Rightarrow> text_descriptions \<Rightarrow> hub stmt" where
  "get_descriptions k t =
     (let text_desc = text_desc_value t
      in seq [update_st (set_text_desc k (Some text_desc)), hub_send (sd_encode (td_type text_desc) 0) False])"

text \<open>\<open>_configured_was_set\<close>: counters and thermostats ask for their value at once.\<close>

definition configured_was_set :: "kind \<Rightarrow> nat \<Rightarrow> hub stmt" where
  "configured_was_set k j h =
     (let index = int (el_index (elems h k ! j))
      in case k of
           K_counter \<Rightarrow> hub_send (cv_encode index) True h
         | K_thermostat \<Rightarrow> hub_send (tr_encode index) True h
         | _ \<Rightarrow> skip h)"

definition set_configured :: "kind \<Rightarrow> nat \<Rightarrow> hub stmt" where
  "set_configured k j = update_st (map_elem k j (\<lambda>e. e\<lparr>el_configured := True\<rparr>))"

definition sd_handler :: "kind \<Rightarrow> int \<Rightarrow> int \<Rightarrow> string \<Rightarrow> bool \<Rightarrow> hub stmt" where
  "sd_handler k desc_type unit desc show_on_keypad h =
     (case co_text_desc (hb_colls h k) of
        None \<Rightarrow> skip h
      | Some td \<Rightarrow>
          if desc_type \<noteq> td_type td then skip h
          else if unit < 0 \<or> unit \<ge> td_count td then update_st (set_text_desc k None) h
          else seq
            [when_st (\<lambda>_. desc_type \<noteq> td_type (text_desc_value TD_USER) \<or> \<not> is_default_user desc)
               (with_elem k unit (\<lambda>j. seq
                  [elem_set k j ''name'' (V_str desc) True, set_configured k j, configured_was_set k j])),
             hub_send (sd_encode desc_type (unit + 1)) True] h)"

section \<open>Areas\<close>

definition am_handler :: "bool list \<Rightarrow> hub stmt" where
  "am_handler alarm_memory =
     each_elem K_area (\<lambda>j i. with_item alarm_memory i (\<lambda>b.
       elem_set K_area j ''alarm_memory'' (V_bool b) True))"

text \<open>A hub statement inside a loop that also carries a local flag.\<close>

definition on_hub :: "hub stmt \<Rightarrow> (hub \<times> bool) stmt" where
  "on_hub a s = (case a (fst s) of (h, err) \<Rightarrow> ((h, snd s), err))"

definition as_area :: "armed_status list \<Rightarrow> arm_up_state list \<Rightarrow> alarm_state list \<Rightarrow> nat \<Rightarrow> (hub \<times> bool) stmt" where
  "as_area armed_statuses arm_up_states alarm_states j s =
     (let i = int (el_index (elems (fst s) K_area ! j))
      in seq
        [on_hub (with_item armed_statuses i (\<lambda>v. elem_set K_area j ''armed_status'' (V_armed v) False)),
         on_hub (with_item arm_up_states i (\<lambda>v. elem_set K_area j ''arm_up_state'' (V_arm_up v) False)),
         (\<lambda>s. eval_then (\<lambda>_. py_index alarm_states i) (\<lambda>v.
            update_st (\<lambda>(h, update_alarm_triggers).
              (h, update_alarm_triggers \<or>
                  \<not> py_eq (get_attr (elems h K_area ! j) ''alarm_state'') (V_alarm v) \<or>
                  v \<noteq> Alarm_NO_ALARM_ACTIVE))) s),
         on_hub (with_item alarm_states i (\<lambda>v. elem_set K_area j ''alarm_state'' (V_alarm v) True))] s)"

definition as_handler :: "armed_status list \<Rightarrow> arm_up_state list \<Rightarrow> alarm_state list \<Rightarrow> hub stmt" where
  "as_handler armed_statuses arm_up_states alarm_states h =
     (case for_each [0..<length (elems h K_area)] (as_area armed_statuses arm_up_states alarm_states) (h, False) of
        ((h, update_alarm_triggers), None) \<Rightarrow>
          if update_alarm_triggers then hub_send az_encode False h else (h, None)
      | ((h, _), Some e) \<Rightarrow> (h, Some e))"

definition ee_handler :: "int \<Rightarrow> bool \<Rightarrow> int \<Rightarrow> int \<Rightarrow> armed_status \<Rightarrow> hub stmt" where
  "ee_handler area is_exit timer1 timer2 armed_status =
     with_elem K_area area (\<lambda>j. seq
       [elem_set K_area j ''armed_status'' (V_armed armed_status) False,
        elem_set K_area j ''timer1'' (V_int timer1) False,
        elem_set K_area j ''timer2'' (V_int timer2) False,
        elem_set K_area j ''is_exit'' (V_bool is_exit) True])"

definition ld_handler :: "int \<Rightarrow> log_entry \<Rightarrow> hub stmt" where
  "ld_handler area entry =
     (let user_number = (if le_event entry \<in> {1173, 1174} then Some (le_number entry) else None)
      in with_elem K_area area (\<lambda>j. elem_set K_area j ''last_log'' (V_log entry user_number) True))"

definition area_kf_handler :: "chime_mode list \<Rightarrow> hub stmt" where
  "area_kf_handler chime_modes =
     for_each (zip [0..<length chime_modes] chime_modes) (\<lambda>(area, mode).
       with_elem K_area (int area) (\<lambda>j.
         elem_set K_area j ''chime_mode'' (V_named_chime (chime_mode_name mode) mode) True))"

section \<open>Counters, lights, outputs, settings, tasks, thermostats\<close>

definition cv_handler :: "int \<Rightarrow> int \<Rightarrow> hub stmt" where
  "cv_handler counter val =
     with_elem K_counter counter (\<lambda>j. elem_set K_counter j ''value'' (V_int val) True)"

definition pc_handler :: "int \<Rightarrow> int \<Rightarrow> hub stmt" where
  "pc_handler index light_level =
     with_elem K_light index (\<lambda>j. elem_set K_light j ''status'' (V_int light_level) True)"

definition ps_handler :: "int \<Rightarrow> int list \<Rightarrow> hub stmt" where
  "ps_handler bank statuses =
     for_each (map (\<lambda>n. bank * 64 + int n) [0..<64]) (\<lambda>i.
       with_elem K_light i (\<lambda>j. with_item statuses (i - bank * 64) (\<lambda>v.
         elem_set K_light j ''status'' (V_int v) True)))"

definition cc_handler :: "int \<Rightarrow> bool \<Rightarrow> hub stmt" where
  "cc_handler output output_status =
     with_elem K_output output (\<lambda>j. elem_set K_output j ''output_on'' (V_bool output_status) True)"

definition cs_handler :: "bool list \<Rightarrow> hub stmt" where
  "cs_handler output_status =
     each_elem K_output (\<lambda>j i. with_item output_status i (\<lambda>b.
       elem_set K_output j ''output_on'' (V_bool b) True))"

fun setting_pyval :: "setting_value \<Rightarrow> pyval" where
  "setting_pyval (Plain v) = V_int v"
| "setting_pyval (Time_of_day hr mi) = V_hour_minute hr mi"

definition cr_handler :: "custom_value list \<Rightarrow> hub stmt" where
  "cr_handler vals =
     for_each vals (\<lambda>v. with_elem K_setting (cvd_index v) (\<lambda>j. seq
       [elem_set K_setting j ''value_format'' (V_format (cvd_format v)) False,
        elem_set K_setting j ''value'' (setting_pyval (cvd_value v)) True]))"

definition tc_handler :: "int \<Rightarrow> hub stmt" where
  "tc_handler task h =
     with_elem K_task task (\<lambda>j. elem_set K_task j ''last_change'' (V_time (hb_now h)) True) h"

text \<open>The temperature handlers of zones, keypads and thermostats.\<close>

definition st_handler :: "kind \<Rightarrow> int \<Rightarrow> string \<Rightarrow> int \<Rightarrow> int \<Rightarrow> int \<Rightarrow> hub stmt" where
  "st_handler k my_group attr grp device temperature =
     when_st (\<lambda>_. grp = my_group) (with_elem k device (\<lambda>j. elem_set k j attr (V_int temperature) True))"

definition tr_handler ::
  "int \<Rightarrow> thermostat_mode \<Rightarrow> bool \<Rightarrow> thermostat_fan \<Rightarrow> int \<Rightarrow> int \<Rightarrow> int \<Rightarrow> int \<Rightarrow> hub stmt" where
  "tr_handler thermostat_index mode hold fan current_temp heat_setpoint cool_setpoint humidity =
     with_elem K_thermostat thermostat_index (\<lambda>j. seq
       [elem_set K_thermostat j ''mode'' (V_tmode mode) False,
        elem_set K_thermostat j ''hold'' (V_bool hold) False,
        elem_set K_thermostat j ''fan'' (V_tfan fan) False,
        elem_set K_thermostat j ''current_temp'' (V_int current_temp) False,
        elem_set K_thermostat j ''heat_setpoint'' (V_int heat_setpoint) False,
        elem_set K_thermostat j ''cool_setpoint'' (V_int cool_setpoint) False,
        elem_set K_thermostat j ''humidity'' (V_int humidity) True])"

section \<open>Keypads\<close>

definition ic_handler :: "string \<Rightarrow> int \<Rightarrow> int \<Rightarrow> hub stmt" where
  "ic_handler code user keypad h =
     with_elem K_keypad keypad (\<lambda>j. seq
       [elem_set K_keypad j ''last_user_time'' (V_time (hb_now h)) False,
        elem_set K_keypad j ''code'' (V_str (if user < 0 then code else ''****'')) False,
        elem_set K_keypad j ''last_user'' (V_int user) True]) h"

definition ka_handler :: "int list \<Rightarrow> hub stmt" where
  "ka_handler keypad_areas =
     each_elem K_keypad (\<lambda>j i. with_item keypad_areas i (\<lambda>a.
       when_st (\<lambda>_. a \<ge> 0) (elem_set K_keypad j ''area'' (V_int a) True)))"

definition kc_handler :: "int \<Rightarrow> int \<Rightarrow> hub stmt" where
  "kc_handler keypad key =
     (if key = keypad_keys_value Key_NO_KEY then skip
      else with_elem K_keypad keypad (\<lambda>j. seq
        [update_st (map_elem K_keypad j (put_attr ''last_keypress'' V_none)),
         elem_set K_keypad j ''last_keypress''
           (V_named_key (case enum_lookup keypad_keys_members keypad_keys_value key of
                           Inr k \<Rightarrow> keypad_keys_name k | Inl _ \<Rightarrow> []) key) True]))"

definition keypad_kf_handler :: "int \<Rightarrow> function_keys \<Rightarrow> hub stmt" where
  "keypad_kf_handler keypad key =
     with_elem K_keypad keypad (\<lambda>j. seq
       [update_st (map_elem K_keypad j (put_attr ''last_function_key'' (V_fkey FKey_FORCE_KF_SYNC))),
        elem_set K_keypad j ''last_function_key'' (V_named_fkey (function_keys_name key) key) True])"

definition keypad_lw_handler :: "int list \<Rightarrow> hub stmt" where
  "keypad_lw_handler keypad_temps =
     each_elem K_keypad (\<lambda>j i. with_item keypad_temps i (\<lambda>t.
       when_st (\<lambda>_. t > -40) (elem_set K_keypad j ''temperature'' (V_int t) True)))"

section \<open>Zones\<close>

definition az_handler :: "zone_alarm_state list \<Rightarrow> hub stmt" where
  "az_handler alarm_status =
     each_elem K_zone (\<lambda>j i. with_item alarm_status i (\<lambda>s.
       elem_set K_zone j ''triggered_alarm'' (V_bool (s \<noteq> ZA_NO_ALARM)) True))"

definition zone_lw_handler :: "int list \<Rightarrow> hub stmt" where
  "zone_lw_handler zone_temps =
     for_each [0..<16] (\<lambda>i. with_elem K_zone (int i) (\<lambda>j h.
       with_item zone_temps (int (el_index (elems h K_zone ! j))) (\<lambda>t.
         when_st (\<lambda>_. t > -60) (elem_set K_zone j ''temperature'' (V_int t) True)) h))"

definition zb_handler :: "int \<Rightarrow> hub stmt" where
  "zb_handler zone_number =
     when_st (\<lambda>_. zone_number < 0 \<or> zone_number \<ge> int MAX_ZONES) (hub_send zs_encode False)"

definition set_zone_status :: "nat \<Rightarrow> zone_status \<Rightarrow> hub stmt" where
  "set_zone_status j st = seq
     [elem_set K_zone j ''logical_status'' (V_logical (fst st)) False,
      elem_set K_zone j ''physical_status'' (V_physical (snd st)) True]"

definition zc_handler :: "int \<Rightarrow> zone_status \<Rightarrow> hub stmt" where
  "zc_handler zone_number st = with_elem K_zone zone_number (\<lambda>j. set_zone_status j st)"

definition zd_handler :: "zone_type list \<Rightarrow> hub stmt" where
  "zd_handler zone_definitions =
     each_elem K_zone (\<lambda>j i. with_item zone_definitions i (\<lambda>t.
       elem_set K_zone j ''definition'' (V_zone_type t) True))"

definition zp_handler :: "int list \<Rightarrow> hub stmt" where
  "zp_handler zone_partitions =
     each_elem K_zone (\<lambda>j i. with_item zone_partitions i (\<lambda>a.
       elem_set K_zone j ''area'' (V_int a) True))"

definition zs_handler :: "zone_status list \<Rightarrow> hub stmt" where
  "zs_handler zone_statuses =
     each_elem K_zone (\<lambda>j i. with_item zone_statuses i (\<lambda>st. set_zone_status j st))"

definition zv_handler :: "int \<Rightarrow> rat \<Rightarrow> hub stmt" where
  "zv_handler zone_number zone_voltage =
     with_elem K_zone zone_number (\<lambda>j. elem_set K_zone j ''voltage'' (V_rat zone_voltage) True)"

section \<open>The panel\<close>

definition vn_handler :: "string \<Rightarrow> string \<Rightarrow> hub stmt" where
  "vn_handler elkm1_version xep_version = seq
     [panel_set ''elkm1_version'' (V_str elkm1_version) False,
      panel_set ''xep_version'' (V_str xep_version) True]"

definition xk_handler :: "string \<Rightarrow> hub stmt" where
  "xk_handler real_time_clock = panel_set ''real_time_clock'' (V_str real_time_clock) True"

text \<open>The troubles of the status string: its position, its name, whether it carries a zone.\<close>

definition trouble_positions :: "(nat \<times> string \<times> bool) list" where
  "trouble_positions =
     [(0, ''AC Fail'', False), (1, ''Box Tamper'', True), (2, ''Fail To Communicate'', False),
      (3, ''EEProm Memory Error'', False), (4, ''Low Battery Control'', False),
      (5, ''Transmitter Low Battery'', True), (6, ''Over Current'', False),
      (7, ''Telephone Fault'', False), (9, ''Output 2'', False), (10, ''Missing Keypad'', False),
      (11, ''Zone Expander'', False), (12, ''Output Expander'', False),
      (14, ''ELKRP Remote Access'', False), (16, ''Common Area Not Armed'', False),
      (17, ''Flash Memory Error'', False), (18, ''Security Alert'', True),
      (19, ''Serial Port Expander'', False), (20, ''Lost Transmitter'', True),
      (21, ''GE Smoke CleanMe'', False), (22, ''Ethernet'', False),
      (31, ''Display Message In Keypad Line 1'', False),
      (32, ''Display Message In Keypad Line 2'', False), (33, ''Fire'', True)]"

definition get_status :: "string \<Rightarrow> nat \<times> string \<times> bool \<Rightarrow> string list result" where
  "get_status status p =
     (case p of (index, trouble, zone_encoded) \<Rightarrow>
        bindr (item status index) (\<lambda>c.
          if c = CHR ''0'' then Inr []
          else if zone_encoded then Inr [trouble @ '' zone '' @ fmt_dec 0 (int (pyord c) - 48)]
          else Inr [trouble]))"

fun join_strings :: "string \<Rightarrow> string list \<Rightarrow> string" where
  "join_strings sep [] = []"
| "join_strings sep [x] = x"
| "join_strings sep (x # y # zs) = x @ sep @ join_strings sep (y # zs)"

definition trouble_text :: "string \<Rightarrow> string result" where
  "trouble_text status =
     bindr (mapr (get_status status) trouble_positions) (\<lambda>statuses. Inr (join_strings '', '' (concat statuses)))"

definition ss_handler :: "string \<Rightarrow> hub stmt" where
  "ss_handler system_trouble_status =
     eval_then (\<lambda>_. trouble_text system_trouble_status) (\<lambda>t.
       panel_set ''system_trouble_status'' (V_str t) True)"

definition update_conn :: "(connection \<Rightarrow> connection) \<Rightarrow> hub stmt" where
  "update_conn f = update_st (\<lambda>h. h\<lparr>hb_conn := f (hb_conn h)\<rparr>)"

definition rp_handler :: "elk_rp_status \<Rightarrow> hub stmt" where
  "rp_handler status = seq
     [if status = RP_DISCONNECTED then update_conn conn_resume else update_conn conn_pause,
      panel_set ''remote_programming_status'' (V_rp status) True]"

definition ua_handler :: "int \<Rightarrow> string \<Rightarrow> hub stmt" where
  "ua_handler user_code_length temperature_units = seq
     [panel_set ''user_code_length'' (V_int user_code_length) False,
      panel_set ''temperature_units'' (V_str temperature_units) True]"

section \<open>Synchronisation\<close>

definition panel_sync :: "hub stmt" where
  "panel_sync = seq [hub_send vn_encode False, hub_send lw_encode False, hub_send ss_encode False]"

definition areas_sync :: "hub stmt" where
  "areas_sync = seq [hub_send as_encode False, get_descriptions K_area TD_AREA]"

definition counters_sync :: "hub stmt" where
  "counters_sync = get_descriptions K_counter TD_COUNTER"

definition keypads_sync :: "hub stmt" where
  "keypads_sync = seq
     [hub_send ka_encode False, get_descriptions K_keypad TD_KEYPAD,
      hub_send (kf_encode 0 FKey_FORCE_KF_SYNC) False]"

definition lights_sync :: "hub stmt" where
  "lights_sync = seq
     [for_each [0..<4] (\<lambda>i. hub_send (ps_encode (int i)) False), get_descriptions K_light TD_LIGHT]"

definition outputs_sync :: "hub stmt" where
  "outputs_sync = seq [hub_send cs_encode False, get_descriptions K_output TD_OUTPUT]"

definition settings_sync :: "hub stmt" where
  "settings_sync = seq [hub_send cp_encode False, get_descriptions K_setting TD_SETTING]"

definition tasks_sync :: "hub stmt" where
  "tasks_sync = get_descriptions K_task TD_TASK"

definition thermostats_sync :: "hub stmt" where
  "thermostats_sync = get_descriptions K_thermostat TD_THERMOSTAT"

definition users_sync :: "hub stmt" where
  "users_sync = get_descriptions K_user TD_USER"

definition zones_sync :: "hub stmt" where
  "zones_sync = seq
     [hub_send az_encode False, hub_send zd_encode False, hub_send zp_encode False,
      hub_send zs_encode False, get_descriptions K_zone TD_ZONE]"

text \<open>The default \<open>element_list\<close>, in its order.\<close>

definition element_list :: "hub stmt list" where
  "element_list =
     [panel_sync, zones_sync, lights_sync, areas_sync, tasks_sync, keypads_sync, outputs_sync,
      thermostats_sync, counters_sync, settings_sync, users_sync]"

definition call_sync_handlers :: "hub stmt" where
  "call_sync_handlers = seq
     ([update_st (attach ''UA'' H_sync_complete)] @ element_list @ [hub_send (ua_encode 0) False])"

section \<open>Dispatch\<close>

type_synonym notifier = "string \<Rightarrow> payload \<Rightarrow> hub \<Rightarrow> hub"

text \<open>The empty parameter dictionary.\<close>

abbreviation no_params :: payload where "no_params \<equiv> P_IE"

definition raise_event :: "notifier \<Rightarrow> string \<Rightarrow> payload \<Rightarrow> hub stmt" where
  "raise_event notify ty p = update_st (\<lambda>h. notify ty p (h\<lparr>hb_notified := hb_notified h @ [ty]\<rparr>))"

definition hub_disconnect :: "notifier \<Rightarrow> hub stmt" where
  "hub_disconnect notify = seq [update_conn conn_disconnect, raise_event notify ''disconnected'' no_params]"

definition login_status :: "notifier \<Rightarrow> bool \<Rightarrow> hub stmt" where
  "login_status notify succeeded = seq
     [update_st (\<lambda>h. h\<lparr>hb_logged_in := succeeded\<rparr>),
      when_st (\<lambda>_. \<not> succeeded) (hub_disconnect notify)]"

definition got_first_message :: "notifier \<Rightarrow> hub stmt" where
  "got_first_message notify =
     when_st (\<lambda>h. \<not> hb_logged_in h) (raise_event notify ''login'' (P_LOGIN True))"

definition sync_complete :: "notifier \<Rightarrow> hub stmt" where
  "sync_complete notify = seq
     [raise_event notify ''sync_complete'' no_params, update_st (detach ''UA'' H_sync_complete)]"

text \<open>
  \<open>observer(**notify_parameters)\<close>: the call of a handler with the parameters of a message; a
  handler that does not take them raises a \<open>TypeError\<close>.
\<close>

definition run_handler :: "notifier \<Rightarrow> handler \<Rightarrow> payload \<Rightarrow> hub stmt" where
  "run_handler notify hnd p =
     (case (hnd, p) of
        (H_connected, P_IE) \<Rightarrow> call_sync_handlers
      | (H_disconnected, P_IE) \<Rightarrow> update_st (\<lambda>h. h\<lparr>hb_logged_in := False\<rparr>)
      | (H_login_status, P_LOGIN succeeded) \<Rightarrow> login_status notify succeeded
      | (H_call_sync_handlers, P_IE) \<Rightarrow> call_sync_handlers
      | (H_got_first_message, _) \<Rightarrow> got_first_message notify
      | (H_sync_complete, _) \<Rightarrow> sync_complete notify
      | (H_sd k, P_SD desc_type unit desc show) \<Rightarrow> sd_handler k desc_type unit desc show
      | (H_am, P_AM alarm_memory) \<Rightarrow> am_handler alarm_memory
      | (H_as, P_AS armed arm_up alarm timer) \<Rightarrow> as_handler armed arm_up alarm
      | (H_ee, P_EE area is_exit t1 t2 armed) \<Rightarrow> ee_handler area is_exit t1 t2 armed
      | (H_area_kf, P_KF keypad key modes) \<Rightarrow> area_kf_handler modes
      | (H_ld, P_LD area entry) \<Rightarrow> ld_handler area entry
      | (H_cv, P_CV counter v) \<Rightarrow> cv_handler counter v
      | (H_ic, P_IC code user keypad) \<Rightarrow> ic_handler code user keypad
      | (H_ka, P_KA areas) \<Rightarrow> ka_handler areas
      | (H_kc, P_KC keypad key) \<Rightarrow> kc_handler keypad key
      | (H_keypad_kf, P_KF keypad key modes) \<Rightarrow> keypad_kf_handler keypad key
      | (H_keypad_lw, P_LW keypad_temps zone_temps) \<Rightarrow> keypad_lw_handler keypad_temps
      | (H_keypad_st, P_ST grp device t) \<Rightarrow> st_handler K_keypad 1 ''temperature'' grp device t
      | (H_pc, P_PC housecode index level) \<Rightarrow> pc_handler index level
      | (H_ps, P_PS bank statuses) \<Rightarrow> ps_handler bank statuses
      | (H_cc, P_CC output st) \<Rightarrow> cc_handler output st
      | (H_cs, P_CS st) \<Rightarrow> cs_handler st
      | (H_vn, P_VN m1 xep) \<Rightarrow> vn_handler m1 xep
      | (H_xk, P_XK rtc) \<Rightarrow> xk_handler rtc
      | (H_xk, P_RR rtc) \<Rightarrow> xk_handler rtc
      | (H_rp, P_RP st) \<Rightarrow> rp_handler st
      | (H_ss, P_SS st) \<Rightarrow> ss_handler st
      | (H_ua, P_UA code areas diag code_len code_type units) \<Rightarrow> ua_handler code_len units
      | (H_cr, P_CR vals) \<Rightarrow> cr_handler vals
      | (H_tc, P_TC task) \<Rightarrow> tc_handler task
      | (H_thermostat_st, P_ST grp device t) \<Rightarrow> st_handler K_thermostat 2 ''current_temp'' grp device t
      | (H_tr, P_TR i mode hold fan temp heat cool humidity) \<Rightarrow> tr_handler i mode hold fan temp heat cool humidity
      | (H_az, P_AZ st) \<Rightarrow> az_handler st
      | (H_zone_lw, P_LW keypad_temps zone_temps) \<Rightarrow> zone_lw_handler zone_temps
      | (H_zone_st, P_ST grp device t) \<Rightarrow> st_handler K_zone 0 ''temperature'' grp device t
      | (H_zb, P_ZB zone bypassed) \<Rightarrow> zb_handler zone
      | (H_zc, P_ZC zone st) \<Rightarrow> zc_handler zone st
      | (H_zd, P_ZD types) \<Rightarrow> zd_handler types
      | (H_zp, P_ZP areas) \<Rightarrow> zp_handler areas
      | (H_zs, P_ZS st) \<Rightarrow> zs_handler st
      | (H_zv, P_ZV zone v) \<Rightarrow> zv_handler zone v
      | _ \<Rightarrow> raise_with TypeError)"

text \<open>
  \<open>notify\<close>: the registered handlers, on a copy of the list, exceptions caught one by one. A handler
  may notify in turn (a version reply logs in, a failed login disconnects): the first argument
  bounds that nesting.
\<close>

fun notify_depth :: "nat \<Rightarrow> notifier" where
  "notify_depth 0 ty p h = h"
| "notify_depth (Suc n) ty p h =
     fold (\<lambda>hnd h. fst (run_handler (notify_depth n) hnd p h)) (hb_handlers h ty) h"

definition notify :: notifier where
  "notify = notify_depth 4"

end
