(* ===== verification/Elk_Hub_Inv.thy ===== *)
theory Elk_Hub_Inv
  imports Elk_Hub
begin

text \<open>
  Invariants of the panel model. The locale \<open>hub_predicate\<close> states what a predicate over the hub
  has to survive (one element update, one panel update, one call on the connection, and the few
  flags of the hub) and derives that every handler, every notification and every synchronisation
  keeps it, also when it stops with an exception half-way. It is interpreted for the sizes of the
  collections, the connection invariant, the pending changes and the handler registry.
\<close>

section \<open>The types of the attributes\<close>

text \<open>
  What the constructors and the handlers ever store in an attribute. An attribute that is not listed
  does not exist; several start as \<open>None\<close>, until the panel reports them.
\<close>

definition may_be_none :: "(pyval \<Rightarrow> bool) \<Rightarrow> pyval \<Rightarrow> bool" where
  "may_be_none p v = (v = V_none \<or> p v)"

definition attr_tests :: "kind \<Rightarrow> (string \<times> (pyval \<Rightarrow> bool)) list" where
  "attr_tests k = (''name'', is_V_str) #
     (case k of
        K_area \<Rightarrow>
          [(''armed_status'', may_be_none is_V_armed), (''arm_up_state'', may_be_none is_V_arm_up),
           (''alarm_state'', may_be_none is_V_alarm), (''alarm_memory'', is_V_bool), (''is_exit'', is_V_bool),
           (''timer1'', is_V_int), (''timer2'', is_V_int), (''last_log'', may_be_none is_V_log),
           (''chime_mode'', may_be_none is_V_named_chime)]
      | K_counter \<Rightarrow> [(''value'', may_be_none is_V_int)]
      | K_keypad \<Rightarrow>
          [(''area'', is_V_int), (''temperature'', is_V_int), (''last_user_time'', is_V_time),
           (''last_user'', is_V_int), (''code'', is_V_str), (''last_keypress'', may_be_none is_V_named_key),
           (''last_function_key'', \<lambda>v. is_V_fkey v \<or> is_V_named_fkey v)]
      | K_light \<Rightarrow> [(''status'', is_V_int)]
      | K_output \<Rightarrow> [(''output_on'', is_V_bool)]
      | K_setting \<Rightarrow>
          [(''value_format'', is_V_format), (''value'', may_be_none (\<lambda>v. is_V_int v \<or> is_V_hour_minute v))]
      | K_task \<Rightarrow> [(''last_change'', may_be_none is_V_time)]
      | K_thermostat \<Rightarrow>
          [(''mode'', may_be_none is_V_tmode), (''hold'', is_V_bool), (''fan'', may_be_none is_V_tfan),
           (''current_temp'', is_V_int), (''heat_setpoint'', is_V_int), (''cool_setpoint'', is_V_int),
           (''humidity'', is_V_int)]
      | K_user \<Rightarrow> []
      | K_zone \<Rightarrow>
          [(''definition'', is_V_zone_type), (''logical_status'', is_V_logical),
           (''physical_status'', is_V_physical), (''area'', is_V_int),
           (''voltage'', \<lambda>v. is_V_int v \<or> is_V_rat v), (''temperature'', is_V_int),
           (''triggered_alarm'', is_V_bool)])"

definition panel_tests :: "(string \<times> (pyval \<Rightarrow> bool)) list" where
  "panel_tests =
     [(''name'', is_V_str), (''real_time_clock'', may_be_none is_V_str), (''elkm1_version'', may_be_none is_V_str),
      (''xep_version'', may_be_none is_V_str), (''remote_programming_status'', \<lambda>v. is_V_int v \<or> is_V_rp v),
      (''system_trouble_status'', is_V_str), (''temperature_units'', may_be_none is_V_str),
      (''user_code_length'', may_be_none is_V_int)]"

definition passes :: "(string \<times> (pyval \<Rightarrow> bool)) list \<Rightarrow> string \<Rightarrow> pyval \<Rightarrow> bool" where
  "passes tests a v = (case map_of tests a of None \<Rightarrow> False | Some p \<Rightarrow> p v)"

abbreviation well_typed :: "kind \<Rightarrow> string \<Rightarrow> pyval \<Rightarrow> bool" where
  "well_typed k \<equiv> passes (attr_tests k)"

lemmas typed_defs = passes_def attr_tests_def panel_tests_def may_be_none_def

lemma is_setting_pyval: "is_V_int (setting_pyval v) \<or> is_V_hour_minute (setting_pyval v)"
  by (cases v) simp_all

lemma well_typed_intros:
  "well_typed k ''name'' (V_str s)"
  "well_typed K_area ''alarm_memory'' (V_bool b)" "well_typed K_area ''armed_status'' (V_armed ar)"
  "well_typed K_area ''arm_up_state'' (V_arm_up au)" "well_typed K_area ''alarm_state'' (V_alarm al)"
  "well_typed K_area ''timer1'' (V_int i)" "well_typed K_area ''timer2'' (V_int i)"
  "well_typed K_area ''is_exit'' (V_bool b)" "well_typed K_area ''last_log'' (V_log le u)"
  "well_typed K_area ''chime_mode'' (V_named_chime s cm)"
  "well_typed K_counter ''value'' (V_int i)" "well_typed K_light ''status'' (V_int i)"
  "well_typed K_output ''output_on'' (V_bool b)" "well_typed K_setting ''value_format'' (V_format sf)"
  "well_typed K_setting ''value'' (setting_pyval sv)" "well_typed K_task ''last_change'' (V_time n)"
  by (simp_all add: typed_defs is_setting_pyval split: kind.split)

lemma well_typed_intros':
  "well_typed K_keypad ''temperature'' (V_int i)" "well_typed K_thermostat ''current_temp'' (V_int i)"
  "well_typed K_zone ''temperature'' (V_int i)"
  "well_typed K_thermostat ''mode'' (V_tmode tm)" "well_typed K_thermostat ''hold'' (V_bool b)"
  "well_typed K_thermostat ''fan'' (V_tfan tf)" "well_typed K_thermostat ''heat_setpoint'' (V_int i)"
  "well_typed K_thermostat ''cool_setpoint'' (V_int i)" "well_typed K_thermostat ''humidity'' (V_int i)"
  "well_typed K_keypad ''last_user_time'' (V_time n)" "well_typed K_keypad ''code'' (V_str s)"
  "well_typed K_keypad ''last_user'' (V_int i)" "well_typed K_keypad ''area'' (V_int i)"
  "well_typed K_keypad ''last_keypress'' (V_named_key s i)"
  "well_typed K_keypad ''last_function_key'' (V_named_fkey s fk)"
  "well_typed K_zone ''triggered_alarm'' (V_bool b)" "well_typed K_zone ''logical_status'' (V_logical lo)"
  "well_typed K_zone ''physical_status'' (V_physical ph)" "well_typed K_zone ''definition'' (V_zone_type zt)"
  "well_typed K_zone ''area'' (V_int i)" "well_typed K_zone ''voltage'' (V_rat r)"
  by (simp_all add: typed_defs)

lemma panel_typed_intros:
  "passes panel_tests ''elkm1_version'' (V_str s)" "passes panel_tests ''xep_version'' (V_str s)"
  "passes panel_tests ''real_time_clock'' (V_str s)" "passes panel_tests ''system_trouble_status'' (V_str s)"
  "passes panel_tests ''remote_programming_status'' (V_rp rp)"
  "passes panel_tests ''user_code_length'' (V_int i)" "passes panel_tests ''temperature_units'' (V_str s)"
  by (simp_all add: typed_defs)

section \<open>What a predicate has to survive\<close>

text \<open>The ways a handler changes an element of a collection.\<close>

inductive elem_update :: "kind \<Rightarrow> (element \<Rightarrow> element) \<Rightarrow> bool" where
  upd_set: "well_typed k a v \<Longrightarrow> elem_update k (set_attr a v c)"
| upd_none: "elem_update K_keypad (put_attr ''last_keypress'' V_none)"
| upd_sync: "elem_update K_keypad (put_attr ''last_function_key'' (V_fkey FKey_FORCE_KF_SYNC))"
| upd_configured: "elem_update k (\<lambda>e. e\<lparr>el_configured := True\<rparr>)"

text \<open>The ways a handler changes the connection.\<close>

inductive conn_update :: "(connection \<Rightarrow> connection) \<Rightarrow> bool" where
  upd_send: "conn_update (\<lambda>c. fst (conn_send m p c))"
| upd_pause: "conn_update conn_pause"
| upd_resume: "conn_update conn_resume"
| upd_disconnect: "conn_update conn_disconnect"

text \<open>A list of statements, one by one.\<close>

lemma keeps_seq_Nil: "keeps P (seq [])"
  by (simp add: keeps_def)

lemma keeps_seq_Cons: "keeps P a \<Longrightarrow> keeps P (seq as) \<Longrightarrow> keeps P (seq (a # as))"
  by (fastforce simp: keeps_def split: prod.splits option.splits)

locale hub_predicate =
  fixes P :: "hub \<Rightarrow> bool"
  assumes P_elem: "elem_update k f \<Longrightarrow> P h \<Longrightarrow> P (map_elem k j f h)"
    and P_text: "P h \<Longrightarrow> P (set_text_desc k d h)"
    and P_panel: "passes panel_tests a v \<Longrightarrow> P h \<Longrightarrow> P (h\<lparr>hb_panel := set_attr a v c (hb_panel h)\<rparr>)"
    and P_conn: "conn_update g \<Longrightarrow> P h \<Longrightarrow> P (h\<lparr>hb_conn := g (hb_conn h)\<rparr>)"
    and P_login: "P h \<Longrightarrow> P (h\<lparr>hb_logged_in := b\<rparr>)"
    and P_log: "P h \<Longrightarrow> P (h\<lparr>hb_notified := l\<rparr>)"
    and P_attach: "P h \<Longrightarrow> P (attach ''UA'' H_sync_complete h)"
    and P_detach: "P h \<Longrightarrow> P (detach ''UA'' H_sync_complete h)"
begin

lemma keeps_elem_set [intro]: "well_typed k a v \<Longrightarrow> keeps P (elem_set k j a v c)"
  unfolding elem_set_def by (intro keeps_do P_elem upd_set)

lemma keeps_configured: "keeps P (set_configured k j)"
  unfolding set_configured_def by (intro keeps_do P_elem upd_configured)

lemma keeps_text: "keeps P (update_st (set_text_desc k d))"
  by (intro keeps_do P_text)

lemma keeps_panel: "passes panel_tests a v \<Longrightarrow> keeps P (panel_set a v c)"
  unfolding panel_set_def by (intro keeps_do P_panel)

lemma keeps_send: "keeps P (hub_send m p)"
proof (rule keepsI)
  fix h assume "P h"
  then have "P (h\<lparr>hb_conn := fst (conn_send m p (hb_conn h))\<rparr>)" by (rule P_conn [OF upd_send])
  then show "P (fst (hub_send m p h))" by (cases "conn_send m p (hb_conn h)") (simp add: hub_send_def)
qed

lemma keeps_update_conn: "conn_update f \<Longrightarrow> keeps P (update_conn f)"
  unfolding update_conn_def by (intro keeps_do P_conn)

lemma keeps_with_elem: "(\<And>j. keeps P (body j)) \<Longrightarrow> keeps P (with_elem k i body)"
  unfolding with_elem_def by (intro keeps_eval)

lemma keeps_with_item: "(\<And>x. keeps P (body x)) \<Longrightarrow> keeps P (with_item xs i body)"
  unfolding with_item_def by (intro keeps_eval)

lemma keeps_each: "(\<And>j i. keeps P (body j i)) \<Longrightarrow> keeps P (each_elem k body)"
proof (rule keepsI)
  fix h assume b: "\<And>j i. keeps P (body j i)" and h: "P h"
  have "keeps P (\<lambda>h. body j (int (el_index (elems h k ! j))) h)" for j
    using b by (auto simp: keeps_def)
  then have "keeps P (for_each [0..<length (elems h k)] (\<lambda>j h. body j (int (el_index (elems h k ! j))) h))"
    by (intro keeps_for)
  then show "P (fst (each_elem k body h))" using h by (simp add: each_elem_def keeps_def)
qed

lemmas hub_seq_intros = keeps_seq_Nil keeps_seq_Cons keeps_skip keeps_raise keeps_when keeps_for
  keeps_eval keeps_if keeps_elem_set keeps_configured keeps_text keeps_panel keeps_send
  keeps_update_conn keeps_with_elem keeps_with_item keeps_each conn_update.intros
  well_typed_intros well_typed_intros' panel_typed_intros

lemma keeps_descriptions: "keeps P (get_descriptions k t)"
  unfolding get_descriptions_def Let_def by (intro hub_seq_intros)

lemma keeps_configured_was_set: "keeps P (configured_was_set k j)"
proof (rule keepsI)
  fix h assume "P h"
  then show "P (fst (configured_was_set k j h))"
    using keeps_send by (cases k) (auto simp: configured_was_set_def keeps_def skip_def)
qed

lemma keeps_sd: "keeps P (sd_handler k t u d s)"
proof (rule keepsI)
  fix h assume h: "P h"
  have "keeps P (seq
            [when_st (\<lambda>_. t \<noteq> td_type (text_desc_value TD_USER) \<or> \<not> is_default_user d)
               (with_elem k u (\<lambda>j. seq
                  [elem_set k j ''name'' (V_str d) True, set_configured k j, configured_was_set k j])),
             hub_send (sd_encode t (u + 1)) True])"
    by (intro hub_seq_intros keeps_configured_was_set)
  then show "P (fst (sd_handler k t u d s h))"
    using h keeps_text by (auto simp: sd_handler_def keeps_def skip_def split: option.split)
qed

lemma keeps_as: "keeps P (as_handler a u l)"
proof (rule keepsI)
  fix h assume h: "P h"
  let ?Q = "\<lambda>s :: hub \<times> bool. P (fst s)"
  have on: "keeps ?Q (on_hub st)" if "keeps P st" for st
    using that by (auto simp: keeps_def on_hub_def split: prod.splits)
  have area: "keeps ?Q (as_area a u l j)" for j
  proof (rule keepsI)
    fix s assume s: "?Q s"
    let ?i = "int (el_index (elems (fst s) K_area ! j))"
    have flag: "keeps ?Q (\<lambda>s. eval_then (\<lambda>_. py_index l ?i) (\<lambda>v. update_st (\<lambda>(h, t).
        (h, t \<or> \<not> py_eq (get_attr (elems h K_area ! j) ''alarm_state'') (V_alarm v) \<or>
            v \<noteq> Alarm_NO_ALARM_ACTIVE))) s)"
      by (auto simp: keeps_def eval_then_def update_st_def split: sum.splits prod.splits)
    show "?Q (fst (as_area a u l j s))"
      unfolding as_area_def Let_def
      by (rule keepsD [where P = ?Q, OF _ s])
        (intro keeps_seq_Nil keeps_seq_Cons on flag keeps_with_item keeps_elem_set well_typed_intros)
  qed
  have "keeps ?Q (for_each [0..<length (elems h K_area)] (as_area a u l))" by (intro keeps_for area)
  then have "P (fst (fst (for_each [0..<length (elems h K_area)] (as_area a u l) (h, False))))"
    using h by (simp add: keeps_def)
  then show "P (fst (as_handler a u l h))"
    using keeps_send by (auto simp: as_handler_def keeps_def split: prod.splits option.splits)
qed

lemma keeps_syncs:
  assumes "a \<in> set element_list"
  shows "keeps P a"
proof -
  have "keeps P panel_sync" "keeps P zones_sync" "keeps P lights_sync" "keeps P areas_sync"
    "keeps P tasks_sync" "keeps P keypads_sync" "keeps P outputs_sync" "keeps P thermostats_sync"
    "keeps P counters_sync" "keeps P settings_sync" "keeps P users_sync"
    unfolding panel_sync_def zones_sync_def lights_sync_def areas_sync_def tasks_sync_def
      keypads_sync_def outputs_sync_def thermostats_sync_def counters_sync_def settings_sync_def users_sync_def
    by (intro hub_seq_intros keeps_descriptions)+
  then show ?thesis using assms by (auto simp: element_list_def)
qed

lemma keeps_call_sync: "keeps P call_sync_handlers"
  unfolding call_sync_handlers_def
  by (intro keeps_seq) (auto intro: keeps_syncs keeps_send keeps_do P_attach)

lemma keeps_payload:
  assumes "\<And>a. keeps P (f1 a)" "\<And>a b c d. keeps P (f2 a b c d)" "\<And>a. keeps P (f3 a)" "\<And>a. keeps P (f4 a)"
    "\<And>a b. keeps P (f5 a b)" "\<And>a. keeps P (f6 a)" "\<And>a b. keeps P (f7 a b)"
    "\<And>a b c d e. keeps P (f8 a b c d e)" "\<And>a b c. keeps P (f9 a b c)" "keeps P f10" "\<And>a. keeps P (f11 a)"
    "\<And>a b. keeps P (f12 a b)" "\<And>a b c. keeps P (f13 a b c)" "\<And>a b. keeps P (f14 a b)"
    "\<And>a b. keeps P (f15 a b)" "\<And>a b c. keeps P (f16 a b c)" "\<And>a b. keeps P (f17 a b)"
    "\<And>a b. keeps P (f18 a b)" "\<And>a. keeps P (f19 a)" "\<And>a. keeps P (f20 a)"
    "\<And>a b c d. keeps P (f21 a b c d)" "\<And>a. keeps P (f22 a)" "\<And>a b c. keeps P (f23 a b c)"
    "\<And>a. keeps P (f24 a)" "\<And>a. keeps P (f25 a)" "\<And>a b c d e f g h. keeps P (f26 a b c d e f g h)"
    "\<And>a b c d e f. keeps P (f27 a b c d e f)" "\<And>a b. keeps P (f28 a b)" "\<And>a. keeps P (f29 a)"
    "\<And>a b. keeps P (f30 a b)" "\<And>a b. keeps P (f31 a b)" "\<And>a. keeps P (f32 a)" "\<And>a. keeps P (f33 a)"
    "\<And>a. keeps P (f34 a)" "\<And>a b. keeps P (f35 a b)" "\<And>a b. keeps P (f36 a b)" "\<And>a. keeps P (f37 a)"
  shows "keeps P (case_payload f1 f2 f3 f4 f5 f6 f7 f8 f9 f10 f11 f12 f13 f14 f15 f16 f17 f18 f19 f20
    f21 f22 f23 f24 f25 f26 f27 f28 f29 f30 f31 f32 f33 f34 f35 f36 f37 p)"
  by (cases p) (simp_all only: payload.case assms)

lemma keeps_ic: "keeps P (ic_handler c u k)"
proof (rule keepsI)
  fix h assume "P h"
  then show "P (fst (ic_handler c u k h))" unfolding ic_handler_def
    by (rule keepsD [rotated]) (intro hub_seq_intros)
qed

lemma keeps_tc: "keeps P (tc_handler t)"
proof (rule keepsI)
  fix h assume "P h"
  then show "P (fst (tc_handler t h))" unfolding tc_handler_def
    by (rule keepsD [rotated]) (intro hub_seq_intros)
qed

lemma keeps_zone_lw: "keeps P (zone_lw_handler ts)"
  unfolding zone_lw_handler_def
proof (intro keeps_for keeps_with_elem)
  fix i :: nat and j
  show "keeps P (\<lambda>h. with_item ts (int (el_index (elems h K_zone ! j))) (\<lambda>t.
      when_st (\<lambda>_. t > -60) (elem_set K_zone j ''temperature'' (V_int t) True)) h)"
    using keeps_elem_set well_typed_intros'(3) by (auto simp: keeps_def with_item_def eval_then_def when_st_def split: sum.splits)
qed

lemma keeps_puts:
  "keeps P (update_st (map_elem K_keypad j (put_attr ''last_keypress'' V_none)))"
  "keeps P (update_st (map_elem K_keypad j (put_attr ''last_function_key'' (V_fkey FKey_FORCE_KF_SYNC))))"
  by (rule keeps_do, rule P_elem, rule elem_update.intros, assumption)+

lemma keeps_area_kf: "keeps P (area_kf_handler ms)"
  unfolding area_kf_handler_def by (intro keeps_for) (auto intro!: hub_seq_intros)

lemma keeps_handlers:
  "keeps P (am_handler b)" "keeps P (ee_handler i e t1 t2 st)" "keeps P (ld_handler i entry)"
  "keeps P (cv_handler i v)" "keeps P (pc_handler i v)" "keeps P (ps_handler i vs)" "keeps P (cc_handler i b')"
  "keeps P (cs_handler bs)" "keeps P (cr_handler cvs)" "keeps P (st_handler K_keypad n ''temperature'' g' d t)"
  "keeps P (st_handler K_thermostat n ''current_temp'' g' d t)"
  "keeps P (st_handler K_zone n ''temperature'' g' d t)"
  "keeps P (tr_handler i m hold fan ct hs cs hu)" "keeps P (ka_handler ks)" "keeps P (kc_handler kp key)"
  "keeps P (keypad_kf_handler kp fk)" "keeps P (keypad_lw_handler ks)" "keeps P (az_handler azs)"
  "keeps P (zb_handler z)" "keeps P (zc_handler z zst)" "keeps P (zd_handler zts)" "keeps P (zp_handler zps)"
  "keeps P (zs_handler zss)" "keeps P (zv_handler z r)" "keeps P (vn_handler s1 s2)" "keeps P (xk_handler s1)"
  "keeps P (ss_handler s1)" "keeps P (rp_handler rp)" "keeps P (ua_handler v s1)"
  unfolding am_handler_def ee_handler_def ld_handler_def cv_handler_def pc_handler_def ps_handler_def
    cc_handler_def cs_handler_def cr_handler_def st_handler_def tr_handler_def ka_handler_def kc_handler_def
    keypad_kf_handler_def keypad_lw_handler_def az_handler_def zb_handler_def zc_handler_def zd_handler_def
    zp_handler_def zs_handler_def zv_handler_def vn_handler_def xk_handler_def ss_handler_def rp_handler_def
    ua_handler_def set_zone_status_def Let_def
  by (intro hub_seq_intros keeps_puts)+

text \<open>The handlers that notify in turn, given that the nested notifications keep \<open>P\<close>.\<close>

lemma keeps_raise_event: "(\<And>ty p h. P h \<Longrightarrow> P (nt ty p h)) \<Longrightarrow> keeps P (raise_event nt ty p)"
  unfolding raise_event_def by (intro keeps_do) (blast intro: P_log)

lemma keeps_nested:
  assumes "\<And>ty p h. P h \<Longrightarrow> P (nt ty p h)"
  shows "keeps P (login_status nt b)" "keeps P (got_first_message nt)" "keeps P (sync_complete nt)"
    "keeps P (hub_disconnect nt)"
  unfolding login_status_def got_first_message_def sync_complete_def hub_disconnect_def
  by (intro hub_seq_intros keeps_raise_event assms keeps_do P_login P_detach; assumption)+

lemma keeps_run_handler:
  assumes "\<And>ty p h. P h \<Longrightarrow> P (nt ty p h)"
  shows "keeps P (run_handler nt hnd p)"
  unfolding run_handler_def prod.case
  by (cases hnd; simp only: handler.case;
      intro keeps_payload keeps_raise keeps_call_sync keeps_nested assms keeps_sd keeps_as keeps_ic
        keeps_tc keeps_zone_lw keeps_area_kf keeps_handlers keeps_do P_login; assumption)

lemma P_notify_depth: "P h \<Longrightarrow> P (notify_depth n ty p h)"
proof (induction n arbitrary: ty p h)
  case 0
  then show ?case by simp
next
  case (Suc n)
  have "P (fold (\<lambda>hnd h. fst (run_handler (notify_depth n) hnd p h)) hs h)" for hs
    using Suc.prems
  proof (induction hs arbitrary: h)
    case Nil
    then show ?case by simp
  next
    case (Cons hnd hs)
    have "P (fst (run_handler (notify_depth n) hnd p h))"
      by (rule keepsD [OF keeps_run_handler [OF Suc.IH] Cons.prems])
    then show ?case using Cons.IH by simp
  qed
  then show ?case by simp
qed

lemma P_notify: "P h \<Longrightarrow> P (notify ty p h)"
  unfolding notify_def by (rule P_notify_depth)

end

section \<open>The invariants\<close>

lemma elems_map_elem:
  "elems (map_elem k j f h) k' = (if k' = k then (elems h k)[j := f (elems h k ! j)] else elems h k')"
  by (simp add: elems_def map_elem_def)

lemma elems_simps [simp]:
  "elems (set_text_desc k d h) k' = elems h k'"
  "elems (h\<lparr>hb_panel := e\<rparr>) k' = elems h k'"
  "elems (h\<lparr>hb_conn := c\<rparr>) k' = elems h k'"
  "elems (h\<lparr>hb_logged_in := b\<rparr>) k' = elems h k'"
  "elems (h\<lparr>hb_notified := l\<rparr>) k' = elems h k'"
  "elems (h\<lparr>hb_handlers := r\<rparr>) k' = elems h k'"
  "elems (h\<lparr>hb_now := t\<rparr>) k' = elems h k'"
  "elems (attach ty hnd h) k' = elems h k'"
  "elems (detach ty hnd h) k' = elems h k'"
  by (simp_all add: elems_def set_text_desc_def attach_def detach_def)

lemma map_elem_simps [simp]:
  "hb_panel (map_elem k j f h) = hb_panel h"
  "hb_conn (map_elem k j f h) = hb_conn h"
  "hb_handlers (map_elem k j f h) = hb_handlers h"
  "hb_now (map_elem k j f h) = hb_now h"
  "hb_logged_in (map_elem k j f h) = hb_logged_in h"
  "hb_notified (map_elem k j f h) = hb_notified h"
  "co_text_desc (hb_colls (map_elem k j f h) k') = co_text_desc (hb_colls h k')"
  by (simp_all add: map_elem_def)

lemma set_text_simps [simp]:
  "hb_panel (set_text_desc k d h) = hb_panel h"
  "hb_conn (set_text_desc k d h) = hb_conn h"
  "hb_handlers (set_text_desc k d h) = hb_handlers h"
  by (simp_all add: set_text_desc_def)

lemma attach_simps [simp]:
  "hb_panel (attach ty hnd h) = hb_panel h" "hb_conn (attach ty hnd h) = hb_conn h"
  "hb_panel (detach ty hnd h) = hb_panel h" "hb_conn (detach ty hnd h) = hb_conn h"
  by (simp_all add: attach_def detach_def)

lemma notify_element_simps [simp]:
  "el_index (notify_element e) = el_index e"
  "el_attrs (notify_element e) = el_attrs e"
  "el_changeset (notify_element e) = []"
  "el_observers (notify_element e) = el_observers e"
  by (simp_all add: notify_element_def)

lemma set_attr_index [simp]: "el_index (set_attr a v c e) = el_index e"
  by (simp add: set_attr_def Let_def)

lemma put_attr_index [simp]: "el_index (put_attr a v e) = el_index e"
  by (simp add: put_attr_def)

lemma elem_update_index: "elem_update k f \<Longrightarrow> el_index (f e) = el_index e"
  by (cases rule: elem_update.cases) auto

text \<open>Sizes: no collection ever grows or shrinks, and an element's index is its position.\<close>

definition sizes_ok :: "hub \<Rightarrow> bool" where
  "sizes_ok h = (\<forall>k. length (elems h k) = max_elements k \<and>
     (\<forall>j < max_elements k. el_index (elems h k ! j) = j))"

lemma index_list_update:
  assumes "\<And>e. el_index (f e) = el_index e"
  shows "el_index (xs[j := f (xs ! j)] ! i) = el_index (xs ! i)"
  using assms by (cases "j < length xs"; cases "i = j") (auto simp: list_update_beyond)

lemma sizes_ok_map_elem:
  assumes "\<And>e. el_index (f e) = el_index e" and "sizes_ok h"
  shows "sizes_ok (map_elem k j f h)"
  using assms by (simp add: sizes_ok_def elems_map_elem index_list_update)

interpretation sizes: hub_predicate sizes_ok
proof
  fix f h k j
  assume "elem_update k f" "sizes_ok h"
  then show "sizes_ok (map_elem k j f h)" by (rule sizes_ok_map_elem [OF elem_update_index])
qed (simp_all add: sizes_ok_def)

text \<open>The connection invariant.\<close>

definition conn_ok :: "hub \<Rightarrow> bool" where
  "conn_ok h = conn_inv (hb_conn h)"

lemma conn_update_inv:
  assumes "conn_update f" and "conn_inv c"
  shows "conn_inv (f c)"
  using assms(1)
proof (cases rule: conn_update.cases)
  case (upd_send m p)
  then show ?thesis using conn_inv_step [OF step_send assms(2), of m p] by simp
qed (use assms(2) conn_inv_step step_pause step_resume step_disconnect in blast)+

interpretation conn: hub_predicate conn_ok
  by unfold_locales (auto simp: conn_ok_def conn_update_inv)

text \<open>
  Pending changes and callback records: a pending change is the attribute's current value, no
  attribute is pending twice, and no callback was ever called without a change. (The two attributes
  the keypad handlers reset without change tracking are exempt from the first.)
\<close>

definition element_ok :: "element \<Rightarrow> bool" where
  "element_ok e =
     (distinct (map fst (el_changeset e)) \<and>
      (\<forall>(a, v) \<in> set (el_changeset e). a \<notin> {''last_keypress'', ''last_function_key''} \<longrightarrow> el_attrs e a = Some v) \<and>
      (\<forall>(observer, changes) \<in> set (el_calls e). changes \<noteq> []))"

lemma dict_set_keys: "fst ` set (dict_set k v kvs) = insert k (fst ` set kvs)"
  by (induction k v kvs rule: dict_set.induct) auto

lemma dict_set_distinct: "distinct (map fst kvs) \<Longrightarrow> distinct (map fst (dict_set k v kvs))"
  by (induction k v kvs rule: dict_set.induct) (auto simp: dict_set_keys)

lemma dict_set_mem:
  "distinct (map fst kvs) \<Longrightarrow> (a, b) \<in> set (dict_set k v kvs) \<Longrightarrow>
     (a = k \<and> b = v) \<or> (a \<noteq> k \<and> (a, b) \<in> set kvs)"
  by (induction k v kvs rule: dict_set.induct) (force split: if_splits)+

lemma element_ok_changed:
  assumes "element_ok e"
  shows "element_ok (e\<lparr>el_attrs := (el_attrs e)(a \<mapsto> v), el_changeset := dict_set a v (el_changeset e)\<rparr>)"
  using assms dict_set_mem [of "el_changeset e" _ _ a v]
  by (fastforce simp: element_ok_def dict_set_distinct)

lemma element_ok_notify: "element_ok e \<Longrightarrow> el_changeset e \<noteq> [] \<Longrightarrow> element_ok (notify_element e)"
  by (auto simp: element_ok_def notify_element_def)

lemma element_ok_set_attr: "element_ok e \<Longrightarrow> element_ok (set_attr a v c e)"
  unfolding set_attr_def Let_def
  by (auto intro!: element_ok_notify element_ok_changed)

lemma element_ok_update: "elem_update k f \<Longrightarrow> element_ok e \<Longrightarrow> element_ok (f e)"
proof (induction rule: elem_update.induct)
  case (upd_set k a v c)
  then show ?case by (intro element_ok_set_attr)
qed (auto simp: element_ok_def put_attr_def)

definition changes_ok :: "hub \<Rightarrow> bool" where
  "changes_ok h = ((\<forall>k. \<forall>e \<in> set (elems h k). element_ok e) \<and> element_ok (hb_panel h))"

lemma all_elems_map_elem:
  assumes f: "\<And>e. Q k e \<Longrightarrow> Q k (f e)" and all: "\<And>k e. e \<in> set (elems h k) \<Longrightarrow> Q k e"
    and e: "e \<in> set (elems (map_elem k j f h) k')"
  shows "Q k' e"
proof (cases "k' = k \<and> j < length (elems h k)")
  case True
  then have "elems h k ! j \<in> set (elems h k)" by simp
  then have "Q k (f (elems h k ! j))" by (intro f all)
  moreover have "e = f (elems h k ! j) \<or> e \<in> set (elems h k)"
    using e True set_update_subset_insert [of "elems h k" j] by (auto simp: elems_map_elem)
  ultimately show ?thesis using True all by blast
next
  case False
  then have "e \<in> set (elems h k')" using e by (auto simp: elems_map_elem list_update_beyond split: if_splits)
  then show ?thesis by (rule all)
qed

lemma changes_ok_map_elem:
  assumes f: "\<And>e. element_ok e \<Longrightarrow> element_ok (f e)" and h: "changes_ok h"
  shows "changes_ok (map_elem k j f h)"
proof -
  have "element_ok e" if "e \<in> set (elems (map_elem k j f h) k')" for e k'
    by (rule all_elems_map_elem [where Q = "\<lambda>_. element_ok", OF _ _ that])
      (use f h in \<open>auto simp: changes_ok_def\<close>)
  then show ?thesis using h by (simp add: changes_ok_def)
qed

interpretation changes: hub_predicate changes_ok
proof
  fix f h k j
  assume f: "elem_update k f" and h: "changes_ok h"
  show "changes_ok (map_elem k j f h)" by (rule changes_ok_map_elem [OF element_ok_update [OF f] h])
qed (simp_all add: changes_ok_def element_ok_set_attr)

text \<open>Attribute types: every attribute that exists is of its type, and none of a class is ever missing.\<close>

definition element_typed :: "(string \<times> (pyval \<Rightarrow> bool)) list \<Rightarrow> element \<Rightarrow> bool" where
  "element_typed tests e =
     ((\<forall>a v. el_attrs e a = Some v \<longrightarrow> passes tests a v) \<and> (\<forall>a \<in> fst ` set tests. el_attrs e a \<noteq> None))"

lemma element_typed_notify [simp]: "element_typed tests (notify_element e) = element_typed tests e"
  by (simp add: element_typed_def)

lemma element_typed_set_attr:
  "passes tests a v \<Longrightarrow> element_typed tests e \<Longrightarrow> element_typed tests (set_attr a v c e)"
  unfolding set_attr_def Let_def by (auto simp: element_typed_def)

lemma element_typed_put_attr:
  "passes tests a v \<Longrightarrow> element_typed tests e \<Longrightarrow> element_typed tests (put_attr a v e)"
  by (auto simp: element_typed_def put_attr_def)

lemma element_typed_update:
  "elem_update k f \<Longrightarrow> element_typed (attr_tests k) e \<Longrightarrow> element_typed (attr_tests k) (f e)"
proof (induction rule: elem_update.induct)
  case (upd_set k a v c)
  then show ?case by (rule element_typed_set_attr)
next
  case (upd_configured k)
  then show ?case by (simp add: element_typed_def)
qed (auto intro!: element_typed_put_attr simp: typed_defs)

definition types_ok :: "hub \<Rightarrow> bool" where
  "types_ok h = ((\<forall>k. \<forall>e \<in> set (elems h k). element_typed (attr_tests k) e) \<and>
     element_typed panel_tests (hb_panel h))"

lemma types_ok_map_elem:
  assumes f: "\<And>e. element_typed (attr_tests k) e \<Longrightarrow> element_typed (attr_tests k) (f e)" and h: "types_ok h"
  shows "types_ok (map_elem k j f h)"
proof -
  have "element_typed (attr_tests k') e" if "e \<in> set (elems (map_elem k j f h) k')" for e k'
    by (rule all_elems_map_elem [where Q = "\<lambda>k. element_typed (attr_tests k)", OF _ _ that])
      (use f h in \<open>auto simp: types_ok_def\<close>)
  then show ?thesis using h by (simp add: types_ok_def)
qed

interpretation types: hub_predicate types_ok
proof
  fix f h k j
  assume f: "elem_update k f" and h: "types_ok h"
  show "types_ok (map_elem k j f h)" by (rule types_ok_map_elem [OF element_typed_update [OF f] h])
qed (simp_all add: types_ok_def element_typed_set_attr)

text \<open>The registry: only the end-of-sync marker of \<open>UA\<close> comes and goes.\<close>

definition base_handlers :: "string \<Rightarrow> handler list" where
  "base_handlers ty = map snd (filter (\<lambda>r. fst r = ty) registrations)"

definition registry_ok :: "hub \<Rightarrow> bool" where
  "registry_ok h =
     ((\<forall>ty. ty \<noteq> ''UA'' \<longrightarrow> hb_handlers h ty = base_handlers ty) \<and>
      (hb_handlers h ''UA'' = [H_ua] \<or> hb_handlers h ''UA'' = [H_ua, H_sync_complete]))"

interpretation registry: hub_predicate registry_ok
  by unfold_locales (auto simp: registry_ok_def attach_def detach_def)

section \<open>Reachable hubs\<close>

text \<open>
  What can happen to a hub: a message or lifecycle notification, any event of the connection, the
  clock, and what the integration does to it: it registers callbacks, and sets attributes of elements.
\<close>

inductive hub_step :: "hub \<Rightarrow> hub \<Rightarrow> bool" where
  on_message: "hub_step h (notify ty p h)"
| on_connection: "conn_step (hb_conn h) e c \<Longrightarrow> hub_step h (h\<lparr>hb_conn := c\<rparr>)"
| on_clock: "hub_step h (h\<lparr>hb_now := t\<rparr>)"
| on_add_callback: "hub_step h (map_elem k j (add_callback observer) h)"
| on_remove_callback: "hub_step h (map_elem k j (remove_callback observer) h)"
| on_element_update: "elem_update k f \<Longrightarrow> hub_step h (map_elem k j f h)"
| on_panel_callback: "hub_step h (h\<lparr>hb_panel := add_callback observer (hb_panel h)\<rparr>)"

inductive hub_reachable :: "hub \<Rightarrow> bool" where
  hub_start: "hub_reachable (hub_init now)"
| hub_next: "hub_reachable h \<Longrightarrow> hub_step h h' \<Longrightarrow> hub_reachable h'"

lemma attach_handlers:
  "hb_handlers (attach ty hnd h) =
     (hb_handlers h)(ty := if hnd \<in> set (hb_handlers h ty) then hb_handlers h ty else hb_handlers h ty @ [hnd])"
  by (auto simp: attach_def)

text \<open>The fold of the constructors' registrations.\<close>

lemma fold_attach_simps:
  "hb_panel (fold (\<lambda>(ty, hnd). attach ty hnd) rs h) = hb_panel h"
  "hb_conn (fold (\<lambda>(ty, hnd). attach ty hnd) rs h) = hb_conn h"
  "hb_colls (fold (\<lambda>(ty, hnd). attach ty hnd) rs h) = hb_colls h"
proof (induction rs arbitrary: h)
  case (Cons r rs)
  { case 1 show ?case using Cons.IH(1) by (cases r) simp }
  { case 2 show ?case using Cons.IH(2) by (cases r) simp }
  { case 3 show ?case using Cons.IH(3) by (cases r) (simp add: attach_def) }
qed simp_all

lemma fold_attach_handlers:
  assumes "distinct (filter (\<lambda>r. fst r = ty) rs)" and "set (map snd (filter (\<lambda>r. fst r = ty) rs)) \<inter> set (hb_handlers h ty) = {}"
  shows "hb_handlers (fold (\<lambda>(ty, hnd). attach ty hnd) rs h) ty =
    hb_handlers h ty @ map snd (filter (\<lambda>r. fst r = ty) rs)"
  using assms
proof (induction rs arbitrary: h)
  case Nil
  then show ?case by simp
next
  case (Cons r rs)
  obtain a b where r: "r = (a, b)" by (cases r)
  show ?case
  proof (cases "a = ty")
    case True
    have "(a, b) \<notin> set (filter (\<lambda>r. fst r = ty) rs)" using Cons.prems(1) r True by simp
    then have nb: "b \<notin> set (map snd (filter (\<lambda>r. fst r = ty) rs))" using True by auto
    have fresh: "b \<notin> set (hb_handlers h ty)" using Cons.prems(2) r True by auto
    have "hb_handlers (fold (\<lambda>(ty, hnd). attach ty hnd) rs (attach a b h)) ty =
        hb_handlers (attach a b h) ty @ map snd (filter (\<lambda>r. fst r = ty) rs)"
      using Cons.prems True r nb fresh by (intro Cons.IH) (auto simp: attach_handlers)
    then show ?thesis using r True fresh by (simp add: attach_handlers)
  next
    case False
    have "hb_handlers (fold (\<lambda>(ty, hnd). attach ty hnd) rs (attach a b h)) ty =
        hb_handlers (attach a b h) ty @ map snd (filter (\<lambda>r. fst r = ty) rs)"
      using Cons.prems False r by (intro Cons.IH) (auto simp: attach_handlers)
    then show ?thesis using r False by (simp add: attach_handlers)
  qed
qed

lemma registrations_distinct: "distinct registrations"
  by (simp add: registrations_def)

lemma hub_init_handlers: "hb_handlers (hub_init now) ty = base_handlers ty"
  unfolding hub_init_def base_handlers_def
  by (subst fold_attach_handlers) (simp_all add: registrations_distinct)

lemma class_attrs_typed:
  "element_typed (attr_tests k) (new_element i ((''name'', V_str s) # class_attrs now k))"
  by (cases k) (auto simp: element_typed_def new_element_def class_attrs_def typed_defs area_attrs_def
    keypad_attrs_def setting_attrs_def thermostat_attrs_def zone_attrs_def split: if_splits)

lemma panel_attrs_typed: "element_typed panel_tests ((new_element i panel_attrs)\<lparr>el_configured := b\<rparr>)"
  by (auto simp: element_typed_def new_element_def panel_attrs_def typed_defs split: if_splits)

lemma hub_init_ok: "sizes_ok (hub_init now)" "conn_ok (hub_init now)" "changes_ok (hub_init now)"
  "registry_ok (hub_init now)" "types_ok (hub_init now)"
proof -
  have el: "elems (hub_init now) k = map (\<lambda>i. new_element i ((''name'', V_str (default_name k i)) # class_attrs now k))
      [0..<max_elements k]" for k
    by (simp add: elems_def hub_init_def fold_attach_simps new_coll_def)
  have pn: "hb_panel (hub_init now) = (new_element 0 panel_attrs)\<lparr>el_configured := True\<rparr>"
    by (simp add: hub_init_def fold_attach_simps)
  show "sizes_ok (hub_init now)" by (simp add: sizes_ok_def el new_element_def)
  show "conn_ok (hub_init now)" by (simp add: conn_ok_def hub_init_def fold_attach_simps conn_inv_init)
  show "changes_ok (hub_init now)"
    unfolding changes_ok_def el pn by (auto simp: element_ok_def new_element_def)
  show "types_ok (hub_init now)"
    unfolding types_ok_def el pn by (auto simp: class_attrs_typed panel_attrs_typed)
  have "base_handlers ''UA'' = [H_ua]" by (simp add: base_handlers_def registrations_def)
  then show "registry_ok (hub_init now)" by (simp add: registry_ok_def hub_init_handlers)
qed

definition hub_inv :: "hub \<Rightarrow> bool" where
  "hub_inv h = (sizes_ok h \<and> conn_ok h \<and> changes_ok h \<and> registry_ok h \<and> types_ok h)"

lemma hub_inv_step:
  assumes "hub_step h h'" and "hub_inv h"
  shows "hub_inv h'"
  using assms
proof (cases rule: hub_step.cases)
  case (on_message ty p)
  then show ?thesis using assms(2)
    by (simp add: hub_inv_def sizes.P_notify conn.P_notify changes.P_notify registry.P_notify types.P_notify)
next
  case (on_connection e c)
  then show ?thesis using assms(2) conn_inv_step
    by (auto simp: hub_inv_def sizes_ok_def conn_ok_def changes_ok_def registry_ok_def types_ok_def)
next
  case (on_clock t)
  then show ?thesis using assms(2)
    by (simp add: hub_inv_def sizes_ok_def conn_ok_def changes_ok_def registry_ok_def types_ok_def)
next
  case (on_add_callback k j observer)
  have "element_ok e \<Longrightarrow> element_ok (add_callback observer e)"
    and "element_typed tests e \<Longrightarrow> element_typed tests (add_callback observer e)" for e tests
    by (simp_all add: element_ok_def element_typed_def add_callback_def)
  then show ?thesis using assms(2) on_add_callback
      sizes_ok_map_elem [of "add_callback observer" h k j] changes_ok_map_elem [of "add_callback observer" h k j]
      types_ok_map_elem [of k "add_callback observer" h j]
    by (simp add: hub_inv_def conn_ok_def registry_ok_def add_callback_def)
next
  case (on_remove_callback k j observer)
  have "element_ok e \<Longrightarrow> element_ok (remove_callback observer e)"
    and "element_typed tests e \<Longrightarrow> element_typed tests (remove_callback observer e)" for e tests
    by (simp_all add: element_ok_def element_typed_def remove_callback_def)
  then show ?thesis using assms(2) on_remove_callback
      sizes_ok_map_elem [of "remove_callback observer" h k j] changes_ok_map_elem [of "remove_callback observer" h k j]
      types_ok_map_elem [of k "remove_callback observer" h j]
    by (simp add: hub_inv_def conn_ok_def registry_ok_def remove_callback_def)
next
  case (on_element_update k f j)
  then show ?thesis using assms(2)
    by (simp add: hub_inv_def sizes.P_elem conn.P_elem changes.P_elem registry.P_elem types.P_elem)
next
  case (on_panel_callback observer)
  then show ?thesis using assms(2)
    by (simp add: hub_inv_def sizes_ok_def conn_ok_def changes_ok_def registry_ok_def types_ok_def element_ok_def
        element_typed_def add_callback_def elems_def)
qed

lemma hub_reachable_inv: "hub_reachable h \<Longrightarrow> hub_inv h"
proof (induction rule: hub_reachable.induct)
  case (hub_start now)
  show ?case by (simp add: hub_inv_def hub_init_ok)
next
  case (hub_next h h')
  then show ?case by (blast intro: hub_inv_step)
qed

end
