(* ===== verification/Elk_Commands.thy ===== *)
theory Elk_Commands
  imports Elk_Hub_Inv
begin

text \<open>
  The commands the integration gives to the elements: arming, bypassing, switching, dimming,
  writing counters, settings and thermostats, speaking, setting the clock. Each builds a request
  and queues it; several refuse a value first.
\<close>

text \<open>The index of the element a command is called on.\<close>

definition own_index :: "hub \<Rightarrow> kind \<Rightarrow> nat \<Rightarrow> int" where
  "own_index h k j = int (el_index (elems h k ! j))"

text \<open>A request whose encoder can raise.\<close>

definition send_result :: "message_encode result \<Rightarrow> hub stmt" where
  "send_result r = eval_then (\<lambda>_. r) (\<lambda>m. hub_send m False)"

section \<open>Areas\<close>

definition is_armed :: "element \<Rightarrow> bool" where
  "is_armed e =
     (case get_attr e ''armed_status'' of V_none \<Rightarrow> False | v \<Rightarrow> \<not> py_eq v (V_armed Armed_DISARMED))"

definition in_alarm_state :: "element \<Rightarrow> bool" where
  "in_alarm_state e =
     (get_attr e ''alarm_state'' \<notin> {V_none, V_alarm Alarm_NO_ALARM_ACTIVE,
        V_alarm Alarm_ENTRANCE_DELAY_ACTIVE, V_alarm Alarm_ALARM_ABORT_DELAY_ACTIVE})"

definition area_arm :: "nat \<Rightarrow> arm_level \<Rightarrow> int \<Rightarrow> hub stmt" where
  "area_arm j level code h =
     (if is_armed (elems h K_area ! j) \<and> level \<noteq> Level_DISARM then (h, None)
      else hub_send (al_encode level (own_index h K_area j) code) False h)"

definition area_disarm :: "nat \<Rightarrow> int \<Rightarrow> hub stmt" where
  "area_disarm j code = area_arm j Level_DISARM code"

definition display_message :: "nat \<Rightarrow> int \<Rightarrow> bool \<Rightarrow> int \<Rightarrow> string \<Rightarrow> string \<Rightarrow> hub stmt" where
  "display_message j clear beep timeout line1 line2 h =
     hub_send (dm_encode (own_index h K_area j) clear beep timeout line1 line2) False h"

definition area_bypass :: "nat \<Rightarrow> int \<Rightarrow> hub stmt" where
  "area_bypass j code h = hub_send (zb_encode 999 (own_index h K_area j) code) False h"

definition area_clear_bypass :: "nat \<Rightarrow> int \<Rightarrow> hub stmt" where
  "area_clear_bypass j code h = hub_send (zb_encode (-1) (own_index h K_area j) code) False h"

section \<open>Zones, keypads, counters, outputs, tasks\<close>

definition zone_bypass :: "nat \<Rightarrow> int \<Rightarrow> hub stmt" where
  "zone_bypass j code h = hub_send (zb_encode (own_index h K_zone j) 0 code) False h"

definition zone_trigger :: "nat \<Rightarrow> hub stmt" where
  "zone_trigger j h = hub_send (zt_encode (own_index h K_zone j)) False h"

definition zone_get_voltage :: "nat \<Rightarrow> hub stmt" where
  "zone_get_voltage j h = hub_send (zv_encode (own_index h K_zone j)) False h"

definition press_function_key :: "nat \<Rightarrow> function_keys \<Rightarrow> hub stmt" where
  "press_function_key j functionkey h = hub_send (kf_encode (own_index h K_keypad j) functionkey) False h"

definition counter_get :: "nat \<Rightarrow> hub stmt" where
  "counter_get j h = hub_send (cv_encode (own_index h K_counter j)) False h"

definition counter_set :: "nat \<Rightarrow> int \<Rightarrow> hub stmt" where
  "counter_set j val h = hub_send (cx_encode (own_index h K_counter j) val) False h"

definition output_turn_off :: "nat \<Rightarrow> hub stmt" where
  "output_turn_off j h = hub_send (cf_encode (own_index h K_output j)) False h"

definition output_turn_on :: "nat \<Rightarrow> int \<Rightarrow> hub stmt" where
  "output_turn_on j seconds h = hub_send (cn_encode (own_index h K_output j) seconds) False h"

definition output_toggle :: "nat \<Rightarrow> hub stmt" where
  "output_toggle j h = hub_send (ct_encode (own_index h K_output j)) False h"

definition task_activate :: "nat \<Rightarrow> hub stmt" where
  "task_activate j h = hub_send (tn_encode (own_index h K_task j)) False h"

section \<open>Lights\<close>

definition light_level :: "nat \<Rightarrow> int \<Rightarrow> int \<Rightarrow> hub stmt" where
  "light_level j level seconds h =
     (let i = own_index h K_light j
      in if level \<le> 0 then send_result (pf_encode i) h
         else if level \<ge> 98 then send_result (pn_encode i) h
         else send_result (pc_encode i 9 level seconds) h)"

definition light_toggle :: "nat \<Rightarrow> hub stmt" where
  "light_toggle j h = send_result (pt_encode (own_index h K_light j)) h"

section \<open>Settings\<close>

definition value_format :: "element \<Rightarrow> setting_format" where
  "value_format e = (case get_attr e ''value_format'' of V_format f \<Rightarrow> f | _ \<Rightarrow> SFmt_NUMBER)"

definition setting_set :: "nat \<Rightarrow> setting_value \<Rightarrow> hub stmt" where
  "setting_set j val h =
     (let f = value_format (elems h K_setting ! j)
      in case val of
           Time_of_day hr mi \<Rightarrow>
             if f \<noteq> SFmt_TIME_OF_DAY then (h, Some ValueError)
             else send_result (cw_encode (own_index h K_setting j) val f) h
         | Plain v \<Rightarrow>
             if f = SFmt_TIME_OF_DAY then (h, Some ValueError)
             else send_result (cw_encode (own_index h K_setting j) val f) h)"

section \<open>Thermostats\<close>

text \<open>The values a thermostat setting is given, by their Python type.\<close>

datatype thermostat_value = TV_bool bool | TV_int int | TV_mode thermostat_mode | TV_fan thermostat_fan

text \<open>\<open>type(val) is SETTING_TYPING[element]\<close>; the table names every element.\<close>

fun thermostat_type_ok :: "thermostat_setting \<Rightarrow> thermostat_value \<Rightarrow> bool" where
  "thermostat_type_ok TSet_MODE v = (case v of TV_mode _ \<Rightarrow> True | _ \<Rightarrow> False)"
| "thermostat_type_ok TSet_HOLD v = (case v of TV_bool _ \<Rightarrow> True | _ \<Rightarrow> False)"
| "thermostat_type_ok TSet_FAN v = (case v of TV_fan _ \<Rightarrow> True | _ \<Rightarrow> False)"
| "thermostat_type_ok TSet_GET_TEMPERATURE v = (case v of TV_int _ \<Rightarrow> True | _ \<Rightarrow> False)"
| "thermostat_type_ok TSet_COOL_SETPOINT v = (case v of TV_int _ \<Rightarrow> True | _ \<Rightarrow> False)"
| "thermostat_type_ok TSet_HEAT_SETPOINT v = (case v of TV_int _ \<Rightarrow> True | _ \<Rightarrow> False)"

definition thermostat_number :: "thermostat_value \<Rightarrow> int" where
  "thermostat_number v =
     (case v of TV_bool b \<Rightarrow> if b then 1 else 0 | TV_fan f \<Rightarrow> thermostat_fan_value f
      | TV_mode m \<Rightarrow> thermostat_mode_value m | TV_int i \<Rightarrow> i)"

definition thermostat_set :: "nat \<Rightarrow> thermostat_setting \<Rightarrow> thermostat_value \<Rightarrow> hub stmt" where
  "thermostat_set j element_to_set val h =
     (if \<not> thermostat_type_ok element_to_set val then (h, Some ValueError)
      else hub_send (ts_encode (own_index h K_thermostat j) (thermostat_number val) element_to_set) False h)"

section \<open>Panel and users\<close>

definition speak_word :: "int \<Rightarrow> hub stmt" where
  "speak_word w = hub_send (sw_encode w) False"

definition speak_phrase :: "int \<Rightarrow> hub stmt" where
  "speak_phrase phrase = hub_send (sp_encode phrase) False"

definition set_time :: "civil \<Rightarrow> int \<Rightarrow> hub stmt" where
  "set_time date_time second = hub_send (rw_encode date_time second) False"

definition username :: "hub \<Rightarrow> int \<Rightarrow> pyval" where
  "username h user_number =
     (if user_number = 200 then V_str ''*Program*''
      else if user_number = 201 then V_str ''*Elk RP*''
      else if user_number = 202 then V_str ''*Quick arm*''
      else if 0 \<le> user_number \<and> user_number < int MAX_USERS
      then get_attr (elems h K_user ! nat user_number) ''name''
      else V_str '''')"

end
