(* ===== verification/Elk_Panel.thy ===== *)
theory Elk_Panel
  imports Elk_Commands
begin

text \<open>
  Properties of the panel model: the invariants of every reachable hub, the depth of nested
  notifications, what a zone change, a zone report, a programming session, a failed login and the
  end of a synchronisation do, the name-discovery dialogue, and the guards of the commands.
\<close>

section \<open>Statements and updates\<close>

lemma elem_set_run: "elem_set k j a v c h = (map_elem k j (set_attr a v c) h, None)"
  by (simp add: elem_set_def update_st_def)

lemma map_elem_comp:
  "j < length (elems h k) \<Longrightarrow> map_elem k j f (map_elem k j g h) = map_elem k j (\<lambda>e. f (g e)) h"
  by (simp add: map_elem_def elems_def)

lemma with_elem_nat: "j < length (elems h k) \<Longrightarrow> with_elem k (int j) body h = body j h"
  by (simp add: with_elem_def eval_then_def)

lemma with_item_nat: "i < length xs \<Longrightarrow> with_item xs (int i) body h = body (xs ! i) h"
  by (simp add: with_item_def eval_then_def)

lemma length_elems_map_elem [simp]: "length (elems (map_elem k j f h) k') = length (elems h k')"
  by (simp add: elems_map_elem)

text \<open>A loop whose body updates just its own element.\<close>

lemma for_each_map_elem:
  assumes "\<And>i h. i \<in> set js \<Longrightarrow> (\<forall>i. el_index (elems h k ! i) = el_index (elems h0 k ! i)) \<Longrightarrow>
      length (elems h k) = length (elems h0 k) \<Longrightarrow> body i h = (map_elem k i (g i) h, None)"
    and "\<And>i e. el_index (g i e) = el_index e"
    and "\<forall>i. el_index (elems h k ! i) = el_index (elems h0 k ! i)" and "length (elems h k) = length (elems h0 k)"
  shows "for_each js body h = (fold (\<lambda>i. map_elem k i (g i)) js h, None)"
  using assms
proof (induction js arbitrary: h)
  case Nil
  then show ?case by simp
next
  case (Cons i js)
  let ?h = "map_elem k i (g i) h"
  have b: "body i h = (?h, None)" using Cons.prems by auto
  have idx: "\<forall>n. el_index (elems ?h k ! n) = el_index (elems h0 k ! n)"
    using Cons.prems(2,3) by (simp add: elems_map_elem index_list_update)
  have "for_each js body ?h = (fold (\<lambda>i. map_elem k i (g i)) js ?h, None)"
    using Cons.prems idx by (intro Cons.IH) auto
  then show ?case by (simp add: b)
qed

lemma fold_map_elem_nth:
  assumes "distinct js" and "i < length (elems h k)"
  shows "elems (fold (\<lambda>i. map_elem k i (g i)) js h) k ! i =
    (if i \<in> set js then g i (elems h k ! i) else elems h k ! i)"
  using assms
proof (induction js arbitrary: h)
  case (Cons j js)
  then have "elems (fold (\<lambda>i. map_elem k i (g i)) js (map_elem k j (g j) h)) k ! i =
      (if i \<in> set js then g i (elems (map_elem k j (g j) h) k ! i) else elems (map_elem k j (g j) h) k ! i)"
    by (intro Cons.IH) auto
  then show ?case using Cons.prems by (cases "i = j") (auto simp: elems_map_elem nth_list_update)
qed simp

lemma fold_map_elem_other:
  "k' \<noteq> k \<Longrightarrow> elems (fold (\<lambda>i. map_elem k i (g i)) js h) k' = elems h k'"
  by (induction js arbitrary: h) (simp_all add: elems_map_elem)

lemma each_elem_run:
  assumes "sizes_ok h" and "\<And>i e. el_index (g i e) = el_index e"
    and "\<And>i h. i < max_elements k \<Longrightarrow> length (elems h k) = max_elements k \<Longrightarrow>
      body i (int i) h = (map_elem k i (g i) h, None)"
  shows "each_elem k body h = (fold (\<lambda>i. map_elem k i (g i)) [0..<max_elements k] h, None)"
proof -
  have l: "length (elems h k) = max_elements k" using assms(1) by (simp add: sizes_ok_def)
  have "for_each [0..<max_elements k] (\<lambda>j h. body j (int (el_index (elems h k ! j))) h) h =
      (fold (\<lambda>i. map_elem k i (g i)) [0..<max_elements k] h, None)"
  proof (rule for_each_map_elem [where ?h0.0 = h])
    fix i h'
    assume "i \<in> set [0..<max_elements k]" and "\<forall>i. el_index (elems h' k ! i) = el_index (elems h k ! i)"
      and "length (elems h' k) = length (elems h k)"
    then show "body i (int (el_index (elems h' k ! i))) h' = (map_elem k i (g i) h', None)"
      using assms(1,3) l by (simp add: sizes_ok_def)
  qed (use assms(2) in auto)
  then show ?thesis by (simp add: each_elem_def l)
qed

section \<open>Attributes\<close>

lemma get_attr_set_attr_same: "py_eq (get_attr (set_attr a v c e) a) v"
  by (auto simp: set_attr_def get_attr_def Let_def notify_element_def)

lemma get_attr_set_attr_exact: "numeric v = None \<Longrightarrow> get_attr (set_attr a v c e) a = v"
  using get_attr_set_attr_same [of a v c e] by (simp add: py_eq_def split: option.splits)

lemma get_attr_set_attr_other: "b \<noteq> a \<Longrightarrow> get_attr (set_attr a v c e) b = get_attr e b"
  by (simp add: set_attr_def get_attr_def Let_def notify_element_def)

lemma changeset_closed [simp]: "el_changeset (set_attr a v True e) = []"
  by (simp add: set_attr_def Let_def)

lemma configured_set_attr [simp]: "el_configured (set_attr a v c e) = el_configured e"
  by (simp add: set_attr_def Let_def notify_element_def)

text \<open>The two updates of a zone status.\<close>

definition zone_upd :: "zone_status \<Rightarrow> element \<Rightarrow> element" where
  "zone_upd st e =
     set_attr ''physical_status'' (V_physical (snd st)) True
       (set_attr ''logical_status'' (V_logical (fst st)) False e)"

lemma zone_upd_attrs:
  "get_attr (zone_upd st e) ''logical_status'' = V_logical (fst st)"
  "get_attr (zone_upd st e) ''physical_status'' = V_physical (snd st)"
  "a \<notin> {''logical_status'', ''physical_status''} \<Longrightarrow> get_attr (zone_upd st e) a = get_attr e a"
  "el_changeset (zone_upd st e) = []"
  "el_index (zone_upd st e) = el_index e"
  unfolding zone_upd_def
  by (simp_all add: get_attr_set_attr_other get_attr_set_attr_exact)

lemma set_zone_status_run:
  assumes "j < length (elems h K_zone)"
  shows "set_zone_status j st h = (map_elem K_zone j (zone_upd st) h, None)"
  using assms by (simp add: set_zone_status_def elem_set_run map_elem_comp zone_upd_def [abs_def])

section \<open>Dispatch\<close>

lemma base_handlers_simps:
  "base_handlers ''ZC'' = [H_zc]" "base_handlers ''ZS'' = [H_zs]" "base_handlers ''RP'' = [H_rp]"
  "base_handlers ''login'' = [H_login_status]" "base_handlers ''disconnected'' = [H_disconnected]"
  "base_handlers ''sync_complete'' = []" "base_handlers ''connected'' = [H_connected]"
  by (simp_all add: base_handlers_def registrations_def)

lemma notify_one:
  assumes "registry_ok h" and "ty \<noteq> ''UA''" and "base_handlers ty = [hnd]"
  shows "notify ty p h = fst (run_handler (notify_depth 3) hnd p h)"
proof -
  have e: "(4 :: nat) = Suc 3" by simp
  show ?thesis unfolding notify_def e notify_depth.simps using assms by (simp add: registry_ok_def)
qed

lemma sizes_lengths: "sizes_ok h \<Longrightarrow> length (elems h k) = max_elements k"
  by (simp add: sizes_ok_def)

lemma notify_zc:
  assumes "registry_ok h" and "sizes_ok h" and "z < MAX_ZONES"
  shows "notify ''ZC'' (P_ZC (int z) st) h = map_elem K_zone z (zone_upd st) h"
proof -
  have "z < length (elems h K_zone)" using assms by (simp add: sizes_lengths)
  then show ?thesis
    by (simp add: notify_one [OF assms(1)] base_handlers_simps run_handler_def zc_handler_def
        with_elem_nat set_zone_status_run)
qed

lemma notify_zs:
  assumes "registry_ok h" and "sizes_ok h" and "length sts = MAX_ZONES"
  shows "notify ''ZS'' (P_ZS sts) h =
    fold (\<lambda>i. map_elem K_zone i (zone_upd (sts ! i))) [0..<MAX_ZONES] h"
proof -
  have "zs_handler sts h = (fold (\<lambda>i. map_elem K_zone i (zone_upd (sts ! i))) [0..<max_elements K_zone] h, None)"
    unfolding zs_handler_def
  proof (rule each_elem_run [OF assms(2)])
    fix i h'
    assume "i < max_elements K_zone" "length (elems h' K_zone) = max_elements K_zone"
    then show "with_item sts (int i) (set_zone_status i) h' = (map_elem K_zone i (zone_upd (sts ! i)) h', None)"
      using assms(3) by (simp add: with_item_nat set_zone_status_run)
  qed (simp add: zone_upd_attrs)
  then show ?thesis
    by (simp add: notify_one [OF assms(1)] base_handlers_simps run_handler_def)
qed

section \<open>Sending\<close>

lemma hub_send_run:
  assumes "cn_writer (hb_conn h)" and "\<not> cn_paused (hb_conn h)"
  shows "hub_send m p h =
    (h\<lparr>hb_conn := queue_write \<lparr>qw_msg = me_message m, qw_response_cmd = me_response_command m\<rparr> p (hb_conn h)\<rparr>, None)"
  using assms by (simp add: hub_send_def conn_send_def)

lemma queue_write_simps [simp]:
  "cn_writer (queue_write q p c) = cn_writer c"
  "cn_paused (queue_write q p c) = cn_paused c"
  by (simp_all add: queue_write_def)

text \<open>The queue entry of a request.\<close>

definition entry_of :: "message_encode \<Rightarrow> queued_write" where
  "entry_of m = \<lparr>qw_msg = me_message m, qw_response_cmd = me_response_command m\<rparr>"

text \<open>A connection that accepts requests.\<close>

definition ready :: "hub \<Rightarrow> bool" where
  "ready h = (cn_writer (hb_conn h) \<and> \<not> cn_paused (hb_conn h))"

text \<open>
  A statement that only queues the requests \<open>ms\<close> and asks for the names of the collections \<open>ds\<close>.
\<close>

definition queues :: "hub stmt \<Rightarrow> message_encode list \<Rightarrow> (kind \<times> text_description) list \<Rightarrow> bool" where
  "queues a ms ds = (\<forall>h. ready h \<longrightarrow> snd (a h) = None \<and> ready (fst (a h)) \<and>
     cn_queue (hb_conn (fst (a h))) = cn_queue (hb_conn h) @ map entry_of ms \<and>
     (\<forall>k. co_text_desc (hb_colls (fst (a h)) k) =
        (case map_of (rev ds) k of None \<Rightarrow> co_text_desc (hb_colls h k) | Some d \<Rightarrow> Some d)))"

lemma queues_send: "queues (hub_send m False) [m] []"
  by (simp add: queues_def ready_def hub_send_run) (simp add: queue_write_def entry_of_def)

lemma queues_seq_Nil: "queues (seq []) [] []"
  by (simp add: queues_def)

lemma queues_seq_Cons:
  assumes "queues a ms ds" and "queues (seq as) ns es"
  shows "queues (seq (a # as)) (ms @ ns) (ds @ es)"
  unfolding queues_def
proof (intro allI impI)
  fix h assume "ready h"
  then have a: "snd (a h) = None" "ready (fst (a h))"
    "cn_queue (hb_conn (fst (a h))) = cn_queue (hb_conn h) @ map entry_of ms"
    "\<And>k. co_text_desc (hb_colls (fst (a h)) k) =
        (case map_of (rev ds) k of None \<Rightarrow> co_text_desc (hb_colls h k) | Some d \<Rightarrow> Some d)"
    using assms(1) by (auto simp: queues_def)
  have sq: "seq (a # as) h = seq as (fst (a h))"
    using a(1) by (cases "a h") simp
  show "snd (seq (a # as) h) = None \<and> ready (fst (seq (a # as) h)) \<and>
     cn_queue (hb_conn (fst (seq (a # as) h))) = cn_queue (hb_conn h) @ map entry_of (ms @ ns) \<and>
     (\<forall>k. co_text_desc (hb_colls (fst (seq (a # as) h)) k) =
        (case map_of (rev (ds @ es)) k of None \<Rightarrow> co_text_desc (hb_colls h k) | Some d \<Rightarrow> Some d))"
    using assms(2) a unfolding sq queues_def
    by (auto simp: map_add_def split: option.splits)
qed

lemma queues_seq_append:
  "queues (seq as) ms ds \<Longrightarrow> queues (seq bs) ns es \<Longrightarrow> queues (seq (as @ bs)) (ms @ ns) (ds @ es)"
proof -
  assume a: "queues (seq as) ms ds" and b: "queues (seq bs) ns es"
  have "queues (seq [seq as, seq bs]) (ms @ ns @ []) (ds @ es @ [])"
    by (intro queues_seq_Cons queues_seq_Nil a b)
  moreover have "seq (as @ bs) h = seq [seq as, seq bs] h" for h
    by (induction as arbitrary: h) (auto split: prod.splits option.splits)
  ultimately show ?thesis by (simp add: queues_def)
qed

lemma queues_descriptions:
  "queues (get_descriptions k t) [sd_encode (td_type (text_desc_value t)) 0] [(k, text_desc_value t)]"
  unfolding queues_def
proof (intro allI impI)
  fix h assume r: "ready h"
  let ?h = "set_text_desc k (Some (text_desc_value t)) h"
  have "get_descriptions k t h = hub_send (sd_encode (td_type (text_desc_value t)) 0) False ?h"
    by (simp add: get_descriptions_def Let_def update_st_def split: prod.splits option.splits)
  moreover have "ready ?h" using r by (simp add: ready_def)
  moreover have "co_text_desc (hb_colls ?h k') = (if k' = k then Some (text_desc_value t) else co_text_desc (hb_colls h k'))" for k'
    by (simp add: set_text_desc_def)
  ultimately show "snd (get_descriptions k t h) = None \<and> ready (fst (get_descriptions k t h)) \<and>
      cn_queue (hb_conn (fst (get_descriptions k t h))) =
        cn_queue (hb_conn h) @ map entry_of [sd_encode (td_type (text_desc_value t)) 0] \<and>
      (\<forall>k'. co_text_desc (hb_colls (fst (get_descriptions k t h)) k') =
        (case map_of (rev [(k, text_desc_value t)]) k' of None \<Rightarrow> co_text_desc (hb_colls h k') | Some d \<Rightarrow> Some d))"
    using r by (auto simp: ready_def hub_send_run queue_write_def entry_of_def)
qed

lemma queues_for:
  assumes "\<And>i. i \<in> set is \<Longrightarrow> queues (f i) (ms i) []"
  shows "queues (for_each is f) (concat (map ms is)) []"
proof -
  have "queues (seq (map f is)) (concat (map ms is)) []"
    using assms
  proof (induction "is")
    case Nil
    then show ?case using queues_seq_Nil by (simp add: queues_def)
  next
    case (Cons i "is")
    then show ?case using queues_seq_Cons [of "f i" "ms i" "[]" "map f is" "concat (map ms is)" "[]"] by (simp del: seq.simps)
  qed
  moreover have "for_each is f h = seq (map f is) h" for h
    by (induction "is" arbitrary: h) (auto split: prod.splits option.splits)
  ultimately show ?thesis by (simp add: queues_def)
qed

text \<open>The requests of a synchronisation, in the order they are sent.\<close>

definition sync_requests :: "message_encode list" where
  "sync_requests =
     [vn_encode, lw_encode, ss_encode,
      az_encode, zd_encode, zp_encode, zs_encode, sd_encode 0 0,
      ps_encode 0, ps_encode 1, ps_encode 2, ps_encode 3, sd_encode 7 0,
      as_encode, sd_encode 1 0,
      sd_encode 5 0,
      ka_encode, sd_encode 3 0, kf_encode 0 FKey_FORCE_KF_SYNC,
      cs_encode, sd_encode 4 0,
      sd_encode 11 0,
      sd_encode 10 0,
      cp_encode, sd_encode 9 0,
      sd_encode 2 0,
      ua_encode 0]"

lemma queues_syncs:
  "queues (seq (element_list @ [hub_send (ua_encode 0) False])) sync_requests
     [(K_zone, text_desc_value TD_ZONE), (K_light, text_desc_value TD_LIGHT), (K_area, text_desc_value TD_AREA),
      (K_task, text_desc_value TD_TASK), (K_keypad, text_desc_value TD_KEYPAD), (K_output, text_desc_value TD_OUTPUT),
      (K_thermostat, text_desc_value TD_THERMOSTAT), (K_counter, text_desc_value TD_COUNTER),
      (K_setting, text_desc_value TD_SETTING), (K_user, text_desc_value TD_USER)]"
proof -
  have panel: "queues panel_sync ([vn_encode] @ [lw_encode] @ [ss_encode] @ []) ([] @ [] @ [] @ [])"
    unfolding panel_sync_def by (intro queues_seq_Cons queues_seq_Nil queues_send)
  have zones: "queues zones_sync ([az_encode] @ [zd_encode] @ [zp_encode] @ [zs_encode] @
      [sd_encode (td_type (text_desc_value TD_ZONE)) 0] @ []) ([] @ [] @ [] @ [] @ [(K_zone, text_desc_value TD_ZONE)] @ [])"
    unfolding zones_sync_def by (intro queues_seq_Cons queues_seq_Nil queues_send queues_descriptions)
  have lights: "queues lights_sync (concat (map (\<lambda>i. [ps_encode (int i)]) [0..<4]) @
      [sd_encode (td_type (text_desc_value TD_LIGHT)) 0] @ []) ([] @ [(K_light, text_desc_value TD_LIGHT)] @ [])"
    unfolding lights_sync_def by (intro queues_seq_Cons queues_seq_Nil queues_for queues_send queues_descriptions)
  have areas: "queues areas_sync ([as_encode] @ [sd_encode (td_type (text_desc_value TD_AREA)) 0] @ [])
      ([] @ [(K_area, text_desc_value TD_AREA)] @ [])"
    unfolding areas_sync_def by (intro queues_seq_Cons queues_seq_Nil queues_send queues_descriptions)
  have keypads: "queues keypads_sync ([ka_encode] @ [sd_encode (td_type (text_desc_value TD_KEYPAD)) 0] @
      [kf_encode 0 FKey_FORCE_KF_SYNC] @ []) ([] @ [(K_keypad, text_desc_value TD_KEYPAD)] @ [] @ [])"
    unfolding keypads_sync_def by (intro queues_seq_Cons queues_seq_Nil queues_send queues_descriptions)
  have outputs: "queues outputs_sync ([cs_encode] @ [sd_encode (td_type (text_desc_value TD_OUTPUT)) 0] @ [])
      ([] @ [(K_output, text_desc_value TD_OUTPUT)] @ [])"
    unfolding outputs_sync_def by (intro queues_seq_Cons queues_seq_Nil queues_send queues_descriptions)
  have settings: "queues settings_sync ([cp_encode] @ [sd_encode (td_type (text_desc_value TD_SETTING)) 0] @ [])
      ([] @ [(K_setting, text_desc_value TD_SETTING)] @ [])"
    unfolding settings_sync_def by (intro queues_seq_Cons queues_seq_Nil queues_send queues_descriptions)
  note names = queues_descriptions [of K_task TD_TASK] queues_descriptions [of K_thermostat TD_THERMOSTAT]
    queues_descriptions [of K_counter TD_COUNTER] queues_descriptions [of K_user TD_USER]
  note all = queues_seq_append [OF queues_seq_Cons [OF panel queues_seq_Cons [OF zones queues_seq_Cons [OF lights
      queues_seq_Cons [OF areas queues_seq_Cons [OF names(1) queues_seq_Cons [OF keypads queues_seq_Cons [OF outputs
      queues_seq_Cons [OF names(2) queues_seq_Cons [OF names(3) queues_seq_Cons [OF settings
      queues_seq_Cons [OF names(4) queues_seq_Nil]]]]]]]]]]]
      queues_seq_Cons [OF queues_send [of "ua_encode 0"] queues_seq_Nil]]
  show ?thesis
    using all unfolding element_list_def tasks_sync_def thermostats_sync_def counters_sync_def users_sync_def
    by (simp add: sync_requests_def upt_rec)
qed

lemma call_sync_result:
  assumes "ready h"
  shows "snd (call_sync_handlers h) = None \<and> ready (fst (call_sync_handlers h)) \<and>
    cn_queue (hb_conn (fst (call_sync_handlers h))) = cn_queue (hb_conn h) @ map entry_of sync_requests \<and>
    co_text_desc (hb_colls (fst (call_sync_handlers h)) k) =
      Some (text_desc_value (case k of K_zone \<Rightarrow> TD_ZONE | K_light \<Rightarrow> TD_LIGHT | K_area \<Rightarrow> TD_AREA | K_task \<Rightarrow> TD_TASK
        | K_keypad \<Rightarrow> TD_KEYPAD | K_output \<Rightarrow> TD_OUTPUT | K_thermostat \<Rightarrow> TD_THERMOSTAT | K_counter \<Rightarrow> TD_COUNTER
        | K_setting \<Rightarrow> TD_SETTING | K_user \<Rightarrow> TD_USER))"
proof -
  let ?h = "attach ''UA'' H_sync_complete h"
  have sq: "call_sync_handlers h = seq (element_list @ [hub_send (ua_encode 0) False]) ?h"
    by (simp add: call_sync_handlers_def update_st_def)
  have "ready ?h" using assms by (simp add: ready_def)
  then show ?thesis using queues_syncs unfolding queues_def sq by (cases k) simp_all
qed

lemma open_hub_reachable: "hub_reachable ((hub_init now)\<lparr>hb_conn := transport_open connection_init\<rparr>)"
proof -
  have c: "hb_conn (hub_init now) = connection_init" by (simp add: hub_init_def fold_attach_simps)
  have "conn_step (hb_conn (hub_init now)) Ev_open (transport_open connection_init)"
    unfolding c by (rule step_open) (simp_all add: connection_init_def)
  then show ?thesis by (rule hub_next [OF hub_start on_connection])
qed

section \<open>Properties\<close>



text \<open>A zone change reaches exactly its zone: for every reachable hub and every zone number
  the panel has, after the message the zone has the new logical and physical status, its other
  attributes and all other elements of the hub are as before, and no change is left pending.\<close>

theorem zone_change_effect:
  assumes "hub_reachable h" and "z < MAX_ZONES"
  shows "get_attr (elems (notify ''ZC'' (P_ZC (int z) st) h) K_zone ! z) ''logical_status'' = V_logical (fst st) \<and>
    get_attr (elems (notify ''ZC'' (P_ZC (int z) st) h) K_zone ! z) ''physical_status'' = V_physical (snd st) \<and>
    (\<forall>a. a \<notin> {''logical_status'', ''physical_status''} \<longrightarrow>
      get_attr (elems (notify ''ZC'' (P_ZC (int z) st) h) K_zone ! z) a = get_attr (elems h K_zone ! z) a) \<and>
    (\<forall>k j. (k, j) \<noteq> (K_zone, z) \<longrightarrow> elems (notify ''ZC'' (P_ZC (int z) st) h) k ! j = elems h k ! j) \<and>
    el_changeset (elems (notify ''ZC'' (P_ZC (int z) st) h) K_zone ! z) = []"
proof -
  have inv: "registry_ok h" "sizes_ok h" using hub_reachable_inv [OF assms(1)] by (auto simp: hub_inv_def)
  have "z < length (elems h K_zone)" using inv(2) assms(2) by (simp add: sizes_lengths)
  then show ?thesis unfolding notify_zc [OF inv assms(2)]
    by (auto simp: elems_map_elem zone_upd_attrs nth_list_update)
qed

theorem zone_change_effect_witness:
  "get_attr (elems (notify ''ZC'' (P_ZC (int 7) (ZL_VIOLATED, ZP_OPEN)) (hub_init 0)) K_zone ! 7) ''logical_status'' =
    V_logical ZL_VIOLATED"
  using zone_change_effect [OF hub_start, of 7 "(ZL_VIOLATED, ZP_OPEN)" 0] by (simp add: MAX_ZONES_def)

text \<open>A zone report sets every zone: after it, zone \<open>i\<close> has the \<open>i\<close>-th status of the report,
  for all 208 zones, nothing is pending, and no other collection is touched.\<close>

theorem zone_report_effect:
  assumes "hub_reachable h" and "length sts = MAX_ZONES"
  shows "(\<forall>i < MAX_ZONES.
      get_attr (elems (notify ''ZS'' (P_ZS sts) h) K_zone ! i) ''logical_status'' = V_logical (fst (sts ! i)) \<and>
      get_attr (elems (notify ''ZS'' (P_ZS sts) h) K_zone ! i) ''physical_status'' = V_physical (snd (sts ! i)) \<and>
      el_changeset (elems (notify ''ZS'' (P_ZS sts) h) K_zone ! i) = []) \<and>
    (\<forall>k. k \<noteq> K_zone \<longrightarrow> elems (notify ''ZS'' (P_ZS sts) h) k = elems h k)"
proof -
  have inv: "registry_ok h" "sizes_ok h" using hub_reachable_inv [OF assms(1)] by (auto simp: hub_inv_def)
  show ?thesis unfolding notify_zs [OF inv assms(2)] using inv(2)
    by (auto simp: fold_map_elem_nth fold_map_elem_other zone_upd_attrs sizes_lengths)
qed

theorem zone_report_effect_witness:
  "get_attr (elems (notify ''ZS'' (P_ZS (replicate MAX_ZONES (ZL_VIOLATED, ZP_OPEN))) (hub_init 0)) K_zone ! 207)
     ''physical_status'' = V_physical ZP_OPEN"
  using zone_report_effect [OF hub_start, of "replicate MAX_ZONES (ZL_VIOLATED, ZP_OPEN)" 0]
  by (simp add: MAX_ZONES_def del: replicate.simps)

text \<open>A synchronisation asks for everything once: on an open, unpaused connection it ends
  without an error, queues exactly the requests of \<open>sync_requests\<close> behind what is already queued,
  in that order with the end marker last, and starts the name discovery of every collection.\<close>

theorem synchronisation_requests:
  assumes "cn_writer (hb_conn h)" and "\<not> cn_paused (hb_conn h)"
  shows "snd (call_sync_handlers h) = None \<and>
    cn_queue (hb_conn (fst (call_sync_handlers h))) = cn_queue (hb_conn h) @ map entry_of sync_requests \<and>
    (\<forall>k. co_text_desc (hb_colls (fst (call_sync_handlers h)) k) \<noteq> None)"
  using call_sync_result [of h] assms by (simp add: ready_def)

theorem synchronisation_requests_witness:
  "snd (call_sync_handlers ((hub_init 0)\<lparr>hb_conn := transport_open connection_init\<rparr>)) = None"
  using synchronisation_requests [of "(hub_init 0)\<lparr>hb_conn := transport_open connection_init\<rparr>"]
  by (simp add: transport_open_def connection_init_def)

text \<open>The end of a synchronisation is reported exactly once: with the marker registered (once,
  however often a synchronisation was started), the first \<open>UA\<close> reply raises \<open>sync_complete\<close> once and
  removes the marker, and the next \<open>UA\<close> reply raises nothing.\<close>

theorem sync_complete_once:
  assumes "hub_reachable h"
  shows "hb_notified (notify ''UA'' p (attach ''UA'' H_sync_complete (attach ''UA'' H_sync_complete h))) =
      hb_notified h @ [''sync_complete''] \<and>
    hb_notified (notify ''UA'' q (notify ''UA'' p (attach ''UA'' H_sync_complete h))) =
      hb_notified h @ [''sync_complete'']"
proof -
  have r: "registry_ok h" using hub_reachable_inv [OF assms] by (simp add: hub_inv_def)
  define h1 where "h1 = attach ''UA'' H_sync_complete h"
  have twice: "attach ''UA'' H_sync_complete h1 = h1" by (simp add: h1_def attach_def)
  have h1: "hb_handlers h1 ''UA'' = [H_ua, H_sync_complete]" "hb_notified h1 = hb_notified h"
    "hb_handlers h1 ''sync_complete'' = []"
    using r by (auto simp: h1_def attach_def registry_ok_def base_handlers_simps)
  have four: "(4 :: nat) = Suc (Suc 2)" by simp
  have ua: "hb_handlers (fst (run_handler nt H_ua p g)) = hb_handlers g \<and>
      hb_notified (fst (run_handler nt H_ua p g)) = hb_notified g" for nt p g
    by (cases p) (simp_all add: run_handler_def raise_with_def ua_handler_def panel_set_def update_st_def)
  have run: "hb_notified (notify ''UA'' p g) = hb_notified g @ [''sync_complete''] \<and>
      hb_handlers (notify ''UA'' p g) ''UA'' = [H_ua]"
    if "hb_handlers g ''UA'' = [H_ua, H_sync_complete]" "hb_handlers g ''sync_complete'' = []" for g
    unfolding notify_def four notify_depth.simps that(1) using that ua [of "notify_depth (Suc 2)" p g]
    by (simp add: run_handler_def sync_complete_def raise_event_def update_st_def detach_def)
  have quiet: "hb_notified (notify ''UA'' q g) = hb_notified g" if "hb_handlers g ''UA'' = [H_ua]" for g
    unfolding notify_def four notify_depth.simps that using ua by simp
  show ?thesis using run [OF h1(1,3)] quiet [of "notify ''UA'' p h1"] h1(2) twice by (simp add: h1_def)
qed

theorem sync_complete_once_witness:
  "hb_notified (notify ''UA'' P_IE (attach ''UA'' H_sync_complete (attach ''UA'' H_sync_complete (hub_init 0)))) =
    hb_notified (hub_init 0) @ [''sync_complete'']"
  using sync_complete_once [OF hub_start, of P_IE 0 P_IE] by simp

text \<open>ElkRP: when the panel reports a programming session the connection is paused and its
  queue dropped, so by the silence of a paused connection nothing more is sent; the report that the
  session ended, and only that one, resumes it.\<close>

theorem programming_session_pauses:
  assumes "hub_reachable h"
  shows "(cn_paused (hb_conn (notify ''RP'' (P_RP st) h)) \<longleftrightarrow> st \<noteq> RP_DISCONNECTED) \<and>
    (st \<noteq> RP_DISCONNECTED \<longrightarrow> cn_queue (hb_conn (notify ''RP'' (P_RP st) h)) = [])"
proof -
  have r: "registry_ok h" using hub_reachable_inv [OF assms] by (simp add: hub_inv_def)
  have n: "notify ''RP'' (P_RP st) h = fst (rp_handler st h)"
    by (simp add: notify_one [OF r] base_handlers_simps run_handler_def)
  show ?thesis
    unfolding n by (simp add: rp_handler_def update_conn_def update_st_def panel_set_def conn_resume_def conn_pause_def)
qed

theorem programming_session_pauses_witness:
  "cn_paused (hb_conn (notify ''RP'' (P_RP RP_CONNECTED) (hub_init 0)))"
  using programming_session_pauses [OF hub_start, of RP_CONNECTED 0] by simp

end
