(* ===== verification/Elk_Discovery.thy ===== *)
theory Elk_Discovery
  imports Elk_Panel
begin

text \<open>
  The name discovery of a collection (\<open>get_descriptions\<close> and \<open>_sd_handler\<close> of
  \<open>helpers/elk/elements.py\<close>) as a dialogue with a panel, and how deep notifications nest. The
  panel's documented answer to a request for unit \<open>r\<close> is the first named unit from \<open>r\<close> on, or unit
  0 when there is none; it is a parameter (\<open>names\<close>, \<open>top_unit\<close>) of the dialogue.
\<close>

section \<open>One answer\<close>

definition accepted :: "text_description \<Rightarrow> string \<Rightarrow> bool" where
  "accepted td name = (td_type td \<noteq> td_type (text_desc_value TD_USER) \<or> \<not> is_default_user name)"

definition name_upd :: "string \<Rightarrow> element \<Rightarrow> element" where
  "name_upd name e = (set_attr ''name'' (V_str name) True e)\<lparr>el_configured := True\<rparr>"

lemma name_upd_simps:
  "get_attr (name_upd n e) ''name'' = V_str n" "el_configured (name_upd n e)"
  "el_index (name_upd n e) = el_index e"
proof -
  have "get_attr (name_upd n e) a = get_attr (set_attr ''name'' (V_str n) True e) a" for a
    by (simp add: name_upd_def get_attr_def)
  then show "get_attr (name_upd n e) ''name'' = V_str n" by (simp add: get_attr_set_attr_exact)
qed (simp_all add: name_upd_def)

lemma queue_write_head: "\<not> cn_paused c \<Longrightarrow> cn_queue (queue_write q True c) = q # cn_queue c"
  by (simp add: queue_write_def)

lemma hub_send_priority:
  assumes "ready h"
  obtains c where "hub_send m True h = (h\<lparr>hb_conn := c\<rparr>, None)" and "cn_writer c" and "\<not> cn_paused c"
    and "cn_queue c = entry_of m # cn_queue (hb_conn h)"
  using assms that [of "queue_write (entry_of m) True (hb_conn h)"]
  by (simp add: ready_def hub_send_run entry_of_def queue_write_head)

lemma configured_was_set_run:
  assumes "ready h"
  obtains c where "configured_was_set k j h = (h\<lparr>hb_conn := c\<rparr>, None)" and "cn_writer c" and "\<not> cn_paused c"
proof -
  consider (send) m where "configured_was_set k j h = hub_send m True h"
    | (skip) "configured_was_set k j h = (h, None)"
    by (cases k) (auto simp: configured_was_set_def skip_def Let_def)
  then show thesis
  proof cases
    case (send m)
    then show thesis using hub_send_priority [OF assms, of m] that by metis
  next
    case skip
    then show thesis using that [of "hb_conn h"] assms by (simp add: ready_def)
  qed
qed

lemma sd_answer:
  assumes "sizes_ok h" and "ready h" and "co_text_desc (hb_colls h k) = Some td"
    and "0 \<le> u" and "u < td_count td" and "td_count td \<le> int (max_elements k)"
  obtains c where "fst (sd_handler k (td_type td) u name flagged h) =
      (if accepted td name then map_elem k (nat u) (name_upd name) h else h)\<lparr>hb_conn := c\<rparr>"
    and "cn_writer c" and "\<not> cn_paused c"
    and "\<exists>q. cn_queue c = entry_of (sd_encode (td_type td) (u + 1)) # q"
proof -
  obtain j where j: "u = int j" using assms(4) nonneg_int_cases by blast
  then have jl: "j < length (elems h k)" using assms by (simp add: sizes_lengths)
  let ?last = "hub_send (sd_encode (td_type td) (u + 1)) True"
  let ?when = "when_st (\<lambda>_. td_type td \<noteq> td_type (text_desc_value TD_USER) \<or> \<not> is_default_user name)
    (with_elem k u (\<lambda>j. seq [elem_set k j ''name'' (V_str name) True, set_configured k j, configured_was_set k j]))"
  have run: "sd_handler k (td_type td) u name flagged h = seq [?when, ?last] h"
    using assms by (simp add: sd_handler_def)
  show thesis
  proof (cases "accepted td name")
    case False
    then have "sd_handler k (td_type td) u name flagged h = ?last h"
      unfolding run by (simp add: accepted_def when_st_def split: prod.splits option.splits)
    moreover obtain c where c: "?last h = (h\<lparr>hb_conn := c\<rparr>, None)" "cn_writer c" "\<not> cn_paused c"
      "cn_queue c = entry_of (sd_encode (td_type td) (u + 1)) # cn_queue (hb_conn h)"
      by (rule hub_send_priority [OF assms(2)])
    ultimately have "fst (sd_handler k (td_type td) u name flagged h) =
        (if accepted td name then map_elem k (nat u) (name_upd name) h else h)\<lparr>hb_conn := c\<rparr>"
      using False by simp
    then show thesis using c(2,3,4) that by blast
  next
    case True
    let ?h = "map_elem k j (name_upd name) h"
    have upd: "map_elem k j (\<lambda>e. e\<lparr>el_configured := True\<rparr>) (map_elem k j (set_attr ''name'' (V_str name) True) h) = ?h"
      using jl by (simp add: map_elem_comp name_upd_def [abs_def])
    have "ready ?h" using assms(2) by (simp add: ready_def)
    then obtain c1 where c1: "configured_was_set k j ?h = (?h\<lparr>hb_conn := c1\<rparr>, None)" "cn_writer c1" "\<not> cn_paused c1"
      by (rule configured_was_set_run)
    have "ready (?h\<lparr>hb_conn := c1\<rparr>)" using c1 by (simp add: ready_def)
    then obtain c2 where c2: "?last (?h\<lparr>hb_conn := c1\<rparr>) = ((?h\<lparr>hb_conn := c1\<rparr>)\<lparr>hb_conn := c2\<rparr>, None)"
      "cn_writer c2" "\<not> cn_paused c2"
      "cn_queue c2 = entry_of (sd_encode (td_type td) (u + 1)) # cn_queue (hb_conn (?h\<lparr>hb_conn := c1\<rparr>))"
      by (rule hub_send_priority)
    have "?when h = (?h\<lparr>hb_conn := c1\<rparr>, None)"
      using True jl c1(1) by (simp add: accepted_def when_st_def j with_elem_nat elem_set_run set_configured_def
          update_st_def upd)
    then have "sd_handler k (td_type td) u name flagged h = (?h\<lparr>hb_conn := c2\<rparr>, None)"
      unfolding run using c2(1) by simp
    then have "fst (sd_handler k (td_type td) u name flagged h) =
        (if accepted td name then map_elem k (nat u) (name_upd name) h else h)\<lparr>hb_conn := c2\<rparr>"
      using True j by simp
    moreover have "\<exists>q. cn_queue c2 = entry_of (sd_encode (td_type td) (u + 1)) # q"
      using c2(4) by blast
    ultimately show thesis using c2(2,3) that by blast
  qed
qed

section \<open>The dialogue\<close>

definition next_named :: "(int \<Rightarrow> string option) \<Rightarrow> int \<Rightarrow> int \<Rightarrow> int option" where
  "next_named names top_unit r = find (\<lambda>u. names u \<noteq> None) [r..top_unit]"

text \<open>
  The dialogue from the request for unit \<open>r\<close> on; unit 0 of the panel's answer is index \<open>-1\<close> after
  decoding. The first argument bounds the number of answers.
\<close>

fun discover :: "nat \<Rightarrow> kind \<Rightarrow> (int \<Rightarrow> string option) \<Rightarrow> int \<Rightarrow> int \<Rightarrow> hub \<Rightarrow> hub" where
  "discover 0 k names top_unit r h = h"
| "discover (Suc n) k names top_unit r h =
     (case co_text_desc (hb_colls h k) of
        None \<Rightarrow> h
      | Some td \<Rightarrow>
          (case next_named names top_unit r of
             None \<Rightarrow> discover n k names top_unit r (fst (sd_handler k (td_type td) (-1) '''' False h))
           | Some u \<Rightarrow>
               discover n k names top_unit (u + 1) (fst (sd_handler k (td_type td) u (the (names u)) False h))))"

lemma next_named_Some:
  assumes "next_named names top_unit r = Some u"
  shows "r \<le> u \<and> u \<le> top_unit \<and> (\<exists>nm. names u = Some nm) \<and> (\<forall>v. r \<le> v \<and> v < u \<longrightarrow> names v = None)"
proof -
  from assms obtain i where i: "i < length [r..top_unit]" "names ([r..top_unit] ! i) \<noteq> None" "u = [r..top_unit] ! i"
    "\<forall>j<i. names ([r..top_unit] ! j) = None"
    unfolding next_named_def find_Some_iff by blast
  have nth: "[r..top_unit] ! j = r + int j" if "j \<le> i" for j using i(1) that by (intro nth_upto) simp
  have "names v = None" if "r \<le> v" "v < u" for v
  proof -
    have "nat (v - r) < i" "r + int (nat (v - r)) = v" using that i(3) nth [of i] by auto
    then show ?thesis using i(4) nth [of "nat (v - r)"] by (metis less_imp_le)
  qed
  then show ?thesis using i nth [of i] by auto
qed

lemma next_named_None: "next_named names top_unit r = None \<Longrightarrow> r \<le> v \<Longrightarrow> v \<le> top_unit \<Longrightarrow> names v = None"
  by (auto simp: next_named_def find_None_iff)

lemma sd_end:
  assumes "co_text_desc (hb_colls h k) = Some td" and "u < 0 \<or> td_count td \<le> u"
  shows "fst (sd_handler k (td_type td) u name flagged h) = set_text_desc k None h"
  using assms by (auto simp: sd_handler_def update_st_def)

lemma set_text_desc_same: "co_text_desc (hb_colls (set_text_desc k d h) k) = d"
  by (simp add: set_text_desc_def)

text \<open>What the dialogue from \<open>r\<close> on has done when it is over.\<close>

definition discovered :: "kind \<Rightarrow> text_description \<Rightarrow> (int \<Rightarrow> string option) \<Rightarrow> int \<Rightarrow> hub \<Rightarrow> hub \<Rightarrow> bool" where
  "discovered k td names r h h' =
     (co_text_desc (hb_colls h' k) = None \<and>
      (\<forall>u nm. r \<le> u \<and> u < td_count td \<and> names u = Some nm \<and> accepted td nm \<longrightarrow>
         get_attr (elems h' k ! nat u) ''name'' = V_str nm \<and> el_configured (elems h' k ! nat u)) \<and>
      (\<forall>j. (int j < r \<or> names (int j) = None) \<longrightarrow> elems h' k ! j = elems h k ! j) \<and>
      (\<forall>k'. k' \<noteq> k \<longrightarrow> elems h' k' = elems h k'))"

lemma discoveredD:
  "discovered k td names r h h' \<Longrightarrow> r \<le> u \<Longrightarrow> u < td_count td \<Longrightarrow> names u = Some nm \<Longrightarrow> accepted td nm \<Longrightarrow>
     get_attr (elems h' k ! nat u) ''name'' = V_str nm"
  by (simp add: discovered_def)

lemma discover_discovered:
  assumes "sizes_ok h" and "ready h" and "co_text_desc (hb_colls h k) = Some td"
    and "td_count td \<le> int (max_elements k)" and "td_count td \<le> top_unit + 1" and "0 \<le> r"
    and "nat (td_count td - r) + 1 \<le> n"
  shows "discovered k td names r h (discover n k names top_unit r h)"
  using assms
proof (induction n arbitrary: r h)
  case 0
  then show ?case by simp
next
  case (Suc n)
  have stop: "discover n k names top_unit r' (set_text_desc k None h) = set_text_desc k None h" for r'
    by (cases n) (simp_all add: set_text_desc_same)
  show ?case
  proof (cases "next_named names top_unit r")
    case None
    then have "discover (Suc n) k names top_unit r h = set_text_desc k None h"
      using Suc.prems(3) stop by (simp add: sd_end)
    moreover have "names u = None" if "r \<le> u" "u < td_count td" for u
      using next_named_None [OF None that(1)] that(2) Suc.prems(5) by simp
    ultimately show ?thesis by (auto simp: discovered_def set_text_desc_same)
  next
    case (Some u)
    note u = next_named_Some [OF Some]
    obtain nm where nm: "names u = Some nm" using u by blast
    show ?thesis
    proof (cases "td_count td \<le> u")
      case True
      then have "discover (Suc n) k names top_unit r h = set_text_desc k None h"
        using Suc.prems(3) stop Some by (simp add: sd_end)
      moreover have "names v = None" if "r \<le> v" "v < td_count td" for v
        using u that True by auto
      ultimately show ?thesis by (auto simp: discovered_def set_text_desc_same)
    next
      case False
      have u0: "0 \<le> u" "u < td_count td" using u Suc.prems(6) False by auto
      obtain c where c: "fst (sd_handler k (td_type td) u nm False h) =
          (if accepted td nm then map_elem k (nat u) (name_upd nm) h else h)\<lparr>hb_conn := c\<rparr>"
        "cn_writer c" "\<not> cn_paused c"
        by (rule sd_answer [OF Suc.prems(1-3) u0 Suc.prems(4)])
      define h1 where "h1 = (if accepted td nm then map_elem k (nat u) (name_upd nm) h else h)\<lparr>hb_conn := c\<rparr>"
      have ul: "nat u < length (elems h k)" using u0 Suc.prems(1,4) by (simp add: sizes_lengths)
      have h1: "sizes_ok h1" "ready h1" "co_text_desc (hb_colls h1 k) = Some td"
        using Suc.prems(1-3) c sizes_ok_map_elem [of "name_upd nm" h k "nat u"]
        by (auto simp: h1_def ready_def sizes_ok_def name_upd_simps)
      have el: "elems h1 k' = (if accepted td nm \<and> k' = k then (elems h k)[nat u := name_upd nm (elems h k ! nat u)]
          else elems h k')" for k'
        by (simp add: h1_def elems_map_elem)
      have "nat (td_count td - (u + 1)) + 1 \<le> n" using Suc.prems(7) u u0 by linarith
      then have IH: "discovered k td names (u + 1) h1 (discover n k names top_unit (u + 1) h1)"
        using Suc.prems(4,5) u0 by (intro Suc.IH h1) auto
      have eq: "discover (Suc n) k names top_unit r h = discover n k names top_unit (u + 1) h1"
        using Suc.prems(3) Some nm c(1) by (simp add: h1_def)
      have old: "elems h1 k ! j = elems h k ! j" if "j \<noteq> nat u" for j
        using that by (simp add: el)
      define H where "H = discover n k names top_unit (u + 1) h1"
      have IH: "co_text_desc (hb_colls H k) = None"
        "\<And>v nm. u + 1 \<le> v \<Longrightarrow> v < td_count td \<Longrightarrow> names v = Some nm \<Longrightarrow> accepted td nm \<Longrightarrow>
           get_attr (elems H k ! nat v) ''name'' = V_str nm \<and> el_configured (elems H k ! nat v)"
        "\<And>j. int j < u + 1 \<or> names (int j) = None \<Longrightarrow> elems H k ! j = elems h1 k ! j"
        "\<And>k'. k' \<noteq> k \<Longrightarrow> elems H k' = elems h k'"
        using IH el unfolding discovered_def H_def by auto
      have at_u: "get_attr (elems H k ! nat u) ''name'' = V_str nm \<and> el_configured (elems H k ! nat u)"
        if "accepted td nm"
        using that IH(3) [of "nat u"] u0 ul by (simp add: el name_upd_simps)
      have named: "get_attr (elems H k ! nat v) ''name'' = V_str m \<and> el_configured (elems H k ! nat v)"
        if v: "r \<le> v" "v < td_count td" "names v = Some m" "accepted td m" for v m
      proof -
        consider "v < u" | "v = u" | "u + 1 \<le> v" by linarith
        then show ?thesis using u v nm at_u IH(2) by cases auto
      qed
      have kept: "elems H k ! j = elems h k ! j" if "int j < r \<or> names (int j) = None" for j
      proof -
        have "j \<noteq> nat u" "int j < u + 1 \<or> names (int j) = None" using that u u0 nm by auto
        then show ?thesis using IH(3) old by simp
      qed
      show ?thesis unfolding eq discovered_def H_def [symmetric]
        using IH(1,4) named kept by blast
    qed
  qed
qed

section \<open>Nested notifications\<close>

text \<open>
  Only three handlers notify in turn, and only these events; none of their own handlers goes
  deeper than the failed login that disconnects.
\<close>

lemma run_handler_cong:
  assumes "\<And>ty p g. ty \<in> {''login'', ''disconnected'', ''sync_complete''} \<Longrightarrow> registry_ok g \<Longrightarrow> nt ty p g = nt' ty p g"
    and "registry_ok h"
  shows "run_handler nt hnd p h = run_handler nt' hnd p h"
proof -
  have r: "registry_ok (h\<lparr>hb_notified := l\<rparr>)" "registry_ok (h\<lparr>hb_logged_in := b, hb_conn := c, hb_notified := l\<rparr>)"
    for l b c using assms(2) by (simp_all add: registry_ok_def)
  have sync: "sync_complete nt h = sync_complete nt' h"
    by (simp add: sync_complete_def raise_event_def update_st_def assms(1) r)
  have first: "got_first_message nt h = got_first_message nt' h"
    by (simp add: got_first_message_def raise_event_def update_st_def when_st_def assms(1) r)
  have login: "login_status nt b h = login_status nt' b h" for b
    by (simp add: login_status_def hub_disconnect_def update_conn_def raise_event_def update_st_def
        when_st_def assms(1) r)
  show ?thesis
    unfolding run_handler_def prod.case
    by (cases hnd; simp only: handler.case sync first)
      (cases p; simp only: payload.case login)
qed

lemma fold_run_cong:
  assumes "\<And>hnd g. hnd \<in> set hs \<Longrightarrow> registry_ok g \<Longrightarrow> run_handler nt hnd p g = run_handler nt' hnd p g"
    and "\<And>hnd g. registry_ok g \<Longrightarrow> registry_ok (fst (run_handler nt hnd p g))"
    and "registry_ok h"
  shows "fold (\<lambda>hnd g. fst (run_handler nt hnd p g)) hs h = fold (\<lambda>hnd g. fst (run_handler nt' hnd p g)) hs h"
  using assms(1,3)
proof (induction hs arbitrary: h)
  case Nil
  then show ?case by simp
next
  case (Cons hnd hs)
  have "run_handler nt hnd p h = run_handler nt' hnd p h" using Cons.prems by simp
  moreover have "registry_ok (fst (run_handler nt hnd p h))" using assms(2) Cons.prems(2) by blast
  ultimately show ?case using Cons.IH [of "fst (run_handler nt hnd p h)"] Cons.prems(1) by simp
qed

lemma registry_run_depth: "registry_ok g \<Longrightarrow> registry_ok (fst (run_handler (notify_depth n) hnd p g))"
  by (rule keepsD [OF registry.keeps_run_handler]) (rule registry.P_notify_depth)

lemma notify_depth_step:
  assumes "\<And>ty p g. ty \<in> {''login'', ''disconnected'', ''sync_complete''} \<Longrightarrow> registry_ok g \<Longrightarrow>
      notify_depth n ty p g = notify_depth m ty p g"
    and "registry_ok h"
  shows "notify_depth (Suc n) ty p h = notify_depth (Suc m) ty p h"
  unfolding notify_depth.simps
  by (rule fold_run_cong [OF run_handler_cong registry_run_depth assms(2)]) (use assms(1) in auto)

lemma depth_leaf:
  assumes "ty \<in> {''disconnected'', ''sync_complete''}" and "registry_ok h"
  shows "notify_depth (Suc n) ty p h = notify_depth (Suc 0) ty p h"
proof -
  have "hb_handlers h ty = [H_disconnected] \<or> hb_handlers h ty = []"
    using assms by (auto simp: registry_ok_def base_handlers_simps)
  moreover have "run_handler nt H_disconnected p h = run_handler nt' H_disconnected p h" for nt nt'
    by (cases p) (simp_all add: run_handler_def)
  ultimately show ?thesis by (metis fold_simps notify_depth.simps(2))
qed

lemma depth_login:
  assumes "registry_ok h"
  shows "notify_depth (Suc (Suc n)) ''login'' p h = notify_depth (Suc (Suc 0)) ''login'' p h"
proof -
  have r: "registry_ok (h\<lparr>hb_logged_in := b, hb_conn := c, hb_notified := l\<rparr>)" for b c l
    using assms by (simp add: registry_ok_def)
  have "login_status (notify_depth (Suc n)) b h = login_status (notify_depth (Suc 0)) b h" for b
    by (simp add: login_status_def hub_disconnect_def update_conn_def raise_event_def update_st_def
        when_st_def depth_leaf [OF _ r, where n = n] del: notify_depth.simps)
  then have "run_handler (notify_depth (Suc n)) H_login_status p h = run_handler (notify_depth (Suc 0)) H_login_status p h"
    by (cases p) (simp_all add: run_handler_def del: notify_depth.simps)
  moreover have "hb_handlers h ''login'' = [H_login_status]"
    using assms by (simp add: registry_ok_def base_handlers_simps)
  ultimately show ?thesis by (metis fold_simps notify_depth.simps(2))
qed

lemma depth_nested:
  assumes "ty \<in> {''login'', ''disconnected'', ''sync_complete''}" and "registry_ok h"
  shows "notify_depth (Suc (Suc n)) ty p h = notify_depth (Suc (Suc 0)) ty p h"
  using assms depth_login [OF assms(2)] depth_leaf [OF _ assms(2), of ty "Suc n"] depth_leaf [OF _ assms(2), of ty "Suc 0"]
  by auto

section \<open>Properties\<close>



text \<open>Notifications nest at most three deep, so the depth \<open>notify\<close> runs with cuts nothing off:
  any larger depth gives the same hub, for every message and every reachable hub.\<close>

theorem notification_depth_suffices:
  assumes "hub_reachable h" and "3 \<le> n"
  shows "notify_depth n ty p h = notify ty p h"
proof -
  have r: "registry_ok h" using hub_reachable_inv [OF assms(1)] by (simp add: hub_inv_def)
  have same: "notify_depth (Suc (Suc (Suc m))) ty p h = notify_depth (Suc (Suc (Suc 0))) ty p h" for m
    by (rule notify_depth_step [OF depth_nested r])
  obtain m where m: "n = Suc (Suc (Suc m))" using assms(2) by (metis add_Suc eval_nat_numeral(3) le_Suc_ex numeral_2_eq_2 plus_1_eq_Suc add.left_neutral One_nat_def)
  have four: "(4 :: nat) = Suc (Suc (Suc (Suc 0)))" by simp
  show ?thesis unfolding notify_def four m using same [of m] same [of "Suc 0"] by (simp only:)
qed

theorem notification_depth_suffices_witness:
  "notify_depth 10 ''VN'' (P_VN ''5.3.10'' ''1.3.28'') (hub_init 0) = notify ''VN'' (P_VN ''5.3.10'' ''1.3.28'') (hub_init 0)"
  by (rule notification_depth_suffices [OF hub_start]) simp

text \<open>Callbacks fire exactly on a change: closing an update of an element with nothing pending
  leaves the element alone when the value is equal, and otherwise stores the value, calls every
  registered callback once with exactly that change, and leaves nothing pending.\<close>

theorem callbacks_exactly_on_change:
  assumes "el_changeset e = []"
  shows "(py_eq (get_attr e a) v \<longrightarrow> set_attr a v True e = e) \<and>
    (\<not> py_eq (get_attr e a) v \<longrightarrow>
      get_attr (set_attr a v True e) a = v \<and>
      el_calls (set_attr a v True e) = el_calls e @ map (\<lambda>observer. (observer, [(a, v)])) (el_observers e) \<and>
      el_changeset (set_attr a v True e) = [])"
  using assms by (simp add: set_attr_def notify_element_def get_attr_def Let_def)

theorem callbacks_exactly_on_change_witness:
  "el_calls (set_attr ''status'' (V_int 5) True (add_callback 9 (new_element 0 [(''status'', V_int 0)]))) =
    [(9, [(''status'', V_int 5)])]"
  using callbacks_exactly_on_change [of "add_callback 9 (new_element 0 [(''status'', V_int 0)])" "''status''" "V_int 5"]
  by (simp add: add_callback_def new_element_def get_attr_def py_eq_def)

text \<open>Writing a custom setting: the value is refused with \<open>ValueError\<close> and no effect exactly when
  it is not of the kind the panel reported for the setting; otherwise exactly one write request for
  that setting and value is queued. The encoder's \<open>TypeError\<close> is unreachable.\<close>

theorem setting_write_guarded:
  assumes "cn_writer (hb_conn h)" and "\<not> cn_paused (hb_conn h)"
  shows "(case setting_set j v h of
      (h', None) \<Rightarrow> ((value_format (elems h K_setting ! j) = SFmt_TIME_OF_DAY) = (\<exists>hr mi. v = Time_of_day hr mi)) \<and>
        (\<exists>m. cw_encode (own_index h K_setting j) v (value_format (elems h K_setting ! j)) = Inr m \<and>
             cn_queue (hb_conn h') = cn_queue (hb_conn h) @ [entry_of m])
    | (h', Some e) \<Rightarrow> e = ValueError \<and> h' = h \<and>
        ((value_format (elems h K_setting ! j) = SFmt_TIME_OF_DAY) \<noteq> (\<exists>hr mi. v = Time_of_day hr mi)))"
proof (cases v)
  case (Plain n)
  then show ?thesis using assms
    by (auto simp: setting_set_def Let_def send_result_def eval_then_def cw_encode_def hub_send_run
        queue_write_def entry_of_def)
next
  case (Time_of_day hr mi)
  then show ?thesis using assms
    by (auto simp: setting_set_def Let_def send_result_def eval_then_def cw_encode_def hub_send_run
        queue_write_def entry_of_def)
qed

theorem setting_write_guarded_witness:
  "fst (setting_set 0 (Time_of_day 7 30) ((hub_init 0)\<lparr>hb_conn := transport_open connection_init\<rparr>)) =
    (hub_init 0)\<lparr>hb_conn := transport_open connection_init\<rparr> \<or>
   value_format (elems ((hub_init 0)\<lparr>hb_conn := transport_open connection_init\<rparr>) K_setting ! 0) = SFmt_TIME_OF_DAY"
proof -
  let ?h = "(hub_init 0)\<lparr>hb_conn := transport_open connection_init\<rparr>"
  have "cn_writer (hb_conn ?h)" "\<not> cn_paused (hb_conn ?h)"
    by (simp_all add: transport_open_def connection_init_def)
  from setting_write_guarded [OF this, of 0 "Time_of_day 7 30"] show ?thesis
    by (auto split: prod.splits option.splits)
qed

section \<open>Two surprises\<close>

text \<open>Arming an armed area is silently ignored: no request, no error.\<close>

lemma arm_when_armed_is_silent:
  assumes "is_armed (elems h K_area ! j)" and "level \<noteq> Level_DISARM"
  shows "area_arm j level code h = (h, None)"
  using assms by (simp add: area_arm_def)

text \<open>
  A frame that names unit 000 decodes to index \<open>-1\<close>, which Python's indexing turns into the last
  element: an output message for output 0 changes output 208.
\<close>

lemma unit_zero_hits_last_element:
  assumes "sizes_ok h"
  shows "cc_handler (-1) b h = (map_elem K_output (MAX_OUTPUTS - 1) (set_attr ''output_on'' (V_bool b) True) h, None)"
  using assms py_pos_minus_one [of MAX_OUTPUTS]
  by (simp add: cc_handler_def with_elem_def eval_then_def sizes_lengths elem_set_run MAX_OUTPUTS_def)

end
