(* ===== verification/Elk_Wire.thy ===== *)
theory Elk_Wire
  imports Elk_Encode
begin

text \<open>
  Properties of the codec of \<open>helpers/elk/message.py\<close>: the error behaviour of \<open>decode\<close>, the X10
  house codes, the round trips between the frames a panel sends and the decoded payloads, and the
  acceptance of every request the encoders build.
\<close>

section \<open>Shape of a finished frame\<close>

lemma list2E:
  assumes "length xs = 2"
  obtains a b where "xs = [a, b]"
  using assms by (auto simp: numeral_eq_Suc length_Suc_conv)

lemma finalize_shape:
  assumes "length s \<le> 251"
  obtains a b x y where "finalize s = a # b # s @ [CHR ''0'', CHR ''0'', x, y]"
    and "fmt_hex2 (length s + 4) = [a, b]"
proof -
  have "length (fmt_hex2 (length s + 4)) = 2" using assms by (intro length_fmt_hex2) simp
  then obtain a b where ab: "fmt_hex2 (length s + 4) = [a, b]" by (rule list2E)
  obtain x y where xy: "checksum (fmt_hex2 (length s + 4) @ s @ ''00'') = [x, y]"
    by (rule list2E [OF length_checksum])
  show thesis
  proof (rule that)
    show "finalize s = a # b # s @ [CHR ''0'', CHR ''0'', x, y]"
      unfolding finalize_parts using ab xy by simp
    show "fmt_hex2 (length s + 4) = [a, b]" by (rule ab)
  qed
qed

lemma fmt_dec_digits:
  assumes "0 \<le> n" and "n < 10 ^ w" and "0 < w"
  shows "length (fmt_dec w n) = w \<and> py_int 10 (fmt_dec w n) = Inr n"
proof -
  obtain k where k: "n = int k" using assms(1) nonneg_int_cases by blast
  then have "k < 10 ^ w" using assms(2) by (metis of_nat_less_iff of_nat_numeral of_nat_power)
  then show ?thesis using k assms(3) by (simp add: length_fmt_dec)
qed

lemma dec1E:
  assumes "0 \<le> n" and "n < 10"
  obtains a where "fmt_dec 1 n = [a]" and "py_int 10 [a] = Inr n"
  using fmt_dec_digits [of n 1] assms by (cases "fmt_dec 1 n") auto

lemma dec2E:
  assumes "0 \<le> n" and "n < 100"
  obtains a b where "fmt_dec 2 n = [a, b]" and "py_int 10 [a, b] = Inr n"
proof -
  have w: "length (fmt_dec 2 n) = 2" "py_int 10 (fmt_dec 2 n) = Inr n"
    using fmt_dec_digits [of n 2] assms by auto
  obtain a b where "fmt_dec 2 n = [a, b]" by (rule list2E [OF w(1)])
  with w(2) show thesis by (auto intro: that)
qed

lemma dec3E:
  assumes "0 \<le> n" and "n < 1000"
  obtains a b c where "fmt_dec 3 n = [a, b, c]" and "py_int 10 [a, b, c] = Inr n"
proof -
  have w: "length (fmt_dec 3 n) = 3" "py_int 10 (fmt_dec 3 n) = Inr n"
    using fmt_dec_digits [of n 3] assms by auto
  obtain a b c where "fmt_dec 3 n = [a, b, c]"
    using w(1) by (auto simp: numeral_eq_Suc length_Suc_conv)
  with w(2) show thesis by (auto intro: that)
qed

lemma dec5E:
  assumes "0 \<le> n" and "n < 100000"
  obtains a b c d e where "fmt_dec 5 n = [a, b, c, d, e]" and "py_int 10 [a, b, c, d, e] = Inr n"
proof -
  have w: "length (fmt_dec 5 n) = 5" "py_int 10 (fmt_dec 5 n) = Inr n"
    using fmt_dec_digits [of n 5] assms by auto
  obtain a b c d e where "fmt_dec 5 n = [a, b, c, d, e]"
    using w(1) by (auto simp: numeral_eq_Suc length_Suc_conv)
  with w(2) show thesis by (auto intro: that)
qed

section \<open>Dispatch\<close>

lemma decode_valid:
  assumes "is_valid_length_and_checksum m = Valid" and "py_slice 2 4 m = cmd" and "cmd \<noteq> ''PC''"
    and "map_of (decoders mk) (map lower cmd) = Some d" and "d m = Inr p"
  shows "decode mk m = Inr (Some (cmd, p))"
  using assms by (simp add: decode_def Let_def)

lemma decode_finalize:
  assumes "length s \<le> 249" and "length cmd = 2" and "cmd \<noteq> ''PC''"
    and "map_of (decoders mk) (map lower cmd) = Some d" and "d (finalize (cmd @ s)) = Inr p"
  shows "decode mk (finalize (cmd @ s)) = Inr (Some (cmd, p))"
proof (rule decode_valid [OF _ _ assms(3-5)])
  have l: "length (cmd @ s) \<le> 251" using assms by simp
  then show "is_valid_length_and_checksum (finalize (cmd @ s)) = Valid" by (rule finalize_valid)
  obtain a b x y where "finalize (cmd @ s) = a # b # (cmd @ s) @ [CHR ''0'', CHR ''0'', x, y]"
    using finalize_shape [OF l] by metis
  then show "py_slice 2 4 (finalize (cmd @ s)) = cmd" using assms(2) by (simp add: py_slice_def)
qed

text \<open>Look-up of a command in the dispatch table.\<close>

lemmas lower_simps = lower_def pyord_def char_of_def bit_0

lemma lower_commands:
  "map lower ''ZC'' = ''zc''" "map lower ''CC'' = ''cc''" "map lower ''CV'' = ''cv''"
  "map lower ''EE'' = ''ee''" "map lower ''ZS'' = ''zs''" "map lower ''AS'' = ''as''"
  "map lower ''CS'' = ''cs''" "map lower ''AZ'' = ''az''" "map lower ''ZD'' = ''zd''"
  "map lower ''ZP'' = ''zp''" "map lower ''SD'' = ''sd''" "map lower ''CR'' = ''cr''"
  "map lower ''KC'' = ''kc''" "map lower ''TC'' = ''tc''" "map lower ''ST'' = ''st''"
  "map lower ''KA'' = ''ka''" "map lower ''TR'' = ''tr''" "map lower ''UA'' = ''ua''"
  by (simp_all add: lower_simps)

lemmas dispatch_simps = decoders_def lower_commands

lemma hex_length_field:
  "fmt_hex2 10 = ''0A''" "fmt_hex2 12 = ''0C''" "fmt_hex2 19 = ''13''" "fmt_hex2 214 = ''D6''"
  by (simp_all add: fmt_hex2_def zfill_def to_digits.simps digit_char_def char_of_def bit_0)

section \<open>Errors of the decoders\<close>

definition err_ok :: "'a result \<Rightarrow> bool" where
  "err_ok r = (case r of Inl e \<Rightarrow> caught e | Inr _ \<Rightarrow> True)"

named_theorems err_intros \<open>a result raises only what the dispatcher catches\<close>

lemma err_ok_Inr [err_intros]: "err_ok (Inr x)"
  by (simp add: err_ok_def)

lemma err_ok_ValueError [err_intros]: "err_ok (Inl ValueError)"
  by (simp add: err_ok_def caught_def)

lemma err_ok_bindr [err_intros]: "err_ok m \<Longrightarrow> (\<And>x. m = Inr x \<Longrightarrow> err_ok (f x)) \<Longrightarrow> err_ok (bindr m f)"
  by (cases m) (auto simp: err_ok_def)

lemma err_ok_mapr [err_intros]: "(\<And>x. err_ok (f x)) \<Longrightarrow> err_ok (mapr f xs)"
  by (induction xs) (auto intro: err_intros)

lemma err_ok_py_int [err_intros]: "err_ok (py_int b s)"
  by (auto simp: err_ok_def caught_def dest: py_int_error split: sum.splits)

lemma err_ok_item [err_intros]: "err_ok (item xs i)"
  by (auto simp: err_ok_def caught_def item_def)

lemma err_ok_enum [err_intros]: "err_ok (enum_lookup ms val v)"
  by (auto simp: err_ok_def caught_def dest: enum_lookup_error split: sum.splits)

lemma err_ok_char_enum [err_intros]: "err_ok (char_enum ms val s)"
  by (auto simp: char_enum_def split: list.splits intro: err_intros)

lemma err_ok_if [err_intros]: "(c \<Longrightarrow> err_ok a) \<Longrightarrow> (\<not> c \<Longrightarrow> err_ok b) \<Longrightarrow> err_ok (if c then a else b)"
  by simp

lemma err_ok_chk_len [err_intros]: "err_ok (chk_len m l)"
  unfolding chk_len_def by (intro err_intros)

lemma err_ok_housecode [err_intros]: "err_ok (housecode_to_index h)"
  unfolding housecode_to_index_def by (auto split: option.splits prod.splits intro!: err_intros)

lemma err_ok_status [err_intros]: "err_ok (status_decode n)"
  unfolding status_decode_def by (intro err_intros)

lemma err_ok_dotted [err_intros]: "err_ok (dotted_version i m)"
  unfolding dotted_version_def by (intro err_intros)

lemma err_ok_cr_one [err_intros]: "err_ok (cr_one_custom_value_decode i p)"
  unfolding cr_one_custom_value_decode_def Let_def by (intro err_intros)

lemma err_ok_datetime [err_intros]: "err_ok (datetime y mo d h mi)"
  unfolding datetime_def by (intro err_intros)

lemma err_ok_decoders:
  assumes "d \<in> snd ` set (decoders mk)" and mk: "\<And>c. err_ok (mk c)"
  shows "err_ok (d m)"
proof -
  have "\<forall>d \<in> snd ` set (decoders mk). err_ok (d m)"
    unfolding decoders_def list.set image_insert image_empty snd_conv ball_simps
      am_decode_def as_decode_def az_decode_def cr_decode_def cc_decode_def cs_decode_def
      cv_decode_def ee_decode_def ic_decode_def ie_decode_def ka_decode_def kc_decode_def
      kf_decode_def ld_decode_def lw_decode_def pc_decode_def ps_decode_def rp_decode_def
      rr_decode_def sd_decode_def ss_decode_def st_decode_def tc_decode_def ti_decode_def
      tr_decode_def ua_decode_def vn_decode_def xk_decode_def zb_decode_def zc_decode_def
      zd_decode_def zp_decode_def zs_decode_def zv_decode_def Let_def
    by (intro conjI err_intros mk TrueI)
  then show ?thesis using assms(1) by blast
qed

lemma map_of_decoders_cases:
  assumes "map_of (decoders mk) c = Some d"
  shows "d \<in> snd ` set (decoders mk)"
  using map_of_SomeD [OF assms] by force

section \<open>House codes\<close>

lemma upper_id: "pyord c < 97 \<or> 122 < pyord c \<Longrightarrow> upper c = c"
  by (auto simp: upper_def Let_def)

lemma is_digit_digit_char [simp]: "d < 10 \<Longrightarrow> is_digit (digit_char d)"
  by (simp add: is_digit_def pyord_digit_char)

lemma fmt_dec2_digits:
  assumes "0 \<le> n" and "n < 100"
  shows "fmt_dec 2 n = [digit_char (nat n div 10), digit_char (nat n mod 10)]"
proof -
  have "nat n div 10 < 10" using assms by linarith
  then show ?thesis using assms
    by (auto simp: fmt_dec_def to_digits.simps [of 10 "nat n"] to_digits.simps [of 10 "nat n div 10"]
        zfill_def zero_digit_char)
qed

lemma housecode_roundtrip_lemma:
  assumes "0 \<le> i" and "i < 256"
  shows "\<exists>h. index_to_housecode i = Inr h \<and> length h = 3 \<and> housecode_to_index h = Inr i"
proof -
  let ?n = "i mod 16 + 1" and ?c = "char_of (65 + nat (i div 16)) :: char"
  have q: "0 \<le> i div 16" "i div 16 < 16" using assms by auto
  then have c: "pyord ?c = 65 + nat (i div 16)" by simp
  have n: "0 \<le> ?n" "?n < 100" by auto
  have d: "fmt_dec 2 ?n = [digit_char (nat ?n div 10), digit_char (nat ?n mod 10)]"
    by (rule fmt_dec2_digits [OF n])
  have lt: "nat ?n div 10 < 10" "nat ?n mod 10 < 10" using n by linarith+
  have dc: "k < 10 \<Longrightarrow> upper (digit_char k) = digit_char k" for k
    by (rule upper_id) (simp add: pyord_digit_char)
  have lf: "pyord (CHR 0x0A) = 10" by (simp add: pyord_def)
  have nl: "k < 10 \<Longrightarrow> digit_char k \<noteq> CHR 0x0A" for k
    using pyord_digit_char [of k] lf by auto
  have uc: "upper ?c = ?c" using c q by (intro upper_id) linarith
  have up: "map upper (?c # fmt_dec 2 ?n) = ?c # fmt_dec 2 ?n"
    using d lt dc uc by simp
  have m: "match_housecode (?c # fmt_dec 2 ?n) = Some (?c, fmt_dec 2 ?n)"
    using d lt c q nl by (simp add: match_housecode_def)
  have "housecode_to_index (?c # fmt_dec 2 ?n) = Inr i"
    unfolding housecode_to_index_def up m using fmt_dec_digits [of ?n 2] n c q by simp
  then show ?thesis using assms d by (simp add: index_to_housecode_def)
qed

lemma housecode_to_index_range: "housecode_to_index h = Inr i \<Longrightarrow> 0 \<le> i \<and> i < 256"
  by (auto simp: housecode_to_index_def match_housecode_def bindr_eq_Inr Let_def
      split: option.splits if_splits list.splits)

section \<open>Single events\<close>

lemma status_decode_values:
  "status_decode (4 * zone_logical_status_value lo + zone_physical_status_value ph) = Inr (lo, ph)"
  by (cases lo; cases ph; simp add: status_decode_def enum_lookup_def
      zone_logical_status_members_def zone_physical_status_members_def)

lemma status_value_range:
  "0 \<le> 4 * zone_logical_status_value lo + zone_physical_status_value ph \<and>
   4 * zone_logical_status_value lo + zone_physical_status_value ph < 16"
  by (cases lo; cases ph; simp)

lemma py_int_hex_digit: "d < 16 \<Longrightarrow> py_int 16 [digit_char d] = Inr (int d)"
  by (rule py_int_digit) simp_all

definition zone_nibble :: "zone_status \<Rightarrow> char" where
  "zone_nibble st =
     digit_char (nat (4 * zone_logical_status_value (fst st) + zone_physical_status_value (snd st)))"

lemma zone_nibble_decode: "bindr (py_int 16 [zone_nibble st]) status_decode = Inr st"
proof -
  obtain lo ph where st: "st = (lo, ph)" by (cases st)
  let ?v = "4 * zone_logical_status_value lo + zone_physical_status_value ph"
  have "0 \<le> ?v" "nat ?v < 16" using status_value_range [of lo ph] by linarith+
  then have "py_int 16 [zone_nibble st] = Inr ?v"
    by (simp add: zone_nibble_def st py_int_hex_digit)
  then show ?thesis by (simp add: st status_decode_values)
qed

definition flag_char :: "bool \<Rightarrow> char" where
  "flag_char b = (if b then CHR ''1'' else CHR ''0'')"

lemma is_one_flag_char [simp]: "is_one (flag_char b) = b"
  by (simp add: flag_char_def)

lemma zc_frame:
  assumes "0 \<le> z" and "z < 999"
  shows "decode mk (finalize (''ZC'' @ fmt_dec 3 (z + 1) @ [zone_nibble st])) = Inr (Some (''ZC'', P_ZC z st))"
proof -
  obtain p q r where f: "fmt_dec 3 (z + 1) = [p, q, r]" "py_int 10 [p, q, r] = Inr (z + 1)"
    using dec3E [of "z + 1"] assms by auto
  let ?s = "''ZC'' @ [p, q, r] @ [zone_nibble st]"
  obtain a b x y where m: "finalize ?s = a # b # ?s @ [CHR ''0'', CHR ''0'', x, y]"
    "fmt_hex2 (length ?s + 4) = [a, b]" by (rule finalize_shape [of ?s]) simp_all
  have ab: "[a, b] = ''0A''" using m(2) hex_length_field by simp
  have z: "bindr (py_int 16 [zone_nibble st]) status_decode = Inr st" by (rule zone_nibble_decode)
  then obtain v where v: "py_int 16 [zone_nibble st] = Inr v" "status_decode v = Inr st"
    by (auto simp: bindr_eq_Inr)
  have "zc_decode (finalize ?s) = Inr (P_ZC z st)"
    unfolding zc_decode_def m using f v ab by (simp add: chk_len_def py_slice_def)
  then show ?thesis unfolding f
    by (intro decode_finalize [where d = zc_decode]) (simp_all add: dispatch_simps del: list.map)
qed

lemma cc_frame:
  assumes "0 \<le> n" and "n < 999"
  shows "decode mk (finalize (''CC'' @ fmt_dec 3 (n + 1) @ [flag_char b])) = Inr (Some (''CC'', P_CC n b))"
proof -
  obtain p q r where f: "fmt_dec 3 (n + 1) = [p, q, r]" "py_int 10 [p, q, r] = Inr (n + 1)"
    using dec3E [of "n + 1"] assms by auto
  let ?s = "''CC'' @ [p, q, r] @ [flag_char b]"
  obtain u v x y where m: "finalize ?s = u # v # ?s @ [CHR ''0'', CHR ''0'', x, y]"
    by (rule finalize_shape [of ?s]) simp_all
  have "cc_decode (finalize ?s) = Inr (P_CC n b)"
    unfolding cc_decode_def m using f by (simp add: py_slice_def item_def)
  then show ?thesis unfolding f
    by (intro decode_finalize [where d = cc_decode]) (simp_all add: dispatch_simps del: list.map)
qed

lemma cv_frame:
  assumes "0 \<le> c" and "c < 99" and "0 \<le> v" and "v < 100000"
  shows "decode mk (finalize (''CV'' @ fmt_dec 2 (c + 1) @ fmt_dec 5 v)) = Inr (Some (''CV'', P_CV c v))"
proof -
  obtain p q where f: "fmt_dec 2 (c + 1) = [p, q]" "py_int 10 [p, q] = Inr (c + 1)"
    using dec2E [of "c + 1"] assms by auto
  obtain d1 d2 d3 d4 d5 where g: "fmt_dec 5 v = [d1, d2, d3, d4, d5]" "py_int 10 [d1, d2, d3, d4, d5] = Inr v"
    by (rule dec5E [OF assms(3,4)])
  let ?s = "''CV'' @ [p, q] @ [d1, d2, d3, d4, d5]"
  obtain a b x y where m: "finalize ?s = a # b # ?s @ [CHR ''0'', CHR ''0'', x, y]"
    by (rule finalize_shape [of ?s]) simp_all
  have "cv_decode (finalize ?s) = Inr (P_CV c v)"
    unfolding cv_decode_def m using f g by (simp add: py_slice_def)
  then show ?thesis unfolding f g
    by (intro decode_finalize [where d = cv_decode]) (simp_all add: dispatch_simps del: list.map)
qed

lemma ee_frame:
  assumes "0 \<le> i" and "i < 9" and "0 \<le> t1" and "t1 < 1000" and "0 \<le> t2" and "t2 < 1000"
  shows "decode mk (finalize (''EE'' @ fmt_dec 1 (i + 1) @ [flag_char (\<not> exit)] @ fmt_dec 3 t1 @
      fmt_dec 3 t2 @ [armed_status_value st])) = Inr (Some (''EE'', P_EE i exit t1 t2 st))"
proof -
  obtain p where f: "fmt_dec 1 (i + 1) = [p]" "py_int 10 [p] = Inr (i + 1)"
    using dec1E [of "i + 1"] assms by auto
  obtain a1 a2 a3 where g: "fmt_dec 3 t1 = [a1, a2, a3]" "py_int 10 [a1, a2, a3] = Inr t1"
    using dec3E [of t1] assms by auto
  obtain b1 b2 b3 where h: "fmt_dec 3 t2 = [b1, b2, b3]" "py_int 10 [b1, b2, b3] = Inr t2"
    using dec3E [of t2] assms by auto
  let ?s = "''EE'' @ [p] @ [flag_char (\<not> exit)] @ [a1, a2, a3] @ [b1, b2, b3] @ [armed_status_value st]"
  obtain u v x y where m: "finalize ?s = u # v # ?s @ [CHR ''0'', CHR ''0'', x, y]"
    by (rule finalize_shape [of ?s]) simp_all
  have "ee_decode (finalize ?s) = Inr (P_EE i exit t1 t2 st)"
    unfolding ee_decode_def m using f g h by (simp add: py_slice_def char_enum_def flag_char_def)
  then show ?thesis unfolding f g h
    by (intro decode_finalize [where d = ee_decode]) (simp_all add: dispatch_simps del: list.map)
qed

lemma tc_frame:
  assumes "0 \<le> n" and "n < 999"
  shows "decode mk (finalize (''TC'' @ fmt_dec 3 (n + 1))) = Inr (Some (''TC'', P_TC n))"
proof -
  obtain p q r where f: "fmt_dec 3 (n + 1) = [p, q, r]" "py_int 10 [p, q, r] = Inr (n + 1)"
    using dec3E [of "n + 1"] assms by auto
  let ?s = "''TC'' @ [p, q, r]"
  obtain u v x y where m: "finalize ?s = u # v # ?s @ [CHR ''0'', CHR ''0'', x, y]"
    by (rule finalize_shape [of ?s]) simp_all
  have "tc_decode (finalize ?s) = Inr (P_TC n)"
    unfolding tc_decode_def m using f by (simp add: py_slice_def)
  then show ?thesis unfolding f
    by (intro decode_finalize [where d = tc_decode]) (simp_all add: dispatch_simps del: list.map)
qed

lemma kc_frame:
  assumes "0 \<le> k" and "k < 99" and "0 \<le> key" and "key < 100"
  shows "decode mk (finalize (''KC'' @ fmt_dec 2 (k + 1) @ fmt_dec 2 key)) = Inr (Some (''KC'', P_KC k key))"
proof -
  obtain p q where f: "fmt_dec 2 (k + 1) = [p, q]" "py_int 10 [p, q] = Inr (k + 1)"
    using dec2E [of "k + 1"] assms by auto
  obtain c d where g: "fmt_dec 2 key = [c, d]" "py_int 10 [c, d] = Inr key"
    by (rule dec2E [OF assms(3,4)])
  let ?s = "''KC'' @ [p, q] @ [c, d]"
  obtain u v x y where m: "finalize ?s = u # v # ?s @ [CHR ''0'', CHR ''0'', x, y]"
    by (rule finalize_shape [of ?s]) simp_all
  have "kc_decode (finalize ?s) = Inr (P_KC k key)"
    unfolding kc_decode_def m using f g by (simp add: py_slice_def)
  then show ?thesis unfolding f g
    by (intro decode_finalize [where d = kc_decode]) (simp_all add: dispatch_simps del: list.map)
qed

section \<open>Whole-panel reports\<close>

text \<open>A report whose payload is one block of characters, read by a slice.\<close>

lemma report_slice:
  assumes "length xs \<le> 240"
  obtains a b where "py_slice 4 (4 + length xs) (finalize (c # d # xs)) = xs"
    and "py_slice 0 2 (finalize (c # d # xs)) = fmt_hex2 (length xs + 6)"
    and "drop (4 + length xs) (finalize (c # d # xs)) = CHR ''0'' # CHR ''0'' # [a, b]"
proof -
  let ?s = "c # d # xs"
  obtain a b x y where m: "finalize ?s = a # b # ?s @ [CHR ''0'', CHR ''0'', x, y]"
    "fmt_hex2 (length ?s + 4) = [a, b]" using assms by (elim finalize_shape [rotated]) simp
  show thesis
  proof (rule that)
    show "py_slice 4 (4 + length xs) (finalize ?s) = xs" unfolding m by (simp add: py_slice_def)
    show "py_slice 0 2 (finalize ?s) = fmt_hex2 (length xs + 6)"
      using m(2) unfolding m(1) by (simp add: py_slice_def add.commute eval_nat_numeral)
    show "drop (4 + length xs) (finalize ?s) = CHR ''0'' # CHR ''0'' # [x, y]" unfolding m by (simp add: numeral_eq_Suc)
  qed
qed

lemma zs_frame:
  assumes "length sts = MAX_ZONES"
  shows "decode mk (finalize (''ZS'' @ map zone_nibble sts)) = Inr (Some (''ZS'', P_ZS sts))"
proof -
  have l: "length (map zone_nibble sts) = 208" using assms by (simp add: MAX_ZONES_def)
  obtain a b where f: "py_slice 4 212 (finalize (''ZS'' @ map zone_nibble sts)) = map zone_nibble sts"
    "py_slice 0 2 (finalize (''ZS'' @ map zone_nibble sts)) = ''D6''"
    using report_slice [of "map zone_nibble sts" "CHR ''Z''" "CHR ''S''"] l hex_length_field by auto
  have "mapr (\<lambda>x. bindr (py_int 16 [x]) status_decode) (map zone_nibble sts) = Inr sts"
    using mapr_Inr_map [of sts "\<lambda>s. bindr (py_int 16 [zone_nibble s]) status_decode" id]
    by (simp add: mapr_map zone_nibble_decode)
  then have "zs_decode (finalize (''ZS'' @ map zone_nibble sts)) = Inr (P_ZS sts)"
    unfolding zs_decode_def chk_len_def MAX_ZONES_def using f by simp
  then show ?thesis using l
    by (intro decode_finalize [where d = zs_decode]) (simp_all add: dispatch_simps del: list.map)
qed

lemma az_frame:
  assumes "length sts = MAX_ZONES"
  shows "decode mk (finalize (''AZ'' @ map zone_alarm_state_value sts)) = Inr (Some (''AZ'', P_AZ sts))"
proof -
  let ?d = "map zone_alarm_state_value sts"
  have l: "length ?d = 208" using assms by (simp add: MAX_ZONES_def)
  obtain a b where f: "py_slice 4 212 (finalize (''AZ'' @ ?d)) = ?d"
    "py_slice 0 2 (finalize (''AZ'' @ ?d)) = ''D6''"
    using report_slice [of ?d "CHR ''A''" "CHR ''Z''"] l hex_length_field by auto
  have "az_decode (finalize (''AZ'' @ ?d)) = Inr (P_AZ sts)"
    unfolding az_decode_def chk_len_def MAX_ZONES_def using f
    by (simp add: zone_alarm_state_enum.mapr_lookup_value)
  then show ?thesis using l
    by (intro decode_finalize [where d = az_decode]) (simp_all add: dispatch_simps del: list.map)
qed

lemma cs_frame:
  assumes "length bs = MAX_OUTPUTS"
  shows "decode mk (finalize (''CS'' @ map flag_char bs)) = Inr (Some (''CS'', P_CS bs))"
proof -
  let ?d = "map flag_char bs"
  have l: "length ?d = 208" using assms by (simp add: MAX_OUTPUTS_def)
  obtain a b where f: "py_slice 4 212 (finalize (''CS'' @ ?d)) = ?d"
    using report_slice [of ?d "CHR ''C''" "CHR ''S''"] l by auto
  have "cs_decode (finalize (''CS'' @ ?d)) = Inr (P_CS bs)"
    unfolding cs_decode_def MAX_OUTPUTS_def using f by (simp add: comp_def)
  then show ?thesis using l
    by (intro decode_finalize [where d = cs_decode]) (simp_all add: dispatch_simps del: list.map)
qed

lemma as_frame:
  assumes "length armed = MAX_AREAS" and "length arm_up = MAX_AREAS" and "length alarm = MAX_AREAS"
    and "t < 256"
  shows "decode mk (finalize (''AS'' @ map armed_status_value armed @ map arm_up_state_value arm_up @
      map alarm_state_value alarm @ fmt_hex2 t)) = Inr (Some (''AS'', P_AS armed arm_up alarm (Some (int t))))"
proof -
  let ?a = "map armed_status_value armed" and ?b = "map arm_up_state_value arm_up"
    and ?c = "map alarm_state_value alarm"
  let ?d = "?a @ ?b @ ?c @ fmt_hex2 t"
  have l: "length ?a = 8" "length ?b = 8" "length ?c = 8" "length (fmt_hex2 t) = 2"
    using assms by (simp_all add: MAX_AREAS_def length_fmt_hex2)
  let ?s = "''AS'' @ ?d"
  obtain u v x y where m: "finalize ?s = u # v # ?s @ [CHR ''0'', CHR ''0'', x, y]"
    by (rule finalize_shape [of ?s]) (use l in simp_all)
  have f: "py_slice 4 12 (finalize ?s) = ?a" "py_slice 12 20 (finalize ?s) = ?b"
    "py_slice 20 28 (finalize ?s) = ?c" "py_slice 28 30 (finalize ?s) = fmt_hex2 t"
    unfolding m using l by (simp_all add: py_slice_def)
  have "as_decode (finalize ?s) = Inr (P_AS armed arm_up alarm (Some (int t)))"
    unfolding as_decode_def f using l
    by (simp add: armed_status_enum.mapr_lookup_value arm_up_state_enum.mapr_lookup_value
        alarm_state_enum.mapr_lookup_value)
  then show ?thesis using l
    by (intro decode_finalize [where d = as_decode]) (simp_all add: dispatch_simps del: list.map)
qed

section \<open>Text descriptions\<close>

text \<open>
  How the panel sends a name: padded with blanks to sixteen characters, the show-on-keypad flag in
  the top bit of the first.
\<close>

definition name_field :: "string \<Rightarrow> bool \<Rightarrow> string" where
  "name_field name flagged =
     (let padded = name @ replicate (16 - length name) (CHR '' '')
      in char_of (pyord (hd padded) + (if flagged then 128 else 0)) # tl padded)"

lemma rstrip_blanks: "rstrip (s @ replicate n (CHR '' '')) = rstrip s"
  by (simp add: rstrip_def rstrip_by_replicate str_space_def pyord_def)

lemma and_127: "m < 128 \<Longrightarrow> (m + 128) AND 127 = (m :: nat)"
  using take_bit_eq_mask [of 7 "m + 128"] by (simp add: mask_eq_exp_minus_1 take_bit_eq_mod)

lemma sd_frame:
  assumes "0 \<le> t" and "t < 100" and "0 \<le> u" and "u < 999"
    and "length name \<le> 16" and "rstrip name = name" and "\<And>c. c \<in> set name \<Longrightarrow> pyord c < 128"
  shows "decode mk (finalize (''SD'' @ fmt_dec 2 t @ fmt_dec 3 (u + 1) @ name_field name flagged)) =
    Inr (Some (''SD'', P_SD t u name flagged))"
proof -
  let ?p = "name @ replicate (16 - length name) (CHR '' '')"
  obtain h hs where p: "?p = h # hs" "length hs = 15"
    using assms(5) by (cases ?p) (auto dest: arg_cong [of _ _ length])
  have h: "pyord h < 128"
    using assms(7) p(1) by (cases name) (auto simp: pyord_def numeral_eq_Suc)
  let ?h = "char_of (pyord h + (if flagged then 128 else 0)) :: char"
  have nf: "name_field name flagged = ?h # hs" by (simp add: name_field_def p)
  have oh: "pyord ?h = pyord h + (if flagged then 128 else 0)" using h by simp
  have ch: "char_of (pyord h) = h" "(pyord h + 128) mod 256 = pyord h + 128"
    using h by (simp_all add: pyord_def)
  have r: "rstrip (h # hs) = name" using rstrip_blanks [of name "16 - length name"] p(1) assms(6) by simp
  obtain a b where f: "fmt_dec 2 t = [a, b]" "py_int 10 [a, b] = Inr t" by (rule dec2E [OF assms(1,2)])
  obtain c d e where g: "fmt_dec 3 (u + 1) = [c, d, e]" "py_int 10 [c, d, e] = Inr (u + 1)"
    using dec3E [of "u + 1"] assms by auto
  let ?s = "''SD'' @ [a, b] @ [c, d, e] @ ?h # hs"
  obtain v w x y where m: "finalize ?s = v # w # ?s @ [CHR ''0'', CHR ''0'', x, y]"
    by (rule finalize_shape [of ?s]) (use p(2) in simp_all)
  have i: "item (finalize ?s) 9 = Inr ?h" unfolding m by (simp add: item_def)
  have sl: "py_slice 4 6 (finalize ?s) = [a, b]" "py_slice 6 9 (finalize ?s) = [c, d, e]"
    "py_slice 10 25 (finalize ?s) = hs" unfolding m using p(2) by (simp_all add: py_slice_def)
  have "sd_decode (finalize ?s) = Inr (P_SD t u name flagged)"
    unfolding sd_decode_def i sl bindr.simps f(2) g(2) Let_def oh using h r by (auto simp: ch and_127 [OF h])
  then show ?thesis unfolding f g nf using p(2)
    by (intro decode_finalize [where d = sd_decode]) (simp_all add: dispatch_simps del: list.map)
qed

section \<open>Custom values\<close>

lemma byte_parts:
  assumes "0 \<le> m" and "m < 256"
  shows "drop_bit 8 (h * 256 + m) AND 255 = h mod 256" and "(h * 256 + m) AND 255 = (m :: int)"
proof -
  have a: "n AND 255 = n mod 256" for n :: int
    using take_bit_eq_mask [of 8 n] by (simp add: mask_eq_exp_minus_1 take_bit_eq_mod)
  show "drop_bit 8 (h * 256 + m) AND 255 = h mod 256" using assms by (simp add: a drop_bit_eq_div)
  show "(h * 256 + m) AND 255 = m" using assms by (simp add: a)
qed

text \<open>The values a custom setting can hold.\<close>

fun setting_ok :: "setting_format \<Rightarrow> setting_value \<Rightarrow> bool" where
  "setting_ok f (Time_of_day h m) = (f = SFmt_TIME_OF_DAY \<and> 0 \<le> h \<and> h < 256 \<and> 0 \<le> m \<and> m < 256)"
| "setting_ok f (Plain v) = (f \<noteq> SFmt_TIME_OF_DAY \<and> 0 \<le> v \<and> v < 100000)"

fun setting_number :: "setting_value \<Rightarrow> int" where
  "setting_number (Time_of_day h m) = h * 256 + m"
| "setting_number (Plain v) = v"

lemma cw_encode_number:
  "setting_ok f v \<Longrightarrow>
     cw_encode i v f = Inr (message_of (''cw'' @ fmt_dec 2 (i + 1) @ fmt_dec 5 (setting_number v)) (Some ''CR''))"
  by (cases v) (auto simp: cw_encode_def)

lemma setting_number_range: "setting_ok f v \<Longrightarrow> 0 \<le> setting_number v \<and> setting_number v < 100000"
  by (cases v) auto

lemma setting_format_digit: "0 \<le> setting_format_value f \<and> setting_format_value f < 10"
  by (cases f) auto

lemma cr_one_value:
  assumes "setting_ok f v" and "fmt_dec 5 (setting_number v) = [a, b, c, d, e]"
    and "py_int 10 [a, b, c, d, e] = Inr (setting_number v)"
    and "py_int 10 [g] = Inr (setting_format_value f)"
  shows "cr_one_custom_value_decode i [a, b, c, d, e, g] =
    Inr \<lparr>cvd_index = i, cvd_value = v, cvd_format = f\<rparr>"
proof -
  have p: "dec_at 0 5 [a, b, c, d, e, g] = Inr (setting_number v)"
    "dec_char 5 [a, b, c, d, e, g] = Inr (setting_format_value f)"
    using assms by (simp_all add: py_slice_def item_def)
  show ?thesis
    unfolding cr_one_custom_value_decode_def p bindr.simps setting_format_enum.lookup_value
    using assms(1) by (cases v) (auto simp: byte_parts Let_def)
qed

lemma cr_frame:
  assumes "0 \<le> i" and "i < 99" and "setting_ok f v"
  shows "decode mk (finalize (''CR'' @ fmt_dec 2 (i + 1) @ fmt_dec 5 (setting_number v) @
      fmt_dec 1 (setting_format_value f))) =
    Inr (Some (''CR'', P_CR [\<lparr>cvd_index = i, cvd_value = v, cvd_format = f\<rparr>]))"
proof -
  obtain p q where h: "fmt_dec 2 (i + 1) = [p, q]" "py_int 10 [p, q] = Inr (i + 1)"
    using dec2E [of "i + 1"] assms by auto
  have r: "0 \<le> setting_number v" "setting_number v < 100000"
    using setting_number_range [OF assms(3)] by auto
  obtain a b c d e where k: "fmt_dec 5 (setting_number v) = [a, b, c, d, e]"
    "py_int 10 [a, b, c, d, e] = Inr (setting_number v)" by (rule dec5E [OF r])
  obtain g where g: "fmt_dec 1 (setting_format_value f) = [g]" "py_int 10 [g] = Inr (setting_format_value f)"
    using dec1E [of "setting_format_value f"] setting_format_digit [of f] by auto
  let ?s = "''CR'' @ [p, q] @ [a, b, c, d, e] @ [g]"
  obtain u w x y where m: "finalize ?s = u # w # ?s @ [CHR ''0'', CHR ''0'', x, y]"
    by (rule finalize_shape [of ?s]) simp_all
  have sl: "py_slice 4 6 (finalize ?s) = [p, q]" "py_slice 6 12 (finalize ?s) = [a, b, c, d, e, g]"
    unfolding m by (simp_all add: py_slice_def)
  have "cr_decode (finalize ?s) = Inr (P_CR [\<lparr>cvd_index = i, cvd_value = v, cvd_format = f\<rparr>])"
    unfolding cr_decode_def sl h(2) using cr_one_value [OF assms(3) k g(2), of i] assms(1) by simp
  then show ?thesis unfolding h k g
    by (intro decode_finalize [where d = cr_decode]) (simp_all add: dispatch_simps del: list.map)
qed

section \<open>Requests\<close>

lemma length_fmt_dec_int: "0 < w \<Longrightarrow> 0 \<le> n \<Longrightarrow> n < 10 ^ w \<Longrightarrow> length (fmt_dec w n) = w"
  using fmt_dec_digits by blast

lemma length_display_line [simp]: "length (display_line s) = 16"
  by (simp add: display_line_def Let_def)

text \<open>A frame of the given command and total length that passes the validator.\<close>

definition well_formed_request :: "string \<Rightarrow> nat \<Rightarrow> string \<Rightarrow> bool" where
  "well_formed_request cmd n m =
     (is_valid_length_and_checksum m = Valid \<and> has_valid_length_and_checksum m \<and>
      length m = n \<and> py_slice 2 4 m = cmd)"

lemma well_formed_requestI:
  assumes "length s = n" and "n \<le> 249"
  shows "well_formed_request [c, d] (n + 8) (finalize (c # d # s))"
proof -
  have l: "length (c # d # s) \<le> 251" using assms by simp
  have v: "is_valid_length_and_checksum (finalize (c # d # s)) = Valid" by (rule finalize_valid [OF l])
  moreover have len: "length (finalize (c # d # s)) = n + 8"
    using length_finalize [OF l] assms(1) by simp
  moreover obtain a b x y where "finalize (c # d # s) = a # b # (c # d # s) @ [CHR ''0'', CHR ''0'', x, y]"
    by (rule finalize_shape [OF l])
  then have "py_slice 2 4 (finalize (c # d # s)) = [c, d]" by (simp add: py_slice_def)
  moreover have "has_valid_length_and_checksum (finalize (c # d # s))"
    by (rule finalize_has_valid [OF l])
  ultimately show ?thesis by (simp add: well_formed_request_def)
qed

lemma well_formed_request_eqI:
  assumes "length s = n - 8" and "8 \<le> n" and "n \<le> 257"
  shows "well_formed_request [c, d] n (finalize (c # d # s))"
  using well_formed_requestI [of s "n - 8" c d] assms by simp

section \<open>Errors of the dispatcher\<close>

lemma decode_outcome:
  assumes "\<And>c. \<exists>t. mktime c = Inr t"
  shows "(\<forall>e. decode mktime msg = Inl e \<longrightarrow> e = ValueError) \<and>
    (is_valid_length_and_checksum msg = Valid \<longrightarrow> decode mktime msg \<noteq> Inr None)"
proof -
  have mk: "err_ok (mktime c)" for c using assms [of c] by (auto intro: err_intros)
  have d: "err_ok (d msg)" if "map_of (decoders mktime) c = Some d" for c d
    by (rule err_ok_decoders [OF map_of_decoders_cases [OF that] mk])
  then have caught: "caught e" if "map_of (decoders mktime) c = Some d" "d msg = Inl e" for c d e
    using that d [OF that(1)] by (simp add: err_ok_def)
  show ?thesis
  proof (cases "is_valid_length_and_checksum msg = Valid")
    case True
    show ?thesis unfolding decode_def Let_def if_P [OF True]
      using caught by (auto simp only: sum.simps option.simps split: option.split sum.split if_split)
  next
    case False
    then show ?thesis unfolding decode_def if_not_P [OF False]
      by (simp only: split: if_split) simp
  qed
qed

section \<open>Properties\<close>

text \<open>C3. Whatever text arrives, \<open>decode\<close> either returns a value or raises its own
  \<open>ValueError\<close>; no \<open>IndexError\<close>, \<open>TypeError\<close> or other exception of a decoder escapes, as long as
  the machine's \<open>mktime\<close> answers. A valid frame is never dropped silently.\<close>

theorem decode_errors:
  assumes "\<And>c. \<exists>t. mktime c = Inr t"
  shows "(\<forall>e. decode mktime msg = Inl e \<longrightarrow> e = ValueError) \<and>
    (is_valid_length_and_checksum msg = Valid \<longrightarrow> decode mktime msg \<noteq> Inr None)"
  by (rule decode_outcome [OF assms])

theorem decode_errors_witness:
  "is_valid_length_and_checksum ''16XK2636115020605110006F'' = Valid \<and>
    decode (\<lambda>c. Inr 0) ''16XK2636115020605110006F'' \<noteq> Inr None"
proof -
  have "is_valid_length_and_checksum ''16XK2636115020605110006F'' = Valid" by code_simp
  then show ?thesis using decode_errors [of "\<lambda>c. Inr 0" "''16XK2636115020605110006F''"] by simp
qed

text \<open>X10 house codes: an index from 0 to 255 is written as a three-character house code
  that reads back as the same index, any other index is a \<open>ValueError\<close>, and every house code
  that is accepted denotes an index from 0 to 255.\<close>

theorem housecode_roundtrip:
  "(case index_to_housecode i of
      Inr h \<Rightarrow> 0 \<le> i \<and> i < 256 \<and> length h = 3 \<and> housecode_to_index h = Inr i
    | Inl e \<Rightarrow> (i < 0 \<or> 256 \<le> i) \<and> e = ValueError) \<and>
   (case housecode_to_index code of Inr k \<Rightarrow> 0 \<le> k \<and> k < 256 | Inl e \<Rightarrow> e = ValueError)"
proof (rule conjI)
  show "case index_to_housecode i of
      Inr h \<Rightarrow> 0 \<le> i \<and> i < 256 \<and> length h = 3 \<and> housecode_to_index h = Inr i
    | Inl e \<Rightarrow> (i < 0 \<or> 256 \<le> i) \<and> e = ValueError"
  proof (cases "0 \<le> i \<and> i < 256")
    case True
    then show ?thesis using housecode_roundtrip_lemma [of i] by auto
  next
    case False
    then show ?thesis by (auto simp: index_to_housecode_def)
  qed
  show "case housecode_to_index code of Inr k \<Rightarrow> 0 \<le> k \<and> k < 256 | Inl e \<Rightarrow> e = ValueError"
    using housecode_to_index_range [of code]
    by (auto simp: housecode_to_index_def split: sum.splits option.splits if_splits dest: py_int_error
        simp: bindr_eq_Inl)
qed

lemmas request_defs = al_encode_def cn_encode_def cf_encode_def ct_encode_def cr_encode_def
  cv_encode_def cx_encode_def dm_encode_def kf_encode_def kc_encode_def sp_encode_def sw_encode_def
  tn_encode_def tr_encode_def ts_encode_def ua_encode_def zt_encode_def zv_encode_def sd_encode_def
  pn_encode_def pc_encode_def

lemma thermostat_setting_digit: "0 \<le> thermostat_setting_value e \<and> thermostat_setting_value e < 10"
  by (cases e) auto

text \<open>For arguments in the ranges the panel has, every request encoder builds a frame both
  validators accept, that carries its command and has the fixed length the protocol gives it.\<close>

theorem requests_well_formed:
  assumes "0 \<le> area" "area < 8" and "0 \<le> user_code" "user_code < 1000000"
    and "0 \<le> zone" "zone < 208" and "0 \<le> output" "output < 208"
    and "0 \<le> seconds" "seconds < 65536" and "0 \<le> counter" "counter < 64"
    and "0 \<le> number" "number < 65536" and "0 \<le> keypad" "keypad < 16"
    and "0 \<le> task" "task < 32" and "0 \<le> thermostat" "thermostat < 16" and "0 \<le> degrees" "degrees < 100"
    and "0 \<le> light" "light < 256" and "0 \<le> phrase" "phrase < 1000" and "0 \<le> mode" "mode < 3"
    and "0 \<le> setting" "setting < 20"
  shows "well_formed_request [CHR ''a'', arm_level_value level] 15 (me_message (al_encode level area user_code)) \<and>
    well_formed_request ''cn'' 16 (me_message (cn_encode output seconds)) \<and>
    well_formed_request ''cf'' 11 (me_message (cf_encode output)) \<and>
    well_formed_request ''ct'' 11 (me_message (ct_encode output)) \<and>
    well_formed_request ''cr'' 10 (me_message (cr_encode setting)) \<and>
    well_formed_request ''cv'' 10 (me_message (cv_encode counter)) \<and>
    well_formed_request ''cx'' 15 (me_message (cx_encode counter number)) \<and>
    well_formed_request ''dm'' 48 (me_message (dm_encode area mode beep seconds line1 line2)) \<and>
    well_formed_request ''kf'' 11 (me_message (kf_encode keypad fkey)) \<and>
    well_formed_request ''kc'' 10 (me_message (kc_encode keypad)) \<and>
    well_formed_request ''sp'' 11 (me_message (sp_encode phrase)) \<and>
    well_formed_request ''sw'' 11 (me_message (sw_encode phrase)) \<and>
    well_formed_request ''tn'' 11 (me_message (tn_encode task)) \<and>
    well_formed_request ''tr'' 10 (me_message (tr_encode thermostat)) \<and>
    well_formed_request ''ts'' 13 (me_message (ts_encode thermostat degrees element)) \<and>
    well_formed_request ''ua'' 14 (me_message (ua_encode user_code)) \<and>
    well_formed_request ''zb'' 18 (me_message (zb_encode zone area user_code)) \<and>
    well_formed_request ''zt'' 11 (me_message (zt_encode zone)) \<and>
    well_formed_request ''zv'' 11 (me_message (zv_encode zone)) \<and>
    well_formed_request ''sd'' 13 (me_message (sd_encode 0 zone)) \<and>
    (\<exists>m. pn_encode light = Inr m \<and> well_formed_request ''pn'' 11 (me_message m)) \<and>
    (\<exists>m. pc_encode light degrees degrees phrase = Inr m \<and> well_formed_request ''pc'' 19 (me_message m))"
proof -
  obtain h where h: "index_to_housecode light = Inr h" "length h = 3"
    using housecode_roundtrip_lemma [of light] assms by blast
  have "well_formed_request ''zb'' 18 (me_message (zb_encode zone area user_code))"
    using assms unfolding zb_encode_def Let_def message_of_simps append_Cons append_Nil
    by (intro well_formed_request_eqI) (simp_all add: length_fmt_dec_int MAX_ZONES_def)
  moreover have "well_formed_request [CHR ''a'', arm_level_value level] 15 (me_message (al_encode level area user_code))"
    using assms unfolding al_encode_def message_of_simps append_Cons append_Nil
    by (intro well_formed_request_eqI) (simp_all add: length_fmt_dec_int)
  moreover have "well_formed_request ''pn'' 11 (finalize (''pn'' @ h))"
    "well_formed_request ''pc'' 19 (finalize (''pc'' @ h @ fmt_dec 2 degrees @ fmt_dec 2 degrees @ fmt_dec 4 phrase))"
    using assms h unfolding append_Cons append_Nil
    by (auto intro!: well_formed_request_eqI simp: length_fmt_dec_int)
  ultimately show ?thesis
    using assms h unfolding request_defs message_of_simps append_Cons append_Nil bindr.simps
    by (intro conjI; (intro well_formed_request_eqI)?; simp add: length_fmt_dec_int thermostat_setting_digit)
qed

theorem requests_well_formed_witness:
  "well_formed_request ''cn'' 16 (me_message (cn_encode 207 65535))"
  using requests_well_formed [of 7 999999 207 207 65535 63 65535 15 31 15 99 255 999 2 19] by simp

text \<open>Single events: the frame a panel sends for a zone change, an output change, a counter
  value, an entry or exit timer, a task activation or a key press decodes to exactly the values
  it was built from.\<close>

theorem panel_events_roundtrip:
  assumes "0 \<le> n" "n < 99" and "0 \<le> area" "area < 8" and "0 \<le> v" "v < 100000"
    and "0 \<le> t1" "t1 < 1000" and "0 \<le> t2" "t2 < 1000" and "0 \<le> z" "z < 999" and "0 \<le> key" "key < 100"
  shows "decode mk (finalize (''ZC'' @ fmt_dec 3 (z + 1) @ [zone_nibble st])) = Inr (Some (''ZC'', P_ZC z st)) \<and>
    decode mk (finalize (''CC'' @ fmt_dec 3 (z + 1) @ [flag_char b])) = Inr (Some (''CC'', P_CC z b)) \<and>
    decode mk (finalize (''CV'' @ fmt_dec 2 (n + 1) @ fmt_dec 5 v)) = Inr (Some (''CV'', P_CV n v)) \<and>
    decode mk (finalize (''EE'' @ fmt_dec 1 (area + 1) @ [flag_char (\<not> exit)] @ fmt_dec 3 t1 @
      fmt_dec 3 t2 @ [armed_status_value armed])) = Inr (Some (''EE'', P_EE area exit t1 t2 armed)) \<and>
    decode mk (finalize (''TC'' @ fmt_dec 3 (z + 1))) = Inr (Some (''TC'', P_TC z)) \<and>
    decode mk (finalize (''KC'' @ fmt_dec 2 (n + 1) @ fmt_dec 2 key)) = Inr (Some (''KC'', P_KC n key))"
  using assms
  by (intro conjI zc_frame cc_frame cv_frame ee_frame tc_frame kc_frame) simp_all

theorem panel_events_roundtrip_witness:
  "decode (\<lambda>c. Inr 0) (finalize (''ZC'' @ fmt_dec 3 (5 + 1) @ [zone_nibble (ZL_VIOLATED, ZP_OPEN)])) =
    Inr (Some (''ZC'', P_ZC 5 (ZL_VIOLATED, ZP_OPEN)))"
  using panel_events_roundtrip [of 0 0 0 0 0 5 0 "\<lambda>c. Inr 0" "(ZL_VIOLATED, ZP_OPEN)"] by simp

text \<open>C4. Whole-panel reports: the statuses of the 208 zones and of the 208 outputs, the alarm
  states by zone and the arming report of the 8 areas decode to the list the panel encoded, in
  order and complete.\<close>

theorem panel_reports_roundtrip:
  assumes "length zones = MAX_ZONES" and "length alarms = MAX_ZONES" and "length outputs = MAX_OUTPUTS"
    and "length armed = MAX_AREAS" and "length arm_up = MAX_AREAS" and "length alarm = MAX_AREAS" and "t < 256"
  shows "decode mk (finalize (''ZS'' @ map zone_nibble zones)) = Inr (Some (''ZS'', P_ZS zones)) \<and>
    decode mk (finalize (''AZ'' @ map zone_alarm_state_value alarms)) = Inr (Some (''AZ'', P_AZ alarms)) \<and>
    decode mk (finalize (''CS'' @ map flag_char outputs)) = Inr (Some (''CS'', P_CS outputs)) \<and>
    decode mk (finalize (''AS'' @ map armed_status_value armed @ map arm_up_state_value arm_up @
      map alarm_state_value alarm @ fmt_hex2 t)) = Inr (Some (''AS'', P_AS armed arm_up alarm (Some (int t))))"
  using assms by (intro conjI zs_frame az_frame cs_frame as_frame)

theorem panel_reports_roundtrip_witness:
  "decode (\<lambda>c. Inr 0) (finalize (''CS'' @ map flag_char (replicate MAX_OUTPUTS True))) =
    Inr (Some (''CS'', P_CS (replicate MAX_OUTPUTS True)))"
  using panel_reports_roundtrip [of "replicate MAX_ZONES (ZL_NORMAL, ZP_OPEN)"
      "replicate MAX_ZONES ZA_NO_ALARM" "replicate MAX_OUTPUTS True" "replicate MAX_AREAS Armed_DISARMED"
      "replicate MAX_AREAS ArmUp_NOT_READY_TO_ARM" "replicate MAX_AREAS Alarm_NO_ALARM_ACTIVE" 9 "\<lambda>c. Inr 0"]
  by (simp del: replicate.simps)

text \<open>Names: the text description the panel sends (sixteen characters, padded, the
  show-on-keypad flag in the top bit of the first character) decodes to the name and the flag.\<close>

theorem text_description_roundtrip:
  assumes "0 \<le> t" and "t < 100" and "0 \<le> u" and "u < 999"
    and "length name \<le> 16" and "rstrip name = name" and "\<And>c. c \<in> set name \<Longrightarrow> pyord c < 128"
  shows "decode mk (finalize (''SD'' @ fmt_dec 2 t @ fmt_dec 3 (u + 1) @ name_field name flagged)) =
    Inr (Some (''SD'', P_SD t u name flagged))"
  by (rule sd_frame [OF assms])

theorem text_description_roundtrip_witness:
  "decode (\<lambda>c. Inr 0) (finalize (''SD'' @ fmt_dec 2 0 @ fmt_dec 3 (4 + 1) @ name_field ''Front Door'' True)) =
    Inr (Some (''SD'', P_SD 0 4 ''Front Door'' True))"
  by (rule text_description_roundtrip) (auto simp: rstrip_def rstrip_by_def str_space_def pyord_def)

text \<open>Custom settings: a value the encoder \<open>cw\<close> accepts is written as a request whose index
  and number, echoed by the panel with the format digit, decode to the same index, value and
  format; a time of day survives the packing into one number.\<close>

theorem custom_value_roundtrip:
  assumes "0 \<le> i" and "i < 99" and "setting_ok f v"
  shows "\<exists>m. cw_encode i v f = Inr m \<and>
    decode mk (finalize (''CR'' @ py_slice 4 11 (me_message m) @ fmt_dec 1 (setting_format_value f))) =
      Inr (Some (''CR'', P_CR [\<lparr>cvd_index = i, cvd_value = v, cvd_format = f\<rparr>]))"
proof (rule exI, rule conjI, rule cw_encode_number [OF assms(3)])
  let ?s = "''cw'' @ fmt_dec 2 (i + 1) @ fmt_dec 5 (setting_number v)"
  have l: "length (fmt_dec 2 (i + 1)) = 2" "length (fmt_dec 5 (setting_number v)) = 5"
    using assms(1,2) setting_number_range [OF assms(3)] by (simp_all add: length_fmt_dec_int)
  obtain a b x y where m: "finalize ?s = a # b # ?s @ [CHR ''0'', CHR ''0'', x, y]"
    by (rule finalize_shape [of ?s]) (use l in simp_all)
  have "py_slice 4 11 (finalize ?s) = fmt_dec 2 (i + 1) @ fmt_dec 5 (setting_number v)"
    unfolding m using l by (simp add: py_slice_def)
  then show "decode mk (finalize (''CR'' @ py_slice 4 11 (me_message (message_of ?s (Some ''CR''))) @
      fmt_dec 1 (setting_format_value f))) =
    Inr (Some (''CR'', P_CR [\<lparr>cvd_index = i, cvd_value = v, cvd_format = f\<rparr>]))"
    using cr_frame [OF assms] by simp
qed

theorem custom_value_roundtrip_witness:
  "\<exists>m. cw_encode 3 (Time_of_day 7 45) SFmt_TIME_OF_DAY = Inr m \<and>
    decode (\<lambda>c. Inr 0) (finalize (''CR'' @ py_slice 4 11 (me_message m) @ fmt_dec 1 (setting_format_value SFmt_TIME_OF_DAY))) =
      Inr (Some (''CR'', P_CR [\<lparr>cvd_index = 3, cvd_value = Time_of_day 7 45, cvd_format = SFmt_TIME_OF_DAY\<rparr>]))"
  by (rule custom_value_roundtrip) simp_all

end
