(* ===== verification/Elk_Transport.thy ===== *)
theory Elk_Transport
  imports Elk_Discovery Elk_Wire
begin

text \<open>
  \<open>helpers/transport.py\<close> and \<open>helpers/baud_probe.py\<close>: the reader that turns the byte stream into
  notifications, the reconnect loop with its back-off, the connection manager, and the detection of
  the serial speed. The operating system's streams appear as the chunks that are read.
\<close>

section \<open>The reader\<close>

text \<open>What the reader works on: the hub, its buffer, and the keypad details it has published.\<close>

record stream =
  sm_hub :: hub
  sm_buffer :: string
  sm_details :: "kc_detail list"

text \<open>
  One frame of \<open>_entry_read_stream\<close>: a decoding error of the kinds that are caught skips the frame;
  any other one ends the reader.
\<close>

definition publish_detail :: "string \<Rightarrow> stream \<Rightarrow> stream" where
  "publish_detail line s =
     (case kc_detail_decode line of
        None \<Rightarrow> s
      | Some detail \<Rightarrow> s\<lparr>sm_details := sm_details s @ [detail]\<rparr>)"

definition correlate :: "string \<Rightarrow> hub \<Rightarrow> hub" where
  "correlate command h = h\<lparr>hb_conn := frame_received command (hb_conn h)\<rparr>"

definition receive_frame :: "(civil \<Rightarrow> int result) \<Rightarrow> string \<Rightarrow> stream stmt" where
  "receive_frame mktime line s =
     (if length line > MAX_FRAME_CHARS then (s, None)
      else case decode mktime line of
             Inl e \<Rightarrow> if e = ValueError \<or> e = AttributeError then (s, None) else (s, Some e)
           | Inr None \<Rightarrow> (s, None)
           | Inr (Some (command, payload)) \<Rightarrow>
               let s = publish_detail line s
               in (s\<lparr>sm_hub := notify command payload (correlate command (sm_hub s))\<rparr>, None))"

definition read_chunk :: "(civil \<Rightarrow> int result) \<Rightarrow> string \<Rightarrow> stream stmt" where
  "read_chunk mktime data s =
     (let (frames, rest) = extract_frames (sm_buffer s @ data);
          s = s\<lparr>sm_buffer := (if length rest > MAX_FRAME_CHARS then [] else rest)\<rparr>
      in for_each frames (receive_frame mktime) s)"

text \<open>The loop over the reads; an empty read is the end of the stream.\<close>

fun read_stream :: "(civil \<Rightarrow> int result) \<Rightarrow> string list \<Rightarrow> stream stmt" where
  "read_stream mktime [] s = (s, None)"
| "read_stream mktime (data # chunks) s =
     (if data = [] then (s, None)
      else case read_chunk mktime data s of
             (s, None) \<Rightarrow> read_stream mktime chunks s
           | (s, Some e) \<Rightarrow> (s, Some e))"

section \<open>Finding the speed of the port\<close>

definition STANDARD_BAUD_RATES :: "nat list" where
  "STANDARD_BAUD_RATES = [115200, 38400, 19200, 14400, 9600, 4800, 2400, 1200, 300]"

text \<open>Milliseconds.\<close>

definition PROBE_RESPONSE_TIMEOUT :: nat where "PROBE_RESPONSE_TIMEOUT = 2000"
definition PORT_SETTLE_DELAY :: nat where "PORT_SETTLE_DELAY = 500"
definition CONNECT_TIMEOUT :: nat where "CONNECT_TIMEOUT = 30000"

definition build_vn_command :: string where
  "build_vn_command = wire_line (me_message vn_encode)"

text \<open>Whether one of the frames is the version reply, in their order; an uncaught error leaves.\<close>

fun scan_frames :: "(civil \<Rightarrow> int result) \<Rightarrow> string list \<Rightarrow> bool result" where
  "scan_frames mktime [] = Inr False"
| "scan_frames mktime (frame # frames) =
     (if length frame > MAX_FRAME_CHARS then scan_frames mktime frames
      else case decode mktime frame of
             Inl e \<Rightarrow> if e = ValueError \<or> e = AttributeError then scan_frames mktime frames else Inl e
           | Inr None \<Rightarrow> scan_frames mktime frames
           | Inr (Some (command, payload)) \<Rightarrow> if command = ''VN'' then Inr True else scan_frames mktime frames)"

text \<open>
  The reads of \<open>_try_baud\<close> under its timeout: arrivals with their time since the command was
  written, the verdict and the time it took.
\<close>

fun probe_reads :: "(civil \<Rightarrow> int result) \<Rightarrow> (nat \<times> string) list \<Rightarrow> string \<Rightarrow> nat \<Rightarrow> bool result \<times> nat" where
  "probe_reads mktime [] buffer now = (Inr False, PROBE_RESPONSE_TIMEOUT)"
| "probe_reads mktime ((t, data) # arrivals) buffer now =
     (if t \<ge> PROBE_RESPONSE_TIMEOUT then (Inr False, PROBE_RESPONSE_TIMEOUT)
      else let now = max now t in
        if data = [] then (Inr False, now)
        else let (frames, rest) = extract_frames (buffer @ data) in
          if length rest > MAX_FRAME_CHARS then (Inr False, now)
          else case scan_frames mktime frames of
                 Inl e \<Rightarrow> (Inl e, now)
               | Inr True \<Rightarrow> (Inr True, now)
               | Inr False \<Rightarrow> probe_reads mktime arrivals rest now)"

text \<open>
  One speed: the port opens or not, and what it then says. A probe that ends without a reply, also
  by one of the listed errors (\<open>ValueError\<close> and the I/O errors), closes the port.
\<close>

record port_trial =
  pt_opens :: bool
  pt_arrivals :: "(nat \<times> string) list"

definition try_baud :: "(civil \<Rightarrow> int result) \<Rightarrow> port_trial \<Rightarrow> bool result \<times> nat" where
  "try_baud mktime port =
     (if \<not> pt_opens port then (Inr False, 0)
      else case probe_reads mktime (pt_arrivals port) [] 0 of
             (Inl e, t) \<Rightarrow> (if e = ValueError then Inr False else Inl e, PORT_SETTLE_DELAY + t)
           | (Inr found, t) \<Rightarrow> (Inr found, PORT_SETTLE_DELAY + t))"

definition probe_order :: "nat option \<Rightarrow> nat list" where
  "probe_order cached =
     (case cached of
        None \<Rightarrow> STANDARD_BAUD_RATES
      | Some b \<Rightarrow> b # filter (\<lambda>r. r \<noteq> b) STANDARD_BAUD_RATES)"

text \<open>\<open>open_probed_serial\<close>: the first speed that answers; None is the \<open>BaudProbeError\<close>.\<close>

fun sweep :: "(civil \<Rightarrow> int result) \<Rightarrow> (nat \<Rightarrow> port_trial) \<Rightarrow> nat list \<Rightarrow> nat option result \<times> nat" where
  "sweep mktime port [] = (Inr None, 0)"
| "sweep mktime port (baud # bauds) =
     (case try_baud mktime (port baud) of
        (Inl e, t) \<Rightarrow> (Inl e, t)
      | (Inr True, t) \<Rightarrow> (Inr (Some baud), t)
      | (Inr False, t) \<Rightarrow> (case sweep mktime port bauds of (r, t') \<Rightarrow> (r, t + t')))"

definition open_probed_serial ::
    "(civil \<Rightarrow> int result) \<Rightarrow> (nat \<Rightarrow> port_trial) \<Rightarrow> nat option \<Rightarrow> nat option result \<times> nat" where
  "open_probed_serial mktime port cached = sweep mktime port (probe_order cached)"

text \<open>\<open>parse_url\<close>: more or fewer than one separator is a \<open>ValueError\<close> of the unpacking.\<close>

fun split_at_sep :: "string \<Rightarrow> string \<Rightarrow> string list" where
  "split_at_sep cur [] = [rev cur]"
| "split_at_sep cur (c # cs) =
     (if c = CHR '':'' \<and> take 2 cs = ''//'' then rev cur # split_at_sep [] (drop 2 cs)
      else split_at_sep (c # cur) cs)"

definition parse_url :: "string \<Rightarrow> string result" where
  "parse_url url =
     (case split_at_sep [] url of
        [scheme, dest] \<Rightarrow> if scheme = ''serial'' then Inr dest else Inl ValueError
      | _ \<Rightarrow> Inl ValueError)"

section \<open>The manager and the reconnect loop\<close>

definition INITIAL_RETRY_DELAY :: nat where "INITIAL_RETRY_DELAY = 1"
definition MAX_RETRY_DELAY :: nat where "MAX_RETRY_DELAY = 60"

text \<open>The errors \<open>_failure_category\<close> tells apart, with their text.\<close>

datatype transport_error = E_probe string | E_timeout string | E_os string | E_other string

fun error_message :: "transport_error \<Rightarrow> string" where
  "error_message (E_probe m) = m"
| "error_message (E_timeout m) = m"
| "error_message (E_os m) = m"
| "error_message (E_other m) = m"

fun failure_category :: "transport_error \<Rightarrow> string" where
  "failure_category (E_probe m) = ''serial_probe''"
| "failure_category (E_timeout m) = ''timeout''"
| "failure_category (E_os m) = ''transport''"
| "failure_category (E_other m) = ''configuration''"

datatype transport_state = Stopped | Connecting | Connected | Reconnecting
datatype login_state = Login_unknown | Authenticated | Rejected

text \<open>Where the connection task is: there is none, it opens the port, it supervises the streams, or
  it died with an exception nobody catches.\<close>

datatype connect_task = No_connect | Opening | Streaming | Died

record manager =
  mg_task :: connect_task
  mg_ever_connected :: bool
  mg_transport :: transport_state
  mg_login :: login_state
  mg_reconnects :: nat
  mg_category :: "string option"
  mg_failure :: "string option"
  mg_baud :: "nat option"
  mg_retry_delay :: nat
  mg_sleeps :: "nat list"

definition manager_init :: "nat option \<Rightarrow> manager" where
  "manager_init cached_baud =
     \<lparr>mg_task = No_connect, mg_ever_connected = False, mg_transport = Stopped, mg_login = Login_unknown,
      mg_reconnects = 0, mg_category = None, mg_failure = None, mg_baud = cached_baud,
      mg_retry_delay = INITIAL_RETRY_DELAY, mg_sleeps = []\<rparr>"

definition on_transport_connected :: "manager \<Rightarrow> manager" where
  "on_transport_connected m =
     m\<lparr>mg_reconnects := (if mg_ever_connected m then mg_reconnects m + 1 else mg_reconnects m),
       mg_ever_connected := True, mg_transport := Connected\<rparr>"

definition on_failure :: "transport_error \<Rightarrow> manager \<Rightarrow> manager" where
  "on_failure err m =
     m\<lparr>mg_transport := Reconnecting, mg_category := Some (failure_category err),
       mg_failure := Some (error_message err)\<rparr>"

definition mark_disconnected :: "manager \<Rightarrow> manager" where
  "mark_disconnected m = (if mg_transport m \<noteq> Stopped then m\<lparr>mg_transport := Reconnecting\<rparr> else m)"

definition mark_login :: "bool \<Rightarrow> manager \<Rightarrow> manager" where
  "mark_login succeeded m =
     (let m = m\<lparr>mg_login := (if succeeded then Authenticated else Rejected)\<rparr>
      in if succeeded
         then m\<lparr>mg_retry_delay := INITIAL_RETRY_DELAY, mg_category := None, mg_failure := None\<rparr>
         else m\<lparr>mg_category := Some ''authentication'',
                mg_failure := Some ''ELK-M1 rejected the connection''\<rparr>)"

definition manager_start :: "manager \<Rightarrow> manager" where
  "manager_start m =
     (if mg_task m = No_connect \<or> mg_task m = Died then m\<lparr>mg_transport := Connecting, mg_task := Opening\<rparr> else m)"

definition manager_stop :: "manager \<Rightarrow> manager" where
  "manager_stop m = m\<lparr>mg_transport := Stopped, mg_task := No_connect\<rparr>"

text \<open>The three ways the loop of \<open>_entry_connect\<close> moves on; the sleeps are recorded.\<close>

definition next_delay :: "nat \<Rightarrow> nat" where
  "next_delay d = min MAX_RETRY_DELAY (d * 2)"

definition open_failed :: "transport_error \<Rightarrow> manager \<Rightarrow> manager" where
  "open_failed err m =
     (let retry_delay = mg_retry_delay m;
          m = on_failure err (m\<lparr>mg_retry_delay := next_delay retry_delay\<rparr>)
      in m\<lparr>mg_sleeps := mg_sleeps m @ [retry_delay]\<rparr>)"

definition opened :: "nat \<Rightarrow> manager \<Rightarrow> manager" where
  "opened baud m = (on_transport_connected (m\<lparr>mg_baud := Some baud\<rparr>))\<lparr>mg_task := Streaming\<rparr>"

definition stream_ended :: "transport_error \<Rightarrow> manager \<Rightarrow> manager" where
  "stream_ended err m =
     (let m = on_failure err m; m = m\<lparr>mg_retry_delay := next_delay (mg_retry_delay m)\<rparr>
      in m\<lparr>mg_sleeps := mg_sleeps m @ [mg_retry_delay m], mg_task := Opening\<rparr>)"

inductive manager_step :: "manager \<Rightarrow> manager \<Rightarrow> bool" where
  ms_start: "manager_step m (manager_start m)"
| ms_stop: "manager_step m (manager_stop m)"
| ms_open_failed: "mg_task m = Opening \<Longrightarrow> manager_step m (open_failed err m)"
| ms_opened: "mg_task m = Opening \<Longrightarrow> manager_step m (opened baud m)"
| ms_stream_ended: "mg_task m = Streaming \<Longrightarrow> manager_step m (stream_ended err m)"
| ms_died: "mg_task m \<in> {Opening, Streaming} \<Longrightarrow> manager_step m (m\<lparr>mg_task := Died\<rparr>)"
| ms_login: "manager_step m (mark_login succeeded m)"
| ms_disconnected: "manager_step m (mark_disconnected m)"

inductive manager_reachable :: "manager \<Rightarrow> bool" where
  mr_init: "manager_reachable (manager_init cached)"
| mr_step: "manager_reachable m \<Longrightarrow> manager_step m m' \<Longrightarrow> manager_reachable m'"

lemmas manager_defs = manager_start_def manager_stop_def open_failed_def opened_def stream_ended_def
  mark_login_def mark_disconnected_def on_failure_def on_transport_connected_def next_delay_def
  INITIAL_RETRY_DELAY_def MAX_RETRY_DELAY_def Let_def

section \<open>The reader, chunk by chunk\<close>

lemma receive_frame_buffer:
  "receive_frame mktime line (s\<lparr>sm_buffer := b\<rparr>) =
    (let (s', e) = receive_frame mktime line s in (s'\<lparr>sm_buffer := b\<rparr>, e))"
  by (auto simp: receive_frame_def publish_detail_def Let_def split: sum.splits option.splits)

lemma receive_frames_buffer:
  "for_each lines (receive_frame mktime) (s\<lparr>sm_buffer := b\<rparr>) =
    (let (s', e) = for_each lines (receive_frame mktime) s in (s'\<lparr>sm_buffer := b\<rparr>, e))"
proof (induction lines arbitrary: s)
  case Nil
  then show ?case by simp
next
  case (Cons line lines)
  obtain s1 e where r: "receive_frame mktime line s = (s1, e)" by force
  then have "receive_frame mktime line (s\<lparr>sm_buffer := b\<rparr>) = (s1\<lparr>sm_buffer := b\<rparr>, e)"
    by (simp add: receive_frame_buffer)
  then show ?case using r Cons.IH [of s1] by (cases e) simp_all
qed

lemma for_each_append:
  "for_each (xs @ ys) f s =
    (case for_each xs f s of (s', None) \<Rightarrow> for_each ys f s' | (s', Some e) \<Rightarrow> (s', Some e))"
  by (induction xs arbitrary: s) (auto split: prod.splits option.splits)

lemma read_chunk_append:
  assumes "read_chunk mktime xs s = (s1, None)"
    and "length (snd (extract_frames (sm_buffer s @ xs))) \<le> MAX_FRAME_CHARS"
  shows "read_chunk mktime (xs @ ys) s = read_chunk mktime ys s1"
    and "sm_buffer s1 = snd (extract_frames (sm_buffer s @ xs))"
proof -
  obtain f1 r1 where e1: "extract_frames (sm_buffer s @ xs) = (f1, r1)" by force
  obtain f2 r2 where e2: "extract_frames (r1 @ ys) = (f2, r2)" by force
  have e12: "extract_frames (sm_buffer s @ xs @ ys) = (f1 @ f2, r2)"
    using frames_spec_append [of "sm_buffer s @ xs" ys] e1 e2 by (simp add: extract_frames_eq_spec)
  let ?b = "if length r2 > MAX_FRAME_CHARS then [] else r2"
  obtain s2 e where s2: "for_each f1 (receive_frame mktime) s = (s2, e)" by force
  have "read_chunk mktime xs s = (s2\<lparr>sm_buffer := r1\<rparr>, e)"
    using e1 s2 assms(2) by (simp add: read_chunk_def receive_frames_buffer)
  then have s1: "s1 = s2\<lparr>sm_buffer := r1\<rparr>" "e = None" using assms(1) by auto
  show "sm_buffer s1 = snd (extract_frames (sm_buffer s @ xs))" by (simp add: s1 e1)
  have "read_chunk mktime (xs @ ys) s = for_each f2 (receive_frame mktime) (s2\<lparr>sm_buffer := ?b\<rparr>)"
    using e12 s2 s1(2) by (simp add: read_chunk_def for_each_append receive_frames_buffer)
  then show "read_chunk mktime (xs @ ys) s = read_chunk mktime ys s1"
    using e2 by (simp add: read_chunk_def s1)
qed

lemma read_stream_joined:
  assumes "read_stream mktime chunks s = (s', None)" and "chunks \<noteq> []" and "[] \<notin> set chunks"
    and "\<And>i. length (snd (extract_frames (sm_buffer s @ concat (take i chunks)))) \<le> MAX_FRAME_CHARS"
  shows "read_chunk mktime (concat chunks) s = (s', None)"
  using assms
proof (induction chunks arbitrary: s)
  case Nil
  then show ?case by simp
next
  case (Cons c chunks)
  obtain s1 e where c: "read_chunk mktime c s = (s1, e)" by force
  then have e: "e = None" and rest: "read_stream mktime chunks s1 = (s', None)"
    using Cons.prems(1,3) by (auto split: option.splits)
  note c1 = c [unfolded e]
  have short: "length (snd (extract_frames (sm_buffer s @ c))) \<le> MAX_FRAME_CHARS" using Cons.prems(4) [of 1] by simp
  note j = read_chunk_append [OF c1 short]
  show ?case
  proof (cases "chunks = []")
    case True
    then show ?thesis using c1 rest by simp
  next
    case False
    have "snd (extract_frames (sm_buffer s1 @ concat (take i chunks))) =
        snd (extract_frames (sm_buffer s @ concat (take (Suc i) (c # chunks))))" for i
      using frames_spec_append [of "sm_buffer s @ c" "concat (take i chunks)"]
      by (simp add: j(2) extract_frames_eq_spec split_def Let_def)
    then have "length (snd (extract_frames (sm_buffer s1 @ concat (take i chunks)))) \<le> MAX_FRAME_CHARS" for i
      using Cons.prems(4) [of "Suc i"] by simp
    then have "read_chunk mktime (concat chunks) s1 = (s', None)"
      using Cons.prems(3) rest False by (intro Cons.IH) simp_all
    then show ?thesis by (simp add: j(1))
  qed
qed

section \<open>Correlation\<close>

text \<open>The reply event, once set, stays set whatever the handlers do.\<close>

definition responded :: "hub \<Rightarrow> bool" where
  "responded h = cn_response (hb_conn h)"

interpretation responded: hub_predicate responded
proof
  fix g h
  assume "conn_update g" "responded h"
  then show "responded (h\<lparr>hb_conn := g (hb_conn h)\<rparr>)"
    by (cases rule: conn_update.cases)
      (auto simp: responded_def conn_send_def queue_write_def conn_pause_def conn_resume_def conn_disconnect_def)
qed (simp_all add: responded_def attach_def detach_def)

section \<open>The manager\<close>

definition manager_inv :: "manager \<Rightarrow> bool" where
  "manager_inv m =
     (1 \<le> mg_retry_delay m \<and> mg_retry_delay m \<le> MAX_RETRY_DELAY \<and>
      list_all (\<lambda>d. 1 \<le> d \<and> d \<le> MAX_RETRY_DELAY) (mg_sleeps m) \<and>
      (mg_transport m = Stopped \<longleftrightarrow> mg_task m = No_connect) \<and>
      (mg_task m = Streaming \<longrightarrow> mg_ever_connected m) \<and> (0 < mg_reconnects m \<longrightarrow> mg_ever_connected m))"

lemma manager_inv_step: "manager_step m m' \<Longrightarrow> manager_inv m \<Longrightarrow> manager_inv m'"
  by (induction rule: manager_step.induct) (auto simp: manager_inv_def manager_defs)

lemma manager_reachable_inv: "manager_reachable m \<Longrightarrow> manager_inv m"
proof (induction rule: manager_reachable.induct)
  case (mr_init cached)
  show ?case by (simp add: manager_inv_def manager_init_def INITIAL_RETRY_DELAY_def MAX_RETRY_DELAY_def)
next
  case (mr_step m m')
  then show ?case by (blast intro: manager_inv_step)
qed

lemma min_double: "min 60 (min 60 (d * 2 ^ i) * 2) = min 60 (d * 2 ^ Suc i)" for d :: nat
  by (simp add: min_def)

lemma open_failed_sleeps:
  "mg_sleeps (fold open_failed errs m) =
     mg_sleeps m @ map (\<lambda>i. if i = 0 then mg_retry_delay m else min MAX_RETRY_DELAY (mg_retry_delay m * 2 ^ i)) [0..<length errs] \<and>
   mg_retry_delay (fold open_failed errs m) =
     (if errs = [] then mg_retry_delay m else min MAX_RETRY_DELAY (mg_retry_delay m * 2 ^ length errs))"
proof (induction errs rule: rev_induct)
  case Nil
  then show ?case by simp
next
  case (snoc err errs)
  let ?m = "fold open_failed errs m"
  have st: "mg_sleeps (open_failed err ?m) = mg_sleeps ?m @ [mg_retry_delay ?m]"
    "mg_retry_delay (open_failed err ?m) = next_delay (mg_retry_delay ?m)"
    by (simp_all add: open_failed_def on_failure_def Let_def)
  show ?case
  proof (cases "errs = []")
    case True
    then show ?thesis using st by (simp add: next_delay_def)
  next
    case False
    then show ?thesis using st snoc by (simp add: next_delay_def MAX_RETRY_DELAY_def min_double)
  qed
qed

section \<open>The sweep\<close>

lemma probe_reads_time: "now \<le> PROBE_RESPONSE_TIMEOUT \<Longrightarrow> snd (probe_reads mktime arrivals buffer now) \<le> PROBE_RESPONSE_TIMEOUT"
  by (induction mktime arrivals buffer now rule: probe_reads.induct)
    (auto simp: Let_def split: prod.splits sum.splits bool.splits)

lemma try_baud_time: "snd (try_baud mktime port) \<le> PORT_SETTLE_DELAY + PROBE_RESPONSE_TIMEOUT"
  using probe_reads_time [of 0 mktime "pt_arrivals port" "[]"]
  by (auto simp: try_baud_def split: prod.splits sum.splits)

lemma sweep_time:
  "snd (sweep mktime port bauds) \<le> length bauds * (PORT_SETTLE_DELAY + PROBE_RESPONSE_TIMEOUT)"
proof (induction bauds)
  case Nil
  then show ?case by simp
next
  case (Cons baud bauds)
  then show ?case using try_baud_time [of mktime "port baud"]
    by (auto split: prod.splits sum.splits bool.splits)
qed

text \<open>The first speed that answers, when no trial is left by an uncaught error.\<close>

lemma sweep_first:
  assumes "\<And>b. b \<in> set bauds \<Longrightarrow> \<exists>r. fst (try_baud mktime (port b)) = Inr r"
  shows "fst (sweep mktime port bauds) = Inr (find (\<lambda>b. fst (try_baud mktime (port b)) = Inr True) bauds)"
  using assms
proof (induction bauds)
  case Nil
  then show ?case by simp
next
  case (Cons b bs)
  obtain r t where r: "try_baud mktime (port b) = (Inr r, t)" using Cons.prems [of b] by (cases "try_baud mktime (port b)") auto
  have "fst (sweep mktime port bs) = Inr (find (\<lambda>b. fst (try_baud mktime (port b)) = Inr True) bs)"
    using Cons.prems by (intro Cons.IH) simp
  then show ?case using r by (cases r) (auto split: prod.splits)
qed

text \<open>With a clock that can be converted the decoder raises nothing but \<open>ValueError\<close>.\<close>

lemma scan_frames_total:
  assumes "\<And>f e. decode mktime f = Inl e \<Longrightarrow> e = ValueError"
  shows "scan_frames mktime frames \<noteq> Inl e"
  using assms by (induction frames) (auto split: sum.splits option.splits)

lemma probe_reads_total:
  assumes "\<And>f e. decode mktime f = Inl e \<Longrightarrow> e = ValueError"
  shows "fst (probe_reads mktime arrivals buffer now) \<noteq> Inl e"
proof (induction arrivals arbitrary: buffer now)
  case Nil
  then show ?case by simp
next
  case (Cons a arrivals)
  obtain t data where a: "a = (t, data)" by force
  obtain frames rest where x: "extract_frames (buffer @ data) = (frames, rest)" by force
  have "scan_frames mktime frames \<noteq> Inl e" for e by (rule scan_frames_total [OF assms])
  then obtain b where "scan_frames mktime frames = Inr b" by (cases "scan_frames mktime frames") auto
  then show ?case using Cons.IH by (cases b) (simp_all add: a x Let_def)
qed

lemma try_baud_total:
  assumes "\<And>f e. decode mktime f = Inl e \<Longrightarrow> e = ValueError"
  shows "\<exists>b. fst (try_baud mktime port) = Inr b"
proof -
  obtain r t where p: "probe_reads mktime (pt_arrivals port) [] 0 = (r, t)" by force
  have "fst (probe_reads mktime (pt_arrivals port) [] 0) \<noteq> Inl e" for e by (rule probe_reads_total [OF assms])
  then obtain b where "r = Inr b" using p by (cases r) auto
  then show ?thesis using p by (cases "pt_opens port") (auto simp: try_baud_def)
qed

section \<open>Properties\<close>


text \<open>A reply reaches the writer: a frame that decodes to the awaited command sets the reply event,
  whatever the handlers of the frame do, and then ends the wait; a frame that is overlong or that
  the decoder rejects with a \<open>ValueError\<close> changes nothing.\<close>

theorem reply_reaches_writer:
  assumes "length line \<le> MAX_FRAME_CHARS" and "decode mktime line = Inr (Some (command, payload))"
    and "cn_awaiting (hb_conn (sm_hub s)) = Some command" and "cn_task (hb_conn (sm_hub s)) = Waiting_reply"
    and "decode mktime bad = Inl ValueError"
  shows "snd (receive_frame mktime line s) = None \<and>
    responded (sm_hub (fst (receive_frame mktime line s))) \<and>
    reply_turn (hb_conn (correlate command (sm_hub s))) \<noteq> None \<and> receive_frame mktime bad s = (s, None)"
proof -
  have "responded (correlate command (sm_hub s))"
    using assms(3) by (simp add: responded_def correlate_def frame_received_def)
  then have "responded (notify command payload (correlate command (sm_hub s)))" by (rule responded.P_notify)
  moreover have "sm_hub (publish_detail line s) = sm_hub s"
    by (simp add: publish_detail_def split: option.split)
  ultimately show ?thesis using assms
    by (simp add: receive_frame_def Let_def reply_turn_def correlate_def frame_received_def)
qed

text \<open>A hub that waits for the reply to a clock request.\<close>

definition waiting_hub :: hub where
  "waiting_hub =
     (hub_init 0)\<lparr>hb_conn := connection_init\<lparr>cn_writer := True, cn_task := Waiting_reply, cn_awaiting := Some ''RR''\<rparr>\<rparr>"


theorem reply_reaches_writer_witness:
  "responded (sm_hub (fst (receive_frame (\<lambda>c. Inr 0) ''16RR2636115020605110006E''
      \<lparr>sm_hub = waiting_hub, sm_buffer = [], sm_details = []\<rparr>)))"
proof -
  let ?s = "\<lparr>sm_hub = waiting_hub, sm_buffer = [], sm_details = []\<rparr>"
  have p: "decode (\<lambda>c. Inr 0) ''16RR2636115020605110006E'' = Inr (Some (''RR'', P_RR ''2636115020605110''))"
    by code_simp
  have bad: "decode (\<lambda>c. Inr 0) ''06XK2636'' = Inl ValueError" by code_simp
  show ?thesis using reply_reaches_writer [OF _ p _ _ bad, of ?s]
    by (simp add: MAX_FRAME_CHARS_def waiting_hub_def)
qed

text \<open>The manager: in every reachable state the retry delay and every sleep of the reconnect loop
  are between one and sixty seconds, the transport is reported as stopped exactly when there is no
  connection task, and the streams only run, and reconnections are only counted, after a
  connection.\<close>

theorem manager_invariant:
  assumes "manager_reachable m"
  shows "1 \<le> mg_retry_delay m \<and> mg_retry_delay m \<le> MAX_RETRY_DELAY \<and>
    list_all (\<lambda>d. 1 \<le> d \<and> d \<le> MAX_RETRY_DELAY) (mg_sleeps m) \<and>
    (mg_transport m = Stopped \<longleftrightarrow> mg_task m = No_connect) \<and>
    (mg_task m = Streaming \<longrightarrow> mg_ever_connected m) \<and> (0 < mg_reconnects m \<longrightarrow> mg_ever_connected m)"
  using manager_reachable_inv [OF assms] by (simp add: manager_inv_def)

theorem manager_invariant_witness:
  "1 \<le> mg_retry_delay (opened 9600 (manager_start (manager_init None)))"
proof -
  have "manager_reachable (manager_start (manager_init None))" by (blast intro: mr_init mr_step ms_start)
  moreover have "mg_task (manager_start (manager_init None)) = Opening"
    by (simp add: manager_start_def manager_init_def)
  ultimately have "manager_reachable (opened 9600 (manager_start (manager_init None)))"
    by (blast intro: mr_step ms_opened)
  then show ?thesis using manager_invariant by blast
qed

text \<open>The back-off: over any number of failed connections in a row the loop sleeps for the current
  delay, doubled after each failure and cut at sixty seconds, and an accepted login brings the delay
  back to one second, so that the next failure sleeps for one second again.\<close>

theorem backoff_schedule:
  "mg_sleeps (fold open_failed errs (mark_login True m)) =
     mg_sleeps m @ map (\<lambda>i. min MAX_RETRY_DELAY (2 ^ i)) [0..<length errs]"
proof -
  have r: "mg_retry_delay (mark_login True m) = 1" "mg_sleeps (mark_login True m) = mg_sleeps m"
    by (simp_all add: mark_login_def Let_def INITIAL_RETRY_DELAY_def)
  have "(if i = 0 then 1 else min MAX_RETRY_DELAY (1 * 2 ^ i)) = min MAX_RETRY_DELAY (2 ^ i :: nat)" for i :: nat
    by (simp add: MAX_RETRY_DELAY_def)
  then show ?thesis using open_failed_sleeps [of errs "mark_login True m"] unfolding r by simp
qed

text \<open>The detection of the speed: with a decoder whose clock can be converted, the sweep returns
  the first speed of its order that answers with a version reply and fails only when none does, and
  trying every speed takes at most 25 seconds, less than the time-out of the connection.\<close>

theorem speed_detection:
  assumes "\<And>c. \<exists>t. mktime c = Inr t"
  shows "fst (open_probed_serial mktime port cached) =
      Inr (find (\<lambda>b. fst (try_baud mktime (port b)) = Inr True) (probe_order cached)) \<and>
    snd (open_probed_serial mktime port cached) \<le> 25000 \<and> (25000 :: nat) < CONNECT_TIMEOUT"
proof -
  have total: "\<exists>r. fst (try_baud mktime (port b)) = Inr r" for b
  proof (rule try_baud_total)
    fix f e
    show "decode mktime f = Inl e \<Longrightarrow> e = ValueError" using decode_outcome [OF assms, where msg = f] by simp
  qed
  have "length (probe_order cached) \<le> 10"
    by (auto simp: probe_order_def STANDARD_BAUD_RATES_def split: option.split)
  then have "length (probe_order cached) * 2500 \<le> 25000" by simp
  then have "snd (sweep mktime port (probe_order cached)) \<le> 25000"
    using sweep_time [of mktime port "probe_order cached"]
    by (simp add: PORT_SETTLE_DELAY_def PROBE_RESPONSE_TIMEOUT_def)
  moreover have "fst (sweep mktime port (probe_order cached)) =
      Inr (find (\<lambda>b. fst (try_baud mktime (port b)) = Inr True) (probe_order cached))"
    by (rule sweep_first) (rule total)
  ultimately show ?thesis by (simp add: open_probed_serial_def CONNECT_TIMEOUT_def)
qed

theorem speed_detection_witness:
  "snd (open_probed_serial (\<lambda>c. Inr 0) (\<lambda>b. \<lparr>pt_opens = True, pt_arrivals = []\<rparr>) (Some 9600)) \<le> 25000"
  using speed_detection [of "\<lambda>c. Inr 0" "\<lambda>b. \<lparr>pt_opens = True, pt_arrivals = []\<rparr>" "Some 9600"] by auto

section \<open>A keypad detail from an arming report\<close>

text \<open>
  The reader asks \<open>kc_detail_decode\<close> about every decoded frame, not only about keypad frames: an
  arming report with nobody at a keypad publishes a key event of keypad 9.
\<close>

lemma arming_report_publishes_detail:
  "map_option kcd_keypad (kc_detail_decode (finalize (''AS'' @ ''100000004000000030000000''))) = Some 9"
  by code_simp

end
