(* ===== verification/Elk_Events.thy ===== *)
theory Elk_Events
  imports Elk_Prelude
begin

text \<open>
  \<open>event_log.py\<close>: the descriptions of the panel's system log events, entry by entry in the order of
  the code (in ten parts), and the look-up with its fallback.
\<close>

section \<open>The table\<close>

definition event_table_1 :: "(int \<times> string) list" where
  "event_table_1 =
     [(1000, ''no event''),
      (1001, ''fire alarm''),
      (1002, ''fire supervisory alarm''),
      (1003, ''burglar alarm, any area''),
      (1004, ''medical alarm, any area''),
      (1005, ''police alarm, any area''),
      (1006, ''aux1 24 hr, any area''),
      (1007, ''aux2 24 hr, any area''),
      (1008, ''carbon monoxide alarm, any area''),
      (1009, ''emergency alarm, any area''),
      (1010, ''freeze alarm, any area''),
      (1011, ''gas alarm, any area''),
      (1012, ''heat alarm, any area''),
      (1013, ''water alarm, any area''),
      (1014, ''alarm, any area''),
      (1015, ''burglar alarm in area 1''),
      (1016, ''burglar alarm in area 2''),
      (1017, ''burglar alarm in area 3''),
      (1018, ''burglar alarm in area 4''),
      (1019, ''burglar alarm in area 5''),
      (1020, ''burglar alarm in area 6''),
      (1021, ''burglar alarm in area 7''),
      (1022, ''burglar alarm in area 8''),
      (1023, ''medical alarm in area 1''),
      (1024, ''medical alarm in area 2''),
      (1025, ''medical alarm in area 3''),
      (1026, ''medical alarm in area 4''),
      (1027, ''medical alarm in area 5''),
      (1028, ''medical alarm in area 6''),
      (1029, ''medical alarm in area 7''),
      (1030, ''medical alarm in area 8''),
      (1031, ''police alarm in area 1''),
      (1032, ''police alarm in area 2''),
      (1033, ''police alarm in area 3''),
      (1034, ''police alarm in area 4''),
      (1035, ''police alarm in area 5''),
      (1036, ''police alarm in area 6''),
      (1037, ''police alarm in area 7''),
      (1038, ''police alarm in area 8''),
      (1039, ''aux1 24 hr in area 1''),
      (1040, ''aux1 24 hr in area 2''),
      (1041, ''aux1 24 hr in area 3''),
      (1042, ''aux1 24 hr in area 4''),
      (1043, ''aux1 24 hr in area 5''),
      (1044, ''aux1 24 hr in area 6''),
      (1045, ''aux1 24 hr in area 7''),
      (1046, ''aux1 24 hr in area 8''),
      (1047, ''aux2 24 hr in area 1''),
      (1048, ''aux2 24 hr in area 2''),
      (1049, ''aux2 24 hr in area 3''),
      (1050, ''aux2 24 hr in area 4''),
      (1051, ''aux2 24 hr in area 5''),
      (1052, ''aux2 24 hr in area 6''),
      (1053, ''aux2 24 hr in area 7''),
      (1054, ''aux2 24 hr in area 8''),
      (1055, ''co alarm in area 1''),
      (1056, ''co alarm in area 2''),
      (1057, ''co alarm in area 3''),
      (1058, ''co alarm in area 4''),
      (1059, ''co alarm in area 5''),
      (1060, ''co alarm in area 6''),
      (1061, ''co alarm in area 7''),
      (1062, ''co alarm in area 8''),
      (1063, ''emergency alarm in area 1''),
      (1064, ''emergency alarm in area 2''),
      (1065, ''emergency alarm in area 3''),
      (1066, ''emergency alarm in area 4''),
      (1067, ''emergency alarm in area 5''),
      (1068, ''emergency alarm in area 6''),
      (1069, ''emergency alarm in area 7''),
      (1070, ''emergency alarm in area 8''),
      (1071, ''freeze alarm in area 1''),
      (1072, ''freeze alarm in area 2''),
      (1073, ''freeze alarm in area 3''),
      (1074, ''freeze alarm in area 4''),
      (1075, ''freeze alarm in area 5''),
      (1076, ''freeze alarm in area 6''),
      (1077, ''freeze alarm in area 7''),
      (1078, ''freeze alarm in area 8''),
      (1079, ''gas alarm in area 1''),
      (1080, ''gas alarm in area 2''),
      (1081, ''gas alarm in area 3''),
      (1082, ''gas alarm in area 4''),
      (1083, ''gas alarm in area 5''),
      (1084, ''gas alarm in area 6''),
      (1085, ''gas alarm in area 7''),
      (1086, ''gas alarm in area 8''),
      (1087, ''heat alarm in area 1''),
      (1088, ''heat alarm in area 2''),
      (1089, ''heat alarm in area 3''),
      (1090, ''heat alarm in area 4''),
      (1091, ''heat alarm in area 5''),
      (1092, ''heat alarm in area 6''),
      (1093, ''heat alarm in area 7''),
      (1094, ''heat alarm in area 8''),
      (1095, ''water alarm in area 1''),
      (1096, ''water alarm in area 2''),
      (1097, ''water alarm in area 3''),
      (1098, ''water alarm in area 4''),
      (1099, ''water alarm in area 5''),
      (1100, ''water alarm in area 6''),
      (1101, ''water alarm in area 7''),
      (1102, ''water alarm in area 8''),
      (1103, ''any alarm in area 1''),
      (1104, ''any alarm in area 2''),
      (1105, ''any alarm in area 3''),
      (1106, ''any alarm in area 4''),
      (1107, ''any alarm in area 5''),
      (1108, ''any alarm in area 6''),
      (1109, ''any alarm in area 7''),
      (1110, ''any alarm in area 8''),
      (1111, ''code lockout, any keypad''),
      (1112, ''keypad 01 code-lockout''),
      (1113, ''keypad 02 code-lockout''),
      (1114, ''keypad 03 code-lockout''),
      (1115, ''keypad 04 code-lockout''),
      (1116, ''keypad 05 code-lockout''),
      (1117, ''keypad 06 code-lockout''),
      (1118, ''keypad 07 code-lockout''),
      (1119, ''keypad 08 code-lockout''),
      (1120, ''keypad 09 code-lockout''),
      (1121, ''keypad 10 code-lockout''),
      (1122, ''keypad 11 code-lockout''),
      (1123, ''keypad 12 code-lockout''),
      (1124, ''keypad 13 code-lockout''),
      (1125, ''keypad 14 code-lockout''),
      (1126, ''keypad 15 code-lockout''),
      (1127, ''keypad 16 code-lockout''),
      (1128, ''fire trouble, any zone''),
      (1129, ''burglar trouble, any zone''),
      (1130, ''fail to communicate trouble''),
      (1131, ''rf sensor low battery trouble''),
      (1132, ''rf jamming trouble''),
      (1133, ''lost keypad trouble''),
      (1134, ''lost input expander trouble''),
      (1135, ''lost output expander trouble'')]"

definition event_table_2 :: "(int \<times> string) list" where
  "event_table_2 =
     [(1136, ''eeprom memory error trouble''),
      (1137, ''restore zone trouble''),
      (1138, ''ac failure trouble''),
      (1139, ''control low battery trouble''),
      (1140, ''control over current trouble''),
      (1141, ''expansion module trouble''),
      (1142, ''output 2 supervisory trouble''),
      (1143, ''telephone line fault trouble''),
      (1144, ''restore fire zone''),
      (1145, ''restore fire supervisory zone''),
      (1146, ''restore burglar zone''),
      (1147, ''restore medical zone''),
      (1148, ''restore police zone''),
      (1149, ''restore aux1 24 hr zone''),
      (1150, ''restore aux2 24 hr zone''),
      (1151, ''restore co zone''),
      (1152, ''restore emergency zone''),
      (1153, ''restore freeze zone''),
      (1154, ''restore gas zone''),
      (1155, ''restore heat zone''),
      (1156, ''restore water zone''),
      (1157, ''communication fail restore''),
      (1158, ''ac fail restore''),
      (1159, ''low battery restore''),
      (1160, ''control over current restore''),
      (1161, ''expansion module restore''),
      (1162, ''output2 restore''),
      (1163, ''telephone line restore''),
      (1164, ''alarm memory, any area''),
      (1165, ''alarm memory, area 1''),
      (1166, ''alarm memory, area 2''),
      (1167, ''alarm memory, area 3''),
      (1168, ''alarm memory, area 4''),
      (1169, ''alarm memory, area 5''),
      (1170, ''alarm memory, area 6''),
      (1171, ''alarm memory, area 7''),
      (1172, ''alarm memory, area 8''),
      (1173, ''area armed''),
      (1174, ''area disarmed''),
      (1175, ''area 1 arm state''),
      (1176, ''area 2 arm state''),
      (1177, ''area 3 arm state''),
      (1178, ''area 4 arm state''),
      (1179, ''area 5 arm state''),
      (1180, ''area 6 arm state''),
      (1181, ''area 7 arm state''),
      (1182, ''area 8 arm state''),
      (1183, ''area 1 is armed away''),
      (1184, ''area 2 is armed away''),
      (1185, ''area 3 is armed away''),
      (1186, ''area 4 is armed away''),
      (1187, ''area 5 is armed away''),
      (1188, ''area 6 is armed away''),
      (1189, ''area 7 is armed away''),
      (1190, ''area 8 is armed away''),
      (1191, ''area 1 is armed stay''),
      (1192, ''area 2 is armed stay''),
      (1193, ''area 3 is armed stay''),
      (1194, ''area 4 is armed stay''),
      (1195, ''area 5 is armed stay''),
      (1196, ''area 6 is armed stay''),
      (1197, ''area 7 is armed stay''),
      (1198, ''area 8 is armed stay''),
      (1199, ''area 1 is armed stay instant''),
      (1200, ''area 2 is armed stay instant''),
      (1201, ''area 3 is armed stay instant''),
      (1202, ''area 4 is armed stay instant''),
      (1203, ''area 5 is armed stay instant''),
      (1204, ''area 6 is armed stay instant''),
      (1205, ''area 7 is armed stay instant''),
      (1206, ''area 8 is armed stay instant''),
      (1207, ''area 1 is armed night''),
      (1208, ''area 2 is armed night''),
      (1209, ''area 3 is armed night''),
      (1210, ''area 4 is armed night''),
      (1211, ''area 5 is armed night''),
      (1212, ''area 6 is armed night''),
      (1213, ''area 7 is armed night''),
      (1214, ''area 8 is armed night''),
      (1215, ''area 1 is armed night instant''),
      (1216, ''area 2 is armed night instant''),
      (1217, ''area 3 is armed night instant''),
      (1218, ''area 4 is armed night instant''),
      (1219, ''area 5 is armed night instant''),
      (1220, ''area 6 is armed night instant''),
      (1221, ''area 7 is armed night instant''),
      (1222, ''area 8 is armed night instant''),
      (1223, ''area 1 is armed vacation''),
      (1224, ''area 2 is armed vacation''),
      (1225, ''area 3 is armed vacation''),
      (1226, ''area 4 is armed vacation''),
      (1227, ''area 5 is armed vacation''),
      (1228, ''area 6 is armed vacation''),
      (1229, ''area 7 is armed vacation''),
      (1230, ''area 8 is armed vacation''),
      (1231, ''area 1 is force armed''),
      (1232, ''area 2 is force armed''),
      (1233, ''area 3 is force armed''),
      (1234, ''area 4 is force armed''),
      (1235, ''area 5 is force armed''),
      (1236, ''area 6 is force armed''),
      (1237, ''area 7 is force armed''),
      (1238, ''area 8 is force armed''),
      (1239, ''zone bypassed''),
      (1240, ''zone unbypassed''),
      (1241, ''any burglar zone is faulted''),
      (1242, ''burglar status of all areas''),
      (1243, ''area 1 burglar status''),
      (1244, ''area 2 burglar status''),
      (1245, ''area 3 burglar status''),
      (1246, ''area 4 burglar status''),
      (1247, ''area 5 burglar status''),
      (1248, ''area 6 burglar status''),
      (1249, ''area 7 burglar status''),
      (1250, ''area 8 burglar status''),
      (1251, ''area 1 chime mode''),
      (1252, ''area 2 chime mode''),
      (1253, ''area 3 chime mode''),
      (1254, ''area 4 chime mode''),
      (1255, ''area 5 chime mode''),
      (1256, ''area 6 chime mode''),
      (1257, ''area 7 chime mode''),
      (1258, ''area 8 chime mode''),
      (1259, ''area 1 chime alert''),
      (1260, ''area 2 chime alert''),
      (1261, ''area 3 chime alert''),
      (1262, ''area 4 chime alert''),
      (1263, ''area 5 chime alert''),
      (1264, ''area 6 chime alert''),
      (1265, ''area 7 chime alert''),
      (1266, ''area 8 chime alert''),
      (1267, ''entry delay, any area''),
      (1268, ''area 1 entry delay''),
      (1269, ''area 2 entry delay''),
      (1270, ''area 3 entry delay''),
      (1271, ''area 4 entry delay'')]"

definition event_table_3 :: "(int \<times> string) list" where
  "event_table_3 =
     [(1272, ''area 5 entry delay''),
      (1273, ''area 6 entry delay''),
      (1274, ''area 7 entry delay''),
      (1275, ''area 8 entry delay''),
      (1276, ''exit delay, any area''),
      (1277, ''area 1 exit delay''),
      (1278, ''area 2 exit delay''),
      (1279, ''area 3 exit delay''),
      (1280, ''area 4 exit delay''),
      (1281, ''area 5 exit delay''),
      (1282, ''area 6 exit delay''),
      (1283, ''area 7 exit delay''),
      (1284, ''area 8 exit delay''),
      (1285, ''area 1 exit delay ends''),
      (1286, ''area 2 exit delay ends''),
      (1287, ''area 3 exit delay ends''),
      (1288, ''area 4 exit delay ends''),
      (1289, ''area 5 exit delay ends''),
      (1290, ''area 6 exit delay ends''),
      (1291, ''area 7 exit delay ends''),
      (1292, ''area 8 exit delay ends''),
      (1293, ''automatic closing''),
      (1294, ''early closing''),
      (1295, ''closing time extended''),
      (1296, ''fail to close''),
      (1297, ''late to close''),
      (1298, ''keyswitch closing''),
      (1299, ''duress''),
      (1300, ''exception opening''),
      (1301, ''early opening''),
      (1302, ''fail to open''),
      (1303, ''late to open''),
      (1304, ''keyswitch opening''),
      (1305, ''area 1 closing ring back''),
      (1306, ''area 2 closing ring back''),
      (1307, ''area 3 closing ring back''),
      (1308, ''area 4 closing ring back''),
      (1309, ''area 5 closing ring back''),
      (1310, ''area 6 closing ring back''),
      (1311, ''area 7 closing ring back''),
      (1312, ''area 8 closing ring back''),
      (1313, ''access keypad 01''),
      (1314, ''access keypad 02''),
      (1315, ''access keypad 03''),
      (1316, ''access keypad 04''),
      (1317, ''access keypad 05''),
      (1318, ''access keypad 06''),
      (1319, ''access keypad 07''),
      (1320, ''access keypad 08''),
      (1321, ''access keypad 09''),
      (1322, ''access keypad 10''),
      (1323, ''access keypad 11''),
      (1324, ''access keypad 12''),
      (1325, ''access keypad 13''),
      (1326, ''access keypad 14''),
      (1327, ''access keypad 15''),
      (1328, ''access keypad 16''),
      (1329, ''access any keypad''),
      (1330, ''beep area 1 keypad(s)''),
      (1331, ''beep area 2 keypad(s)''),
      (1332, ''beep area 3 keypad(s)''),
      (1333, ''beep area 4 keypad(s)''),
      (1334, ''beep area 5 keypad(s)''),
      (1335, ''beep area 6 keypad(s)''),
      (1336, ''beep area 7 keypad(s)''),
      (1337, ''beep area 8 keypad(s)''),
      (1338, ''area 1 exit error''),
      (1339, ''area 2 exit error''),
      (1340, ''area 3 exit error''),
      (1341, ''area 4 exit error''),
      (1342, ''area 5 exit error''),
      (1343, ''area 6 exit error''),
      (1344, ''area 7 exit error''),
      (1345, ''area 8 exit error''),
      (1346, ''audio amplifier status''),
      (1347, ''control power status''),
      (1348, ''light''),
      (1349, ''dark''),
      (1350, ''security (day) alert''),
      (1351, ''dialer abort''),
      (1352, ''dialer cancel''),
      (1353, ''dialer auto test''),
      (1354, ''local programming''),
      (1355, ''local programming ends''),
      (1356, ''keyswitch zn tamper alert''),
      (1357, ''event log, 80% full''),
      (1358, ''telephone line is ringing''),
      (1359, ''telephone line seize''),
      (1360, ''telephone line off/on hook''),
      (1361, ''telephone local access''),
      (1362, ''telephone remote access''),
      (1363, ''remote programming''),
      (1364, ''remote programming ends''),
      (1365, ''ac fail tbl - power supv zn''),
      (1366, ''low battery tbl - power supv zn''),
      (1367, ''system start up''),
      (1368, ''control low voltage shutdown point''),
      (1369, ''rf keyfob button 1''),
      (1370, ''rf keyfob button 2''),
      (1371, ''rf keyfob button 3''),
      (1372, ''rf keyfob button 4''),
      (1373, ''rf keyfob button 5''),
      (1374, ''rf keyfob button 6''),
      (1375, ''rf keyfob button 7''),
      (1376, ''rf keyfob button 8''),
      (1377, ''lost serial port expander trouble''),
      (1378, ''rule triggered voice telephone dial''),
      (1379, ''dialer report cleared''),
      (1380, ''central station kissoff''),
      (1381, ''transmitter supervision loss''),
      (1382, ''2-wire smoke det. clean trbl''),
      (1383, ''ethernet trouble''),
      (1384, ''ethernet restore''),
      (1385, ''remote ac restore''),
      (1386, ''remote battery restore''),
      (1387, ''zone trouble''),
      (1388, ''time changing''),
      (1389, ''time changed''),
      (2000, ''no event''),
      (2001, ''automation task 01''),
      (2002, ''automation task 02''),
      (2003, ''automation task 03''),
      (2004, ''automation task 04''),
      (2005, ''automation task 05''),
      (2006, ''automation task 06''),
      (2007, ''automation task 07''),
      (2008, ''automation task 08''),
      (2009, ''automation task 09''),
      (2010, ''automation task 10''),
      (2011, ''automation task 11''),
      (2012, ''automation task 12''),
      (2013, ''automation task 13''),
      (2014, ''automation task 14''),
      (2015, ''automation task 15''),
      (2016, ''automation task 16''),
      (2017, ''automation task 17'')]"

definition event_table_4 :: "(int \<times> string) list" where
  "event_table_4 =
     [(2018, ''automation task 18''),
      (2019, ''automation task 19''),
      (2020, ''automation task 20''),
      (2021, ''automation task 21''),
      (2022, ''automation task 22''),
      (2023, ''automation task 23''),
      (2024, ''automation task 24''),
      (2025, ''automation task 25''),
      (2026, ''automation task 26''),
      (2027, ''automation task 27''),
      (2028, ''automation task 28''),
      (2029, ''automation task 29''),
      (2030, ''automation task 30''),
      (2031, ''automation task 31''),
      (2032, ''automation task 32''),
      (3001, ''key f1 on keypad1 activates''),
      (3002, ''key f2 on keypad1 activates''),
      (3003, ''key f3 on keypad1 activates''),
      (3004, ''key f4 on keypad1 activates''),
      (3005, ''key f5 on keypad1 activates''),
      (3006, ''key f6 on keypad1 activates''),
      (3007, ''key f1 on keypad2 activates''),
      (3008, ''key f2 on keypad2 activates''),
      (3009, ''key f3 on keypad2 activates''),
      (3010, ''key f4 on keypad2 activates''),
      (3011, ''key f5 on keypad2 activates''),
      (3012, ''key f6 on keypad2 activates''),
      (3013, ''key f1 on keypad3 activates''),
      (3014, ''key f2 on keypad3 activates''),
      (3015, ''key f3 on keypad3 activates''),
      (3016, ''key f4 on keypad3 activates''),
      (3017, ''key f5 on keypad3 activates''),
      (3018, ''key f6 on keypad3 activates''),
      (3019, ''key f1 on keypad4 activates''),
      (3020, ''key f2 on keypad4 activates''),
      (3021, ''key f3 on keypad4 activates''),
      (3022, ''key f4 on keypad4 activates''),
      (3023, ''key f5 on keypad4 activates''),
      (3024, ''key f6 on keypad4 activates''),
      (3025, ''key f1 on keypad5 activates''),
      (3026, ''key f2 on keypad5 activates''),
      (3027, ''key f3 on keypad5 activates''),
      (3028, ''key f4 on keypad5 activates''),
      (3029, ''key f5 on keypad5 activates''),
      (3030, ''key f6 on keypad5 activates''),
      (3031, ''key f1 on keypad6 activates''),
      (3032, ''key f2 on keypad6 activates''),
      (3033, ''key f3 on keypad6 activates''),
      (3034, ''key f4 on keypad6 activates''),
      (3035, ''key f5 on keypad6 activates''),
      (3036, ''key f6 on keypad6 activates''),
      (3037, ''key f1 on keypad7 activates''),
      (3038, ''key f2 on keypad7 activates''),
      (3039, ''key f3 on keypad7 activates''),
      (3040, ''key f4 on keypad7 activates''),
      (3041, ''key f5 on keypad7 activates''),
      (3042, ''key f6 on keypad7 activates''),
      (3043, ''key f1 on keypad8 activates''),
      (3044, ''key f2 on keypad8 activates''),
      (3045, ''key f3 on keypad8 activates''),
      (3046, ''key f4 on keypad8 activates''),
      (3047, ''key f5 on keypad8 activates''),
      (3048, ''key f6 on keypad8 activates''),
      (3049, ''key f1 on keypad9 activates''),
      (3050, ''key f2 on keypad9 activates''),
      (3051, ''key f3 on keypad9 activates''),
      (3052, ''key f4 on keypad9 activates''),
      (3053, ''key f5 on keypad9 activates''),
      (3054, ''key f6 on keypad9 activates''),
      (3055, ''key f1 on keypad10 activates''),
      (3056, ''key f2 on keypad10 activates''),
      (3057, ''key f3 on keypad10 activates''),
      (3058, ''key f4 on keypad10 activates''),
      (3059, ''key f5 on keypad10 activates''),
      (3060, ''key f6 on keypad10 activates''),
      (3061, ''key f1 on keypad11 activates''),
      (3062, ''key f2 on keypad11 activates''),
      (3063, ''key f3 on keypad11 activates''),
      (3064, ''key f4 on keypad11 activates''),
      (3065, ''key f5 on keypad11 activates''),
      (3066, ''key f6 on keypad11 activates''),
      (3067, ''key f1 on keypad12 activates''),
      (3068, ''key f2 on keypad12 activates''),
      (3069, ''key f3 on keypad12 activates''),
      (3070, ''key f4 on keypad12 activates''),
      (3071, ''key f5 on keypad12 activates''),
      (3072, ''key f6 on keypad12 activates''),
      (3073, ''key f1 on keypad13 activates''),
      (3074, ''key f2 on keypad13 activates''),
      (3075, ''key f3 on keypad13 activates''),
      (3076, ''key f4 on keypad13 activates''),
      (3077, ''key f5 on keypad13 activates''),
      (3078, ''key f6 on keypad13 activates''),
      (3079, ''key f1 on keypad14 activates''),
      (3080, ''key f2 on keypad14 activates''),
      (3081, ''key f3 on keypad14 activates''),
      (3082, ''key f4 on keypad14 activates''),
      (3083, ''key f5 on keypad14 activates''),
      (3084, ''key f6 on keypad14 activates''),
      (3085, ''key f1 on keypad15 activates''),
      (3086, ''key f2 on keypad15 activates''),
      (3087, ''key f3 on keypad15 activates''),
      (3088, ''key f4 on keypad15 activates''),
      (3089, ''key f5 on keypad15 activates''),
      (3090, ''key f6 on keypad15 activates''),
      (3091, ''key f1 on keypad16 activates''),
      (3092, ''key f2 on keypad16 activates''),
      (3093, ''key f3 on keypad16 activates''),
      (3094, ''key f4 on keypad16 activates''),
      (3095, ''key f5 on keypad16 activates''),
      (3096, ''key f6 on keypad16 activates''),
      (3097, ''f1 key on any keypad activates''),
      (3098, ''f2 key on any keypad activates''),
      (3099, ''f3 key on any keypad activates''),
      (3100, ''f4 key on any keypad activates''),
      (3101, ''f5 key on any keypad activates''),
      (3102, ''f6 key on any keypad activates''),
      (3103, ''any f key on any keypad activates''),
      (4001, ''zone 1 state''),
      (4002, ''zone 2 state''),
      (4003, ''zone 3 state''),
      (4004, ''zone 4 state''),
      (4005, ''zone 5 state''),
      (4006, ''zone 6 state''),
      (4007, ''zone 7 state''),
      (4008, ''zone 8 state''),
      (4009, ''zone 9 state''),
      (4010, ''zone 10 state''),
      (4011, ''zone 11 state''),
      (4012, ''zone 12 state''),
      (4013, ''zone 13 state''),
      (4014, ''zone 14 state''),
      (4015, ''zone 15 state''),
      (4016, ''zone 16 state''),
      (4017, ''zone 17 state''),
      (4018, ''zone 18 state'')]"

definition event_table_5 :: "(int \<times> string) list" where
  "event_table_5 =
     [(4019, ''zone 19 state''),
      (4020, ''zone 20 state''),
      (4021, ''zone 21 state''),
      (4022, ''zone 22 state''),
      (4023, ''zone 23 state''),
      (4024, ''zone 24 state''),
      (4025, ''zone 25 state''),
      (4026, ''zone 26 state''),
      (4027, ''zone 27 state''),
      (4028, ''zone 28 state''),
      (4029, ''zone 29 state''),
      (4030, ''zone 30 state''),
      (4031, ''zone 31 state''),
      (4032, ''zone 32 state''),
      (4033, ''zone 33 state''),
      (4034, ''zone 34 state''),
      (4035, ''zone 35 state''),
      (4036, ''zone 36 state''),
      (4037, ''zone 37 state''),
      (4038, ''zone 38 state''),
      (4039, ''zone 39 state''),
      (4040, ''zone 40 state''),
      (4041, ''zone 41 state''),
      (4042, ''zone 42 state''),
      (4043, ''zone 43 state''),
      (4044, ''zone 44 state''),
      (4045, ''zone 45 state''),
      (4046, ''zone 46 state''),
      (4047, ''zone 47 state''),
      (4048, ''zone 48 state''),
      (4049, ''zone 49 state''),
      (4050, ''zone 50 state''),
      (4051, ''zone 51 state''),
      (4052, ''zone 52 state''),
      (4053, ''zone 53 state''),
      (4054, ''zone 54 state''),
      (4055, ''zone 55 state''),
      (4056, ''zone 56 state''),
      (4057, ''zone 57 state''),
      (4058, ''zone 58 state''),
      (4059, ''zone 59 state''),
      (4060, ''zone 60 state''),
      (4061, ''zone 61 state''),
      (4062, ''zone 62 state''),
      (4063, ''zone 63 state''),
      (4064, ''zone 64 state''),
      (4065, ''zone 65 state''),
      (4066, ''zone 66 state''),
      (4067, ''zone 67 state''),
      (4068, ''zone 68 state''),
      (4069, ''zone 69 state''),
      (4070, ''zone 70 state''),
      (4071, ''zone 71 state''),
      (4072, ''zone 72 state''),
      (4073, ''zone 73 state''),
      (4074, ''zone 74 state''),
      (4075, ''zone 75 state''),
      (4076, ''zone 76 state''),
      (4077, ''zone 77 state''),
      (4078, ''zone 78 state''),
      (4079, ''zone 79 state''),
      (4080, ''zone 80 state''),
      (4081, ''zone 81 state''),
      (4082, ''zone 82 state''),
      (4083, ''zone 83 state''),
      (4084, ''zone 84 state''),
      (4085, ''zone 85 state''),
      (4086, ''zone 86 state''),
      (4087, ''zone 87 state''),
      (4088, ''zone 88 state''),
      (4089, ''zone 89 state''),
      (4090, ''zone 90 state''),
      (4091, ''zone 91 state''),
      (4092, ''zone 92 state''),
      (4093, ''zone 93 state''),
      (4094, ''zone 94 state''),
      (4095, ''zone 95 state''),
      (4096, ''zone 96 state''),
      (4097, ''zone 97 state''),
      (4098, ''zone 98 state''),
      (4099, ''zone 99 state''),
      (4100, ''zone 100 state''),
      (4101, ''zone 101 state''),
      (4102, ''zone 102 state''),
      (4103, ''zone 103 state''),
      (4104, ''zone 104 state''),
      (4105, ''zone 105 state''),
      (4106, ''zone 106 state''),
      (4107, ''zone 107 state''),
      (4108, ''zone 108 state''),
      (4109, ''zone 109 state''),
      (4110, ''zone 110 state''),
      (4111, ''zone 111 state''),
      (4112, ''zone 112 state''),
      (4113, ''zone 113 state''),
      (4114, ''zone 114 state''),
      (4115, ''zone 115 state''),
      (4116, ''zone 116 state''),
      (4117, ''zone 117 state''),
      (4118, ''zone 118 state''),
      (4119, ''zone 119 state''),
      (4120, ''zone 120 state''),
      (4121, ''zone 121 state''),
      (4122, ''zone 122 state''),
      (4123, ''zone 123 state''),
      (4124, ''zone 124 state''),
      (4125, ''zone 125 state''),
      (4126, ''zone 126 state''),
      (4127, ''zone 127 state''),
      (4128, ''zone 128 state''),
      (4129, ''zone 129 state''),
      (4130, ''zone 130 state''),
      (4131, ''zone 131 state''),
      (4132, ''zone 132 state''),
      (4133, ''zone 133 state''),
      (4134, ''zone 134 state''),
      (4135, ''zone 135 state''),
      (4136, ''zone 136 state''),
      (4137, ''zone 137 state''),
      (4138, ''zone 138 state''),
      (4139, ''zone 139 state''),
      (4140, ''zone 140 state''),
      (4141, ''zone 141 state''),
      (4142, ''zone 142 state''),
      (4143, ''zone 143 state''),
      (4144, ''zone 144 state''),
      (4145, ''zone 145 state''),
      (4146, ''zone 146 state''),
      (4147, ''zone 147 state''),
      (4148, ''zone 148 state''),
      (4149, ''zone 149 state''),
      (4150, ''zone 150 state''),
      (4151, ''zone 151 state''),
      (4152, ''zone 152 state''),
      (4153, ''zone 153 state''),
      (4154, ''zone 154 state'')]"

definition event_table_6 :: "(int \<times> string) list" where
  "event_table_6 =
     [(4155, ''zone 155 state''),
      (4156, ''zone 156 state''),
      (4157, ''zone 157 state''),
      (4158, ''zone 158 state''),
      (4159, ''zone 159 state''),
      (4160, ''zone 160 state''),
      (4161, ''zone 161 state''),
      (4162, ''zone 162 state''),
      (4163, ''zone 163 state''),
      (4164, ''zone 164 state''),
      (4165, ''zone 165 state''),
      (4166, ''zone 166 state''),
      (4167, ''zone 167 state''),
      (4168, ''zone 168 state''),
      (4169, ''zone 169 state''),
      (4170, ''zone 170 state''),
      (4171, ''zone 171 state''),
      (4172, ''zone 172 state''),
      (4173, ''zone 173 state''),
      (4174, ''zone 174 state''),
      (4175, ''zone 175 state''),
      (4176, ''zone 176 state''),
      (4177, ''zone 177 state''),
      (4178, ''zone 178 state''),
      (4179, ''zone 179 state''),
      (4180, ''zone 180 state''),
      (4181, ''zone 181 state''),
      (4182, ''zone 182 state''),
      (4183, ''zone 183 state''),
      (4184, ''zone 184 state''),
      (4185, ''zone 185 state''),
      (4186, ''zone 186 state''),
      (4187, ''zone 187 state''),
      (4188, ''zone 188 state''),
      (4189, ''zone 189 state''),
      (4190, ''zone 190 state''),
      (4191, ''zone 191 state''),
      (4192, ''zone 192 state''),
      (4193, ''zone 193 state''),
      (4194, ''zone 194 state''),
      (4195, ''zone 195 state''),
      (4196, ''zone 196 state''),
      (4197, ''zone 197 state''),
      (4198, ''zone 198 state''),
      (4199, ''zone 199 state''),
      (4200, ''zone 200 state''),
      (4201, ''zone 201 state''),
      (4202, ''zone 202 state''),
      (4203, ''zone 203 state''),
      (4204, ''zone 204 state''),
      (4205, ''zone 205 state''),
      (4206, ''zone 206 state''),
      (4207, ''zone 207 state''),
      (4208, ''zone 208 state''),
      (5001, ''zone 1 bypass state''),
      (5002, ''zone 2 bypass state''),
      (5003, ''zone 3 bypass state''),
      (5004, ''zone 4 bypass state''),
      (5005, ''zone 5 bypass state''),
      (5006, ''zone 6 bypass state''),
      (5007, ''zone 7 bypass state''),
      (5008, ''zone 8 bypass state''),
      (5009, ''zone 9 bypass state''),
      (5010, ''zone 10 bypass state''),
      (5011, ''zone 11 bypass state''),
      (5012, ''zone 12 bypass state''),
      (5013, ''zone 13 bypass state''),
      (5014, ''zone 14 bypass state''),
      (5015, ''zone 15 bypass state''),
      (5016, ''zone 16 bypass state''),
      (5017, ''zone 17 bypass state''),
      (5018, ''zone 18 bypass state''),
      (5019, ''zone 19 bypass state''),
      (5020, ''zone 20 bypass state''),
      (5021, ''zone 21 bypass state''),
      (5022, ''zone 22 bypass state''),
      (5023, ''zone 23 bypass state''),
      (5024, ''zone 24 bypass state''),
      (5025, ''zone 25 bypass state''),
      (5026, ''zone 26 bypass state''),
      (5027, ''zone 27 bypass state''),
      (5028, ''zone 28 bypass state''),
      (5029, ''zone 29 bypass state''),
      (5030, ''zone 30 bypass state''),
      (5031, ''zone 31 bypass state''),
      (5032, ''zone 32 bypass state''),
      (5033, ''zone 33 bypass state''),
      (5034, ''zone 34 bypass state''),
      (5035, ''zone 35 bypass state''),
      (5036, ''zone 36 bypass state''),
      (5037, ''zone 37 bypass state''),
      (5038, ''zone 38 bypass state''),
      (5039, ''zone 39 bypass state''),
      (5040, ''zone 40 bypass state''),
      (5041, ''zone 41 bypass state''),
      (5042, ''zone 42 bypass state''),
      (5043, ''zone 43 bypass state''),
      (5044, ''zone 44 bypass state''),
      (5045, ''zone 45 bypass state''),
      (5046, ''zone 46 bypass state''),
      (5047, ''zone 47 bypass state''),
      (5048, ''zone 48 bypass state''),
      (5049, ''zone 49 bypass state''),
      (5050, ''zone 50 bypass state''),
      (5051, ''zone 51 bypass state''),
      (5052, ''zone 52 bypass state''),
      (5053, ''zone 53 bypass state''),
      (5054, ''zone 54 bypass state''),
      (5055, ''zone 55 bypass state''),
      (5056, ''zone 56 bypass state''),
      (5057, ''zone 57 bypass state''),
      (5058, ''zone 58 bypass state''),
      (5059, ''zone 59 bypass state''),
      (5060, ''zone 60 bypass state''),
      (5061, ''zone 61 bypass state''),
      (5062, ''zone 62 bypass state''),
      (5063, ''zone 63 bypass state''),
      (5064, ''zone 64 bypass state''),
      (5065, ''zone 65 bypass state''),
      (5066, ''zone 66 bypass state''),
      (5067, ''zone 67 bypass state''),
      (5068, ''zone 68 bypass state''),
      (5069, ''zone 69 bypass state''),
      (5070, ''zone 70 bypass state''),
      (5071, ''zone 71 bypass state''),
      (5072, ''zone 72 bypass state''),
      (5073, ''zone 73 bypass state''),
      (5074, ''zone 74 bypass state''),
      (5075, ''zone 75 bypass state''),
      (5076, ''zone 76 bypass state''),
      (5077, ''zone 77 bypass state''),
      (5078, ''zone 78 bypass state''),
      (5079, ''zone 79 bypass state''),
      (5080, ''zone 80 bypass state''),
      (5081, ''zone 81 bypass state''),
      (5082, ''zone 82 bypass state'')]"

definition event_table_7 :: "(int \<times> string) list" where
  "event_table_7 =
     [(5083, ''zone 83 bypass state''),
      (5084, ''zone 84 bypass state''),
      (5085, ''zone 85 bypass state''),
      (5086, ''zone 86 bypass state''),
      (5087, ''zone 87 bypass state''),
      (5088, ''zone 88 bypass state''),
      (5089, ''zone 89 bypass state''),
      (5090, ''zone 90 bypass state''),
      (5091, ''zone 91 bypass state''),
      (5092, ''zone 92 bypass state''),
      (5093, ''zone 93 bypass state''),
      (5094, ''zone 94 bypass state''),
      (5095, ''zone 95 bypass state''),
      (5096, ''zone 96 bypass state''),
      (5097, ''zone 97 bypass state''),
      (5098, ''zone 98 bypass state''),
      (5099, ''zone 99 bypass state''),
      (5100, ''zone 100 bypass state''),
      (5101, ''zone 101 bypass state''),
      (5102, ''zone 102 bypass state''),
      (5103, ''zone 103 bypass state''),
      (5104, ''zone 104 bypass state''),
      (5105, ''zone 105 bypass state''),
      (5106, ''zone 106 bypass state''),
      (5107, ''zone 107 bypass state''),
      (5108, ''zone 108 bypass state''),
      (5109, ''zone 109 bypass state''),
      (5110, ''zone 110 bypass state''),
      (5111, ''zone 111 bypass state''),
      (5112, ''zone 112 bypass state''),
      (5113, ''zone 113 bypass state''),
      (5114, ''zone 114 bypass state''),
      (5115, ''zone 115 bypass state''),
      (5116, ''zone 116 bypass state''),
      (5117, ''zone 117 bypass state''),
      (5118, ''zone 118 bypass state''),
      (5119, ''zone 119 bypass state''),
      (5120, ''zone 120 bypass state''),
      (5121, ''zone 121 bypass state''),
      (5122, ''zone 122 bypass state''),
      (5123, ''zone 123 bypass state''),
      (5124, ''zone 124 bypass state''),
      (5125, ''zone 125 bypass state''),
      (5126, ''zone 126 bypass state''),
      (5127, ''zone 127 bypass state''),
      (5128, ''zone 128 bypass state''),
      (5129, ''zone 129 bypass state''),
      (5130, ''zone 130 bypass state''),
      (5131, ''zone 131 bypass state''),
      (5132, ''zone 132 bypass state''),
      (5133, ''zone 133 bypass state''),
      (5134, ''zone 134 bypass state''),
      (5135, ''zone 135 bypass state''),
      (5136, ''zone 136 bypass state''),
      (5137, ''zone 137 bypass state''),
      (5138, ''zone 138 bypass state''),
      (5139, ''zone 139 bypass state''),
      (5140, ''zone 140 bypass state''),
      (5141, ''zone 141 bypass state''),
      (5142, ''zone 142 bypass state''),
      (5143, ''zone 143 bypass state''),
      (5144, ''zone 144 bypass state''),
      (5145, ''zone 145 bypass state''),
      (5146, ''zone 146 bypass state''),
      (5147, ''zone 147 bypass state''),
      (5148, ''zone 148 bypass state''),
      (5149, ''zone 149 bypass state''),
      (5150, ''zone 150 bypass state''),
      (5151, ''zone 151 bypass state''),
      (5152, ''zone 152 bypass state''),
      (5153, ''zone 153 bypass state''),
      (5154, ''zone 154 bypass state''),
      (5155, ''zone 155 bypass state''),
      (5156, ''zone 156 bypass state''),
      (5157, ''zone 157 bypass state''),
      (5158, ''zone 158 bypass state''),
      (5159, ''zone 159 bypass state''),
      (5160, ''zone 160 bypass state''),
      (5161, ''zone 161 bypass state''),
      (5162, ''zone 162 bypass state''),
      (5163, ''zone 163 bypass state''),
      (5164, ''zone 164 bypass state''),
      (5165, ''zone 165 bypass state''),
      (5166, ''zone 166 bypass state''),
      (5167, ''zone 167 bypass state''),
      (5168, ''zone 168 bypass state''),
      (5169, ''zone 169 bypass state''),
      (5170, ''zone 170 bypass state''),
      (5171, ''zone 171 bypass state''),
      (5172, ''zone 172 bypass state''),
      (5173, ''zone 173 bypass state''),
      (5174, ''zone 174 bypass state''),
      (5175, ''zone 175 bypass state''),
      (5176, ''zone 176 bypass state''),
      (5177, ''zone 177 bypass state''),
      (5178, ''zone 178 bypass state''),
      (5179, ''zone 179 bypass state''),
      (5180, ''zone 180 bypass state''),
      (5181, ''zone 181 bypass state''),
      (5182, ''zone 182 bypass state''),
      (5183, ''zone 183 bypass state''),
      (5184, ''zone 184 bypass state''),
      (5185, ''zone 185 bypass state''),
      (5186, ''zone 186 bypass state''),
      (5187, ''zone 187 bypass state''),
      (5188, ''zone 188 bypass state''),
      (5189, ''zone 189 bypass state''),
      (5190, ''zone 190 bypass state''),
      (5191, ''zone 191 bypass state''),
      (5192, ''zone 192 bypass state''),
      (5193, ''zone 193 bypass state''),
      (5194, ''zone 194 bypass state''),
      (5195, ''zone 195 bypass state''),
      (5196, ''zone 196 bypass state''),
      (5197, ''zone 197 bypass state''),
      (5198, ''zone 198 bypass state''),
      (5199, ''zone 199 bypass state''),
      (5200, ''zone 200 bypass state''),
      (5201, ''zone 201 bypass state''),
      (5202, ''zone 202 bypass state''),
      (5203, ''zone 203 bypass state''),
      (5204, ''zone 204 bypass state''),
      (5205, ''zone 205 bypass state''),
      (5206, ''zone 206 bypass state''),
      (5207, ''zone 207 bypass state''),
      (5208, ''zone 208 bypass state''),
      (6001, ''zone 1 alarm memory''),
      (6002, ''zone 2 alarm memory''),
      (6003, ''zone 3 alarm memory''),
      (6004, ''zone 4 alarm memory''),
      (6005, ''zone 5 alarm memory''),
      (6006, ''zone 6 alarm memory''),
      (6007, ''zone 7 alarm memory''),
      (6008, ''zone 8 alarm memory''),
      (6009, ''zone 9 alarm memory''),
      (6010, ''zone 10 alarm memory'')]"

definition event_table_8 :: "(int \<times> string) list" where
  "event_table_8 =
     [(6011, ''zone 11 alarm memory''),
      (6012, ''zone 12 alarm memory''),
      (6013, ''zone 13 alarm memory''),
      (6014, ''zone 14 alarm memory''),
      (6015, ''zone 15 alarm memory''),
      (6016, ''zone 16 alarm memory''),
      (6017, ''zone 17 alarm memory''),
      (6018, ''zone 18 alarm memory''),
      (6019, ''zone 19 alarm memory''),
      (6020, ''zone 20 alarm memory''),
      (6021, ''zone 21 alarm memory''),
      (6022, ''zone 22 alarm memory''),
      (6023, ''zone 23 alarm memory''),
      (6024, ''zone 24 alarm memory''),
      (6025, ''zone 25 alarm memory''),
      (6026, ''zone 26 alarm memory''),
      (6027, ''zone 27 alarm memory''),
      (6028, ''zone 28 alarm memory''),
      (6029, ''zone 29 alarm memory''),
      (6030, ''zone 30 alarm memory''),
      (6031, ''zone 31 alarm memory''),
      (6032, ''zone 32 alarm memory''),
      (6033, ''zone 33 alarm memory''),
      (6034, ''zone 34 alarm memory''),
      (6035, ''zone 35 alarm memory''),
      (6036, ''zone 36 alarm memory''),
      (6037, ''zone 37 alarm memory''),
      (6038, ''zone 38 alarm memory''),
      (6039, ''zone 39 alarm memory''),
      (6040, ''zone 40 alarm memory''),
      (6041, ''zone 41 alarm memory''),
      (6042, ''zone 42 alarm memory''),
      (6043, ''zone 43 alarm memory''),
      (6044, ''zone 44 alarm memory''),
      (6045, ''zone 45 alarm memory''),
      (6046, ''zone 46 alarm memory''),
      (6047, ''zone 47 alarm memory''),
      (6048, ''zone 48 alarm memory''),
      (6049, ''zone 49 alarm memory''),
      (6050, ''zone 50 alarm memory''),
      (6051, ''zone 51 alarm memory''),
      (6052, ''zone 52 alarm memory''),
      (6053, ''zone 53 alarm memory''),
      (6054, ''zone 54 alarm memory''),
      (6055, ''zone 55 alarm memory''),
      (6056, ''zone 56 alarm memory''),
      (6057, ''zone 57 alarm memory''),
      (6058, ''zone 58 alarm memory''),
      (6059, ''zone 59 alarm memory''),
      (6060, ''zone 60 alarm memory''),
      (6061, ''zone 61 alarm memory''),
      (6062, ''zone 62 alarm memory''),
      (6063, ''zone 63 alarm memory''),
      (6064, ''zone 64 alarm memory''),
      (6065, ''zone 65 alarm memory''),
      (6066, ''zone 66 alarm memory''),
      (6067, ''zone 67 alarm memory''),
      (6068, ''zone 68 alarm memory''),
      (6069, ''zone 69 alarm memory''),
      (6070, ''zone 70 alarm memory''),
      (6071, ''zone 71 alarm memory''),
      (6072, ''zone 72 alarm memory''),
      (6073, ''zone 73 alarm memory''),
      (6074, ''zone 74 alarm memory''),
      (6075, ''zone 75 alarm memory''),
      (6076, ''zone 76 alarm memory''),
      (6077, ''zone 77 alarm memory''),
      (6078, ''zone 78 alarm memory''),
      (6079, ''zone 79 alarm memory''),
      (6080, ''zone 80 alarm memory''),
      (6081, ''zone 81 alarm memory''),
      (6082, ''zone 82 alarm memory''),
      (6083, ''zone 83 alarm memory''),
      (6084, ''zone 84 alarm memory''),
      (6085, ''zone 85 alarm memory''),
      (6086, ''zone 86 alarm memory''),
      (6087, ''zone 87 alarm memory''),
      (6088, ''zone 88 alarm memory''),
      (6089, ''zone 89 alarm memory''),
      (6090, ''zone 90 alarm memory''),
      (6091, ''zone 91 alarm memory''),
      (6092, ''zone 92 alarm memory''),
      (6093, ''zone 93 alarm memory''),
      (6094, ''zone 94 alarm memory''),
      (6095, ''zone 95 alarm memory''),
      (6096, ''zone 96 alarm memory''),
      (6097, ''zone 97 alarm memory''),
      (6098, ''zone 98 alarm memory''),
      (6099, ''zone 99 alarm memory''),
      (6100, ''zone 100 alarm memory''),
      (6101, ''zone 101 alarm memory''),
      (6102, ''zone 102 alarm memory''),
      (6103, ''zone 103 alarm memory''),
      (6104, ''zone 104 alarm memory''),
      (6105, ''zone 105 alarm memory''),
      (6106, ''zone 106 alarm memory''),
      (6107, ''zone 107 alarm memory''),
      (6108, ''zone 108 alarm memory''),
      (6109, ''zone 109 alarm memory''),
      (6110, ''zone 110 alarm memory''),
      (6111, ''zone 111 alarm memory''),
      (6112, ''zone 112 alarm memory''),
      (6113, ''zone 113 alarm memory''),
      (6114, ''zone 114 alarm memory''),
      (6115, ''zone 115 alarm memory''),
      (6116, ''zone 116 alarm memory''),
      (6117, ''zone 117 alarm memory''),
      (6118, ''zone 118 alarm memory''),
      (6119, ''zone 119 alarm memory''),
      (6120, ''zone 120 alarm memory''),
      (6121, ''zone 121 alarm memory''),
      (6122, ''zone 122 alarm memory''),
      (6123, ''zone 123 alarm memory''),
      (6124, ''zone 124 alarm memory''),
      (6125, ''zone 125 alarm memory''),
      (6126, ''zone 126 alarm memory''),
      (6127, ''zone 127 alarm memory''),
      (6128, ''zone 128 alarm memory''),
      (6129, ''zone 129 alarm memory''),
      (6130, ''zone 130 alarm memory''),
      (6131, ''zone 131 alarm memory''),
      (6132, ''zone 132 alarm memory''),
      (6133, ''zone 133 alarm memory''),
      (6134, ''zone 134 alarm memory''),
      (6135, ''zone 135 alarm memory''),
      (6136, ''zone 136 alarm memory''),
      (6137, ''zone 137 alarm memory''),
      (6138, ''zone 138 alarm memory''),
      (6139, ''zone 139 alarm memory''),
      (6140, ''zone 140 alarm memory''),
      (6141, ''zone 141 alarm memory''),
      (6142, ''zone 142 alarm memory''),
      (6143, ''zone 143 alarm memory''),
      (6144, ''zone 144 alarm memory''),
      (6145, ''zone 145 alarm memory''),
      (6146, ''zone 146 alarm memory'')]"

definition event_table_9 :: "(int \<times> string) list" where
  "event_table_9 =
     [(6147, ''zone 147 alarm memory''),
      (6148, ''zone 148 alarm memory''),
      (6149, ''zone 149 alarm memory''),
      (6150, ''zone 150 alarm memory''),
      (6151, ''zone 151 alarm memory''),
      (6152, ''zone 152 alarm memory''),
      (6153, ''zone 153 alarm memory''),
      (6154, ''zone 154 alarm memory''),
      (6155, ''zone 155 alarm memory''),
      (6156, ''zone 156 alarm memory''),
      (6157, ''zone 157 alarm memory''),
      (6158, ''zone 158 alarm memory''),
      (6159, ''zone 159 alarm memory''),
      (6160, ''zone 160 alarm memory''),
      (6161, ''zone 161 alarm memory''),
      (6162, ''zone 162 alarm memory''),
      (6163, ''zone 163 alarm memory''),
      (6164, ''zone 164 alarm memory''),
      (6165, ''zone 165 alarm memory''),
      (6166, ''zone 166 alarm memory''),
      (6167, ''zone 167 alarm memory''),
      (6168, ''zone 168 alarm memory''),
      (6169, ''zone 169 alarm memory''),
      (6170, ''zone 170 alarm memory''),
      (6171, ''zone 171 alarm memory''),
      (6172, ''zone 172 alarm memory''),
      (6173, ''zone 173 alarm memory''),
      (6174, ''zone 174 alarm memory''),
      (6175, ''zone 175 alarm memory''),
      (6176, ''zone 176 alarm memory''),
      (6177, ''zone 177 alarm memory''),
      (6178, ''zone 178 alarm memory''),
      (6179, ''zone 179 alarm memory''),
      (6180, ''zone 180 alarm memory''),
      (6181, ''zone 181 alarm memory''),
      (6182, ''zone 182 alarm memory''),
      (6183, ''zone 183 alarm memory''),
      (6184, ''zone 184 alarm memory''),
      (6185, ''zone 185 alarm memory''),
      (6186, ''zone 186 alarm memory''),
      (6187, ''zone 187 alarm memory''),
      (6188, ''zone 188 alarm memory''),
      (6189, ''zone 189 alarm memory''),
      (6190, ''zone 190 alarm memory''),
      (6191, ''zone 191 alarm memory''),
      (6192, ''zone 192 alarm memory''),
      (6193, ''zone 193 alarm memory''),
      (6194, ''zone 194 alarm memory''),
      (6195, ''zone 195 alarm memory''),
      (6196, ''zone 196 alarm memory''),
      (6197, ''zone 197 alarm memory''),
      (6198, ''zone 198 alarm memory''),
      (6199, ''zone 199 alarm memory''),
      (6200, ''zone 200 alarm memory''),
      (6201, ''zone 201 alarm memory''),
      (6202, ''zone 202 alarm memory''),
      (6203, ''zone 203 alarm memory''),
      (6204, ''zone 204 alarm memory''),
      (6205, ''zone 205 alarm memory''),
      (6206, ''zone 206 alarm memory''),
      (6207, ''zone 207 alarm memory''),
      (6208, ''zone 208 alarm memory''),
      (7001, ''output 1 state''),
      (7002, ''output 2 state''),
      (7003, ''output 3 state''),
      (7004, ''output 4 state''),
      (7005, ''output 5 state''),
      (7006, ''output 6 state''),
      (7007, ''output 7 state''),
      (7008, ''output 8 state''),
      (7009, ''output 9 state''),
      (7010, ''output 10 state''),
      (7011, ''output 11 state''),
      (7012, ''output 12 state''),
      (7013, ''output 13 state''),
      (7014, ''output 14 state''),
      (7015, ''output 15 state''),
      (7016, ''output 16 state''),
      (7017, ''output 17 state''),
      (7018, ''output 18 state''),
      (7019, ''output 19 state''),
      (7020, ''output 20 state''),
      (7021, ''output 21 state''),
      (7022, ''output 22 state''),
      (7023, ''output 23 state''),
      (7024, ''output 24 state''),
      (7025, ''output 25 state''),
      (7026, ''output 26 state''),
      (7027, ''output 27 state''),
      (7028, ''output 28 state''),
      (7029, ''output 29 state''),
      (7030, ''output 30 state''),
      (7031, ''output 31 state''),
      (7032, ''output 32 state''),
      (7033, ''output 33 state''),
      (7034, ''output 34 state''),
      (7035, ''output 35 state''),
      (7036, ''output 36 state''),
      (7037, ''output 37 state''),
      (7038, ''output 38 state''),
      (7039, ''output 39 state''),
      (7040, ''output 40 state''),
      (7041, ''output 41 state''),
      (7042, ''output 42 state''),
      (7043, ''output 43 state''),
      (7044, ''output 44 state''),
      (7045, ''output 45 state''),
      (7046, ''output 46 state''),
      (7047, ''output 47 state''),
      (7048, ''output 48 state''),
      (7049, ''output 49 state''),
      (7050, ''output 50 state''),
      (7051, ''output 51 state''),
      (7052, ''output 52 state''),
      (7053, ''output 53 state''),
      (7054, ''output 54 state''),
      (7055, ''output 55 state''),
      (7056, ''output 56 state''),
      (7057, ''output 57 state''),
      (7058, ''output 58 state''),
      (7059, ''output 59 state''),
      (7060, ''output 60 state''),
      (7061, ''output 61 state''),
      (7062, ''output 62 state''),
      (7063, ''output 63 state''),
      (7064, ''output 64 state''),
      (7065, ''output 65 state''),
      (7066, ''output 66 state''),
      (7067, ''output 67 state''),
      (7068, ''output 68 state''),
      (7069, ''output 69 state''),
      (7070, ''output 70 state''),
      (7071, ''output 71 state''),
      (7072, ''output 72 state''),
      (7073, ''output 73 state''),
      (7074, ''output 74 state'')]"

definition event_table_10 :: "(int \<times> string) list" where
  "event_table_10 =
     [(7075, ''output 75 state''),
      (7076, ''output 76 state''),
      (7077, ''output 77 state''),
      (7078, ''output 78 state''),
      (7079, ''output 79 state''),
      (7080, ''output 80 state''),
      (7081, ''output 81 state''),
      (7082, ''output 82 state''),
      (7083, ''output 83 state''),
      (7084, ''output 84 state''),
      (7085, ''output 85 state''),
      (7086, ''output 86 state''),
      (7087, ''output 87 state''),
      (7088, ''output 88 state''),
      (7089, ''output 89 state''),
      (7090, ''output 90 state''),
      (7091, ''output 91 state''),
      (7092, ''output 92 state''),
      (7093, ''output 93 state''),
      (7094, ''output 94 state''),
      (7095, ''output 95 state''),
      (7096, ''output 96 state''),
      (7097, ''output 97 state''),
      (7098, ''output 98 state''),
      (7099, ''output 99 state''),
      (7100, ''output 100 state''),
      (7101, ''output 101 state''),
      (7102, ''output 102 state''),
      (7103, ''output 103 state''),
      (7104, ''output 104 state''),
      (7105, ''output 105 state''),
      (7106, ''output 106 state''),
      (7107, ''output 107 state''),
      (7108, ''output 108 state''),
      (7109, ''output 109 state''),
      (7110, ''output 110 state''),
      (7111, ''output 111 state''),
      (7112, ''output 112 state''),
      (7113, ''output 113 state''),
      (7114, ''output 114 state''),
      (7115, ''output 115 state''),
      (7116, ''output 116 state''),
      (7117, ''output 117 state''),
      (7118, ''output 118 state''),
      (7119, ''output 119 state''),
      (7120, ''output 120 state''),
      (7121, ''output 121 state''),
      (7122, ''output 122 state''),
      (7123, ''output 123 state''),
      (7124, ''output 124 state''),
      (7125, ''output 125 state''),
      (7126, ''output 126 state''),
      (7127, ''output 127 state''),
      (7128, ''output 128 state''),
      (7129, ''output 129 state''),
      (7130, ''output 130 state''),
      (7131, ''output 131 state''),
      (7132, ''output 132 state''),
      (7133, ''output 133 state''),
      (7134, ''output 134 state''),
      (7135, ''output 135 state''),
      (7136, ''output 136 state''),
      (7137, ''output 137 state''),
      (7138, ''output 138 state''),
      (7139, ''output 139 state''),
      (7140, ''output 140 state''),
      (7141, ''output 141 state''),
      (7142, ''output 142 state''),
      (7143, ''output 143 state''),
      (7144, ''output 144 state''),
      (7145, ''output 145 state''),
      (7146, ''output 146 state''),
      (7147, ''output 147 state''),
      (7148, ''output 148 state''),
      (7149, ''output 149 state''),
      (7150, ''output 150 state''),
      (7151, ''output 151 state''),
      (7152, ''output 152 state''),
      (7153, ''output 153 state''),
      (7154, ''output 154 state''),
      (7155, ''output 155 state''),
      (7156, ''output 156 state''),
      (7157, ''output 157 state''),
      (7158, ''output 158 state''),
      (7159, ''output 159 state''),
      (7160, ''output 160 state''),
      (7161, ''output 161 state''),
      (7162, ''output 162 state''),
      (7163, ''output 163 state''),
      (7164, ''output 164 state''),
      (7165, ''output 165 state''),
      (7166, ''output 166 state''),
      (7167, ''output 167 state''),
      (7168, ''output 168 state''),
      (7169, ''output 169 state''),
      (7170, ''output 170 state''),
      (7171, ''output 171 state''),
      (7172, ''output 172 state''),
      (7173, ''output 173 state''),
      (7174, ''output 174 state''),
      (7175, ''output 175 state''),
      (7176, ''output 176 state''),
      (7177, ''output 177 state''),
      (7178, ''output 178 state''),
      (7179, ''output 179 state''),
      (7180, ''output 180 state''),
      (7181, ''output 181 state''),
      (7182, ''output 182 state''),
      (7183, ''output 183 state''),
      (7184, ''output 184 state''),
      (7185, ''output 185 state''),
      (7186, ''output 186 state''),
      (7187, ''output 187 state''),
      (7188, ''output 188 state''),
      (7189, ''output 189 state''),
      (7190, ''output 190 state''),
      (7191, ''output 191 state''),
      (7192, ''output 192 state''),
      (7193, ''output 193 state''),
      (7194, ''output 194 state''),
      (7195, ''output 195 state''),
      (7196, ''output 196 state''),
      (7197, ''output 197 state''),
      (7198, ''output 198 state''),
      (7199, ''output 199 state''),
      (7200, ''output 200 state''),
      (7201, ''output 201 state''),
      (7202, ''output 202 state''),
      (7203, ''output 203 state''),
      (7204, ''output 204 state''),
      (7205, ''output 205 state''),
      (7206, ''output 206 state''),
      (7207, ''output 207 state''),
      (7208, ''output 208 state'')]"

definition ELK_EVENT_DESCRIPTIONS :: "(int \<times> string) list" where
  "ELK_EVENT_DESCRIPTIONS =
     event_table_1 @ event_table_2 @ event_table_3 @ event_table_4 @ event_table_5 @
     event_table_6 @ event_table_7 @ event_table_8 @ event_table_9 @ event_table_10"

definition describe_elk_event :: "int \<Rightarrow> string" where
  "describe_elk_event event_id =
     (case map_of ELK_EVENT_DESCRIPTIONS event_id of
        None \<Rightarrow> ''unknown event '' @ fmt_dec 1 event_id
      | Some d \<Rightarrow> d)"

section \<open>The ids ascend\<close>

text \<open>Ascending ids, with a description each, above a lower bound.\<close>

fun ascending_from :: "int \<Rightarrow> (int \<times> string) list \<Rightarrow> bool" where
  "ascending_from low [] = True"
| "ascending_from low ((k, d) # kds) = (low < k \<and> d \<noteq> [] \<and> ascending_from k kds)"

fun last_id :: "int \<Rightarrow> (int \<times> string) list \<Rightarrow> int" where
  "last_id low [] = low"
| "last_id low ((k, d) # kds) = last_id k kds"

lemma ascending_append:
  "ascending_from low (xs @ ys) \<longleftrightarrow> ascending_from low xs \<and> ascending_from (last_id low xs) ys"
  by (induction low xs rule: ascending_from.induct) auto

lemma last_id_append: "last_id low (xs @ ys) = last_id (last_id low xs) ys"
  by (induction low xs rule: last_id.induct) auto

lemma ascending_bound: "ascending_from low xs \<Longrightarrow> (k, d) \<in> set xs \<Longrightarrow> low < k \<and> d \<noteq> []"
  by (induction low xs rule: ascending_from.induct) auto

lemma ascending_distinct: "ascending_from low xs \<Longrightarrow> distinct (map fst xs)"
  by (induction low xs rule: ascending_from.induct) (auto dest: ascending_bound)

lemma part_1: "ascending_from 999 event_table_1 \<and> last_id 999 event_table_1 = 1135"
  by (simp add: event_table_1_def)

lemma part_2: "ascending_from 1135 event_table_2 \<and> last_id 1135 event_table_2 = 1271"
  by (simp add: event_table_2_def)

lemma part_3: "ascending_from 1271 event_table_3 \<and> last_id 1271 event_table_3 = 2017"
  by (simp add: event_table_3_def)

lemma part_4: "ascending_from 2017 event_table_4 \<and> last_id 2017 event_table_4 = 4018"
  by (simp add: event_table_4_def)

lemma part_5: "ascending_from 4018 event_table_5 \<and> last_id 4018 event_table_5 = 4154"
  by (simp add: event_table_5_def)

lemma part_6: "ascending_from 4154 event_table_6 \<and> last_id 4154 event_table_6 = 5082"
  by (simp add: event_table_6_def)

lemma part_7: "ascending_from 5082 event_table_7 \<and> last_id 5082 event_table_7 = 6010"
  by (simp add: event_table_7_def)

lemma part_8: "ascending_from 6010 event_table_8 \<and> last_id 6010 event_table_8 = 6146"
  by (simp add: event_table_8_def)

lemma part_9: "ascending_from 6146 event_table_9 \<and> last_id 6146 event_table_9 = 7074"
  by (simp add: event_table_9_def)

lemma part_10: "ascending_from 7074 event_table_10 \<and> last_id 7074 event_table_10 = 7208"
  by (simp add: event_table_10_def)

lemma table_ascending: "ascending_from 999 ELK_EVENT_DESCRIPTIONS"
  by (simp add: ELK_EVENT_DESCRIPTIONS_def ascending_append last_id_append
      part_1 part_2 part_3 part_4 part_5 part_6 part_7 part_8 part_9 part_10)

lemma described: "(k, d) \<in> set ELK_EVENT_DESCRIPTIONS \<Longrightarrow> describe_elk_event k = d"
  by (simp add: describe_elk_event_def map_of_is_SomeI [OF ascending_distinct [OF table_ascending]])

section \<open>Families of events\<close>

text \<open>The entries of a run of objects: the id from a base, a text before and after the number.\<close>

definition numbered :: "int \<Rightarrow> string \<Rightarrow> string \<Rightarrow> int \<times> string \<Rightarrow> bool" where
  "numbered base before after e = (snd e = before @ to_digits 10 (nat (fst e - base)) @ after)"

lemmas numbered_eval = numbered_def to_digits.simps digit_chars

lemma slice_described:
  assumes "map fst (take c (drop off part)) = [a..b]" and "list_all (numbered base before after) (take c (drop off part))"
    and "set part \<subseteq> set ELK_EVENT_DESCRIPTIONS" and "a \<le> k" and "k \<le> b"
  shows "describe_elk_event k = before @ to_digits 10 (nat (k - base)) @ after"
proof -
  have "k \<in> set (map fst (take c (drop off part)))" unfolding assms(1) using assms(4,5) by simp
  then obtain d where d: "(k, d) \<in> set (take c (drop off part))" by auto
  then have "d = before @ to_digits 10 (nat (k - base)) @ after"
    using assms(2) by (auto simp: list_all_iff numbered_def)
  moreover have "(k, d) \<in> set part" using d by (meson in_set_dropD in_set_takeD)
  ultimately show ?thesis using described assms(3) by blast
qed

lemma parts_of_table:
  "set event_table_1 \<subseteq> set ELK_EVENT_DESCRIPTIONS"
  "set event_table_2 \<subseteq> set ELK_EVENT_DESCRIPTIONS"
  "set event_table_3 \<subseteq> set ELK_EVENT_DESCRIPTIONS"
  "set event_table_4 \<subseteq> set ELK_EVENT_DESCRIPTIONS"
  "set event_table_5 \<subseteq> set ELK_EVENT_DESCRIPTIONS"
  "set event_table_6 \<subseteq> set ELK_EVENT_DESCRIPTIONS"
  "set event_table_7 \<subseteq> set ELK_EVENT_DESCRIPTIONS"
  "set event_table_8 \<subseteq> set ELK_EVENT_DESCRIPTIONS"
  "set event_table_9 \<subseteq> set ELK_EVENT_DESCRIPTIONS"
  "set event_table_10 \<subseteq> set ELK_EVENT_DESCRIPTIONS"
  by (auto simp: ELK_EVENT_DESCRIPTIONS_def)

lemma area_arm_2: "1175 \<le> k \<Longrightarrow> k \<le> 1182 \<Longrightarrow> describe_elk_event k = ''area '' @ to_digits 10 (nat (k - 1174)) @ '' arm state''"
proof (rule slice_described [OF _ _ parts_of_table(2)])
  show "map fst (take 8 (drop 39 event_table_2)) = [1175..1182]" by (simp add: event_table_2_def)
  show "list_all (numbered 1174 ''area '' '' arm state'') (take 8 (drop 39 event_table_2))" by (simp add: event_table_2_def numbered_eval)
qed

lemma area_arm: "1 \<le> m \<Longrightarrow> m \<le> 8 \<Longrightarrow> describe_elk_event (1174 + int m) = ''area '' @ to_digits 10 m @ '' arm state''"
  using area_arm_2 [of "1174 + int m"] by fastforce

lemma zone_state_4: "4001 \<le> k \<Longrightarrow> k \<le> 4018 \<Longrightarrow> describe_elk_event k = ''zone '' @ to_digits 10 (nat (k - 4000)) @ '' state''"
proof (rule slice_described [OF _ _ parts_of_table(4)])
  show "map fst (take 18 (drop 118 event_table_4)) = [4001..4018]" by (simp add: event_table_4_def)
  show "list_all (numbered 4000 ''zone '' '' state'') (take 18 (drop 118 event_table_4))" by (simp add: event_table_4_def numbered_eval)
qed

lemma zone_state_5: "4019 \<le> k \<Longrightarrow> k \<le> 4154 \<Longrightarrow> describe_elk_event k = ''zone '' @ to_digits 10 (nat (k - 4000)) @ '' state''"
proof (rule slice_described [OF _ _ parts_of_table(5)])
  show "map fst (take 136 (drop 0 event_table_5)) = [4019..4154]" by (simp add: event_table_5_def)
  show "list_all (numbered 4000 ''zone '' '' state'') (take 136 (drop 0 event_table_5))" by (simp add: event_table_5_def numbered_eval)
qed

lemma zone_state_6: "4155 \<le> k \<Longrightarrow> k \<le> 4208 \<Longrightarrow> describe_elk_event k = ''zone '' @ to_digits 10 (nat (k - 4000)) @ '' state''"
proof (rule slice_described [OF _ _ parts_of_table(6)])
  show "map fst (take 54 (drop 0 event_table_6)) = [4155..4208]" by (simp add: event_table_6_def)
  show "list_all (numbered 4000 ''zone '' '' state'') (take 54 (drop 0 event_table_6))" by (simp add: event_table_6_def numbered_eval)
qed

lemma zone_state: "1 \<le> m \<Longrightarrow> m \<le> 208 \<Longrightarrow> describe_elk_event (4000 + int m) = ''zone '' @ to_digits 10 m @ '' state''"
  using zone_state_4 [of "4000 + int m"] zone_state_5 [of "4000 + int m"] zone_state_6 [of "4000 + int m"] by fastforce

lemma zone_bypass_6: "5001 \<le> k \<Longrightarrow> k \<le> 5082 \<Longrightarrow> describe_elk_event k = ''zone '' @ to_digits 10 (nat (k - 5000)) @ '' bypass state''"
proof (rule slice_described [OF _ _ parts_of_table(6)])
  show "map fst (take 82 (drop 54 event_table_6)) = [5001..5082]" by (simp add: event_table_6_def)
  show "list_all (numbered 5000 ''zone '' '' bypass state'') (take 82 (drop 54 event_table_6))" by (simp add: event_table_6_def numbered_eval)
qed

lemma zone_bypass_7: "5083 \<le> k \<Longrightarrow> k \<le> 5208 \<Longrightarrow> describe_elk_event k = ''zone '' @ to_digits 10 (nat (k - 5000)) @ '' bypass state''"
proof (rule slice_described [OF _ _ parts_of_table(7)])
  show "map fst (take 126 (drop 0 event_table_7)) = [5083..5208]" by (simp add: event_table_7_def)
  show "list_all (numbered 5000 ''zone '' '' bypass state'') (take 126 (drop 0 event_table_7))" by (simp add: event_table_7_def numbered_eval)
qed

lemma zone_bypass: "1 \<le> m \<Longrightarrow> m \<le> 208 \<Longrightarrow> describe_elk_event (5000 + int m) = ''zone '' @ to_digits 10 m @ '' bypass state''"
  using zone_bypass_6 [of "5000 + int m"] zone_bypass_7 [of "5000 + int m"] by fastforce

lemma zone_memory_7: "6001 \<le> k \<Longrightarrow> k \<le> 6010 \<Longrightarrow> describe_elk_event k = ''zone '' @ to_digits 10 (nat (k - 6000)) @ '' alarm memory''"
proof (rule slice_described [OF _ _ parts_of_table(7)])
  show "map fst (take 10 (drop 126 event_table_7)) = [6001..6010]" by (simp add: event_table_7_def)
  show "list_all (numbered 6000 ''zone '' '' alarm memory'') (take 10 (drop 126 event_table_7))" by (simp add: event_table_7_def numbered_eval)
qed

lemma zone_memory_8: "6011 \<le> k \<Longrightarrow> k \<le> 6146 \<Longrightarrow> describe_elk_event k = ''zone '' @ to_digits 10 (nat (k - 6000)) @ '' alarm memory''"
proof (rule slice_described [OF _ _ parts_of_table(8)])
  show "map fst (take 136 (drop 0 event_table_8)) = [6011..6146]" by (simp add: event_table_8_def)
  show "list_all (numbered 6000 ''zone '' '' alarm memory'') (take 136 (drop 0 event_table_8))" by (simp add: event_table_8_def numbered_eval)
qed

lemma zone_memory_9: "6147 \<le> k \<Longrightarrow> k \<le> 6208 \<Longrightarrow> describe_elk_event k = ''zone '' @ to_digits 10 (nat (k - 6000)) @ '' alarm memory''"
proof (rule slice_described [OF _ _ parts_of_table(9)])
  show "map fst (take 62 (drop 0 event_table_9)) = [6147..6208]" by (simp add: event_table_9_def)
  show "list_all (numbered 6000 ''zone '' '' alarm memory'') (take 62 (drop 0 event_table_9))" by (simp add: event_table_9_def numbered_eval)
qed

lemma zone_memory: "1 \<le> m \<Longrightarrow> m \<le> 208 \<Longrightarrow> describe_elk_event (6000 + int m) = ''zone '' @ to_digits 10 m @ '' alarm memory''"
  using zone_memory_7 [of "6000 + int m"] zone_memory_8 [of "6000 + int m"] zone_memory_9 [of "6000 + int m"] by fastforce

lemma output_state_9: "7001 \<le> k \<Longrightarrow> k \<le> 7074 \<Longrightarrow> describe_elk_event k = ''output '' @ to_digits 10 (nat (k - 7000)) @ '' state''"
proof (rule slice_described [OF _ _ parts_of_table(9)])
  show "map fst (take 74 (drop 62 event_table_9)) = [7001..7074]" by (simp add: event_table_9_def)
  show "list_all (numbered 7000 ''output '' '' state'') (take 74 (drop 62 event_table_9))" by (simp add: event_table_9_def numbered_eval)
qed

lemma output_state_10: "7075 \<le> k \<Longrightarrow> k \<le> 7208 \<Longrightarrow> describe_elk_event k = ''output '' @ to_digits 10 (nat (k - 7000)) @ '' state''"
proof (rule slice_described [OF _ _ parts_of_table(10)])
  show "map fst (take 134 (drop 0 event_table_10)) = [7075..7208]" by (simp add: event_table_10_def)
  show "list_all (numbered 7000 ''output '' '' state'') (take 134 (drop 0 event_table_10))" by (simp add: event_table_10_def numbered_eval)
qed

lemma output_state: "1 \<le> m \<Longrightarrow> m \<le> 208 \<Longrightarrow> describe_elk_event (7000 + int m) = ''output '' @ to_digits 10 m @ '' state''"
  using output_state_9 [of "7000 + int m"] output_state_10 [of "7000 + int m"] by fastforce

section \<open>Properties\<close>

text \<open>The event table: every entry is found under its own id (no id occurs twice) and describes it
  with a text that is not empty, an id outside the table gets the fallback, and the numbered families
  follow the panel's numbering: the zones, their bypasses and alarm memories, the outputs and the
  arm states of the areas.\<close>

theorem event_descriptions:
  "distinct (map fst ELK_EVENT_DESCRIPTIONS) \<and>
   (\<forall>(k, d) \<in> set ELK_EVENT_DESCRIPTIONS. d \<noteq> [] \<and> describe_elk_event k = d) \<and>
   (\<forall>k. k \<notin> fst ` set ELK_EVENT_DESCRIPTIONS \<longrightarrow> describe_elk_event k = ''unknown event '' @ fmt_dec 1 k) \<and>
   (\<forall>n \<in> {1..208}. describe_elk_event (4000 + int n) = ''zone '' @ to_digits 10 n @ '' state'' \<and>
      describe_elk_event (5000 + int n) = ''zone '' @ to_digits 10 n @ '' bypass state'' \<and>
      describe_elk_event (6000 + int n) = ''zone '' @ to_digits 10 n @ '' alarm memory'' \<and>
      describe_elk_event (7000 + int n) = ''output '' @ to_digits 10 n @ '' state'') \<and>
   (\<forall>n \<in> {1..8}. describe_elk_event (1174 + int n) = ''area '' @ to_digits 10 n @ '' arm state'')"
proof (intro conjI)
  show "distinct (map fst ELK_EVENT_DESCRIPTIONS)" by (rule ascending_distinct [OF table_ascending])
  show "\<forall>(k, d) \<in> set ELK_EVENT_DESCRIPTIONS. d \<noteq> [] \<and> describe_elk_event k = d"
    using ascending_bound [OF table_ascending] described by auto
  show "\<forall>k. k \<notin> fst ` set ELK_EVENT_DESCRIPTIONS \<longrightarrow> describe_elk_event k = ''unknown event '' @ fmt_dec 1 k"
    by (simp add: describe_elk_event_def map_of_eq_None_iff [THEN iffD2])
qed (auto simp: area_arm zone_state zone_bypass zone_memory output_state)

theorem event_descriptions_witness: "describe_elk_event 4100 = ''zone 100 state''"
proof -
  have "(100 :: nat) \<in> {1..208}" by simp
  then have "describe_elk_event (4000 + int 100) = ''zone '' @ to_digits 10 100 @ '' state''"
    using event_descriptions by blast
  moreover have "to_digits 10 100 = ''100''" by (simp add: to_digits.simps digit_chars)
  ultimately show ?thesis by simp
qed

end
