(* ===== verification/Elk_Vocabulary.thy ===== *)
theory Elk_Vocabulary
  imports Elk_Prelude
begin

text \<open>
  \<open>vocabulary.py\<close>: the words of the panel's voice, entry by entry in the order of the code (in
  parts), and the translation of a list of word ids.
\<close>

section \<open>The table\<close>

definition voice_table_1 :: "(int \<times> string) list" where
  "voice_table_1 =
     [(-512, ''[say on/off]''),
      (-511, ''[say off/on]''),
      (-510, ''[say open/closed]''),
      (-509, ''[say closed/open]''),
      (-508, ''[say up/down]''),
      (-507, ''[say down/up]''),
      (-506, ''[say secure/not secure]''),
      (-505, ''[say not secure/secure]''),
      (-504, ''[say locked/unlocked]''),
      (-503, ''[say unlocked/locked]''),
      (-5, ''[say number]''),
      (-4, ''[inverted condition]''),
      (-3, ''[insert time]''),
      (-2, ''[insert condition]''),
      (0, ''''),
      (1, ''custom 1''),
      (2, ''custom 2''),
      (3, ''custom 3''),
      (4, ''custom 4''),
      (5, ''custom 5''),
      (6, ''custom 6''),
      (7, ''custom 7''),
      (8, ''custom 8''),
      (9, ''custom 9''),
      (10, ''custom 10''),
      (21, ''zero''),
      (22, ''one''),
      (23, ''two''),
      (24, ''three''),
      (25, ''four''),
      (26, ''five''),
      (27, ''six''),
      (28, ''seven''),
      (29, ''eight''),
      (30, ''nine''),
      (31, ''ten''),
      (32, ''eleven''),
      (33, ''twelve''),
      (34, ''thirteen''),
      (35, ''fourteen''),
      (36, ''fifteen''),
      (37, ''sixteen''),
      (38, ''seventeen''),
      (39, ''eighteen''),
      (40, ''nineteen''),
      (41, ''twenty''),
      (42, ''thirty''),
      (43, ''forty''),
      (44, ''fifty''),
      (45, ''sixty''),
      (46, ''seventy''),
      (47, ''eighty''),
      (48, ''ninety''),
      (49, ''hundred''),
      (50, ''thousand''),
      (51, ''[200ms silence]''),
      (52, ''[500ms silence]''),
      (53, ''[800hz tone]''),
      (54, ''a''),
      (55, ''access''),
      (56, ''acknowledged''),
      (57, ''ac power''),
      (58, ''activate''),
      (59, ''activated''),
      (60, ''active''),
      (61, ''adjust''),
      (62, ''air''),
      (63, ''alarm''),
      (64, ''alert''),
      (65, ''all''),
      (66, ''am''),
      (67, ''an''),
      (68, ''and''),
      (69, ''answer''),
      (70, ''any''),
      (71, ''are''),
      (72, ''area''),
      (73, ''arm''),
      (74, ''armed''),
      (75, ''at''),
      (76, ''attic''),
      (77, ''audio''),
      (78, ''auto''),
      (79, ''authorized''),
      (80, ''automatic''),
      (81, ''automation''),
      (82, ''auxiliary''),
      (83, ''away''),
      (84, ''b''),
      (85, ''back''),
      (86, ''barn''),
      (87, ''basement''),
      (88, ''bathroom''),
      (89, ''battery''),
      (90, ''bedroom''),
      (91, ''been''),
      (92, ''bell''),
      (93, ''bottom''),
      (94, ''break''),
      (95, ''breakfast''),
      (96, ''bright''),
      (97, ''building''),
      (98, ''burglar''),
      (99, ''button''),
      (100, ''by''),
      (101, ''bypassed''),
      (102, ''cabinet''),
      (103, ''call''),
      (104, ''camera''),
      (105, ''cancel''),
      (106, ''carbon monoxide''),
      (107, ''card''),
      (108, ''center''),
      (109, ''central''),
      (110, ''change''),
      (111, ''check''),
      (112, ''chime''),
      (113, ''circuit''),
      (114, ''clear''),
      (115, ''closed''),
      (116, ''closet''),
      (117, ''code''),
      (118, ''cold''),
      (119, ''condition''),
      (120, ''connect'')]"

definition voice_table_2 :: "(int \<times> string) list" where
  "voice_table_2 =
     [(121, ''control''),
      (122, ''cool''),
      (123, ''cooling''),
      (124, ''corner''),
      (125, ''crawlspace''),
      (126, ''danger''),
      (127, ''day''),
      (128, ''deck''),
      (129, ''decrease''),
      (130, ''defective''),
      (131, ''degrees''),
      (132, ''delay''),
      (133, ''den''),
      (134, ''denied''),
      (135, ''detected''),
      (136, ''detector''),
      (137, ''device''),
      (138, ''dial''),
      (139, ''dialing''),
      (140, ''dim''),
      (141, ''dining room''),
      (142, ''disable''),
      (143, ''disarm''),
      (144, ''disarmed''),
      (145, ''dock''),
      (146, ''door''),
      (147, ''doors''),
      (148, ''down''),
      (149, ''driveway''),
      (150, ''east''),
      (151, ''emergency''),
      (152, ''enable''),
      (153, ''end''),
      (154, ''energy''),
      (155, ''enrollment''),
      (156, ''enter''),
      (157, ''entering''),
      (158, ''entertainment''),
      (159, ''enter the''),
      (160, ''entry''),
      (161, ''environment''),
      (162, ''equipment''),
      (163, ''error''),
      (164, ''evacuate''),
      (165, ''event''),
      (166, ''exercise''),
      (167, ''expander''),
      (168, ''exit''),
      (169, ''exterior''),
      (170, ''f''),
      (171, ''fail''),
      (172, ''failure''),
      (173, ''family room''),
      (174, ''fan''),
      (175, ''feed''),
      (176, ''fence''),
      (177, ''fire''),
      (178, ''first''),
      (179, ''flood''),
      (180, ''floor''),
      (181, ''followed''),
      (182, ''force''),
      (183, ''fountain''),
      (184, ''foyer''),
      (185, ''freeze''),
      (186, ''front''),
      (187, ''full''),
      (188, ''furnace''),
      (189, ''fuse''),
      (190, ''game''),
      (191, ''garage''),
      (192, ''gas''),
      (193, ''gate''),
      (194, ''glass''),
      (195, ''go''),
      (196, ''good''),
      (197, ''good-bye''),
      (198, ''great''),
      (199, ''group''),
      (200, ''guest''),
      (201, ''gun''),
      (202, ''hall''),
      (203, ''hallway''),
      (204, ''hanging up''),
      (205, ''hang up''),
      (206, ''has''),
      (207, ''has expired''),
      (208, ''have''),
      (209, ''hear menu options''),
      (210, ''heat''),
      (211, ''help''),
      (212, ''high''),
      (213, ''hold''),
      (214, ''home''),
      (215, ''hot''),
      (216, ''hot tub''),
      (217, ''house''),
      (218, ''humidity''),
      (219, ''hvac''),
      (220, ''if''),
      (221, ''immediately''),
      (222, ''in''),
      (223, ''inches''),
      (224, ''increase''),
      (225, ''inner''),
      (226, ''input''),
      (227, ''inside''),
      (228, ''instant''),
      (229, ''interior''),
      (230, ''in the''),
      (231, ''intruder''),
      (232, ''intrusion''),
      (233, ''invalid''),
      (234, ''is''),
      (235, ''is about to expire''),
      (236, ''is active''),
      (237, ''is armed''),
      (238, ''is canceled''),
      (239, ''is closed''),
      (240, ''is disarmed''),
      (241, ''is low''),
      (242, ''is off''),
      (243, ''is ok''),
      (244, ''is on''),
      (245, ''is open'')]"

definition voice_table_3 :: "(int \<times> string) list" where
  "voice_table_3 =
     [(246, ''jacuzzi''),
      (247, ''jewelry''),
      (248, ''keep''),
      (249, ''key''),
      (250, ''keypad''),
      (251, ''kitchen''),
      (252, ''lamp''),
      (253, ''laundry''),
      (254, ''lawn''),
      (255, ''leak''),
      (256, ''leave''),
      (257, ''left''),
      (258, ''less''),
      (259, ''level''),
      (260, ''library''),
      (261, ''light''),
      (262, ''lights''),
      (263, ''line''),
      (264, ''living room''),
      (265, ''loading''),
      (266, ''lobby''),
      (267, ''location''),
      (268, ''lock''),
      (269, ''low''),
      (270, ''lower''),
      (271, ''m''),
      (272, ''machine''),
      (273, ''mail''),
      (274, ''main''),
      (275, ''mains''),
      (276, ''manual''),
      (277, ''master''),
      (278, ''max''),
      (279, ''media''),
      (280, ''medical''),
      (281, ''medicine''),
      (282, ''memory''),
      (283, ''menu''),
      (284, ''message''),
      (285, ''middle''),
      (286, ''minute''),
      (287, ''missing''),
      (288, ''mode''),
      (289, ''module''),
      (290, ''monitor''),
      (291, ''more''),
      (292, ''motion''),
      (293, ''motor''),
      (294, ''next''),
      (295, ''night''),
      (296, ''no''),
      (297, ''normal''),
      (298, ''north''),
      (299, ''not''),
      (300, ''notified''),
      (301, ''now''),
      (302, ''number''),
      (303, ''nursery''),
      (304, ''of''),
      (305, ''off''),
      (306, ''office''),
      (307, ''oh''),
      (308, ''ok''),
      (309, ''on''),
      (310, ''on-line''),
      (311, ''only''),
      (312, ''open''),
      (313, ''operating''),
      (314, ''option''),
      (315, ''or''),
      (316, ''other''),
      (317, ''out''),
      (318, ''outlet''),
      (319, ''output''),
      (320, ''outside''),
      (321, ''over''),
      (322, ''overhead''),
      (323, ''panel''),
      (324, ''panic''),
      (325, ''parking''),
      (326, ''partition''),
      (327, ''patio''),
      (328, ''pause''),
      (329, ''perimeter''),
      (330, ''personal''),
      (331, ''phone''),
      (332, ''place''),
      (333, ''play''),
      (334, ''please''),
      (335, ''plus''),
      (336, ''pm''),
      (337, ''police''),
      (338, ''pool''),
      (339, ''porch''),
      (340, ''port''),
      (341, ''pound''),
      (342, ''pounds''),
      (343, ''power''),
      (344, ''press''),
      (345, ''pressure''),
      (346, ''problem''),
      (347, ''program''),
      (348, ''protected''),
      (349, ''pump''),
      (350, ''radio''),
      (351, ''raise''),
      (352, ''ready''),
      (353, ''rear''),
      (354, ''receiver''),
      (355, ''record''),
      (356, ''recreation''),
      (357, ''relay''),
      (358, ''remain calm''),
      (359, ''remote''),
      (360, ''repeat''),
      (361, ''report''),
      (362, ''reporting''),
      (363, ''reset''),
      (364, ''restored''),
      (365, ''return''),
      (366, ''right''),
      (367, ''roof''),
      (368, ''room''),
      (369, ''running''),
      (370, ''safe'')]"

definition voice_table_4 :: "(int \<times> string) list" where
  "voice_table_4 =
     [(371, ''save''),
      (372, ''screen''),
      (373, ''second''),
      (374, ''secure''),
      (375, ''security''),
      (376, ''select''),
      (377, ''sensor''),
      (378, ''serial''),
      (379, ''service''),
      (380, ''set''),
      (381, ''setback''),
      (382, ''set point''),
      (383, ''setting''),
      (384, ''shed''),
      (385, ''shipping''),
      (386, ''shock''),
      (387, ''shop''),
      (388, ''shorted''),
      (389, ''shunted''),
      (390, ''side''),
      (391, ''silence''),
      (392, ''siren''),
      (393, ''sliding''),
      (394, ''smoke''),
      (395, ''someone''),
      (396, ''south''),
      (397, ''spare''),
      (398, ''speaker''),
      (399, ''sprinkler''),
      (400, ''stairs''),
      (401, ''stairway''),
      (402, ''star''),
      (403, ''start''),
      (404, ''status''),
      (405, ''stay''),
      (406, ''stock''),
      (407, ''stop''),
      (408, ''storage''),
      (409, ''storm''),
      (410, ''studio''),
      (411, ''study''),
      (412, ''sump''),
      (413, ''sun''),
      (414, ''switch''),
      (415, ''system''),
      (416, ''tamper''),
      (417, ''tank''),
      (418, ''task''),
      (419, ''telephone''),
      (420, ''television''),
      (421, ''temperature''),
      (422, ''test''),
      (423, ''thank you''),
      (424, ''that''),
      (425, ''the''),
      (426, ''theater''),
      (427, ''thermostat''),
      (428, ''third''),
      (429, ''time''),
      (430, ''toggle''),
      (431, ''top''),
      (432, ''transformer''),
      (433, ''transmitter''),
      (434, ''trespassing''),
      (435, ''trouble''),
      (436, ''turn''),
      (437, ''twice''),
      (438, ''type''),
      (439, ''under''),
      (440, ''unit''),
      (441, ''unlocked''),
      (442, ''unoccupied''),
      (443, ''up''),
      (444, ''user''),
      (445, ''utility''),
      (446, ''vacation''),
      (447, ''valve''),
      (448, ''video''),
      (449, ''violated''),
      (450, ''visitor''),
      (451, ''wake up''),
      (452, ''walk''),
      (453, ''wall''),
      (454, ''warehouse''),
      (455, ''warning''),
      (456, ''water''),
      (457, ''way''),
      (458, ''welcome''),
      (459, ''west''),
      (460, ''what''),
      (461, ''when''),
      (462, ''where''),
      (463, ''will''),
      (464, ''window''),
      (465, ''windows''),
      (466, ''with''),
      (467, ''work''),
      (468, ''yard''),
      (469, ''year''),
      (470, ''you''),
      (471, ''zone''),
      (472, ''zones''),
      (473, ''[intruder message]'')]"

definition ELK_VOICE_VOCABULARY :: "(int \<times> string) list" where
  "ELK_VOICE_VOCABULARY = voice_table_1 @ voice_table_2 @ voice_table_3 @ voice_table_4"

section \<open>Translation\<close>

text \<open>An id is a number, or a text that \<open>int\<close> may refuse; anything else is a \<open>TypeError\<close> of \<open>int\<close>.\<close>

datatype voice_id = Id int | Text_id string | Other_id

fun word_id :: "voice_id \<Rightarrow> int result" where
  "word_id (Id i) = Inr i"
| "word_id (Text_id s) = py_int 10 s"
| "word_id Other_id = Inl TypeError"

definition silent_ids :: "int list" where
  "silent_ids = [0, 51, 52, 53]"

fun join_words :: "string list \<Rightarrow> string" where
  "join_words [] = []"
| "join_words [w] = w"
| "join_words (w # ws) = w @ CHR '' '' # join_words ws"

text \<open>What one id adds to the sentence: a missing or empty entry is reported as unknown.\<close>

definition voice_word :: "int \<Rightarrow> string" where
  "voice_word i =
     (case map_of ELK_VOICE_VOCABULARY i of
        Some (c # cs) \<Rightarrow> c # cs
      | _ \<Rightarrow> ''[Unknown ID: '' @ fmt_dec 1 i @ '']'')"

fun translated_words :: "voice_id list \<Rightarrow> string list" where
  "translated_words [] = []"
| "translated_words (raw # raws) =
     (case word_id raw of
        Inl e \<Rightarrow> translated_words raws
      | Inr i \<Rightarrow> if i \<in> set silent_ids then translated_words raws else voice_word i # translated_words raws)"

definition translate_elk_voice :: "voice_id list \<Rightarrow> string" where
  "translate_elk_voice word_ids = strip_by str_space (join_words (translated_words word_ids))"

section \<open>Words have no blanks at their ends\<close>

definition trimmed :: "string \<Rightarrow> bool" where
  "trimmed w = (w \<noteq> [] \<and> \<not> str_space (hd w) \<and> \<not> str_space (last w))"

fun good_entries :: "int \<Rightarrow> (int \<times> string) list \<Rightarrow> bool" where
  "good_entries low [] = True"
| "good_entries low ((k, w) # kws) = (low < k \<and> (w = [] \<or> trimmed w) \<and> good_entries k kws)"

fun last_key :: "int \<Rightarrow> (int \<times> string) list \<Rightarrow> int" where
  "last_key low [] = low"
| "last_key low ((k, w) # kws) = last_key k kws"

lemma good_append: "good_entries low (xs @ ys) \<longleftrightarrow> good_entries low xs \<and> good_entries (last_key low xs) ys"
  by (induction low xs rule: good_entries.induct) auto

lemma last_key_append: "last_key low (xs @ ys) = last_key (last_key low xs) ys"
  by (induction low xs rule: last_key.induct) auto

lemma good_entries_bound: "good_entries low xs \<Longrightarrow> (k, w) \<in> set xs \<Longrightarrow> low < k \<and> (w = [] \<or> trimmed w)"
  by (induction low xs rule: good_entries.induct) auto

lemma good_distinct: "good_entries low xs \<Longrightarrow> distinct (map fst xs)"
  by (induction low xs rule: good_entries.induct) (auto dest: good_entries_bound)

lemmas word_eval = trimmed_def str_space_def pyord_def

lemma voice_part_1: "good_entries (-513) voice_table_1 \<and> last_key (-513) voice_table_1 = 120"
  by (simp add: voice_table_1_def word_eval)

lemma voice_part_2: "good_entries (120) voice_table_2 \<and> last_key (120) voice_table_2 = 245"
  by (simp add: voice_table_2_def word_eval)

lemma voice_part_3: "good_entries (245) voice_table_3 \<and> last_key (245) voice_table_3 = 370"
  by (simp add: voice_table_3_def word_eval)

lemma voice_part_4: "good_entries (370) voice_table_4 \<and> last_key (370) voice_table_4 = 473"
  by (simp add: voice_table_4_def word_eval)

lemma vocabulary_good: "good_entries (-513) ELK_VOICE_VOCABULARY"
  by (simp add: ELK_VOICE_VOCABULARY_def good_append last_key_append voice_part_1 voice_part_2 voice_part_3 voice_part_4)

lemma voice_word_trimmed: "trimmed (voice_word i)"
proof (cases "map_of ELK_VOICE_VOCABULARY i")
  case None
  then show ?thesis by (simp add: voice_word_def word_eval)
next
  case (Some w)
  then have "w = [] \<or> trimmed w" using good_entries_bound [OF vocabulary_good map_of_SomeD] by blast
  then show ?thesis using Some by (cases w) (auto simp: voice_word_def word_eval)
qed

lemma join_words_trimmed: "ws \<noteq> [] \<Longrightarrow> (\<And>w. w \<in> set ws \<Longrightarrow> trimmed w) \<Longrightarrow> trimmed (join_words ws)"
  by (induction ws rule: join_words.induct) (auto simp: trimmed_def)

lemma strip_trimmed:
  assumes "trimmed w"
  shows "strip_by str_space w = w"
proof -
  have "dropWhile str_space w = w" using assms by (cases w) (simp_all add: trimmed_def)
  moreover have "dropWhile str_space (rev w) = rev w"
    using assms by (cases w rule: rev_cases) (simp_all add: trimmed_def)
  ultimately show ?thesis by (simp add: strip_by_def)
qed

lemma translated_trimmed: "w \<in> set (translated_words raws) \<Longrightarrow> trimmed w"
  by (induction raws) (auto simp: voice_word_trimmed split: sum.splits if_splits)

section \<open>Properties\<close>

text \<open>The ids that are spoken.\<close>

definition spoken :: "voice_id \<Rightarrow> bool" where
  "spoken raw = (case word_id raw of Inl e \<Rightarrow> False | Inr i \<Rightarrow> i \<notin> set silent_ids)"

lemma translated_filter: "translated_words (filter spoken raws) = translated_words raws"
  by (induction raws) (auto simp: spoken_def split: sum.splits)

lemma translated_length: "length (translated_words raws) = length (filter spoken raws)"
  by (induction raws) (auto simp: spoken_def split: sum.splits)

text \<open>The voice translation drops exactly the ids that are no numbers or silences, says one word or
  one report of an unknown id for each of the others, in their order, and its final stripping never
  cuts anything off; a word id occurs once in the vocabulary.\<close>

theorem voice_translation:
  "translate_elk_voice raws = join_words (translated_words (filter spoken raws)) \<and>
   length (translated_words (filter spoken raws)) = length (filter spoken raws) \<and>
   (translate_elk_voice raws = [] \<longleftrightarrow> filter spoken raws = []) \<and> distinct (map fst ELK_VOICE_VOCABULARY)"
proof -
  have eq: "translate_elk_voice raws = join_words (translated_words raws)"
  proof (cases "translated_words raws = []")
    case True
    then show ?thesis by (simp add: translate_elk_voice_def strip_by_def)
  next
    case False
    then have "trimmed (join_words (translated_words raws))"
      by (rule join_words_trimmed) (rule translated_trimmed)
    then show ?thesis by (simp add: translate_elk_voice_def strip_trimmed)
  qed
  have "join_words (translated_words raws) = [] \<longleftrightarrow> translated_words raws = []"
    using join_words_trimmed [of "translated_words raws"] translated_trimmed by (auto simp: trimmed_def)
  moreover have "translated_words raws = [] \<longleftrightarrow> filter spoken raws = []"
    using translated_length [of raws] by (metis length_0_conv)
  ultimately show ?thesis using eq good_distinct [OF vocabulary_good]
    by (simp add: translated_filter translated_length)
qed

end
