(* ===== verification/Rp_Framing.thy ===== *)
theory Rp_Framing
  imports Elk_Prelude
begin

text \<open>
  The binary framing of the RP programming protocol (\<open>elk_programmer/protocol/framing.py\<close>): the
  16-bit CRC, the byte-stuffed frame and the incremental receiver. Bytes are \<open>8 word\<close>, the CRC is a
  \<open>16 word\<close>, so the masks of the code are the width of the type.
\<close>

type_synonym byte = "8 word"

section \<open>CRC\<close>

definition DLE :: byte where "DLE = 0x10"
definition STX :: byte where "STX = 0x02"
definition ETX :: byte where "ETX = 0x03"
definition ACK :: byte where "ACK = 0x06"
definition NAK :: byte where "NAK = 0x15"
definition DEBUG_STREAM :: byte where "DEBUG_STREAM = 0xFF"

lemmas control_defs = DLE_def STX_def ETX_def ACK_def NAK_def DEBUG_STREAM_def

text \<open>One turn of the inner loop, and the eight turns for a byte.\<close>

definition crc_shift :: "16 word \<Rightarrow> 16 word" where
  "crc_shift crc = (if bit crc 15 then push_bit 1 crc XOR 0x1021 else push_bit 1 crc)"

definition crc_byte :: "16 word \<Rightarrow> byte \<Rightarrow> 16 word" where
  "crc_byte crc b = (crc_shift ^^ 8) (crc XOR push_bit 8 (ucast b))"

definition crc16_from :: "16 word \<Rightarrow> byte list \<Rightarrow> 16 word" where
  "crc16_from crc bytes = foldl crc_byte crc bytes"

definition crc16 :: "byte list \<Rightarrow> 16 word" where
  "crc16 bytes = crc16_from 0 bytes"

text \<open>\<open>(crc >> 8) & 0xFF\<close> and \<open>crc & 0xFF\<close>.\<close>

definition hi_byte :: "16 word \<Rightarrow> byte" where "hi_byte w = ucast (drop_bit 8 w)"
definition lo_byte :: "16 word \<Rightarrow> byte" where "lo_byte w = ucast w"

section \<open>Frames\<close>

definition stuff :: "byte list \<Rightarrow> byte list" where
  "stuff body = concat (map (\<lambda>b. if b = DLE then [b, DLE] else [b]) body)"

definition encode_frame :: "byte list \<Rightarrow> byte list result" where
  "encode_frame body =
     (if body = [] then Inl ValueError
      else let crc = crc16 body
           in Inr ([DLE, STX] @ stuff body @ [DLE, ETX, hi_byte crc, lo_byte crc]))"

section \<open>The receiver\<close>

datatype frame_kind = MESSAGE | K_ACK | K_NAK | CRC_ERROR | DEBUG

record frame_event =
  ev_kind :: frame_kind
  ev_body :: "byte list"

datatype rx_state = IDLE | DLE1 | BODY | DLE2 | CRC1 | CRC2

record decoder =
  dc_state :: rx_state
  dc_body :: "byte list"
  dc_crc_hi :: byte

definition decoder_init :: decoder where
  "decoder_init = \<lparr>dc_state = IDLE, dc_body = [], dc_crc_hi = 0\<rparr>"

definition decoder_step :: "byte \<Rightarrow> decoder \<Rightarrow> decoder \<times> frame_event option" where
  "decoder_step b d =
     (case dc_state d of
        IDLE \<Rightarrow> (if b = DLE then d\<lparr>dc_state := DLE1\<rparr> else d, None)
      | DLE1 \<Rightarrow>
          (if b = STX then (d\<lparr>dc_body := [], dc_state := BODY\<rparr>, None)
           else if b = ACK then (d\<lparr>dc_state := IDLE\<rparr>, Some \<lparr>ev_kind = K_ACK, ev_body = []\<rparr>)
           else if b = NAK then (d\<lparr>dc_state := IDLE\<rparr>, Some \<lparr>ev_kind = K_NAK, ev_body = []\<rparr>)
           else if b \<noteq> DLE then (d\<lparr>dc_state := IDLE\<rparr>, None)
           else (d, None))
      | BODY \<Rightarrow>
          (if b = DLE then d\<lparr>dc_state := DLE2\<rparr> else d\<lparr>dc_body := dc_body d @ [b]\<rparr>, None)
      | DLE2 \<Rightarrow>
          (if b = DLE then d\<lparr>dc_body := dc_body d @ [DLE], dc_state := BODY\<rparr>
           else if b = ETX then d\<lparr>dc_state := CRC1\<rparr>
           else if b = STX then d\<lparr>dc_body := [], dc_state := BODY\<rparr>
           else d\<lparr>dc_state := IDLE\<rparr>, None)
      | CRC1 \<Rightarrow> (d\<lparr>dc_crc_hi := b, dc_state := CRC2\<rparr>, None)
      | CRC2 \<Rightarrow>
          (let body = dc_body d; expected = crc16 body; d = d\<lparr>dc_state := IDLE\<rparr>
           in if take 1 body = [DEBUG_STREAM] then (d, Some \<lparr>ev_kind = DEBUG, ev_body = body\<rparr>)
              else if (dc_crc_hi d, b) \<noteq> (hi_byte expected, lo_byte expected)
              then (d, Some \<lparr>ev_kind = CRC_ERROR, ev_body = body\<rparr>)
              else (d, Some \<lparr>ev_kind = MESSAGE, ev_body = body\<rparr>)))"

fun feed :: "byte list \<Rightarrow> decoder \<Rightarrow> decoder \<times> frame_event list" where
  "feed [] d = (d, [])"
| "feed (b # bs) d =
     (let (d, ev) = decoder_step b d; (d, evs) = feed bs d
      in (d, (case ev of None \<Rightarrow> evs | Some e \<Rightarrow> e # evs)))"

section \<open>The CRC is injective\<close>

lemma xor_right_cancel: "a XOR c = b XOR c \<Longrightarrow> a = (b :: 16 word)"
  by (metis xor.assoc xor_self_eq xor.right_neutral)

lemma xor_left_cancel: "c XOR a = c XOR b \<Longrightarrow> a = (b :: 16 word)"
  by (metis xor.commute xor_right_cancel)

lemma bit_push_one: "bit (push_bit 1 (c :: 16 word)) n \<longleftrightarrow> 0 < n \<and> n < 16 \<and> bit c (n - 1)"
  unfolding bit_push_bit_iff by auto

lemma crc_shift_low: "bit (crc_shift c) 0 \<longleftrightarrow> bit c 15"
proof -
  have "bit (0x1021 :: 16 word) 0" by simp
  then show ?thesis unfolding crc_shift_def by (auto simp only: bit_push_one bit_xor_iff split: if_splits)
qed

lemma push_one_inj:
  assumes "push_bit 1 c = push_bit 1 (d :: 16 word)" and "bit c 15 = bit d 15"
  shows "c = d"
proof (rule bit_word_eqI)
  fix n assume "n < LENGTH(16)"
  then have n: "n < 16" by simp
  show "bit c n = bit d n"
  proof (cases "n = 15")
    case True
    then show ?thesis using assms(2) by simp
  next
    case False
    have "bit (push_bit 1 c) (Suc n) = bit (push_bit 1 d) (Suc n)" using assms(1) by simp
    then show ?thesis using n False unfolding bit_push_one by simp
  qed
qed

lemma crc_shift_inj: "crc_shift c = crc_shift d \<Longrightarrow> c = d"
proof -
  assume eq: "crc_shift c = crc_shift d"
  then have top: "bit c 15 = bit d 15" using crc_shift_low by metis
  have "push_bit 1 c = push_bit 1 d"
  proof (cases "bit c 15")
    case True
    then have "push_bit 1 c XOR 0x1021 = push_bit 1 d XOR 0x1021" using eq top by (simp add: crc_shift_def)
    then show ?thesis by (rule xor_right_cancel)
  next
    case False
    then show ?thesis using eq top by (simp add: crc_shift_def)
  qed
  then show "c = d" using top by (rule push_one_inj)
qed

lemma crc_shifts_inj: "(crc_shift ^^ n) c = (crc_shift ^^ n) d \<Longrightarrow> c = d"
  by (induction n) (auto dest: crc_shift_inj)

lemma crc_byte_inj_crc: "crc_byte c b = crc_byte d b \<Longrightarrow> c = d"
proof -
  assume "crc_byte c b = crc_byte d b"
  then have "c XOR push_bit 8 (ucast b) = d XOR push_bit 8 (ucast b)"
    unfolding crc_byte_def by (rule crc_shifts_inj)
  then show "c = d" by (rule xor_right_cancel)
qed

lemma push_byte_inj: "push_bit 8 (ucast b :: 16 word) = push_bit 8 (ucast d) \<Longrightarrow> b = (d :: byte)"
proof (rule bit_word_eqI)
  fix n assume eq: "push_bit 8 (ucast b :: 16 word) = push_bit 8 (ucast d)" and "n < LENGTH(8)"
  have "bit (push_bit 8 (ucast b :: 16 word)) (n + 8) = bit (push_bit 8 (ucast d :: 16 word)) (n + 8)"
    using eq by simp
  then show "bit b n = bit d n" using \<open>n < LENGTH(8)\<close> by (simp add: bit_push_bit_iff bit_ucast_iff)
qed

lemma crc_byte_inj_byte: "crc_byte c b = crc_byte c d \<Longrightarrow> b = d"
proof -
  assume "crc_byte c b = crc_byte c d"
  then have "c XOR push_bit 8 (ucast b) = c XOR push_bit 8 (ucast d)"
    unfolding crc_byte_def by (rule crc_shifts_inj)
  then have "push_bit 8 (ucast b :: 16 word) = push_bit 8 (ucast d)"
    by (rule xor_left_cancel)
  then show "b = d" by (rule push_byte_inj)
qed

lemma crc16_from_append: "crc16_from c (xs @ ys) = crc16_from (crc16_from c xs) ys"
  by (simp add: crc16_from_def)

lemma crc16_from_Cons: "crc16_from c (x # xs) = crc16_from (crc_byte c x) xs"
  by (simp add: crc16_from_def)

lemma crc16_from_inj: "crc16_from c xs = crc16_from d xs \<Longrightarrow> c = d"
  by (induction xs arbitrary: c d) (auto simp: crc16_from_def dest: crc_byte_inj_crc)

lemma crc16_update_neq:
  assumes "i < length xs" and "b \<noteq> xs ! i"
  shows "crc16 (xs[i := b]) \<noteq> crc16 xs"
proof
  assume eq: "crc16 (xs[i := b]) = crc16 xs"
  let ?c = "crc16_from 0 (take i xs)"
  have "crc16 xs = crc16_from (crc_byte ?c (xs ! i)) (drop (Suc i) xs)"
    by (subst id_take_nth_drop [OF assms(1)]) (simp add: crc16_def crc16_from_append crc16_from_Cons)
  moreover have "crc16 (xs[i := b]) = crc16_from (crc_byte ?c b) (drop (Suc i) xs)"
    by (simp add: upd_conv_take_nth_drop [OF assms(1)] crc16_def crc16_from_append crc16_from_Cons)
  ultimately have "crc_byte ?c b = crc_byte ?c (xs ! i)" using eq crc16_from_inj by metis
  then show False using assms(2) crc_byte_inj_byte by metis
qed

lemma word_bytes_inj: "hi_byte v = hi_byte w \<Longrightarrow> lo_byte v = lo_byte w \<Longrightarrow> v = w"
proof (rule bit_word_eqI)
  fix n assume h: "hi_byte v = hi_byte w" and l: "lo_byte v = lo_byte w" and "n < LENGTH(16)"
  then have n: "n < 16" by simp
  show "bit v n = bit w n"
  proof (cases "n < 8")
    case True
    have "bit (lo_byte v) n = bit (lo_byte w) n" using l by simp
    then show ?thesis using True by (simp add: lo_byte_def bit_ucast_iff)
  next
    case False
    have "bit (hi_byte v) (n - 8) = bit (hi_byte w) (n - 8)" using h by simp
    moreover have "n - 8 < 8" using n by simp
    ultimately show ?thesis using False by (simp add: hi_byte_def bit_ucast_iff bit_drop_bit_eq)
  qed
qed

section \<open>Receiving a frame\<close>

lemma feed_append:
  "feed (xs @ ys) d = (let (d1, e1) = feed xs d; (d2, e2) = feed ys d1 in (d2, e1 @ e2))"
  by (induction xs arbitrary: d) (auto simp: Let_def split: prod.splits option.splits)

lemma stuff_Cons: "stuff (b # bs) = (if b = DLE then [b, DLE] else [b]) @ stuff bs"
  by (simp add: stuff_def)

lemma feed_stuff:
  "dc_state d = BODY \<Longrightarrow> feed (stuff body) d = (d\<lparr>dc_body := dc_body d @ body\<rparr>, [])"
proof (induction body arbitrary: d)
  case Nil
  then show ?case by (simp add: stuff_def)
next
  case (Cons b body)
  let ?d = "d\<lparr>dc_body := dc_body d @ [b]\<rparr>"
  have "feed (if b = DLE then [b, DLE] else [b]) d = (?d, [])"
    using Cons.prems by (cases d) (simp add: decoder_step_def)
  then show ?case using Cons.IH [of ?d] Cons.prems by (simp add: stuff_Cons feed_append)
qed

text \<open>The bytes of a frame with an arbitrary CRC, and the verdict of the receiver on it.\<close>

definition frame_bytes :: "byte list \<Rightarrow> 16 word \<Rightarrow> byte list" where
  "frame_bytes body crc = [DLE, STX] @ stuff body @ [DLE, ETX, hi_byte crc, lo_byte crc]"

definition verdict :: "byte list \<Rightarrow> 16 word \<Rightarrow> frame_event" where
  "verdict body crc =
     \<lparr>ev_kind = (if take 1 body = [DEBUG_STREAM] then DEBUG else if crc = crc16 body then MESSAGE else CRC_ERROR),
      ev_body = body\<rparr>"

lemma encode_frame_bytes: "body \<noteq> [] \<Longrightarrow> encode_frame body = Inr (frame_bytes body (crc16 body))"
  by (simp add: encode_frame_def frame_bytes_def Let_def)

lemma feed_start:
  assumes "dc_state d \<in> {IDLE, DLE1, BODY}"
  shows "feed [DLE, STX] d = (d\<lparr>dc_body := [], dc_state := BODY\<rparr>, [])"
  using assms by (cases d) (auto simp: decoder_step_def control_defs)

lemma feed_end:
  assumes "dc_state d = BODY"
  shows "feed [DLE, ETX, hi_byte crc, lo_byte crc] d =
    (d\<lparr>dc_crc_hi := hi_byte crc, dc_state := IDLE\<rparr>, [verdict (dc_body d) crc])"
proof -
  have "hi_byte crc = hi_byte c \<and> lo_byte crc = lo_byte c \<longleftrightarrow> crc = c" for c
    using word_bytes_inj by auto
  then show ?thesis using assms
    by (cases d) (auto simp: decoder_step_def verdict_def Let_def control_defs)
qed

lemma feed_frame:
  assumes "dc_state d \<in> {IDLE, DLE1, BODY}"
  shows "feed (frame_bytes body crc) d =
    (d\<lparr>dc_body := body, dc_crc_hi := hi_byte crc, dc_state := IDLE\<rparr>, [verdict body crc])"
  unfolding frame_bytes_def feed_append
  by (simp only: feed_start [OF assms] Let_def prod.case) (simp add: feed_append feed_stuff feed_end del: feed.simps)

lemma feed_frames:
  assumes "dc_state d \<in> {IDLE, DLE1, BODY}" and "bodies \<noteq> []"
  shows "snd (feed (concat (map (\<lambda>b. frame_bytes b (crc16 b)) bodies)) d) = map (\<lambda>b. verdict b (crc16 b)) bodies \<and>
    dc_state (fst (feed (concat (map (\<lambda>b. frame_bytes b (crc16 b)) bodies)) d)) = IDLE"
  using assms
proof (induction bodies arbitrary: d)
  case Nil
  then show ?case by simp
next
  case (Cons b bs)
  let ?d = "d\<lparr>dc_body := b, dc_crc_hi := hi_byte (crc16 b), dc_state := IDLE\<rparr>"
  show ?case
  proof (cases "bs = []")
    case True
    then show ?thesis using Cons.prems by (simp add: feed_frame)
  next
    case False
    then show ?thesis using Cons.IH [of ?d] Cons.prems
      by (auto simp: feed_append feed_frame split: prod.splits)
  qed
qed

section \<open>Properties\<close>

text \<open>C9. Framing round trip: any sequence of non-empty bodies that do not start with the debug
  marker, framed and sent back to back, is received as exactly those messages in order, also when
  the receiver was in the middle of an abandoned frame, and the receiver ends idle.\<close>

theorem frames_roundtrip:
  assumes "dc_state d \<in> {IDLE, DLE1, BODY}" and "bodies \<noteq> []"
    and "\<And>b. b \<in> set bodies \<Longrightarrow> b \<noteq> [] \<and> hd b \<noteq> DEBUG_STREAM"
  shows "\<exists>frames. mapr encode_frame bodies = Inr frames \<and>
    snd (feed (concat frames) d) = map (\<lambda>b. \<lparr>ev_kind = MESSAGE, ev_body = b\<rparr>) bodies \<and>
    dc_state (fst (feed (concat frames) d)) = IDLE"
proof -
  have "mapr encode_frame bodies = Inr (map (\<lambda>b. frame_bytes b (crc16 b)) bodies)"
    using assms(3) by (intro mapr_Inr_map encode_frame_bytes) simp
  moreover have "verdict b (crc16 b) = \<lparr>ev_kind = MESSAGE, ev_body = b\<rparr>" if "b \<in> set bodies" for b
    using assms(3) [OF that] by (cases b) (auto simp: verdict_def)
  then have "map (\<lambda>b. verdict b (crc16 b)) bodies = map (\<lambda>b. \<lparr>ev_kind = MESSAGE, ev_body = b\<rparr>) bodies"
    by simp
  ultimately show ?thesis using feed_frames [OF assms(1,2)] by auto
qed

theorem frames_roundtrip_witness:
  "\<exists>frames. mapr encode_frame [[0x7F, 0x10, 0, 1], [0x10]] = Inr frames \<and>
    snd (feed (concat frames) decoder_init) =
      [\<lparr>ev_kind = MESSAGE, ev_body = [0x7F, 0x10, 0, 1]\<rparr>, \<lparr>ev_kind = MESSAGE, ev_body = [0x10]\<rparr>]"
proof -
  have b: "b \<noteq> [] \<and> hd b \<noteq> DEBUG_STREAM" if "b \<in> set [[0x7F, 0x10, 0, 1], [0x10]]" for b :: "byte list"
    using that by (auto simp: DEBUG_STREAM_def)
  from frames_roundtrip [of decoder_init "[[0x7F, 0x10, 0, 1], [0x10]]", OF _ _ b]
  show ?thesis by (auto simp: decoder_init_def)
qed

text \<open>Chunking does not matter: feeding a byte stream in two parts gives the same receiver and
  the same events as feeding it at once, wherever it is cut.\<close>

theorem feed_chunks:
  "feed (xs @ ys) d =
     (fst (feed ys (fst (feed xs d))), snd (feed xs d) @ snd (feed ys (fst (feed xs d))))"
  by (simp add: feed_append split_def Let_def)

text \<open>Every substitution of one body byte is detected: a frame whose body was changed in one
  position, with the CRC of the original, is reported as a CRC error and never as a message (unless
  the change turns it into a debug frame, which carries no CRC).\<close>

theorem body_corruption_detected:
  assumes "dc_state d \<in> {IDLE, DLE1, BODY}" and "i < length body" and "b \<noteq> body ! i"
    and "hd (body[i := b]) \<noteq> DEBUG_STREAM"
  shows "snd (feed (frame_bytes (body[i := b]) (crc16 body)) d) =
    [\<lparr>ev_kind = CRC_ERROR, ev_body = body[i := b]\<rparr>]"
proof -
  have "crc16 body \<noteq> crc16 (body[i := b])" using crc16_update_neq [OF assms(2,3)] by simp
  moreover have "take 1 (body[i := b]) \<noteq> [DEBUG_STREAM]"
    using assms(2,4) by (cases "body[i := b]") auto
  ultimately show ?thesis by (simp add: feed_frame [OF assms(1)] verdict_def)
qed

theorem body_corruption_detected_witness:
  "snd (feed (frame_bytes [0x7F, 1, 0, 1] (crc16 [0x7F, 0, 0, 1])) decoder_init) =
    [\<lparr>ev_kind = CRC_ERROR, ev_body = [0x7F, 1, 0, 1]\<rparr>]"
  using body_corruption_detected [of decoder_init 1 "[0x7F, 0, 0, 1]" 1]
  by (simp add: decoder_init_def DEBUG_STREAM_def)

end
