(* ===== verification/Rp_Specs.thy ===== *)
theory Rp_Specs
  imports Rp_Framing
begin

text \<open>
  \<open>elk_programmer/model/specs.py\<close>: what the records of the panel's memory are made of. A record
  type is an ordered list of fields, a field a name, a kind and a length; a flag byte has named bit
  groups. The tables are the code's, entry by entry, with the labels and choices its editor shows.
\<close>

section \<open>Fields and records\<close>

text \<open>\<open>Kind\<close>: how a field is stored.\<close>

datatype field_kind = F_U8 | F_TEXT | F_VOICE | F_DIGITS | F_CODE | F_BYTES | F_U16

text \<open>\<open>Bit\<close>: a named group of bits inside a flag byte.\<close>

record bit_group =
  bs_name :: string
  bs_lsb :: nat
  bs_width :: nat
  bs_label :: string
  bs_choices :: "string list"

definition bit_spec :: "string \<Rightarrow> nat \<Rightarrow> nat \<Rightarrow> string \<Rightarrow> bit_group" where
  "bit_spec name lsb width label =
     \<lparr>bs_name = name, bs_lsb = lsb, bs_width = width, bs_label = label, bs_choices = []\<rparr>"

text \<open>\<open>Field\<close>, with the defaults of the class.\<close>

record field_spec =
  fs_name :: string
  fs_kind :: field_kind
  fs_length :: nat
  fs_label :: string
  fs_columns :: "string list"
  fs_bits :: "bit_group list"
  fs_choices :: "string list"
  fs_minimum :: int
  fs_maximum :: int
  fs_hidden :: bool

definition field_spec :: "string \<Rightarrow> field_kind \<Rightarrow> nat \<Rightarrow> string \<Rightarrow> field_spec" where
  "field_spec name kind len label =
     \<lparr>fs_name = name, fs_kind = kind, fs_length = len, fs_label = label, fs_columns = [], fs_bits = [],
      fs_choices = [], fs_minimum = 0, fs_maximum = 255, fs_hidden = False\<rparr>"

definition fs_size :: "field_spec \<Rightarrow> nat" where
  "fs_size f =
     (case fs_kind f of F_VOICE \<Rightarrow> fs_length f * 2 | F_U16 \<Rightarrow> 2 | _ \<Rightarrow> fs_length f)"

definition decimal :: "nat \<Rightarrow> string" where
  "decimal n = to_digits 10 n"

definition column_names :: "field_spec \<Rightarrow> string list" where
  "column_names f =
     (if fs_columns f \<noteq> [] then fs_columns f
      else if fs_kind f = F_VOICE
      then concat (map (\<lambda>i. [fs_name f @ decimal i @ ''H'', fs_name f @ decimal i @ ''L'']) [1..<fs_length f + 1])
      else if fs_length f = 1 \<and> (fs_kind f = F_U8 \<or> fs_kind f = F_BYTES) then [fs_name f]
      else map (\<lambda>i. fs_name f @ decimal i) [1..<fs_length f + 1])"

text \<open>\<open>RecordSpec\<close>.\<close>

record record_spec =
  rs_name :: string
  rs_label :: string
  rs_table :: string
  rs_key :: string
  rs_count :: nat
  rs_first :: nat
  rs_crc_columns :: "string list"
  rs_fields :: "field_spec list"
  rs_extra :: "field_spec list"

definition rs_size :: "record_spec \<Rightarrow> nat" where
  "rs_size spec = sum_list (map fs_size (rs_fields spec))"

definition field_by_name :: "record_spec \<Rightarrow> string \<Rightarrow> field_spec result" where
  "field_by_name spec name =
     of_option KeyError (find (\<lambda>f. fs_name f = name) (rs_fields spec @ rs_extra spec))"

section \<open>Choices\<close>

definition zone_functions :: "string list" where
  "zone_functions =
     [''Disabled'',
      ''Burglar Entry/Exit 1'',
      ''Burglar Entry/Exit 2'',
      ''Burglar Perimeter Instant'',
      ''Burglar Interior'',
      ''Burglar Interior Follower'',
      ''Burglar Interior Night'',
      ''Burglar Interior Night Delay'',
      ''Burglar 24 Hour'',
      ''Burglar Box Tamper'',
      ''Fire Alarm'',
      ''Fire Verified'',
      ''Fire Supervisory'',
      ''Aux Alarm 1'',
      ''Aux Alarm 2'',
      ''Keyfob'',
      ''Non Alarm'',
      ''Carbon Monoxide'',
      ''Emergency Alarm'',
      ''Freeze Alarm'',
      ''Gas Alarm'',
      ''Heat Alarm'',
      ''Medical Alarm'',
      ''Police Alarm'',
      ''Police No Indication'',
      ''Water Alarm'',
      ''Key Momentary Arm/Disarm'',
      ''Key Momentary Arm Away'',
      ''Key Momentary Arm Stay'',
      ''Key Momentary Disarm'',
      ''Key On/Off'',
      ''Mute Audibles'',
      ''Power Supervisory'',
      ''Temperature'',
      ''Analog Zone'',
      ''Phone Key'',
      ''Intercom Key'']"

definition zone_hookups :: "string list" where
  "zone_hookups =
     [''EOL Supervised'',
      ''Normally Closed'',
      ''Normally Open'',
      ''Supervised Short'',
      ''Supervised Open'',
      ''4-Wire Smoke'',
      ''2-Wire Smoke (Zone 16)'',
      ''Analog'']"

definition area_names :: "string list" where
  "area_names =
     [''Area 1'',
      ''Area 2'',
      ''Area 3'',
      ''Area 4'',
      ''Area 5'',
      ''Area 6'',
      ''Area 7'',
      ''Area 8'']"

definition serial_baud_codes :: "string list" where
  "serial_baud_codes =
     [''300'',
      ''300'',
      ''1200'',
      ''2400'',
      ''4800'',
      ''9600'',
      ''14400'',
      ''19200'',
      ''38400'',
      ''115200'']"

section \<open>The record types\<close>

definition zone_spec :: record_spec where
  "zone_spec =
     \<lparr>rs_name = ''zone'', rs_label = ''Zones'', rs_table = ''ZoneDefinitions'', rs_key = ''ZoneNum'',
      rs_count = 208, rs_first = 1, rs_crc_columns = [''UDCRC'', ''ModCRC''],
      rs_fields =
        [(field_spec ''ZnFunction'' F_U8 1 ''Definition'')\<lparr>fs_choices := zone_functions\<rparr>,
         (field_spec ''ZnFlag1'' F_U8 1 ''Options'')\<lparr>fs_bits :=
           [bit_spec ''bypassable'' 0 1 ''Bypassable'',
            bit_spec ''activity_monitor'' 1 1 ''Activity monitor'',
            bit_spec ''fast_response'' 2 1 ''Fast loop response'',
            bit_spec ''force_arm'' 3 1 ''Force arm'',
            bit_spec ''chime'' 4 1 ''Chime'',
            bit_spec ''cross_zoned'' 5 1 ''Cross zoned'',
            bit_spec ''abort'' 6 1 ''Alarm abort'',
            bit_spec ''listen_in'' 7 1 ''Listen in'']\<rparr>,
         (field_spec ''ZnFlag2'' F_U8 1 ''Hookup and area'')\<lparr>fs_bits :=
           [(bit_spec ''hookup'' 0 3 ''Hookup'')\<lparr>bs_choices := zone_hookups\<rparr>,
            bit_spec ''swinger_shutdown'' 3 1 ''Swinger shutdown'',
            (bit_spec ''area'' 4 3 ''Area'')\<lparr>bs_choices := area_names\<rparr>,
            bit_spec ''silent_alarm'' 7 1 ''Silent alarm'']\<rparr>,
         (field_spec ''ZnNotUsed1'' F_U8 1 '''')\<lparr>fs_hidden := True\<rparr>,
         field_spec ''ZnZoneName'' F_TEXT 16 ''Name'',
         field_spec ''ZnVoice'' F_VOICE 6 ''Voice words''],
      rs_extra =
        [field_spec ''ZnRCAlarm'' F_U8 1 ''Report code: alarm'',
         field_spec ''ZnRCRestoral'' F_U8 1 ''Report code: restoral'',
         field_spec ''ZnRCBypass'' F_U8 1 ''Report code: bypass'',
         field_spec ''ZnRCTrouble'' F_U8 1 ''Report code: trouble'']\<rparr>"

definition area_spec :: record_spec where
  "area_spec =
     \<lparr>rs_name = ''area'', rs_label = ''Areas'', rs_table = ''AreaDefinitions'', rs_key = ''AreaNum'',
      rs_count = 8, rs_first = 1, rs_crc_columns = [''UDCRC'', ''ModCRC''],
      rs_fields =
        [field_spec ''PName'' F_TEXT 16 ''Name'',
         field_spec ''PExit1'' F_U8 1 ''Exit delay 1 (s)'',
         field_spec ''PEntrance1'' F_U8 1 ''Entry delay 1 (s)'',
         field_spec ''PExit2'' F_U8 1 ''Exit delay 2 (s)'',
         field_spec ''PEntrance2'' F_U8 1 ''Entry delay 2 (s)'',
         (field_spec ''PFlags1'' F_U8 1 ''Arming options'')\<lparr>fs_bits :=
           [bit_spec ''quick_arm'' 0 1 ''Quick arm (no code)'',
            bit_spec ''closing_ringback'' 1 2 ''Closing ring-back'',
            bit_spec ''auto_interior_off'' 4 1 ''Auto interior off'',
            bit_spec ''stay_key_scroll'' 6 1 ''STAY key scrolls modes'']\<rparr>,
         (field_spec ''PFlags2'' F_U8 1 ''Visible arm modes'')\<lparr>fs_bits :=
           [bit_spec ''show_night_instant'' 3 1 ''Show Night Instant'',
            bit_spec ''show_night'' 4 1 ''Show Night'',
            bit_spec ''show_stay_instant'' 5 1 ''Show Stay Instant'',
            bit_spec ''show_stay'' 6 1 ''Show Stay'',
            bit_spec ''double_press_arm'' 7 1 ''Double press to arm'']\<rparr>,
         field_spec ''PArmTimeWindow'' F_U8 1 ''Expected arm time window'',
         (field_spec ''PNotUsed'' F_U8 1 '''')\<lparr>fs_hidden := True\<rparr>],
      rs_extra =
        [field_spec ''TeleCommAbortTime'' F_U8 1 ''Communicator abort time'',
         field_spec ''TeleCancelTime'' F_U8 1 ''Cancel time'',
         field_spec ''ARCAbort'' F_U8 1 ''Report code: abort'',
         field_spec ''ARCCancel'' F_U8 1 ''Report code: cancel'',
         field_spec ''ARCAutoClose'' F_U8 1 ''Report code: auto close'',
         field_spec ''ARCEarlyClose'' F_U8 1 ''Report code: early close'',
         field_spec ''ARCClosingExtended'' F_U8 1 ''Report code: closing extended'',
         field_spec ''ARCFailToClose'' F_U8 1 ''Report code: fail to close'',
         field_spec ''ARCLateClose'' F_U8 1 ''Report code: late close'',
         field_spec ''ARCKeySwitchClose'' F_U8 1 ''Report code: keyswitch close'',
         field_spec ''ARCDuress'' F_U8 1 ''Report code: duress'',
         field_spec ''ARCExcepOpen'' F_U8 1 ''Report code: exception open'',
         field_spec ''ARCEarlyOpen'' F_U8 1 ''Report code: early open'',
         field_spec ''ARCFailToOpen'' F_U8 1 ''Report code: fail to open'',
         field_spec ''ARCLateOpen'' F_U8 1 ''Report code: late open'',
         field_spec ''ARCKeySwitchOpen'' F_U8 1 ''Report code: keyswitch open'',
         field_spec ''ARCKPLockOut'' F_U8 1 ''Report code: keypad lockout'',
         field_spec ''ARCFailToComm'' F_U8 1 ''Report code: fail to communicate'']\<rparr>"

definition keypad_spec :: record_spec where
  "keypad_spec =
     \<lparr>rs_name = ''keypad'', rs_label = ''Keypads'', rs_table = ''KeypadDefinitions'', rs_key = ''KeypadNum'',
      rs_count = 16, rs_first = 1, rs_crc_columns = [''UDCRC1'', ''ModCRC1''],
      rs_fields =
        [(field_spec ''KeypadAreas'' F_U8 1 ''Area'')\<lparr>fs_minimum := 0, fs_maximum := 7\<rparr>,
         (field_spec ''KPFlags1'' F_U8 1 ''Display options'')\<lparr>fs_bits :=
           [bit_spec ''zone_response'' 2 1 ''Show zone response'',
            bit_spec ''temperature'' 3 1 ''Show temperature'',
            bit_spec ''date_time'' 4 1 ''Show date and time'',
            bit_spec ''area_name'' 5 1 ''Show area name'']\<rparr>,
         (field_spec ''KPFlags2'' F_U8 1 ''Function key light invert'')\<lparr>fs_bits :=
           [bit_spec ''f1_invert_light'' 0 1 ''F1 invert light'',
            bit_spec ''f2_invert_light'' 1 1 ''F2 invert light'',
            bit_spec ''f3_invert_light'' 2 1 ''F3 invert light'',
            bit_spec ''f4_invert_light'' 3 1 ''F4 invert light'',
            bit_spec ''f5_invert_light'' 4 1 ''F5 invert light'',
            bit_spec ''f6_invert_light'' 5 1 ''F6 invert light'']\<rparr>,
         (field_spec ''KPFlags3'' F_U8 1 ''Key requires code'')\<lparr>fs_bits :=
           [bit_spec ''bypass_key_code'' 1 1 ''Bypass key requires code'',
            bit_spec ''f6_code'' 2 1 ''F6 requires code'',
            bit_spec ''f5_code'' 3 1 ''F5 requires code'',
            bit_spec ''f4_code'' 4 1 ''F4 requires code'',
            bit_spec ''f3_code'' 5 1 ''F3 requires code'',
            bit_spec ''f2_code'' 6 1 ''F2 requires code'',
            bit_spec ''f1_code'' 7 1 ''F1 requires code'']\<rparr>,
         (field_spec ''KPFlags4'' F_U8 1 ''Backlight and tone'')\<lparr>fs_bits :=
           [bit_spec ''backlight'' 0 4 ''Backlight level'',
            bit_spec ''key_tone'' 4 4 ''Key tone'']\<rparr>,
         (field_spec ''KPFlags5'' F_U8 1 ''Silence options'')\<lparr>fs_bits :=
           [bit_spec ''silence_led'' 1 1 ''Silence LED'',
            bit_spec ''silence_chime'' 2 1 ''Silence chime'',
            bit_spec ''silence_exit'' 3 1 ''Silence exit beeps'',
            bit_spec ''silence_entry'' 4 1 ''Silence entry beeps'',
            bit_spec ''beep_volume'' 5 3 ''Beep volume'']\<rparr>,
         field_spec ''KeypadName'' F_TEXT 16 ''Name'',
         field_spec ''KeyLEDState'' F_U8 1 ''Function key LED defaults'',
         (field_spec ''KPFlags6'' F_U8 1 ''Function key light blink'')\<lparr>fs_bits :=
           [bit_spec ''f1_blink_light'' 0 1 ''F1 blink light'',
            bit_spec ''f2_blink_light'' 1 1 ''F2 blink light'',
            bit_spec ''f3_blink_light'' 2 1 ''F3 blink light'',
            bit_spec ''f4_blink_light'' 3 1 ''F4 blink light'',
            bit_spec ''f5_blink_light'' 4 1 ''F5 blink light'',
            bit_spec ''f6_blink_light'' 5 1 ''F6 blink light'']\<rparr>,
         (field_spec ''KPFlags7'' F_U8 1 ''Single key press'')\<lparr>fs_bits :=
           [bit_spec ''f1_single_press'' 0 1 ''F1 single press'',
            bit_spec ''f2_single_press'' 1 1 ''F2 single press'',
            bit_spec ''f3_single_press'' 2 1 ''F3 single press'',
            bit_spec ''f4_single_press'' 3 1 ''F4 single press'',
            bit_spec ''f5_single_press'' 4 1 ''F5 single press'',
            bit_spec ''f6_single_press'' 5 1 ''F6 single press'']\<rparr>,
         (field_spec ''NotUsed'' F_BYTES 3 '''')\<lparr>fs_columns := [''NotUsed1'', ''NotUsed2'', ''NotUsed3''], fs_hidden := True\<rparr>],
      rs_extra =
        [(field_spec ''KeyF1Def'' F_U16 1 ''F1 task'')\<lparr>fs_columns := [''KeyF1DefH'', ''KeyF1DefL'']\<rparr>,
         (field_spec ''KeyF2Def'' F_U16 1 ''F2 task'')\<lparr>fs_columns := [''KeyF2DefH'', ''KeyF2DefL'']\<rparr>,
         (field_spec ''KeyF3Def'' F_U16 1 ''F3 task'')\<lparr>fs_columns := [''KeyF3DefH'', ''KeyF3DefL'']\<rparr>,
         (field_spec ''KeyF4Def'' F_U16 1 ''F4 task'')\<lparr>fs_columns := [''KeyF4DefH'', ''KeyF4DefL'']\<rparr>,
         (field_spec ''KeyF5Def'' F_U16 1 ''F5 task'')\<lparr>fs_columns := [''KeyF5DefH'', ''KeyF5DefL'']\<rparr>,
         (field_spec ''KeyF6Def'' F_U16 1 ''F6 task'')\<lparr>fs_columns := [''KeyF6DefH'', ''KeyF6DefL'']\<rparr>,
         (field_spec ''KeyF1LiteDef'' F_U16 1 ''F1 light event'')\<lparr>fs_columns := [''KeyF1LiteDefH'', ''KeyF1LiteDefL'']\<rparr>,
         (field_spec ''KeyF2LiteDef'' F_U16 1 ''F2 light event'')\<lparr>fs_columns := [''KeyF2LiteDefH'', ''KeyF2LiteDefL'']\<rparr>,
         (field_spec ''KeyF3LiteDef'' F_U16 1 ''F3 light event'')\<lparr>fs_columns := [''KeyF3LiteDefH'', ''KeyF3LiteDefL'']\<rparr>,
         (field_spec ''KeyF4LiteDef'' F_U16 1 ''F4 light event'')\<lparr>fs_columns := [''KeyF4LiteDefH'', ''KeyF4LiteDefL'']\<rparr>,
         (field_spec ''KeyF5LiteDef'' F_U16 1 ''F5 light event'')\<lparr>fs_columns := [''KeyF5LiteDefH'', ''KeyF5LiteDefL'']\<rparr>,
         (field_spec ''KeyF6LiteDef'' F_U16 1 ''F6 light event'')\<lparr>fs_columns := [''KeyF6LiteDefH'', ''KeyF6LiteDefL'']\<rparr>,
         field_spec ''KPVerHW'' F_U8 1 ''Keypad hardware version'']\<rparr>"

definition user_spec :: record_spec where
  "user_spec =
     \<lparr>rs_name = ''user'', rs_label = ''User codes'', rs_table = ''UserCodes'', rs_key = ''CodeNum'',
      rs_count = 199, rs_first = 1, rs_crc_columns = [''UDCRC'', ''ModCRC''],
      rs_fields =
        [field_spec ''UCode'' F_CODE 6 ''Code'',
         (field_spec ''UCFlags1'' F_U8 1 ''Authorities'')\<lparr>fs_bits :=
           [bit_spec ''automation'' 1 1 ''Automation menu'',
            bit_spec ''master'' 2 1 ''Master'',
            bit_spec ''access'' 4 1 ''Access'',
            bit_spec ''bypass'' 5 1 ''Bypass'',
            bit_spec ''disarm'' 6 1 ''Disarm'',
            bit_spec ''arm'' 7 1 ''Arm'']\<rparr>,
         (field_spec ''UCFlags2'' F_U8 1 ''Duress'')\<lparr>fs_bits :=
           [bit_spec ''duress'' 0 1 ''Duress code'']\<rparr>,
         field_spec ''UCPartition'' F_U8 1 ''Areas (bitmask, bit 0 = Area 1)'',
         field_spec ''UCName'' F_TEXT 16 ''Name'',
         (field_spec ''UCFlags3'' F_U8 1 ''Temporary'')\<lparr>fs_bits :=
           [bit_spec ''temporary'' 7 1 ''Temporary code'']\<rparr>,
         (field_spec ''UCNotUsed'' F_BYTES 2 '''')\<lparr>fs_columns := [''UCNotUsed1'', ''UCNotUsed2''], fs_hidden := True\<rparr>],
      rs_extra =
        [field_spec ''RCClose'' F_U8 1 ''Report code: close'',
         field_spec ''RCOpen'' F_U8 1 ''Report code: open'']\<rparr>"

definition output_spec :: record_spec where
  "output_spec =
     \<lparr>rs_name = ''output'', rs_label = ''Outputs'', rs_table = ''POutputs'', rs_key = ''OutputNum'',
      rs_count = 208, rs_first = 1, rs_crc_columns = [''UDCRC'', ''ModCRC''],
      rs_fields =
        [field_spec ''OPName'' F_TEXT 16 ''Name'',
         field_spec ''OPVoice'' F_VOICE 6 ''Voice words''],
      rs_extra =
        []\<rparr>"

definition task_spec :: record_spec where
  "task_spec =
     \<lparr>rs_name = ''task'', rs_label = ''Tasks'', rs_table = ''Tasks'', rs_key = ''TaskNum'',
      rs_count = 32, rs_first = 1, rs_crc_columns = [''UDCRC'', ''ModCRC''],
      rs_fields =
        [field_spec ''TaskName'' F_TEXT 16 ''Name'',
         field_spec ''Voice'' F_VOICE 6 ''Voice words''],
      rs_extra =
        []\<rparr>"

definition telephone_spec :: record_spec where
  "telephone_spec =
     \<lparr>rs_name = ''telephone'', rs_label = ''Telephone numbers'', rs_table = ''TelephoneNumbers'', rs_key = ''TeleNumID'',
      rs_count = 8, rs_first = 1, rs_crc_columns = [''UDCRC'', ''ModCRC''],
      rs_fields =
        [field_spec ''TeleNumber'' F_DIGITS 20 ''Number'',
         (field_spec ''TeleFlag1'' F_U8 1 ''Reports'')\<lparr>fs_bits :=
           [bit_spec ''global_system_events'' 3 1 ''Global system events'',
            bit_spec ''open_close'' 4 1 ''Open and close'',
            bit_spec ''zone_troubles'' 5 1 ''Zone troubles and restores'',
            bit_spec ''bypass'' 6 1 ''Bypass and restores'',
            bit_spec ''alarms'' 7 1 ''Alarms and restores'']\<rparr>,
         (field_spec ''TeleFlag2'' F_U8 1 ''Type and format'')\<lparr>fs_bits :=
           [bit_spec ''backup_of_previous'' 3 1 ''Backup of previous number'',
            bit_spec ''format'' 4 4 ''Reporting format'']\<rparr>,
         field_spec ''TeleAttempts'' F_U8 1 ''Dial attempts'',
         field_spec ''TeleAr1Acct'' F_DIGITS 6 ''Area 1 account'',
         field_spec ''TeleAr2Acct'' F_DIGITS 6 ''Area 2 account'',
         field_spec ''TeleAr3Acct'' F_DIGITS 6 ''Area 3 account'',
         field_spec ''TeleAr4Acct'' F_DIGITS 6 ''Area 4 account'',
         field_spec ''TeleAr5Acct'' F_DIGITS 6 ''Area 5 account'',
         field_spec ''TeleAr6Acct'' F_DIGITS 6 ''Area 6 account'',
         field_spec ''TeleAr7Acct'' F_DIGITS 6 ''Area 7 account'',
         field_spec ''TeleAr8Acct'' F_DIGITS 6 ''Area 8 account'',
         field_spec ''TeleName'' F_TEXT 16 ''Name'',
         (field_spec ''TeleNotUsed1'' F_U8 1 '''')\<lparr>fs_hidden := True\<rparr>],
      rs_extra =
        []\<rparr>"

definition global_spec :: record_spec where
  "global_spec =
     \<lparr>rs_name = ''global'', rs_label = ''Global system definitions'', rs_table = ''Globals'', rs_key = '''',
      rs_count = 1, rs_first = 1, rs_crc_columns = [''UDCRC'', ''ModCRC''],
      rs_fields =
        [(field_spec ''Global1Flags1'' F_U8 1 ''System options'')\<lparr>fs_bits :=
           [bit_spec ''cross_zone_self_verify'' 0 1 ''Cross zone self verify'',
            bit_spec ''six_digit_codes'' 2 1 ''Six digit user codes'',
            bit_spec ''audible_trouble'' 3 1 ''Audible trouble'',
            bit_spec ''daylight_savings'' 4 1 ''Daylight savings'',
            bit_spec ''temp_celsius'' 5 1 ''Temperature in Celsius'',
            bit_spec ''date_mode'' 6 1 ''Date format DD/MM'',
            bit_spec ''clock_24h'' 7 1 ''24 hour clock'']\<rparr>,
         field_spec ''CrossZnVerifyTime'' F_U8 1 ''Cross zone verify time'',
         field_spec ''FastLoopResponse'' F_U8 1 ''Fast loop response'',
         field_spec ''SlowLoopResponse'' F_U8 1 ''Slow loop response'',
         (field_spec ''Global1Nib1'' F_U8 1 ''Telephone'')\<lparr>fs_bits :=
           [bit_spec ''two_way_talk_volume'' 0 3 ''Two way talk volume'',
            bit_spec ''rings_until_answer'' 4 4 ''Rings until answer'']\<rparr>,
         field_spec ''CommonArea'' F_U8 1 ''Common area'',
         (field_spec ''Global1Flags2'' F_U8 1 ''Siren'')\<lparr>fs_bits :=
           [bit_spec ''out1_siren_volume'' 0 3 ''Output 1 siren volume'',
            bit_spec ''out1_volume_step'' 3 3 ''Output 1 volume step'',
            bit_spec ''temporal'' 6 1 ''Temporal fire pattern'']\<rparr>,
         (field_spec ''Global1Flags3'' F_U8 1 ''Voice volume'')\<lparr>fs_bits :=
           [bit_spec ''out2_burglary_lockout'' 1 1 ''Output 2 burglary lockout'',
            bit_spec ''out1_message_volume'' 2 3 ''Output 1 message volume'',
            bit_spec ''out1_alarm_message_volume'' 5 3 ''Output 1 alarm message volume'']\<rparr>,
         field_spec ''Out2CutOnTim'' F_U8 1 ''Output 2 cut on time'',
         (field_spec ''Global1Flags4'' F_U8 1 ''Voice announcements'')\<lparr>fs_bits :=
           [bit_spec ''say_chime'' 0 1 ''Say chime'',
            bit_spec ''say_zone_trouble'' 1 1 ''Say zone trouble'',
            bit_spec ''say_system_trouble'' 2 1 ''Say system trouble'',
            bit_spec ''say_zone_status'' 3 1 ''Say zone status'',
            bit_spec ''say_alarms'' 4 1 ''Say alarms'',
            bit_spec ''say_system_messages'' 5 1 ''Say system messages'',
            bit_spec ''suppress_all_voice'' 6 1 ''Suppress all voice'',
            bit_spec ''out2_voltage'' 7 1 ''Output 2 voltage'']\<rparr>,
         field_spec ''TWVCallbackTime'' F_U8 1 ''Two way voice callback time'',
         (field_spec ''Reserved'' F_BYTES 4 '''')\<lparr>fs_columns := [''Reserved1'', ''Reserved2'', ''Reserved3'', ''Reserved4''], fs_hidden := True\<rparr>,
         field_spec ''CSVerifyTime'' F_U8 1 ''Central station verify time'',
         field_spec ''CodeLockOut'' F_U8 1 ''Code lockout'',
         field_spec ''SysProgramCode'' F_CODE 6 ''Installer program code'',
         (field_spec ''Reserved5'' F_BYTES 6 '''')\<lparr>fs_columns := [''Reserved5'', ''Reserved6'', ''Reserved7'', ''Reserved8'', ''Reserved9'', ''Reserved10''], fs_hidden := True\<rparr>,
         (field_spec ''Global1Flags5'' F_U8 1 ''Telephone line'')\<lparr>fs_bits :=
           [bit_spec ''line_fault_timer'' 0 5 ''Telephone line fault timer'',
            bit_spec ''ring_hang_ring'' 5 1 ''Ring, hang, ring'',
            bit_spec ''remote_control_level'' 6 2 ''Remote control level'']\<rparr>,
         (field_spec ''SendString'' F_U8 1 ''Serial port transmit (Xmit) options'')\<lparr>fs_bits :=
           [bit_spec ''xmit_log'' 0 1 ''Transmit event log'',
            bit_spec ''xmit_zone_change'' 1 1 ''Transmit zone changes'',
            bit_spec ''xmit_output_change'' 2 1 ''Transmit output changes'',
            bit_spec ''xmit_task_change'' 3 1 ''Transmit task changes'',
            bit_spec ''xmit_plc_change'' 4 1 ''Transmit lighting changes'',
            bit_spec ''code_required'' 7 1 ''Serial commands require code'']\<rparr>,
         field_spec ''StartDaylightSavings1'' F_U8 1 ''DST start (day of week, month)'',
         field_spec ''StartDaylightSavings2'' F_U8 1 ''DST start (day of month)'',
         field_spec ''StopDaylightSavings1'' F_U8 1 ''DST stop (day of week, month)'',
         field_spec ''StopDaylightSavings2'' F_U8 1 ''DST stop (day of month)'',
         (field_spec ''Global1Flags6'' F_U8 1 ''Serial port'')\<lparr>fs_bits :=
           [(bit_spec ''baud'' 0 4 ''Serial port 0 baud (G34)'')\<lparr>bs_choices := serial_baud_codes\<rparr>,
            bit_spec ''two_way_listen_in'' 4 1 ''Two way listen in'',
            bit_spec ''keypad_keys_ascii'' 5 1 ''Transmit keypad keys'']\<rparr>,
         field_spec ''S16'' F_U8 1 ''Location 16 (meaning not yet traced)'',
         field_spec ''S17'' F_U8 1 ''Location 17 (meaning not yet traced)'',
         field_spec ''S18'' F_U8 1 ''Location 18 (meaning not yet traced)'',
         field_spec ''S19'' F_U8 1 ''Location 19 (meaning not yet traced)'',
         field_spec ''S1A'' F_U8 1 ''Location 1A (meaning not yet traced)'',
         field_spec ''S1B'' F_U8 1 ''Location 1B (meaning not yet traced)'',
         field_spec ''S62'' F_U8 1 ''Location 62 (meaning not yet traced)'',
         field_spec ''SF5'' F_U8 1 ''Location F5 (meaning not yet traced)'',
         field_spec ''SF6'' F_U8 1 ''Location F6 (meaning not yet traced)'',
         field_spec ''SF7'' F_U8 1 ''Location F7 (meaning not yet traced)'',
         field_spec ''SDF'' F_U8 1 ''Location DF (meaning not yet traced)'',
         field_spec ''Country'' F_U8 1 ''Country''],
      rs_extra =
        [field_spec ''AntiTakeover'' F_U8 1 ''Anti-takeover (set by ElkRP; cannot be cleared)'']\<rparr>"

definition x10_spec :: record_spec where
  "x10_spec =
     \<lparr>rs_name = ''lighting'', rs_label = ''Lighting'', rs_table = ''X10Outputs'', rs_key = ''X10OutputNum'',
      rs_count = 256, rs_first = 1, rs_crc_columns = [''UDCRC'', ''ModCRC''],
      rs_fields =
        [(field_spec ''X10Flags1'' F_U8 1 ''Options'')\<lparr>fs_bits :=
           [bit_spec ''two_way'' 1 1 ''Two way'',
            bit_spec ''type'' 2 3 ''Type'',
            bit_spec ''format'' 5 3 ''Format'']\<rparr>,
         field_spec ''Description'' F_TEXT 15 ''Name'',
         field_spec ''X10Voice'' F_VOICE 6 ''Voice words''],
      rs_extra =
        []\<rparr>"

definition voice_message_spec :: record_spec where
  "voice_message_spec =
     \<lparr>rs_name = ''voice_message'', rs_label = ''Voice messages'', rs_table = ''VoiceMessages'', rs_key = ''MsgNum'',
      rs_count = 999, rs_first = 1, rs_crc_columns = [''UDCRC'', ''ModCRC''],
      rs_fields =
        [field_spec ''P'' F_VOICE 6 ''Words''],
      rs_extra =
        []\<rparr>"

definition all_specs :: "record_spec list" where
  "all_specs = [area_spec, zone_spec, keypad_spec, user_spec, output_spec, task_spec, telephone_spec, global_spec, x10_spec, voice_message_spec]"

definition spec_by_name :: "string \<Rightarrow> record_spec option" where
  "spec_by_name name = map_of (map (\<lambda>s. (rs_name s, s)) all_specs) name"

named_theorems spec_defs \<open>the tables of the record types\<close>

lemmas [spec_defs] = zone_spec_def area_spec_def keypad_spec_def user_spec_def output_spec_def task_spec_def telephone_spec_def global_spec_def x10_spec_def voice_message_spec_def
  bit_spec_def field_spec_def fs_size_def rs_size_def

end
