(* ===== verification/Rp_Records.thy ===== *)
theory Rp_Records
  imports Rp_Specs
begin

text \<open>
  \<open>elk_programmer/model/records.py\<close>: the codec between the bytes of a record and the decoded
  record, a dictionary from field names to values. Text is one-byte characters; a value of another
  type than its field's kind is converted as \<open>int\<close>, \<open>str\<close> and \<open>bytes\<close> convert it.
\<close>

section \<open>Values\<close>

datatype rval = R_int int | R_str string | R_words "int list" | R_bytes "byte list" | R_bool bool

type_synonym rec_dict = "(string \<times> rval) list"

definition char_of_byte :: "byte \<Rightarrow> char" where
  "char_of_byte b = char_of (unat b)"

definition byte_of_char :: "char \<Rightarrow> byte" where
  "byte_of_char c = word_of_nat (pyord c)"

text \<open>Two bytes, high byte first, as a number, and the bytes of a number.\<close>

definition word_of_bytes :: "byte \<Rightarrow> byte \<Rightarrow> int" where
  "word_of_bytes h l = push_bit 8 (uint h) OR uint l"

definition bytes_of_word :: "int \<Rightarrow> byte list" where
  "bytes_of_word v = [word_of_int (drop_bit 8 v), word_of_int v]"

section \<open>Fields\<close>

text \<open>\<open>_bytes_to_text\<close>: strips blanks and NUL characters at the end.\<close>

definition bytes_to_text :: "byte list \<Rightarrow> string" where
  "bytes_to_text raw =
     rstrip_by (\<lambda>c. c = CHR '' '' \<or> c = CHR 0x00) (map (\<lambda>b. char_of_byte (b AND 0x7F)) raw)"

text \<open>\<open>_text_to_bytes\<close>: a character that is not ASCII becomes a question mark.\<close>

definition text_to_bytes :: "string \<Rightarrow> nat \<Rightarrow> byte list" where
  "text_to_bytes text len =
     (let data = take len (map (\<lambda>c. if pyord c < 128 then byte_of_char c else byte_of_char (CHR ''?'')) text)
      in data @ replicate (len - length data) (byte_of_char (CHR '' '')))"

definition byte_digit :: "byte \<Rightarrow> char" where
  "byte_digit b = digit_char (unat b mod 10)"

text \<open>
  \<open>[int(c) for c in s if c.isdigit()]\<close>: the superscripts two, three and one are digits for
  \<open>isdigit\<close> that \<open>int\<close> refuses.
\<close>

definition superscript :: "char \<Rightarrow> bool" where
  "superscript c = (pyord c = 178 \<or> pyord c = 179 \<or> pyord c = 185)"

definition str_digits :: "string \<Rightarrow> byte list result" where
  "str_digits s =
     (if list_ex superscript s then Inl ValueError
      else Inr (map (\<lambda>c. word_of_nat (pyord c - 48)) (filter (\<lambda>c. 48 \<le> pyord c \<and> pyord c \<le> 57) s)))"

text \<open>\<open>int(value)\<close>; for bytes only ASCII blanks may surround the digits.\<close>

definition value_int :: "rval \<Rightarrow> int result" where
  "value_int v =
     (case v of
        R_int i \<Rightarrow> Inr i
      | R_bool b \<Rightarrow> Inr (of_bool b)
      | R_str s \<Rightarrow> py_int 10 s
      | R_bytes bs \<Rightarrow>
          (if list_ex (\<lambda>b. 128 \<le> b) bs then Inl ValueError
           else py_int 10 (map char_of_byte bs))
      | R_words ws \<Rightarrow> Inl TypeError)"

text \<open>\<open>str(value)\<close>: the decimal number, the list display, the bytes literal.\<close>

definition int_text :: "int \<Rightarrow> string" where
  "int_text i = (if i < 0 then CHR ''-'' # to_digits 10 (nat (- i)) else to_digits 10 (nat i))"

fun commas :: "string list \<Rightarrow> string" where
  "commas [] = []"
| "commas [s] = s"
| "commas (s # ss) = s @ '', '' @ commas ss"

definition hex_char :: "nat \<Rightarrow> char" where
  "hex_char n = (if n < 10 then char_of (48 + n) else char_of (87 + n))"

definition byte_literal :: "char \<Rightarrow> byte \<Rightarrow> string" where
  "byte_literal quote b =
     (if b = 9 then [CHR 0x5C, CHR ''t''] else if b = 10 then [CHR 0x5C, CHR ''n'']
      else if b = 13 then [CHR 0x5C, CHR ''r'']
      else if b = 0x5C \<or> char_of_byte b = quote then [CHR 0x5C, char_of_byte b]
      else if 0x20 \<le> b \<and> b < 0x7F then [char_of_byte b]
      else [CHR 0x5C, CHR ''x'', hex_char (unat b div 16), hex_char (unat b mod 16)])"

definition bytes_text :: "byte list \<Rightarrow> string" where
  "bytes_text bs =
     (let quote = (if list_ex (\<lambda>b. b = 0x27) bs \<and> \<not> list_ex (\<lambda>b. b = 0x22) bs then CHR 0x22 else CHR 0x27)
      in CHR ''b'' # quote # concat (map (byte_literal quote) bs) @ [quote])"

definition value_str :: "rval \<Rightarrow> string" where
  "value_str v =
     (case v of
        R_str s \<Rightarrow> s
      | R_int i \<Rightarrow> int_text i
      | R_bool b \<Rightarrow> (if b then ''True'' else ''False'')
      | R_words ws \<Rightarrow> CHR ''['' # commas (map int_text ws) @ '']''
      | R_bytes bs \<Rightarrow> bytes_text bs)"

text \<open>\<open>[int(w) for w in value]\<close> and \<open>bytes(value)\<close>.\<close>

definition value_ints :: "rval \<Rightarrow> int list result" where
  "value_ints v =
     (case v of
        R_words ws \<Rightarrow> Inr ws
      | R_bytes bs \<Rightarrow> Inr (map uint bs)
      | R_str s \<Rightarrow> mapr (\<lambda>c. py_int 10 [c]) s
      | R_int i \<Rightarrow> Inl TypeError
      | R_bool b \<Rightarrow> Inl TypeError)"

definition value_bytes :: "rval \<Rightarrow> byte list result" where
  "value_bytes v =
     (case v of
        R_bytes bs \<Rightarrow> Inr bs
      | R_words ws \<Rightarrow> (if list_all (\<lambda>w. 0 \<le> w \<and> w < 256) ws then Inr (map word_of_int ws) else Inl ValueError)
      | R_int i \<Rightarrow> (if i < 0 then Inl ValueError else Inr (replicate (nat i) 0))
      | R_bool b \<Rightarrow> Inr (replicate (of_bool b) 0)
      | R_str s \<Rightarrow> Inl TypeError)"

fun word_pairs :: "byte list \<Rightarrow> int list result" where
  "word_pairs [] = Inr []"
| "word_pairs [h] = Inl IndexError"
| "word_pairs (h # l # bs) = bindr (word_pairs bs) (\<lambda>ws. Inr (word_of_bytes h l # ws))"

definition decode_field :: "field_spec \<Rightarrow> byte list \<Rightarrow> rval result" where
  "decode_field f raw =
     (case fs_kind f of
        F_U8 \<Rightarrow> bindr (item raw 0) (\<lambda>b. Inr (R_int (uint b)))
      | F_U16 \<Rightarrow> bindr (item raw 0) (\<lambda>h. bindr (item raw 1) (\<lambda>l. Inr (R_int (word_of_bytes h l))))
      | F_TEXT \<Rightarrow> Inr (R_str (bytes_to_text raw))
      | F_CODE \<Rightarrow> Inr (R_str (map byte_digit (rev raw)))
      | F_DIGITS \<Rightarrow> Inr (R_str (map byte_digit raw))
      | F_VOICE \<Rightarrow> bindr (word_pairs raw) (\<lambda>ws. Inr (R_words ws))
      | F_BYTES \<Rightarrow> Inr (R_bytes raw))"

definition encode_field :: "field_spec \<Rightarrow> rval \<Rightarrow> byte list result" where
  "encode_field f v =
     (case fs_kind f of
        F_U8 \<Rightarrow> bindr (value_int v) (\<lambda>i. Inr [word_of_int i])
      | F_U16 \<Rightarrow> bindr (value_int v) (\<lambda>i. Inr (bytes_of_word i))
      | F_TEXT \<Rightarrow> Inr (text_to_bytes (value_str v) (fs_length f))
      | F_CODE \<Rightarrow> bindr (str_digits (value_str v)) (\<lambda>digits.
          let digits = take_end (fs_length f) digits;
              digits = replicate (fs_length f - length digits) 0 @ digits
          in Inr (rev digits))
      | F_DIGITS \<Rightarrow> bindr (str_digits (value_str v)) (\<lambda>digits.
          let digits = take (fs_length f) digits
          in Inr (digits @ replicate (fs_length f - length digits) 0))
      | F_VOICE \<Rightarrow> bindr (value_ints v) (\<lambda>words.
          let words = take (fs_length f) words;
              words = words @ replicate (fs_length f - length words) 0
          in Inr (concat (map bytes_of_word words)))
      | F_BYTES \<Rightarrow> bindr (value_bytes v) (\<lambda>bs.
          let raw = take (fs_length f) bs in Inr (raw @ replicate (fs_length f - length raw) 0)))"

section \<open>Records\<close>

definition show_key :: "string \<Rightarrow> string" where
  "show_key name = name @ ''Show''"

fun dict_put :: "string \<Rightarrow> rval \<Rightarrow> rec_dict \<Rightarrow> rec_dict" where
  "dict_put k v [] = [(k, v)]"
| "dict_put k v ((k', v') # kvs) = (if k' = k then (k, v) # kvs else (k', v') # dict_put k v kvs)"

text \<open>The loop of \<open>decode_record\<close>, from a position in the raw bytes.\<close>

fun decode_fields :: "field_spec list \<Rightarrow> byte list \<Rightarrow> rec_dict \<Rightarrow> rec_dict result" where
  "decode_fields [] raw out = Inr out"
| "decode_fields (f # fs) raw out =
     (let chunk = take (fs_size f) raw
      in bindr (decode_field f chunk) (\<lambda>v.
         let out = dict_put (fs_name f) v out
         in if fs_kind f = F_TEXT
            then bindr (item chunk 0) (\<lambda>b.
                 decode_fields fs (drop (fs_size f) raw)
                   (dict_put (show_key (fs_name f)) (R_bool (b AND 0x80 \<noteq> 0)) out))
            else decode_fields fs (drop (fs_size f) raw) out))"

definition decode_record :: "record_spec \<Rightarrow> byte list \<Rightarrow> rec_dict result" where
  "decode_record spec raw =
     (if length raw \<noteq> rs_size spec then Inl ValueError else decode_fields (rs_fields spec) raw [])"

definition default_value :: "field_spec \<Rightarrow> rval" where
  "default_value f =
     (case fs_kind f of
        F_U8 \<Rightarrow> R_int 0 | F_U16 \<Rightarrow> R_int 0
      | F_TEXT \<Rightarrow> R_str [] | F_DIGITS \<Rightarrow> R_str [] | F_CODE \<Rightarrow> R_str []
      | F_VOICE \<Rightarrow> R_words (replicate (fs_length f) 0)
      | F_BYTES \<Rightarrow> R_bytes (replicate (fs_length f) 0))"

text \<open>Python's truth value of \<open>record.get(key)\<close>.\<close>

definition truthy :: "rval option \<Rightarrow> bool" where
  "truthy v =
     (case v of None \<Rightarrow> False | Some (R_bool b) \<Rightarrow> b | Some (R_int i) \<Rightarrow> i \<noteq> 0 | Some (R_str s) \<Rightarrow> s \<noteq> []
      | Some (R_words ws) \<Rightarrow> ws \<noteq> [] | Some (R_bytes bs) \<Rightarrow> bs \<noteq> [])"

definition field_bytes :: "rec_dict \<Rightarrow> field_spec \<Rightarrow> byte list result" where
  "field_bytes rec_map f =
     bindr (encode_field f (case map_of rec_map (fs_name f) of None \<Rightarrow> default_value f | Some v \<Rightarrow> v)) (\<lambda>raw.
     if fs_kind f = F_TEXT \<and> truthy (map_of rec_map (show_key (fs_name f)))
     then bindr (item raw 0) (\<lambda>b. Inr ((b OR 0x80) # drop 1 raw))
     else Inr raw)"

definition encode_record :: "record_spec \<Rightarrow> rec_dict \<Rightarrow> byte list result" where
  "encode_record spec rec_map =
     bindr (mapr (field_bytes rec_map) (rs_fields spec)) (\<lambda>parts. Inr (concat parts))"

definition blank_record :: "record_spec \<Rightarrow> rec_dict" where
  "blank_record spec =
     foldl (\<lambda>d f. dict_put (fs_name f) (default_value f) d) [] (rs_fields spec @ rs_extra spec)"

text \<open>A database row: a missing or null column counts as 0.\<close>

definition record_from_columns :: "record_spec \<Rightarrow> (string \<times> int) list \<Rightarrow> rec_dict result" where
  "record_from_columns spec row =
     (let step = (\<lambda>out f.
        bindr out (\<lambda>out.
        let raw = map (\<lambda>c. word_of_int (case map_of row c of None \<Rightarrow> 0 | Some v \<Rightarrow> v)) (column_names f)
        in bindr (decode_field f raw) (\<lambda>v.
           let out = dict_put (fs_name f) v out
           in if fs_kind f = F_TEXT
              then bindr (item raw 0) (\<lambda>b. Inr (dict_put (show_key (fs_name f)) (R_bool (b AND 0x80 \<noteq> 0)) out))
              else Inr out)))
      in foldl step (Inr []) (rs_fields spec @ rs_extra spec))"

text \<open>\<open>zip(..., strict=True)\<close> raises when the lengths differ.\<close>

definition record_to_columns :: "record_spec \<Rightarrow> rec_dict \<Rightarrow> (string \<times> byte) list result" where
  "record_to_columns spec rec_map =
     bindr (mapr (\<lambda>f. bindr (field_bytes rec_map f) (\<lambda>raw.
         if length (column_names f) = length raw then Inr (zip (column_names f) raw) else Inl ValueError))
       (rs_fields spec @ rs_extra spec)) (\<lambda>parts. Inr (concat parts))"

section \<open>Flag bits\<close>

definition get_bit :: "int \<Rightarrow> bit_group \<Rightarrow> int" where
  "get_bit v g = drop_bit (bs_lsb g) v AND mask (bs_width g)"

definition set_bit_group :: "int \<Rightarrow> bit_group \<Rightarrow> int \<Rightarrow> int result" where
  "set_bit_group v g new =
     (if 0 \<le> new \<and> new \<le> mask (bs_width g)
      then let cleared = v AND NOT (push_bit (bs_lsb g) (mask (bs_width g))) AND 255
           in Inr (cleared OR push_bit (bs_lsb g) (new AND mask (bs_width g)))
      else Inl ValueError)"

definition explain_flags :: "field_spec \<Rightarrow> int \<Rightarrow> (string \<times> int) list" where
  "explain_flags f v = map (\<lambda>g. (bs_name g, get_bit v g)) (fs_bits f)"

section \<open>Sizes\<close>

lemma length_text_to_bytes [simp]: "length (text_to_bytes s n) = n"
  by (simp add: text_to_bytes_def Let_def)

lemma length_bytes_of_word [simp]: "length (bytes_of_word v) = 2"
  by (simp add: bytes_of_word_def)

lemma length_concat_replicate [simp]: "length (concat (replicate n (bytes_of_word v))) = 2 * n"
  by (induction n) auto

lemma length_concat_words: "length (concat (map bytes_of_word ws)) = 2 * length ws"
  by (induction ws) auto

text \<open>A field whose kind fixes its length to one byte has that length in the tables.\<close>

definition field_wf :: "field_spec \<Rightarrow> bool" where
  "field_wf f = ((fs_kind f = F_U8 \<longrightarrow> fs_length f = 1) \<and> (fs_kind f = F_TEXT \<longrightarrow> 0 < fs_length f))"

lemma encode_field_length:
  assumes "field_wf f" and "encode_field f v = Inr raw"
  shows "length raw = fs_size f"
  using assms
  by (cases "fs_kind f")
    (auto simp: encode_field_def fs_size_def field_wf_def Let_def length_concat_words bindr_eq_Inr)

lemma field_bytes_length:
  assumes "field_wf f" and "field_bytes d f = Inr raw"
  shows "length raw = fs_size f"
proof -
  obtain x where x: "encode_field f (case map_of d (fs_name f) of None \<Rightarrow> default_value f | Some v \<Rightarrow> v) = Inr x"
    using assms(2) by (auto simp: field_bytes_def bindr_eq_Inr)
  have "length x = fs_size f" by (rule encode_field_length [OF assms(1) x])
  moreover have "length raw = length x"
    using assms(2) x by (cases x) (auto simp: field_bytes_def split: if_splits)
  ultimately show ?thesis by simp
qed

lemma encode_fields_length:
  assumes "\<And>f. f \<in> set fs \<Longrightarrow> field_wf f" and "mapr (field_bytes d) fs = Inr parts"
  shows "length (concat parts) = sum_list (map fs_size fs)"
  using assms
proof (induction fs arbitrary: parts)
  case Nil
  then show ?case by simp
next
  case (Cons f fs)
  then obtain raw rest where "field_bytes d f = Inr raw" "mapr (field_bytes d) fs = Inr rest" "parts = raw # rest"
    by (auto simp: bindr_eq_Inr)
  with Cons show ?case by (simp add: field_bytes_length)
qed

section \<open>Field round trips\<close>

lemma low_seven: "n < 128 \<Longrightarrow> word_of_nat n AND (0x7F :: byte) = word_of_nat n"
proof -
  assume n: "n < 128"
  have "word_of_nat n AND mask 7 = (take_bit 7 (word_of_nat n) :: byte)" by (simp only: take_bit_eq_mask)
  also have "\<dots> = word_of_nat (take_bit 7 n)" by (simp add: take_bit_of_nat)
  also have "take_bit 7 n = n" using n by (simp add: take_bit_eq_mod)
  finally show ?thesis by (simp add: mask_eq_exp_minus_1)
qed

lemma char_byte_roundtrip: "pyord c < 128 \<Longrightarrow> char_of_byte (byte_of_char c AND 0x7F) = c"
  by (simp add: byte_of_char_def low_seven char_of_byte_def unat_of_nat) (simp add: pyord_def)

lemma high_bit_masked: "(b OR 0x80) AND 0x7F = b AND (0x7F :: byte)"
  by (simp add: bit.conj_disj_distrib2)

lemma high_bit_flag: "(b OR 0x80) AND 0x80 \<noteq> (0 :: byte)"
  by (simp add: bit.conj_disj_distrib2)

lemma ascii_no_flag: "n < 128 \<Longrightarrow> word_of_nat n AND 0x80 = (0 :: byte)"
proof -
  assume "n < 128"
  then have "word_of_nat n AND 0x80 = (word_of_nat n AND 0x7F) AND (0x80 :: byte)" by (simp add: low_seven)
  then show ?thesis by (simp add: and.assoc)
qed

text \<open>\<open>rstrip\<close> of a padded text.\<close>

abbreviation text_space :: "char \<Rightarrow> bool" where
  "text_space c \<equiv> c = CHR '' '' \<or> c = CHR 0x00"

definition text_ok :: "nat \<Rightarrow> string \<Rightarrow> bool" where
  "text_ok n s = (length s \<le> n \<and> (\<forall>c \<in> set s. pyord c < 128) \<and> rstrip_by text_space s = s)"

definition digits_ok :: "nat \<Rightarrow> string \<Rightarrow> bool" where
  "digits_ok n s = (length s = n \<and> (\<forall>c \<in> set s. 48 \<le> pyord c \<and> pyord c \<le> 57))"

text \<open>The values the bytes of a field can hold.\<close>

definition canonical :: "field_spec \<Rightarrow> rval \<Rightarrow> bool" where
  "canonical f v =
     (case (fs_kind f, v) of
        (F_U8, R_int i) \<Rightarrow> 0 \<le> i \<and> i < 256
      | (F_U16, R_int i) \<Rightarrow> 0 \<le> i \<and> i < 65536
      | (F_TEXT, R_str s) \<Rightarrow> text_ok (fs_length f) s
      | (F_CODE, R_str s) \<Rightarrow> digits_ok (fs_length f) s
      | (F_DIGITS, R_str s) \<Rightarrow> digits_ok (fs_length f) s
      | (F_VOICE, R_words ws) \<Rightarrow> length ws = fs_length f \<and> (\<forall>w \<in> set ws. 0 \<le> w \<and> w < 65536)
      | (F_BYTES, R_bytes bs) \<Rightarrow> length bs = fs_length f
      | _ \<Rightarrow> False)"

lemma text_bytes_ascii:
  assumes "text_ok n s"
  shows "text_to_bytes s n = map (\<lambda>c. byte_of_char c) (s @ replicate (n - length s) (CHR '' ''))"
proof -
  have "map (\<lambda>c. if pyord c < 128 then byte_of_char c else byte_of_char (CHR ''?'')) s = map byte_of_char s"
    using assms by (simp add: text_ok_def)
  then show ?thesis using assms by (simp add: text_to_bytes_def text_ok_def Let_def)
qed

lemma masked_text:
  "\<forall>c \<in> set s. pyord c < 128 \<Longrightarrow> map (\<lambda>c. char_of_byte (byte_of_char c AND 0x7F)) s = s"
  by (induction s) (auto simp: char_byte_roundtrip)

lemma text_roundtrip:
  assumes "text_ok n s"
  shows "bytes_to_text (text_to_bytes s n) = s"
proof -
  let ?p = "s @ replicate (n - length s) (CHR '' '')"
  have "\<forall>c \<in> set ?p. pyord c < 128" using assms by (auto simp: text_ok_def pyord_def)
  then have "bytes_to_text (text_to_bytes s n) = rstrip_by text_space ?p"
    unfolding text_bytes_ascii [OF assms] bytes_to_text_def map_map comp_def by (simp only: masked_text)
  then show ?thesis using assms by (simp add: rstrip_by_replicate text_ok_def)
qed

lemma digit_byte:
  assumes "48 \<le> pyord c" and "pyord c \<le> 57"
  shows "byte_digit (word_of_nat (pyord c - 48)) = c"
proof -
  let ?d = "pyord c - 48"
  have small: "unat (word_of_nat n :: byte) mod 10 = n" if "n < 10" for n
    using that by (simp add: unat_of_nat)
  have "unat (word_of_nat ?d :: byte) mod 10 = ?d" by (rule small) (use assms in simp)
  then have "byte_digit (word_of_nat ?d) = digit_char ?d" by (simp only: byte_digit_def)
  also have "pyord (digit_char ?d) = pyord c" using assms by (subst pyord_digit_char) auto
  then have "digit_char ?d = c" by (simp add: pyord_inj)
  finally show ?thesis .
qed

lemma digits_roundtrip:
  assumes "digits_ok n s"
  obtains bs where "str_digits s = Inr bs" "map byte_digit bs = s" "length bs = n"
proof -
  let ?bs = "map (\<lambda>c. word_of_nat (pyord c - 48)) s :: byte list"
  have f: "filter (\<lambda>c. 48 \<le> pyord c \<and> pyord c \<le> 57) s = s"
    using assms by (simp add: digits_ok_def filter_id_conv)
  have x: "\<not> list_ex superscript s" using assms by (fastforce simp: list_ex_iff digits_ok_def superscript_def)
  have "map byte_digit ?bs = s"
    unfolding map_map comp_def using assms by (intro map_idI digit_byte) (simp_all add: digits_ok_def)
  moreover have "length ?bs = n" using assms by (simp add: digits_ok_def)
  ultimately show ?thesis using that [of ?bs] x by (simp add: str_digits_def f)
qed

lemma word_roundtrip:
  assumes "0 \<le> v" and "v < 65536"
  shows "word_of_bytes (word_of_int (drop_bit 8 v)) (word_of_int v) = v"
proof -
  have "uint (word_of_int (drop_bit 8 v) :: byte) = v div 256"
    using assms by (simp add: unsigned_of_int drop_bit_eq_div take_bit_eq_mod)
  moreover have "uint (word_of_int v :: byte) = take_bit 8 v"
    by (simp add: unsigned_of_int)
  ultimately have "word_of_bytes (word_of_int (drop_bit 8 v)) (word_of_int v) =
      push_bit 8 (drop_bit 8 v) OR take_bit 8 v"
    by (simp add: word_of_bytes_def drop_bit_eq_div)
  also have "\<dots> = v" by (rule bit_eqI) (auto simp: bit_or_iff bit_push_bit_iff bit_drop_bit_eq bit_take_bit_iff)
  finally show ?thesis .
qed

lemma words_roundtrip:
  "\<forall>w \<in> set ws. 0 \<le> w \<and> w < 65536 \<Longrightarrow> word_pairs (concat (map bytes_of_word ws)) = Inr ws"
  by (induction ws) (auto simp: bytes_of_word_def word_roundtrip)

lemma uint_byte: "0 \<le> i \<Longrightarrow> i < 256 \<Longrightarrow> uint (word_of_int i :: byte) = i"
  by (simp add: unsigned_of_int take_bit_eq_mod)

lemmas field_codec = canonical_def encode_field_def decode_field_def value_int_def value_str_def
  value_ints_def value_bytes_def

lemma field_roundtrip:
  assumes "canonical f v" and "field_wf f"
  shows "\<exists>raw. encode_field f v = Inr raw \<and> decode_field f raw = Inr v"
proof (cases "fs_kind f")
  case F_U8
  then show ?thesis using assms by (cases v) (auto simp: field_codec uint_byte)
next
  case F_U16
  then show ?thesis using assms
    by (cases v) (auto simp: field_codec bytes_of_word_def word_roundtrip item_def)
next
  case F_TEXT
  then show ?thesis using assms by (cases v) (auto simp: field_codec text_roundtrip)
next
  case F_VOICE
  then show ?thesis using assms by (cases v) (auto simp: field_codec words_roundtrip)
next
  case F_DIGITS
  then obtain s where v: "v = R_str s" and s: "digits_ok (fs_length f) s"
    using assms(1) by (cases v) (auto simp: canonical_def)
  obtain bs where "str_digits s = Inr bs" "map byte_digit bs = s" "length bs = fs_length f"
    by (rule digits_roundtrip [OF s])
  then show ?thesis using F_DIGITS v by (simp add: field_codec)
next
  case F_CODE
  then obtain s where v: "v = R_str s" and s: "digits_ok (fs_length f) s"
    using assms(1) by (cases v) (auto simp: canonical_def)
  obtain bs where bs: "str_digits s = Inr bs" "map byte_digit bs = s" "length bs = fs_length f"
    by (rule digits_roundtrip [OF s])
  then have "take_end (fs_length f) bs = bs" by (simp add: take_end_def)
  then show ?thesis using F_CODE v bs by (simp add: field_codec)
next
  case F_BYTES
  then show ?thesis using assms by (cases v) (auto simp: field_codec)
qed

section \<open>Record round trips\<close>

text \<open>
  The dictionary \<open>decode_record\<close> builds for values in field order, with the show flag after each
  text field.
\<close>

definition field_entries :: "field_spec \<Rightarrow> rval \<Rightarrow> bool \<Rightarrow> rec_dict" where
  "field_entries f v shown =
     (fs_name f, v) # (if fs_kind f = F_TEXT then [(show_key (fs_name f), R_bool shown)] else [])"

fun entries :: "field_spec list \<Rightarrow> (rval \<times> bool) list \<Rightarrow> rec_dict" where
  "entries (f # fs) ((v, shown) # vs) = field_entries f v shown @ entries fs vs"
| "entries _ _ = []"

definition field_keys :: "field_spec \<Rightarrow> string list" where
  "field_keys f = fs_name f # (if fs_kind f = F_TEXT then [show_key (fs_name f)] else [])"

definition spec_keys :: "field_spec list \<Rightarrow> string list" where
  "spec_keys fs = concat (map field_keys fs)"

lemma field_entries_keys: "map fst (field_entries f v b) = field_keys f"
  by (simp add: field_entries_def field_keys_def)

lemma entries_keys: "length vs = length fs \<Longrightarrow> map fst (entries fs vs) = spec_keys fs"
  by (induction fs vs rule: entries.induct) (auto simp: spec_keys_def field_entries_keys)

lemma dict_put_fresh: "k \<notin> fst ` set d \<Longrightarrow> dict_put k v d = d @ [(k, v)]"
  by (induction k v d rule: dict_put.induct) auto

text \<open>One field with its flag, through the bytes.\<close>

lemma text_head:
  assumes "text_ok n s" and "0 < n"
  obtains b bs where "text_to_bytes s n = b # bs" and "b AND 0x80 = 0"
proof -
  let ?p = "s @ replicate (n - length s) (CHR '' '')"
  have "?p \<noteq> []" using assms by (auto simp: text_ok_def)
  then obtain c cs where p: "?p = c # cs" by (cases ?p) auto
  have "c \<in> set ?p" using p by simp
  then have "pyord c < 128" using assms(1) by (auto simp: text_ok_def pyord_def)
  then have "byte_of_char c AND 0x80 = 0" by (simp add: byte_of_char_def ascii_no_flag)
  then show thesis using that [of "byte_of_char c" "map byte_of_char cs"] text_bytes_ascii [OF assms(1)] p by simp
qed

lemma flag_keeps_text: "bytes_to_text ((b OR 0x80) # bs) = bytes_to_text (b # bs)"
  by (simp add: bytes_to_text_def high_bit_masked)

lemma field_bytes_roundtrip:
  assumes "canonical f v" and "field_wf f" and "map_of d (fs_name f) = Some v"
    and "fs_kind f = F_TEXT \<Longrightarrow> map_of d (show_key (fs_name f)) = Some (R_bool shown)"
  shows "\<exists>raw. field_bytes d f = Inr raw \<and> length raw = fs_size f \<and> decode_field f raw = Inr v \<and>
    (fs_kind f = F_TEXT \<longrightarrow> (\<exists>b. item raw 0 = Inr b \<and> (b AND 0x80 \<noteq> 0 \<longleftrightarrow> shown)))"
proof -
  obtain raw where raw: "encode_field f v = Inr raw" "decode_field f raw = Inr v"
    using field_roundtrip [OF assms(1,2)] by blast
  have len: "length raw = fs_size f" by (rule encode_field_length [OF assms(2) raw(1)])
  show ?thesis
  proof (cases "fs_kind f = F_TEXT")
    case False
    then have "field_bytes d f = Inr raw" using raw(1) assms(3) by (simp add: field_bytes_def)
    then show ?thesis using raw(2) len False by blast
  next
    case True
    then obtain s where s: "v = R_str s" "text_ok (fs_length f) s"
      using assms(1) by (cases v) (auto simp: canonical_def)
    have pos: "0 < fs_length f" using assms(2) True by (simp add: field_wf_def)
    obtain b bs where b: "text_to_bytes s (fs_length f) = b # bs" "b AND 0x80 = 0"
      by (rule text_head [OF s(2) pos])
    have raw_eq: "raw = b # bs" using raw(1) True s(1) b(1) by (simp add: encode_field_def value_str_def)
    let ?raw = "if shown then (b OR 0x80) # bs else raw"
    have fb: "field_bytes d f = Inr ?raw"
      using raw(1) assms(3) assms(4) [OF True] True raw_eq by (simp add: field_bytes_def truthy_def)
    moreover have "decode_field f ?raw = Inr v"
      using raw(2) True flag_keeps_text [of b bs] by (simp add: decode_field_def raw_eq)
    moreover have "length ?raw = fs_size f" using len raw_eq by simp
    moreover have "\<exists>c. item ?raw 0 = Inr c \<and> (c AND 0x80 \<noteq> 0 \<longleftrightarrow> shown)"
      using b(2) high_bit_flag [of b] raw_eq by (cases shown) simp_all
    ultimately show ?thesis by blast
  qed
qed

lemma decode_fields_roundtrip:
  assumes "length vs = length fs" and "\<And>f. f \<in> set fs \<Longrightarrow> field_wf f"
    and "list_all2 (\<lambda>f v. canonical f (fst v)) fs vs"
    and "distinct (map fst out @ spec_keys fs)"
    and "\<And>k v. (k, v) \<in> set (entries fs vs) \<Longrightarrow> map_of d k = Some v"
  shows "\<exists>parts. mapr (field_bytes d) fs = Inr parts \<and>
    decode_fields fs (concat parts) out = Inr (out @ entries fs vs)"
  using assms
proof (induction fs arbitrary: vs out)
  case Nil
  then show ?case by simp
next
  case (Cons f fs)
  obtain v shown vs' where vs: "vs = (v, shown) # vs'" using Cons.prems(1) by (cases vs) auto
  have "canonical f v" "field_wf f" using Cons.prems(2,3) vs by auto
  moreover have "map_of d (fs_name f) = Some v"
    using Cons.prems(5) [of "fs_name f" v] vs by (simp add: field_entries_def)
  moreover have "fs_kind f = F_TEXT \<Longrightarrow> map_of d (show_key (fs_name f)) = Some (R_bool shown)"
    using Cons.prems(5) [of "show_key (fs_name f)" "R_bool shown"] vs by (simp add: field_entries_def)
  ultimately obtain raw where raw: "field_bytes d f = Inr raw" "length raw = fs_size f" "decode_field f raw = Inr v"
    "fs_kind f = F_TEXT \<longrightarrow> (\<exists>b. item raw 0 = Inr b \<and> (b AND 0x80 \<noteq> 0 \<longleftrightarrow> shown))"
    using field_bytes_roundtrip [of f v d shown] by blast
  let ?out = "out @ field_entries f v shown"
  have dis: "distinct (map fst ?out @ spec_keys fs)"
    using Cons.prems(4) by (simp add: field_entries_keys spec_keys_def)
  have "\<exists>parts. mapr (field_bytes d) fs = Inr parts \<and>
      decode_fields fs (concat parts) ?out = Inr (?out @ entries fs vs')"
    using Cons.prems vs dis by (intro Cons.IH) auto
  then obtain parts where parts: "mapr (field_bytes d) fs = Inr parts"
    "decode_fields fs (concat parts) ?out = Inr (?out @ entries fs vs')" by blast
  have fresh: "fs_name f \<notin> fst ` set out"
    "fs_kind f = F_TEXT \<Longrightarrow> show_key (fs_name f) \<notin> fst ` set (out @ [(fs_name f, v)])"
    using Cons.prems(4) by (auto simp: spec_keys_def field_keys_def image_iff)
  have "decode_fields (f # fs) (concat (raw # parts)) out = decode_fields fs (concat parts) ?out"
    using raw fresh by (auto simp: Let_def field_entries_def dict_put_fresh)
  then show ?case using raw(1) parts vs by (intro exI [of _ "raw # parts"]) simp
qed

section \<open>The tables\<close>

text \<open>What the codec needs of a record type.\<close>

definition spec_wf :: "record_spec \<Rightarrow> bool" where
  "spec_wf spec = (list_all field_wf (rs_fields spec) \<and> distinct (spec_keys (rs_fields spec)))"

lemmas table_simps = spec_wf_def field_wf_def spec_keys_def field_keys_def show_key_def
  field_spec_def bit_spec_def

lemma tables_wf:
  "spec_wf zone_spec" "spec_wf area_spec" "spec_wf keypad_spec" "spec_wf user_spec" "spec_wf output_spec"
  "spec_wf task_spec" "spec_wf telephone_spec" "spec_wf global_spec" "spec_wf x10_spec"
  "spec_wf voice_message_spec"
  by (simp_all add: table_simps zone_spec_def area_spec_def keypad_spec_def user_spec_def output_spec_def
      task_spec_def telephone_spec_def global_spec_def x10_spec_def voice_message_spec_def)

lemma all_specs_wf: "spec \<in> set all_specs \<Longrightarrow> spec_wf spec"
  using tables_wf by (auto simp: all_specs_def)

lemma spec_wfD:
  assumes "spec_wf spec"
  shows "f \<in> set (rs_fields spec) \<Longrightarrow> field_wf f" and "distinct (spec_keys (rs_fields spec))"
  using assms by (auto simp: spec_wf_def list_all_iff)

section \<open>Bits\<close>

lemma bit_mask_shift: "bit (push_bit l (mask w) :: int) n \<longleftrightarrow> l \<le> n \<and> n < l + w"
  by (auto simp: bit_simps)

lemma mask_bound: "0 \<le> (new :: int) \<Longrightarrow> new \<le> mask w \<Longrightarrow> new AND mask w = new"
  using take_bit_eq_mask [of w new] take_bit_int_eq_self [of new w] by (simp add: mask_eq_exp_minus_1)

section \<open>Whole records\<close>

lemma record_codec:
  assumes "spec \<in> set all_specs" and "length vs = length (rs_fields spec)"
    and "list_all2 (\<lambda>f v. canonical f (fst v)) (rs_fields spec) vs"
  shows "\<exists>raw. encode_record spec (entries (rs_fields spec) vs) = Inr raw \<and>
    length raw = rs_size spec \<and> decode_record spec raw = Inr (entries (rs_fields spec) vs)"
proof -
  let ?fs = "rs_fields spec" and ?d = "entries (rs_fields spec) vs"
  have wf: "spec_wf spec" by (rule all_specs_wf [OF assms(1)])
  have fwf: "\<And>f. f \<in> set ?fs \<Longrightarrow> field_wf f" using spec_wfD [OF wf] by blast
  have dis: "distinct (map fst ?d)" using spec_wfD(2) [OF wf] by (simp add: entries_keys assms(2))
  have "\<And>k v. (k, v) \<in> set ?d \<Longrightarrow> map_of ?d k = Some v" using map_of_is_SomeI [OF dis] by blast
  then obtain parts where parts: "mapr (field_bytes ?d) ?fs = Inr parts"
    "decode_fields ?fs (concat parts) [] = Inr ([] @ ?d)"
    using decode_fields_roundtrip [of vs ?fs "[]" ?d] assms(2,3) fwf spec_wfD(2) [OF wf] by auto
  have "length (concat parts) = rs_size spec"
    unfolding rs_size_def by (rule encode_fields_length [OF fwf parts(1)])
  then show ?thesis using parts by (simp add: encode_record_def decode_record_def)
qed

section \<open>Properties\<close>

text \<open>C18. Record round trip: for every record type of the panel, a record whose fields hold values
  the wire can carry (with any show-on-keypad flags) encodes to exactly the bytes of the record's
  size, and decoding those bytes gives the record back, every field and every flag.\<close>

theorem record_roundtrip:
  assumes "spec \<in> set all_specs" and "length vs = length (rs_fields spec)"
    and "list_all2 (\<lambda>f v. canonical f (fst v)) (rs_fields spec) vs"
  shows "\<exists>raw. encode_record spec (entries (rs_fields spec) vs) = Inr raw \<and>
    length raw = rs_size spec \<and> decode_record spec raw = Inr (entries (rs_fields spec) vs)"
  by (rule record_codec [OF assms])

theorem record_roundtrip_witness:
  "\<exists>raw. encode_record output_spec (entries (rs_fields output_spec)
      [(R_str ''Siren'', True), (R_words [1, 2, 3, 4, 5, 65535], False)]) = Inr raw \<and> length raw = 28"
proof -
  let ?vs = "[(R_str ''Siren'', True), (R_words [1, 2, 3, 4, 5, 65535], False)]"
  have "output_spec \<in> set all_specs" by (simp add: all_specs_def)
  moreover have "length ?vs = length (rs_fields output_spec)" by (simp add: output_spec_def)
  moreover have "list_all2 (\<lambda>f v. canonical f (fst v)) (rs_fields output_spec) ?vs"
    by (simp add: output_spec_def field_spec_def canonical_def text_ok_def rstrip_by_def pyord_def)
  moreover have "rs_size output_spec = 28" by (simp add: rs_size_def output_spec_def field_spec_def fs_size_def)
  ultimately show ?thesis using record_roundtrip [of output_spec ?vs] by auto
qed

text \<open>What the encoder produces is always a whole record: for every record type, whatever
  dictionary it accepts (missing fields and out-of-range values included), the bytes have the
  record's size, so \<open>decode_record\<close> never rejects them for their length.\<close>

theorem encoded_size:
  assumes "spec \<in> set all_specs" and "encode_record spec d = Inr raw"
  shows "length raw = rs_size spec \<and> decode_record spec raw = decode_fields (rs_fields spec) raw []"
proof -
  obtain parts where "mapr (field_bytes d) (rs_fields spec) = Inr parts" "raw = concat parts"
    using assms(2) by (auto simp: encode_record_def bindr_eq_Inr)
  then have "length raw = rs_size spec"
    unfolding rs_size_def using encode_fields_length spec_wfD(1) [OF all_specs_wf [OF assms(1)]] by blast
  then show ?thesis by (simp add: decode_record_def)
qed

theorem encoded_size_witness:
  "\<exists>raw. encode_record task_spec [] = Inr raw \<and> length raw = 28"
proof -
  have s: "task_spec \<in> set all_specs" by (simp add: all_specs_def)
  obtain raw where raw: "encode_record task_spec [] = Inr raw"
    by (simp add: encode_record_def task_spec_def field_spec_def field_bytes_def encode_field_def default_value_def
        truthy_def value_str_def value_ints_def)
  have "rs_size task_spec = 28" by (simp add: rs_size_def task_spec_def field_spec_def fs_size_def)
  then show ?thesis using encoded_size [OF s raw] raw by auto
qed

text \<open>Flag bits: setting a bit group of a flag byte to a value that fits it gives a byte whose
  group reads back as that value and whose disjoint groups read as before; a value that does not fit
  is a \<open>ValueError\<close>.\<close>

theorem flag_bits:
  assumes "0 \<le> v" and "v < 256" and "bs_lsb g + bs_width g \<le> 8" and "bs_lsb h + bs_width h \<le> 8"
    and "bs_lsb g + bs_width g \<le> bs_lsb h \<or> bs_lsb h + bs_width h \<le> bs_lsb g"
  shows "(case set_bit_group v g new of
      Inr v' \<Rightarrow> 0 \<le> new \<and> new < 2 ^ bs_width g \<and> 0 \<le> v' \<and> v' < 256 \<and>
        get_bit v' g = new \<and> get_bit v' h = get_bit v h
    | Inl e \<Rightarrow> e = ValueError \<and> \<not> (0 \<le> new \<and> new < 2 ^ bs_width g))"
proof (cases "0 \<le> new \<and> new \<le> mask (bs_width g)")
  case False
  then show ?thesis by (auto simp: set_bit_group_def mask_eq_exp_minus_1)
next
  case True
  let ?l = "bs_lsb g" and ?w = "bs_width g"
  obtain V where V: "V = v AND NOT (push_bit ?l (mask ?w)) AND 255 OR push_bit ?l new" by blast
  have set: "set_bit_group v g new = Inr V" using True by (simp add: set_bit_group_def mask_bound V)
  have n: "bit new n \<Longrightarrow> n < ?w" for n
    using True mask_bound [of new ?w] by (metis bit_and_iff bit_mask_iff)
  have m: "bit (255 :: int) n \<longleftrightarrow> n < 8" for n
    using bit_mask_iff [where ?'a = int, of 8 n] by (simp add: mask_eq_exp_minus_1)
  have b: "bit V n \<longleftrightarrow> (bit v n \<and> \<not> (?l \<le> n \<and> n < ?l + ?w) \<and> n < 8) \<or> (?l \<le> n \<and> bit new (n - ?l))" for n
    unfolding V by (auto simp: bit_or_iff bit_and_iff bit_not_iff bit_push_bit_iff bit_mask_iff m)
  have "take_bit 8 V = V"
  proof (rule bit_eqI)
    fix k
    have "?l \<le> k \<Longrightarrow> bit new (k - ?l) \<Longrightarrow> k < 8" using n [of "k - ?l"] assms(3) by linarith
    then show "bit (take_bit 8 V) k = bit V k" by (auto simp: bit_take_bit_iff b)
  qed
  then have range: "0 \<le> V" "V < 256" using take_bit_nonnegative [of 8 V] take_bit_int_less_exp [of 8 V] by simp_all
  have g: "get_bit V g = new"
    unfolding get_bit_def using n assms(3) by (intro bit_eqI) (auto simp: bit_and_iff bit_drop_bit_eq bit_mask_iff b)
  have h: "get_bit V h = get_bit v h"
  proof (rule bit_eqI)
    fix k
    have "k < bs_width h \<Longrightarrow> ?l \<le> bs_lsb h + k \<Longrightarrow> \<not> bit new (bs_lsb h + k - ?l)"
      using n [of "bs_lsb h + k - ?l"] assms(5) by linarith
    then show "bit (get_bit V h) k = bit (get_bit v h) k"
      unfolding get_bit_def using assms(4,5) by (auto simp: bit_and_iff bit_drop_bit_eq bit_mask_iff b)
  qed
  show ?thesis using True range g h by (simp add: set mask_eq_exp_minus_1)
qed

theorem flag_bits_witness:
  "(case set_bit_group 0x81 (bit_spec ''area'' 4 3 ''Area'') 5 of
      Inr v' \<Rightarrow> get_bit v' (bit_spec ''area'' 4 3 ''Area'') = 5 | Inl e \<Rightarrow> False)"
  using flag_bits [of "0x81" "bit_spec ''area'' 4 3 ''Area''" "bit_spec ''hookup'' 0 3 ''Hookup''" 5]
  by (auto simp: bit_spec_def split: sum.splits)

end
