(* ===== verification/Rp_Messages.thy ===== *)
theory Rp_Messages
  imports Rp_Records
begin

text \<open>
  \<open>elk_programmer/protocol/messages.py\<close>: the bodies of the programming protocol. A request is
  \<open>opcode, sub, item-hi, item-lo\<close> and a payload, with the opcode of the reply it expects, the
  number of attempts and the time each of them waits (in milliseconds).
\<close>

section \<open>Opcodes\<close>

definition WRITE_BIT :: int where "WRITE_BIT = 0x80"
definition SYSTEM :: int where "SYSTEM = 0x7F"
definition GROUP_CRC :: int where "GROUP_CRC = 0x7E"
definition KEEPALIVE_SUB :: int where "KEEPALIVE_SUB = 0xA5"

text \<open>\<open>Record\<close>: the read opcodes of the record types.\<close>

datatype opcode =
    USER_CODE | DESCRIPTION | AREA | KEYPAD | ZONE | GLOBAL | TELEPHONE | REPORT_CODES_A
  | REPORT_CODES_B | REPORT_CODES_C | REPORT_CODES_D | VOICE_MESSAGE | X10 | WIRELESS | REPORT_CODES_E
  | RULES

fun opcode_value :: "opcode \<Rightarrow> int" where
  "opcode_value USER_CODE = 0x01"
| "opcode_value DESCRIPTION = 0x02"
| "opcode_value AREA = 0x03"
| "opcode_value KEYPAD = 0x04"
| "opcode_value ZONE = 0x05"
| "opcode_value GLOBAL = 0x07"
| "opcode_value TELEPHONE = 0x08"
| "opcode_value REPORT_CODES_A = 0x09"
| "opcode_value REPORT_CODES_B = 0x0A"
| "opcode_value REPORT_CODES_C = 0x0B"
| "opcode_value REPORT_CODES_D = 0x0C"
| "opcode_value VOICE_MESSAGE = 0x0D"
| "opcode_value X10 = 0x0E"
| "opcode_value WIRELESS = 0x0F"
| "opcode_value REPORT_CODES_E = 0x10"
| "opcode_value RULES = 0x79"

fun opcode_name :: "opcode \<Rightarrow> string" where
  "opcode_name USER_CODE = ''USER_CODE''"
| "opcode_name DESCRIPTION = ''DESCRIPTION''"
| "opcode_name AREA = ''AREA''"
| "opcode_name KEYPAD = ''KEYPAD''"
| "opcode_name ZONE = ''ZONE''"
| "opcode_name GLOBAL = ''GLOBAL''"
| "opcode_name TELEPHONE = ''TELEPHONE''"
| "opcode_name REPORT_CODES_A = ''REPORT_CODES_A''"
| "opcode_name REPORT_CODES_B = ''REPORT_CODES_B''"
| "opcode_name REPORT_CODES_C = ''REPORT_CODES_C''"
| "opcode_name REPORT_CODES_D = ''REPORT_CODES_D''"
| "opcode_name VOICE_MESSAGE = ''VOICE_MESSAGE''"
| "opcode_name X10 = ''X10''"
| "opcode_name WIRELESS = ''WIRELESS''"
| "opcode_name REPORT_CODES_E = ''REPORT_CODES_E''"
| "opcode_name RULES = ''RULES''"

definition REPLY_DATA_OFFSET :: nat where "REPLY_DATA_OFFSET = 4"
definition ACK_RESULT :: int where "ACK_RESULT = 4102"
definition NAK_RESULT :: int where "NAK_RESULT = 4117"

lemmas message_consts = WRITE_BIT_def SYSTEM_def GROUP_CRC_def KEEPALIVE_SUB_def
  REPLY_DATA_OFFSET_def ACK_RESULT_def NAK_RESULT_def

section \<open>Requests\<close>

record request =
  rq_body :: "byte list"
  rq_expect :: int
  rq_attempts :: nat
  rq_timeout_ms :: nat
  rq_description :: string

text \<open>\<open>Request\<close> with the defaults of the class.\<close>

definition request :: "byte list \<Rightarrow> int \<Rightarrow> string \<Rightarrow> request" where
  "request body expect description =
     \<lparr>rq_body = body, rq_expect = expect, rq_attempts = 4, rq_timeout_ms = 800,
      rq_description = description\<rparr>"

definition header :: "int \<Rightarrow> int \<Rightarrow> int \<Rightarrow> byte list result" where
  "header opcode sub number =
     (if \<not> (0 \<le> number \<and> number \<le> 0xFFFF) then Inl ValueError
      else Inr [word_of_int opcode, word_of_int sub, word_of_int (drop_bit 8 number), word_of_int number])"

definition read_record :: "opcode \<Rightarrow> int \<Rightarrow> int \<Rightarrow> request result" where
  "read_record opcode number sub =
     bindr (header (opcode_value opcode) sub number) (\<lambda>h.
       Inr (request h (opcode_value opcode) (''read '' @ opcode_name opcode @ '' '' @ int_text number)))"

definition write_record :: "opcode \<Rightarrow> int \<Rightarrow> byte list \<Rightarrow> int \<Rightarrow> request result" where
  "write_record opcode number payload sub =
     (let op = opcode_value opcode OR WRITE_BIT
      in bindr (header op sub number) (\<lambda>h.
         Inr (request (h @ payload) op (''write '' @ opcode_name opcode @ '' '' @ int_text number))))"

definition record_crc :: "opcode \<Rightarrow> int \<Rightarrow> request result" where
  "record_crc opcode number =
     bindr (header GROUP_CRC (opcode_value opcode) number) (\<lambda>h.
       Inr (request h GROUP_CRC (''crc '' @ opcode_name opcode @ '' '' @ int_text number)))"

definition group_crcs :: "request result" where
  "group_crcs =
     bindr (header GROUP_CRC 0x7F 0) (\<lambda>h.
       Inr ((request h GROUP_CRC ''group crcs'')\<lparr>rq_timeout_ms := 2500\<rparr>))"

definition login :: "string \<Rightarrow> request result" where
  "login rp_code =
     bindr (str_digits rp_code) (\<lambda>digits.
     if length digits > 6 then Inl ValueError
     else let digits = replicate (6 - length digits) 0 @ digits
          in bindr (header SYSTEM 0 1) (\<lambda>h.
             Inr ((request (h @ rev digits) SYSTEM ''login'')\<lparr>rq_timeout_ms := 1600\<rparr>)))"

definition keepalive :: "request result" where
  "keepalive =
     bindr (header SYSTEM 0 KEEPALIVE_SUB) (\<lambda>h.
       Inr ((request h SYSTEM ''keepalive'')\<lparr>rq_attempts := 2, rq_timeout_ms := 5000\<rparr>))"

definition disconnect :: request where
  "disconnect =
     (request [0x7F, 0x01, 0x00, 0xA5] SYSTEM ''disconnect'')\<lparr>rq_attempts := 2, rq_timeout_ms := 500\<rparr>"

definition read_time :: "request result" where
  "read_time = bindr (header SYSTEM 0 3) (\<lambda>h. Inr (request h SYSTEM ''read clock''))"

definition read_anti_takeover :: "request result" where
  "read_anti_takeover =
     bindr (header SYSTEM 0 0x0C) (\<lambda>h. Inr ((request h SYSTEM [])\<lparr>rq_attempts := 3, rq_timeout_ms := 1500\<rparr>))"

definition version_query :: "request result" where
  "version_query = bindr (header SYSTEM 0 0x11) (\<lambda>h. Inr (request h SYSTEM ''version''))"

section \<open>Replies\<close>

record login_reply =
  lr_status :: int
  lr_firmware :: string
  lr_serial_number :: string
  lr_hardware :: string
  lr_boot :: string
  lr_event_list :: string
  lr_minimum_rp_version :: string

text \<open>\<open>".".join(str(b) for b in body[off : off + n])\<close>, empty when the body is too short.\<close>

fun dotted :: "byte list \<Rightarrow> string" where
  "dotted [] = []"
| "dotted [b] = to_digits 10 (unat b)"
| "dotted (b # bs) = to_digits 10 (unat b) @ CHR ''.'' # dotted bs"

definition version_at :: "byte list \<Rightarrow> nat \<Rightarrow> nat \<Rightarrow> string" where
  "version_at body off n =
     (if length body < off + n then [] else dotted (py_slice off (off + n) body))"

definition in_bootloader :: "login_reply \<Rightarrow> bool result" where
  "in_bootloader r =
     bindr (py_int 10 (takeWhile (\<lambda>c. c \<noteq> CHR ''.'') (lr_firmware r))) (\<lambda>n. Inr (n < 4))"

definition parse_login_reply :: "byte list \<Rightarrow> login_reply result" where
  "parse_login_reply body =
     (if length body < 4 \<or> body ! 0 \<noteq> word_of_int SYSTEM then Inl ValueError
      else let serial = (if 12 \<le> length body
                         then map (\<lambda>b. digit_char (unat (b AND 0xF))) (py_slice 8 12 body) else [])
           in Inr \<lparr>lr_status = uint (body ! 1),
                   lr_firmware = version_at body 4 3,
                   lr_serial_number = serial,
                   lr_hardware = version_at body 12 2,
                   lr_boot = version_at body 14 3,
                   lr_event_list = version_at body 19 3,
                   lr_minimum_rp_version = version_at body 22 3\<rparr>)"

definition is_panel_disconnect :: "byte list \<Rightarrow> bool" where
  "is_panel_disconnect body =
     (2 \<le> length body \<and> body ! 0 = word_of_int SYSTEM \<and> body ! 1 = 0x01)"

end
