(* ===== verification/Rp_Session.thy ===== *)
theory Rp_Session
  imports Rp_Messages
begin

text \<open>
  \<open>elk_programmer/protocol/session.py\<close>: a programming session over a byte stream. The stream of the
  operating system is a schedule of arrivals; the session keeps a decoder, a trace of the frames in
  both directions and the time of its last activity. Times are whole milliseconds.
\<close>

section \<open>The stream\<close>

text \<open>
  The reader and writer of \<open>TcpTransport\<close>: the clock, the data that will arrive (with its arrival
  time, never before the previous arrival was read), and what was written at which time. An end of
  file is an arrival of no bytes, which is what \<open>reader.read\<close> then returns at once.
\<close>

record link =
  lk_now :: nat
  lk_incoming :: "(nat \<times> byte list) list"
  lk_written :: "(nat \<times> byte list) list"
  lk_open :: bool

definition link_write :: "byte list \<Rightarrow> link \<Rightarrow> link" where
  "link_write bytes l = l\<lparr>lk_written := lk_written l @ [(lk_now l, bytes)]\<rparr>"

text \<open>\<open>TcpTransport.read\<close>: the next data if it arrives in time, and otherwise no bytes.\<close>

definition link_read :: "nat \<Rightarrow> link \<Rightarrow> link \<times> byte list" where
  "link_read timeout l =
     (case lk_incoming l of
        [] \<Rightarrow> (l\<lparr>lk_now := lk_now l + timeout\<rparr>, [])
      | (t, data) # rest \<Rightarrow>
          if t < lk_now l + timeout
          then (l\<lparr>lk_now := max t (lk_now l), lk_incoming := rest\<rparr>, data)
          else (l\<lparr>lk_now := lk_now l + timeout\<rparr>, []))"

definition link_close :: "link \<Rightarrow> link" where
  "link_close l = l\<lparr>lk_open := False\<rparr>"

section \<open>Sessions\<close>

text \<open>The exceptions of the module, with their text; \<open>Raised\<close> is any other exception.\<close>

datatype session_error =
    Session_error string
  | Timed_out string
  | Disconnected string
  | Wrong_reply string
  | Raised py_error
  | Assertion_failed

fun is_session_error :: "session_error \<Rightarrow> bool" where
  "is_session_error (Raised e) = False"
| "is_session_error Assertion_failed = False"
| "is_session_error _ = True"

datatype direction = Tx | Rx

record trace_entry =
  te_when :: nat
  te_direction :: direction
  te_body :: "byte list"
  te_note :: string

record session =
  ss_link :: link
  ss_decoder :: decoder
  ss_trace :: "trace_entry list"
  ss_login_reply :: "login_reply option"
  ss_keepalive :: bool
  ss_last_activity :: nat

definition session_open :: "link \<Rightarrow> session" where
  "session_open l =
     \<lparr>ss_link = l, ss_decoder = decoder_init, ss_trace = [], ss_login_reply = None, ss_keepalive = False,
      ss_last_activity = 0\<rparr>"

definition record_trace :: "direction \<Rightarrow> byte list \<Rightarrow> string \<Rightarrow> session \<Rightarrow> session" where
  "record_trace dir body note s =
     s\<lparr>ss_trace := ss_trace s @
         [\<lparr>te_when = lk_now (ss_link s), te_direction = dir, te_body = body, te_note = note\<rparr>]\<rparr>"

fun kind_value :: "frame_kind \<Rightarrow> string" where
  "kind_value MESSAGE = ''message''"
| "kind_value K_ACK = ''ack''"
| "kind_value K_NAK = ''nak''"
| "kind_value CRC_ERROR = ''crc_error''"
| "kind_value DEBUG = ''debug''"

text \<open>\<open>f"{n:#04x}"\<close>.\<close>

fun hex_digits :: "nat \<Rightarrow> nat \<Rightarrow> string" where
  "hex_digits 0 n = []"
| "hex_digits (Suc k) n = (if n < 16 then [hex_char n] else hex_digits k (n div 16) @ [hex_char (n mod 16)])"

definition fmt_04x :: "int \<Rightarrow> string" where
  "fmt_04x n = ''0x'' @ zfill 2 (hex_digits 16 (nat n))"

section \<open>Requests and replies\<close>

text \<open>The \<open>for\<close> loop over the events of one read: None when the wait goes on.\<close>

fun handle_events ::
    "request \<Rightarrow> frame_event list \<Rightarrow> session \<Rightarrow> session \<times> (session_error + byte list) option" where
  "handle_events rq [] s = (s, None)"
| "handle_events rq (ev # evs) s =
     (let s = record_trace Rx (ev_body ev) (kind_value (ev_kind ev)) s in
      case ev_kind ev of
        DEBUG \<Rightarrow> handle_events rq evs s
      | CRC_ERROR \<Rightarrow> (s, Some (Inl (Wrong_reply ''reply failed CRC'')))
      | K_NAK \<Rightarrow> (s, Some (Inl (Wrong_reply ''panel sent NAK'')))
      | K_ACK \<Rightarrow>
          if rq_expect rq = ACK_RESULT then (s, Some (Inr [])) else handle_events rq evs s
      | MESSAGE \<Rightarrow>
          if is_panel_disconnect (ev_body ev)
          then (s, Some (Inl (Disconnected ''panel closed the session'')))
          else (case ev_body ev of
                  [] \<Rightarrow> (s, Some (Inl (Raised IndexError)))
                | b # _ \<Rightarrow>
                    if uint b = rq_expect rq then (s, Some (Inr (ev_body ev)))
                    else (s, Some (Inl (Wrong_reply (''expected opcode '' @ fmt_04x (rq_expect rq) @
                           '', got '' @ fmt_04x (uint b)))))))"

lemma record_trace_frame [simp]:
  "ss_link (record_trace dir body note s) = ss_link s"
  "ss_decoder (record_trace dir body note s) = ss_decoder s"
  "ss_last_activity (record_trace dir body note s) = ss_last_activity s"
  by (simp_all add: record_trace_def)

lemma handle_events_frame:
  "handle_events rq evs s = (s', r) \<Longrightarrow> ss_link s' = ss_link s \<and> ss_decoder s' = ss_decoder s"
  by (induction rq evs s rule: handle_events.induct)
    (auto simp: Let_def split: frame_kind.splits if_splits list.splits)

lemma link_read_progress:
  assumes "link_read (deadline - lk_now l) l = (l', data)" and "lk_now l < deadline"
  shows "length (lk_incoming l') + (deadline - lk_now l') < length (lk_incoming l) + (deadline - lk_now l)"
  using assms by (auto simp: link_read_def split: list.splits if_splits)

function await_reply :: "request \<Rightarrow> nat \<Rightarrow> session \<Rightarrow> session \<times> (session_error + byte list)" where
  "await_reply rq deadline s =
     (let now = lk_now (ss_link s) in
      if deadline \<le> now then (s, Inl (Timed_out (''no reply to '' @ rq_description rq)))
      else let (l, data) = link_read (deadline - now) (ss_link s); s = s\<lparr>ss_link := l\<rparr> in
           if data = [] then await_reply rq deadline s
           else let (d, evs) = feed data (ss_decoder s) in
                case handle_events rq evs (s\<lparr>ss_decoder := d\<rparr>) of
                  (s', Some r) \<Rightarrow> (s', r)
                | (s', None) \<Rightarrow> await_reply rq deadline s')"
  by pat_completeness auto
termination
  by (relation "measure (\<lambda>(rq, deadline, s). length (lk_incoming (ss_link s)) + (deadline - lk_now (ss_link s)))")
    (auto dest!: link_read_progress [OF sym] handle_events_frame [OF sym])

declare await_reply.simps [simp del]

text \<open>The attempts of \<open>send_receive\<close>, numbered from 1; the lock makes the whole call one step.\<close>

fun attempts_from :: "nat \<Rightarrow> nat \<Rightarrow> request \<Rightarrow> session_error option \<Rightarrow> session \<Rightarrow>
    session \<times> (session_error + byte list)" where
  "attempts_from 0 attempt rq last_error s =
     (s, Inl (case last_error of None \<Rightarrow> Assertion_failed | Some e \<Rightarrow> e))"
| "attempts_from (Suc k) attempt rq last_error s =
     (let s = record_trace Tx (rq_body rq) (rq_description rq @ '' attempt '' @ int_text (int attempt)) s in
      case encode_frame (rq_body rq) of
        Inl e \<Rightarrow> (s, Inl (Raised e))
      | Inr frame \<Rightarrow>
          let s = s\<lparr>ss_link := link_write frame (ss_link s)\<rparr>;
              (s, r) = await_reply rq (lk_now (ss_link s) + rq_timeout_ms rq) s;
              s = s\<lparr>ss_last_activity := lk_now (ss_link s)\<rparr>
          in case r of
               Inr body \<Rightarrow> (s, Inr body)
             | Inl (Timed_out m) \<Rightarrow> attempts_from k (attempt + 1) rq (Some (Timed_out m)) s
             | Inl (Wrong_reply m) \<Rightarrow> attempts_from k (attempt + 1) rq (Some (Wrong_reply m)) s
             | Inl e \<Rightarrow> (s, Inl e))"

definition send_receive :: "request \<Rightarrow> session \<Rightarrow> session \<times> (session_error + byte list)" where
  "send_receive rq s = attempts_from (rq_attempts rq) 1 rq None s"

section \<open>Operations\<close>

text \<open>Calls whose request cannot be built raise before anything is sent.\<close>

definition send_request :: "request result \<Rightarrow> session \<Rightarrow> session \<times> (session_error + byte list)" where
  "send_request rq s = (case rq of Inl e \<Rightarrow> (s, Inl (Raised e)) | Inr r \<Rightarrow> send_receive r s)"

definition status_text :: "int \<Rightarrow> string" where
  "status_text n = ''panel rejected the session (status '' @ int_text n @ '')''"

definition session_login :: "string \<Rightarrow> session \<Rightarrow> session \<times> (session_error + login_reply)" where
  "session_login rp_code s =
     (case send_request (login rp_code) s of
        (s, Inl e) \<Rightarrow> (s, Inl e)
      | (s, Inr body) \<Rightarrow>
          (case parse_login_reply body of
             Inl e \<Rightarrow> (s, Inl (Raised e))
           | Inr reply \<Rightarrow>
               if lr_status reply \<noteq> 0 then (s, Inl (Session_error (status_text (lr_status reply))))
               else (s\<lparr>ss_login_reply := Some reply, ss_keepalive := True\<rparr>, Inr reply)))"

definition KEEPALIVE_INTERVAL :: nat where "KEEPALIVE_INTERVAL = 15000"

text \<open>One turn of \<open>_keepalive_loop\<close>: a second of sleep, and a keepalive when the session was quiet.
  The loop ends at the first failure.\<close>

definition keepalive_turn :: "session \<Rightarrow> session" where
  "keepalive_turn s =
     (if \<not> ss_keepalive s then s
      else let s = s\<lparr>ss_link := (ss_link s)\<lparr>lk_now := lk_now (ss_link s) + 1000\<rparr>\<rparr> in
           if lk_now (ss_link s) - ss_last_activity s < KEEPALIVE_INTERVAL then s
           else (case send_request keepalive s of
                   (s, Inr _) \<Rightarrow> s
                 | (s, Inl _) \<Rightarrow> s\<lparr>ss_keepalive := False\<rparr>))"

definition size_text :: "opcode \<Rightarrow> int \<Rightarrow> nat \<Rightarrow> nat \<Rightarrow> string" where
  "size_text opcode number wanted got =
     opcode_name opcode @ '' '' @ int_text number @ '': expected '' @ int_text (int wanted) @
     '' bytes, got '' @ int_text (int got)"

definition session_read_record ::
    "opcode \<Rightarrow> int \<Rightarrow> nat \<Rightarrow> int \<Rightarrow> session \<Rightarrow> session \<times> (session_error + byte list)" where
  "session_read_record opcode number wanted sub s =
     (case send_request (read_record opcode number sub) s of
        (s, Inl e) \<Rightarrow> (s, Inl e)
      | (s, Inr body) \<Rightarrow>
          let data = py_slice REPLY_DATA_OFFSET (REPLY_DATA_OFFSET + wanted) body in
          if length data \<noteq> wanted then (s, Inl (Wrong_reply (size_text opcode number wanted (length data))))
          else (s, Inr data))"

definition session_write_record ::
    "opcode \<Rightarrow> int \<Rightarrow> byte list \<Rightarrow> int \<Rightarrow> session \<Rightarrow> session \<times> (session_error + unit)" where
  "session_write_record opcode number payload sub s =
     (case send_request (write_record opcode number payload sub) s of
        (s, Inl e) \<Rightarrow> (s, Inl e)
      | (s, Inr _) \<Rightarrow> (s, Inr ()))"

definition session_record_crc :: "opcode \<Rightarrow> int \<Rightarrow> session \<Rightarrow> session \<times> (session_error + int)" where
  "session_record_crc opcode number s =
     (case send_request (record_crc opcode number) s of
        (s, Inl e) \<Rightarrow> (s, Inl e)
      | (s, Inr body) \<Rightarrow>
          if length body < 6 then (s, Inl (Wrong_reply ''short CRC reply''))
          else (s, Inr (word_of_bytes (body ! 4) (body ! 5))))"

definition session_close :: "session \<Rightarrow> session \<times> session_error option" where
  "session_close s =
     (case send_receive disconnect (s\<lparr>ss_keepalive := False\<rparr>) of
        (s, Inl e) \<Rightarrow>
          if is_session_error e then (s\<lparr>ss_link := link_close (ss_link s)\<rparr>, None) else (s, Some e)
      | (s, Inr _) \<Rightarrow> (s\<lparr>ss_link := link_close (ss_link s)\<rparr>, None))"

section \<open>The loops\<close>

text \<open>What a wait changes: it consumes arrivals and lets time pass up to its deadline.\<close>

lemma link_read_frame:
  assumes "link_read timeout l = (l', data)"
  shows "lk_written l' = lk_written l \<and> lk_open l' = lk_open l \<and> lk_now l \<le> lk_now l' \<and>
    lk_now l' \<le> lk_now l + timeout"
  using assms by (auto simp: link_read_def split: list.splits if_splits)

definition reply_ok :: "request \<Rightarrow> (session_error + byte list) \<Rightarrow> bool" where
  "reply_ok rq r =
     (case r of
        Inr [] \<Rightarrow> rq_expect rq = ACK_RESULT
      | Inr (b # bs) \<Rightarrow> uint b = rq_expect rq \<and> \<not> is_panel_disconnect (b # bs)
      | Inl (Session_error m) \<Rightarrow> False
      | Inl (Raised e) \<Rightarrow> e = IndexError
      | Inl Assertion_failed \<Rightarrow> False
      | Inl e \<Rightarrow> True)"

lemma handle_events_reply: "handle_events rq evs s = (s', Some r) \<Longrightarrow> reply_ok rq r"
  by (induction rq evs s rule: handle_events.induct)
    (auto simp: Let_def reply_ok_def split: frame_kind.splits if_splits list.splits)

lemma await_reply_frame:
  assumes "await_reply rq deadline s = (s', r)"
  shows "lk_written (ss_link s') = lk_written (ss_link s) \<and> lk_open (ss_link s') = lk_open (ss_link s) \<and>
    lk_now (ss_link s) \<le> lk_now (ss_link s') \<and> lk_now (ss_link s') \<le> max deadline (lk_now (ss_link s)) \<and>
    reply_ok rq r"
  using assms
proof (induction rq deadline s arbitrary: s' r rule: await_reply.induct)
  case (1 rq deadline s)
  let ?now = "lk_now (ss_link s)"
  show ?case
  proof (cases "deadline \<le> ?now")
    case True
    then show ?thesis using "1.prems" by (subst (asm) await_reply.simps) (auto simp: reply_ok_def Let_def)
  next
    case False
    obtain l data where ld: "link_read (deadline - ?now) (ss_link s) = (l, data)" by force
    note lr = link_read_frame [OF ld]
    show ?thesis
    proof (cases "data = []")
      case True
      then have "await_reply rq deadline (s\<lparr>ss_link := l\<rparr>) = (s', r)"
        using "1.prems" False ld by (subst (asm) await_reply.simps) (simp add: Let_def)
      from "1.IH"(1) [OF refl False refl ld [symmetric] refl True this] show ?thesis using lr False by auto
    next
      case data: False
      obtain d evs where f: "feed data (ss_decoder (s\<lparr>ss_link := l\<rparr>)) = (d, evs)" by force
      obtain s1 r1 where h: "handle_events rq evs (s\<lparr>ss_link := l, ss_decoder := d\<rparr>) = (s1, r1)" by force
      note hf = handle_events_frame [OF h]
      show ?thesis
      proof (cases r1)
        case None
        then have "await_reply rq deadline s1 = (s', r)"
          using "1.prems" False ld data f h by (subst (asm) await_reply.simps) (simp add: Let_def)
        from "1.IH"(2) [OF refl False refl ld [symmetric] refl data refl f [symmetric] h [symmetric] None this]
        show ?thesis using lr hf False by auto
      next
        case (Some r2)
        then have "s' = s1" "r = r2"
          using "1.prems" False ld data f h by (subst (asm) await_reply.simps; simp add: Let_def)+
        then show ?thesis using lr hf False handle_events_reply [of rq evs _ s1 r2] h Some by auto
      qed
    qed
  qed
qed

text \<open>One attempt: the frame is written once, the wait ends by its deadline.\<close>

definition attempt :: "nat \<Rightarrow> request \<Rightarrow> byte list \<Rightarrow> session \<Rightarrow> session \<times> (session_error + byte list)" where
  "attempt n rq frame s =
     (let s = record_trace Tx (rq_body rq) (rq_description rq @ '' attempt '' @ int_text (int n)) s;
          s = s\<lparr>ss_link := link_write frame (ss_link s)\<rparr>;
          (s, r) = await_reply rq (lk_now (ss_link s) + rq_timeout_ms rq) s
      in (s\<lparr>ss_last_activity := lk_now (ss_link s)\<rparr>, r))"

definition retried :: "session_error + byte list \<Rightarrow> bool" where
  "retried r = (case r of Inl (Timed_out m) \<Rightarrow> True | Inl (Wrong_reply m) \<Rightarrow> True | _ \<Rightarrow> False)"

lemma attempts_Suc:
  assumes "encode_frame (rq_body rq) = Inr frame" and "attempt n rq frame s = (s1, r1)"
  shows "attempts_from (Suc k) n rq e s =
    (if retried r1 then attempts_from k (n + 1) rq (Some (projl r1)) s1 else (s1, r1))"
  using assms
  by (auto simp: attempt_def Let_def retried_def split: prod.splits sum.splits session_error.splits)

declare attempts_from.simps(2) [simp del]

lemma attempt_frame:
  assumes "attempt n rq frame s = (s', r)"
  shows "lk_written (ss_link s') = lk_written (ss_link s) @ [(lk_now (ss_link s), frame)] \<and>
    lk_open (ss_link s') = lk_open (ss_link s) \<and>
    lk_now (ss_link s) \<le> lk_now (ss_link s') \<and>
    lk_now (ss_link s') \<le> lk_now (ss_link s) + rq_timeout_ms rq \<and> reply_ok rq r"
proof -
  let ?s = "record_trace Tx (rq_body rq) (rq_description rq @ '' attempt '' @ int_text (int n)) s"
  let ?s = "?s\<lparr>ss_link := link_write frame (ss_link ?s)\<rparr>"
  obtain s1 where a: "await_reply rq (lk_now (ss_link ?s) + rq_timeout_ms rq) ?s = (s1, r)"
    and s': "s' = s1\<lparr>ss_last_activity := lk_now (ss_link s1)\<rparr>"
    using assms by (auto simp: attempt_def Let_def split: prod.splits)
  show ?thesis using await_reply_frame [OF a] by (simp add: s' link_write_def)
qed

lemma attempts_frame:
  assumes "encode_frame (rq_body rq) = Inr frame"
    and "attempts_from k n rq e s = (s', r)"
    and "\<And>x. e = Some x \<Longrightarrow> reply_ok rq (Inl x)" and "e \<noteq> None \<or> 0 < k"
  shows "\<exists>times. lk_written (ss_link s') = lk_written (ss_link s) @ map (\<lambda>t. (t, frame)) times \<and>
    length times \<le> k \<and> (k = 0 \<longleftrightarrow> times = []) \<and> lk_open (ss_link s') = lk_open (ss_link s) \<and>
    lk_now (ss_link s) \<le> lk_now (ss_link s') \<and>
    lk_now (ss_link s') \<le> lk_now (ss_link s) + k * rq_timeout_ms rq \<and> reply_ok rq r"
  using assms(2-4)
proof (induction k arbitrary: n e s)
  case 0
  then show ?case by (auto split: option.splits)
next
  case (Suc k)
  obtain s1 r1 where a: "attempt n rq frame s = (s1, r1)" by force
  note f = attempt_frame [OF a] and st = attempts_Suc [OF assms(1) a]
  show ?case
  proof (cases "retried r1")
    case False
    then show ?thesis using Suc.prems(1) f st by (intro exI [of _ "[lk_now (ss_link s)]"]) auto
  next
    case True
    have ok: "reply_ok rq (Inl x)" if "Some (projl r1) = Some x" for x
      using f True that by (auto simp: retried_def split: sum.splits)
    have "attempts_from k (n + 1) rq (Some (projl r1)) s1 = (s', r)" using Suc.prems(1) st True by simp
    from Suc.IH [OF this ok] obtain times where
      "lk_written (ss_link s') = lk_written (ss_link s1) @ map (\<lambda>t. (t, frame)) times"
      "length times \<le> k" "lk_open (ss_link s') = lk_open (ss_link s1)"
      "lk_now (ss_link s1) \<le> lk_now (ss_link s')"
      "lk_now (ss_link s') \<le> lk_now (ss_link s1) + k * rq_timeout_ms rq" "reply_ok rq r"
      by auto
    then show ?thesis using f by (intro exI [of _ "lk_now (ss_link s) # times"]) auto
  qed
qed

section \<open>Silence\<close>

text \<open>Nothing arrives before a time.\<close>

definition silent_until :: "nat \<Rightarrow> link \<Rightarrow> bool" where
  "silent_until t l = (case lk_incoming l of [] \<Rightarrow> True | (t', data) # rest \<Rightarrow> t \<le> t')"

lemma await_silence:
  assumes "silent_until deadline (ss_link s)" and "lk_now (ss_link s) \<le> deadline"
  shows "\<exists>m. await_reply rq deadline s = (s\<lparr>ss_link := (ss_link s)\<lparr>lk_now := deadline\<rparr>\<rparr>, Inl (Timed_out m))"
proof (cases "lk_now (ss_link s) = deadline")
  case True
  then have "(ss_link s)\<lparr>lk_now := deadline\<rparr> = ss_link s" by simp
  then show ?thesis using True by (subst await_reply.simps) (simp add: Let_def)
next
  case False
  then have "link_read (deadline - lk_now (ss_link s)) (ss_link s) = ((ss_link s)\<lparr>lk_now := deadline\<rparr>, [])"
    using assms by (auto simp: link_read_def silent_until_def split: list.splits)
  then show ?thesis using False assms(2)
    by (subst await_reply.simps) (simp add: Let_def, subst await_reply.simps, simp add: Let_def)
qed

lemma attempt_silence:
  assumes "silent_until (lk_now (ss_link s) + rq_timeout_ms rq) (ss_link s)"
  shows "\<exists>s' m. attempt n rq frame s = (s', Inl (Timed_out m)) \<and> ss_decoder s' = ss_decoder s \<and>
    ss_link s' = (ss_link s)\<lparr>lk_now := lk_now (ss_link s) + rq_timeout_ms rq,
      lk_written := lk_written (ss_link s) @ [(lk_now (ss_link s), frame)]\<rparr>"
proof -
  let ?s = "record_trace Tx (rq_body rq) (rq_description rq @ '' attempt '' @ int_text (int n)) s"
  let ?s = "?s\<lparr>ss_link := link_write frame (ss_link ?s)\<rparr>"
  have "silent_until (lk_now (ss_link ?s) + rq_timeout_ms rq) (ss_link ?s)"
    using assms by (simp add: silent_until_def link_write_def)
  then obtain m where "await_reply rq (lk_now (ss_link ?s) + rq_timeout_ms rq) ?s =
      (?s\<lparr>ss_link := (ss_link ?s)\<lparr>lk_now := lk_now (ss_link ?s) + rq_timeout_ms rq\<rparr>\<rparr>, Inl (Timed_out m))"
    using await_silence [of "lk_now (ss_link ?s) + rq_timeout_ms rq" ?s rq] by auto
  then show ?thesis by (simp add: attempt_def Let_def link_write_def)
qed

lemma attempts_silence:
  assumes "encode_frame (rq_body rq) = Inr frame"
    and "silent_until (lk_now (ss_link s) + k * rq_timeout_ms rq) (ss_link s)"
    and "k = 0 \<Longrightarrow> \<exists>m. e = Some (Timed_out m)"
  shows "\<exists>s' m. attempts_from k n rq e s = (s', Inl (Timed_out m)) \<and>
    lk_written (ss_link s') = lk_written (ss_link s) @
      map (\<lambda>i. (lk_now (ss_link s) + i * rq_timeout_ms rq, frame)) [0..<k] \<and>
    lk_now (ss_link s') = lk_now (ss_link s) + k * rq_timeout_ms rq"
  using assms(2,3)
proof (induction k arbitrary: n e s)
  case 0
  then show ?case by auto
next
  case (Suc k)
  let ?t = "rq_timeout_ms rq" and ?now = "lk_now (ss_link s)"
  have "silent_until (?now + ?t) (ss_link s)"
    using Suc.prems(1) by (auto simp: silent_until_def split: list.splits)
  then obtain s1 m1 where a: "attempt n rq frame s = (s1, Inl (Timed_out m1))"
    and l: "ss_link s1 = (ss_link s)\<lparr>lk_now := ?now + ?t, lk_written := lk_written (ss_link s) @ [(?now, frame)]\<rparr>"
    using attempt_silence by blast
  have "silent_until (lk_now (ss_link s1) + k * ?t) (ss_link s1)"
    using Suc.prems(1) by (simp add: l silent_until_def add.assoc)
  from Suc.IH [OF this, of "Some (Timed_out m1)" "n + 1"] obtain s' m where
    r: "attempts_from k (n + 1) rq (Some (Timed_out m1)) s1 = (s', Inl (Timed_out m))"
    "lk_written (ss_link s') = lk_written (ss_link s1) @ map (\<lambda>i. (lk_now (ss_link s1) + i * ?t, frame)) [0..<k]"
    "lk_now (ss_link s') = lk_now (ss_link s1) + k * ?t" by auto
  have "map (\<lambda>i. (?now + i * ?t, frame)) [0..<Suc k] =
      (?now, frame) # map (\<lambda>i. (?now + ?t + i * ?t, frame)) [0..<k]"
    by (simp add: upt_conv_Cons map_Suc_upt [symmetric] comp_def add.assoc del: upt_Suc)
  then show ?case using r by (simp add: attempts_Suc [OF assms(1) a] retried_def l add.assoc)
qed

section \<open>Answers\<close>

text \<open>A frame produces its event with its last byte.\<close>

lemma feed_butlast_frame:
  assumes "dc_state d \<in> {IDLE, DLE1, BODY}"
  shows "snd (feed (butlast (frame_bytes body crc)) d) = []"
proof -
  have b: "butlast (frame_bytes body crc) = [DLE, STX] @ stuff body @ [DLE, ETX, hi_byte crc]"
    by (simp add: frame_bytes_def butlast_append)
  have e: "snd (feed [DLE, ETX, hi_byte crc] d') = []" if "dc_state d' = BODY" for d'
    using that by (cases d') (simp add: decoder_step_def control_defs)
  show ?thesis unfolding b feed_append
    by (simp only: feed_start [OF assms] Let_def prod.case)
      (simp add: feed_append feed_stuff e split_def Let_def del: feed.simps)
qed

lemma feed_prefix_silent: "snd (feed (xs @ ys) d) = [] \<Longrightarrow> snd (feed xs d) = []"
  by (simp add: feed_append split_def Let_def)

text \<open>A reply that a request takes.\<close>

definition answers :: "request \<Rightarrow> byte list \<Rightarrow> bool" where
  "answers rq body = (body \<noteq> [] \<and> uint (hd body) = rq_expect rq \<and> hd body \<noteq> DEBUG_STREAM \<and> \<not> is_panel_disconnect body)"

lemma handle_answer:
  assumes "answers rq body"
  shows "\<exists>s'. handle_events rq [\<lparr>ev_kind = MESSAGE, ev_body = body\<rparr>] s = (s', Some (Inr body))"
  using assms by (cases body) (auto simp: answers_def)

lemma await_step:
  assumes "lk_now (ss_link s) < deadline" and "t < deadline" and "data \<noteq> []"
    and "lk_incoming (ss_link s) = (t, data) # rest" and "feed data (ss_decoder s) = (d, evs)"
  shows "await_reply rq deadline s =
    (let l = (ss_link s)\<lparr>lk_now := max t (lk_now (ss_link s)), lk_incoming := rest\<rparr> in
     case handle_events rq evs (s\<lparr>ss_link := l, ss_decoder := d\<rparr>) of
       (s', Some r) \<Rightarrow> (s', r) | (s', None) \<Rightarrow> await_reply rq deadline s')"
  using assms by (subst await_reply.simps) (auto simp: Let_def link_read_def)

text \<open>The reply in pieces, each arriving before the deadline.\<close>

lemma await_pieces:
  assumes "answers rq body" and "arrivals \<noteq> []"
    and "\<And>t c. (t, c) \<in> set arrivals \<Longrightarrow> t < deadline \<and> c \<noteq> []"
    and "lk_now (ss_link s) < deadline" and "lk_incoming (ss_link s) = arrivals @ rest"
    and "feed (concat (map snd arrivals)) (ss_decoder s) = (d, [\<lparr>ev_kind = MESSAGE, ev_body = body\<rparr>])"
    and "snd (feed (butlast (concat (map snd arrivals))) (ss_decoder s)) = []"
  shows "\<exists>s'. await_reply rq deadline s = (s', Inr body) \<and> ss_decoder s' = d \<and> lk_incoming (ss_link s') = rest"
  using assms(2-7)
proof (induction arrivals arbitrary: s)
  case Nil
  then show ?case by simp
next
  case (Cons a arrivals)
  obtain t c where a: "a = (t, c)" by force
  have tc: "t < deadline" "c \<noteq> []" using Cons.prems(2) a by auto
  let ?l = "(ss_link s)\<lparr>lk_now := max t (lk_now (ss_link s)), lk_incoming := arrivals @ rest\<rparr>"
  obtain d1 evs where f: "feed c (ss_decoder s) = (d1, evs)" by force
  have st: "lk_incoming (ss_link s) = (t, c) # (arrivals @ rest)" using Cons.prems(4) a by simp
  note step = await_step [OF Cons.prems(3) tc st f, of rq]
  show ?case
  proof (cases "arrivals = []")
    case True
    have "d1 = d" "evs = [\<lparr>ev_kind = MESSAGE, ev_body = body\<rparr>]" using Cons.prems(5) f a True by auto
    moreover obtain s' where
      h: "handle_events rq [\<lparr>ev_kind = MESSAGE, ev_body = body\<rparr>] (s\<lparr>ss_link := ?l, ss_decoder := d\<rparr>) = (s', Some (Inr body))"
      using handle_answer [OF assms(1)] by blast
    ultimately show ?thesis using step handle_events_frame [OF h] True by (simp add: Let_def)
  next
    case False
    let ?rest = "concat (map snd arrivals)" and ?s = "s\<lparr>ss_link := ?l, ss_decoder := d1\<rparr>"
    obtain b bs where b: "arrivals = b # bs" using False by (cases arrivals) auto
    then have "snd b \<noteq> []" using Cons.prems(2) [of "fst b" "snd b"] by simp
    then have ne: "?rest \<noteq> []" using b by simp
    then have bl: "butlast (concat (map snd (a # arrivals))) = c @ butlast ?rest"
      by (simp only: a list.map snd_conv concat.simps butlast_append ne if_False)
    have "evs = []"
      using feed_prefix_silent [of c "butlast ?rest" "ss_decoder s"] Cons.prems(6) f unfolding bl by simp
    then have r: "await_reply rq deadline s = await_reply rq deadline ?s" using step by (simp add: Let_def)
    have ap: "feed (c @ xs) (ss_decoder s) = feed xs d1" for xs
      using f \<open>evs = []\<close> by (simp add: feed_append split_def Let_def)
    show ?thesis unfolding r
    proof (rule Cons.IH [OF False])
      show "\<And>t c. (t, c) \<in> set arrivals \<Longrightarrow> t < deadline \<and> c \<noteq> []" by (rule Cons.prems(2)) simp
      show "lk_now (ss_link ?s) < deadline" using Cons.prems(3) tc by simp
      show "lk_incoming (ss_link ?s) = arrivals @ rest" by simp
      show "feed ?rest (ss_decoder ?s) = (d, [\<lparr>ev_kind = MESSAGE, ev_body = body\<rparr>])"
        using Cons.prems(5) by (simp add: a ap)
      show "snd (feed (butlast ?rest) (ss_decoder ?s)) = []" using Cons.prems(6) unfolding bl ap by simp
    qed
  qed
qed

text \<open>The attempt that waits for it, and the whole request.\<close>

lemma attempt_answer:
  assumes "answers rq body" and "encode_frame (rq_body rq) = Inr frame"
    and "dc_state (ss_decoder s) \<in> {IDLE, DLE1, BODY}"
    and "lk_incoming (ss_link s) = arrivals @ rest" and "concat (map snd arrivals) = frame_bytes body (crc16 body)"
    and "\<And>t c. (t, c) \<in> set arrivals \<Longrightarrow> t < lk_now (ss_link s) + rq_timeout_ms rq \<and> c \<noteq> []"
    and "0 < rq_timeout_ms rq"
  shows "\<exists>s'. attempt n rq frame s = (s', Inr body) \<and> lk_incoming (ss_link s') = rest \<and>
    dc_state (ss_decoder s') = IDLE"
proof -
  let ?s = "record_trace Tx (rq_body rq) (rq_description rq @ '' attempt '' @ int_text (int n)) s"
  let ?s = "?s\<lparr>ss_link := link_write frame (ss_link ?s)\<rparr>"
  let ?d = "(ss_decoder s)\<lparr>dc_body := body, dc_crc_hi := hi_byte (crc16 body), dc_state := IDLE\<rparr>"
  let ?deadline = "lk_now (ss_link ?s) + rq_timeout_ms rq"
  have ne: "arrivals \<noteq> []" using assms(5) by (auto simp: frame_bytes_def)
  have v: "verdict body (crc16 body) = \<lparr>ev_kind = MESSAGE, ev_body = body\<rparr>"
    using assms(1) by (cases body) (auto simp: verdict_def answers_def)
  have "\<exists>s'. await_reply rq ?deadline ?s = (s', Inr body) \<and> ss_decoder s' = ?d \<and> lk_incoming (ss_link s') = rest"
  proof (rule await_pieces [OF assms(1) ne])
    show "\<And>t c. (t, c) \<in> set arrivals \<Longrightarrow> t < ?deadline \<and> c \<noteq> []" using assms(6) by (simp add: link_write_def)
    show "lk_now (ss_link ?s) < ?deadline" using assms(7) by simp
    show "lk_incoming (ss_link ?s) = arrivals @ rest" using assms(4) by (simp add: link_write_def)
    show "feed (concat (map snd arrivals)) (ss_decoder ?s) = (?d, [\<lparr>ev_kind = MESSAGE, ev_body = body\<rparr>])"
      using feed_frame [OF assms(3), of body "crc16 body"] by (simp add: assms(5) v)
    show "snd (feed (butlast (concat (map snd arrivals))) (ss_decoder ?s)) = []"
      using feed_butlast_frame [OF assms(3)] by (simp add: assms(5))
  qed
  then show ?thesis by (auto simp: attempt_def Let_def)
qed

lemma send_receive_answer:
  assumes "answers rq body" and "encode_frame (rq_body rq) = Inr frame" and "0 < rq_attempts rq"
    and "dc_state (ss_decoder s) \<in> {IDLE, DLE1, BODY}"
    and "lk_incoming (ss_link s) = arrivals @ rest" and "concat (map snd arrivals) = frame_bytes body (crc16 body)"
    and "\<And>t c. (t, c) \<in> set arrivals \<Longrightarrow> t < lk_now (ss_link s) + rq_timeout_ms rq \<and> c \<noteq> []"
    and "0 < rq_timeout_ms rq"
  shows "\<exists>s'. send_receive rq s = (s', Inr body) \<and>
    lk_written (ss_link s') = lk_written (ss_link s) @ [(lk_now (ss_link s), frame)] \<and>
    lk_incoming (ss_link s') = rest \<and> dc_state (ss_decoder s') = IDLE"
proof -
  obtain s1 where a: "attempt 1 rq frame s = (s1, Inr body)"
    and s1: "lk_incoming (ss_link s1) = rest" "dc_state (ss_decoder s1) = IDLE"
    using attempt_answer [OF assms(1,2,4,5,6,7,8)] by blast
  obtain k where k: "rq_attempts rq = Suc k" using assms(3) by (cases "rq_attempts rq") auto
  have "send_receive rq s = (s1, Inr body)"
    using attempts_Suc [OF assms(2) a] by (simp add: send_receive_def k retried_def)
  then show ?thesis using s1 attempt_frame [OF a] by simp
qed

section \<open>Two consequences\<close>

text \<open>A link with a schedule of arrivals, for concrete runs.\<close>

definition link_with :: "(nat \<times> byte list) list \<Rightarrow> link" where
  "link_with arrivals = \<lparr>lk_now = 0, lk_incoming = arrivals, lk_written = [], lk_open = True\<rparr>"

text \<open>A frame with an empty body and a right CRC is a message whose first byte is read.\<close>

lemma empty_body_raises:
  "snd (send_receive disconnect (session_open (link_with [(0, [0x10, 0x02, 0x10, 0x03, 0, 0])]))) =
    Inl (Raised IndexError)"
  by code_simp

text \<open>
  The reply is matched by its opcode alone. When the panel answers both attempts of a request, the
  first answer coming after the first time-out, the second one is taken for the answer of the next
  request with the same opcode, whatever record that asks for.
\<close>

lemma late_answer_shifts:
  assumes "answers rq body" and "answers rq' body"
    and "encode_frame (rq_body rq) = Inr frame" and "encode_frame (rq_body rq') = Inr frame'"
    and "1 < rq_attempts rq" and "0 < rq_attempts rq'" and "0 < rq_timeout_ms rq" and "0 < rq_timeout_ms rq'"
    and "dc_state (ss_decoder s) = IDLE"
    and "lk_incoming (ss_link s) = [(t, frame_bytes body (crc16 body)), (t', frame_bytes body (crc16 body))]"
    and "lk_now (ss_link s) + rq_timeout_ms rq \<le> t" and "t < lk_now (ss_link s) + 2 * rq_timeout_ms rq"
    and "t' < lk_now (ss_link s) + rq_timeout_ms rq + rq_timeout_ms rq'"
  shows "snd (send_receive rq s) = Inr body \<and>
    snd (send_receive rq' (fst (send_receive rq s))) = Inr body"
proof -
  let ?f = "frame_bytes body (crc16 body)" and ?T = "rq_timeout_ms rq" and ?now = "lk_now (ss_link s)"
  have ne: "?f \<noteq> []" by (simp add: frame_bytes_def)
  have "silent_until (?now + ?T) (ss_link s)" using assms(10,11) by (simp add: silent_until_def)
  then obtain s1 m where a1: "attempt 1 rq frame s = (s1, Inl (Timed_out m))"
    and l1: "ss_link s1 = (ss_link s)\<lparr>lk_now := ?now + ?T, lk_written := lk_written (ss_link s) @ [(?now, frame)]\<rparr>"
    and d1: "ss_decoder s1 = ss_decoder s"
    using attempt_silence by blast
  have "\<exists>s'. attempt 2 rq frame s1 = (s', Inr body) \<and> lk_incoming (ss_link s') = [(t', ?f)] \<and>
      dc_state (ss_decoder s') = IDLE"
    using assms(7,9-12) ne by (intro attempt_answer [OF assms(1,3), of s1 "[(t, ?f)]"]) (auto simp: l1 d1)
  then obtain s2 where a2: "attempt 2 rq frame s1 = (s2, Inr body)"
    and s2: "lk_incoming (ss_link s2) = [(t', ?f)]" "dc_state (ss_decoder s2) = IDLE" by blast
  have now: "?now + ?T \<le> lk_now (ss_link s2)" using attempt_frame [OF a2] by (simp add: l1)
  obtain k where k: "rq_attempts rq = Suc (Suc k)" using assms(5) by (cases "rq_attempts rq"; cases "rq_attempts rq - 1") auto
  have sr: "send_receive rq s = (s2, Inr body)"
    using attempts_Suc [OF assms(3) a1] attempts_Suc [OF assms(3) a2]
    by (simp add: send_receive_def k retried_def flip: numeral_2_eq_2)
  have "\<exists>s'. send_receive rq' s2 = (s', Inr body) \<and>
      lk_written (ss_link s') = lk_written (ss_link s2) @ [(lk_now (ss_link s2), frame')] \<and>
      lk_incoming (ss_link s') = [] \<and> dc_state (ss_decoder s') = IDLE"
    using s2 assms(8,13) now ne by (intro send_receive_answer [OF assms(2,4,6), of s2 "[(t', ?f)]"]) auto
  then show ?thesis using sr by auto
qed

section \<open>Properties\<close>



text \<open>Retries on a silent line: when nothing arrives, the frame is written exactly once per
  attempt, one timeout apart, and the request ends with a time-out after all of them.\<close>

theorem silent_line_retries:
  assumes "encode_frame (rq_body rq) = Inr frame" and "0 < rq_attempts rq"
    and "silent_until (lk_now (ss_link s) + rq_attempts rq * rq_timeout_ms rq) (ss_link s)"
  shows "\<exists>s' m. send_receive rq s = (s', Inl (Timed_out m)) \<and>
    lk_written (ss_link s') = lk_written (ss_link s) @
      map (\<lambda>i. (lk_now (ss_link s) + i * rq_timeout_ms rq, frame)) [0..<rq_attempts rq] \<and>
    lk_now (ss_link s') = lk_now (ss_link s) + rq_attempts rq * rq_timeout_ms rq"
  unfolding send_receive_def using assms by (intro attempts_silence) auto

theorem silent_line_retries_witness:
  "\<exists>s' m. send_receive disconnect (session_open (link_with [])) = (s', Inl (Timed_out m)) \<and>
    map fst (lk_written (ss_link s')) = [0, 500]"
proof -
  have e: "encode_frame (rq_body disconnect) = Inr (frame_bytes [0x7F, 0x01, 0x00, 0xA5] (crc16 [0x7F, 0x01, 0x00, 0xA5]))"
    by (simp add: disconnect_def request_def encode_frame_bytes)
  have "0 < rq_attempts disconnect" by (simp add: disconnect_def)
  moreover have "[0..<2] = [0, 1 :: nat]" by (simp add: upt_rec)
  ultimately show ?thesis using silent_line_retries [OF e, of "session_open (link_with [])"]
    by (auto simp: session_open_def link_with_def disconnect_def request_def silent_until_def)
qed

text \<open>A record is read as the panel sent it: when the answer to a read request arrives within
  the first timeout, in pieces of any size, the request is written once and the bytes after the
  four bytes of header are returned, as many as asked for.\<close>

theorem record_read:
  assumes "0 \<le> number" and "number \<le> 0xFFFF" and "length raw = wanted"
    and "dc_state (ss_decoder s) \<in> {IDLE, DLE1, BODY}"
    and "body = word_of_int (opcode_value opcode) # a # b # c # raw @ tail"
    and "concat (map snd arrivals) = frame_bytes body (crc16 body)"
    and "lk_incoming (ss_link s) = arrivals"
    and "\<And>t piece. (t, piece) \<in> set arrivals \<Longrightarrow> t < lk_now (ss_link s) + 800 \<and> piece \<noteq> []"
  shows "\<exists>s' frame. session_read_record opcode number wanted sub s = (s', Inr raw) \<and>
    encode_frame [word_of_int (opcode_value opcode), word_of_int sub, word_of_int (drop_bit 8 number),
      word_of_int number] = Inr frame \<and>
    lk_written (ss_link s') = lk_written (ss_link s) @ [(lk_now (ss_link s), frame)] \<and>
    dc_state (ss_decoder s') = IDLE"
proof -
  let ?b = "[word_of_int (opcode_value opcode), word_of_int sub, word_of_int (drop_bit 8 number), word_of_int number]"
  let ?rq = "request ?b (opcode_value opcode) (''read '' @ opcode_name opcode @ '' '' @ int_text number)"
  have rq: "read_record opcode number sub = Inr ?rq" using assms(1,2) by (simp add: read_record_def header_def)
  have fr: "encode_frame (rq_body ?rq) = Inr (frame_bytes ?b (crc16 ?b))"
    by (simp add: request_def encode_frame_bytes)
  have "uint (word_of_int (opcode_value opcode) :: byte) = opcode_value opcode"
    "(word_of_int (opcode_value opcode) :: byte) \<noteq> DEBUG_STREAM \<and> (word_of_int (opcode_value opcode) :: byte) \<noteq> 0x7F"
    by (cases opcode; simp add: DEBUG_STREAM_def)+
  then have ans: "answers ?rq body"
    by (simp add: answers_def assms(5) request_def is_panel_disconnect_def SYSTEM_def)
  have "\<exists>s'. send_receive ?rq s = (s', Inr body) \<and>
      lk_written (ss_link s') = lk_written (ss_link s) @ [(lk_now (ss_link s), frame_bytes ?b (crc16 ?b))] \<and>
      lk_incoming (ss_link s') = [] \<and> dc_state (ss_decoder s') = IDLE"
    using assms(4,6,7,8) by (intro send_receive_answer [OF ans fr, of s arrivals]) (auto simp: request_def)
  then obtain s' where s': "send_receive ?rq s = (s', Inr body)"
      "lk_written (ss_link s') = lk_written (ss_link s) @ [(lk_now (ss_link s), frame_bytes ?b (crc16 ?b))]"
      "dc_state (ss_decoder s') = IDLE" by blast
  have "py_slice 4 (4 + wanted) body = raw" using assms(3) by (simp add: assms(5) py_slice_def)
  then show ?thesis using s' assms(3)
    by (simp add: session_read_record_def send_request_def rq REPLY_DATA_OFFSET_def Let_def encode_frame_bytes)
qed

theorem record_read_witness:
  "\<exists>s'. session_read_record AREA 1 2 0 (session_open (link_with
      [(100, [0x10, 0x02, 0x03, 0, 0, 1]), (300, [7, 9, 0x10, 0x03, 0xF1, 0x6E])])) = (s', Inr [7, 9])"
proof -
  let ?body = "[3, 0, 0, 1, 7, 9] :: byte list"
  let ?arrivals = "[(100 :: nat, [0x10, 0x02, 0x03, 0, 0, 1 :: byte]), (300, [7, 9, 0x10, 0x03, 0xF1, 0x6E])]"
  let ?s = "session_open (link_with ?arrivals)"
  have f: "concat (map snd ?arrivals) = frame_bytes ?body (crc16 ?body)" by code_simp
  have idle: "dc_state (ss_decoder ?s) \<in> {IDLE, DLE1, BODY}" by (simp add: session_open_def decoder_init_def)
  have inc: "lk_incoming (ss_link ?s) = ?arrivals" by (simp add: session_open_def link_with_def)
  have early: "t < lk_now (ss_link ?s) + 800 \<and> piece \<noteq> []" if "(t, piece) \<in> set ?arrivals" for t piece
    using that by (auto simp: session_open_def link_with_def)
  have body: "?body = word_of_int (opcode_value AREA) # 0 # 0 # 1 # [7, 9] @ []" by simp
  from record_read [OF _ _ _ idle body f inc early, of 1 2 0] show ?thesis by auto
qed

end
