(* ===== verification/Rp_Account.thy ===== *)
theory Rp_Account
  imports Rp_Records "HOL-Library.AList"
begin

text \<open>
  \<open>elk_programmer/model/account.py\<close>: one panel's complete programming, in memory and as the document
  that is saved. A dictionary is an association list in insertion order (\<open>AList.update\<close> replaces in
  place and appends a new key, as Python does). The document is the tree that \<open>json.dumps\<close> prints and
  \<open>json.loads\<close> reads back; a value of a record in it is null, a number, a text, a truth value or a
  list of numbers.
\<close>

section \<open>Documents\<close>

datatype jval = J_null | J_int int | J_str string | J_ints "int list" | J_bool bool

type_synonym jobject = "(string \<times> jval) list"

text \<open>\<open>bytes.hex\<close> and \<open>bytes.fromhex\<close>, which skips blanks between the bytes.\<close>

definition bytes_hex :: "byte list \<Rightarrow> string" where
  "bytes_hex bs = concat (map (\<lambda>b. [hex_char (unat b div 16), hex_char (unat b mod 16)]) bs)"

definition ascii_blank :: "char \<Rightarrow> bool" where
  "ascii_blank c = (let n = pyord c in (9 \<le> n \<and> n \<le> 13) \<or> n = 32)"

fun fromhex :: "string \<Rightarrow> byte list result" where
  "fromhex [] = Inr []"
| "fromhex [c] = (if ascii_blank c then Inr [] else Inl ValueError)"
| "fromhex (c # d # s) =
     (if ascii_blank c then fromhex (d # s)
      else case (digit_val c, digit_val d) of
             (Some h, Some l) \<Rightarrow>
               if h < 16 \<and> l < 16 then bindr (fromhex s) (\<lambda>bs. Inr (word_of_nat (16 * h + l) # bs))
               else Inl ValueError
           | _ \<Rightarrow> Inl ValueError)"

section \<open>Accounts\<close>

text \<open>\<open>d.get(k, x)\<close>.\<close>

definition lookup_or :: "'v \<Rightarrow> ('k \<times> 'v) list \<Rightarrow> 'k \<Rightarrow> 'v" where
  "lookup_or x d k = (case map_of d k of None \<Rightarrow> x | Some v \<Rightarrow> v)"

text \<open>\<open>Connection\<close> and \<open>PanelIdentity\<close>; their fields are not checked when a document is read.\<close>

record connection_settings =
  cs_method :: jval
  cs_host :: jval
  cs_port :: jval
  cs_secure :: jval
  cs_serial_port :: jval
  cs_baud :: jval

definition default_connection :: connection_settings where
  "default_connection =
     \<lparr>cs_method = J_str ''network'', cs_host = J_str '''', cs_port = J_int 2101, cs_secure = J_bool False,
      cs_serial_port = J_str '''', cs_baud = J_int 115200\<rparr>"

record panel_identity =
  pi_control_type :: jval
  pi_serial_number :: jval
  pi_software_version :: jval
  pi_hardware_version :: jval
  pi_boot_version :: jval
  pi_voice_list_version :: jval

definition default_identity :: panel_identity where
  "default_identity =
     \<lparr>pi_control_type = J_str ''M1G'', pi_serial_number = J_str '''', pi_software_version = J_str '''',
      pi_hardware_version = J_str '''', pi_boot_version = J_str '''', pi_voice_list_version = J_str ''''\<rparr>"

type_synonym rec_table = "(int \<times> rec_dict) list"

record account =
  ac_name :: string
  ac_notes :: string
  ac_identity :: panel_identity
  ac_connection :: connection_settings
  ac_tables :: "(string \<times> rec_table) list"
  ac_rules_text :: string

definition new_account :: "string \<Rightarrow> account" where
  "new_account name =
     \<lparr>ac_name = name, ac_notes = [], ac_identity = default_identity, ac_connection = default_connection,
      ac_tables = [], ac_rules_text = []\<rparr>"

definition account_blank :: "string \<Rightarrow> account" where
  "account_blank name =
     (let tables = foldl (\<lambda>ts spec. AList.update (rs_name spec) [] ts) [] all_specs;
          tables = AList.update (rs_name global_spec) [(1, blank_record global_spec)] tables;
          tables = foldl (\<lambda>ts n.
            AList.update (rs_name area_spec)
              (AList.update n (blank_record area_spec) (lookup_or [] ts (rs_name area_spec))) ts)
            tables (map int [1..<rs_count area_spec + 1])
      in (new_account name)\<lparr>ac_tables := tables\<rparr>)"

text \<open>\<open>Account.record\<close>: creates the table and a blank record when they are missing.\<close>

definition account_record :: "string \<Rightarrow> int \<Rightarrow> account \<Rightarrow> account \<times> rec_dict result" where
  "account_record name number a =
     (let table = lookup_or [] (ac_tables a) name;
          a = a\<lparr>ac_tables := AList.update name table (ac_tables a)\<rparr>
      in case map_of table number of
           Some r \<Rightarrow> (a, Inr r)
         | None \<Rightarrow>
             (case spec_by_name name of
                None \<Rightarrow> (a, Inl KeyError)
              | Some spec \<Rightarrow>
                  let r = blank_record spec
                  in (a\<lparr>ac_tables := AList.update name (AList.update number r table) (ac_tables a)\<rparr>, Inr r)))"

definition account_numbers :: "string \<Rightarrow> account \<Rightarrow> int list" where
  "account_numbers name a = sort (map fst (lookup_or [] (ac_tables a) name))"

section \<open>Saving and loading\<close>

text \<open>\<open>asdict\<close> of the two settings, and their constructors with keyword arguments.\<close>

definition identity_dict :: "panel_identity \<Rightarrow> jobject" where
  "identity_dict i =
     [(''control_type'', pi_control_type i), (''serial_number'', pi_serial_number i),
      (''software_version'', pi_software_version i), (''hardware_version'', pi_hardware_version i),
      (''boot_version'', pi_boot_version i), (''voice_list_version'', pi_voice_list_version i)]"

definition connection_dict :: "connection_settings \<Rightarrow> jobject" where
  "connection_dict c =
     [(''method'', cs_method c), (''host'', cs_host c), (''port'', cs_port c), (''secure'', cs_secure c),
      (''serial_port'', cs_serial_port c), (''baud'', cs_baud c)]"

definition identity_of :: "jobject \<Rightarrow> panel_identity result" where
  "identity_of d =
     (if list_all (\<lambda>(k, v). k \<in> set (map fst (identity_dict default_identity))) d
      then let x = default_identity in Inr
        \<lparr>pi_control_type = lookup_or (pi_control_type x) d ''control_type'',
         pi_serial_number = lookup_or (pi_serial_number x) d ''serial_number'',
         pi_software_version = lookup_or (pi_software_version x) d ''software_version'',
         pi_hardware_version = lookup_or (pi_hardware_version x) d ''hardware_version'',
         pi_boot_version = lookup_or (pi_boot_version x) d ''boot_version'',
         pi_voice_list_version = lookup_or (pi_voice_list_version x) d ''voice_list_version''\<rparr>
      else Inl TypeError)"

definition connection_of :: "jobject \<Rightarrow> connection_settings result" where
  "connection_of d =
     (if list_all (\<lambda>(k, v). k \<in> set (map fst (connection_dict default_connection))) d
      then let x = default_connection in Inr
        \<lparr>cs_method = lookup_or (cs_method x) d ''method'',
         cs_host = lookup_or (cs_host x) d ''host'',
         cs_port = lookup_or (cs_port x) d ''port'',
         cs_secure = lookup_or (cs_secure x) d ''secure'',
         cs_serial_port = lookup_or (cs_serial_port x) d ''serial_port'',
         cs_baud = lookup_or (cs_baud x) d ''baud''\<rparr>
      else Inl TypeError)"

text \<open>\<open>_jsonable\<close> and \<open>_from_jsonable\<close>.\<close>

fun jvalue :: "rval \<Rightarrow> jval" where
  "jvalue (R_int i) = J_int i"
| "jvalue (R_str s) = J_str s"
| "jvalue (R_words ws) = J_ints ws"
| "jvalue (R_bytes bs) = J_str (bytes_hex bs)"
| "jvalue (R_bool b) = J_bool b"

definition jsonable :: "rec_dict \<Rightarrow> jobject" where
  "jsonable r = map (\<lambda>(k, v). (k, jvalue v)) r"

definition field_value :: "field_spec \<Rightarrow> jval \<Rightarrow> rval result" where
  "field_value f v =
     (if fs_kind f = F_BYTES
      then (case v of J_str s \<Rightarrow> bindr (fromhex s) (\<lambda>bs. Inr (R_bytes bs)) | _ \<Rightarrow> Inl TypeError)
      else (case v of
              J_int i \<Rightarrow> Inr (R_int i) | J_str s \<Rightarrow> Inr (R_str s) | J_ints ws \<Rightarrow> Inr (R_words ws)
            | J_bool b \<Rightarrow> Inr (R_bool b) | J_null \<Rightarrow> Inl TypeError))"

fun from_jsonable :: "field_spec list \<Rightarrow> jobject \<Rightarrow> rec_dict \<Rightarrow> rec_dict result" where
  "from_jsonable [] r out = Inr out"
| "from_jsonable (f # fs) r out =
     (case lookup_or J_null r (fs_name f) of
        J_null \<Rightarrow> from_jsonable fs r out
      | v \<Rightarrow> bindr (field_value f v) (\<lambda>x. from_jsonable fs r (dict_put (fs_name f) x out)))"

record document =
  jd_format :: "jval option"
  jd_name :: "string option"
  jd_notes :: "string option"
  jd_identity :: "jobject option"
  jd_connection :: "jobject option"
  jd_tables :: "(string \<times> (string \<times> jobject) list) list option"
  jd_rules_text :: "string option"

definition FORMAT_VERSION :: int where "FORMAT_VERSION = 1"

definition to_json :: "account \<Rightarrow> document" where
  "to_json a =
     \<lparr>jd_format = Some (J_int FORMAT_VERSION),
      jd_name = Some (ac_name a),
      jd_notes = Some (ac_notes a),
      jd_identity = Some (identity_dict (ac_identity a)),
      jd_connection = Some (connection_dict (ac_connection a)),
      jd_tables = Some (map (\<lambda>(name, table).
        (name, map (\<lambda>(n, r). (int_text n, jsonable r)) (sort_key fst table))) (ac_tables a)),
      jd_rules_text = Some (ac_rules_text a)\<rparr>"

text \<open>A missing key takes its default; \<open>True\<close> equals the format number 1.\<close>

definition opt :: "'a \<Rightarrow> 'a option \<Rightarrow> 'a" where
  "opt x v = (case v of None \<Rightarrow> x | Some y \<Rightarrow> y)"

fun load_rows :: "record_spec \<Rightarrow> (string \<times> jobject) list \<Rightarrow> rec_table \<Rightarrow> rec_table result" where
  "load_rows spec [] out = Inr out"
| "load_rows spec ((n, r) # rows) out =
     bindr (py_int 10 n) (\<lambda>k.
     bindr (from_jsonable (rs_fields spec @ rs_extra spec) r []) (\<lambda>x.
     load_rows spec rows (AList.update k x out)))"

fun load_tables ::
    "(string \<times> (string \<times> jobject) list) list \<Rightarrow> (string \<times> rec_table) list \<Rightarrow>
     (string \<times> rec_table) list result" where
  "load_tables [] out = Inr out"
| "load_tables ((name, rows) # tables) out =
     (case spec_by_name name of
        None \<Rightarrow> Inl KeyError
      | Some spec \<Rightarrow> bindr (load_rows spec rows []) (\<lambda>t. load_tables tables (AList.update name t out)))"

definition from_json :: "document \<Rightarrow> account result" where
  "from_json d =
     (if \<not> (jd_format d = Some (J_int FORMAT_VERSION) \<or> jd_format d = Some (J_bool True)) then Inl ValueError
      else bindr (identity_of (opt [] (jd_identity d))) (\<lambda>i.
           bindr (connection_of (opt [] (jd_connection d))) (\<lambda>c.
           bindr (load_tables (opt [] (jd_tables d)) []) (\<lambda>ts.
           Inr \<lparr>ac_name = opt [] (jd_name d), ac_notes = opt [] (jd_notes d), ac_identity = i,
                ac_connection = c, ac_tables = ts, ac_rules_text = opt [] (jd_rules_text d)\<rparr>))))"

section \<open>Bytes and numbers\<close>

lemma hex_char_facts:
  assumes "n < 16"
  shows "digit_val (hex_char n) = Some n" and "\<not> ascii_blank (hex_char n)"
proof -
  have "pyord (hex_char n) = (if n < 10 then 48 + n else 87 + n)" using assms by (simp add: hex_char_def)
  then show "digit_val (hex_char n) = Some n" "\<not> ascii_blank (hex_char n)"
    using assms by (auto simp: digit_val_def ascii_blank_def Let_def)
qed

lemma fromhex_bytes_hex: "fromhex (bytes_hex bs) = Inr bs"
proof (induction bs)
  case Nil
  then show ?case by (simp add: bytes_hex_def)
next
  case (Cons b bs)
  have b: "unat b < 256" by (rule order_less_le_trans [OF unsigned_less]) simp
  have s: "bytes_hex (b # bs) = hex_char (unat b div 16) # hex_char (unat b mod 16) # bytes_hex bs"
    by (simp add: bytes_hex_def)
  have "unat b div 16 < 16" "unat b mod 16 < 16" using b by auto
  moreover have "word_of_nat (16 * (unat b div 16) + unat b mod 16) = b" by simp
  ultimately show ?case using Cons.IH unfolding s by (simp add: hex_char_facts)
qed

lemma py_int_int_text: "0 \<le> n \<Longrightarrow> py_int 10 (int_text n) = Inr n"
  by (simp add: int_text_def py_int_def parse_int_all_digits all_digits_to_digits digits_value_to_digits)

section \<open>Records\<close>

text \<open>What a document keeps of a record: the fields of its type, in their order.\<close>

definition saved_part :: "record_spec \<Rightarrow> rec_dict \<Rightarrow> rec_dict" where
  "saved_part spec r =
     concat (map (\<lambda>f. case map_of r (fs_name f) of None \<Rightarrow> [] | Some v \<Rightarrow> [(fs_name f, v)])
       (rs_fields spec @ rs_extra spec))"

text \<open>The values a decoded record has: bytes in the fields of that kind and nowhere else.\<close>

definition kind_ok :: "field_spec \<Rightarrow> rval \<Rightarrow> bool" where
  "kind_ok f v = (case v of R_bytes bs \<Rightarrow> fs_kind f = F_BYTES | _ \<Rightarrow> fs_kind f \<noteq> F_BYTES)"

definition rec_ok :: "record_spec \<Rightarrow> rec_dict \<Rightarrow> bool" where
  "rec_ok spec r =
     list_all (\<lambda>f. case map_of r (fs_name f) of None \<Rightarrow> True | Some v \<Rightarrow> kind_ok f v) (rs_fields spec @ rs_extra spec)"

lemma field_value_jvalue: "kind_ok f v \<Longrightarrow> field_value f (jvalue v) = Inr v"
  by (cases v) (auto simp: kind_ok_def field_value_def fromhex_bytes_hex)

lemma map_of_jsonable: "map_of (jsonable r) k = map_option jvalue (map_of r k)"
  by (induction r) (auto simp: jsonable_def)

lemma jvalue_not_null [simp]: "jvalue v \<noteq> J_null"
  by (cases v) auto

lemma lookup_jsonable:
  "lookup_or J_null (jsonable r) k = (case map_of r k of None \<Rightarrow> J_null | Some v \<Rightarrow> jvalue v)"
  by (simp add: lookup_or_def map_of_jsonable split: option.splits)

lemma from_jsonable_step:
  assumes "map_of r (fs_name f) = Some v"
  shows "from_jsonable (f # fs) (jsonable r) out =
    bindr (field_value f (jvalue v)) (\<lambda>x. from_jsonable fs (jsonable r) (dict_put (fs_name f) x out))"
  using assms by (cases v) (simp_all add: lookup_jsonable)

lemma from_jsonable_jsonable:
  assumes "\<And>f. f \<in> set fs \<Longrightarrow> (case map_of r (fs_name f) of None \<Rightarrow> True | Some v \<Rightarrow> kind_ok f v)"
    and "distinct (map fs_name fs)" and "\<And>f. f \<in> set fs \<Longrightarrow> fs_name f \<notin> fst ` set out"
  shows "from_jsonable fs (jsonable r) out =
    Inr (out @ concat (map (\<lambda>f. case map_of r (fs_name f) of None \<Rightarrow> [] | Some v \<Rightarrow> [(fs_name f, v)]) fs))"
  using assms
proof (induction fs arbitrary: out)
  case Nil
  then show ?case by simp
next
  case (Cons f fs)
  show ?case
  proof (cases "map_of r (fs_name f)")
    case None
    then show ?thesis using Cons by (simp add: lookup_jsonable)
  next
    case (Some v)
    have "field_value f (jvalue v) = Inr v" using Cons.prems(1) [of f] Some by (simp add: field_value_jvalue)
    moreover have "dict_put (fs_name f) v out = out @ [(fs_name f, v)]"
      using Cons.prems(3) [of f] by (intro dict_put_fresh) simp
    moreover have "from_jsonable fs (jsonable r) (out @ [(fs_name f, v)]) =
        Inr ((out @ [(fs_name f, v)]) @
          concat (map (\<lambda>f. case map_of r (fs_name f) of None \<Rightarrow> [] | Some v \<Rightarrow> [(fs_name f, v)]) fs))"
      using Cons.prems by (intro Cons.IH) (auto simp: image_iff)
    ultimately show ?thesis by (simp only: from_jsonable_step [OF Some] bindr.simps) (simp add: Some)
  qed
qed

section \<open>Tables\<close>

lemma spec_field_names:
  "spec_by_name name = Some spec \<Longrightarrow> distinct (map fs_name (rs_fields spec @ rs_extra spec))"
proof -
  assume "spec_by_name name = Some spec"
  then have "spec \<in> set all_specs" by (auto simp: spec_by_name_def dest!: map_of_SomeD)
  moreover have "\<forall>spec \<in> set all_specs. distinct (map fs_name (rs_fields spec @ rs_extra spec))"
    by (simp add: all_specs_def zone_spec_def area_spec_def keypad_spec_def user_spec_def output_spec_def
        task_spec_def telephone_spec_def global_spec_def x10_spec_def voice_message_spec_def field_spec_def)
  ultimately show ?thesis by blast
qed

lemma update_fresh: "k \<notin> fst ` set d \<Longrightarrow> AList.update k v d = d @ [(k, v)]"
  by (induction d) auto

lemma load_rows_saved:
  assumes "spec_by_name name = Some spec"
    and "\<And>n r. (n, r) \<in> set table \<Longrightarrow> 0 \<le> n \<and> rec_ok spec r"
    and "distinct (map fst table)" and "\<And>n. n \<in> fst ` set table \<Longrightarrow> n \<notin> fst ` set out"
  shows "load_rows spec (map (\<lambda>(n, r). (int_text n, jsonable r)) table) out =
    Inr (out @ map (\<lambda>(n, r). (n, saved_part spec r)) table)"
  using assms(2-4)
proof (induction table arbitrary: out)
  case Nil
  then show ?case by simp
next
  case (Cons row table)
  obtain n r where row: "row = (n, r)" by force
  have nr: "0 \<le> n" "rec_ok spec r" using Cons.prems(1) [of n r] row by auto
  have ok: "case map_of r (fs_name f) of None \<Rightarrow> True | Some v \<Rightarrow> kind_ok f v"
    if "f \<in> set (rs_fields spec @ rs_extra spec)" for f
    using nr(2) that unfolding rec_ok_def list_all_iff by blast
  have "from_jsonable (rs_fields spec @ rs_extra spec) (jsonable r) [] = Inr (saved_part spec r)"
    using from_jsonable_jsonable [OF ok spec_field_names [OF assms(1)], of "[]"] by (simp add: saved_part_def)
  moreover have "AList.update n (saved_part spec r) out = out @ [(n, saved_part spec r)]"
    using Cons.prems(3) row by (intro update_fresh) simp
  moreover have "load_rows spec (map (\<lambda>(n, r). (int_text n, jsonable r)) table) (out @ [(n, saved_part spec r)]) =
      Inr ((out @ [(n, saved_part spec r)]) @ map (\<lambda>(n, r). (n, saved_part spec r)) table)"
    using Cons.prems row by (intro Cons.IH) (auto simp: image_iff)
  ultimately show ?case using nr(1) by (simp add: row py_int_int_text)
qed

text \<open>An account whose tables are those of known record types, with distinct record numbers.\<close>

definition table_ok :: "string \<times> rec_table \<Rightarrow> bool" where
  "table_ok t =
     (case t of (name, table) \<Rightarrow>
        (case spec_by_name name of
           None \<Rightarrow> False
         | Some spec \<Rightarrow> distinct (map fst table) \<and> list_all (\<lambda>(n, r). 0 \<le> n \<and> rec_ok spec r) table))"

definition saved_table :: "string \<times> rec_table \<Rightarrow> string \<times> rec_table" where
  "saved_table t =
     (case t of (name, table) \<Rightarrow>
        (name, map (\<lambda>(n, r). (n, saved_part (the (spec_by_name name)) r)) (sort_key fst table)))"

lemma load_tables_saved:
  assumes "list_all table_ok ts" and "distinct (map fst ts)"
    and "\<And>name. name \<in> fst ` set ts \<Longrightarrow> name \<notin> fst ` set out"
  shows "load_tables (map (\<lambda>(name, table).
      (name, map (\<lambda>(n, r). (int_text n, jsonable r)) (sort_key fst table))) ts) out =
    Inr (out @ map saved_table ts)"
  using assms
proof (induction ts arbitrary: out)
  case Nil
  then show ?case by simp
next
  case (Cons t ts)
  obtain name table where t: "t = (name, table)" by force
  with Cons.prems(1) obtain spec where spec: "spec_by_name name = Some spec"
    and d: "distinct (map fst table)" and r: "\<And>n r. (n, r) \<in> set table \<Longrightarrow> 0 \<le> n \<and> rec_ok spec r"
    by (auto simp: table_ok_def list_all_iff split: option.splits)
  have "distinct (map fst (sort_key fst table))"
    using d by (simp add: distinct_map)
  then have rows: "load_rows spec (map (\<lambda>(n, r). (int_text n, jsonable r)) (sort_key fst table)) [] =
      Inr (snd (saved_table t))"
    using load_rows_saved [OF spec, of "sort_key fst table" "[]"] r by (simp add: saved_table_def t spec)
  have up: "AList.update name (snd (saved_table t)) out = out @ [saved_table t]"
    using Cons.prems(3) t by (subst update_fresh) (simp_all add: saved_table_def)
  have "load_tables (map (\<lambda>(name, table).
      (name, map (\<lambda>(n, r). (int_text n, jsonable r)) (sort_key fst table))) ts) (out @ [saved_table t]) =
      Inr ((out @ [saved_table t]) @ map saved_table ts)"
    using Cons.prems t by (intro Cons.IH) (auto simp: image_iff saved_table_def)
  then show ?case using rows up by (simp add: t spec)
qed

lemma settings_roundtrip:
  "identity_of (identity_dict i) = Inr i" "connection_of (connection_dict c) = Inr c"
  by (simp_all add: identity_of_def identity_dict_def connection_of_def connection_dict_def lookup_or_def Let_def)

section \<open>Properties\<close>

text \<open>Saving and loading an account gives back its name, notes, settings and rules, and every
  table with its records sorted by number; of each record exactly the fields of its type come back,
  with their values.\<close>

theorem account_roundtrip:
  assumes "list_all table_ok (ac_tables a)" and "distinct (map fst (ac_tables a))"
  shows "from_json (to_json a) = Inr (a\<lparr>ac_tables := map saved_table (ac_tables a)\<rparr>)"
  using load_tables_saved [OF assms, of "[]"] settings_roundtrip
  by (simp add: from_json_def to_json_def opt_def FORMAT_VERSION_def)

theorem account_roundtrip_witness:
  "from_json (to_json ((new_account ''Home'')\<lparr>ac_tables := [(''voice_message'',
      [(2, [(''P'', R_words [1, 2, 3, 4, 5, 6])]), (1, [])])]\<rparr>)) =
    Inr ((new_account ''Home'')\<lparr>ac_tables := [(''voice_message'',
      [(1, []), (2, [(''P'', R_words [1, 2, 3, 4, 5, 6])])])]\<rparr>)"
proof -
  let ?a = "(new_account ''Home'')\<lparr>ac_tables := [(''voice_message'',
      [(2, [(''P'', R_words [1, 2, 3, 4, 5, 6])]), (1, [])])]\<rparr>"
  have spec: "spec_by_name ''voice_message'' = Some voice_message_spec"
    by (simp add: spec_by_name_def all_specs_def zone_spec_def area_spec_def keypad_spec_def user_spec_def
        output_spec_def task_spec_def telephone_spec_def global_spec_def x10_spec_def voice_message_spec_def)
  have "list_all table_ok (ac_tables ?a)"
    by (simp add: table_ok_def spec rec_ok_def kind_ok_def voice_message_spec_def field_spec_def)
  moreover have "distinct (map fst (ac_tables ?a))" by simp
  ultimately show ?thesis
    using account_roundtrip [of ?a]
    by (simp add: saved_table_def spec saved_part_def voice_message_spec_def field_spec_def)
qed

text \<open>
  The show-on-keypad flag of a name is an entry of the record that is not a field of its type: a
  saved account forgets it, and the record then encodes to other bytes.
\<close>

lemma show_flag_is_lost:
  "saved_part x10_spec [(''Description'', R_str ''Lamp''), (show_key ''Description'', R_bool True)] =
     [(''Description'', R_str ''Lamp'')]"
  by (simp add: saved_part_def x10_spec_def field_spec_def show_key_def)

end
