(* ===== verification/Rp_Sync.thy ===== *)
theory Rp_Sync
  imports Rp_Session Rp_Account
begin

text \<open>
  \<open>elk_programmer/protocol/panel.py\<close> and \<open>sync.py\<close>: which opcode carries which table, reading every
  mapped record of the panel into the account, and sending and verifying one record.
\<close>

section \<open>The wire map\<close>

record wire_map =
  wm_record :: opcode
  wm_size :: nat
  wm_sub :: int
  wm_fixed_item :: "int option"
  wm_note :: string

definition wire_entry :: "opcode \<Rightarrow> nat \<Rightarrow> string \<Rightarrow> wire_map" where
  "wire_entry opcode len note =
     \<lparr>wm_record = opcode, wm_size = len, wm_sub = 0, wm_fixed_item = None, wm_note = note\<rparr>"

definition wire_item :: "wire_map \<Rightarrow> int \<Rightarrow> int" where
  "wire_item w number = (case wm_fixed_item w of None \<Rightarrow> number | Some i \<Rightarrow> i)"

definition WIRE :: "(string \<times> wire_map) list" where
  "WIRE =
     [(rs_name area_spec, wire_entry AREA 24 ''Area_Definitions.cs 5795-5836, 6305-6350''),
      (rs_name zone_spec,
       wire_entry ZONE 32 ''Zone_Definitions.cs 9726-9748, 10414-10489 (32 bytes on 4.0.0+)''),
      (rs_name keypad_spec,
       wire_entry KEYPAD 28 ''Keypad_Definitions.cs 10442-10499, 11098-11199 (page 0)''),
      (rs_name user_spec, wire_entry USER_CODE 28 ''User_Codes.cs 7531-7536, 8093-8102''),
      (rs_name output_spec,
       (wire_entry DESCRIPTION 28 ''Outputs.cs 3788-3830, 4213-4258 (text class 1)'')\<lparr>wm_sub := 1\<rparr>),
      (rs_name task_spec,
       (wire_entry DESCRIPTION 28 ''Tasks.cs 7130-7326 (text class 3 for tasks)'')\<lparr>wm_sub := 3\<rparr>),
      (rs_name telephone_spec, wire_entry TELEPHONE 88 ''Telephone_Numbers.cs 8630-8638, 9222-9230''),
      (rs_name global_spec,
       (wire_entry GLOBAL 48 ''Globals_Data.cs 7969-8052, 8401-8476 (48 bytes above firmware 4.3)'')
         \<lparr>wm_fixed_item := Some 1\<rparr>),
      (rs_name x10_spec,
       (wire_entry X10 28 ''X10_Outputs.cs 4546-4672, 5029-5114 (count 1 per request)'')\<lparr>wm_sub := 1\<rparr>)]"

definition UNMAPPED_REASON :: "(string \<times> string) list" where
  "UNMAPPED_REASON =
     [(rs_name voice_message_spec,
       ''voice messages are read in pages (opcode 0x0D, Voice_Messages.cs 3432-3440); the page layout is not yet traced'')]"

text \<open>\<open>wire_for\<close>: the left side carries the text of the \<open>LookupError\<close>.\<close>

definition wire_for :: "string \<Rightarrow> string + wire_map" where
  "wire_for name =
     (case map_of WIRE name of
        Some w \<Rightarrow> Inr w
      | None \<Rightarrow> Inl (lookup_or (name @ '' has no wire mapping'') UNMAPPED_REASON name))"

section \<open>Receiving\<close>

definition RECEIVE_ORDER :: "string list" where
  "RECEIVE_ORDER =
     [''global'', ''area'', ''keypad'', ''zone'', ''user'', ''output'', ''task'', ''telephone'', ''lighting'']"

record receive_report =
  rp_read :: "(string \<times> nat) list"
  rp_changed :: "(string \<times> int list) list"
  rp_unanswered :: "(string \<times> int list) list"
  rp_errors :: "string list"

definition empty_report :: receive_report where
  "empty_report = \<lparr>rp_read = [], rp_changed = [], rp_unanswered = [], rp_errors = []\<rparr>"

definition item_range :: "record_spec \<Rightarrow> nat option \<Rightarrow> int list" where
  "item_range spec limit =
     (let count = (case limit of None \<Rightarrow> rs_count spec | Some l \<Rightarrow> min (rs_count spec) l)
      in map int [rs_first spec ..< rs_first spec + count])"

text \<open>\<open>d.setdefault(name, []).append(number)\<close>.\<close>

definition append_at :: "string \<Rightarrow> 'a \<Rightarrow> (string \<times> 'a list) list \<Rightarrow> (string \<times> 'a list) list" where
  "append_at name x d = AList.update name (lookup_or [] d name @ [x]) d"

text \<open>\<open>local.update(decoded)\<close>.\<close>

definition dict_update :: "rec_dict \<Rightarrow> rec_dict \<Rightarrow> rec_dict" where
  "dict_update d e = foldl (\<lambda>d kv. dict_put (fst kv) (snd kv) d) d e"

fun error_text :: "session_error \<Rightarrow> string" where
  "error_text (Session_error m) = m"
| "error_text (Timed_out m) = m"
| "error_text (Disconnected m) = m"
| "error_text (Wrong_reply m) = m"
| "error_text (Raised e) = []"
| "error_text Assertion_failed = []"

text \<open>How a step of the receive ends: it goes on, it stops with the report, or an exception leaves it.\<close>

datatype flow = Go | Stop | Raise session_error

record 's receiving =
  rc_session :: 's
  rc_account :: account
  rc_report :: receive_report

text \<open>A record that arrived: decoded, compared with the local copy and merged.\<close>

definition store_record :: "record_spec \<Rightarrow> int \<Rightarrow> byte list \<Rightarrow> 's receiving \<Rightarrow> 's receiving \<times> flow" where
  "store_record spec number raw st =
     (let name = rs_name spec in
      case decode_record spec raw of
        Inl e \<Rightarrow> (st, Raise (Raised e))
      | Inr decoded \<Rightarrow>
          let tables = ac_tables (rc_account st);
              table = lookup_or [] tables name;
              st = st\<lparr>rc_account := (rc_account st)\<lparr>ac_tables := AList.update name table tables\<rparr>\<rparr>;
              known = map_of table number
          in case (case known of None \<Rightarrow> Inr True | Some r \<Rightarrow> bindr (encode_record spec r) (\<lambda>b. Inr (b \<noteq> raw))) of
               Inl e \<Rightarrow> (st, Raise (Raised e))
             | Inr changed \<Rightarrow>
                 let r = (case known of None \<Rightarrow> decoded | Some r \<Rightarrow> dict_update r decoded);
                     rep = rc_report st;
                     rep = (if changed then rep\<lparr>rp_changed := append_at name number (rp_changed rep)\<rparr> else rep);
                     rep = rep\<lparr>rp_read := AList.update name (lookup_or 0 (rp_read rep) name + 1) (rp_read rep)\<rparr>
                 in (st\<lparr>rc_account := (rc_account st)\<lparr>ac_tables :=
                          AList.update name (AList.update number r table) tables\<rparr>,
                        rc_report := rep\<rparr>, Go))"

text \<open>One item: the source of the records is a parameter, \<open>session.read_record\<close> below.\<close>

type_synonym 's source = "opcode \<Rightarrow> int \<Rightarrow> nat \<Rightarrow> int \<Rightarrow> 's \<Rightarrow> 's \<times> (session_error + byte list)"

definition receive_item :: "'s source \<Rightarrow> record_spec \<Rightarrow> wire_map \<Rightarrow> int \<Rightarrow> 's receiving \<Rightarrow> 's receiving \<times> flow" where
  "receive_item fetch spec w number st =
     (let name = rs_name spec;
          (s, r) = fetch (wm_record w) (wire_item w number) (wm_size w) (wm_sub w) (rc_session st);
          st = st\<lparr>rc_session := s\<rparr>;
          rep = rc_report st;
          missing = rep\<lparr>rp_unanswered := append_at name number (rp_unanswered rep)\<rparr>;
          where_text = rs_label spec @ '' '' @ int_text number @ '': ''
      in case r of
           Inr raw \<Rightarrow> store_record spec number raw st
         | Inl (Timed_out m) \<Rightarrow> (st\<lparr>rc_report := missing\<rparr>, Go)
         | Inl (Wrong_reply m) \<Rightarrow>
             (st\<lparr>rc_report := missing\<lparr>rp_errors := rp_errors missing @ [where_text @ m]\<rparr>\<rparr>, Go)
         | Inl e \<Rightarrow>
             if is_session_error e
             then (st\<lparr>rc_report := rep\<lparr>rp_errors := rp_errors rep @
                      [where_text @ error_text e @ ''; receive stopped'']\<rparr>\<rparr>, Stop)
             else (st, Raise e))"

fun receive_items :: "'s source \<Rightarrow> record_spec \<Rightarrow> wire_map \<Rightarrow> int list \<Rightarrow> 's receiving \<Rightarrow> 's receiving \<times> flow" where
  "receive_items fetch spec w [] st = (st, Go)"
| "receive_items fetch spec w (n # ns) st =
     (case receive_item fetch spec w n st of
        (st, Go) \<Rightarrow> receive_items fetch spec w ns st
      | (st, f) \<Rightarrow> (st, f))"

fun receive_tables ::
    "'s source \<Rightarrow> (string \<times> nat) list \<Rightarrow> string list \<Rightarrow> 's receiving \<Rightarrow> 's receiving \<times> flow" where
  "receive_tables fetch limits [] st = (st, Go)"
| "receive_tables fetch limits (name # names) st =
     (case spec_by_name name of
        None \<Rightarrow> (st, Raise (Raised KeyError))
      | Some spec \<Rightarrow>
          (case map_of WIRE name of
             None \<Rightarrow>
               receive_tables fetch limits names
                 (st\<lparr>rc_report := (rc_report st)\<lparr>rp_errors :=
                    rp_errors (rc_report st) @ [name @ '': no wire mapping'']\<rparr>\<rparr>)
           | Some w \<Rightarrow>
               (case receive_items fetch spec w (item_range spec (map_of limits name)) st of
                  (st, Go) \<Rightarrow> receive_tables fetch limits names st
                | (st, f) \<Rightarrow> (st, f))))"

definition receive_all ::
    "string list \<Rightarrow> (string \<times> nat) list \<Rightarrow> session \<Rightarrow> account \<Rightarrow> session receiving \<times> flow" where
  "receive_all tables limits s a =
     receive_tables session_read_record limits tables
       \<lparr>rc_session = s, rc_account = a, rc_report = empty_report\<rparr>"

section \<open>Sending and verifying\<close>

definition send_record :: "string \<Rightarrow> int \<Rightarrow> session \<Rightarrow> account \<Rightarrow> session \<times> account \<times> (session_error + byte list)" where
  "send_record name number s a =
     (case (spec_by_name name, map_of WIRE name) of
        (Some spec, Some w) \<Rightarrow>
          (case account_record name number a of
             (a, Inl e) \<Rightarrow> (s, a, Inl (Raised e))
           | (a, Inr r) \<Rightarrow>
               (case encode_record spec r of
                  Inl e \<Rightarrow> (s, a, Inl (Raised e))
                | Inr payload \<Rightarrow>
                    (case send_request (write_record (wm_record w) (wire_item w number) payload (wm_sub w)) s of
                       (s, r) \<Rightarrow> (s, a, r))))
      | _ \<Rightarrow> (s, a, Inl (Raised KeyError)))"

definition verify_record ::
    "string \<Rightarrow> int \<Rightarrow> session \<Rightarrow> account \<Rightarrow> session \<times> account \<times> (session_error + int \<times> int)" where
  "verify_record name number s a =
     (case (spec_by_name name, map_of WIRE name) of
        (Some spec, Some w) \<Rightarrow>
          (case session_record_crc (wm_record w) (wire_item w number) s of
             (s, Inl e) \<Rightarrow> (s, a, Inl e)
           | (s, Inr panel_crc) \<Rightarrow>
               (case account_record name number a of
                  (a, Inl e) \<Rightarrow> (s, a, Inl (Raised e))
                | (a, Inr r) \<Rightarrow>
                    (case encode_record spec r of
                       Inl e \<Rightarrow> (s, a, Inl (Raised e))
                     | Inr raw \<Rightarrow> (s, a, Inr (panel_crc, uint (crc16 raw))))))
      | _ \<Rightarrow> (s, a, Inl (Raised KeyError)))"

section \<open>Decoded records\<close>

lemma map_of_dict_put: "map_of (dict_put k v d) k' = (if k' = k then Some v else map_of d k')"
  by (induction k v d rule: dict_put.induct) auto

lemma map_of_dict_update:
  "distinct (map fst e) \<Longrightarrow>
    map_of (dict_update d e) k = (case map_of e k of None \<Rightarrow> map_of d k | Some v \<Rightarrow> Some v)"
proof (induction e arbitrary: d)
  case Nil
  then show ?case by (simp add: dict_update_def)
next
  case (Cons kv e)
  have "dict_update d (kv # e) = dict_update (dict_put (fst kv) (snd kv) d) e" by (simp add: dict_update_def)
  moreover have "map_of e (fst kv) = None" using Cons.prems by (simp add: map_of_eq_None_iff)
  ultimately show ?case using Cons by (auto simp: map_of_dict_put split: option.splits)
qed

lemma mapr_cong: "(\<And>x. x \<in> set xs \<Longrightarrow> f x = g x) \<Longrightarrow> mapr f xs = mapr g xs"
  by (induction xs) auto

lemma encode_record_cong:
  assumes "\<And>k. k \<in> set (spec_keys (rs_fields spec)) \<Longrightarrow> map_of d k = map_of d' k"
  shows "encode_record spec d = encode_record spec d'"
proof -
  have "field_bytes d f = field_bytes d' f" if "f \<in> set (rs_fields spec)" for f
  proof -
    have k: "fs_name f \<in> set (spec_keys (rs_fields spec))"
      "fs_kind f = F_TEXT \<Longrightarrow> show_key (fs_name f) \<in> set (spec_keys (rs_fields spec))"
      using that by (auto simp: spec_keys_def field_keys_def)
    show ?thesis using assms [OF k(1)] assms [OF k(2)]
      by (cases "fs_kind f = F_TEXT") (simp_all add: field_bytes_def)
  qed
  then have "mapr (field_bytes d) (rs_fields spec) = mapr (field_bytes d') (rs_fields spec)"
    by (rule mapr_cong)
  then show ?thesis by (simp add: encode_record_def)
qed

lemma decode_fields_shape:
  assumes "decode_fields fs raw out = Inr d" and "distinct (spec_keys fs)"
    and "\<And>k. k \<in> set (spec_keys fs) \<Longrightarrow> k \<notin> fst ` set out"
  shows "\<exists>rest. d = out @ rest \<and> map fst rest = spec_keys fs \<and>
    (\<forall>f \<in> set fs. \<exists>v chunk. (fs_name f, v) \<in> set rest \<and> decode_field f chunk = Inr v)"
  using assms
proof (induction fs raw out rule: decode_fields.induct)
  case (1 raw out)
  then show ?case by (simp add: spec_keys_def)
next
  case (2 f fs raw out)
  let ?chunk = "take (fs_size f) raw" and ?raw = "drop (fs_size f) raw"
  obtain v where v: "decode_field f ?chunk = Inr v" using "2.prems"(1) by (auto simp: Let_def bindr_eq_Inr)
  have keys: "spec_keys (f # fs) = field_keys f @ spec_keys fs" by (simp add: spec_keys_def)
  have put: "dict_put (fs_name f) v out = out @ [(fs_name f, v)]"
    using "2.prems"(3) by (intro dict_put_fresh) (simp add: keys field_keys_def)
  show ?case
  proof (cases "fs_kind f = F_TEXT")
    case True
    obtain b where b: "item ?chunk 0 = Inr b"
      and d: "decode_fields fs ?raw (dict_put (show_key (fs_name f)) (R_bool (b AND 0x80 \<noteq> 0)) (out @ [(fs_name f, v)])) = Inr d"
      using "2.prems"(1) v True put by (auto simp: Let_def bindr_eq_Inr)
    let ?e = "[(fs_name f, v), (show_key (fs_name f), R_bool (b AND 0x80 \<noteq> 0))]"
    have put2: "dict_put (show_key (fs_name f)) (R_bool (b AND 0x80 \<noteq> 0)) (out @ [(fs_name f, v)]) = out @ ?e"
      using "2.prems"(2,3) True by (subst dict_put_fresh) (auto simp: keys field_keys_def)
    have dist: "distinct (spec_keys fs)" and fr: "\<And>k. k \<in> set (spec_keys fs) \<Longrightarrow> k \<notin> fst ` set (out @ ?e)"
      using "2.prems"(2,3) True by (auto simp: keys field_keys_def)
    from "2.IH"(1) [where xa = v and xc = b, OF refl refl True, unfolded put put2, OF d [unfolded put2] dist fr]
    obtain rest where "d = (out @ ?e) @ rest" "map fst rest = spec_keys fs"
      "\<forall>f \<in> set fs. \<exists>v chunk. (fs_name f, v) \<in> set rest \<and> decode_field f chunk = Inr v" by blast
    note rest = this
    have "\<exists>v chunk. (fs_name g, v) \<in> set (?e @ rest) \<and> decode_field g chunk = Inr v" if "g \<in> set (f # fs)" for g
      using that v rest(3) by (cases "g = f") (auto, blast)
    then show ?thesis using rest True by (intro exI [of _ "?e @ rest"]) (simp add: keys field_keys_def)
  next
    case False
    have d: "decode_fields fs ?raw (out @ [(fs_name f, v)]) = Inr d"
      using "2.prems"(1) v False put by (auto simp: Let_def)
    have dist: "distinct (spec_keys fs)"
      and fr: "\<And>k. k \<in> set (spec_keys fs) \<Longrightarrow> k \<notin> fst ` set (out @ [(fs_name f, v)])"
      using "2.prems"(2,3) False by (auto simp: keys field_keys_def)
    from "2.IH"(2) [where xa = v, OF refl refl False, unfolded put, OF d dist fr]
    obtain rest where "d = (out @ [(fs_name f, v)]) @ rest" "map fst rest = spec_keys fs"
      "\<forall>f \<in> set fs. \<exists>v chunk. (fs_name f, v) \<in> set rest \<and> decode_field f chunk = Inr v" by blast
    note rest = this
    have "\<exists>v' chunk. (fs_name g, v') \<in> set ((fs_name f, v) # rest) \<and> decode_field g chunk = Inr v'"
      if "g \<in> set (f # fs)" for g
      using that v rest(3) by (cases "g = f") (auto, blast)
    then show ?thesis using rest False
      by (intro exI [of _ "(fs_name f, v) # rest"]) (simp add: keys field_keys_def)
  qed
qed

text \<open>A decoded field can be encoded, and so can a record merged with a decoded one.\<close>

lemma str_digits_byte_digits: "\<exists>bs. str_digits (map byte_digit raw) = Inr bs"
proof -
  have "\<not> superscript (byte_digit b)" for b
  proof -
    have "pyord (digit_char (unat b mod 10)) = 48 + unat b mod 10" by (subst pyord_digit_char) auto
    moreover have "unat b mod 10 < 10" by simp
    ultimately show ?thesis by (simp only: superscript_def byte_digit_def) linarith
  qed
  then show ?thesis by (simp add: str_digits_def list_ex_iff)
qed

lemma decoded_field_encodes: "decode_field f chunk = Inr v \<Longrightarrow> \<exists>raw. encode_field f v = Inr raw"
  using str_digits_byte_digits [of chunk] str_digits_byte_digits [of "rev chunk"]
  by (cases "fs_kind f")
    (auto simp: decode_field_def encode_field_def bindr_eq_Inr value_int_def value_str_def value_ints_def value_bytes_def)

lemma decoded_shape:
  assumes "spec_wf spec" and "decode_record spec raw = Inr d"
  shows "distinct (map fst d)" and "map fst d = spec_keys (rs_fields spec)"
    and "f \<in> set (rs_fields spec) \<Longrightarrow> \<exists>v chunk. map_of d (fs_name f) = Some v \<and> decode_field f chunk = Inr v"
proof -
  have dist: "distinct (spec_keys (rs_fields spec))" by (rule spec_wfD(2) [OF assms(1)])
  have "decode_fields (rs_fields spec) raw [] = Inr d" using assms(2) by (auto simp: decode_record_def split: if_splits)
  from decode_fields_shape [OF this dist]
  have d: "map fst d = spec_keys (rs_fields spec)"
    "\<forall>f \<in> set (rs_fields spec). \<exists>v chunk. (fs_name f, v) \<in> set d \<and> decode_field f chunk = Inr v" by auto
  show "map fst d = spec_keys (rs_fields spec)" by (rule d(1))
  then show dd: "distinct (map fst d)" using dist by simp
  show "\<exists>v chunk. map_of d (fs_name f) = Some v \<and> decode_field f chunk = Inr v" if "f \<in> set (rs_fields spec)"
    using d(2) that map_of_is_SomeI [OF dd] by blast
qed

lemma decoded_encodes:
  assumes "spec_wf spec" and "decode_record spec raw = Inr d"
  shows "\<exists>b. encode_record spec d = Inr b"
proof -
  have "\<exists>b. field_bytes d f = Inr b" if f: "f \<in> set (rs_fields spec)" for f
  proof -
    obtain v chunk where v: "map_of d (fs_name f) = Some v" "decode_field f chunk = Inr v"
      using decoded_shape(3) [OF assms f] by blast
    obtain b where b: "encode_field f v = Inr b" using decoded_field_encodes [OF v(2)] by blast
    have wf: "field_wf f" by (rule spec_wfD(1) [OF assms(1) f])
    have "fs_kind f = F_TEXT \<Longrightarrow> \<exists>x xs. b = x # xs"
      using encode_field_length [OF wf b] wf by (cases b) (auto simp: field_wf_def fs_size_def)
    then show ?thesis using b by (auto simp: field_bytes_def v(1))
  qed
  then obtain parts where "mapr (field_bytes d) (rs_fields spec) = Inr parts" using mapr_total by blast
  then show ?thesis by (simp add: encode_record_def)
qed

lemma merged_encodes_as_decoded:
  assumes "spec_wf spec" and "decode_record spec raw = Inr d"
  shows "encode_record spec (dict_update r d) = encode_record spec d"
proof (rule encode_record_cong)
  fix k assume "k \<in> set (spec_keys (rs_fields spec))"
  then have "k \<in> fst ` set d" using decoded_shape(2) [OF assms] by (metis list.set_map)
  then obtain v where "map_of d k = Some v" by (metis map_of_eq_None_iff not_None_eq)
  then show "map_of (dict_update r d) k = map_of d k"
    by (simp add: map_of_dict_update [OF decoded_shape(1) [OF assms]])
qed

text \<open>A record of the right size can be decoded.\<close>

lemma word_pairs_total: "even (length bs) \<Longrightarrow> \<exists>ws. word_pairs bs = Inr ws"
  by (induction bs rule: word_pairs.induct) auto

lemma decode_field_total:
  assumes "field_wf f" and "length chunk = fs_size f"
  shows "\<exists>v. decode_field f chunk = Inr v"
proof (cases "fs_kind f")
  case F_VOICE
  then have "even (length chunk)" using assms(2) by (simp add: fs_size_def)
  then show ?thesis using word_pairs_total F_VOICE by (fastforce simp: decode_field_def)
next
  case F_U16
  then obtain a b where "chunk = [a, b]" using assms(2)
    by (cases chunk; cases "tl chunk") (auto simp: fs_size_def)
  then show ?thesis using F_U16 by (simp add: decode_field_def)
next
  case F_U8
  then obtain a where "chunk = [a]" using assms by (cases chunk) (auto simp: fs_size_def field_wf_def)
  then show ?thesis using F_U8 by (simp add: decode_field_def)
qed (simp_all add: decode_field_def)

lemma decode_fields_total:
  assumes "\<And>f. f \<in> set fs \<Longrightarrow> field_wf f" and "length raw = sum_list (map fs_size fs)"
  shows "\<exists>d. decode_fields fs raw out = Inr d"
  using assms
proof (induction fs arbitrary: raw out)
  case Nil
  then show ?case by simp
next
  case (Cons f fs)
  let ?chunk = "take (fs_size f) raw"
  have len: "length ?chunk = fs_size f" using Cons.prems(2) by simp
  have wf: "field_wf f" using Cons.prems(1) by simp
  obtain v where v: "decode_field f ?chunk = Inr v" using decode_field_total [OF wf len] by blast
  have rest: "\<exists>d. decode_fields fs (drop (fs_size f) raw) out' = Inr d" for out'
    using Cons.prems by (intro Cons.IH) auto
  show ?case
  proof (cases "fs_kind f = F_TEXT")
    case True
    then obtain b bs where "?chunk = b # bs" using len wf by (cases ?chunk) (auto simp: field_wf_def fs_size_def)
    then show ?thesis using v rest True by (simp add: Let_def)
  next
    case False
    then show ?thesis using v rest by (simp add: Let_def)
  qed
qed

lemma decode_record_total:
  "spec_wf spec \<Longrightarrow> length raw = rs_size spec \<Longrightarrow> \<exists>d. decode_record spec raw = Inr d"
  using decode_fields_total spec_wfD(1) by (simp add: decode_record_def rs_size_def)

section \<open>Storing a record\<close>

text \<open>Every record of the account that belongs to a known type can be encoded.\<close>

definition encodes :: "record_spec \<Rightarrow> rec_dict \<Rightarrow> bool" where
  "encodes spec r = (case encode_record spec r of Inl e \<Rightarrow> False | Inr b \<Rightarrow> True)"

definition table_encodes :: "string \<times> rec_table \<Rightarrow> bool" where
  "table_encodes t =
     (case t of (name, table) \<Rightarrow>
        (case spec_by_name name of
           None \<Rightarrow> True | Some spec \<Rightarrow> list_all (\<lambda>(n, r). encodes spec r) table))"

definition account_encodes :: "account \<Rightarrow> bool" where
  "account_encodes a = list_all table_encodes (ac_tables a)"

text \<open>The record with a number, if the account has it.\<close>

definition stored :: "account \<Rightarrow> string \<Rightarrow> int \<Rightarrow> rec_dict option" where
  "stored a name n = map_of (lookup_or [] (ac_tables a) name) n"

lemma set_AList_update: "set (AList.update k v al) \<subseteq> insert (k, v) (set al)"
  by (induction al) auto

lemma stored_update:
  "stored (a\<lparr>ac_tables := AList.update name (AList.update n r (lookup_or [] (ac_tables a) name)) (ac_tables a)\<rparr>)
     name' n' = (if name' = name \<and> n' = n then Some r else stored a name' n')"
  by (simp add: stored_def lookup_or_def update_conv' split: option.splits)

lemma lookup_encodes:
  assumes "account_encodes a" and "spec_by_name name = Some spec"
  shows "list_all (\<lambda>(n, r). encodes spec r) (lookup_or [] (ac_tables a) name)"
proof (cases "map_of (ac_tables a) name")
  case None
  then show ?thesis by (simp add: lookup_or_def)
next
  case (Some table)
  then have "table_encodes (name, table)"
    using assms(1) by (auto simp: account_encodes_def list_all_iff dest: map_of_SomeD)
  then show ?thesis using assms(2) Some by (simp add: table_encodes_def lookup_or_def)
qed

lemma stored_encodes:
  "account_encodes a \<Longrightarrow> spec_by_name name = Some spec \<Longrightarrow> stored a name n = Some r \<Longrightarrow>
    \<exists>b. encode_record spec r = Inr b"
  using lookup_encodes [of a name spec]
  by (cases "encode_record spec r") (fastforce simp: stored_def list_all_iff encodes_def dest!: map_of_SomeD)+

lemma account_encodes_update:
  assumes "account_encodes a" and "spec_by_name name = Some spec" and "encodes spec r"
  shows "account_encodes (a\<lparr>ac_tables :=
    AList.update name (AList.update n r (lookup_or [] (ac_tables a) name)) (ac_tables a)\<rparr>)"
proof -
  let ?t = "AList.update n r (lookup_or [] (ac_tables a) name)"
  have "list_all (\<lambda>(n, r). encodes spec r) ?t"
    using lookup_encodes [OF assms(1,2)] assms(3) set_AList_update [of n r "lookup_or [] (ac_tables a) name"]
    by (auto simp: list_all_iff)
  then have "table_encodes (name, ?t)" by (simp add: table_encodes_def assms(2))
  then show ?thesis using assms(1) set_AList_update [of name ?t "ac_tables a"]
    by (auto simp: account_encodes_def list_all_iff)
qed

text \<open>How many items a report counts for a table.\<close>

definition accounted :: "receive_report \<Rightarrow> string \<Rightarrow> nat" where
  "accounted rep name = lookup_or 0 (rp_read rep) name + length (lookup_or [] (rp_unanswered rep) name)"

lemma lookup_or_update: "lookup_or x (AList.update k v d) k' = (if k' = k then v else lookup_or x d k')"
  by (simp add: lookup_or_def update_conv')

lemma store_record_result:
  assumes spec: "spec_by_name (rs_name spec) = Some spec" "spec_wf spec" and len: "length raw = rs_size spec"
    and enc: "account_encodes (rc_account st)"
  shows "\<exists>st' d r. store_record spec n raw st = (st', Go) \<and> decode_record spec raw = Inr d \<and>
    account_encodes (rc_account st') \<and> rc_session st' = rc_session st \<and>
    (\<forall>name m. stored (rc_account st') name m =
      (if name = rs_name spec \<and> m = n then Some r else stored (rc_account st) name m)) \<and>
    encode_record spec r = encode_record spec d \<and>
    (\<forall>name. accounted (rc_report st') name =
      accounted (rc_report st) name + (if name = rs_name spec then 1 else 0))"
proof -
  let ?a = "rc_account st" and ?name = "rs_name spec"
  let ?known = "stored ?a ?name n"
  obtain d where d: "decode_record spec raw = Inr d" using decode_record_total [OF spec(2) len] by blast
  obtain b where b: "encode_record spec d = Inr b" using decoded_encodes [OF spec(2) d] by blast
  define r where "r = (case ?known of None \<Rightarrow> d | Some r \<Rightarrow> dict_update r d)"
  have r: "encode_record spec r = encode_record spec d"
    using merged_encodes_as_decoded [OF spec(2) d] by (simp add: r_def split: option.splits)
  obtain changed where c:
    "(case ?known of None \<Rightarrow> Inr True | Some r \<Rightarrow> bindr (encode_record spec r) (\<lambda>b. Inr (b \<noteq> raw))) = Inr changed"
    using stored_encodes [OF enc spec(1), of n] by (cases ?known) auto
  let ?rep = "if changed then (rc_report st)\<lparr>rp_changed := append_at ?name n (rp_changed (rc_report st))\<rparr> else rc_report st"
  let ?rep = "?rep\<lparr>rp_read := AList.update ?name (lookup_or 0 (rp_read ?rep) ?name + 1) (rp_read ?rep)\<rparr>"
  let ?st = "st\<lparr>rc_account := ?a\<lparr>ac_tables :=
      AList.update ?name (AList.update n r (lookup_or [] (ac_tables ?a) ?name)) (ac_tables ?a)\<rparr>, rc_report := ?rep\<rparr>"
  have st: "store_record spec n raw st = (?st, Go)"
    using c by (simp add: store_record_def d Let_def r_def stored_def)
  have "encodes spec r" using r b by (simp add: encodes_def)
  then have "account_encodes (rc_account ?st)" using account_encodes_update [OF enc spec(1)] by simp
  then show ?thesis
    using st d r by (intro exI [of _ ?st] exI [of _ d] exI [of _ r]) (auto simp: stored_update accounted_def lookup_or_update)
qed

section \<open>Receiving from a source of records\<close>

text \<open>
  What the receive loop relies on of \<open>session.read_record\<close>: a record that is returned has the size
  that was asked for, and the only exception that is no \<open>SessionError\<close> is the \<open>IndexError\<close> of an
  empty message.
\<close>

locale record_source =
  fixes fetch :: "'s source"
  assumes fetch_size: "0 \<le> n \<Longrightarrow> n \<le> 0xFFFF \<Longrightarrow> fetch oc n len sub s = (s', Inr raw) \<Longrightarrow> length raw = len"
    and fetch_error: "0 \<le> n \<Longrightarrow> n \<le> 0xFFFF \<Longrightarrow> fetch oc n len sub s = (s', Inl e) \<Longrightarrow>
      is_session_error e \<or> e = Raised IndexError"
begin

lemma receive_item_result:
  assumes spec: "spec_by_name (rs_name spec) = Some spec" "spec_wf spec" and len: "wm_size w = rs_size spec"
    and num: "0 \<le> wire_item w n" "wire_item w n \<le> 0xFFFF"
    and enc: "account_encodes (rc_account st)"
    and step: "receive_item fetch spec w n st = (st', f)"
  shows "account_encodes (rc_account st') \<and> f \<in> {Go, Stop, Raise (Raised IndexError)} \<and>
    (f = Go \<longrightarrow> (\<forall>name. accounted (rc_report st') name =
      accounted (rc_report st) name + (if name = rs_name spec then 1 else 0)))"
proof -
  obtain s r where sr: "fetch (wm_record w) (wire_item w n) (wm_size w) (wm_sub w) (rc_session st) = (s, r)" by force
  show ?thesis
  proof (cases r)
    case (Inr raw)
    then have "length raw = rs_size spec" using fetch_size [OF num] sr len by simp
    from store_record_result [OF spec this, of "st\<lparr>rc_session := s\<rparr>" n]
    show ?thesis using enc step sr Inr by (auto simp: receive_item_def Let_def)
  next
    case (Inl e)
    then have "is_session_error e \<or> e = Raised IndexError" using fetch_error [OF num] sr by simp
    then show ?thesis using enc step sr Inl
      by (cases e) (auto simp: receive_item_def Let_def accounted_def append_at_def lookup_or_update)
  qed
qed

lemma receive_items_result:
  assumes spec: "spec_by_name (rs_name spec) = Some spec" "spec_wf spec" and len: "wm_size w = rs_size spec"
    and num: "\<And>n. n \<in> set ns \<Longrightarrow> 0 \<le> wire_item w n \<and> wire_item w n \<le> 0xFFFF"
    and enc: "account_encodes (rc_account st)"
    and run: "receive_items fetch spec w ns st = (st', f)"
  shows "account_encodes (rc_account st') \<and> f \<in> {Go, Stop, Raise (Raised IndexError)} \<and>
    (f = Go \<longrightarrow> (\<forall>name. accounted (rc_report st') name =
      accounted (rc_report st) name + (if name = rs_name spec then length ns else 0)))"
  using num enc run
proof (induction ns arbitrary: st)
  case Nil
  then show ?case by simp
next
  case (Cons n ns)
  obtain st1 f1 where st1: "receive_item fetch spec w n st = (st1, f1)" by force
  have "0 \<le> wire_item w n" "wire_item w n \<le> 0xFFFF" using Cons.prems(1) [of n] by auto
  note item = receive_item_result [OF spec len this Cons.prems(2) st1]
  show ?case
  proof (cases "f1 = Go")
    case True
    then have "receive_items fetch spec w ns st1 = (st', f)" using Cons.prems(3) st1 by simp
    with Cons.IH [of st1] Cons.prems(1) item True show ?thesis by simp
  next
    case False
    then have "st' = st1 \<and> f = f1" using Cons.prems(3) st1 by (cases f1) auto
    then show ?thesis using item False by simp
  qed
qed

end

section \<open>The wire map and the tables\<close>

lemma spec_by_name_simps:
  "spec_by_name ''area'' = Some area_spec" "spec_by_name ''zone'' = Some zone_spec"
  "spec_by_name ''keypad'' = Some keypad_spec" "spec_by_name ''user'' = Some user_spec"
  "spec_by_name ''output'' = Some output_spec" "spec_by_name ''task'' = Some task_spec"
  "spec_by_name ''telephone'' = Some telephone_spec" "spec_by_name ''global'' = Some global_spec"
  "spec_by_name ''lighting'' = Some x10_spec" "spec_by_name ''voice_message'' = Some voice_message_spec"
  by (simp_all add: spec_by_name_def all_specs_def zone_spec_def area_spec_def keypad_spec_def user_spec_def
      output_spec_def task_spec_def telephone_spec_def global_spec_def x10_spec_def voice_message_spec_def)

lemma rs_names:
  "rs_name area_spec = ''area''" "rs_name zone_spec = ''zone''" "rs_name keypad_spec = ''keypad''"
  "rs_name user_spec = ''user''" "rs_name output_spec = ''output''" "rs_name task_spec = ''task''"
  "rs_name telephone_spec = ''telephone''" "rs_name global_spec = ''global''" "rs_name x10_spec = ''lighting''"
  "rs_name voice_message_spec = ''voice_message''"
  by (simp_all add: zone_spec_def area_spec_def keypad_spec_def user_spec_def
      output_spec_def task_spec_def telephone_spec_def global_spec_def x10_spec_def voice_message_spec_def)

lemma rs_sizes:
  "rs_size area_spec = 24" "rs_size zone_spec = 32" "rs_size keypad_spec = 28" "rs_size user_spec = 28"
  "rs_size output_spec = 28" "rs_size task_spec = 28" "rs_size telephone_spec = 88"
  "rs_size global_spec = 48" "rs_size x10_spec = 28"
  by (simp_all add: rs_size_def fs_size_def field_spec_def zone_spec_def area_spec_def keypad_spec_def user_spec_def
      output_spec_def task_spec_def telephone_spec_def global_spec_def x10_spec_def)

lemma rs_ranges:
  "rs_first area_spec = 1 \<and> rs_count area_spec = 8" "rs_first zone_spec = 1 \<and> rs_count zone_spec = 208"
  "rs_first keypad_spec = 1 \<and> rs_count keypad_spec = 16" "rs_first user_spec = 1 \<and> rs_count user_spec = 199"
  "rs_first output_spec = 1 \<and> rs_count output_spec = 208" "rs_first task_spec = 1 \<and> rs_count task_spec = 32"
  "rs_first telephone_spec = 1 \<and> rs_count telephone_spec = 8" "rs_first global_spec = 1 \<and> rs_count global_spec = 1"
  "rs_first x10_spec = 1 \<and> rs_count x10_spec = 256"
  by (simp_all add: zone_spec_def area_spec_def keypad_spec_def user_spec_def
      output_spec_def task_spec_def telephone_spec_def global_spec_def x10_spec_def)

lemma map_of_WIRE:
  assumes "map_of WIRE name = Some w"
  shows "\<exists>spec. spec_by_name name = Some spec \<and> rs_name spec = name \<and> spec_wf spec \<and> wm_size w = rs_size spec \<and>
    rs_first spec = 1 \<and> rs_count spec \<le> 256 \<and> wm_fixed_item w \<in> {None, Some 1}"
proof -
  have "(name, w) \<in> set WIRE" by (rule map_of_SomeD [OF assms])
  then show ?thesis
    by (auto simp: WIRE_def rs_names rs_sizes rs_ranges spec_by_name_simps wire_entry_def tables_wf)
qed

lemma wire_item_range:
  assumes "map_of WIRE name = Some w" and "spec_by_name name = Some spec" and "n \<in> set (item_range spec limit)"
  shows "0 \<le> wire_item w n \<and> wire_item w n \<le> 0xFFFF"
  using map_of_WIRE [OF assms(1)] assms(2,3) by (auto simp: item_range_def wire_item_def Let_def split: option.splits)

lemma distinct_item_range: "distinct (item_range spec limit)"
  by (simp add: item_range_def Let_def distinct_map)

context record_source begin

text \<open>The whole receive: every item of every table is counted exactly once.\<close>

lemma receive_tables_result:
  assumes "set names \<subseteq> fst ` set WIRE" and "distinct names" and "account_encodes (rc_account st)"
    and "receive_tables fetch limits names st = (st', f)"
  shows "account_encodes (rc_account st') \<and> f \<in> {Go, Stop, Raise (Raised IndexError)} \<and>
    (f = Go \<longrightarrow> (\<forall>name. accounted (rc_report st') name = accounted (rc_report st) name +
      (if name \<in> set names then length (item_range (the (spec_by_name name)) (map_of limits name)) else 0)))"
  using assms
proof (induction names arbitrary: st)
  case Nil
  then show ?case by simp
next
  case (Cons name names)
  then have "name \<in> fst ` set WIRE" by simp
  then obtain w where w: "map_of WIRE name = Some w" by (metis map_of_eq_None_iff not_None_eq)
  from map_of_WIRE [OF w] obtain spec where spec: "spec_by_name name = Some spec" "rs_name spec = name"
    "spec_wf spec" "wm_size w = rs_size spec" by blast
  obtain st1 f1 where st1: "receive_items fetch spec w (item_range spec (map_of limits name)) st = (st1, f1)" by force
  have items: "account_encodes (rc_account st1) \<and> f1 \<in> {Go, Stop, Raise (Raised IndexError)} \<and>
    (f1 = Go \<longrightarrow> (\<forall>nm. accounted (rc_report st1) nm =
      accounted (rc_report st) nm + (if nm = name then length (item_range spec (map_of limits name)) else 0)))"
    using receive_items_result [OF _ spec(3,4) wire_item_range [OF w spec(1)] Cons.prems(3) st1] spec(1,2) by simp
  show ?case
  proof (cases "f1 = Go")
    case True
    then have "receive_tables fetch limits names st1 = (st', f)" using Cons.prems(4) st1 w spec(1) by simp
    with Cons.IH [of st1] Cons.prems(1,2) items True spec(1) show ?thesis by auto
  next
    case False
    then have "st' = st1 \<and> f = f1" using Cons.prems(4) st1 w spec(1) by (cases f1) auto
    then show ?thesis using items False by simp
  qed
qed

end

section \<open>The session is a source of records\<close>

lemma send_receive_error:
  assumes "encode_frame (rq_body rq) = Inr frame" and "0 < rq_attempts rq" and "send_receive rq s = (s', Inl e)"
  shows "is_session_error e \<or> e = Raised IndexError"
proof -
  have "reply_ok rq (Inl e)" using attempts_frame [OF assms(1), of "rq_attempts rq" 1 None s s' "Inl e"] assms(2,3)
    by (auto simp: send_receive_def)
  then show ?thesis by (cases e) (auto simp: reply_ok_def)
qed

interpretation session: record_source session_read_record
proof
  fix n :: int and oc len sub s s' raw
  assume "session_read_record oc n len sub s = (s', Inr raw)"
  then show "length raw = len"
    by (auto simp: session_read_record_def Let_def split: prod.splits sum.splits if_splits)
next
  fix n :: int and oc len sub s s' e
  assume n: "0 \<le> n" "n \<le> 0xFFFF" and r: "session_read_record oc n len sub s = (s', Inl e)"
  obtain rq where rq: "read_record oc n sub = Inr rq" "rq_body rq \<noteq> []" "0 < rq_attempts rq"
    using n by (auto simp: read_record_def header_def request_def)
  obtain s1 r1 where sr: "send_receive rq s = (s1, r1)" by force
  show "is_session_error e \<or> e = Raised IndexError"
  proof (cases r1)
    case (Inl e1)
    then have "e = e1" using r sr by (simp add: session_read_record_def send_request_def rq)
    then show ?thesis using send_receive_error [OF encode_frame_bytes [OF rq(2)] rq(3)] sr Inl by blast
  next
    case (Inr body)
    then show ?thesis using r sr
      by (auto simp: session_read_record_def send_request_def rq Let_def split: if_splits)
  qed
qed

section \<open>A panel that answers\<close>

text \<open>The source that returns the content of a memory; a record that was received encodes to it.\<close>

lemma receive_items_memory:
  assumes spec: "spec_by_name (rs_name spec) = Some spec" "spec_wf spec" and enc: "account_encodes (rc_account st)"
    and len: "wm_size w = rs_size spec" and dist: "distinct ns"
    and fetch: "\<And>n s. n \<in> set ns \<Longrightarrow> \<exists>s'. fetch (wm_record w) (wire_item w n) (wm_size w) (wm_sub w) s = (s', Inr (mem n))"
    and mem: "\<And>n. n \<in> set ns \<Longrightarrow> length (mem n) = rs_size spec"
  shows "\<exists>st'. receive_items fetch spec w ns st = (st', Go) \<and> account_encodes (rc_account st') \<and>
    (\<forall>name m. if name = rs_name spec \<and> m \<in> set ns
      then \<exists>r d. stored (rc_account st') name m = Some r \<and> decode_record spec (mem m) = Inr d \<and>
        encode_record spec r = encode_record spec d
      else stored (rc_account st') name m = stored (rc_account st) name m)"
  using enc dist fetch mem
proof (induction ns arbitrary: st)
  case Nil
  then show ?case by auto
next
  case (Cons n ns)
  from Cons.prems(3) [of n "rc_session st"] obtain s1 where
    f: "fetch (wm_record w) (wire_item w n) (wm_size w) (wm_sub w) (rc_session st) = (s1, Inr (mem n))" by auto
  let ?st = "st\<lparr>rc_session := s1\<rparr>"
  have "length (mem n) = rs_size spec" using Cons.prems(4) by simp
  from store_record_result [OF spec this, of ?st n] Cons.prems(1) obtain st1 d r where
    st1: "store_record spec n (mem n) ?st = (st1, Go)" "decode_record spec (mem n) = Inr d"
      "account_encodes (rc_account st1)" "encode_record spec r = encode_record spec d"
      "\<forall>name m. stored (rc_account st1) name m =
        (if name = rs_name spec \<and> m = n then Some r else stored (rc_account st) name m)" by auto
  have item: "receive_item fetch spec w n st = (st1, Go)" using f st1(1) by (simp add: receive_item_def Let_def)
  have "\<exists>st'. receive_items fetch spec w ns st1 = (st', Go) \<and> account_encodes (rc_account st') \<and>
    (\<forall>name m. if name = rs_name spec \<and> m \<in> set ns
      then \<exists>r d. stored (rc_account st') name m = Some r \<and> decode_record spec (mem m) = Inr d \<and>
        encode_record spec r = encode_record spec d
      else stored (rc_account st') name m = stored (rc_account st1) name m)"
    using Cons.prems st1(3) by (intro Cons.IH) auto
  then obtain st' where st': "receive_items fetch spec w ns st1 = (st', Go)" "account_encodes (rc_account st')"
    and res: "\<And>name m. if name = rs_name spec \<and> m \<in> set ns
      then \<exists>r d. stored (rc_account st') name m = Some r \<and> decode_record spec (mem m) = Inr d \<and>
        encode_record spec r = encode_record spec d
      else stored (rc_account st') name m = stored (rc_account st1) name m" by blast
  have "if name = rs_name spec \<and> m \<in> set (n # ns)
      then \<exists>r d. stored (rc_account st') name m = Some r \<and> decode_record spec (mem m) = Inr d \<and>
        encode_record spec r = encode_record spec d
      else stored (rc_account st') name m = stored (rc_account st) name m" for name m
    using res [of name m] st1(2,4,5) Cons.prems(2) by (auto split: if_splits)
  then have "\<forall>name m. if name = rs_name spec \<and> m \<in> set (n # ns)
      then \<exists>r d. stored (rc_account st') name m = Some r \<and> decode_record spec (mem m) = Inr d \<and>
        encode_record spec r = encode_record spec d
      else stored (rc_account st') name m = stored (rc_account st) name m" by blast
  moreover have "receive_items fetch spec w (n # ns) st = (st', Go)" using item st'(1) by simp
  ultimately show ?case using st'(2) by blast
qed

section \<open>Properties\<close>

text \<open>The wire map agrees with the tables: every mapped table is a known record type whose
  encoded size is the size that is asked for, no two tables share opcode and sub-code, and exactly
  the mapped tables are received.\<close>

theorem wire_map_agrees:
  "(\<forall>(name, w) \<in> set WIRE. \<exists>spec. spec_by_name name = Some spec \<and> rs_name spec = name \<and> rs_size spec = wm_size w) \<and>
   distinct (map (\<lambda>(name, w). (wm_record w, wm_sub w)) WIRE) \<and> set RECEIVE_ORDER = fst ` set WIRE"
  by (auto simp: WIRE_def RECEIVE_ORDER_def rs_names rs_sizes spec_by_name_simps wire_entry_def)

theorem wire_map_agrees_witness:
  "map_option rs_size (spec_by_name ''zone'') = Some 32"
proof -
  have w: "(''zone'', wire_entry ZONE 32 ''Zone_Definitions.cs 9726-9748, 10414-10489 (32 bytes on 4.0.0+)'') \<in> set WIRE"
    by (simp add: WIRE_def rs_names)
  show ?thesis using wire_map_agrees w by (fastforce simp: wire_entry_def)
qed




text \<open>A panel whose outputs are all blank.\<close>

definition blank_outputs :: "unit source" where
  "blank_outputs opcode n len sub s = (s, Inr (replicate 16 0x20 @ replicate 12 0))"


end
