(* ===== verification/Ha_Snapshot.thy ===== *)
theory Ha_Snapshot
  imports Elk_Commands
begin

text \<open>
  What the integration shows of the panel: the classification of alarm states (\<open>protocol.py\<close>), the
  trouble bits (\<open>helpers/troublestatus.py\<close>), the snapshot the coordinator builds from the hub
  (\<open>models.py\<close>, \<open>_build_normalized_data\<close>) and the state the alarm entity derives from it
  (\<open>alarm_control_panel.py\<close>). The snapshot's lists of elements are references to the live elements of the
  hub: \<open>pd_listed\<close> keeps how many of a kind it lists.
\<close>

section \<open>Protocol values\<close>

definition ALARM_STATE_ENTRANCE_DELAY :: string where "ALARM_STATE_ENTRANCE_DELAY = ''1''"
definition ALARM_STATE_ABORT_DELAY :: string where "ALARM_STATE_ABORT_DELAY = ''2''"

definition ALARM_STATE_FULL_ALARM :: "string list" where
  "ALARM_STATE_FULL_ALARM = map (\<lambda>c. [c]) ''3456789:;<=>?@AB''"

definition FIRE_ALARM_STATES :: "string list" where "FIRE_ALARM_STATES = [''3'', ''A'', ''B'']"
definition PANIC_ALARM_STATES :: "string list" where "PANIC_ALARM_STATES = [''4'', ''5'', ''<'']"
definition FIRE_ZONE_DEFINITIONS :: "int list" where "FIRE_ZONE_DEFINITIONS = [10, 11, 12]"

text \<open>\<open>getattr(value, "value", value)\<close>: the wire value of a member of an enumeration.\<close>

datatype raw = Raw_str string | Raw_num rat | Raw_other

fun raw_value :: "pyval \<Rightarrow> raw" where
  "raw_value (V_bool b) = Raw_num (if b then 1 else 0)"
| "raw_value (V_int i) = Raw_num (of_int i)"
| "raw_value (V_rat r) = Raw_num r"
| "raw_value (V_str s) = Raw_str s"
| "raw_value (V_armed e) = Raw_str [armed_status_value e]"
| "raw_value (V_arm_up e) = Raw_str [arm_up_state_value e]"
| "raw_value (V_alarm e) = Raw_str [alarm_state_value e]"
| "raw_value (V_zone_type e) = Raw_num (of_int (zone_type_value e))"
| "raw_value (V_logical e) = Raw_num (of_int (zone_logical_status_value e))"
| "raw_value (V_physical e) = Raw_num (of_int (zone_physical_status_value e))"
| "raw_value (V_tmode e) = Raw_num (of_int (thermostat_mode_value e))"
| "raw_value (V_tfan e) = Raw_num (of_int (thermostat_fan_value e))"
| "raw_value (V_format e) = Raw_num (of_int (setting_format_value e))"
| "raw_value (V_rp e) = Raw_num (of_int (elk_rp_status_value e))"
| "raw_value (V_fkey e) = Raw_str [function_keys_value e]"
| "raw_value _ = Raw_other"

text \<open>\<open>int()\<close> of a number cuts towards zero.\<close>

definition int_of_rat :: "rat \<Rightarrow> int" where
  "int_of_rat r = (if r < 0 then - \<lfloor>- r\<rfloor> else \<lfloor>r\<rfloor>)"

definition protocol_value :: "pyval \<Rightarrow> string" where
  "protocol_value v =
     (case raw_value v of
        Raw_str s \<Rightarrow> if length s = 1 then s else ''0''
      | Raw_num r \<Rightarrow> fmt_dec 1 (int_of_rat r)
      | Raw_other \<Rightarrow> ''0'')"

definition numeric_value :: "pyval \<Rightarrow> int" where
  "numeric_value v =
     (case raw_value v of
        Raw_str s \<Rightarrow> (case py_int 10 s of Inr i \<Rightarrow> i | Inl _ \<Rightarrow> 0)
      | Raw_num r \<Rightarrow> int_of_rat r
      | Raw_other \<Rightarrow> 0)"

definition alarm_is_active :: "string \<Rightarrow> bool" where
  "alarm_is_active st = (st \<in> set ALARM_STATE_FULL_ALARM)"

definition alarm_is_fire :: "string \<Rightarrow> bool" where "alarm_is_fire st = (st \<in> set FIRE_ALARM_STATES)"
definition alarm_is_panic :: "string \<Rightarrow> bool" where "alarm_is_panic st = (st \<in> set PANIC_ALARM_STATES)"

section \<open>The system trouble status\<close>

definition TROUBLE_INDEX_NAMES :: "(nat \<times> string \<times> string) list" where
  "TROUBLE_INDEX_NAMES =
     [(0, ''ac_fail'', ''AC Fail''), (1, ''box_tamper'', ''Box Tamper''),
      (2, ''fail_to_communicate'', ''Fail To Communicate''),
      (3, ''eeprom_memory_error'', ''EEPROM Memory Error''),
      (4, ''low_battery'', ''Low Battery Control''),
      (5, ''transmitter_low_battery'', ''Transmitter Low Battery''),
      (6, ''over_current'', ''Over Current''), (7, ''telephone_fault'', ''Telephone Fault''),
      (9, ''output_2'', ''Output 2''), (10, ''missing_keypad'', ''Missing Keypad''),
      (11, ''zone_expander'', ''Zone Expander''), (12, ''output_expander'', ''Output Expander''),
      (14, ''elkrp_remote_access'', ''ELKRP Remote Access''),
      (16, ''common_area_not_armed'', ''Common Area Not Armed''),
      (17, ''flash_memory_error'', ''Flash Memory Error''),
      (18, ''security_alert'', ''Security Alert''),
      (19, ''serial_port_expander'', ''Serial Port Expander''),
      (20, ''lost_transmitter'', ''Lost Transmitter''), (21, ''ge_smoke_cleanme'', ''GE Smoke CleanMe''),
      (22, ''ethernet'', ''Ethernet''),
      (31, ''display_message_line_1'', ''Display Message In Keypad Line 1''),
      (32, ''display_message_line_2'', ''Display Message In Keypad Line 2''), (33, ''fire'', ''Fire'')]"

definition TROUBLE_DETAIL_INDICES :: "nat list" where
  "TROUBLE_DETAIL_INDICES = [1, 5, 18, 20, 33]"

definition normalize_trouble_status :: "string \<Rightarrow> string" where
  "normalize_trouble_status raw_status = take 34 raw_status"

definition parse_troubles :: "string \<Rightarrow> (string \<times> bool) list" where
  "parse_troubles raw_status =
     (let raw_status = normalize_trouble_status raw_status
      in map (\<lambda>(i, name, label). (name, i < length raw_status \<and> raw_status ! i \<noteq> CHR ''0''))
           TROUBLE_INDEX_NAMES)"

text \<open>The dictionary of the numbers; the table names every detailed position.\<close>

definition trouble_name :: "nat \<Rightarrow> string" where
  "trouble_name i = (case map_of TROUBLE_INDEX_NAMES i of Some (name, label) \<Rightarrow> name | None \<Rightarrow> [])"

definition parse_trouble_details :: "string \<Rightarrow> (string \<times> int) list" where
  "parse_trouble_details raw_status =
     (let raw_status = normalize_trouble_status raw_status
      in map (\<lambda>i. (trouble_name i, int (pyord (raw_status ! i)) - int (pyord (CHR ''0''))))
           (filter (\<lambda>i. \<not> (i \<ge> length raw_status \<or> raw_status ! i = CHR ''0'')) TROUBLE_DETAIL_INDICES))"

definition format_troubles :: "string \<Rightarrow> string" where
  "format_troubles raw_status =
     (let active = parse_troubles raw_status;
          labels = map (\<lambda>(i, name, label). label)
            (filter (\<lambda>(i, name, label). map_of active name = Some True) TROUBLE_INDEX_NAMES)
      in if labels \<noteq> [] then join_strings '', '' labels else ''Normal'')"

section \<open>Areas\<close>

record area_data =
  ad_alarm_state :: string
  ad_armed_status :: int
  ad_arm_up_state :: int
  ad_timer1 :: pyval
  ad_timer2 :: pyval
  ad_entry_delay_active :: bool
  ad_exit_delay_active :: bool
  ad_entry_delay :: pyval
  ad_exit_delay :: pyval
  ad_panic_state :: bool
  ad_alarm_memory :: pyval

definition default_area_data :: area_data where
  "default_area_data =
     \<lparr>ad_alarm_state = ''0'', ad_armed_status = 0, ad_arm_up_state = 0, ad_timer1 = V_int 0,
      ad_timer2 = V_int 0, ad_entry_delay_active = False, ad_exit_delay_active = False,
      ad_entry_delay = V_int 0, ad_exit_delay = V_int 0, ad_panic_state = False,
      ad_alarm_memory = V_bool False\<rparr>"

text \<open>\<open>a < b\<close>: numbers compare, anything else with a number is a \<open>TypeError\<close>.\<close>

definition py_less :: "pyval \<Rightarrow> pyval \<Rightarrow> bool result" where
  "py_less a b = (case (numeric a, numeric b) of (Some x, Some y) \<Rightarrow> Inr (x < y) | _ \<Rightarrow> Inl TypeError)"

text \<open>\<open>bool()\<close>: nothing, false, zero and the empty string are false.\<close>

fun truthy :: "pyval \<Rightarrow> bool" where
  "truthy V_none = False"
| "truthy (V_bool b) = b"
| "truthy (V_int i) = (i \<noteq> 0)"
| "truthy (V_rat r) = (r \<noteq> 0)"
| "truthy (V_str s) = (s \<noteq> [])"
| "truthy _ = True"

text \<open>\<open>getattr(element, attr, default)\<close>.\<close>

definition attr_or :: "pyval \<Rightarrow> element \<Rightarrow> string \<Rightarrow> pyval" where
  "attr_or d e attr = (case el_attrs e attr of None \<Rightarrow> d | Some v \<Rightarrow> v)"

definition py_max :: "pyval \<Rightarrow> pyval \<Rightarrow> pyval result" where
  "py_max a b = bindr (py_less a b) (\<lambda>lt. Inr (if lt then b else a))"

definition area_snapshot :: "element \<Rightarrow> area_data result" where
  "area_snapshot area =
     (let t1 = attr_or (V_int 0) area ''timer1'';
          t2 = attr_or (V_int 0) area ''timer2'';
          is_exit = truthy (attr_or (V_bool False) area ''is_exit'');
          armed_val = numeric_value (get_attr area ''armed_status'');
          alarm_state = protocol_value (get_attr area ''alarm_state'')
      in bindr (py_less (V_int 0) t1) (\<lambda>r1.
         bindr (if r1 then Inr True else py_less (V_int 0) t2) (\<lambda>running.
         bindr (py_max t1 t2) (\<lambda>longest.
         Inr \<lparr>ad_alarm_state = alarm_state, ad_armed_status = armed_val,
              ad_arm_up_state = numeric_value (get_attr area ''arm_up_state''),
              ad_timer1 = t1, ad_timer2 = t2,
              ad_entry_delay_active = (\<not> is_exit \<and> running), ad_exit_delay_active = (is_exit \<and> running),
              ad_entry_delay = (if \<not> is_exit then longest else V_int 0),
              ad_exit_delay = (if is_exit then longest else V_int 0),
              ad_panic_state = alarm_is_panic alarm_state,
              ad_alarm_memory = attr_or (V_bool False) area ''alarm_memory''\<rparr>))))"

section \<open>The snapshot\<close>

record panel_data =
  pd_panel_version :: pyval
  pd_num_areas :: nat
  pd_areas :: "(nat \<times> area_data) list"
  pd_armed :: bool
  pd_armed_mode :: string
  pd_last_user :: "int option"
  pd_last_user_name :: string
  pd_last_keypad :: "int option"
  pd_last_user_time :: "nat option"
  pd_zones_faulted :: "nat list"
  pd_faulted_zone_names :: "string list"
  pd_outputs_active :: "nat list"
  pd_active_output_names :: "string list"
  pd_trouble_status :: bool
  pd_troubles :: "(string \<times> bool) list"
  pd_trouble_details :: "(string \<times> int) list"
  pd_raw_trouble_status :: string
  pd_ac_power :: "bool option"
  pd_battery_status :: string
  pd_panel_temperature :: "pyval option"
  pd_fire_alarm_active :: bool
  pd_bypassed_zones :: "string list"
  pd_listed :: "kind \<Rightarrow> nat"

definition empty_panel_data :: panel_data where
  "empty_panel_data =
     \<lparr>pd_panel_version = V_none, pd_num_areas = 1, pd_areas = [], pd_armed = False,
      pd_armed_mode = ''disarmed'', pd_last_user = None, pd_last_user_name = ''Unknown'',
      pd_last_keypad = None, pd_last_user_time = None, pd_zones_faulted = [],
      pd_faulted_zone_names = [], pd_outputs_active = [], pd_active_output_names = [],
      pd_trouble_status = False, pd_troubles = [], pd_trouble_details = [], pd_raw_trouble_status = [],
      pd_ac_power = None, pd_battery_status = ''Unknown'', pd_panel_temperature = None,
      pd_fire_alarm_active = False, pd_bypassed_zones = [], pd_listed = (\<lambda>_. 0)\<rparr>"

text \<open>A name in an f-string; the \<open>name\<close> of an element is always a string.\<close>

definition name_of :: "element \<Rightarrow> string" where
  "name_of e = (case get_attr e ''name'' of V_str s \<Rightarrow> s | _ \<Rightarrow> [])"

definition numbered_name :: "string \<Rightarrow> element \<Rightarrow> string" where
  "numbered_name what e = what @ '' '' @ fmt_dec 1 (int (el_index e) + 1) @ '': '' @ name_of e"

definition configured_areas :: "element list \<Rightarrow> element list" where
  "configured_areas areas =
     (let configured = filter el_configured areas in if configured \<noteq> [] then configured else take 1 areas)"

text \<open>The first configured zone that reports a temperature.\<close>

fun first_temperature :: "element list \<Rightarrow> pyval option result" where
  "first_temperature [] = Inr None"
| "first_temperature (z # zs) =
     (if \<not> el_configured z then first_temperature zs
      else bindr (py_less (V_int (-60)) (get_attr z ''temperature'')) (\<lambda>warm.
        if warm then Inr (Some (get_attr z ''temperature'')) else first_temperature zs))"

definition zones_with_status :: "int \<Rightarrow> hub \<Rightarrow> element list" where
  "zones_with_status st h =
     filter (\<lambda>z. el_configured z \<and> numeric_value (get_attr z ''logical_status'') = st) (elems h K_zone)"

definition fire_zone_triggered :: "element \<Rightarrow> bool" where
  "fire_zone_triggered z =
     (el_configured z \<and> numeric_value (get_attr z ''definition'') \<in> set FIRE_ZONE_DEFINITIONS \<and>
      truthy (attr_or (V_bool False) z ''triggered_alarm''))"

definition active_outputs :: "hub \<Rightarrow> element list" where
  "active_outputs h = filter (\<lambda>e. el_configured e \<and> truthy (get_attr e ''output_on'')) (elems h K_output)"

definition user_display_name :: "hub \<Rightarrow> int option \<Rightarrow> string" where
  "user_display_name h last_user =
     (case last_user of
        None \<Rightarrow> ''Unknown''
      | Some u \<Rightarrow>
          (case username h u of
             V_str (c # cs) \<Rightarrow> c # cs
           | _ \<Rightarrow> ''User '' @ fmt_dec 1 (u + 1)))"

definition build_normalized_data ::
  "hub \<Rightarrow> string \<Rightarrow> int option \<Rightarrow> int option \<Rightarrow> nat option \<Rightarrow> panel_data result" where
  "build_normalized_data h raw_trouble_status last_user last_keypad last_user_time =
     (let configured = configured_areas (elems h K_area);
          faulted = zones_with_status 2 h;
          troubles = parse_troubles raw_trouble_status;
          trouble_known = raw_trouble_status \<noteq> [];
          trouble = (\<lambda>name. map_of troubles name = Some True)
      in bindr (mapr (\<lambda>a. bindr (area_snapshot a) (\<lambda>d. Inr (el_index a, d))) configured) (\<lambda>areas.
         bindr (first_temperature (elems h K_zone)) (\<lambda>temperature.
         let armed = list_ex (\<lambda>(i, a). ad_armed_status a \<noteq> 0) areas
         in Inr
           \<lparr>pd_panel_version = get_attr (hb_panel h) ''elkm1_version'',
            pd_num_areas = max (length configured) 1,
            pd_areas = areas,
            pd_armed = armed, pd_armed_mode = (if armed then ''armed'' else ''disarmed''),
            pd_last_user = last_user, pd_last_user_name = user_display_name h last_user,
            pd_last_keypad = last_keypad, pd_last_user_time = last_user_time,
            pd_zones_faulted = map el_index faulted,
            pd_faulted_zone_names = map (numbered_name ''Zone'') faulted,
            pd_outputs_active = map el_index (active_outputs h),
            pd_active_output_names = map (numbered_name ''Output'') (active_outputs h),
            pd_trouble_status = list_ex snd troubles, pd_troubles = troubles,
            pd_trouble_details = parse_trouble_details raw_trouble_status,
            pd_raw_trouble_status = raw_trouble_status,
            pd_ac_power = (if trouble_known then Some (\<not> trouble ''ac_fail'') else None),
            pd_battery_status =
              (if trouble_known \<and> trouble ''low_battery'' then ''Low''
               else if trouble_known then ''Good'' else ''Unknown''),
            pd_panel_temperature = temperature,
            pd_fire_alarm_active =
              (list_ex (\<lambda>(i, a). alarm_is_fire (ad_alarm_state a)) areas \<or>
               list_ex fire_zone_triggered (elems h K_zone)),
            pd_bypassed_zones = map (numbered_name ''Zone'') (zones_with_status 3 h),
            pd_listed = (\<lambda>k. length (elems h k))\<rparr>)))"

section \<open>The alarm entity\<close>

datatype panel_state =
    S_triggered | S_pending | S_arming | S_armed_custom_bypass | S_armed_away | S_armed_home
  | S_armed_night | S_armed_vacation | S_disarmed

definition area_data_of :: "panel_data \<Rightarrow> nat \<Rightarrow> area_data" where
  "area_data_of data area_index =
     (case map_of (pd_areas data) area_index of Some a \<Rightarrow> a | None \<Rightarrow> default_area_data)"

definition entity_alarm_state :: "panel_data \<Rightarrow> nat \<Rightarrow> panel_state" where
  "entity_alarm_state pdata area_index =
     (let data = area_data_of pdata area_index
      in if alarm_is_active (ad_alarm_state data) then S_triggered
         else if ad_alarm_state data \<in> {ALARM_STATE_ENTRANCE_DELAY, ALARM_STATE_ABORT_DELAY} then S_pending
         else if ad_entry_delay_active data then S_pending
         else if ad_exit_delay_active data \<or> ad_arm_up_state data = 3 then S_arming
         else if ad_arm_up_state data = 6 \<and> ad_armed_status data \<noteq> 0 then S_armed_custom_bypass
         else if ad_armed_status data = 1 then S_armed_away
         else if ad_armed_status data \<in> {2, 3} then S_armed_home
         else if ad_armed_status data \<in> {4, 5} then S_armed_night
         else if ad_armed_status data = 6 then S_armed_vacation
         else S_disarmed)"

definition entity_changed_by :: "panel_data \<Rightarrow> string option" where
  "entity_changed_by data =
     (if pd_last_user_name data \<noteq> ''Unknown'' then Some (pd_last_user_name data) else None)"

section \<open>The classification of alarm states\<close>

text \<open>Everything the panel documents as an alarm that goes off.\<close>

definition full_alarm :: "alarm_state \<Rightarrow> bool" where
  "full_alarm a = (a \<notin> {Alarm_NO_ALARM_ACTIVE, Alarm_ENTRANCE_DELAY_ACTIVE,
     Alarm_ALARM_ABORT_DELAY_ACTIVE, Alarm_UNSUPERVISED_ZONE_TROUBLE})"

definition armed_of :: "element \<Rightarrow> armed_status option" where
  "armed_of e = (case get_attr e ''armed_status'' of V_armed s \<Rightarrow> Some s | _ \<Rightarrow> None)"

definition arm_up_of :: "element \<Rightarrow> arm_up_state option" where
  "arm_up_of e = (case get_attr e ''arm_up_state'' of V_arm_up s \<Rightarrow> Some s | _ \<Rightarrow> None)"

definition alarm_of :: "element \<Rightarrow> alarm_state option" where
  "alarm_of e = (case get_attr e ''alarm_state'' of V_alarm s \<Rightarrow> Some s | _ \<Rightarrow> None)"

definition is_exit_of :: "element \<Rightarrow> bool" where
  "is_exit_of e = (get_attr e ''is_exit'' = V_bool True)"

definition running_of :: "element \<Rightarrow> bool" where
  "running_of e = (\<exists>i > 0. get_attr e ''timer1'' = V_int i \<or> get_attr e ''timer2'' = V_int i)"

text \<open>The state of an area over the panel's enumerations.\<close>

definition shown_state ::
  "armed_status option \<Rightarrow> arm_up_state option \<Rightarrow> alarm_state option \<Rightarrow> bool \<Rightarrow> bool \<Rightarrow> panel_state" where
  "shown_state armed up alarm is_exit running =
     (if (case alarm of None \<Rightarrow> False | Some a \<Rightarrow> full_alarm a) then S_triggered
      else if alarm \<in> {Some Alarm_ENTRANCE_DELAY_ACTIVE, Some Alarm_ALARM_ABORT_DELAY_ACTIVE} \<or>
        running \<and> \<not> is_exit then S_pending
      else if running \<and> is_exit \<or> up = Some ArmUp_ARMED_AND_EXIT_TIMER_RUNNING then S_arming
      else case armed of
             None \<Rightarrow> S_disarmed
           | Some s \<Rightarrow>
               if s = Armed_DISARMED then S_disarmed
               else if up = Some ArmUp_ARMED_WITH_BYPASS then S_armed_custom_bypass
               else (case s of
                       Armed_DISARMED \<Rightarrow> S_disarmed
                     | Armed_ARMED_AWAY \<Rightarrow> S_armed_away
                     | Armed_ARMED_STAY \<Rightarrow> S_armed_home
                     | Armed_ARMED_STAY_INSTANT \<Rightarrow> S_armed_home
                     | Armed_ARMED_TO_NIGHT \<Rightarrow> S_armed_night
                     | Armed_ARMED_TO_NIGHT_INSTANT \<Rightarrow> S_armed_night
                     | Armed_ARMED_TO_VACATION \<Rightarrow> S_armed_vacation))"

lemma int_of_digit: "py_int 10 ''0'' = Inr 0" "py_int 10 ''1'' = Inr 1" "py_int 10 ''2'' = Inr 2"
  "py_int 10 ''3'' = Inr 3" "py_int 10 ''4'' = Inr 4" "py_int 10 ''5'' = Inr 5" "py_int 10 ''6'' = Inr 6"
  using py_int_digit [of 0 10] py_int_digit [of 1 10] py_int_digit [of 2 10] py_int_digit [of 3 10]
    py_int_digit [of 4 10] py_int_digit [of 5 10] py_int_digit [of 6 10]
  by (simp_all add: digit_chars)

lemma numeric_armed:
  "numeric_value (V_armed s) =
     (case s of Armed_DISARMED \<Rightarrow> 0 | Armed_ARMED_AWAY \<Rightarrow> 1 | Armed_ARMED_STAY \<Rightarrow> 2
      | Armed_ARMED_STAY_INSTANT \<Rightarrow> 3 | Armed_ARMED_TO_NIGHT \<Rightarrow> 4 | Armed_ARMED_TO_NIGHT_INSTANT \<Rightarrow> 5
      | Armed_ARMED_TO_VACATION \<Rightarrow> 6)"
  by (cases s) (simp_all add: numeric_value_def int_of_digit)

lemma numeric_arm_up:
  "numeric_value (V_arm_up s) =
     (case s of ArmUp_NOT_READY_TO_ARM \<Rightarrow> 0 | ArmUp_READY_TO_ARM \<Rightarrow> 1 | ArmUp_CAN_BE_FORCE_ARMED \<Rightarrow> 2
      | ArmUp_ARMED_AND_EXIT_TIMER_RUNNING \<Rightarrow> 3 | ArmUp_FULLY_ARMED \<Rightarrow> 4 | ArmUp_FORCE_ARMED \<Rightarrow> 5
      | ArmUp_ARMED_WITH_BYPASS \<Rightarrow> 6)"
  by (cases s) (simp_all add: numeric_value_def int_of_digit)

lemma alarm_protocol_value: "protocol_value (V_alarm a) = [alarm_state_value a]"
  by (simp add: protocol_value_def)

lemma active_full_alarm: "alarm_is_active [alarm_state_value a] = full_alarm a"
  by (cases a) (simp_all add: alarm_is_active_def ALARM_STATE_FULL_ALARM_def full_alarm_def)

lemma delay_alarm:
  "[alarm_state_value a] \<in> {ALARM_STATE_ENTRANCE_DELAY, ALARM_STATE_ABORT_DELAY} \<longleftrightarrow>
    a \<in> {Alarm_ENTRANCE_DELAY_ACTIVE, Alarm_ALARM_ABORT_DELAY_ACTIVE}"
  by (cases a) (simp_all add: ALARM_STATE_ENTRANCE_DELAY_def ALARM_STATE_ABORT_DELAY_def)

lemma fire_alarm_states: "alarm_is_fire [alarm_state_value a] \<longleftrightarrow>
    a \<in> {Alarm_FIRE_ALARM, Alarm_FIRE_SUPERVISORY, Alarm_VERIFY_FIRE}"
  by (cases a) (simp_all add: alarm_is_fire_def FIRE_ALARM_STATES_def)

lemma none_values [simp]: "protocol_value V_none = ''0''" "numeric_value V_none = 0"
  "alarm_is_active ''0'' = False" "alarm_is_fire ''0'' = False"
  by (simp_all add: protocol_value_def numeric_value_def alarm_is_active_def ALARM_STATE_FULL_ALARM_def
      alarm_is_fire_def FIRE_ALARM_STATES_def)

section \<open>Typed areas and zones\<close>

lemma typed_attr:
  assumes "element_typed tests e" and "map_of tests a = Some p"
  obtains v where "el_attrs e a = Some v" and "p v" and "get_attr e a = v"
proof -
  have "a \<in> fst ` set tests" using assms(2) by (force dest: map_of_SomeD)
  then obtain v where v: "el_attrs e a = Some v" using assms(1) by (auto simp: element_typed_def)
  then have "passes tests a v" using assms(1) by (simp add: element_typed_def)
  then have "p v" using assms(2) by (simp add: passes_def)
  with v show ?thesis by (intro that) (simp_all add: get_attr_def)
qed

lemma typed_area:
  assumes "element_typed (attr_tests K_area) e"
  obtains i1 i2 x m where "el_attrs e ''timer1'' = Some (V_int i1)" "el_attrs e ''timer2'' = Some (V_int i2)"
    "el_attrs e ''is_exit'' = Some (V_bool x)"
    "get_attr e ''armed_status'' = (case armed_of e of None \<Rightarrow> V_none | Some s \<Rightarrow> V_armed s)"
    "get_attr e ''arm_up_state'' = (case arm_up_of e of None \<Rightarrow> V_none | Some s \<Rightarrow> V_arm_up s)"
    "get_attr e ''alarm_state'' = (case alarm_of e of None \<Rightarrow> V_none | Some s \<Rightarrow> V_alarm s)"
proof -
  have 1: "\<exists>i. el_attrs e ''timer1'' = Some (V_int i)"
    by (rule typed_attr [OF assms, of "''timer1''" is_V_int]) (auto simp: attr_tests_def is_V_int_def)
  have 2: "\<exists>i. el_attrs e ''timer2'' = Some (V_int i)"
    by (rule typed_attr [OF assms, of "''timer2''" is_V_int]) (auto simp: attr_tests_def is_V_int_def)
  have 3: "\<exists>x. el_attrs e ''is_exit'' = Some (V_bool x)"
    by (rule typed_attr [OF assms, of "''is_exit''" is_V_bool]) (auto simp: attr_tests_def is_V_bool_def)
  have 4: "get_attr e ''armed_status'' = (case armed_of e of None \<Rightarrow> V_none | Some s \<Rightarrow> V_armed s)"
    by (rule typed_attr [OF assms, of "''armed_status''" "may_be_none is_V_armed"])
      (auto simp: attr_tests_def armed_of_def may_be_none_def is_V_armed_def)
  have 5: "get_attr e ''arm_up_state'' = (case arm_up_of e of None \<Rightarrow> V_none | Some s \<Rightarrow> V_arm_up s)"
    by (rule typed_attr [OF assms, of "''arm_up_state''" "may_be_none is_V_arm_up"])
      (auto simp: attr_tests_def arm_up_of_def may_be_none_def is_V_arm_up_def)
  have 6: "get_attr e ''alarm_state'' = (case alarm_of e of None \<Rightarrow> V_none | Some s \<Rightarrow> V_alarm s)"
    by (rule typed_attr [OF assms, of "''alarm_state''" "may_be_none is_V_alarm"])
      (auto simp: attr_tests_def alarm_of_def may_be_none_def is_V_alarm_def)
  show ?thesis using that 1 2 3 4 5 6 by blast
qed

text \<open>The state the entity derives from one area's data.\<close>

definition data_state :: "area_data \<Rightarrow> panel_state" where
  "data_state a = entity_alarm_state (empty_panel_data\<lparr>pd_areas := [(0, a)]\<rparr>) 0"

lemma data_state_of: "map_of (pd_areas d) i = Some a \<Longrightarrow> entity_alarm_state d i = data_state a"
  by (simp add: entity_alarm_state_def data_state_def area_data_of_def)

lemma py_less_ints [simp]: "py_less (V_int a) (V_int b) = Inr (a < b)"
  by (simp add: py_less_def)

lemma only_area: "area_data_of (empty_panel_data\<lparr>pd_areas := [(0, a)]\<rparr>) 0 = a"
  by (simp add: area_data_of_def)

lemma py_max_ints [simp]: "py_max (V_int a) (V_int b) = Inr (V_int (max a b))"
  by (simp add: py_max_def max_def)

lemma data_state_shown:
  "data_state \<lparr>ad_alarm_state = protocol_value (case al of None \<Rightarrow> V_none | Some s \<Rightarrow> V_alarm s),
      ad_armed_status = numeric_value (case ar of None \<Rightarrow> V_none | Some s \<Rightarrow> V_armed s),
      ad_arm_up_state = numeric_value (case up of None \<Rightarrow> V_none | Some s \<Rightarrow> V_arm_up s),
      ad_timer1 = t1, ad_timer2 = t2, ad_entry_delay_active = (\<not> x \<and> r), ad_exit_delay_active = (x \<and> r),
      ad_entry_delay = d1, ad_exit_delay = d2, ad_panic_state = p, ad_alarm_memory = m\<rparr> =
   shown_state ar up al x r"
proof -
  let ?up = "numeric_value (case up of None \<Rightarrow> V_none | Some s \<Rightarrow> V_arm_up s)"
    and ?al = "protocol_value (case al of None \<Rightarrow> V_none | Some s \<Rightarrow> V_alarm s)"
  have up: "?up = 3 \<longleftrightarrow> up = Some ArmUp_ARMED_AND_EXIT_TIMER_RUNNING" "?up = 6 \<longleftrightarrow> up = Some ArmUp_ARMED_WITH_BYPASS"
    by (auto simp: numeric_arm_up split: option.splits arm_up_state.splits)
  have act: "alarm_is_active ?al = (case al of None \<Rightarrow> False | Some a \<Rightarrow> full_alarm a)"
    by (simp add: alarm_protocol_value active_full_alarm split: option.split)
  have del: "?al \<in> {ALARM_STATE_ENTRANCE_DELAY, ALARM_STATE_ABORT_DELAY} \<longleftrightarrow>
      al \<in> {Some Alarm_ENTRANCE_DELAY_ACTIVE, Some Alarm_ALARM_ABORT_DELAY_ACTIVE}"
  proof (cases al)
    case None
    then show ?thesis by (simp add: ALARM_STATE_ENTRANCE_DELAY_def ALARM_STATE_ABORT_DELAY_def)
  next
    case (Some a)
    then show ?thesis using delay_alarm [of a] by (simp add: alarm_protocol_value)
  qed
  have "data_state \<lparr>ad_alarm_state = ?al, ad_armed_status = n, ad_arm_up_state = ?up,
      ad_timer1 = t1, ad_timer2 = t2, ad_entry_delay_active = (\<not> x \<and> r), ad_exit_delay_active = (x \<and> r),
      ad_entry_delay = d1, ad_exit_delay = d2, ad_panic_state = p, ad_alarm_memory = m\<rparr> =
    (if (case al of None \<Rightarrow> False | Some a \<Rightarrow> full_alarm a) then S_triggered
     else if al \<in> {Some Alarm_ENTRANCE_DELAY_ACTIVE, Some Alarm_ALARM_ABORT_DELAY_ACTIVE} then S_pending
     else if \<not> x \<and> r then S_pending
     else if x \<and> r \<or> up = Some ArmUp_ARMED_AND_EXIT_TIMER_RUNNING then S_arming
     else if up = Some ArmUp_ARMED_WITH_BYPASS \<and> n \<noteq> 0 then S_armed_custom_bypass
     else if n = 1 then S_armed_away else if n \<in> {2, 3} then S_armed_home
     else if n \<in> {4, 5} then S_armed_night else if n = 6 then S_armed_vacation else S_disarmed)" for n
    unfolding data_state_def entity_alarm_state_def Let_def only_area
    by (simp only: area_data.simps act del up)
  then show ?thesis
    by (cases ar) (auto simp: shown_state_def numeric_armed split: armed_status.split)
qed

lemma area_snapshot_typed:
  assumes "element_typed (attr_tests K_area) e"
  obtains d where "area_snapshot e = Inr d"
    and "data_state d = shown_state (armed_of e) (arm_up_of e) (alarm_of e) (is_exit_of e) (running_of e)"
    and "ad_armed_status d \<noteq> 0 \<longleftrightarrow> armed_of e \<notin> {None, Some Armed_DISARMED}"
    and "alarm_is_fire (ad_alarm_state d) \<longleftrightarrow>
      alarm_of e \<in> Some ` {Alarm_FIRE_ALARM, Alarm_FIRE_SUPERVISORY, Alarm_VERIFY_FIRE}"
proof -
  obtain i1 i2 x where at: "el_attrs e ''timer1'' = Some (V_int i1)" "el_attrs e ''timer2'' = Some (V_int i2)"
    "el_attrs e ''is_exit'' = Some (V_bool x)"
    and en: "get_attr e ''armed_status'' = (case armed_of e of None \<Rightarrow> V_none | Some s \<Rightarrow> V_armed s)"
      "get_attr e ''arm_up_state'' = (case arm_up_of e of None \<Rightarrow> V_none | Some s \<Rightarrow> V_arm_up s)"
      "get_attr e ''alarm_state'' = (case alarm_of e of None \<Rightarrow> V_none | Some s \<Rightarrow> V_alarm s)"
    by (rule typed_area [OF assms])
  have run: "running_of e \<longleftrightarrow> 0 < i1 \<or> 0 < i2" and ex: "is_exit_of e = x"
    using at by (auto simp: running_of_def is_exit_of_def get_attr_def)
  let ?al = "protocol_value (case alarm_of e of None \<Rightarrow> V_none | Some s \<Rightarrow> V_alarm s)"
  let ?ar = "numeric_value (case armed_of e of None \<Rightarrow> V_none | Some s \<Rightarrow> V_armed s)"
  let ?d = "\<lparr>ad_alarm_state = ?al, ad_armed_status = ?ar,
      ad_arm_up_state = numeric_value (case arm_up_of e of None \<Rightarrow> V_none | Some s \<Rightarrow> V_arm_up s),
      ad_timer1 = V_int i1, ad_timer2 = V_int i2,
      ad_entry_delay_active = (\<not> x \<and> (0 < i1 \<or> 0 < i2)), ad_exit_delay_active = (x \<and> (0 < i1 \<or> 0 < i2)),
      ad_entry_delay = (if \<not> x then V_int (max i1 i2) else V_int 0),
      ad_exit_delay = (if x then V_int (max i1 i2) else V_int 0),
      ad_panic_state = alarm_is_panic ?al, ad_alarm_memory = attr_or (V_bool False) e ''alarm_memory''\<rparr>"
  have d: "area_snapshot e = Inr ?d"
    using at(3) unfolding area_snapshot_def en Let_def
    by (cases "0 < i1") (simp_all add: at attr_or_def)
  show ?thesis
  proof (rule that [OF d])
    show "data_state ?d = shown_state (armed_of e) (arm_up_of e) (alarm_of e) (is_exit_of e) (running_of e)"
      unfolding run ex by (rule data_state_shown)
  qed (auto simp: numeric_armed alarm_protocol_value fire_alarm_states split: option.splits armed_status.splits)
qed

lemma configured_areas_sub: "a \<in> set (configured_areas as) \<Longrightarrow> a \<in> set as"
  by (auto simp: configured_areas_def Let_def split: if_splits dest: in_set_takeD)

lemma configured_areas_distinct: "distinct (map f as) \<Longrightarrow> distinct (map f (configured_areas as))"
  by (auto simp: configured_areas_def Let_def take_map [symmetric] intro: distinct_map_filter distinct_take)

lemma indices_distinct: "sizes_ok h \<Longrightarrow> distinct (map el_index (elems h k))"
  by (auto simp: distinct_conv_nth sizes_ok_def)

lemma first_temperature_typed:
  "(\<And>z. z \<in> set zs \<Longrightarrow> element_typed (attr_tests K_zone) z) \<Longrightarrow> \<exists>t. first_temperature zs = Inr t"
proof (induction zs)
  case (Cons z zs)
  have "\<exists>i. get_attr z ''temperature'' = V_int i"
    by (rule typed_attr [OF Cons.prems, of z "''temperature''" is_V_int]) (auto simp: attr_tests_def is_V_int_def)
  then show ?case using Cons by fastforce
qed simp

lemma keyed_lookup:
  assumes "mapr (\<lambda>a. bindr (f a) (\<lambda>d. Inr (g a, d))) xs = Inr ys" and "distinct (map g xs)" and "a \<in> set xs"
    and "f a = Inr d"
  shows "map_of ys (g a) = Some d"
proof -
  have "map fst ys = map g xs"
    using assms(1) by (induction xs arbitrary: ys) (auto simp: bindr_eq_Inr)
  moreover have "(g a, d) \<in> set ys"
    using assms(1,3,4) by (induction xs arbitrary: ys) (auto simp: bindr_eq_Inr)
  ultimately show ?thesis using assms(2) by (simp add: map_of_is_SomeI)
qed

lemma build_ok:
  assumes "hub_reachable h"
  obtains d where "build_normalized_data h raw u k t = Inr d"
proof -
  have ty: "e \<in> set (elems h k) \<Longrightarrow> element_typed (attr_tests k) e" for e k
    using hub_reachable_inv [OF assms] by (simp add: hub_inv_def types_ok_def)
  have step: "\<exists>y. bindr (area_snapshot a) (\<lambda>d. Inr (el_index a, d)) = Inr y"
    if cf: "a \<in> set (configured_areas (elems h K_area))" for a
  proof -
    obtain d where "area_snapshot a = Inr d"
      using area_snapshot_typed [OF ty [OF configured_areas_sub [OF cf]]] by blast
    then show ?thesis by simp
  qed
  have "\<exists>as. mapr (\<lambda>a. bindr (area_snapshot a) (\<lambda>d. Inr (el_index a, d)))
      (configured_areas (elems h K_area)) = Inr as"
    by (rule mapr_total) (rule step)
  then obtain as where as: "mapr (\<lambda>a. bindr (area_snapshot a) (\<lambda>d. Inr (el_index a, d)))
      (configured_areas (elems h K_area)) = Inr as" ..
  obtain tm where tm: "first_temperature (elems h K_zone) = Inr tm"
    using first_temperature_typed [of "elems h K_zone"] ty by blast
  have "\<exists>d. build_normalized_data h raw u k t = Inr d"
    unfolding build_normalized_data_def Let_def as tm bindr.simps by (rule exI, rule refl)
  then show ?thesis using that by blast
qed

section \<open>The two views of the trouble status\<close>

text \<open>The label the panel object uses; it differs in one capital.\<close>

definition panel_label :: "string \<Rightarrow> string" where
  "panel_label label = (if label = ''EEPROM Memory Error'' then ''EEProm Memory Error'' else label)"

lemma trouble_tables: "map (\<lambda>(i, name, label). (i, panel_label label, i \<in> set TROUBLE_DETAIL_INDICES))
    TROUBLE_INDEX_NAMES = trouble_positions"
  by (simp add: TROUBLE_INDEX_NAMES_def TROUBLE_DETAIL_INDICES_def trouble_positions_def panel_label_def)

definition active_troubles :: "string \<Rightarrow> (nat \<times> string \<times> string) list" where
  "active_troubles status = filter (\<lambda>(i, name, label). status ! i \<noteq> CHR ''0'') TROUBLE_INDEX_NAMES"

lemma trouble_index_bound: "(i, name, label) \<in> set TROUBLE_INDEX_NAMES \<Longrightarrow> i < 34 \<and> label \<noteq> []"
  by (auto simp: TROUBLE_INDEX_NAMES_def)

definition trouble_report :: "string \<Rightarrow> nat \<times> string \<times> string \<Rightarrow> string" where
  "trouble_report status = (\<lambda>(i, name, label).
     if i \<in> set TROUBLE_DETAIL_INDICES
     then panel_label label @ '' zone '' @ fmt_dec 0 (int (pyord (status ! i)) - 48)
     else panel_label label)"

lemma concat_map_if: "concat (map (\<lambda>x. if P x then [f x] else []) xs) = map f (filter P xs)"
  by (induction xs) simp_all

lemma trouble_text_reports:
  assumes "34 \<le> length status"
  shows "trouble_text status = Inr (join_strings '', '' (map (trouble_report status) (active_troubles status)))"
proof -
  have len: "i < length status" if "(i, n, l) \<in> set TROUBLE_INDEX_NAMES" for i n l
    using trouble_index_bound [OF that] assms by simp
  have "mapr (\<lambda>x. get_status status ((\<lambda>(i, name, label). (i, panel_label label, i \<in> set TROUBLE_DETAIL_INDICES)) x)) T =
      Inr (map (\<lambda>p. if (\<lambda>(i, name, label). status ! i \<noteq> CHR ''0'') p then [trouble_report status p] else []) T)"
    if "set T \<subseteq> set TROUBLE_INDEX_NAMES" for T
    by (intro mapr_Inr_map)
      (auto simp: get_status_def item_def trouble_report_def dest: len [OF subsetD [OF that]] split: prod.splits)
  then show ?thesis
    unfolding trouble_text_def trouble_tables [symmetric] mapr_map active_troubles_def
    by (simp add: concat_map_if)
qed

lemma join_strings_empty: "(\<And>x. x \<in> set xs \<Longrightarrow> x \<noteq> []) \<Longrightarrow> join_strings sep xs = [] \<longleftrightarrow> xs = []"
  by (induction sep xs rule: join_strings.induct) auto

lemma take_position:
  assumes "34 \<le> length status" and "i < 34"
  shows "i < length (take 34 status)" and "take 34 status ! i = status ! i"
  using assms by simp_all

lemma parse_troubles_full:
  assumes "34 \<le> length status"
  shows "parse_troubles status = map (\<lambda>(i, name, label). (name, status ! i \<noteq> CHR ''0'')) TROUBLE_INDEX_NAMES"
  unfolding parse_troubles_def normalize_trouble_status_def Let_def
  by (rule map_cong [OF refl])
    (auto simp del: length_take nth_take simp: take_position [OF assms] dest: trouble_index_bound)

lemma trouble_names_distinct: "distinct (map (\<lambda>(i, name, label). name) TROUBLE_INDEX_NAMES)"
  by (simp add: TROUBLE_INDEX_NAMES_def)

lemma trouble_flag:
  assumes "34 \<le> length status" and "(i, name, label) \<in> set TROUBLE_INDEX_NAMES"
  shows "map_of (parse_troubles status) name = Some (status ! i \<noteq> CHR ''0'')"
proof (rule map_of_is_SomeI)
  have "map fst (parse_troubles status) = map (\<lambda>(i, name, label). name) TROUBLE_INDEX_NAMES"
    by (simp add: parse_troubles_full [OF assms(1)] case_prod_unfold comp_def)
  then show "distinct (map fst (parse_troubles status))" using trouble_names_distinct by simp
  show "(name, status ! i \<noteq> CHR ''0'') \<in> set (parse_troubles status)"
    using assms(2) by (force simp: parse_troubles_full [OF assms(1)])
qed

lemma trouble_entry_unique:
  assumes "(i, name, label) \<in> set TROUBLE_INDEX_NAMES" and "(j, name, label') \<in> set TROUBLE_INDEX_NAMES"
  shows "j = i"
proof -
  have "inj_on (\<lambda>(i, name, label). name) (set TROUBLE_INDEX_NAMES)"
    using trouble_names_distinct by (simp only: distinct_map)
  from inj_onD [OF this _ assms] show ?thesis by simp
qed

lemma trouble_name_entry:
  assumes "(i, name, label) \<in> set TROUBLE_INDEX_NAMES"
  shows "trouble_name i = name"
proof -
  have "map_of TROUBLE_INDEX_NAMES i = Some (name, label)"
    by (rule map_of_is_SomeI [OF _ assms]) (simp add: TROUBLE_INDEX_NAMES_def)
  then show ?thesis by (simp add: trouble_name_def)
qed

lemma detail_entry:
  assumes "j \<in> set TROUBLE_DETAIL_INDICES"
  obtains name label where "(j, name, label) \<in> set TROUBLE_INDEX_NAMES"
proof -
  have "list_all (\<lambda>j. map_of TROUBLE_INDEX_NAMES j \<noteq> None) TROUBLE_DETAIL_INDICES"
    by (simp add: TROUBLE_INDEX_NAMES_def TROUBLE_DETAIL_INDICES_def)
  then have "map_of TROUBLE_INDEX_NAMES j \<noteq> None" using assms by (auto simp: list_all_iff)
  then obtain p where "map_of TROUBLE_INDEX_NAMES j = Some p" by blast
  then show ?thesis using that [of "fst p" "snd p"] by (simp add: map_of_SomeD)
qed

lemma detail_names:
  assumes "(i, name, label) \<in> set TROUBLE_INDEX_NAMES" and "j \<in> set TROUBLE_DETAIL_INDICES"
  shows "trouble_name j = name \<longleftrightarrow> j = i"
proof
  assume eq: "trouble_name j = name"
  obtain n l where e: "(j, n, l) \<in> set TROUBLE_INDEX_NAMES" by (rule detail_entry [OF assms(2)])
  then have "n = name" using trouble_name_entry eq by simp
  then show "j = i" using trouble_entry_unique [OF assms(1)] e by blast
qed (use trouble_name_entry [OF assms(1)] in simp)

lemma map_of_filtered:
  assumes "\<And>j. j \<in> set D \<Longrightarrow> g j = k \<longleftrightarrow> j = i"
  shows "map_of (map (\<lambda>j. (g j, f j)) (filter P D)) k = (if i \<in> set D \<and> P i then Some (f i) else None)"
  using assms by (induction D) auto

lemma trouble_detail:
  assumes "34 \<le> length status" and "(i, name, label) \<in> set TROUBLE_INDEX_NAMES"
  shows "map_of (parse_trouble_details status) name =
    (if i \<in> {1, 5, 18, 20, 33} \<and> status ! i \<noteq> CHR ''0'' then Some (int (pyord (status ! i)) - 48) else None)"
proof -
  have "i \<in> {1, 5, 18, 20, 33} \<longleftrightarrow> i \<in> set TROUBLE_DETAIL_INDICES" by (simp add: TROUBLE_DETAIL_INDICES_def)
  moreover have "pyord (CHR ''0'') = 48" by (simp add: pyord_def)
  moreover have "i < 34" using trouble_index_bound [OF assms(2)] by simp
  ultimately show ?thesis
    unfolding parse_trouble_details_def normalize_trouble_status_def Let_def
    by (simp add: map_of_filtered [where i = i, OF detail_names [OF assms(2)]] take_position [OF assms(1)] not_le assms(1))
qed

section \<open>What the snapshot says\<close>

lemma build_parts:
  assumes "build_normalized_data h raw u k t = Inr d"
  obtains as where "mapr (\<lambda>a. bindr (area_snapshot a) (\<lambda>d. Inr (el_index a, d))) (configured_areas (elems h K_area)) = Inr as"
    and "pd_areas d = as" and "pd_zones_faulted d = map el_index (zones_with_status 2 h)"
    and "pd_outputs_active d = map el_index (active_outputs h)"
    and "pd_armed d = list_ex (\<lambda>(i, a). ad_armed_status a \<noteq> 0) as"
    and "pd_fire_alarm_active d = (list_ex (\<lambda>(i, a). alarm_is_fire (ad_alarm_state a)) as \<or>
      list_ex fire_zone_triggered (elems h K_zone))"
  using assms unfolding build_normalized_data_def Let_def by (auto simp: bindr_eq_Inr)

lemma some_area:
  assumes "mapr (\<lambda>a. bindr (f a) (\<lambda>d. Inr (g a, d))) xs = Inr ys"
  shows "list_ex (\<lambda>(i, d). P d) ys \<longleftrightarrow> (\<exists>a \<in> set xs. \<exists>d. f a = Inr d \<and> P d)"
  using assms by (induction xs arbitrary: ys) (auto simp: bindr_eq_Inr)

lemma logical_values:
  "numeric_value (V_logical e) = 2 \<longleftrightarrow> e = ZL_VIOLATED"
  "numeric_value (V_logical e) = 3 \<longleftrightarrow> e = ZL_BYPASSED"
  by (cases e; simp add: numeric_value_def int_of_rat_def)+

lemma fire_definitions: "numeric_value (V_zone_type e) \<in> set FIRE_ZONE_DEFINITIONS \<longleftrightarrow>
    e \<in> {ZT_FIRE_ALARM, ZT_FIRE_VERIFIED, ZT_FIRE_SUPERVISORY}"
  by (cases e) (simp_all add: numeric_value_def int_of_rat_def FIRE_ZONE_DEFINITIONS_def)

lemma typed_zone:
  assumes "element_typed (attr_tests K_zone) e"
  obtains lo ty b where "get_attr e ''logical_status'' = V_logical lo" and "get_attr e ''definition'' = V_zone_type ty"
    and "el_attrs e ''triggered_alarm'' = Some (V_bool b)"
proof -
  have "\<exists>lo. get_attr e ''logical_status'' = V_logical lo"
    by (rule typed_attr [OF assms, of "''logical_status''" is_V_logical]) (auto simp: attr_tests_def is_V_logical_def)
  moreover have "\<exists>ty. get_attr e ''definition'' = V_zone_type ty"
    by (rule typed_attr [OF assms, of "''definition''" is_V_zone_type]) (auto simp: attr_tests_def is_V_zone_type_def)
  moreover have "\<exists>b. el_attrs e ''triggered_alarm'' = Some (V_bool b)"
    by (rule typed_attr [OF assms, of "''triggered_alarm''" is_V_bool]) (auto simp: attr_tests_def is_V_bool_def)
  ultimately show ?thesis using that by blast
qed

lemma violated_zone:
  assumes "element_typed (attr_tests K_zone) e"
  shows "numeric_value (get_attr e ''logical_status'') = 2 \<longleftrightarrow> get_attr e ''logical_status'' = V_logical ZL_VIOLATED"
  by (rule typed_zone [OF assms]) (auto simp: logical_values)

lemma fire_zone:
  assumes "element_typed (attr_tests K_zone) e"
  shows "fire_zone_triggered e \<longleftrightarrow> el_configured e \<and> get_attr e ''triggered_alarm'' = V_bool True \<and>
    get_attr e ''definition'' \<in> V_zone_type ` {ZT_FIRE_ALARM, ZT_FIRE_VERIFIED, ZT_FIRE_SUPERVISORY}"
  by (rule typed_zone [OF assms]) (auto simp: fire_zone_triggered_def fire_definitions attr_or_def get_attr_def)

lemma reachable_typed: "hub_reachable h \<Longrightarrow> e \<in> set (elems h k) \<Longrightarrow> element_typed (attr_tests k) e"
  using hub_reachable_inv by (simp add: hub_inv_def types_ok_def)

lemma reachable_sizes: "hub_reachable h \<Longrightarrow> sizes_ok h"
  using hub_reachable_inv by (simp add: hub_inv_def)

lemma map_filter_positions:
  assumes "\<And>z. z < length xs \<Longrightarrow> g (xs ! z) = z"
  shows "map g (filter P xs) = filter (\<lambda>z. P (xs ! z)) [0..<length xs]"
proof -
  have "map g (filter P (map ((!) xs) [0..<length xs])) = filter (\<lambda>z. P (xs ! z)) [0..<length xs]"
    using assms by (auto simp: filter_map comp_def intro: map_idI)
  then show ?thesis by (simp add: map_nth)
qed

lemma faulted_zones:
  assumes "hub_reachable h"
  shows "map el_index (zones_with_status 2 h) = filter (\<lambda>z. el_configured (elems h K_zone ! z) \<and>
      get_attr (elems h K_zone ! z) ''logical_status'' = V_logical ZL_VIOLATED) [0..<208]"
proof -
  have "zones_with_status 2 h = filter (\<lambda>z. el_configured z \<and> get_attr z ''logical_status'' = V_logical ZL_VIOLATED) (elems h K_zone)"
    unfolding zones_with_status_def
    by (intro filter_cong refl) (use violated_zone [OF reachable_typed [OF assms]] in blast)
  moreover have "length (elems h K_zone) = 208" and "z < length (elems h K_zone) \<Longrightarrow> el_index (elems h K_zone ! z) = z" for z
    using reachable_sizes [OF assms] by (simp_all add: sizes_ok_def MAX_ZONES_def)
  ultimately show ?thesis by (simp add: map_filter_positions)
qed

section \<open>What goes wrong\<close>

text \<open>A user the panel has no name for keeps the default name, so the fallback is never shown.\<close>

lemma unnamed_user_shows_default: "user_display_name (hub_init 0) (Some 2) = ''User-003''"
proof -
  have "elems (hub_init 0) K_user ! 2 = new_element 2 ((''name'', V_str (default_name K_user 2)) # class_attrs 0 K_user)"
    by (simp add: elems_def hub_init_def fold_attach_simps new_coll_def MAX_USERS_def numeral_2_eq_2)
  moreover have "default_name K_user 2 = ''User-003''"
    by (simp add: default_name_def fmt_dec_def zfill_def to_digits.simps digit_chars, simp add: numeral_2_eq_2)
  ultimately show ?thesis
    by (simp add: user_display_name_def username_def MAX_USERS_def get_attr_def new_element_def)
qed

section \<open>Properties\<close>

text \<open>C24. Types: in every reachable hub each attribute of each element and of the panel has its declared
  type and none is missing, so the snapshot is built without an exception whatever the panel has sent.\<close>

theorem snapshot_total:
  assumes "hub_reachable h"
  shows "(\<forall>k. \<forall>e \<in> set (elems h k). element_typed (attr_tests k) e) \<and>
    element_typed panel_tests (hb_panel h) \<and>
    (\<exists>d. build_normalized_data h raw last_user last_keypad last_user_time = Inr d)"
proof -
  have "element_typed panel_tests (hb_panel h)"
    using hub_reachable_inv [OF assms] by (simp add: hub_inv_def types_ok_def)
  moreover have "\<exists>d. build_normalized_data h raw last_user last_keypad last_user_time = Inr d"
    by (rule build_ok [OF assms]) blast
  ultimately show ?thesis using reachable_typed [OF assms] by blast
qed

theorem snapshot_total_witness:
  "\<exists>d. build_normalized_data (notify ''ZC'' (P_ZC 3 (ZL_VIOLATED, ZP_OPEN)) (hub_init 0)) ''0'' None None None = Inr d"
  using snapshot_total [OF hub_next [OF hub_start on_message]] by blast

text \<open>C25. The alarm entity: for every configured area of a reachable hub the entity shows the state the
  panel's enumerations call for: triggered in every full alarm, pending in the entry and abort delays,
  arming while the exit timer runs, and otherwise the armed level.\<close>

theorem alarm_entity_shows:
  assumes "hub_reachable h" and "build_normalized_data h raw u k t = Inr d"
    and "a \<in> set (configured_areas (elems h K_area))"
  shows "entity_alarm_state d (el_index a) =
    shown_state (armed_of a) (arm_up_of a) (alarm_of a) (is_exit_of a) (running_of a)"
proof -
  obtain d' where 1: "area_snapshot a = Inr d'"
    "data_state d' = shown_state (armed_of a) (arm_up_of a) (alarm_of a) (is_exit_of a) (running_of a)"
    using area_snapshot_typed [OF reachable_typed [OF assms(1) configured_areas_sub [OF assms(3)]]] by blast
  obtain as where as: "pd_areas d = as"
    "mapr (\<lambda>a. bindr (area_snapshot a) (\<lambda>d. Inr (el_index a, d))) (configured_areas (elems h K_area)) = Inr as"
    using build_parts [OF assms(2)] by blast
  have "map_of as (el_index a) = Some d'"
    by (rule keyed_lookup [OF as(2) _ assms(3) 1(1)])
      (rule configured_areas_distinct, rule indices_distinct, rule reachable_sizes [OF assms(1)])
  then show ?thesis using data_state_of 1(2) as(1) by simp
qed

text \<open>The content of the snapshot: the faulted zones are exactly the configured violated ones in
  ascending order, the fire alarm is active exactly when an area reports a fire alarm or a configured
  fire zone is in alarm, and the panel counts as armed exactly when an area is.\<close>

theorem snapshot_contents:
  assumes "hub_reachable h" and "build_normalized_data h raw u k t = Inr d"
  shows "pd_zones_faulted d = filter (\<lambda>z. el_configured (elems h K_zone ! z) \<and>
      get_attr (elems h K_zone ! z) ''logical_status'' = V_logical ZL_VIOLATED) [0..<208] \<and>
    (pd_fire_alarm_active d \<longleftrightarrow>
      (\<exists>a \<in> set (configured_areas (elems h K_area)).
         alarm_of a \<in> Some ` {Alarm_FIRE_ALARM, Alarm_FIRE_SUPERVISORY, Alarm_VERIFY_FIRE}) \<or>
      (\<exists>z \<in> set (elems h K_zone). el_configured z \<and> get_attr z ''triggered_alarm'' = V_bool True \<and>
         get_attr z ''definition'' \<in> V_zone_type ` {ZT_FIRE_ALARM, ZT_FIRE_VERIFIED, ZT_FIRE_SUPERVISORY})) \<and>
    (pd_armed d \<longleftrightarrow> (\<exists>a \<in> set (configured_areas (elems h K_area)). armed_of a \<notin> {None, Some Armed_DISARMED}))"
proof (intro conjI)
  obtain as where as: "mapr (\<lambda>a. bindr (area_snapshot a) (\<lambda>d. Inr (el_index a, d))) (configured_areas (elems h K_area)) = Inr as"
    "pd_zones_faulted d = map el_index (zones_with_status 2 h)"
    "pd_armed d = list_ex (\<lambda>(i, a). ad_armed_status a \<noteq> 0) as"
    "pd_fire_alarm_active d = (list_ex (\<lambda>(i, a). alarm_is_fire (ad_alarm_state a)) as \<or>
      list_ex fire_zone_triggered (elems h K_zone))"
    using build_parts [OF assms(2)] by blast
  have area: "\<exists>d. area_snapshot a = Inr d \<and>
      (ad_armed_status d \<noteq> 0 \<longleftrightarrow> armed_of a \<notin> {None, Some Armed_DISARMED}) \<and>
      (alarm_is_fire (ad_alarm_state d) \<longleftrightarrow>
        alarm_of a \<in> Some ` {Alarm_FIRE_ALARM, Alarm_FIRE_SUPERVISORY, Alarm_VERIFY_FIRE})"
    if "a \<in> set (configured_areas (elems h K_area))" for a
    by (rule area_snapshot_typed [OF reachable_typed [OF assms(1) configured_areas_sub [OF that]]]) blast
  show "pd_zones_faulted d = filter (\<lambda>z. el_configured (elems h K_zone ! z) \<and>
      get_attr (elems h K_zone ! z) ''logical_status'' = V_logical ZL_VIOLATED) [0..<208]"
    unfolding as(2) by (rule faulted_zones [OF assms(1)])
  show "pd_fire_alarm_active d \<longleftrightarrow>
      (\<exists>a \<in> set (configured_areas (elems h K_area)).
         alarm_of a \<in> Some ` {Alarm_FIRE_ALARM, Alarm_FIRE_SUPERVISORY, Alarm_VERIFY_FIRE}) \<or>
      (\<exists>z \<in> set (elems h K_zone). el_configured z \<and> get_attr z ''triggered_alarm'' = V_bool True \<and>
         get_attr z ''definition'' \<in> V_zone_type ` {ZT_FIRE_ALARM, ZT_FIRE_VERIFIED, ZT_FIRE_SUPERVISORY})"
    unfolding as(4) some_area [OF as(1)] using area fire_zone [OF reachable_typed [OF assms(1)]]
    by (fastforce simp: list_ex_iff)
  show "pd_armed d \<longleftrightarrow> (\<exists>a \<in> set (configured_areas (elems h K_area)). armed_of a \<notin> {None, Some Armed_DISARMED})"
    unfolding as(3) some_area [OF as(1)] using area by fastforce
qed

theorem snapshot_contents_witness:
  "\<exists>d. build_normalized_data (hub_init 0) ''0'' None None None = Inr d \<and> pd_zones_faulted d = [] \<and> \<not> pd_armed d"
proof -
  obtain d where d: "build_normalized_data (hub_init 0) ''0'' None None None = Inr d"
    by (rule build_ok [OF hub_start])
  have un: "\<not> el_configured (elems (hub_init 0) k ! z)" if "z < max_elements k" for k z
    using that by (simp add: elems_def hub_init_def fold_attach_simps new_coll_def new_element_def)
  have "armed_of a = None" if "a \<in> set (elems (hub_init 0) K_area)" for a
    using that by (auto simp: elems_def hub_init_def fold_attach_simps new_coll_def new_element_def armed_of_def
        get_attr_def class_attrs_def area_attrs_def)
  then have "\<not> (\<exists>a \<in> set (configured_areas (elems (hub_init 0) K_area)). armed_of a \<notin> {None, Some Armed_DISARMED})"
    using configured_areas_sub by blast
  moreover have "filter (\<lambda>z. el_configured (elems (hub_init 0) K_zone ! z) \<and>
      get_attr (elems (hub_init 0) K_zone ! z) ''logical_status'' = V_logical ZL_VIOLATED) [0..<208] = []"
    using un [of _ K_zone] by (auto simp: filter_empty_conv MAX_ZONES_def)
  ultimately have "pd_zones_faulted d = [] \<and> \<not> pd_armed d"
    using snapshot_contents [OF hub_start d] by (simp only: simp_thms)
  then show ?thesis using d by blast
qed

theorem alarm_entity_shows_witness:
  "\<exists>d. build_normalized_data (hub_init 0) ''0'' None None None = Inr d \<and> entity_alarm_state d 0 = S_disarmed"
proof -
  obtain d where d: "build_normalized_data (hub_init 0) ''0'' None None None = Inr d"
    by (rule build_ok [OF hub_start])
  let ?a = "elems (hub_init 0) K_area ! 0"
  have el: "elems (hub_init 0) K_area =
      map (\<lambda>i. new_element i ((''name'', V_str (default_name K_area i)) # area_attrs)) [0..<8]"
    by (simp add: elems_def hub_init_def fold_attach_simps new_coll_def class_attrs_def MAX_AREAS_def)
  then have "configured_areas (elems (hub_init 0) K_area) = [?a]"
    by (simp add: configured_areas_def new_element_def upt_rec filter_empty_conv)
  moreover have "el_index ?a = 0 \<and> armed_of ?a = None \<and> arm_up_of ?a = None \<and> alarm_of ?a = None \<and> \<not> running_of ?a"
    unfolding el by (simp add: new_element_def armed_of_def arm_up_of_def alarm_of_def running_of_def get_attr_def area_attrs_def)
  ultimately show ?thesis using alarm_entity_shows [OF hub_start d, of ?a] d by (auto simp: shown_state_def)
qed

text \<open>The two readings of the trouble status agree: for a status of at least 34 characters the panel
  object's text is the list of the active troubles, with the number for the detailed ones; it is empty
  exactly when the snapshot reports no trouble; each trouble's flag and number are those of its position.\<close>

theorem troubles_agree:
  assumes "34 \<le> length status"
  shows "trouble_text status = Inr (join_strings '', '' (map (trouble_report status) (active_troubles status))) \<and>
    (trouble_text status = Inr [] \<longleftrightarrow> \<not> list_ex snd (parse_troubles status)) \<and>
    (\<forall>(i, name, label) \<in> set TROUBLE_INDEX_NAMES.
       map_of (parse_troubles status) name = Some (status ! i \<noteq> CHR ''0'') \<and>
       map_of (parse_trouble_details status) name =
         (if i \<in> {1, 5, 18, 20, 33} \<and> status ! i \<noteq> CHR ''0'' then Some (int (pyord (status ! i)) - 48) else None))"
proof (intro conjI)
  show 1: "trouble_text status = Inr (join_strings '', '' (map (trouble_report status) (active_troubles status)))"
    by (rule trouble_text_reports [OF assms])
  have "trouble_report status x \<noteq> []" if "x \<in> set (active_troubles status)" for x
    using that by (auto simp: active_troubles_def trouble_report_def panel_label_def dest: trouble_index_bound split: if_splits)
  then have "join_strings '', '' (map (trouble_report status) (active_troubles status)) = [] \<longleftrightarrow> active_troubles status = []"
    by (subst join_strings_empty) auto
  then show "trouble_text status = Inr [] \<longleftrightarrow> \<not> list_ex snd (parse_troubles status)"
    unfolding 1 parse_troubles_full [OF assms] by (auto simp: active_troubles_def list_ex_iff filter_empty_conv)
  show "\<forall>(i, name, label) \<in> set TROUBLE_INDEX_NAMES.
       map_of (parse_troubles status) name = Some (status ! i \<noteq> CHR ''0'') \<and>
       map_of (parse_trouble_details status) name =
         (if i \<in> {1, 5, 18, 20, 33} \<and> status ! i \<noteq> CHR ''0'' then Some (int (pyord (status ! i)) - 48) else None)"
    using trouble_flag [OF assms] trouble_detail [OF assms] by blast
qed

theorem troubles_agree_witness:
  "trouble_text (''A'' @ replicate 33 (CHR ''0'')) = Inr ''AC Fail''"
proof -
  have "active_troubles (''A'' @ replicate 33 (CHR ''0'')) = [(0, ''ac_fail'', ''AC Fail'')]"
    by (simp add: active_troubles_def TROUBLE_INDEX_NAMES_def)
  moreover have "trouble_report (''A'' @ replicate 33 (CHR ''0'')) (0, ''ac_fail'', ''AC Fail'') = ''AC Fail''"
    by (simp add: trouble_report_def TROUBLE_DETAIL_INDICES_def panel_label_def)
  ultimately show ?thesis
    using troubles_agree [of "''A'' @ replicate 33 (CHR ''0'')"] by simp
qed

end
