(* ===== verification/Ha_Programming.thy ===== *)
theory Ha_Programming
  imports Elk_Prelude "HOL-Library.AList"
begin

text \<open>
  \<open>programming.py\<close>: who programs the panel. The tracker keeps the claim a tool announced, the session
  nobody announced, and the last sessions; it fires the events, raises and deletes the Repair issues
  and persists its data. A time is a number of microseconds (the code keeps ISO texts, which
  \<open>fromisoformat\<close> reads back exactly). Home Assistant's event bus, issue registry and storage are their
  documented effect: a log of the fired events, a dictionary from issue ids, and the data last written.
\<close>

section \<open>Data\<close>

definition HISTORY_LIMIT :: nat where "HISTORY_LIMIT = 20"
definition SOURCE_UNATTRIBUTED :: string where "SOURCE_UNATTRIBUTED = ''unattributed''"
definition ISSUE_UNATTRIBUTED :: string where "ISSUE_UNATTRIBUTED = ''programming_unattributed''"
definition ISSUE_CLAIM_UNMATCHED :: string where "ISSUE_CLAIM_UNMATCHED = ''programming_claim_unmatched''"

text \<open>In microseconds.\<close>

definition CLAIM_UNMATCHED_AFTER :: int where "CLAIM_UNMATCHED_AFTER = 300 * 1000000"

record claim =
  cl_source :: string
  cl_user :: string
  cl_purpose :: string
  cl_claimed_at :: int
  cl_rp_seen :: bool

record session_record =
  sr_source :: string
  sr_user :: string
  sr_purpose :: string
  sr_started :: int
  sr_ended :: "int option"
  sr_attributed :: bool
  sr_rp_seen :: bool

record programming_state =
  ps_claim :: "claim option"
  ps_unattributed_started :: "int option"
  ps_rp_connected :: bool
  ps_history :: "session_record list"
  ps_session_count :: int

definition initial_state :: programming_state where
  "initial_state =
     \<lparr>ps_claim = None, ps_unattributed_started = None, ps_rp_connected = False, ps_history = [],
      ps_session_count = 0\<rparr>"

definition last_record :: "programming_state \<Rightarrow> session_record option" where
  "last_record st = (if ps_history st = [] then None else Some (last (ps_history st)))"

definition last_started :: "programming_state \<Rightarrow> int option" where
  "last_started st = map_option sr_started (last_record st)"

definition last_ended :: "programming_state \<Rightarrow> int option" where
  "last_ended st = Option.bind (last_record st) sr_ended"

definition current_source :: "programming_state \<Rightarrow> string option" where
  "current_source st =
     (case ps_claim st of
        Some c \<Rightarrow> Some (cl_source c)
      | None \<Rightarrow> if ps_unattributed_started st \<noteq> None then Some SOURCE_UNATTRIBUTED
                else map_option sr_source (last_record st))"

text \<open>What is stored, what is fired, and what the issue registry holds.\<close>

record stored =
  st_claim :: "claim option"
  st_history :: "session_record list"
  st_session_count :: int

datatype fired =
    Programming_started string string string bool bool
  | Programming_ended session_record

datatype issue = Issue_unattributed "int option" | Issue_unmatched string int

record tracker =
  tk_state :: programming_state
  tk_store :: "stored option"
  tk_save_due :: bool
  tk_listeners :: "nat list"
  tk_calls :: "nat list"
  tk_loaded :: bool
  tk_fired :: "fired list"
  tk_issues :: "(string \<times> issue) list"

definition tracker_init :: "stored option \<Rightarrow> tracker" where
  "tracker_init store =
     \<lparr>tk_state = initial_state, tk_store = store, tk_save_due = False, tk_listeners = [], tk_calls = [],
      tk_loaded = False, tk_fired = [], tk_issues = []\<rparr>"

abbreviation upd_state :: "(programming_state \<Rightarrow> programming_state) \<Rightarrow> tracker \<Rightarrow> tracker" where
  "upd_state f t \<equiv> t\<lparr>tk_state := f (tk_state t)\<rparr>"

section \<open>Operations\<close>

definition async_load :: "tracker \<Rightarrow> tracker" where
  "async_load t =
     (if tk_loaded t then t
      else case tk_store t of
             None \<Rightarrow> t\<lparr>tk_loaded := True\<rparr>
           | Some d \<Rightarrow>
               (upd_state (\<lambda>st. st\<lparr>ps_claim := st_claim d, ps_history := st_history d,
                                   ps_session_count := st_session_count d\<rparr>) t)\<lparr>tk_loaded := True\<rparr>)"

definition tracker_data :: "programming_state \<Rightarrow> stored" where
  "tracker_data st =
     \<lparr>st_claim = ps_claim st, st_history = ps_history st, st_session_count = ps_session_count st\<rparr>"

text \<open>The deferred write, the write a second later, and the immediate one, which cancels it.\<close>

definition save_later :: "tracker \<Rightarrow> tracker" where
  "save_later t = t\<lparr>tk_save_due := True\<rparr>"

definition async_save :: "tracker \<Rightarrow> tracker" where
  "async_save t = t\<lparr>tk_store := Some (tracker_data (tk_state t)), tk_save_due := False\<rparr>"

definition delayed_save :: "tracker \<Rightarrow> tracker" where
  "delayed_save t = (if tk_save_due t then async_save t else t)"

definition add_listener :: "nat \<Rightarrow> tracker \<Rightarrow> tracker" where
  "add_listener l t = t\<lparr>tk_listeners := List.insert l (tk_listeners t)\<rparr>"

definition discard_listener :: "nat \<Rightarrow> tracker \<Rightarrow> tracker" where
  "discard_listener l t = t\<lparr>tk_listeners := removeAll l (tk_listeners t)\<rparr>"

definition notify_listeners :: "tracker \<Rightarrow> tracker" where
  "notify_listeners t = t\<lparr>tk_calls := tk_calls t @ tk_listeners t\<rparr>"

definition fire :: "fired \<Rightarrow> tracker \<Rightarrow> tracker" where
  "fire ev t = t\<lparr>tk_fired := tk_fired t @ [ev]\<rparr>"

definition append_record :: "session_record \<Rightarrow> tracker \<Rightarrow> tracker" where
  "append_record r t =
     upd_state (\<lambda>st. st\<lparr>ps_history := take_end HISTORY_LIMIT (ps_history st @ [r]),
                         ps_session_count := ps_session_count st + 1\<rparr>) t"

definition create_issue :: "string \<Rightarrow> issue \<Rightarrow> tracker \<Rightarrow> tracker" where
  "create_issue issue_id i t = t\<lparr>tk_issues := AList.update issue_id i (tk_issues t)\<rparr>"

definition starts_with :: "string \<Rightarrow> string \<Rightarrow> bool" where
  "starts_with p s = (take (length p) s = p)"

definition delete_issue :: "string \<Rightarrow> tracker \<Rightarrow> tracker" where
  "delete_issue p t = t\<lparr>tk_issues := filter (\<lambda>(i, _). \<not> starts_with p i) (tk_issues t)\<rparr>"

definition close_claim :: "int \<Rightarrow> string option \<Rightarrow> tracker \<Rightarrow> tracker" where
  "close_claim ended user t =
     (case ps_claim (tk_state t) of
        None \<Rightarrow> t
      | Some c \<Rightarrow>
          let user = (case user of None \<Rightarrow> cl_user c | Some u \<Rightarrow> if u = [] then cl_user c else u);
              r = \<lparr>sr_source = cl_source c, sr_user = user, sr_purpose = cl_purpose c,
                   sr_started = cl_claimed_at c, sr_ended = Some ended, sr_attributed = True,
                   sr_rp_seen = cl_rp_seen c\<rparr>;
              t = append_record r t;
              t = upd_state (\<lambda>st. st\<lparr>ps_claim := None\<rparr>) t
          in fire (Programming_ended r) t)"

definition async_claim :: "string \<Rightarrow> string \<Rightarrow> string \<Rightarrow> int \<Rightarrow> tracker \<Rightarrow> tracker" where
  "async_claim source user purpose now t =
     (let t = async_load t;
          t = (if ps_claim (tk_state t) \<noteq> None then close_claim now None t else t);
          seen = ps_rp_connected (tk_state t);
          c = \<lparr>cl_source = source, cl_user = user, cl_purpose = purpose, cl_claimed_at = now,
               cl_rp_seen = seen\<rparr>;
          t = upd_state (\<lambda>st. st\<lparr>ps_claim := Some c\<rparr>) t;
          t = (if ps_unattributed_started (tk_state t) \<noteq> None
               then delete_issue ISSUE_UNATTRIBUTED (upd_state (\<lambda>st. st\<lparr>ps_unattributed_started := None\<rparr>) t)
               else t);
          t = fire (Programming_started source user purpose True seen) t
      in notify_listeners (async_save t))"

definition async_end :: "string \<Rightarrow> string \<Rightarrow> int \<Rightarrow> tracker \<Rightarrow> tracker" where
  "async_end source user now t =
     (let t = async_load t
      in case ps_claim (tk_state t) of
           None \<Rightarrow> t
         | Some c \<Rightarrow>
             let t = close_claim now (Some (if user = [] then cl_user c else user)) t;
                 t = delete_issue ISSUE_CLAIM_UNMATCHED t
             in notify_listeners (async_save t))"

definition async_rp_status :: "string \<Rightarrow> bool \<Rightarrow> int \<Rightarrow> tracker \<Rightarrow> tracker" where
  "async_rp_status entry_id connected now t =
     (let t = upd_state (\<lambda>st. st\<lparr>ps_rp_connected := connected\<rparr>) t;
          t = (if connected then
                 (case ps_claim (tk_state t) of
                    Some c \<Rightarrow> delete_issue ISSUE_CLAIM_UNMATCHED
                                (upd_state (\<lambda>st. st\<lparr>ps_claim := Some (c\<lparr>cl_rp_seen := True\<rparr>)\<rparr>) t)
                  | None \<Rightarrow>
                      if ps_unattributed_started (tk_state t) = None then
                        let t = upd_state (\<lambda>st. st\<lparr>ps_unattributed_started := Some now\<rparr>) t;
                            t = fire (Programming_started SOURCE_UNATTRIBUTED '''' '''' False True) t
                        in create_issue (ISSUE_UNATTRIBUTED @ ''_'' @ entry_id)
                             (Issue_unattributed (ps_unattributed_started (tk_state t))) t
                      else t)
               else (case ps_unattributed_started (tk_state t) of
                       None \<Rightarrow> t
                     | Some started \<Rightarrow>
                         let r = \<lparr>sr_source = SOURCE_UNATTRIBUTED, sr_user = [], sr_purpose = [],
                                  sr_started = started, sr_ended = Some now, sr_attributed = False,
                                  sr_rp_seen = True\<rparr>;
                             t = upd_state (\<lambda>st. st\<lparr>ps_unattributed_started := None\<rparr>) t;
                             t = append_record r t
                         in fire (Programming_ended r) t))
      in notify_listeners (save_later t))"

definition async_check_claim :: "string \<Rightarrow> int \<Rightarrow> tracker \<Rightarrow> tracker" where
  "async_check_claim entry_id now t =
     (case ps_claim (tk_state t) of
        None \<Rightarrow> t
      | Some c \<Rightarrow>
          if cl_rp_seen c then t
          else if now - cl_claimed_at c < CLAIM_UNMATCHED_AFTER then t
          else create_issue (ISSUE_CLAIM_UNMATCHED @ ''_'' @ entry_id)
                 (Issue_unmatched (cl_source c) (cl_claimed_at c)) t)"

text \<open>The end of the process: storage is what is left of the tracker.\<close>

definition restart :: "tracker \<Rightarrow> tracker" where
  "restart t = tracker_init (tk_store t)"

lemmas tracker_defs = async_claim_def async_end_def async_rp_status_def async_check_claim_def
  close_claim_def append_record_def async_save_def delayed_save_def save_later_def notify_listeners_def
  fire_def create_issue_def delete_issue_def add_listener_def discard_listener_def Let_def

section \<open>Histories\<close>

text \<open>Everything that can happen to a tracker, each with the time at which it happens.\<close>

datatype tracker_op =
    Op_claim string string string
  | Op_end string string
  | Op_rp string bool
  | Op_check string
  | Op_saved
  | Op_listen nat
  | Op_unlisten nat

fun tracker_step :: "tracker_op \<times> int \<Rightarrow> tracker \<Rightarrow> tracker" where
  "tracker_step (Op_claim source user purpose, now) t = async_claim source user purpose now t"
| "tracker_step (Op_end source user, now) t = async_end source user now t"
| "tracker_step (Op_rp entry_id connected, now) t = async_rp_status entry_id connected now t"
| "tracker_step (Op_check entry_id, now) t = async_check_claim entry_id now t"
| "tracker_step (Op_saved, now) t = delayed_save t"
| "tracker_step (Op_listen l, now) t = add_listener l t"
| "tracker_step (Op_unlisten l, now) t = discard_listener l t"

definition tracker_run :: "(tracker_op \<times> int) list \<Rightarrow> tracker \<Rightarrow> tracker" where
  "tracker_run = fold tracker_step"

text \<open>A loaded tracker with at most one running session.\<close>

definition tracking :: "tracker \<Rightarrow> bool" where
  "tracking t = (tk_loaded t \<and>
     (ps_claim (tk_state t) = None \<or> ps_unattributed_started (tk_state t) = None) \<and>
     length (ps_history (tk_state t)) \<le> HISTORY_LIMIT)"

lemma async_load_loaded [simp]: "tk_loaded t \<Longrightarrow> async_load t = t"
  by (simp add: async_load_def)

lemma tracking_step: "tracking t \<Longrightarrow> tracking (tracker_step op t)"
  by (cases "(op, t)" rule: tracker_step.cases)
    (auto simp: tracking_def tracker_defs length_take_end split: option.splits)

text \<open>What holds of every step holds of every history.\<close>

lemma tracker_run_induct:
  assumes "tracking t" and "P t" and "\<And>op t. tracking t \<Longrightarrow> P t \<Longrightarrow> P (tracker_step op t)"
  shows "tracking (tracker_run ops t) \<and> P (tracker_run ops t)"
  using assms(1,2) unfolding tracker_run_def
  by (induction ops arbitrary: t) (auto intro: assms(3) tracking_step)

section \<open>The abstract specification\<close>

text \<open>
  Who holds the panel: nobody, a claimant, or somebody unknown; and whether the panel reports a
  session. A claim always takes over; its end frees the panel whoever asks for it; a reported session
  without a claim is somebody unknown's, until the panel reports its end.
\<close>

datatype holder = Nobody | Claimed string | Unknown

fun holder_step :: "tracker_op \<Rightarrow> holder \<times> bool \<Rightarrow> holder \<times> bool" where
  "holder_step (Op_claim source user purpose) (h, rp) = (Claimed source, rp)"
| "holder_step (Op_end source user) (h, rp) = (case h of Claimed s \<Rightarrow> (Nobody, rp) | _ \<Rightarrow> (h, rp))"
| "holder_step (Op_rp entry_id connected) (h, rp) =
     (case h of
        Claimed s \<Rightarrow> (Claimed s, connected)
      | _ \<Rightarrow> (if connected then Unknown else Nobody, connected))"
| "holder_step _ s = s"

definition holder_of :: "tracker \<Rightarrow> holder \<times> bool" where
  "holder_of t =
     (case ps_claim (tk_state t) of
        Some c \<Rightarrow> Claimed (cl_source c)
      | None \<Rightarrow> if ps_unattributed_started (tk_state t) \<noteq> None then Unknown else Nobody,
      ps_rp_connected (tk_state t))"

lemma holder_of_step: "tracking t \<Longrightarrow> holder_of (tracker_step (op, now) t) = holder_step op (holder_of t)"
  by (cases op) (auto simp: tracking_def holder_of_def tracker_defs split: option.splits)

lemma current_source_holder:
  "current_source (tk_state t) =
     (case fst (holder_of t) of
        Claimed s \<Rightarrow> Some s
      | Unknown \<Rightarrow> Some ''unattributed''
      | Nobody \<Rightarrow> map_option sr_source (last_record (tk_state t)))"
  by (auto simp: holder_of_def current_source_def SOURCE_UNATTRIBUTED_def split: option.splits)

text \<open>The sessions the fired events report as ended.\<close>

fun ended_sessions :: "fired list \<Rightarrow> session_record list" where
  "ended_sessions [] = []"
| "ended_sessions (Programming_ended r # evs) = r # ended_sessions evs"
| "ended_sessions (Programming_started _ _ _ _ _ # evs) = ended_sessions evs"

lemma ended_sessions_append [simp]: "ended_sessions (xs @ ys) = ended_sessions xs @ ended_sessions ys"
  by (induction xs rule: ended_sessions.induct) simp_all

lemma take_end_take_end_append: "take_end n (take_end n xs @ ys) = take_end n (xs @ ys)"
  by (cases "n \<le> length xs") (auto simp: take_end_def add.commute)

text \<open>The history follows the events: from \<open>t\<close> on, it is what the ended sessions make of it.\<close>

definition history_follows :: "tracker \<Rightarrow> tracker \<Rightarrow> bool" where
  "history_follows t t' = (\<exists>evs. tk_fired t' = tk_fired t @ evs \<and>
     ps_history (tk_state t') = take_end HISTORY_LIMIT (ps_history (tk_state t) @ ended_sessions evs) \<and>
     ps_session_count (tk_state t') = ps_session_count (tk_state t) + int (length (ended_sessions evs)))"

lemma history_follows_refl: "tracking t \<Longrightarrow> history_follows t t"
  by (auto simp: history_follows_def tracking_def take_end_def intro: exI [of _ "[]"])

lemma history_follows_step:
  assumes "history_follows t0 t" and "tracking t"
  shows "history_follows t0 (tracker_step op t)"
proof -
  have "history_follows t (tracker_step op t)"
    using assms(2) history_follows_refl [OF assms(2)]
    by (cases "(op, t)" rule: tracker_step.cases)
      (auto simp: history_follows_def tracking_def tracker_defs split: option.splits)
  then show ?thesis using assms(1)
    by (fastforce simp: history_follows_def take_end_take_end_append)
qed

section \<open>Persistence\<close>

text \<open>A claim without what the panel said about it.\<close>

definition announced :: "claim option \<Rightarrow> claim option" where
  "announced c = map_option (\<lambda>c. c\<lparr>cl_rp_seen := False\<rparr>) c"

definition stored_claim :: "tracker \<Rightarrow> claim option" where
  "stored_claim t = Option.bind (tk_store t) st_claim"

text \<open>The stored claim is the current one, and without a write due everything stored is current.\<close>

definition durable :: "tracker \<Rightarrow> bool" where
  "durable t = (announced (stored_claim t) = announced (ps_claim (tk_state t)) \<and>
     (\<not> tk_save_due t \<longrightarrow> tk_store t = Some (tracker_data (tk_state t)) \<or>
        tk_store t = None \<and> tracker_data (tk_state t) = tracker_data initial_state))"

lemma durable_step: "durable t \<Longrightarrow> tracking t \<Longrightarrow> durable (tracker_step op t)"
  by (cases "(op, t)" rule: tracker_step.cases)
    (auto simp: durable_def tracking_def stored_claim_def announced_def tracker_data_def tracker_defs
      split: option.splits)

lemma stored_after_restart:
  "durable t \<Longrightarrow> announced (ps_claim (tk_state (async_load (restart t)))) = announced (ps_claim (tk_state t))"
  by (auto simp: durable_def stored_claim_def announced_def async_load_def restart_def tracker_init_def
      initial_state_def split: option.splits)

lemma all_after_restart:
  "durable t \<Longrightarrow> \<not> tk_save_due t \<Longrightarrow>
    tracker_data (tk_state (async_load (restart t))) = tracker_data (tk_state t)"
  by (auto simp: durable_def async_load_def restart_def tracker_init_def initial_state_def tracker_data_def
      split: option.splits)

lemma first_load: "tracking (async_load (tracker_init None)) \<and> durable (async_load (tracker_init None))"
  by (simp add: tracking_def durable_def async_load_def tracker_init_def initial_state_def stored_claim_def
      announced_def)

section \<open>What goes wrong\<close>

text \<open>
  Nothing loads the stored data before the first claim or end is announced: a status report of the
  panel that comes first after a restart saves the empty state over the stored claim and history.
\<close>

lemma status_before_load_loses_claim:
  "tk_store (delayed_save (async_rp_status entry_id False now (restart t))) =
     Some \<lparr>st_claim = None, st_history = [], st_session_count = 0\<rparr>"
  by (simp add: tracker_defs restart_def tracker_init_def initial_state_def tracker_data_def)

text \<open>A claim that replaces another one leaves the Repair issue of the replaced claim standing.\<close>

lemma replaced_claim_keeps_issue:
  "map_of (tk_issues (tracker_run
      [(Op_claim ''app'' ''u'' ''receive'', 0), (Op_check ''e'', 300000000), (Op_claim ''other'' ''u'' ''send'', 400000000)]
      (async_load (tracker_init None)))) ''programming_claim_unmatched_e'' = Some (Issue_unmatched ''app'' 0)"
  by (simp add: tracker_run_def tracker_defs async_load_def tracker_init_def initial_state_def
      ISSUE_CLAIM_UNMATCHED_def CLAIM_UNMATCHED_AFTER_def)

section \<open>Properties\<close>

text \<open>C23. Who holds the panel: over any history of announcements, status reports, checks, writes and
  listeners, a loaded tracker with at most one running session stays one, and the holder it shows
  follows the abstract specification step by step; a claim shows its source and an unannounced session
  the word unattributed.\<close>

theorem programming_refines:
  assumes "tracking t"
  shows "tracking (tracker_run ops t) \<and>
    holder_of (tracker_run ops t) = fold holder_step (map fst ops) (holder_of t) \<and>
    current_source (tk_state (tracker_run ops t)) =
      (case fst (holder_of (tracker_run ops t)) of
         Claimed s \<Rightarrow> Some s
       | Unknown \<Rightarrow> Some ''unattributed''
       | Nobody \<Rightarrow> map_option sr_source (last_record (tk_state (tracker_run ops t))))"
proof -
  have "holder_of (tracker_run ops t) = fold holder_step (map fst ops) (holder_of t)"
    using assms unfolding tracker_run_def
    by (induction ops arbitrary: t) (auto simp: holder_of_step tracking_step)
  moreover have "tracking (tracker_run ops t)"
    using tracker_run_induct [OF assms, where P = "\<lambda>_. True"] by simp
  ultimately show ?thesis using current_source_holder by blast
qed

theorem programming_refines_witness:
  "fst (holder_of (tracker_run [(Op_rp ''e'' True, 1), (Op_claim ''app'' ''u'' ''receive'', 2), (Op_rp ''e'' False, 3)]
     (async_load (tracker_init None)))) = Claimed ''app''"
proof -
  have "holder_of (async_load (tracker_init None)) = (Nobody, False)"
    by (simp add: holder_of_def async_load_def tracker_init_def initial_state_def)
  then show ?thesis
    using programming_refines [OF conjunct1 [OF first_load],
        of "[(Op_rp ''e'' True, 1), (Op_claim ''app'' ''u'' ''receive'', 2), (Op_rp ''e'' False, 3)]"]
    by simp
qed

text \<open>The session history: over any history the tracker fires further events, its records are the
  last twenty of the old records followed by exactly the sessions those events report as ended, in
  order, and the session count grows by their number.\<close>

theorem session_history:
  assumes "tracking t"
  shows "\<exists>evs. tk_fired (tracker_run ops t) = tk_fired t @ evs \<and>
    ps_history (tk_state (tracker_run ops t)) = take_end 20 (ps_history (tk_state t) @ ended_sessions evs) \<and>
    ps_session_count (tk_state (tracker_run ops t)) = ps_session_count (tk_state t) + int (length (ended_sessions evs))"
proof -
  have "history_follows t (tracker_run ops t)"
    using tracker_run_induct [where P = "history_follows t", OF assms history_follows_refl [OF assms]]
      history_follows_step by blast
  then show ?thesis by (simp add: history_follows_def HISTORY_LIMIT_def)
qed

theorem session_history_witness:
  "ps_session_count (tk_state (tracker_run [(Op_rp ''e'' True, 1), (Op_rp ''e'' False, 2)]
     (async_load (tracker_init None)))) = 1"
proof -
  let ?ops = "[(Op_rp ''e'' True, 1), (Op_rp ''e'' False, 2)]" and ?t = "async_load (tracker_init None)"
  have "tk_fired ?t = [] \<and> ps_session_count (tk_state ?t) = 0"
    by (simp add: async_load_def tracker_init_def initial_state_def)
  moreover have "ended_sessions (tk_fired (tracker_run ?ops ?t)) =
      [\<lparr>sr_source = SOURCE_UNATTRIBUTED, sr_user = [], sr_purpose = [], sr_started = 1, sr_ended = Some 2,
        sr_attributed = False, sr_rp_seen = True\<rparr>]"
    by (simp add: tracker_run_def tracker_defs async_load_def tracker_init_def initial_state_def)
  ultimately show ?thesis using session_history [OF conjunct1 [OF first_load], of ?ops] by auto
qed

text \<open>A claim survives a crash: whatever a loaded, stored tracker went through, the tracker that
  loads after a restart holds the same claim up to what the panel had said about it, and when no write
  was due also the same history and count.\<close>

theorem claim_survives_restart:
  assumes "tracking t" and "durable t"
  shows "announced (ps_claim (tk_state (async_load (restart (tracker_run ops t))))) =
      announced (ps_claim (tk_state (tracker_run ops t))) \<and>
    (\<not> tk_save_due (tracker_run ops t) \<longrightarrow>
      tracker_data (tk_state (async_load (restart (tracker_run ops t)))) =
      tracker_data (tk_state (tracker_run ops t)))"
proof -
  have "durable (tracker_run ops t)"
    using tracker_run_induct [where P = durable, OF assms] durable_step by blast
  then show ?thesis using stored_after_restart all_after_restart by blast
qed

theorem claim_survives_restart_witness:
  "announced (ps_claim (tk_state (async_load (restart (tracker_run [(Op_claim ''app'' ''u'' ''send'', 5)]
     (async_load (tracker_init None))))))) =
   Some \<lparr>cl_source = ''app'', cl_user = ''u'', cl_purpose = ''send'', cl_claimed_at = 5, cl_rp_seen = False\<rparr>"
proof -
  have "ps_claim (tk_state (tracker_run [(Op_claim ''app'' ''u'' ''send'', 5)] (async_load (tracker_init None)))) =
    Some \<lparr>cl_source = ''app'', cl_user = ''u'', cl_purpose = ''send'', cl_claimed_at = 5, cl_rp_seen = False\<rparr>"
    by (simp add: tracker_run_def tracker_defs async_load_def tracker_init_def initial_state_def)
  then show ?thesis
    using claim_survives_restart [OF conjunct1 [OF first_load] conjunct2 [OF first_load],
        of "[(Op_claim ''app'' ''u'' ''send'', 5)]"]
    by (simp add: announced_def)
qed

end
