(* ===== verification/Ha_Coordinator.thy ===== *)
theory Ha_Coordinator
  imports Ha_Snapshot Ha_Programming Elk_Panel Elk_Transport Elk_Events Elk_Vocabulary
begin

text \<open>
  \<open>coordinator.py\<close>: the handlers the integration registers with the hub, the commands it sends and
  waits for, and the safety-net poll. What happens while a command or a poll waits is the list of
  messages dispatched before its time-out; a wait ends with the first message that satisfies it. Home
  Assistant's bus is the log of the fired events.
\<close>

section \<open>State\<close>

datatype bus_event =
    Bus_key_pressed int string int string "kc_detail option"
  | Bus_user_code int "int option" bool
  | Bus_timer int string int int int
  | Bus_log int int string int int string
  | Bus_alarm_memory "int list"
  | Bus_voice "int list" string

text \<open>
  \<open>cd_waiting\<close> holds the message types for which a command or a poll has a handler registered;
  \<open>cd_data\<close> and \<open>cd_update_ok\<close> are what Home Assistant's coordinator shows.
\<close>

record coordinator =
  cd_elk :: "hub option"
  cd_manager :: "manager option"
  cd_pin :: string
  cd_raw_trouble_status :: string
  cd_keypad_status :: "(int \<times> kc_detail) list"
  cd_last_user :: "int option"
  cd_last_keypad :: "int option"
  cd_last_user_time :: "nat option"
  cd_last_command_timeout :: "string option"
  cd_broadcast_counts :: "(string \<times> nat) list"
  cd_last_push_update :: "nat option"
  cd_last_poll_success :: "nat option"
  cd_poll_timeouts :: nat
  cd_data :: panel_data
  cd_update_ok :: bool
  cd_events :: "bus_event list"
  cd_waiting :: "string list"
  cd_now :: nat

definition POLL_TIMEOUT_RECONNECT_THRESHOLD :: nat where "POLL_TIMEOUT_RECONNECT_THRESHOLD = 2"

definition coordinator_init :: "string \<Rightarrow> nat \<Rightarrow> coordinator" where
  "coordinator_init pin now =
     \<lparr>cd_elk = None, cd_manager = None, cd_pin = pin, cd_raw_trouble_status = [], cd_keypad_status = [],
      cd_last_user = None, cd_last_keypad = None, cd_last_user_time = None,
      cd_last_command_timeout = None,
      cd_broadcast_counts = map (\<lambda>ty. (ty, 0)) [''ZC'', ''CC'', ''TC'', ''PC'', ''KC'', ''LD''],
      cd_last_push_update = None, cd_last_poll_success = None, cd_poll_timeouts = 0,
      cd_data = empty_panel_data, cd_update_ok = True, cd_events = [], cd_waiting = [], cd_now = now\<rparr>"

definition fire_bus :: "bus_event \<Rightarrow> coordinator \<Rightarrow> coordinator" where
  "fire_bus ev c = c\<lparr>cd_events := cd_events c @ [ev]\<rparr>"

text \<open>\<open>_build_normalized_data\<close>: without a hub the data stays what it is.\<close>

definition coordinator_data :: "coordinator \<Rightarrow> panel_data result" where
  "coordinator_data c =
     (case cd_elk c of
        None \<Rightarrow> Inr (cd_data c)
      | Some h \<Rightarrow>
          build_normalized_data h (cd_raw_trouble_status c) (cd_last_user c) (cd_last_keypad c) (cd_last_user_time c))"

text \<open>\<open>self.async_set_updated_data(self._build_normalized_data())\<close>.\<close>

definition push_update :: "coordinator stmt" where
  "push_update =
     eval_then coordinator_data (\<lambda>d. update_st (\<lambda>c. c\<lparr>cd_data := d, cd_update_ok := True\<rparr>))"

section \<open>Handlers\<close>

definition handle_keypad_change :: "int \<Rightarrow> string \<Rightarrow> (string \<times> pyval) list \<Rightarrow> coordinator \<Rightarrow> coordinator" where
  "handle_keypad_change index name changeset c =
     (case map_of changeset ''last_keypress'' of
        Some (V_named_key key_name key) \<Rightarrow>
          fire_bus (Bus_key_pressed (index + 1) name key key_name (map_of (cd_keypad_status c) index)) c
      | _ \<Rightarrow> c)"

definition handle_user_code :: "int \<Rightarrow> int \<Rightarrow> coordinator stmt" where
  "handle_user_code user keypad =
     (let valid = (user \<ge> 0)
      in seq
        [update_st (\<lambda>c. c\<lparr>cd_last_user := (if valid then Some user else None), cd_last_keypad := Some keypad,
                          cd_last_user_time := Some (cd_now c)\<rparr>),
         update_st (fire_bus (Bus_user_code (keypad + 1) (if valid then Some (user + 1) else None) valid)),
         push_update])"

definition handle_keypad_detail :: "kc_detail \<Rightarrow> coordinator stmt" where
  "handle_keypad_detail detail =
     update_st (\<lambda>c. c\<lparr>cd_keypad_status := AList.update (kcd_keypad detail) detail (cd_keypad_status c)\<rparr>)"

text \<open>A statement on the coordinator's hub; without one it is the \<open>return\<close> of the handler.\<close>

definition on_elk :: "hub stmt \<Rightarrow> coordinator stmt" where
  "on_elk st c =
     (case cd_elk c of
        None \<Rightarrow> (c, None)
      | Some h \<Rightarrow> (case st h of (h, err) \<Rightarrow> (c\<lparr>cd_elk := Some h\<rparr>, err)))"

definition handle_all_lights :: "int \<Rightarrow> int \<Rightarrow> hub stmt" where
  "handle_all_lights house_index aggregate_code =
     when_st (\<lambda>_. aggregate_code \<in> {1, 2, 7})
       (for_each [0..<16] (\<lambda>n.
          with_elem K_light (house_index * 16 + int n) (\<lambda>j.
            elem_set K_light j ''status'' (V_int (if aggregate_code = 2 then 1 else 0)) True)))"

definition handle_command_timeout :: "string option \<Rightarrow> coordinator stmt" where
  "handle_command_timeout msg_code = update_st (\<lambda>c. c\<lparr>cd_last_command_timeout := msg_code\<rparr>)"

definition count_broadcast :: "string \<Rightarrow> coordinator stmt" where
  "count_broadcast msg_type =
     eval_then (\<lambda>c. of_option KeyError (map_of (cd_broadcast_counts c) msg_type)) (\<lambda>n.
       update_st (\<lambda>c. c\<lparr>cd_broadcast_counts := AList.update msg_type (n + 1) (cd_broadcast_counts c),
                        cd_last_push_update := Some (cd_now c)\<rparr>))"

definition handle_disconnected :: "coordinator stmt" where
  "handle_disconnected =
     update_st (\<lambda>c. c\<lparr>cd_manager := map_option mark_disconnected (cd_manager c), cd_poll_timeouts := 0,
                      cd_update_ok := False\<rparr>)"

definition handle_login :: "bool \<Rightarrow> coordinator stmt" where
  "handle_login succeeded = seq
     [update_st (\<lambda>c. c\<lparr>cd_manager := map_option (mark_login succeeded) (cd_manager c)\<rparr>),
      when_st (\<lambda>c. succeeded \<and> (\<exists>h. cd_elk c = Some h \<and> cn_writer (hb_conn h))) push_update]"

definition handle_timer_event :: "int \<Rightarrow> bool \<Rightarrow> int \<Rightarrow> int \<Rightarrow> armed_status \<Rightarrow> coordinator stmt" where
  "handle_timer_event area is_exit timer1 timer2 armed_status =
     update_st (fire_bus (Bus_timer (area + 1) (if is_exit then ''exit'' else ''entry'') timer1 timer2
       (numeric_value (V_armed armed_status))))"

definition handle_log_event :: "int \<Rightarrow> log_entry \<Rightarrow> coordinator stmt" where
  "handle_log_event area entry =
     update_st (fire_bus (Bus_log (area + 1) (le_event entry) (describe_elk_event (le_event entry))
       (le_number entry) (le_index entry) (le_timestamp entry)))"

definition handle_alarm_memory :: "bool list \<Rightarrow> coordinator stmt" where
  "handle_alarm_memory alarm_memory =
     update_st (fire_bus (Bus_alarm_memory
       (map (\<lambda>(i, flagged). int i + 1) (filter snd (zip [0..<length alarm_memory] alarm_memory)))))"

definition handle_zone_definitions :: "zone_type list \<Rightarrow> hub stmt" where
  "handle_zone_definitions zone_definitions =
     for_each (zip [0..<length zone_definitions] zone_definitions) (\<lambda>(zone_index, d).
       when_st (\<lambda>_. numeric_value (V_zone_type d) = 34)
         (with_elem K_zone (int zone_index) (\<lambda>j. zone_get_voltage j)))"

definition handle_trouble_status :: "string \<Rightarrow> coordinator stmt" where
  "handle_trouble_status system_trouble_status = seq
     [update_st (\<lambda>c. c\<lparr>cd_raw_trouble_status := normalize_trouble_status system_trouble_status\<rparr>), push_update]"

text \<open>
  \<open>_handle_voice_message\<close> is registered as a callback of the panel element: the last argument it gets
  is the dictionary of the changes. Only a list of words is ever announced.
\<close>

datatype voice_argument = Voice_words "voice_id list" | Voice_changeset "(string \<times> pyval) list"

definition handle_voice_message :: "voice_argument \<Rightarrow> coordinator \<Rightarrow> coordinator" where
  "handle_voice_message words c =
     (case words of
        Voice_changeset changeset \<Rightarrow> c
      | Voice_words ws \<Rightarrow>
          (case mapr word_id ws of
             Inl e \<Rightarrow> c
           | Inr word_ints \<Rightarrow>
               let readable_message = translate_elk_voice (map Id word_ints)
               in if readable_message \<noteq> [] then fire_bus (Bus_voice word_ints readable_message) c else c))"

text \<open>The two reports that concern the session tracker, which all entries share.\<close>

definition handle_rp_status ::
  "string \<Rightarrow> elk_rp_status \<Rightarrow> coordinator \<times> tracker \<Rightarrow> (coordinator \<times> tracker) \<times> py_error option" where
  "handle_rp_status entry_id status = (\<lambda>(c, t).
     let connected = (numeric_value (V_rp status) \<noteq> 0);
         t = async_rp_status entry_id connected (int (cd_now c)) t
     in case push_update c of (c, err) \<Rightarrow> ((c, t), err))"

definition handle_installer_exit :: "string \<Rightarrow> coordinator \<times> tracker \<Rightarrow> coordinator \<times> tracker" where
  "handle_installer_exit entry_id = (\<lambda>(c, t). (c, async_rp_status entry_id False (int (cd_now c)) t))"

text \<open>The handlers a message runs after those of the hub, each caught by the notifier.\<close>

definition message_handlers :: "payload \<Rightarrow> coordinator stmt list" where
  "message_handlers p =
     (case p of
        P_EE area is_exit t1 t2 armed \<Rightarrow> [handle_timer_event area is_exit t1 t2 armed]
      | P_LD area entry \<Rightarrow> [handle_log_event area entry]
      | P_IC code user keypad \<Rightarrow> [handle_user_code user keypad]
      | P_AM alarm_memory \<Rightarrow> [handle_alarm_memory alarm_memory]
      | P_SS st \<Rightarrow> [handle_trouble_status st]
      | P_ZD types \<Rightarrow> [on_elk (handle_zone_definitions types)]
      | P_PC_ALL house code \<Rightarrow> [on_elk (handle_all_lights house code)]
      | P_LOGIN succeeded \<Rightarrow> [handle_login succeeded]
      | _ \<Rightarrow> [])"

definition integration_handlers :: "string \<Rightarrow> payload \<Rightarrow> coordinator stmt list" where
  "integration_handlers ty p =
     message_handlers p @
     (if ty \<in> {''ZC'', ''CC'', ''TC'', ''PC'', ''KC'', ''LD''} then [count_broadcast ty] else []) @
     (if ty = ''disconnected'' then [handle_disconnected] else [])"

definition dispatch :: "string \<Rightarrow> payload \<Rightarrow> coordinator \<Rightarrow> coordinator" where
  "dispatch ty p c =
     fold (\<lambda>st c. fst (st c)) (integration_handlers ty p)
       (c\<lparr>cd_elk := map_option (notify ty p) (cd_elk c)\<rparr>)"

definition async_disconnect :: "coordinator \<Rightarrow> coordinator" where
  "async_disconnect c =
     (case cd_manager c of None \<Rightarrow> c | Some m \<Rightarrow> c\<lparr>cd_manager := None, cd_elk := None\<rparr>)"

section \<open>Commands\<close>

datatype ha_error =
    Panel_unavailable
  | Panel_disconnected
  | Elkrp_paused
  | Queue_command_failed string py_error
  | Send_command_failed string py_error
  | Command_not_confirmed string string
  | Panic_not_supported
  | Uncaught py_error

type_synonym command = "coordinator \<Rightarrow> coordinator \<times> (ha_error + bool)"

definition ensure_command_ready :: "coordinator \<Rightarrow> ha_error option" where
  "ensure_command_ready c =
     (case cd_elk c of
        None \<Rightarrow> Some Panel_disconnected
      | Some h \<Rightarrow>
          if \<not> cn_writer (hb_conn h) then Some Panel_disconnected
          else if cn_paused (hb_conn h) then Some Elkrp_paused
          else None)"

definition queue_command :: "hub stmt \<Rightarrow> string \<Rightarrow> command" where
  "queue_command sender description c =
     (case ensure_command_ready c of
        Some e \<Rightarrow> (c, Inl e)
      | None \<Rightarrow>
          (case on_elk sender c of
             (c, Some e) \<Rightarrow> (c, Inl (Queue_command_failed description e))
           | (c, None) \<Rightarrow> (c, Inr True)))"

text \<open>The wait for a matching reply among the messages that arrive in time.\<close>

fun await_match ::
  "string \<Rightarrow> (payload \<Rightarrow> bool) \<Rightarrow> (string \<times> payload) list \<Rightarrow> coordinator \<Rightarrow> coordinator \<times> bool" where
  "await_match response_command predicate [] c = (c, False)"
| "await_match response_command predicate ((ty, p) # arrivals) c =
     (let c = dispatch ty p c
      in if ty = response_command \<and> predicate p then (c, True)
         else await_match response_command predicate arrivals c)"

definition add_waiting :: "string \<Rightarrow> coordinator \<Rightarrow> coordinator" where
  "add_waiting ty c = c\<lparr>cd_waiting := ty # cd_waiting c\<rparr>"

definition remove_waiting :: "string \<Rightarrow> coordinator \<Rightarrow> coordinator" where
  "remove_waiting ty c = c\<lparr>cd_waiting := remove1 ty (cd_waiting c)\<rparr>"

definition confirm_command ::
  "hub stmt \<Rightarrow> string \<Rightarrow> string \<Rightarrow> (payload \<Rightarrow> bool) \<Rightarrow> (string \<times> payload) list \<Rightarrow> command" where
  "confirm_command sender response_command description predicate arrivals c =
     (case ensure_command_ready c of
        Some e \<Rightarrow> (c, Inl e)
      | None \<Rightarrow>
          (case on_elk sender (add_waiting response_command c) of
             (c, Some e) \<Rightarrow> (remove_waiting response_command c, Inl (Send_command_failed description e))
           | (c, None) \<Rightarrow>
               (case await_match response_command predicate arrivals c of
                  (c, False) \<Rightarrow>
                    (remove_waiting response_command (c\<lparr>cd_last_command_timeout := Some response_command\<rparr>),
                     Inl (Command_not_confirmed description response_command))
                | (c, True) \<Rightarrow>
                    ((remove_waiting response_command c)\<lparr>cd_last_command_timeout := None\<rparr>, Inr True))))"

text \<open>The code that is used, the caller's or the configured one; a pin that is no number raises.\<close>

definition active_pin :: "int \<Rightarrow> coordinator \<Rightarrow> int result" where
  "active_pin code c =
     (if code > 0 then Inr code
      else if cd_pin c = [] then Inr 0 else py_int 10 (cd_pin c))"

text \<open>
  A code as a caller gives it: a text (the alarm card), a number (the schema of a service), or none. The
  bypass commands use the caller's when it is true, that is neither empty nor zero.
\<close>

datatype code_argument = No_code | Code_text string | Code_int int

definition active_pin_text :: "code_argument \<Rightarrow> coordinator \<Rightarrow> int result" where
  "active_pin_text pin_code c =
     (let stored = (if cd_pin c = [] then Inr 0 else py_int 10 (cd_pin c))
      in case pin_code of
           No_code \<Rightarrow> stored
         | Code_text s \<Rightarrow> if s = [] then stored else py_int 10 s
         | Code_int n \<Rightarrow> if n = 0 then stored else Inr n)"

text \<open>A command on an element: the hub has to be there, the pin and the index have to be right.\<close>

definition with_target :: "kind \<Rightarrow> int \<Rightarrow> int result \<Rightarrow> (hub \<Rightarrow> nat \<Rightarrow> int \<Rightarrow> command) \<Rightarrow> command" where
  "with_target k index pin body c =
     (case cd_elk c of
        None \<Rightarrow> (c, Inl Panel_unavailable)
      | Some h \<Rightarrow>
          (case pin of
             Inl e \<Rightarrow> (c, Inl (Uncaught e))
           | Inr pin \<Rightarrow>
               (case py_pos (length (elems h k)) index of
                  None \<Rightarrow> (c, Inl (Uncaught IndexError))
                | Some j \<Rightarrow> body h j pin c)))"

text \<open>\<open>level.name\<close>.\<close>

primrec arm_level_name :: "arm_level \<Rightarrow> string" where
  "arm_level_name Level_DISARM = ''DISARM''"
| "arm_level_name Level_ARMED_AWAY = ''ARMED_AWAY''"
| "arm_level_name Level_ARMED_STAY = ''ARMED_STAY''"
| "arm_level_name Level_ARMED_STAY_INSTANT = ''ARMED_STAY_INSTANT''"
| "arm_level_name Level_ARMED_NIGHT = ''ARMED_NIGHT''"
| "arm_level_name Level_ARMED_NIGHT_INSTANT = ''ARMED_NIGHT_INSTANT''"
| "arm_level_name Level_ARMED_VACATION = ''ARMED_VACATION''"
| "arm_level_name Level_ARM_TO_NEXT_AWAY_MODE = ''ARM_TO_NEXT_AWAY_MODE''"
| "arm_level_name Level_ARM_TO_NEXT_STAY_MODE = ''ARM_TO_NEXT_STAY_MODE''"
| "arm_level_name Level_FORCE_ARM_TO_AWAY_MODE = ''FORCE_ARM_TO_AWAY_MODE''"
| "arm_level_name Level_FORCE_ARM_TO_STAY_MODE = ''FORCE_ARM_TO_STAY_MODE''"

definition force_arm_confirms_as :: "arm_level \<Rightarrow> string" where
  "force_arm_confirms_as level =
     (case level of
        Level_FORCE_ARM_TO_AWAY_MODE \<Rightarrow> [armed_status_value Armed_ARMED_AWAY]
      | Level_FORCE_ARM_TO_STAY_MODE \<Rightarrow> [armed_status_value Armed_ARMED_STAY]
      | _ \<Rightarrow> [arm_level_value level])"

definition armed_matches :: "nat \<Rightarrow> string \<Rightarrow> payload \<Rightarrow> bool" where
  "armed_matches area_index expected p =
     (case p of
        P_AS statuses _ _ _ \<Rightarrow> area_index < length statuses \<and> protocol_value (V_armed (statuses ! area_index)) = expected
      | _ \<Rightarrow> False)"

definition execute_arm_cmd :: "arm_level \<Rightarrow> nat \<Rightarrow> int \<Rightarrow> (string \<times> payload) list \<Rightarrow> command" where
  "execute_arm_cmd level area_index code arrivals c =
     with_target K_area (int area_index) (active_pin code c) (\<lambda>h j pin c.
       let expected = force_arm_confirms_as level
       in if protocol_value (get_attr (elems h K_area ! j) ''armed_status'') = expected then (c, Inr True)
          else confirm_command (if level = Level_DISARM then area_disarm j pin else area_arm j level pin) ''AS''
                 (''arm/disarm command ('' @ arm_level_name level @ '')'') (armed_matches area_index expected) arrivals c) c"

definition alarm_disarm :: "nat \<Rightarrow> int \<Rightarrow> (string \<times> payload) list \<Rightarrow> command" where
  "alarm_disarm = execute_arm_cmd Level_DISARM"
definition alarm_arm_away :: "nat \<Rightarrow> int \<Rightarrow> (string \<times> payload) list \<Rightarrow> command" where
  "alarm_arm_away = execute_arm_cmd Level_ARMED_AWAY"
definition alarm_arm_home :: "nat \<Rightarrow> int \<Rightarrow> (string \<times> payload) list \<Rightarrow> command" where
  "alarm_arm_home = execute_arm_cmd Level_ARMED_STAY"
definition alarm_arm_night :: "nat \<Rightarrow> int \<Rightarrow> (string \<times> payload) list \<Rightarrow> command" where
  "alarm_arm_night = execute_arm_cmd Level_ARMED_NIGHT"
definition alarm_arm_vacation :: "nat \<Rightarrow> int \<Rightarrow> (string \<times> payload) list \<Rightarrow> command" where
  "alarm_arm_vacation = execute_arm_cmd Level_ARMED_VACATION"
definition alarm_arm_home_instant :: "nat \<Rightarrow> int \<Rightarrow> (string \<times> payload) list \<Rightarrow> command" where
  "alarm_arm_home_instant = execute_arm_cmd Level_ARMED_STAY_INSTANT"
definition alarm_arm_night_instant :: "nat \<Rightarrow> int \<Rightarrow> (string \<times> payload) list \<Rightarrow> command" where
  "alarm_arm_night_instant = execute_arm_cmd Level_ARMED_NIGHT_INSTANT"
definition alarm_arm_custom_bypass :: "nat \<Rightarrow> int \<Rightarrow> (string \<times> payload) list \<Rightarrow> command" where
  "alarm_arm_custom_bypass = execute_arm_cmd Level_ARMED_AWAY"
definition alarm_force_arm_away :: "nat \<Rightarrow> int \<Rightarrow> (string \<times> payload) list \<Rightarrow> command" where
  "alarm_force_arm_away = execute_arm_cmd Level_FORCE_ARM_TO_AWAY_MODE"
definition alarm_force_arm_stay :: "nat \<Rightarrow> int \<Rightarrow> (string \<times> payload) list \<Rightarrow> command" where
  "alarm_force_arm_stay = execute_arm_cmd Level_FORCE_ARM_TO_STAY_MODE"
definition alarm_trigger :: command where
  "alarm_trigger c = (c, Inl Panic_not_supported)"

definition bypass_zone :: "int \<Rightarrow> code_argument \<Rightarrow> (string \<times> payload) list \<Rightarrow> command" where
  "bypass_zone zone_number pin_code arrivals c =
     (let zone_index = zone_number - 1
      in with_target K_zone zone_index (active_pin_text pin_code c) (\<lambda>h j pin.
           let expected_bypassed = (numeric_value (get_attr (elems h K_zone ! j) ''logical_status'') \<noteq> 3)
           in confirm_command (zone_bypass j pin) ''ZB'' (''zone '' @ fmt_dec 1 zone_number @ '' bypass toggle'')
                (\<lambda>p. p = P_ZB zone_index expected_bypassed) arrivals) c)"

definition unbypass_zone :: "int \<Rightarrow> code_argument \<Rightarrow> (string \<times> payload) list \<Rightarrow> command" where
  "unbypass_zone = bypass_zone"

definition trigger_zone :: "int \<Rightarrow> command" where
  "trigger_zone zone_number =
     with_target K_zone (zone_number - 1) (Inr 0) (\<lambda>h j pin.
       queue_command (zone_trigger j) (''zone '' @ fmt_dec 1 zone_number @ '' trigger (unconfirmed)''))"

definition is_zone_report :: "int \<Rightarrow> payload \<Rightarrow> bool" where
  "is_zone_report n p = (case p of P_ZB zone bypassed \<Rightarrow> zone = n | _ \<Rightarrow> False)"

definition bypass_area :: "nat \<Rightarrow> code_argument \<Rightarrow> (string \<times> payload) list \<Rightarrow> command" where
  "bypass_area area_index pin_code arrivals c =
     with_target K_area (int area_index) (active_pin_text pin_code c) (\<lambda>h j pin.
       confirm_command (area_bypass j pin) ''ZB'' (''area '' @ fmt_dec 1 (int area_index + 1) @ '' bypass'')
         (is_zone_report 998) arrivals) c"

definition clear_bypass_area :: "nat \<Rightarrow> code_argument \<Rightarrow> (string \<times> payload) list \<Rightarrow> command" where
  "clear_bypass_area area_index pin_code arrivals c =
     with_target K_area (int area_index) (active_pin_text pin_code c) (\<lambda>h j pin.
       confirm_command (area_clear_bypass j pin) ''ZB'' (''area '' @ fmt_dec 1 (int area_index + 1) @ '' clear bypass'')
         (is_zone_report (-1)) arrivals) c"

definition coordinator_display_message :: "nat \<Rightarrow> string \<Rightarrow> string \<Rightarrow> bool \<Rightarrow> int \<Rightarrow> int \<Rightarrow> command" where
  "coordinator_display_message area_index line1 line2 beep clear timeout =
     with_target K_area (int area_index) (Inr 0) (\<lambda>h j pin.
       queue_command (display_message j clear beep timeout line1 line2) ''keypad display message'')"

text \<open>The commands to the panel itself.\<close>

definition with_panel :: "command \<Rightarrow> command" where
  "with_panel body c = (case cd_elk c of None \<Rightarrow> (c, Inl Panel_unavailable) | Some h \<Rightarrow> body c)"

definition coordinator_speak_word :: "int \<Rightarrow> command" where
  "coordinator_speak_word w = with_panel (queue_command (speak_word w) ''speak word'')"

definition coordinator_speak_phrase :: "int \<Rightarrow> command" where
  "coordinator_speak_phrase phrase = with_panel (queue_command (speak_phrase phrase) ''speak phrase'')"

definition set_panel_time :: "civil \<Rightarrow> int \<Rightarrow> (string \<times> payload) list \<Rightarrow> command" where
  "set_panel_time date_time second arrivals =
     with_panel (confirm_command (set_time date_time second) ''RR'' ''clock update'' (\<lambda>_. True) arrivals)"

section \<open>The poll\<close>

datatype poll_error = Not_connected | Timed_out "string list" | Could_not_send py_error | Uncaught_build py_error

text \<open>In the order of \<open>sorted\<close>.\<close>

definition poll_expected :: "string list" where
  "poll_expected = [''AS'', ''AZ'', ''CS'', ''LW'', ''SS'']"

definition poll_requests :: "hub stmt" where
  "poll_requests = for_each [as_encode, az_encode, cs_encode, ss_encode, lw_encode] (\<lambda>m. hub_send m False)"

text \<open>The messages until all five types are there; what is still missing at the end.\<close>

fun await_all :: "string list \<Rightarrow> (string \<times> payload) list \<Rightarrow> coordinator \<Rightarrow> coordinator \<times> string list" where
  "await_all missing [] c = (c, missing)"
| "await_all missing ((ty, p) # arrivals) c =
     (let c = dispatch ty p c; missing = filter (\<lambda>m. m \<noteq> ty) missing
      in if missing = [] then (c, []) else await_all missing arrivals c)"

text \<open>
  \<open>_force_reconnect\<close>: stopping the connection task closes the transport, then it is started again.
\<close>

definition force_reconnect :: "coordinator \<Rightarrow> coordinator" where
  "force_reconnect c =
     (case cd_manager c of
        None \<Rightarrow> c
      | Some m \<Rightarrow>
          c\<lparr>cd_manager := Some (manager_start (manager_stop m)),
            cd_elk := map_option (\<lambda>h. h\<lparr>hb_conn := transport_close (hb_conn h)\<rparr>) (cd_elk c)\<rparr>)"

definition add_poll_handlers :: "coordinator \<Rightarrow> coordinator" where
  "add_poll_handlers = fold add_waiting poll_expected"

definition remove_poll_handlers :: "coordinator \<Rightarrow> coordinator" where
  "remove_poll_handlers = fold remove_waiting poll_expected"

definition poll_timed_out :: "coordinator \<Rightarrow> coordinator" where
  "poll_timed_out c =
     (let c = c\<lparr>cd_poll_timeouts := cd_poll_timeouts c + 1\<rparr>
      in if cd_poll_timeouts c \<ge> POLL_TIMEOUT_RECONNECT_THRESHOLD
         then force_reconnect (c\<lparr>cd_poll_timeouts := 0\<rparr>) else c)"

definition async_update_data ::
  "string \<Rightarrow> (string \<times> payload) list \<Rightarrow> coordinator \<times> tracker \<Rightarrow> (coordinator \<times> tracker) \<times> (poll_error + panel_data)" where
  "async_update_data entry_id arrivals = (\<lambda>(c, t).
     let t = async_check_claim entry_id (int (cd_now c)) t
     in case cd_elk c of
          None \<Rightarrow> ((c, t), Inl Not_connected)
        | Some h \<Rightarrow>
            if \<not> cn_writer (hb_conn h) then ((c, t), Inl Not_connected)
            else
              (case on_elk poll_requests (add_poll_handlers c) of
                 (c, Some e) \<Rightarrow> ((remove_poll_handlers c, t), Inl (Could_not_send e))
               | (c, None) \<Rightarrow>
                   (case await_all poll_expected arrivals c of
                      (c, []) \<Rightarrow>
                        let c = (remove_poll_handlers c)\<lparr>cd_poll_timeouts := 0, cd_last_poll_success := Some (cd_now c)\<rparr>
                        in (case coordinator_data c of
                              Inl e \<Rightarrow> ((c, t), Inl (Uncaught_build e))
                            | Inr d \<Rightarrow> ((c, t), Inr d))
                    | (c, missing) \<Rightarrow>
                        ((remove_poll_handlers (poll_timed_out c), t), Inl (Timed_out missing)))))"

lemmas handler_defs = push_update_def handle_user_code_def handle_keypad_detail_def on_elk_def
  handle_command_timeout_def count_broadcast_def handle_disconnected_def handle_login_def
  handle_timer_event_def handle_log_event_def handle_alarm_memory_def handle_trouble_status_def
  fire_bus_def eval_then_def update_st_def when_st_def Let_def

section \<open>What a message leaves alone\<close>

text \<open>The fields no handler touches, with the poll counter that only a disconnection resets.\<close>

definition same_frame :: "nat \<Rightarrow> coordinator \<Rightarrow> coordinator \<Rightarrow> bool" where
  "same_frame n c0 c = (cd_waiting c = cd_waiting c0 \<and> cd_now c = cd_now c0 \<and> cd_pin c = cd_pin c0 \<and>
     cd_last_poll_success c = cd_last_poll_success c0 \<and> cd_last_command_timeout c = cd_last_command_timeout c0 \<and>
     (cd_elk c = None \<longleftrightarrow> cd_elk c0 = None) \<and> (cd_manager c = None \<longleftrightarrow> cd_manager c0 = None) \<and>
     cd_poll_timeouts c = n)"

lemma frame_push: "keeps (same_frame n c0) push_update"
  unfolding push_update_def by (intro keeps_eval keeps_do) (simp add: same_frame_def)

lemma frame_on_elk: "keeps (same_frame n c0) (on_elk st)"
  by (auto simp: keeps_def on_elk_def same_frame_def split: option.splits prod.splits)

lemma frame_handlers:
  "keeps (same_frame n c0) (handle_user_code user keypad)"
  "keeps (same_frame n c0) (handle_login b)"
  "keeps (same_frame n c0) (handle_timer_event area is_exit t1 t2 armed)"
  "keeps (same_frame n c0) (handle_log_event area entry)"
  "keeps (same_frame n c0) (handle_alarm_memory bs)"
  "keeps (same_frame n c0) (handle_trouble_status text)"
  "keeps (same_frame n c0) (count_broadcast ty)"
  unfolding handle_user_code_def handle_login_def handle_timer_event_def handle_log_event_def
    handle_alarm_memory_def handle_trouble_status_def count_broadcast_def Let_def
  by (intro keeps_seq_Nil keeps_seq_Cons keeps_when keeps_eval keeps_do frame_push;
      simp add: same_frame_def fire_bus_def)+

lemma handler_frame:
  assumes "st \<in> set (integration_handlers ty p)" and "ty \<noteq> ''disconnected''"
  shows "keeps (same_frame n c0) st"
  using assms frame_handlers frame_on_elk
  by (cases p) (auto simp: integration_handlers_def message_handlers_def split: if_splits)

lemma disconnected_frame: "same_frame n c0 c \<Longrightarrow> same_frame 0 c0 (fst (handle_disconnected c))"
  by (simp add: same_frame_def handle_disconnected_def update_st_def)

lemma fold_keeps:
  assumes "\<And>st. st \<in> set sts \<Longrightarrow> keeps P st" and "P c"
  shows "P (fold (\<lambda>st c. fst (st c)) sts c)"
  using assms by (induction sts arbitrary: c) (auto simp: keeps_def)

lemma frame_refl: "same_frame (cd_poll_timeouts c) c c"
  by (simp add: same_frame_def)

lemma frame_trans: "same_frame n c0 c1 \<Longrightarrow> same_frame m c1 c2 \<Longrightarrow> same_frame m c0 c2"
  by (simp add: same_frame_def)

lemma dispatch_frame:
  "same_frame (if ty = ''disconnected'' then 0 else cd_poll_timeouts c) c (dispatch ty p c)"
proof -
  let ?c = "c\<lparr>cd_elk := map_option (notify ty p) (cd_elk c)\<rparr>"
  have start: "same_frame (cd_poll_timeouts c) c ?c" by (simp add: same_frame_def)
  show ?thesis
  proof (cases "ty = ''disconnected''")
    case False
    have "same_frame (cd_poll_timeouts c) c (fold (\<lambda>st c. fst (st c)) (integration_handlers ty p) ?c)"
      by (rule fold_keeps [where P = "same_frame (cd_poll_timeouts c) c", OF handler_frame [OF _ False] start])
    then show ?thesis using False by (simp add: dispatch_def)
  next
    case True
    have "same_frame (cd_poll_timeouts c) c (fold (\<lambda>st c. fst (st c)) (message_handlers p) ?c)"
      by (rule fold_keeps [where P = "same_frame (cd_poll_timeouts c) c", OF handler_frame [of _ "[]" p] start])
        (simp_all add: integration_handlers_def)
    then have "same_frame 0 c (fold (\<lambda>st c. fst (st c)) (integration_handlers ty p) ?c)"
      using True disconnected_frame by (simp add: integration_handlers_def)
    then show ?thesis using True by (simp add: dispatch_def)
  qed
qed

section \<open>What a message keeps of the hub\<close>

text \<open>A predicate over the hub of the coordinator, if there is one.\<close>

definition elk_holds :: "(hub \<Rightarrow> bool) \<Rightarrow> coordinator \<Rightarrow> bool" where
  "elk_holds P c = (\<forall>h. cd_elk c = Some h \<longrightarrow> P h)"

text \<open>What the integration's messages and requests keep of the hub, when the hub's own messages do.\<close>

locale hub_keeper =
  fixes P :: "hub \<Rightarrow> bool"
  assumes K_notify: "P h \<Longrightarrow> P (notify ty p h)"
    and K_lights: "keeps P (handle_all_lights house code)"
    and K_zones: "keeps P (handle_zone_definitions types)"
    and K_send: "keeps P (hub_send m b)"
begin

lemma keeps_on_elk: "keeps P st \<Longrightarrow> keeps (elk_holds P) (on_elk st)"
  by (auto simp: keeps_def on_elk_def elk_holds_def split: option.splits prod.splits)

lemma holds_push: "keeps (elk_holds P) push_update"
  unfolding push_update_def by (intro keeps_eval keeps_do) (simp add: elk_holds_def)

lemma holds_handlers:
  "keeps (elk_holds P) (handle_user_code user keypad)" "keeps (elk_holds P) (handle_login b)"
  "keeps (elk_holds P) (handle_timer_event area is_exit t1 t2 armed)"
  "keeps (elk_holds P) (handle_log_event area entry)" "keeps (elk_holds P) (handle_alarm_memory bs)"
  "keeps (elk_holds P) (handle_trouble_status text)" "keeps (elk_holds P) (count_broadcast ty)"
  "keeps (elk_holds P) handle_disconnected"
  unfolding handle_user_code_def handle_login_def handle_timer_event_def handle_log_event_def
    handle_alarm_memory_def handle_trouble_status_def count_broadcast_def handle_disconnected_def Let_def
  by (intro keeps_seq_Nil keeps_seq_Cons keeps_when keeps_eval keeps_do holds_push;
      simp add: elk_holds_def fire_bus_def)+

lemma holds_integration:
  assumes "st \<in> set (integration_handlers ty p)"
  shows "keeps (elk_holds P) st"
  using assms holds_handlers keeps_on_elk [OF K_lights] keeps_on_elk [OF K_zones]
  by (cases p) (auto simp: integration_handlers_def message_handlers_def split: if_splits)

lemma holds_dispatch: "elk_holds P c \<Longrightarrow> elk_holds P (dispatch ty p c)"
  unfolding dispatch_def
  by (rule fold_keeps [where P = "elk_holds P", OF holds_integration]) (auto simp: elk_holds_def intro: K_notify)

lemma holds_await: "elk_holds P c \<Longrightarrow> elk_holds P (fst (await_match r pred arrivals c))"
  by (induction r pred arrivals c rule: await_match.induct) (simp_all add: Let_def holds_dispatch)

lemma holds_await_all: "elk_holds P c \<Longrightarrow> elk_holds P (fst (await_all missing arrivals c))"
  by (induction missing arrivals c rule: await_all.induct) (simp_all add: Let_def holds_dispatch)

lemma holds_waiting:
  "elk_holds P (add_waiting ty c) = elk_holds P c" "elk_holds P (remove_waiting ty c) = elk_holds P c"
  by (simp_all add: elk_holds_def add_waiting_def remove_waiting_def)

lemma holds_sender:
  assumes "keeps P st" and "elk_holds P c"
  shows "elk_holds P (fst (on_elk st (add_waiting ty c)))"
  by (rule keepsD [OF keeps_on_elk [OF assms(1)]]) (simp add: assms(2) holds_waiting)

lemma holds_poll_requests: "keeps (elk_holds P) (on_elk poll_requests)"
  unfolding poll_requests_def by (intro keeps_on_elk keeps_for K_send)

end

context hub_predicate
begin

lemma keeps_all_lights: "keeps P (handle_all_lights house code)"
  unfolding handle_all_lights_def by (intro hub_seq_intros)

lemma keeps_get_voltage: "keeps P (zone_get_voltage j)"
  using keeps_send by (auto simp: keeps_def zone_get_voltage_def)

lemma keeps_zone_definitions: "keeps P (handle_zone_definitions types)"
  unfolding handle_zone_definitions_def
  by (intro keeps_for) (auto intro!: keeps_when keeps_with_elem keeps_get_voltage)

end

sublocale hub_predicate \<subseteq> hub_keeper P
  by unfold_locales (simp_all add: P_notify keeps_all_lights keeps_zone_definitions keeps_send)

section \<open>The arming report\<close>

definition area_report :: "armed_status \<Rightarrow> arm_up_state \<Rightarrow> alarm_state \<Rightarrow> element \<Rightarrow> element" where
  "area_report a u l e =
     set_attr ''alarm_state'' (V_alarm l) True
       (set_attr ''arm_up_state'' (V_arm_up u) False (set_attr ''armed_status'' (V_armed a) False e))"

lemma area_report_index: "el_index (area_report a u l e) = el_index e"
  by (simp add: area_report_def)

lemma area_report_armed: "get_attr (area_report a u l e) ''armed_status'' = V_armed a"
  by (simp add: area_report_def get_attr_set_attr_other get_attr_set_attr_exact)

lemma as_area_run:
  assumes "j < length (elems h K_area)" and "el_index (elems h K_area ! j) = j"
    and "j < length as" and "j < length us" and "j < length ls"
  shows "\<exists>b'. as_area as us ls j (h, b) = ((map_elem K_area j (area_report (as ! j) (us ! j) (ls ! j)) h, b'), None)"
  using assms
  by (simp add: as_area_def on_hub_def with_item_nat elem_set_run update_st_def eval_then_def elems_map_elem
      map_elem_comp area_report_def [abs_def])

lemma as_loop:
  assumes "\<forall>j \<in> set js. j < length (elems h K_area) \<and> el_index (elems h K_area ! j) = j \<and>
      j < length as \<and> j < length us \<and> j < length ls" and "distinct js"
  shows "\<exists>b'. for_each js (as_area as us ls) (h, b) =
    ((fold (\<lambda>j. map_elem K_area j (area_report (as ! j) (us ! j) (ls ! j))) js h, b'), None)"
  using assms
proof (induction js arbitrary: h b)
  case Nil
  then show ?case by simp
next
  case (Cons j js)
  let ?h = "map_elem K_area j (area_report (as ! j) (us ! j) (ls ! j)) h"
  obtain b1 where 1: "as_area as us ls j (h, b) = ((?h, b1), None)"
    using as_area_run [of j h as us ls b] Cons.prems(1) by auto
  have "\<exists>b'. for_each js (as_area as us ls) (?h, b1) =
      ((fold (\<lambda>j. map_elem K_area j (area_report (as ! j) (us ! j) (ls ! j))) js ?h, b'), None)"
    using Cons.prems by (intro Cons.IH) (auto simp: elems_map_elem nth_list_update area_report_index)
  then show ?case by (simp add: 1)
qed

lemma elems_hub_send: "elems (fst (hub_send m p h)) k = elems h k"
  by (simp add: hub_send_def split: prod.split)

text \<open>A complete report has an entry for each of the eight areas.\<close>

definition complete_report :: "payload \<Rightarrow> bool" where
  "complete_report p =
     (case p of P_AS as us ls t \<Rightarrow> length as = MAX_AREAS \<and> length us = MAX_AREAS \<and> length ls = MAX_AREAS | _ \<Rightarrow> True)"

lemma report_sets_armed:
  assumes "sizes_ok h" and "registry_ok h" and "complete_report (P_AS as us ls t)" and "j < MAX_AREAS"
  shows "get_attr (elems (notify ''AS'' (P_AS as us ls t) h) K_area ! j) ''armed_status'' = V_armed (as ! j)"
proof -
  let ?f = "\<lambda>j. map_elem K_area j (area_report (as ! j) (us ! j) (ls ! j))"
  have len: "length (elems h K_area) = MAX_AREAS" and idx: "\<And>j. j < MAX_AREAS \<Longrightarrow> el_index (elems h K_area ! j) = j"
    using assms(1) by (simp_all add: sizes_ok_def)
  obtain b' where loop: "for_each [0..<MAX_AREAS] (as_area as us ls) (h, False) = ((fold ?f [0..<MAX_AREAS] h, b'), None)"
    using as_loop [of "[0..<MAX_AREAS]" h as us ls False] len idx assms(3) by (auto simp: complete_report_def)
  have "notify ''AS'' (P_AS as us ls t) h = fst (as_handler as us ls h)"
    by (simp add: notify_one [OF assms(2)] base_handlers_def registrations_def run_handler_def)
  then have "elems (notify ''AS'' (P_AS as us ls t) h) K_area = elems (fold ?f [0..<MAX_AREAS] h) K_area"
    by (simp add: as_handler_def loop len elems_hub_send)
  then show ?thesis
    using fold_map_elem_nth [of "[0..<MAX_AREAS]" j h K_area "\<lambda>j. area_report (as ! j) (us ! j) (ls ! j)"] assms(4) len
    by (simp add: area_report_armed)
qed

section \<open>Waiting\<close>

lemma await_match_frame:
  "same_frame n c0 c \<Longrightarrow> \<exists>m. same_frame m c0 (fst (await_match r pred arrivals c))"
proof (induction r pred arrivals c arbitrary: n rule: await_match.induct)
  case (2 r pred ty p arrivals c)
  have "\<exists>m. same_frame m c0 (dispatch ty p c)"
    using frame_trans [OF 2(2) dispatch_frame] by blast
  then show ?case using 2(1) by (auto simp: Let_def)
qed auto

lemma await_match_iff: "snd (await_match r pred arrivals c) \<longleftrightarrow> (\<exists>p. (r, p) \<in> set arrivals \<and> pred p)"
  by (induction r pred arrivals c rule: await_match.induct) (auto simp: Let_def)

text \<open>A wait that succeeds ends with the message that matches.\<close>

lemma await_match_last:
  assumes "snd (await_match r pred arrivals c)" and "elk_holds P c"
    and disp: "\<And>ty p c. elk_holds P c \<Longrightarrow> elk_holds P (dispatch ty p c)"
  shows "\<exists>p c1. (r, p) \<in> set arrivals \<and> pred p \<and> elk_holds P c1 \<and>
    fst (await_match r pred arrivals c) = dispatch r p c1 \<and> (cd_elk c1 = None \<longleftrightarrow> cd_elk c = None)"
  using assms(1,2)
proof (induction r pred arrivals c rule: await_match.induct)
  case (2 r pred ty p arrivals c)
  show ?case
  proof (cases "ty = r \<and> pred p")
    case True
    then show ?thesis using 2(3) by (intro exI [of _ p] exI [of _ c]) (auto simp: Let_def)
  next
    case False
    then have "snd (await_match r pred arrivals (dispatch ty p c))" using 2(2) by (auto simp: Let_def)
    from 2(1) [OF refl False this disp [OF 2(3)]] obtain q c1 where q: "(r, q) \<in> set arrivals" "pred q"
      "elk_holds P c1" "fst (await_match r pred arrivals (dispatch ty p c)) = dispatch r q c1"
      "cd_elk c1 = None \<longleftrightarrow> cd_elk (dispatch ty p c) = None" by (elim exE conjE) (rule that)
    have "cd_elk (dispatch ty p c) = None \<longleftrightarrow> cd_elk c = None"
      using dispatch_frame [of ty c p] by (simp add: same_frame_def)
    then show ?thesis using q False by (intro exI [of _ q] exI [of _ c1]) (auto simp: Let_def)
  qed
qed simp

lemma on_elk_waiting: "on_elk st c = (c1, e) \<Longrightarrow> cd_waiting c1 = cd_waiting c"
  by (auto simp: on_elk_def split: option.splits prod.splits)

lemma remove_add_waiting [simp]: "remove_waiting ty (add_waiting ty c) = c"
  by (simp add: remove_waiting_def add_waiting_def)

lemma await_match_waiting: "cd_waiting (fst (await_match r pred arrivals c)) = cd_waiting c"
  using await_match_frame [OF frame_refl, of c r pred arrivals] by (auto simp: same_frame_def)

lemma registry_holds_dispatch: "elk_holds registry_ok c \<Longrightarrow> elk_holds registry_ok (dispatch ty p c)"
  by (rule registry.holds_dispatch)

definition hub_sound :: "hub \<Rightarrow> bool" where
  "hub_sound h = (sizes_ok h \<and> registry_ok h)"

lemma elk_holds_sound: "elk_holds hub_sound c \<longleftrightarrow> elk_holds sizes_ok c \<and> elk_holds registry_ok c"
  by (auto simp: elk_holds_def hub_sound_def)

lemma sound_dispatch: "elk_holds hub_sound c \<Longrightarrow> elk_holds hub_sound (dispatch ty p c)"
  by (simp add: elk_holds_sound sizes.holds_dispatch registry.holds_dispatch)

lemma dispatch_report: "cd_elk (dispatch ''AS'' (P_AS as us ls t) c) = map_option (notify ''AS'' (P_AS as us ls t)) (cd_elk c)"
  by (simp add: dispatch_def integration_handlers_def message_handlers_def)

lemma armed_matches_report:
  assumes "armed_matches j expected p"
  obtains as us ls t where "p = P_AS as us ls t" and "j < length as" and "protocol_value (V_armed (as ! j)) = expected"
  using assms by (cases p) (auto simp: armed_matches_def)

text \<open>A confirmed command ends with the message that confirms it.\<close>

lemma confirmed_last:
  assumes "confirm_command sender r desc pred arrivals c = (c', Inr True)"
    and "cd_elk c = Some h" and "elk_holds hub_sound (fst (on_elk sender (add_waiting r c)))"
  shows "\<exists>p c1 h1. (r, p) \<in> set arrivals \<and> pred p \<and> cd_elk c1 = Some h1 \<and> hub_sound h1 \<and>
    cd_elk c' = cd_elk (dispatch r p c1)"
proof -
  obtain c0 where c0: "on_elk sender (add_waiting r c) = (c0, None)"
    and m: "snd (await_match r pred arrivals c0)"
    and c': "cd_elk c' = cd_elk (fst (await_match r pred arrivals c0))"
    using assms(1) by (auto simp: confirm_command_def remove_waiting_def split: option.splits prod.splits bool.splits)
  have hs: "elk_holds hub_sound c0" using assms(3) c0 by simp
  have "\<exists>p c1. (r, p) \<in> set arrivals \<and> pred p \<and> elk_holds hub_sound c1 \<and>
      fst (await_match r pred arrivals c0) = dispatch r p c1 \<and> (cd_elk c1 = None \<longleftrightarrow> cd_elk c0 = None)"
    by (rule await_match_last [OF m hs]) (rule sound_dispatch)
  then obtain p c1 where p: "(r, p) \<in> set arrivals" "pred p" "elk_holds hub_sound c1"
    "fst (await_match r pred arrivals c0) = dispatch r p c1"
    "cd_elk c1 = None \<longleftrightarrow> cd_elk c0 = None" by (elim exE conjE) (rule that)
  have "cd_elk c0 \<noteq> None" using c0 assms(2) by (auto simp: on_elk_def add_waiting_def split: prod.splits)
  then obtain h1 where h1: "cd_elk c1 = Some h1" using p(5) by auto
  then have "hub_sound h1" using p(3) by (simp add: elk_holds_def)
  then show ?thesis using p(1,2,4) h1 c' by (intro exI [of _ p] exI [of _ c1] exI [of _ h1]) simp
qed

lemma dispatch_plain:
  "integration_handlers ty p = [] \<Longrightarrow> cd_elk (dispatch ty p c) = map_option (notify ty p) (cd_elk c)"
  by (simp add: dispatch_def)

lemma confirmed_report:
  assumes "confirm_command sender ''AS'' desc (armed_matches j expected) arrivals c = (c', Inr True)"
    and "cd_elk c = Some h" and "elk_holds hub_sound (fst (on_elk sender (add_waiting ''AS'' c)))"
    and "\<forall>(ty, p) \<in> set arrivals. complete_report p"
  shows "\<exists>h'. cd_elk c' = Some h' \<and> protocol_value (get_attr (elems h' K_area ! j) ''armed_status'') = expected"
proof -
  obtain p c1 h1 where p: "(''AS'', p) \<in> set arrivals" "armed_matches j expected p" "cd_elk c1 = Some h1"
    "hub_sound h1" "cd_elk c' = cd_elk (dispatch ''AS'' p c1)"
    using confirmed_last [OF assms(1-3)] by (elim exE conjE) (rule that)
  obtain as us ls t where r: "p = P_AS as us ls t" "j < length as" "protocol_value (V_armed (as ! j)) = expected"
    by (rule armed_matches_report [OF p(2)])
  have full: "complete_report (P_AS as us ls t)" using assms(4) p(1) r(1) by auto
  then have j: "j < MAX_AREAS" using r(2) by (simp add: complete_report_def)
  have "get_attr (elems (notify ''AS'' (P_AS as us ls t) h1) K_area ! j) ''armed_status'' = V_armed (as ! j)"
    using p(4) by (intro report_sets_armed [OF _ _ full j]) (simp_all add: hub_sound_def)
  then show ?thesis using p(3,5) r(1,3) by (simp add: dispatch_report)
qed

text \<open>The commands keep what a handler has to keep.\<close>

context hub_predicate
begin

lemma keeps_area_commands: "keeps P (area_arm j level pin)" "keeps P (area_disarm j pin)"
  using keeps_send by (auto simp: keeps_def area_disarm_def area_arm_def)

end

section \<open>The poll's wait\<close>

lemma await_all_missing:
  "missing \<noteq> [] \<Longrightarrow> snd (await_all missing arrivals c) = filter (\<lambda>m. m \<notin> fst ` set arrivals) missing"
proof (induction missing arrivals c rule: await_all.induct)
  case (2 missing ty p arrivals c)
  let ?m = "filter (\<lambda>m. m \<noteq> ty) missing"
  show ?case
  proof (cases "?m = []")
    case True
    then show ?thesis by (auto simp: Let_def filter_empty_conv)
  next
    case False
    have "filter (\<lambda>m. m \<notin> fst ` set arrivals) ?m = filter (\<lambda>m. m \<notin> fst ` set ((ty, p) # arrivals)) missing"
      by (auto intro: filter_cong)
    then show ?thesis using 2(1) [OF refl refl False False] False by (simp add: Let_def)
  qed
qed simp

text \<open>The poll counter after the messages: only a disconnection among them resets it.\<close>

lemma await_all_frame:
  "same_frame n c0 c \<Longrightarrow> \<exists>m. same_frame m c0 (fst (await_all missing arrivals c))"
proof (induction missing arrivals c arbitrary: n rule: await_all.induct)
  case (2 missing ty p arrivals c)
  have "same_frame (if ty = ''disconnected'' then 0 else cd_poll_timeouts c) c0 (dispatch ty p c)"
    by (rule frame_trans [OF 2(2) dispatch_frame])
  then show ?case using 2(1) [OF refl refl] by (auto simp: Let_def)
qed auto

lemma await_all_counter:
  "snd (await_all missing arrivals c) \<noteq> [] \<Longrightarrow>
    cd_poll_timeouts (fst (await_all missing arrivals c)) =
      (if ''disconnected'' \<in> fst ` set arrivals then 0 else cd_poll_timeouts c)"
proof (induction missing arrivals c rule: await_all.induct)
  case (2 missing ty p arrivals c)
  have "cd_poll_timeouts (dispatch ty p c) = (if ty = ''disconnected'' then 0 else cd_poll_timeouts c)"
    using dispatch_frame [of ty c p] by (simp add: same_frame_def)
  then show ?case using 2 by (auto simp: Let_def split: if_splits)
qed simp

lemma add_poll_simps [simp]:
  "cd_poll_timeouts (add_poll_handlers c) = cd_poll_timeouts c" "cd_elk (add_poll_handlers c) = cd_elk c"
  "cd_manager (add_poll_handlers c) = cd_manager c" "cd_now (add_poll_handlers c) = cd_now c"
  "cd_waiting (add_poll_handlers c) = [''SS'', ''LW'', ''CS'', ''AZ'', ''AS''] @ cd_waiting c"
  by (simp_all add: add_poll_handlers_def poll_expected_def add_waiting_def)

lemma remove_poll_simps [simp]:
  "cd_poll_timeouts (remove_poll_handlers c) = cd_poll_timeouts c" "cd_elk (remove_poll_handlers c) = cd_elk c"
  "cd_manager (remove_poll_handlers c) = cd_manager c" "cd_now (remove_poll_handlers c) = cd_now c"
  "cd_last_poll_success (remove_poll_handlers c) = cd_last_poll_success c"
  by (simp_all add: remove_poll_handlers_def poll_expected_def remove_waiting_def)

lemma remove_poll_waiting:
  "cd_waiting c = [''SS'', ''LW'', ''CS'', ''AZ'', ''AS''] @ ws \<Longrightarrow> cd_waiting (remove_poll_handlers c) = ws"
  by (simp add: remove_poll_handlers_def poll_expected_def remove_waiting_def)

lemma poll_timed_out_result:
  assumes "cd_elk c \<noteq> None"
  shows "cd_waiting (poll_timed_out c) = cd_waiting c"
    and "cd_poll_timeouts c = 0 \<Longrightarrow> cd_poll_timeouts (poll_timed_out c) = 1"
    and "cd_poll_timeouts c = 1 \<Longrightarrow> cd_poll_timeouts (poll_timed_out c) = 0 \<and> (cd_manager c \<noteq> None \<longrightarrow>
      (\<exists>h m. cd_elk (poll_timed_out c) = Some h \<and> \<not> cn_writer (hb_conn h) \<and>
         cd_manager (poll_timed_out c) = Some m \<and> mg_task m = Opening))"
proof -
  show "cd_waiting (poll_timed_out c) = cd_waiting c"
    by (simp add: poll_timed_out_def force_reconnect_def Let_def split: option.split)
  show "cd_poll_timeouts c = 0 \<Longrightarrow> cd_poll_timeouts (poll_timed_out c) = 1"
    by (simp add: poll_timed_out_def POLL_TIMEOUT_RECONNECT_THRESHOLD_def)
  show "cd_poll_timeouts c = 1 \<Longrightarrow> cd_poll_timeouts (poll_timed_out c) = 0 \<and> (cd_manager c \<noteq> None \<longrightarrow>
      (\<exists>h m. cd_elk (poll_timed_out c) = Some h \<and> \<not> cn_writer (hb_conn h) \<and>
         cd_manager (poll_timed_out c) = Some m \<and> mg_task m = Opening))"
    using assms by (auto simp: poll_timed_out_def POLL_TIMEOUT_RECONNECT_THRESHOLD_def force_reconnect_def
      manager_start_def manager_stop_def transport_close_def split: option.split)
qed

section \<open>What goes wrong\<close>

text \<open>No callback of the panel is ever announced: the changes of an element are no list of words.\<close>

lemma voice_callback_is_silent: "handle_voice_message (Voice_changeset changes) c = c"
  by (simp add: handle_voice_message_def)

text \<open>
  A forced reconnection closes the transport without the disconnected notification: the hub stays
  logged in, so the version reply of the new connection raises no login event.
\<close>

lemma forced_reconnect_stays_logged_in:
  assumes "cd_elk c = Some h" and "hb_logged_in h" and "cd_manager c \<noteq> None"
  shows "\<exists>h'. cd_elk (force_reconnect c) = Some h' \<and> got_first_message nt h' = (h', None)"
  using assms by (auto simp: force_reconnect_def got_first_message_def when_st_def)

section \<open>Properties\<close>

text \<open>C26. A command is confirmed exactly by a matching reply: a disconnected or paused panel refuses it
  and nothing changes; a request that cannot be queued is reported as such; otherwise the command
  succeeds exactly when a message of the awaited type that satisfies its condition arrives in time. In
  every case the handler it registered is gone afterwards.\<close>

theorem confirm_command_outcome:
  assumes "confirm_command sender response_command description predicate arrivals c = (c', r)"
  shows "cd_waiting c' = cd_waiting c \<and>
    (case ensure_command_ready c of
       Some e \<Rightarrow> c' = c \<and> r = Inl e
     | None \<Rightarrow>
         (case snd (on_elk sender (add_waiting response_command c)) of
            Some e \<Rightarrow> r = Inl (Send_command_failed description e)
          | None \<Rightarrow>
              if \<exists>p. (response_command, p) \<in> set arrivals \<and> predicate p
              then r = Inr True \<and> cd_last_command_timeout c' = None
              else r = Inl (Command_not_confirmed description response_command) \<and>
                cd_last_command_timeout c' = Some response_command))"
proof (cases "ensure_command_ready c")
  case (Some e)
  then show ?thesis using assms by (simp add: confirm_command_def)
next
  case None
  obtain c1 err where s: "on_elk sender (add_waiting response_command c) = (c1, err)" by fastforce
  have w: "cd_waiting c1 = response_command # cd_waiting c"
    using on_elk_waiting [OF s] by (simp add: add_waiting_def)
  obtain c2 b where m: "await_match response_command predicate arrivals c1 = (c2, b)" by fastforce
  have w2: "cd_waiting c2 = response_command # cd_waiting c"
    using await_match_waiting [of response_command predicate arrivals c1] m w by simp
  have b: "b \<longleftrightarrow> (\<exists>p. (response_command, p) \<in> set arrivals \<and> predicate p)"
    using await_match_iff [of response_command predicate arrivals c1] m by simp
  show ?thesis
    unfolding b [symmetric] using assms None s w m w2
    by (cases err; cases b) (auto simp: confirm_command_def remove_waiting_def)
qed

text \<open>C27. A confirmed arming is real: when arming or disarming an area of a reachable hub is reported as
  done, then the area's arming status, as the panel reported it, is the requested one; for a forced
  arming it is the plain level the panel reports instead.\<close>

theorem arm_command_confirmed:
  assumes "cd_elk c = Some h" and "hub_reachable h" and "\<forall>(ty, p) \<in> set arrivals. complete_report p"
    and "execute_arm_cmd level area_index code arrivals c = (c', Inr True)"
  shows "\<exists>h'. cd_elk c' = Some h' \<and>
    protocol_value (get_attr (elems h' K_area ! area_index) ''armed_status'') = force_arm_confirms_as level"
proof -
  have sound: "elk_holds sizes_ok c" "elk_holds registry_ok c"
    using assms(1) hub_reachable_inv [OF assms(2)] by (simp_all add: elk_holds_def hub_inv_def)
  obtain pin where 1: "area_index < length (elems h K_area)"
    and 2: "(if protocol_value (get_attr (elems h K_area ! area_index) ''armed_status'') = force_arm_confirms_as level
       then (c, Inr True)
       else confirm_command (if level = Level_DISARM then area_disarm area_index pin else area_arm area_index level pin) ''AS''
         (''arm/disarm command ('' @ arm_level_name level @ '')'')
         (armed_matches area_index (force_arm_confirms_as level)) arrivals c) = (c', Inr True)"
    using assms(1,4) by (auto simp: execute_arm_cmd_def with_target_def py_pos_def Let_def split: sum.splits if_splits)
  show ?thesis
  proof (cases "protocol_value (get_attr (elems h K_area ! area_index) ''armed_status'') = force_arm_confirms_as level")
    case True
    then show ?thesis using 2 assms(1) by auto
  next
    case False
    let ?st = "if level = Level_DISARM then area_disarm area_index pin else area_arm area_index level pin"
    have "elk_holds hub_sound (fst (on_elk ?st (add_waiting ''AS'' c)))"
      unfolding elk_holds_sound using sound
      by (auto intro!: sizes.holds_sender registry.holds_sender sizes.keeps_area_commands registry.keeps_area_commands)
    moreover have "confirm_command ?st ''AS'' (''arm/disarm command ('' @ arm_level_name level @ '')'')
         (armed_matches area_index (force_arm_confirms_as level)) arrivals c = (c', Inr True)"
      using 2 False by simp
    ultimately show ?thesis by (intro confirmed_report [OF _ assms(1) _ assms(3)])
  qed
qed

text \<open>What the wait of a poll leaves: the missing replies, and what happened to the counter.\<close>

lemma poll_waits:
  assumes "on_elk poll_requests (add_poll_handlers c) = (c1, err)"
    and "await_all poll_expected arrivals c1 = (c2, missing)"
  shows "same_frame (cd_poll_timeouts c) (add_poll_handlers c) c1"
    and "\<exists>n. same_frame n (add_poll_handlers c) c2"
    and "missing = filter (\<lambda>m. m \<notin> fst ` set arrivals) poll_expected"
    and "missing \<noteq> [] \<Longrightarrow> cd_poll_timeouts c2 =
      (if ''disconnected'' \<in> fst ` set arrivals then 0 else cd_poll_timeouts c)"
proof -
  show f1: "same_frame (cd_poll_timeouts c) (add_poll_handlers c) c1"
    using keepsD [OF frame_on_elk, where s = "add_poll_handlers c"] assms(1) frame_refl [of "add_poll_handlers c"]
    by (metis add_poll_simps(1) fst_conv)
  show "\<exists>n. same_frame n (add_poll_handlers c) c2"
    using await_all_frame [OF f1, of poll_expected arrivals] assms(2) by auto
  show "missing = filter (\<lambda>m. m \<notin> fst ` set arrivals) poll_expected"
    using await_all_missing [of poll_expected arrivals c1] assms(2) by (simp add: poll_expected_def)
  show "cd_poll_timeouts c2 = (if ''disconnected'' \<in> fst ` set arrivals then 0 else cd_poll_timeouts c)"
    if "missing \<noteq> []"
    using await_all_counter [of poll_expected arrivals c1] assms(2) f1 that by (simp add: same_frame_def)
qed


text \<open>A coordinator with an open connection to a panel that has not reported anything.\<close>

definition idle_coordinator :: coordinator where
  "idle_coordinator = (coordinator_init ''1234'' 0)
     \<lparr>cd_elk := Some ((hub_init 0)\<lparr>hb_conn := transport_open connection_init\<rparr>),
      cd_manager := Some (manager_init None), cd_poll_timeouts := 1\<rparr>"

lemma idle_simps: "cd_elk idle_coordinator = Some ((hub_init 0)\<lparr>hb_conn := transport_open connection_init\<rparr>)"
  "cd_poll_timeouts idle_coordinator = 1" "cd_manager idle_coordinator = Some (manager_init None)"
  by (simp_all add: idle_coordinator_def)

lemma idle_sends: "hub_send m p ((hub_init 0)\<lparr>hb_conn := transport_open connection_init\<rparr>) =
    ((hub_init 0)\<lparr>hb_conn := queue_write \<lparr>qw_msg = me_message m, qw_response_cmd = me_response_command m\<rparr> p
       (transport_open connection_init)\<rparr>, None)"
  by (simp add: hub_send_run transport_open_def connection_init_def)

theorem confirm_command_outcome_witness:
  "\<exists>c'. confirm_command (speak_word 3) ''RR'' ''word'' (\<lambda>_. True) [(''RR'', P_RR ''x'')] idle_coordinator = (c', Inr True)"
proof -
  obtain c' r where c: "confirm_command (speak_word 3) ''RR'' ''word'' (\<lambda>_. True) [(''RR'', P_RR ''x'')] idle_coordinator = (c', r)"
    by fastforce
  have "ensure_command_ready idle_coordinator = None"
    by (simp add: ensure_command_ready_def idle_simps transport_open_def connection_init_def)
  moreover have "snd (on_elk (speak_word 3) (add_waiting ''RR'' idle_coordinator)) = None"
    by (simp add: on_elk_def add_waiting_def idle_simps speak_word_def idle_sends)
  ultimately show ?thesis using confirm_command_outcome [OF c] c by auto
qed

text \<open>The report of a panel whose areas are all armed away.\<close>

definition away_report :: payload where
  "away_report = P_AS (replicate 8 Armed_ARMED_AWAY) (replicate 8 ArmUp_FULLY_ARMED) (replicate 8 Alarm_NO_ALARM_ACTIVE) None"

theorem arm_command_confirmed_witness:
  "\<exists>c' h'. execute_arm_cmd Level_ARMED_AWAY 0 4321 [(''AS'', away_report)] idle_coordinator = (c', Inr True) \<and>
    cd_elk c' = Some h' \<and> protocol_value (get_attr (elems h' K_area ! 0) ''armed_status'') = ''1''"
proof -
  let ?h = "(hub_init 0)\<lparr>hb_conn := transport_open connection_init\<rparr>"
  have el: "elems ?h K_area = map (\<lambda>i. new_element i ((''name'', V_str (default_name K_area i)) # area_attrs)) [0..<8]"
    by (simp add: elems_def hub_init_def fold_attach_simps new_coll_def class_attrs_def MAX_AREAS_def)
  have at: "get_attr (elems ?h K_area ! 0) ''armed_status'' = V_none" "length (elems ?h K_area) = 8"
    unfolding el by (simp_all add: new_element_def get_attr_def area_attrs_def)
  have "armed_matches 0 ''1'' away_report"
    by (simp add: armed_matches_def away_report_def protocol_value_def)
  moreover have "py_pos 8 0 = Some 0" by (simp add: py_pos_def)
  ultimately have "\<exists>c'. execute_arm_cmd Level_ARMED_AWAY 0 4321 [(''AS'', away_report)] idle_coordinator = (c', Inr True)"
    using at
    by (simp add: execute_arm_cmd_def with_target_def active_pin_def idle_simps force_arm_confirms_as_def Let_def
        confirm_command_def ensure_command_ready_def on_elk_def add_waiting_def area_arm_def is_armed_def hub_send_run
        transport_open_def connection_init_def)
  then obtain c' where c: "execute_arm_cmd Level_ARMED_AWAY 0 4321 [(''AS'', away_report)] idle_coordinator = (c', Inr True)" ..
  have "hub_reachable ?h"
    using hub_next [OF hub_start on_connection [OF step_open]] by (simp add: hub_init_def fold_attach_simps connection_init_def)
  moreover have "\<forall>(ty, p) \<in> set [(''AS'', away_report)]. complete_report p"
    by (simp add: complete_report_def away_report_def MAX_AREAS_def)
  ultimately show ?thesis
    using arm_command_confirmed [OF idle_simps(1) _ _ c] c by (auto simp: force_arm_confirms_as_def)
qed


end
