(* ===== verification/Ha_Entities.thy ===== *)
theory Ha_Entities
  imports Ha_Coordinator
begin

text \<open>
  What the integration shows besides the alarm state: the entities that are added as the panel reports its
  elements (\<open>entity.py\<close>), the binary sensors (\<open>binary_sensor.py\<close>), the sensors (\<open>sensor.py\<close>) and the
  attributes of the alarm entity. Entities exist from the first refresh of the coordinator until the entry
  is unloaded; an element the snapshot lists is the element of the hub.
\<close>

section \<open>Dynamic entities\<close>

text \<open>
  \<open>async_add_dynamic_entities\<close> scans the elements once and again at every update of the coordinator. The
  closure keeps the indices it has dealt with; \<open>dy_batches\<close> are the calls of \<open>async_add_entities\<close>.
\<close>

record 'e dynamic =
  dy_added :: "nat list"
  dy_batches :: "'e list list"

fun scan_elements ::
  "(element \<Rightarrow> 'e option) \<Rightarrow> element list \<Rightarrow> nat list \<Rightarrow> 'e list \<Rightarrow> nat list \<times> 'e list" where
  "scan_elements entity_factory [] added_indices new_entities = (added_indices, new_entities)"
| "scan_elements entity_factory (element # elements) added_indices new_entities =
     (if el_index element \<in> set added_indices \<or> \<not> el_configured element
      then scan_elements entity_factory elements added_indices new_entities
      else scan_elements entity_factory elements (el_index element # added_indices)
             (case entity_factory element of None \<Rightarrow> new_entities | Some entity \<Rightarrow> new_entities @ [entity]))"

definition scan_for_new_entities :: "(element \<Rightarrow> 'e option) \<Rightarrow> element list \<Rightarrow> 'e dynamic \<Rightarrow> 'e dynamic" where
  "scan_for_new_entities entity_factory elements d =
     (case scan_elements entity_factory elements (dy_added d) [] of
        (added, new_entities) \<Rightarrow>
          d\<lparr>dy_added := added,
            dy_batches := (if new_entities \<noteq> [] then dy_batches d @ [new_entities] else dy_batches d)\<rparr>)"

text \<open>The elements as they are at the first scan and at every later one.\<close>

definition dynamic_entities :: "(element \<Rightarrow> 'e option) \<Rightarrow> element list list \<Rightarrow> 'e dynamic" where
  "dynamic_entities entity_factory scans =
     fold (scan_for_new_entities entity_factory) scans \<lparr>dy_added = [], dy_batches = []\<rparr>"

section \<open>Reading an element\<close>

definition get_obj :: "kind \<Rightarrow> nat \<Rightarrow> coordinator \<Rightarrow> element option" where
  "get_obj k i c =
     (case cd_elk c of
        Some h \<Rightarrow> if i < pd_listed (cd_data c) k then Some (elems h k ! i) else None
      | None \<Rightarrow> None)"

text \<open>
  \<open>_get_enum_value\<close>: the number of an enumeration, a digit text or a number; anything else is the
  default. \<open>number.py\<close>, \<open>switch.py\<close> and others have a version without the case of a text.
\<close>

definition is_digit_text :: "string \<Rightarrow> bool" where
  "is_digit_text s = (s \<noteq> [] \<and> list_all is_digit s)"

definition enum_value_plain :: "int \<Rightarrow> pyval \<Rightarrow> int result" where
  "enum_value_plain d v =
     (case v of
        V_str s \<Rightarrow> Inr d
      | _ \<Rightarrow> (case raw_value v of Raw_str s \<Rightarrow> py_int 10 s | Raw_num r \<Rightarrow> Inr (int_of_rat r) | Raw_other \<Rightarrow> Inr d))"

definition enum_value :: "int \<Rightarrow> pyval \<Rightarrow> int result" where
  "enum_value d v =
     (case v of
        V_str s \<Rightarrow> if is_digit_text s then py_int 10 s else Inr d
      | _ \<Rightarrow> enum_value_plain d v)"

text \<open>\<open>self._get_enum_value(getattr(obj, attr, 0))\<close>.\<close>

definition enum_attr :: "string \<Rightarrow> element \<Rightarrow> int result" where
  "enum_attr attr e = enum_value 0 (attr_or (V_int 0) e attr)"

text \<open>The panel's name, or a numbered one while the element is not listed.\<close>

definition entity_name :: "string \<Rightarrow> kind \<Rightarrow> nat \<Rightarrow> coordinator \<Rightarrow> string" where
  "entity_name what k i c =
     (case get_obj k i c of Some e \<Rightarrow> name_of e | None \<Rightarrow> what @ '' '' @ fmt_dec 1 (int i + 1))"

section \<open>The entities of an entry\<close>

datatype elk_entity =
    E_alarm nat
  | E_zone nat | E_zone_bypass nat | E_remote_programming | E_trouble string | E_openings nat
  | E_panel | E_active_zones | E_zone_sensor nat
  | E_arm_request | E_output nat | E_em_heat nat
  | E_counter nat | E_custom_value nat
  | E_thermostat nat | E_light nat | E_task nat | E_time_of_day nat

datatype platform =
    On_alarm_control_panel | On_binary_sensor | On_climate | On_light | On_number | On_scene | On_sensor
  | On_switch | On_time

primrec platform_of :: "elk_entity \<Rightarrow> platform" where
  "platform_of (E_alarm i) = On_alarm_control_panel"
| "platform_of (E_zone i) = On_binary_sensor"
| "platform_of (E_zone_bypass i) = On_binary_sensor"
| "platform_of E_remote_programming = On_binary_sensor"
| "platform_of (E_trouble name) = On_binary_sensor"
| "platform_of (E_openings i) = On_binary_sensor"
| "platform_of E_panel = On_sensor"
| "platform_of E_active_zones = On_sensor"
| "platform_of (E_zone_sensor i) = On_sensor"
| "platform_of E_arm_request = On_switch"
| "platform_of (E_output i) = On_switch"
| "platform_of (E_em_heat i) = On_switch"
| "platform_of (E_counter i) = On_number"
| "platform_of (E_custom_value i) = On_number"
| "platform_of (E_thermostat i) = On_climate"
| "platform_of (E_light i) = On_light"
| "platform_of (E_task i) = On_scene"
| "platform_of (E_time_of_day i) = On_time"

text \<open>The unique ids, under the entry's id; the arm request's is made of the configured prefix.\<close>

definition numbered :: "string \<Rightarrow> nat \<Rightarrow> string" where
  "numbered what i = what @ fmt_dec 1 (int i + 1)"

primrec entity_key :: "elk_entity \<Rightarrow> string" where
  "entity_key (E_alarm i) = numbered ''_area_'' i"
| "entity_key (E_zone i) = numbered ''_zone_'' i"
| "entity_key (E_zone_bypass i) = numbered ''_zone_'' i @ ''_bypass''"
| "entity_key E_remote_programming = ''_remote_programming''"
| "entity_key (E_trouble name) = ''_trouble_'' @ name"
| "entity_key (E_openings i) = numbered ''_area_'' i @ ''_openings''"
| "entity_key E_panel = ''_panel_status''"
| "entity_key E_active_zones = ''_active_zones_summary''"
| "entity_key (E_zone_sensor i) = numbered ''_sensor_zone_'' i"
| "entity_key E_arm_request = ''_arm_request''"
| "entity_key (E_output i) = numbered ''_output_'' i"
| "entity_key (E_em_heat i) = numbered ''_thermostat_'' i @ ''_emheat''"
| "entity_key (E_counter i) = numbered ''_counter_'' i"
| "entity_key (E_custom_value i) = numbered ''_custom_value_'' i"
| "entity_key (E_thermostat i) = numbered ''_thermostat_'' i"
| "entity_key (E_light i) = numbered ''_light_'' i"
| "entity_key (E_task i) = numbered ''_task_'' i"
| "entity_key (E_time_of_day i) = numbered ''_custom_value_'' i @ ''_time''"

definition unique_id :: "string \<Rightarrow> string \<Rightarrow> elk_entity \<Rightarrow> string" where
  "unique_id entry_id prefix e =
     (case e of
        E_arm_request \<Rightarrow> map lower (''elkm1_'' @ prefix @ ''_arm_request'')
      | _ \<Rightarrow> entry_id @ entity_key e)"

text \<open>\<open>int(def_obj.value)\<close> of a zone's definition, which is always one of the enumeration.\<close>

definition definition_number :: "element \<Rightarrow> int" where
  "definition_number z = numeric_value (attr_or (V_int 0) z ''definition'')"

definition binary_zone_entity :: "element \<Rightarrow> elk_entity option" where
  "binary_zone_entity z =
     (if definition_number z \<in> {33, 34} then None else Some (E_zone (el_index z)))"

definition bypass_zone_entity :: "element \<Rightarrow> elk_entity option" where
  "bypass_zone_entity z = Some (E_zone_bypass (el_index z))"

definition sensor_zone_entity :: "element \<Rightarrow> elk_entity option" where
  "sensor_zone_entity z =
     (if definition_number z \<in> {33, 34} then Some (E_zone_sensor (el_index z)) else None)"

definition counter_entity :: "element \<Rightarrow> elk_entity option" where
  "counter_entity e = (if is_default_name K_counter e then None else Some (E_counter (el_index e)))"

text \<open>\<open>_enum_value(setting.value_format)\<close>.\<close>

definition format_number :: "element \<Rightarrow> int" where
  "format_number e = numeric_value (get_attr e ''value_format'')"

definition custom_value_entity :: "element \<Rightarrow> elk_entity option" where
  "custom_value_entity e =
     (if is_default_name K_setting e \<or>
         format_number e \<notin> {setting_format_value SFmt_NUMBER, setting_format_value SFmt_TIMER}
      then None else Some (E_custom_value (el_index e)))"

definition time_of_day_entity :: "element \<Rightarrow> elk_entity option" where
  "time_of_day_entity e =
     (if is_default_name K_setting e \<or> format_number e \<noteq> setting_format_value SFmt_TIME_OF_DAY
      then None else Some (E_time_of_day (el_index e)))"

definition thermostat_entity :: "element \<Rightarrow> elk_entity option" where
  "thermostat_entity tstat = Some (E_thermostat (el_index tstat))"

definition light_entity :: "element \<Rightarrow> elk_entity option" where
  "light_entity light = Some (E_light (el_index light))"

definition task_entity :: "element \<Rightarrow> elk_entity option" where
  "task_entity task = Some (E_task (el_index task))"

definition output_entity :: "element \<Rightarrow> elk_entity option" where
  "output_entity e = Some (E_output (el_index e))"

definition em_heat_entity :: "element \<Rightarrow> elk_entity option" where
  "em_heat_entity tstat = Some (E_em_heat (el_index tstat))"

text \<open>What each platform adds at once, and what it watches.\<close>

definition area_indices :: "coordinator \<Rightarrow> nat list" where
  "area_indices c = sort (map fst (pd_areas (cd_data c)))"

primrec added_at_once :: "platform \<Rightarrow> coordinator \<Rightarrow> elk_entity list" where
  "added_at_once On_alarm_control_panel c = map E_alarm (area_indices c)"
| "added_at_once On_binary_sensor c =
     [E_remote_programming] @ map (\<lambda>(index, name, label). E_trouble name) TROUBLE_INDEX_NAMES @
     map E_openings (area_indices c)"
| "added_at_once On_climate c = []"
| "added_at_once On_light c = []"
| "added_at_once On_number c = []"
| "added_at_once On_scene c = []"
| "added_at_once On_sensor c = [E_panel, E_active_zones]"
| "added_at_once On_switch c = [E_arm_request]"
| "added_at_once On_time c = []"

primrec watched :: "platform \<Rightarrow> (kind \<times> (element \<Rightarrow> elk_entity option)) list" where
  "watched On_alarm_control_panel = []"
| "watched On_binary_sensor = [(K_zone, binary_zone_entity), (K_zone, bypass_zone_entity)]"
| "watched On_climate = [(K_thermostat, thermostat_entity)]"
| "watched On_light = [(K_light, light_entity)]"
| "watched On_number = [(K_counter, counter_entity), (K_setting, custom_value_entity)]"
| "watched On_scene = [(K_task, task_entity)]"
| "watched On_sensor = [(K_zone, sensor_zone_entity)]"
| "watched On_switch = [(K_output, output_entity), (K_thermostat, em_heat_entity)]"
| "watched On_time = [(K_setting, time_of_day_entity)]"

section \<open>The binary sensors\<close>

datatype device_class =
    DC_door | DC_opening | DC_motion | DC_smoke | DC_co | DC_cold | DC_gas | DC_heat | DC_moisture
  | DC_temperature | DC_voltage

definition binary_device_class_map :: "(int \<times> device_class) list" where
  "binary_device_class_map =
     [(1, DC_door), (2, DC_door), (3, DC_opening), (4, DC_motion), (5, DC_motion), (6, DC_motion),
      (7, DC_motion), (10, DC_smoke), (11, DC_smoke), (17, DC_co), (19, DC_cold), (20, DC_gas),
      (21, DC_heat), (25, DC_moisture)]"

definition OPENING_DEFINITIONS :: "int list" where "OPENING_DEFINITIONS = [1, 2, 3]"

definition zone_is_on :: "nat \<Rightarrow> coordinator \<Rightarrow> bool result" where
  "zone_is_on i c =
     (case get_obj K_zone i c of
        None \<Rightarrow> Inr False
      | Some z \<Rightarrow> bindr (enum_attr ''logical_status'' z) (\<lambda>s. Inr (s = 2)))"

definition zone_device_class :: "nat \<Rightarrow> coordinator \<Rightarrow> device_class option result" where
  "zone_device_class i c =
     (case get_obj K_zone i c of
        None \<Rightarrow> Inr None
      | Some z \<Rightarrow> bindr (enum_attr ''definition'' z) (\<lambda>n. Inr (map_of binary_device_class_map n)))"

definition zone_attributes :: "nat \<Rightarrow> coordinator \<Rightarrow> (string \<times> pyval) list result" where
  "zone_attributes i c =
     (case get_obj K_zone i c of
        None \<Rightarrow> Inr []
      | Some z \<Rightarrow>
          bindr (enum_attr ''logical_status'' z) (\<lambda>logical.
          bindr (enum_attr ''physical_status'' z) (\<lambda>physical.
          bindr (enum_attr ''definition'' z) (\<lambda>d.
          Inr [(''physical_status'', V_int physical), (''logical_status'', V_int logical),
               (''definition'', V_int d), (''bypassed'', V_bool (logical = 3)),
               (''triggered_alarm'', attr_or (V_bool False) z ''triggered_alarm''),
               (''voltage'', attr_or (V_rat 0) z ''voltage'')]))))"

definition bypass_is_on :: "nat \<Rightarrow> coordinator \<Rightarrow> bool result" where
  "bypass_is_on i c =
     (case get_obj K_zone i c of
        None \<Rightarrow> Inr False
      | Some z \<Rightarrow>
          bindr (enum_value_plain 0 (attr_or (V_int 0) z ''logical_status'')) (\<lambda>s. Inr (s = 3)))"

definition bypass_name :: "nat \<Rightarrow> coordinator \<Rightarrow> string" where
  "bypass_name i c = entity_name ''Zone'' K_zone i c @ '' Bypass''"

text \<open>The panel's own report of a programming session; the attributes come from the tracker.\<close>

definition remote_programming_is_on :: "coordinator \<Rightarrow> bool" where
  "remote_programming_is_on c =
     (case cd_elk c of
        None \<Rightarrow> False
      | Some h \<Rightarrow> numeric_value (attr_or (V_int 0) (hb_panel h) ''remote_programming_status'') \<noteq> 0)"

definition trouble_is_on :: "string \<Rightarrow> coordinator \<Rightarrow> bool" where
  "trouble_is_on name c = (map_of (pd_troubles (cd_data c)) name = Some True)"

definition trouble_attributes :: "string \<Rightarrow> coordinator \<Rightarrow> (string \<times> int) list" where
  "trouble_attributes name c =
     (case map_of (pd_trouble_details (cd_data c)) name of
        Some detail \<Rightarrow> [(''zone_or_device_number'', detail)] | None \<Rightarrow> [])"

text \<open>The remote programming sensor's attributes: who programs the panel, as the tracker knows it.\<close>

record programming_attributes =
  pa_source :: "string option"
  pa_claimed_by :: "string option"
  pa_purpose :: "string option"
  pa_last_started :: "int option"
  pa_last_ended :: "int option"
  pa_session_count :: int

definition remote_programming_attributes :: "tracker \<Rightarrow> programming_attributes" where
  "remote_programming_attributes t =
     (let st = tk_state t
      in \<lparr>pa_source = current_source st, pa_claimed_by = map_option cl_user (ps_claim st),
          pa_purpose = map_option cl_purpose (ps_claim st), pa_last_started = last_started st,
          pa_last_ended = last_ended st, pa_session_count = ps_session_count st\<rparr>)"

text \<open>The doors and windows of an area; the conditions are read from left to right.\<close>

definition data_zones :: "coordinator \<Rightarrow> element list" where
  "data_zones c =
     (case cd_elk c of Some h \<Rightarrow> take (pd_listed (cd_data c) K_zone) (elems h K_zone) | None \<Rightarrow> [])"

fun area_opening_zones :: "nat \<Rightarrow> element list \<Rightarrow> element list result" where
  "area_opening_zones area [] = Inr []"
| "area_opening_zones area (z # zs) =
     bindr (if \<not> el_configured z then Inr False
            else bindr (enum_value 0 (attr_or (V_int (-1)) z ''area'')) (\<lambda>a.
              if a \<noteq> int area then Inr False
              else bindr (enum_attr ''definition'' z) (\<lambda>d. Inr (d \<in> set OPENING_DEFINITIONS)))) (\<lambda>here.
     bindr (area_opening_zones area zs) (\<lambda>rest. Inr (if here then z # rest else rest)))"

fun any_open :: "element list \<Rightarrow> bool result" where
  "any_open [] = Inr False"
| "any_open (z # zs) = bindr (enum_attr ''logical_status'' z) (\<lambda>s. if s = 2 then Inr True else any_open zs)"

definition openings_is_on :: "nat \<Rightarrow> coordinator \<Rightarrow> bool result" where
  "openings_is_on area c = bindr (area_opening_zones area (data_zones c)) any_open"

fun open_zone_names :: "element list \<Rightarrow> string list result" where
  "open_zone_names [] = Inr []"
| "open_zone_names (z # zs) =
     bindr (enum_attr ''logical_status'' z) (\<lambda>s.
     bindr (open_zone_names zs) (\<lambda>names. Inr (if s = 2 then name_of z # names else names)))"

definition openings_attributes :: "nat \<Rightarrow> coordinator \<Rightarrow> (string list \<times> nat) result" where
  "openings_attributes area c =
     bindr (area_opening_zones area (data_zones c)) (\<lambda>zs.
     bindr (open_zone_names zs) (\<lambda>names. Inr (names, length names)))"

section \<open>The sensors\<close>

definition active_zones_value :: "coordinator \<Rightarrow> nat" where
  "active_zones_value c = length (pd_zones_faulted (cd_data c))"

definition active_zones_text :: "coordinator \<Rightarrow> string" where
  "active_zones_text c =
     (if pd_faulted_zone_names (cd_data c) \<noteq> []
      then join_strings '', '' (pd_faulted_zone_names (cd_data c)) else ''None'')"

definition coordinator_connected :: "coordinator \<Rightarrow> bool" where
  "coordinator_connected c = (\<exists>h \<in> set_option (cd_elk c). cn_writer (hb_conn h))"

definition panel_sensor_value :: "coordinator \<Rightarrow> string" where
  "panel_sensor_value c = (if coordinator_connected c then ''Connected'' else ''Disconnected'')"

definition panel_sensor_attributes :: "coordinator \<Rightarrow> string \<times> string" where
  "panel_sensor_attributes c =
     (pd_raw_trouble_status (cd_data c), format_troubles (pd_raw_trouble_status (cd_data c)))"

definition UNDEFINED_TEMPERATURE :: int where "UNDEFINED_TEMPERATURE = -40"

definition sensor_definition :: "nat \<Rightarrow> coordinator \<Rightarrow> int result" where
  "sensor_definition i c =
     (case get_obj K_zone i c of None \<Rightarrow> Inr 0 | Some z \<Rightarrow> enum_attr ''definition'' z)"

definition sensor_device_class :: "nat \<Rightarrow> coordinator \<Rightarrow> device_class option result" where
  "sensor_device_class i c =
     bindr (sensor_definition i c) (\<lambda>d. Inr (map_of [(33, DC_temperature), (34, DC_voltage)] d))"

definition sensor_icon :: "nat \<Rightarrow> coordinator \<Rightarrow> string result" where
  "sensor_icon i c =
     bindr (sensor_definition i c) (\<lambda>d.
       Inr (if d = 33 then ''mdi:thermometer-lines'' else ''mdi:speedometer''))"

definition sensor_measures :: "nat \<Rightarrow> coordinator \<Rightarrow> bool result" where
  "sensor_measures i c = bindr (sensor_definition i c) (\<lambda>d. Inr (d \<in> {33, 34}))"

datatype sensor_unit = Fahrenheit | Volt

definition sensor_unit_of :: "nat \<Rightarrow> coordinator \<Rightarrow> sensor_unit option result" where
  "sensor_unit_of i c =
     bindr (sensor_definition i c) (\<lambda>d.
       Inr (if d = 33 then Some Fahrenheit else if d = 34 then Some Volt else None))"

text \<open>The value whose \<open>str()\<close> is shown.\<close>

definition sensor_native_value :: "nat \<Rightarrow> coordinator \<Rightarrow> pyval option result" where
  "sensor_native_value i c =
     (case get_obj K_zone i c of
        None \<Rightarrow> Inr None
      | Some z \<Rightarrow>
          bindr (enum_attr ''definition'' z) (\<lambda>d.
            if d = 33 then
              (let temp = attr_or (V_int UNDEFINED_TEMPERATURE) z ''temperature''
               in bindr (py_less (V_int UNDEFINED_TEMPERATURE) temp) (\<lambda>known.
                    Inr (if known then Some temp else None)))
            else if d = 34 then Inr (Some (attr_or (V_rat 0) z ''voltage''))
            else Inr None))"

definition sensor_attributes :: "nat \<Rightarrow> coordinator \<Rightarrow> (string \<times> pyval) list result" where
  "sensor_attributes i c =
     (case get_obj K_zone i c of
        None \<Rightarrow> Inr []
      | Some z \<Rightarrow>
          bindr (enum_attr ''logical_status'' z) (\<lambda>logical.
          bindr (enum_attr ''physical_status'' z) (\<lambda>physical.
          bindr (enum_attr ''definition'' z) (\<lambda>d.
          Inr [(''physical_status'', V_int physical), (''logical_status'', V_int logical),
               (''definition'', V_int d), (''bypassed'', V_bool (logical = 3))]))))"

section \<open>The attributes of the alarm entity\<close>

text \<open>\<open>global\<close> values are those of the snapshot, the others those of the entity's area.\<close>

record alarm_attributes =
  aa_armed :: bool
  aa_armed_mode :: string
  aa_entry_delay_active :: bool
  aa_exit_delay_active :: bool
  aa_entry_delay_seconds :: pyval
  aa_exit_delay_seconds :: pyval
  aa_last_user :: "int option"
  aa_last_user_name :: string
  aa_last_keypad :: "int option"
  aa_last_user_time :: "nat option"
  aa_zones_faulted :: "nat list"
  aa_zones_faulted_count :: nat
  aa_faulted_zone_names :: "string list"
  aa_outputs_active :: "nat list"
  aa_outputs_active_count :: nat
  aa_active_output_names :: "string list"
  aa_trouble_status :: bool
  aa_ac_power :: "bool option"
  aa_battery_status :: string
  aa_panel_temperature :: "pyval option"
  aa_connection_status :: string
  aa_last_update :: bool
  aa_alarm_triggered :: bool
  aa_fire_alarm :: bool
  aa_panic_alarm :: bool
  aa_alarm_memory :: pyval
  aa_bypassed_zones :: "string list"
  aa_bypassed_zones_count :: nat

definition alarm_entity_attributes :: "nat \<Rightarrow> coordinator \<Rightarrow> alarm_attributes" where
  "alarm_entity_attributes area_index c =
     (let d = cd_data c; a = area_data_of d area_index
      in \<lparr>aa_armed = pd_armed d, aa_armed_mode = pd_armed_mode d,
          aa_entry_delay_active = ad_entry_delay_active a, aa_exit_delay_active = ad_exit_delay_active a,
          aa_entry_delay_seconds = ad_entry_delay a, aa_exit_delay_seconds = ad_exit_delay a,
          aa_last_user = pd_last_user d, aa_last_user_name = pd_last_user_name d,
          aa_last_keypad = pd_last_keypad d, aa_last_user_time = pd_last_user_time d,
          aa_zones_faulted = pd_zones_faulted d, aa_zones_faulted_count = length (pd_zones_faulted d),
          aa_faulted_zone_names = pd_faulted_zone_names d,
          aa_outputs_active = pd_outputs_active d, aa_outputs_active_count = length (pd_outputs_active d),
          aa_active_output_names = pd_active_output_names d, aa_trouble_status = pd_trouble_status d,
          aa_ac_power = pd_ac_power d, aa_battery_status = pd_battery_status d,
          aa_panel_temperature = pd_panel_temperature d,
          aa_connection_status = (if cd_update_ok c then ''Connected'' else ''Disconnected''),
          aa_last_update = cd_update_ok c, aa_alarm_triggered = alarm_is_active (ad_alarm_state a),
          aa_fire_alarm = pd_fire_alarm_active d, aa_panic_alarm = ad_panic_state a,
          aa_alarm_memory = ad_alarm_memory a, aa_bypassed_zones = pd_bypassed_zones d,
          aa_bypassed_zones_count = length (pd_bypassed_zones d)\<rparr>)"

section \<open>Every element gets its entity once\<close>

text \<open>The element of an index at the first scan at which it is configured.\<close>

fun first_configured :: "nat \<Rightarrow> element list list \<Rightarrow> element option" where
  "first_configured i [] = None"
| "first_configured i (elements # scans) =
     (case find (\<lambda>e. el_index e = i \<and> el_configured e) elements of
        Some e \<Rightarrow> Some e | None \<Rightarrow> first_configured i scans)"

lemma first_configured_append:
  "first_configured i (xs @ ys) = (case first_configured i xs of Some e \<Rightarrow> Some e | None \<Rightarrow> first_configured i ys)"
  by (induction xs) (auto split: option.split)

lemma find_index: "find (\<lambda>e. el_index e = i \<and> el_configured e) xs = Some e \<Longrightarrow> el_index e = i"
  by (auto simp: find_Some_iff)

lemma first_configured_index: "first_configured i scans = Some e \<Longrightarrow> el_index e = i"
  by (induction scans) (auto split: option.splits dest: find_index)

text \<open>The elements a scan deals with.\<close>

fun fresh :: "nat list \<Rightarrow> element list \<Rightarrow> element list" where
  "fresh added [] = []"
| "fresh added (e # es) =
     (if el_index e \<in> set added \<or> \<not> el_configured e then fresh added es
      else e # fresh (el_index e # added) es)"

lemma scan_elements_fresh:
  "scan_elements f es added new = (rev (map el_index (fresh added es)) @ added, new @ List.map_filter f (fresh added es))"
  by (induction added es arbitrary: new rule: fresh.induct) (auto simp: List.map_filter_simps split: option.split)

lemma fresh_distinct: "distinct (map el_index (fresh added es)) \<and> set (map el_index (fresh added es)) \<inter> set added = {}"
  by (induction added es rule: fresh.induct) auto

lemma fresh_set:
  "e \<in> set (fresh added es) \<longleftrightarrow>
    el_index e \<notin> set added \<and> find (\<lambda>x. el_index x = el_index e \<and> el_configured x) es = Some e"
  by (induction added es rule: fresh.induct) auto

definition entities_of :: "'e dynamic \<Rightarrow> 'e list" where
  "entities_of d = concat (dy_batches d)"

lemma dynamic_run:
  "\<exists>es. dy_added (dynamic_entities f scans) = rev (map el_index es) \<and>
    entities_of (dynamic_entities f scans) = List.map_filter f es \<and> distinct (map el_index es) \<and>
    (\<forall>e. e \<in> set es \<longleftrightarrow> first_configured (el_index e) scans = Some e) \<and>
    [] \<notin> set (dy_batches (dynamic_entities f scans))"
proof (induction scans rule: rev_induct)
  case Nil
  show ?case by (intro exI [of _ "[]"]) (simp add: dynamic_entities_def entities_of_def List.map_filter_simps)
next
  case (snoc elements scans)
  let ?d = "dynamic_entities f scans"
  obtain es where added: "dy_added ?d = rev (map el_index es)" and new: "entities_of ?d = List.map_filter f es"
    and dist: "distinct (map el_index es)"
    and es: "\<And>e. e \<in> set es \<longleftrightarrow> first_configured (el_index e) scans = Some e"
    and ne: "[] \<notin> set (dy_batches ?d)"
    using snoc.IH by (elim exE conjE) (rule that, auto)
  let ?ds = "fresh (dy_added ?d) elements"
  have step: "dynamic_entities f (scans @ [elements]) = scan_for_new_entities f elements ?d"
    by (simp add: dynamic_entities_def)
  have known: "el_index e \<in> set (dy_added ?d) \<longleftrightarrow> first_configured (el_index e) scans \<noteq> None" for e
  proof
    assume "el_index e \<in> set (dy_added ?d)"
    then obtain x where "x \<in> set es" "el_index x = el_index e" unfolding added by auto
    then show "first_configured (el_index e) scans \<noteq> None" using es by auto
  next
    assume "first_configured (el_index e) scans \<noteq> None"
    then obtain x where x: "first_configured (el_index e) scans = Some x" by blast
    then have "el_index x = el_index e" by (rule first_configured_index)
    moreover from this x have "x \<in> set es" by (simp add: es)
    ultimately show "el_index e \<in> set (dy_added ?d)" unfolding added by force
  qed
  have "e \<in> set (es @ ?ds) \<longleftrightarrow> first_configured (el_index e) (scans @ [elements]) = Some e" for e
    using known [of e] by (auto simp: es fresh_set first_configured_append split: option.split)
  moreover have "distinct (map el_index (es @ ?ds))"
    using dist fresh_distinct [of "dy_added ?d" elements] unfolding added by auto
  moreover have "entities_of (dynamic_entities f (scans @ [elements])) = List.map_filter f (es @ ?ds)"
    using new by (simp add: step scan_for_new_entities_def scan_elements_fresh entities_of_def List.map_filter_def)
  moreover have "dy_added (dynamic_entities f (scans @ [elements])) = rev (map el_index (es @ ?ds))"
    by (simp add: step scan_for_new_entities_def scan_elements_fresh added)
  moreover have "[] \<notin> set (dy_batches (dynamic_entities f (scans @ [elements])))"
    using ne by (simp add: step scan_for_new_entities_def scan_elements_fresh)
  ultimately show ?case by (intro exI [of _ "es @ ?ds"]) blast
qed

text \<open>C32. Dynamic entities: over any sequence of scans the entities of a platform are what its factory makes
  of the elements that have ever been configured, each taken as it was at the first scan that saw it
  configured, and each once; Home Assistant is never called with nothing to add.\<close>

theorem dynamic_entities_once:
  "\<exists>es. entities_of (dynamic_entities entity_factory scans) = List.map_filter entity_factory es \<and>
    distinct (map el_index es) \<and>
    set es = {e. first_configured (el_index e) scans = Some e} \<and>
    [] \<notin> set (dy_batches (dynamic_entities entity_factory scans))"
proof -
  obtain es where "entities_of (dynamic_entities entity_factory scans) = List.map_filter entity_factory es"
    "distinct (map el_index es)" "\<And>e. e \<in> set es \<longleftrightarrow> first_configured (el_index e) scans = Some e"
    "[] \<notin> set (dy_batches (dynamic_entities entity_factory scans))"
    using dynamic_run [of entity_factory scans] by (elim exE conjE) (rule that, auto)
  then show ?thesis by (intro exI [of _ es]) blast
qed

section \<open>Unique ids\<close>

definition letters :: "string \<Rightarrow> string" where
  "letters s = filter (\<lambda>c. \<not> is_digit c) s"

lemma letters_append [simp]: "letters (s @ t) = letters s @ letters t"
  by (simp add: letters_def)

lemma numeral_digits: "list_all is_digit (fmt_dec w (int n))"
  using all_digits_fmt_dec [of w n] by (auto simp: all_digits_def list_all_iff)

lemma letters_numeral [simp]: "letters (fmt_dec w (int n)) = []"
  using numeral_digits [of w n] by (simp add: letters_def list_all_iff)

lemma fmt_dec_inject: "fmt_dec w (int m) = fmt_dec w (int n) \<Longrightarrow> m = n"
  using py_int_fmt_dec [of w m] py_int_fmt_dec [of w n] by (metis of_nat_eq_iff sum.inject(2))

lemma digits_of_letters: "letters w = w \<Longrightarrow> filter is_digit w = []"
  by (simp add: letters_def filter_id_conv)

lemma digits_of_numeral: "filter is_digit (fmt_dec w (int n)) = fmt_dec w (int n)"
  using numeral_digits [of w n] by (simp add: list_all_iff filter_id_conv)

lemma letters_numbered [simp]: "letters (numbered w i) = letters w"
proof -
  have "numbered w i = w @ fmt_dec 1 (int (Suc i))" by (simp add: numbered_def ac_simps)
  then show ?thesis by (simp del: of_nat_Suc)
qed

lemma digits_numbered: "filter is_digit (numbered w i) = filter is_digit w @ fmt_dec 1 (int (Suc i))"
proof -
  have "numbered w i = w @ fmt_dec 1 (int (Suc i))" by (simp add: numbered_def ac_simps)
  then show ?thesis by (simp add: digits_of_numeral del: of_nat_Suc)
qed

lemma key_letters:
  "letters (entity_key (E_alarm i)) = ''_area_''"
  "letters (entity_key (E_zone i)) = ''_zone_''"
  "letters (entity_key (E_zone_bypass i)) = ''_zone__bypass''"
  "letters (entity_key E_remote_programming) = ''_remote_programming''"
  "letters (entity_key (E_trouble name)) = ''_trouble_'' @ letters name"
  "letters (entity_key (E_openings i)) = ''_area__openings''"
  "letters (entity_key E_panel) = ''_panel_status''"
  "letters (entity_key E_active_zones) = ''_active_zones_summary''"
  "letters (entity_key (E_zone_sensor i)) = ''_sensor_zone_''"
  "letters (entity_key E_arm_request) = ''_arm_request''"
  "letters (entity_key (E_output i)) = ''_output_''"
  "letters (entity_key (E_em_heat i)) = ''_thermostat__emheat''"
  "letters (entity_key (E_counter i)) = ''_counter_''"
  "letters (entity_key (E_custom_value i)) = ''_custom_value_''"
  "letters (entity_key (E_thermostat i)) = ''_thermostat_''"
  "letters (entity_key (E_light i)) = ''_light_''"
  "letters (entity_key (E_task i)) = ''_task_''"
  "letters (entity_key (E_time_of_day i)) = ''_custom_value__time''"
  by (simp_all add: letters_numbered) (simp_all add: letters_def is_digit_def pyord_def)

lemma key_digits:
  "filter is_digit (entity_key (E_alarm i)) = fmt_dec 1 (int (Suc i))"
  "filter is_digit (entity_key (E_zone i)) = fmt_dec 1 (int (Suc i))"
  "filter is_digit (entity_key (E_zone_bypass i)) = fmt_dec 1 (int (Suc i))"
  "filter is_digit (entity_key (E_openings i)) = fmt_dec 1 (int (Suc i))"
  "filter is_digit (entity_key (E_zone_sensor i)) = fmt_dec 1 (int (Suc i))"
  "filter is_digit (entity_key (E_output i)) = fmt_dec 1 (int (Suc i))"
  "filter is_digit (entity_key (E_em_heat i)) = fmt_dec 1 (int (Suc i))"
  "filter is_digit (entity_key (E_counter i)) = fmt_dec 1 (int (Suc i))"
  "filter is_digit (entity_key (E_custom_value i)) = fmt_dec 1 (int (Suc i))"
  "filter is_digit (entity_key (E_thermostat i)) = fmt_dec 1 (int (Suc i))"
  "filter is_digit (entity_key (E_light i)) = fmt_dec 1 (int (Suc i))"
  "filter is_digit (entity_key (E_task i)) = fmt_dec 1 (int (Suc i))"
  "filter is_digit (entity_key (E_time_of_day i)) = fmt_dec 1 (int (Suc i))"
  by (simp_all del: of_nat_Suc fmt_dec_def add: digits_numbered) (simp_all add: is_digit_def pyord_def)

text \<open>The entity of a key: its letters name the kind, the number in it the element.\<close>

definition key_entities :: "nat \<Rightarrow> (string \<times> elk_entity) list" where
  "key_entities n =
     [(''_area_'', E_alarm n),
      (''_zone_'', E_zone n),
      (''_zone__bypass'', E_zone_bypass n),
      (''_remote_programming'', E_remote_programming),
      (''_area__openings'', E_openings n),
      (''_panel_status'', E_panel),
      (''_active_zones_summary'', E_active_zones),
      (''_sensor_zone_'', E_zone_sensor n),
      (''_arm_request'', E_arm_request),
      (''_output_'', E_output n),
      (''_thermostat__emheat'', E_em_heat n),
      (''_counter_'', E_counter n),
      (''_custom_value_'', E_custom_value n),
      (''_thermostat_'', E_thermostat n),
      (''_light_'', E_light n),
      (''_task_'', E_task n),
      (''_custom_value__time'', E_time_of_day n)]"

definition entity_of_key :: "string \<Rightarrow> elk_entity option" where
  "entity_of_key key =
     (if take 9 key = ''_trouble_'' then Some (E_trouble (drop 9 key))
      else map_of (key_entities (case py_int 10 (filter is_digit key) of Inr k \<Rightarrow> nat k - 1 | Inl e \<Rightarrow> 0))
             (letters key))"

lemma number_read: "(case py_int 10 (fmt_dec 1 (int (Suc i))) of Inr k \<Rightarrow> nat k - 1 | Inl e \<Rightarrow> 0) = i"
  by (simp only: py_int_fmt_dec sum.case)

lemma no_trouble: "\<forall>n. e \<noteq> E_trouble n \<Longrightarrow> take 9 (entity_key e) \<noteq> ''_trouble_''"
  by (cases e) (simp_all add: numbered_def)

lemma key_lookup:
  "map_of (key_entities n) ''_area_'' = Some (E_alarm n)"
  "map_of (key_entities n) ''_zone_'' = Some (E_zone n)"
  "map_of (key_entities n) ''_zone__bypass'' = Some (E_zone_bypass n)"
  "map_of (key_entities n) ''_remote_programming'' = Some (E_remote_programming)"
  "map_of (key_entities n) ''_area__openings'' = Some (E_openings n)"
  "map_of (key_entities n) ''_panel_status'' = Some (E_panel)"
  "map_of (key_entities n) ''_active_zones_summary'' = Some (E_active_zones)"
  "map_of (key_entities n) ''_sensor_zone_'' = Some (E_zone_sensor n)"
  "map_of (key_entities n) ''_arm_request'' = Some (E_arm_request)"
  "map_of (key_entities n) ''_output_'' = Some (E_output n)"
  "map_of (key_entities n) ''_thermostat__emheat'' = Some (E_em_heat n)"
  "map_of (key_entities n) ''_counter_'' = Some (E_counter n)"
  "map_of (key_entities n) ''_custom_value_'' = Some (E_custom_value n)"
  "map_of (key_entities n) ''_thermostat_'' = Some (E_thermostat n)"
  "map_of (key_entities n) ''_light_'' = Some (E_light n)"
  "map_of (key_entities n) ''_task_'' = Some (E_task n)"
  "map_of (key_entities n) ''_custom_value__time'' = Some (E_time_of_day n)"
  by (simp_all add: key_entities_def)

lemma entity_of_entity_key: "entity_of_key (entity_key e) = Some e"
proof (cases "\<forall>n. e \<noteq> E_trouble n")
  case True
  have "map_of (key_entities (case py_int 10 (filter is_digit (entity_key e)) of Inr k \<Rightarrow> nat k - 1 | Inl e \<Rightarrow> 0))
      (letters (entity_key e)) = Some e"
    using True by (cases e) (simp_all only: key_letters key_digits number_read key_lookup elk_entity.simps, blast)
  then show ?thesis using no_trouble [OF True] by (simp only: entity_of_key_def if_False)
next
  case False
  then obtain name where e: "e = E_trouble name" by blast
  have "take 9 (entity_key (E_trouble name)) = ''_trouble_''" "drop 9 (entity_key (E_trouble name)) = name"
    by simp_all
  then show ?thesis unfolding e entity_of_key_def by (simp only: if_True simp_thms)
qed

lemma entity_key_inj: "entity_key e = entity_key e' \<Longrightarrow> e = e'"
  using entity_of_entity_key by (metis option.inject)

lemma arm_request_key:
  assumes "platform_of e = On_switch" and "e \<noteq> E_arm_request"
  shows "unique_id entry_id prefix e \<noteq> unique_id entry_id prefix E_arm_request"
proof -
  have r: "rev (unique_id entry_id prefix E_arm_request) = ''tseuqer_mra_'' @ rev (map lower (''elkm1_'' @ prefix))"
    by (simp add: unique_id_def lower_def pyord_def)
  have "\<exists>s d. rev (unique_id entry_id prefix e) = d # s \<and> (is_digit d \<or> d = CHR ''t'' \<and> hd s = CHR ''a'')"
  proof (cases e)
    case (E_output i)
    have "fmt_dec 1 (int (Suc i)) \<noteq> []" by (simp add: fmt_dec_def zfill_def)
    then obtain d s where d: "fmt_dec 1 (int (Suc i)) = s @ [d]" by (cases "fmt_dec 1 (int (Suc i))" rule: rev_cases) auto
    then have "is_digit d" using numeral_digits [of 1 "Suc i"] by simp
    moreover have "rev (unique_id entry_id prefix e) = d # rev (entry_id @ ''_output_'' @ s)"
      using d by (simp add: E_output unique_id_def numbered_def ac_simps)
    ultimately show ?thesis by blast
  qed (use assms in \<open>simp_all add: unique_id_def\<close>)
  then obtain s d where e: "rev (unique_id entry_id prefix e) = d # s" "is_digit d \<or> d = CHR ''t'' \<and> hd s = CHR ''a''"
    by blast
  show ?thesis
  proof
    assume "unique_id entry_id prefix e = unique_id entry_id prefix E_arm_request"
    then have "d # s = ''tseuqer_mra_'' @ rev (map lower (''elkm1_'' @ prefix))" using e(1) r by simp
    then show False using e(2) by (auto simp: is_digit_def pyord_def)
  qed
qed

text \<open>C33. Unique ids: two entities of one entry that stand on the same platform never share a unique id.\<close>

theorem unique_ids_distinct: "inj_on (unique_id entry_id prefix) {e. platform_of e = p}"
proof (rule inj_onI)
  fix e e'
  assume "e \<in> {e. platform_of e = p}" "e' \<in> {e. platform_of e = p}"
    and eq: "unique_id entry_id prefix e = unique_id entry_id prefix e'"
  then have pl: "platform_of e = platform_of e'" by simp
  show "e = e'"
  proof (cases "e = E_arm_request \<or> e' = E_arm_request")
    case True
    then show ?thesis
    proof
      assume e: "e = E_arm_request"
      then have "platform_of e' = On_switch" using pl by simp
      from arm_request_key [OF this, of entry_id prefix] show ?thesis using eq e by metis
    next
      assume e: "e' = E_arm_request"
      then have "platform_of e = On_switch" using pl by simp
      from arm_request_key [OF this, of entry_id prefix] show ?thesis using eq e by metis
    qed
  next
    case False
    then have "unique_id entry_id prefix x = entry_id @ entity_key x" if "x \<in> {e, e'}" for x
      using that by (auto simp: unique_id_def split: elk_entity.split)
    then show ?thesis using eq by (intro entity_key_inj) simp
  qed
qed

section \<open>The zone entities and the snapshot\<close>

lemma typed_zone_reads:
  assumes "element_typed (attr_tests K_zone) z"
  shows "enum_attr ''logical_status'' z = Inr (numeric_value (get_attr z ''logical_status''))"
    and "enum_attr ''definition'' z = Inr (numeric_value (get_attr z ''definition''))"
    and "enum_value_plain 0 (attr_or (V_int 0) z ''logical_status'') = Inr (numeric_value (get_attr z ''logical_status''))"
    and "\<exists>a. get_attr z ''area'' = V_int a \<and> enum_value (-1) (attr_or (V_int (-1)) z ''area'') = Inr a"
proof -
  have lo: "\<exists>lo. el_attrs z ''logical_status'' = Some (V_logical lo) \<and> get_attr z ''logical_status'' = V_logical lo"
    by (rule typed_attr [OF assms, of "''logical_status''" is_V_logical]) (auto simp: attr_tests_def is_V_logical_def)
  then show "enum_attr ''logical_status'' z = Inr (numeric_value (get_attr z ''logical_status''))"
    and "enum_value_plain 0 (attr_or (V_int 0) z ''logical_status'') = Inr (numeric_value (get_attr z ''logical_status''))"
    by (auto simp: enum_attr_def enum_value_def enum_value_plain_def attr_or_def numeric_value_def)
  have "\<exists>ty. el_attrs z ''definition'' = Some (V_zone_type ty) \<and> get_attr z ''definition'' = V_zone_type ty"
    by (rule typed_attr [OF assms, of "''definition''" is_V_zone_type]) (auto simp: attr_tests_def is_V_zone_type_def)
  then show "enum_attr ''definition'' z = Inr (numeric_value (get_attr z ''definition''))"
    by (auto simp: enum_attr_def enum_value_def enum_value_plain_def attr_or_def numeric_value_def)
  have "\<exists>a. el_attrs z ''area'' = Some (V_int a) \<and> get_attr z ''area'' = V_int a"
    by (rule typed_attr [OF assms, of "''area''" is_V_int]) (auto simp: attr_tests_def is_V_int_def)
  then show "\<exists>a. get_attr z ''area'' = V_int a \<and> enum_value (-1) (attr_or (V_int (-1)) z ''area'') = Inr a"
    by (auto simp: enum_value_def enum_value_plain_def attr_or_def int_of_rat_def)
qed

definition opens :: "nat \<Rightarrow> element \<Rightarrow> bool" where
  "opens area z \<longleftrightarrow> el_configured z \<and> get_attr z ''area'' = V_int (int area) \<and>
     numeric_value (get_attr z ''definition'') \<in> set OPENING_DEFINITIONS"

lemma area_opening_zones_typed:
  "(\<And>z. z \<in> set zs \<Longrightarrow> element_typed (attr_tests K_zone) z) \<Longrightarrow>
    area_opening_zones area zs = Inr (filter (opens area) zs)"
proof (induction zs)
  case (Cons z zs)
  obtain a where a: "get_attr z ''area'' = V_int a" "enum_value (-1) (attr_or (V_int (-1)) z ''area'') = Inr a"
    using typed_zone_reads(4) [OF Cons.prems] by auto
  have "enum_value 0 (attr_or (V_int (-1)) z ''area'') = Inr a"
    by (rule typed_attr [OF Cons.prems, of z "''area''" is_V_int])
      (use a in \<open>auto simp: attr_tests_def is_V_int_def enum_value_def enum_value_plain_def attr_or_def\<close>)
  then show ?case
    using Cons typed_zone_reads(2) [OF Cons.prems, of z] a by (auto simp: opens_def)
qed simp

lemma any_open_typed:
  "(\<And>z. z \<in> set zs \<Longrightarrow> element_typed (attr_tests K_zone) z) \<Longrightarrow>
    any_open zs = Inr (\<exists>z \<in> set zs. numeric_value (get_attr z ''logical_status'') = 2)"
  by (induction zs) (auto simp: typed_zone_reads(1))

lemma opening_classes:
  "n \<in> set OPENING_DEFINITIONS \<longleftrightarrow> map_of binary_device_class_map n \<in> {Some DC_door, Some DC_opening}"
  by (auto simp: OPENING_DEFINITIONS_def binary_device_class_map_def)

lemma build_lists:
  assumes "build_normalized_data h raw u k t = Inr d"
  shows "pd_listed d x = length (elems h x)" and "pd_zones_faulted d = map el_index (zones_with_status 2 h)"
  using assms by (auto simp: build_normalized_data_def Let_def bindr_eq_Inr)

lemma snapshot_lists:
  assumes "cd_elk c = Some h" and "coordinator_data c = Inr (cd_data c)"
  shows "pd_listed (cd_data c) k = length (elems h k)"
    and "pd_zones_faulted (cd_data c) = map el_index (zones_with_status 2 h)"
proof -
  have "build_normalized_data h (cd_raw_trouble_status c) (cd_last_user c) (cd_last_keypad c) (cd_last_user_time c) =
      Inr (cd_data c)" using assms by (simp add: coordinator_data_def)
  then show "pd_listed (cd_data c) k = length (elems h k)"
    "pd_zones_faulted (cd_data c) = map el_index (zones_with_status 2 h)"
    by (rule build_lists)+
qed

text \<open>What the zones of an up-to-date snapshot of a reachable hub are.\<close>

lemma zones_shown:
  assumes "hub_reachable h" and "cd_elk c = Some h" and "coordinator_data c = Inr (cd_data c)"
  shows "get_obj K_zone i c = (if i < MAX_ZONES then Some (elems h K_zone ! i) else None)"
    and "i < MAX_ZONES \<Longrightarrow> element_typed (attr_tests K_zone) (elems h K_zone ! i)"
    and "data_zones c = elems h K_zone"
    and "pd_zones_faulted (cd_data c) = filter (\<lambda>i. el_configured (elems h K_zone ! i) \<and>
      numeric_value (get_attr (elems h K_zone ! i) ''logical_status'') = 2) [0..<MAX_ZONES]"
proof -
  have len: "length (elems h K_zone) = MAX_ZONES"
    and idx: "\<And>i. i < MAX_ZONES \<Longrightarrow> el_index (elems h K_zone ! i) = i"
    using reachable_sizes [OF assms(1)] by (simp_all add: sizes_ok_def)
  show "get_obj K_zone i c = (if i < MAX_ZONES then Some (elems h K_zone ! i) else None)"
    and "data_zones c = elems h K_zone"
    by (simp_all add: get_obj_def data_zones_def assms(2) snapshot_lists(1) [OF assms(2,3)] len)
  show "i < MAX_ZONES \<Longrightarrow> element_typed (attr_tests K_zone) (elems h K_zone ! i)"
    using reachable_typed [OF assms(1), of "elems h K_zone ! i" K_zone] len by simp
  show "pd_zones_faulted (cd_data c) = filter (\<lambda>i. el_configured (elems h K_zone ! i) \<and>
      numeric_value (get_attr (elems h K_zone ! i) ''logical_status'') = 2) [0..<MAX_ZONES]"
    unfolding snapshot_lists(2) [OF assms(2,3)] zones_with_status_def
    using map_filter_positions [of "elems h K_zone" el_index] idx len by simp
qed

lemma openings_shown:
  assumes "hub_reachable h" and "data_zones c = elems h K_zone"
  shows "openings_is_on area c = Inr (\<exists>i < MAX_ZONES. opens area (elems h K_zone ! i) \<and>
    numeric_value (get_attr (elems h K_zone ! i) ''logical_status'') = 2)"
proof -
  have typed: "z \<in> set (elems h K_zone) \<Longrightarrow> element_typed (attr_tests K_zone) z" for z
    using reachable_typed [OF assms(1)] .
  have "openings_is_on area c =
      Inr (\<exists>z \<in> set (filter (opens area) (elems h K_zone)). numeric_value (get_attr z ''logical_status'') = 2)"
    by (subst openings_is_on_def) (simp add: assms(2) area_opening_zones_typed [OF typed],
      subst any_open_typed, auto intro: typed)
  also have "(\<exists>z \<in> set (filter (opens area) (elems h K_zone)). numeric_value (get_attr z ''logical_status'') = 2) \<longleftrightarrow>
      (\<exists>i < MAX_ZONES. opens area (elems h K_zone ! i) \<and> numeric_value (get_attr (elems h K_zone ! i) ''logical_status'') = 2)"
    using reachable_sizes [OF assms(1)] by (auto simp: in_set_conv_nth sizes_ok_def)
  finally show ?thesis .
qed

text \<open>C34. The zone entities agree with the snapshot: while the snapshot is up to date, the zones it lists as
  faulted are exactly the configured zones whose binary sensor is on, in order; no zone is on and bypassed
  at once; and the door and window sensor of an area is on exactly when a faulted zone of the area is shown
  as a door or an opening.\<close>

theorem zone_entities_agree:
  assumes "hub_reachable h" and "cd_elk c = Some h" and "coordinator_data c = Inr (cd_data c)"
  shows "pd_zones_faulted (cd_data c) =
      filter (\<lambda>i. el_configured (elems h K_zone ! i) \<and> zone_is_on i c = Inr True) [0..<MAX_ZONES] \<and>
    (\<forall>i. \<exists>violated bypassed. zone_is_on i c = Inr violated \<and> bypass_is_on i c = Inr bypassed \<and> \<not> (violated \<and> bypassed)) \<and>
    (\<forall>area. openings_is_on area c = Inr
      (\<exists>i \<in> set (pd_zones_faulted (cd_data c)). get_attr (elems h K_zone ! i) ''area'' = V_int (int area) \<and>
        zone_device_class i c \<in> {Inr (Some DC_door), Inr (Some DC_opening)}))"
proof -
  let ?z = "\<lambda>i. elems h K_zone ! i"
  note shown = zones_shown [OF assms]
  have on: "i < MAX_ZONES \<Longrightarrow> zone_is_on i c = Inr (numeric_value (get_attr (?z i) ''logical_status'') = 2)" for i
    by (simp add: zone_is_on_def shown(1) typed_zone_reads(1) [OF shown(2)])
  have cls: "i < MAX_ZONES \<Longrightarrow> zone_device_class i c \<in> {Inr (Some DC_door), Inr (Some DC_opening)} \<longleftrightarrow>
      numeric_value (get_attr (?z i) ''definition'') \<in> set OPENING_DEFINITIONS" for i
    by (simp add: zone_device_class_def shown(1) typed_zone_reads(2) [OF shown(2)] opening_classes)
  have "openings_is_on area c = Inr (\<exists>i \<in> set (pd_zones_faulted (cd_data c)).
      get_attr (?z i) ''area'' = V_int (int area) \<and> zone_device_class i c \<in> {Inr (Some DC_door), Inr (Some DC_opening)})" for area
    unfolding openings_shown [OF assms(1) shown(3)] shown(4) using cls by (auto simp: opens_def)
  moreover have "pd_zones_faulted (cd_data c) =
      filter (\<lambda>i. el_configured (?z i) \<and> zone_is_on i c = Inr True) [0..<MAX_ZONES]"
    unfolding shown(4) by (rule filter_cong) (auto simp: on)
  moreover have "\<exists>violated bypassed. zone_is_on i c = Inr violated \<and> bypass_is_on i c = Inr bypassed \<and> \<not> (violated \<and> bypassed)" for i
    by (cases "i < MAX_ZONES") (auto simp: bypass_is_on_def shown(1) typed_zone_reads(1,3) [OF shown(2)] zone_is_on_def)
  ultimately show ?thesis by blast
qed

text \<open>A coordinator right after a refresh from a hub.\<close>

definition refreshed :: "hub \<Rightarrow> coordinator" where
  "refreshed h = (coordinator_init ''1234'' 0)
     \<lparr>cd_elk := Some h,
      cd_data := (case build_normalized_data h [] None None None of Inr d \<Rightarrow> d | Inl e \<Rightarrow> empty_panel_data)\<rparr>"

lemma refreshed_current:
  assumes "hub_reachable h"
  shows "cd_elk (refreshed h) = Some h" and "coordinator_data (refreshed h) = Inr (cd_data (refreshed h))"
proof -
  obtain d where "build_normalized_data h [] None None None = Inr d" by (rule build_ok [OF assms])
  then show "cd_elk (refreshed h) = Some h" "coordinator_data (refreshed h) = Inr (cd_data (refreshed h))"
    by (simp_all add: refreshed_def coordinator_data_def coordinator_init_def)
qed

theorem zone_entities_agree_witness:
  "openings_is_on 0 (refreshed (hub_init 0)) = Inr False"
proof -
  let ?c = "refreshed (hub_init 0)"
  note cur = refreshed_current [OF hub_start]
  have un: "\<not> el_configured (elems (hub_init 0) K_zone ! z)" if "z < MAX_ZONES" for z
    using that by (simp add: elems_def hub_init_def fold_attach_simps new_coll_def new_element_def)
  have "pd_zones_faulted (cd_data ?c) = []"
    using conjunct1 [OF zone_entities_agree [OF hub_start cur]] un by (auto simp: filter_empty_conv)
  then show ?thesis using zone_entities_agree [OF hub_start cur] by simp
qed

end
