(* ===== verification/Ha_Controls.thy ===== *)
theory Ha_Controls
  imports Ha_Entities
begin

text \<open>
  What a user can do to the panel through the integration: the switches, numbers, thermostats, lights,
  scenes and times (\<open>switch.py\<close>, \<open>number.py\<close>, \<open>climate.py\<close>, \<open>light.py\<close>, \<open>scene.py\<close>, \<open>time.py\<close>), the alarm
  entity's commands (\<open>alarm_control_panel.py\<close>) and the services (\<open>services.py\<close>). A command on an element
  the snapshot does not list does nothing; its result is then \<open>Inr False\<close>.
\<close>

section \<open>Python's numbers\<close>

text \<open>\<open>round()\<close>: to the nearest integer, a tie to the even one; \<open>ceil()\<close>.\<close>

definition py_round :: "rat \<Rightarrow> int" where
  "py_round r =
     (let f = \<lfloor>r\<rfloor>; d = r - of_int f
      in if d < 1 / 2 then f else if d > 1 / 2 then f + 1 else if even f then f else f + 1)"

section \<open>Switches\<close>

text \<open>\<open>if obj := self._get_obj(): ...\<close>.\<close>

definition when_listed :: "kind \<Rightarrow> nat \<Rightarrow> command \<Rightarrow> command" where
  "when_listed k i body c = (if i < pd_listed (cd_data c) k then body c else (c, Inr False))"

definition numbered_text :: "string \<Rightarrow> nat \<Rightarrow> string \<Rightarrow> string" where
  "numbered_text what i rest = what @ '' '' @ fmt_dec 1 (int i + 1) @ rest"

text \<open>The arm request is a switch of its own: it is what it was last set to.\<close>

definition arm_request_set :: "bool \<Rightarrow> bool \<Rightarrow> bool" where
  "arm_request_set new old = new"

definition output_is_on :: "nat \<Rightarrow> coordinator \<Rightarrow> bool" where
  "output_is_on i c =
     (case get_obj K_output i c of None \<Rightarrow> False | Some e \<Rightarrow> truthy (get_attr e ''output_on''))"

definition output_on :: "nat \<Rightarrow> command" where
  "output_on i = when_listed K_output i (queue_command (output_turn_on i 0) (numbered_text ''output'' i '' on''))"

definition output_off :: "nat \<Rightarrow> command" where
  "output_off i = when_listed K_output i (queue_command (output_turn_off i) (numbered_text ''output'' i '' off''))"

text \<open>A duration is a number of microseconds.\<close>

definition output_on_for :: "nat \<Rightarrow> int \<Rightarrow> command" where
  "output_on_for i duration =
     when_listed K_output i
       (queue_command (output_turn_on i \<lceil>of_int duration / 1000000 :: rat\<rceil>) (numbered_text ''output'' i '' timed on''))"

definition output_enabled_by_default :: "nat \<Rightarrow> bool" where
  "output_enabled_by_default i = (\<not> i \<ge> 64)"

definition is_thermostat_report :: "nat \<Rightarrow> payload \<Rightarrow> bool" where
  "is_thermostat_report i p =
     (case p of P_TR index mode hold fan current_temp heat cool humidity \<Rightarrow> index = int i | _ \<Rightarrow> False)"

text \<open>The commands to a thermostat all wait for its report.\<close>

definition set_thermostat ::
  "nat \<Rightarrow> thermostat_setting \<Rightarrow> thermostat_value \<Rightarrow> string \<Rightarrow> (string \<times> payload) list \<Rightarrow> command" where
  "set_thermostat i setting val what arrivals =
     confirm_command (thermostat_set i setting val) ''TR'' (numbered_text ''thermostat'' i what)
       (is_thermostat_report i) arrivals"

definition em_heat_name :: "nat \<Rightarrow> coordinator \<Rightarrow> string" where
  "em_heat_name i c = entity_name ''Thermostat'' K_thermostat i c @ '' Emergency Heat''"

definition em_heat_is_on :: "nat \<Rightarrow> coordinator \<Rightarrow> bool result" where
  "em_heat_is_on i c =
     (case get_obj K_thermostat i c of
        None \<Rightarrow> Inr False
      | Some e \<Rightarrow>
          bindr (enum_value_plain 0 (attr_or (V_int 0) e ''mode''))
            (\<lambda>m. Inr (m = thermostat_mode_value TMode_EMERGENCY_HEAT)))"

definition em_heat_on :: "nat \<Rightarrow> (string \<times> payload) list \<Rightarrow> command" where
  "em_heat_on i arrivals =
     when_listed K_thermostat i
       (set_thermostat i TSet_MODE (TV_mode TMode_EMERGENCY_HEAT) '' emergency heat on'' arrivals)"

definition em_heat_off :: "nat \<Rightarrow> (string \<times> payload) list \<Rightarrow> command" where
  "em_heat_off i arrivals =
     when_listed K_thermostat i
       (set_thermostat i TSet_MODE (TV_mode TMode_AUTO) '' emergency heat off'' arrivals)"

section \<open>Thermostats\<close>

datatype hvac_mode = HVAC_off | HVAC_heat | HVAC_cool | HVAC_heat_cool

primrec hvac_mode_to_elk :: "hvac_mode \<Rightarrow> thermostat_mode" where
  "hvac_mode_to_elk HVAC_off = TMode_OFF"
| "hvac_mode_to_elk HVAC_heat = TMode_HEAT"
| "hvac_mode_to_elk HVAC_cool = TMode_COOL"
| "hvac_mode_to_elk HVAC_heat_cool = TMode_AUTO"

primrec elk_mode_to_hvac :: "thermostat_mode \<Rightarrow> hvac_mode" where
  "elk_mode_to_hvac TMode_OFF = HVAC_off"
| "elk_mode_to_hvac TMode_HEAT = HVAC_heat"
| "elk_mode_to_hvac TMode_COOL = HVAC_cool"
| "elk_mode_to_hvac TMode_AUTO = HVAC_heat_cool"
| "elk_mode_to_hvac TMode_EMERGENCY_HEAT = HVAC_heat"

datatype ha_fan = HA_fan_auto | HA_fan_on

primrec fan_to_elk :: "ha_fan \<Rightarrow> thermostat_fan" where
  "fan_to_elk HA_fan_auto = TFan_AUTO"
| "fan_to_elk HA_fan_on = TFan_ON"

primrec elk_fan_to_ha :: "thermostat_fan \<Rightarrow> ha_fan" where
  "elk_fan_to_ha TFan_AUTO = HA_fan_auto"
| "elk_fan_to_ha TFan_ON = HA_fan_on"

text \<open>\<open>ThermostatMode(self._enum_value(obj.mode))\<close> and the look-up.\<close>

definition thermostat_hvac_mode :: "nat \<Rightarrow> coordinator \<Rightarrow> hvac_mode option result" where
  "thermostat_hvac_mode i c =
     (case get_obj K_thermostat i c of
        None \<Rightarrow> Inr None
      | Some e \<Rightarrow>
          if get_attr e ''mode'' = V_none then Inr None
          else bindr (enum_value_plain 0 (get_attr e ''mode'')) (\<lambda>n.
               bindr (enum_lookup thermostat_mode_members thermostat_mode_value n) (\<lambda>m.
               Inr (Some (elk_mode_to_hvac m)))))"

definition thermostat_fan_mode :: "nat \<Rightarrow> coordinator \<Rightarrow> ha_fan option result" where
  "thermostat_fan_mode i c =
     (case get_obj K_thermostat i c of
        None \<Rightarrow> Inr None
      | Some e \<Rightarrow>
          if get_attr e ''fan'' = V_none then Inr None
          else bindr (enum_value_plain 0 (get_attr e ''fan'')) (\<lambda>n.
               bindr (enum_lookup thermostat_fan_members thermostat_fan_value n) (\<lambda>m.
               Inr (Some (elk_fan_to_ha m)))))"

text \<open>\<open>float()\<close> of an attribute.\<close>

definition py_float :: "pyval \<Rightarrow> rat result" where
  "py_float v = of_option TypeError (numeric v)"

definition current_temperature :: "nat \<Rightarrow> coordinator \<Rightarrow> rat option result" where
  "current_temperature i c =
     (case get_obj K_thermostat i c of
        None \<Rightarrow> Inr None
      | Some e \<Rightarrow> bindr (py_float (get_attr e ''current_temp'')) (\<lambda>r. Inr (Some r)))"

text \<open>The setpoint of the attribute, when the mode is one of those given.\<close>

definition setpoint_in :: "hvac_mode list \<Rightarrow> (hvac_mode \<Rightarrow> string) \<Rightarrow> nat \<Rightarrow> coordinator \<Rightarrow> rat option result" where
  "setpoint_in modes attr i c =
     (case get_obj K_thermostat i c of
        None \<Rightarrow> Inr None
      | Some e \<Rightarrow>
          bindr (thermostat_hvac_mode i c) (\<lambda>mode.
            case mode of
              Some m \<Rightarrow> if m \<in> set modes then bindr (py_float (get_attr e (attr m))) (\<lambda>r. Inr (Some r)) else Inr None
            | None \<Rightarrow> Inr None))"

definition target_temperature :: "nat \<Rightarrow> coordinator \<Rightarrow> rat option result" where
  "target_temperature =
     setpoint_in [HVAC_heat, HVAC_cool] (\<lambda>m. if m = HVAC_heat then ''heat_setpoint'' else ''cool_setpoint'')"

definition target_temperature_high :: "nat \<Rightarrow> coordinator \<Rightarrow> rat option result" where
  "target_temperature_high = setpoint_in [HVAC_heat_cool] (\<lambda>_. ''cool_setpoint'')"

definition target_temperature_low :: "nat \<Rightarrow> coordinator \<Rightarrow> rat option result" where
  "target_temperature_low = setpoint_in [HVAC_heat_cool] (\<lambda>_. ''heat_setpoint'')"

definition set_hvac_mode :: "nat \<Rightarrow> hvac_mode \<Rightarrow> (string \<times> payload) list \<Rightarrow> command" where
  "set_hvac_mode i m arrivals =
     when_listed K_thermostat i
       (set_thermostat i TSet_MODE (TV_mode (hvac_mode_to_elk m)) '' mode change'' arrivals)"

definition set_fan_mode :: "nat \<Rightarrow> ha_fan \<Rightarrow> (string \<times> payload) list \<Rightarrow> command" where
  "set_fan_mode i f arrivals =
     when_listed K_thermostat i
       (set_thermostat i TSet_FAN (TV_fan (fan_to_elk f)) '' fan change'' arrivals)"

text \<open>
  A single temperature goes to the setpoint of the current mode; a range takes two commands, the second
  after the first has been confirmed. \<open>arrivals2\<close> is what arrives during the second.
\<close>

definition set_temperature ::
  "nat \<Rightarrow> rat option \<Rightarrow> rat option \<Rightarrow> rat option \<Rightarrow> (string \<times> payload) list \<Rightarrow> (string \<times> payload) list \<Rightarrow> command" where
  "set_temperature i temp low high arrivals arrivals2 =
     when_listed K_thermostat i (\<lambda>c.
       case temp of
         Some t \<Rightarrow>
           (case thermostat_hvac_mode i c of
              Inl e \<Rightarrow> (c, Inl (Uncaught e))
            | Inr mode \<Rightarrow>
                set_thermostat i (if mode = Some HVAC_heat then TSet_HEAT_SETPOINT else TSet_COOL_SETPOINT)
                  (TV_int (int_of_rat t)) '' setpoint change'' arrivals c)
       | None \<Rightarrow>
           (case (case low of
                    None \<Rightarrow> (c, Inr True)
                  | Some l \<Rightarrow> set_thermostat i TSet_HEAT_SETPOINT (TV_int (int_of_rat l)) '' heat setpoint change'' arrivals c) of
              (c, Inl e) \<Rightarrow> (c, Inl e)
            | (c, Inr _) \<Rightarrow>
                (case high of
                   None \<Rightarrow> (c, Inr True)
                 | Some h \<Rightarrow> set_thermostat i TSet_COOL_SETPOINT (TV_int (int_of_rat h)) '' cool setpoint change'' arrivals2 c)))"

section \<open>Numbers and times\<close>

definition is_counter_report :: "nat \<Rightarrow> (int \<Rightarrow> bool) \<Rightarrow> payload \<Rightarrow> bool" where
  "is_counter_report i ok p = (case p of P_CV counter value \<Rightarrow> counter = int i \<and> ok value | _ \<Rightarrow> False)"

definition counter_native_value :: "nat \<Rightarrow> coordinator \<Rightarrow> rat option result" where
  "counter_native_value i c =
     (case get_obj K_counter i c of
        None \<Rightarrow> Inr None
      | Some e \<Rightarrow>
          if get_attr e ''value'' = V_none then Inr None
          else bindr (py_float (get_attr e ''value'')) (\<lambda>r. Inr (Some r)))"

definition counter_set_command :: "nat \<Rightarrow> int \<Rightarrow> (string \<times> payload) list \<Rightarrow> command" where
  "counter_set_command i value arrivals =
     when_listed K_counter i
       (confirm_command (counter_set i value) ''CV'' (numbered_text ''counter'' i '' update'')
         (is_counter_report i (\<lambda>v. v = value)) arrivals)"

text \<open>\<open>async_set_native_value\<close> is given a float.\<close>

definition counter_set_native :: "nat \<Rightarrow> rat \<Rightarrow> (string \<times> payload) list \<Rightarrow> command" where
  "counter_set_native i value = counter_set_command i (int_of_rat value)"

definition counter_refresh :: "nat \<Rightarrow> (string \<times> payload) list \<Rightarrow> command" where
  "counter_refresh i arrivals =
     when_listed K_counter i
       (confirm_command (counter_get i) ''CV'' (numbered_text ''counter'' i '' refresh'')
         (is_counter_report i (\<lambda>_. True)) arrivals)"

definition is_setting_report :: "nat \<Rightarrow> setting_value \<Rightarrow> payload \<Rightarrow> bool" where
  "is_setting_report i expected p =
     (case p of
        P_CR values \<Rightarrow> list_ex (\<lambda>item. cvd_index item = int i \<and> cvd_value item = expected) values
      | _ \<Rightarrow> False)"

definition custom_value_native_value :: "nat \<Rightarrow> coordinator \<Rightarrow> rat option result" where
  "custom_value_native_value i c =
     (case get_obj K_setting i c of
        None \<Rightarrow> Inr None
      | Some e \<Rightarrow>
          (case get_attr e ''value'' of
             V_none \<Rightarrow> Inr None
           | V_hour_minute hr mi \<Rightarrow> Inr None
           | v \<Rightarrow> bindr (py_float v) (\<lambda>r. Inr (Some r))))"

definition custom_value_set :: "nat \<Rightarrow> rat \<Rightarrow> (string \<times> payload) list \<Rightarrow> command" where
  "custom_value_set i value arrivals =
     (let expected = Plain (int_of_rat value)
      in when_listed K_setting i
           (confirm_command (setting_set i expected) ''CR'' (numbered_text ''custom value'' i '' update'')
             (is_setting_report i expected) arrivals))"

text \<open>\<open>datetime.time(hour, minute)\<close> refuses what is no time of the day.\<close>

definition time_native_value :: "nat \<Rightarrow> coordinator \<Rightarrow> (int \<times> int) option result" where
  "time_native_value i c =
     (case get_obj K_setting i c of
        None \<Rightarrow> Inr None
      | Some e \<Rightarrow>
          (case get_attr e ''value'' of
             V_hour_minute hr mi \<Rightarrow>
               if 0 \<le> hr \<and> hr < 24 \<and> 0 \<le> mi \<and> mi < 60 then Inr (Some (hr, mi)) else Inl ValueError
           | _ \<Rightarrow> Inr None))"

definition time_set :: "nat \<Rightarrow> int \<Rightarrow> int \<Rightarrow> (string \<times> payload) list \<Rightarrow> command" where
  "time_set i hr mi arrivals =
     (let expected = Time_of_day hr mi
      in when_listed K_setting i
           (confirm_command (setting_set i expected) ''CR'' (numbered_text ''custom time'' i '' update'')
             (is_setting_report i expected) arrivals))"

section \<open>Lights and scenes\<close>

definition ELK_MAX_LEVEL :: int where "ELK_MAX_LEVEL = 100"
definition HA_MAX_BRIGHTNESS :: int where "HA_MAX_BRIGHTNESS = 255"

text \<open>The status of a light is always an integer.\<close>

definition light_status :: "element \<Rightarrow> int" where
  "light_status e = numeric_value (get_attr e ''status'')"

definition light_is_on :: "nat \<Rightarrow> coordinator \<Rightarrow> bool" where
  "light_is_on i c = (case get_obj K_light i c of None \<Rightarrow> False | Some e \<Rightarrow> light_status e > 0)"

definition shown_brightness :: "int \<Rightarrow> int" where
  "shown_brightness status =
     (if status \<le> 0 then 0
      else if status = 1 then HA_MAX_BRIGHTNESS
      else py_round (of_int (min status 99 * HA_MAX_BRIGHTNESS) / of_int ELK_MAX_LEVEL))"

definition light_brightness :: "nat \<Rightarrow> coordinator \<Rightarrow> int option" where
  "light_brightness i c = map_option (\<lambda>e. shown_brightness (light_status e)) (get_obj K_light i c)"

definition brightness_level :: "int \<Rightarrow> int" where
  "brightness_level brightness =
     max (py_round (of_int (brightness * ELK_MAX_LEVEL) / of_int HA_MAX_BRIGHTNESS)) 2"

definition light_turn_on :: "nat \<Rightarrow> int option \<Rightarrow> command" where
  "light_turn_on i brightness =
     when_listed K_light i
       (case brightness of
          Some b \<Rightarrow> queue_command (light_level i (brightness_level b) 0) ''lighting level change''
        | None \<Rightarrow> queue_command (light_level i ELK_MAX_LEVEL 0) ''lighting on'')"

definition light_turn_off :: "nat \<Rightarrow> command" where
  "light_turn_off i = when_listed K_light i (queue_command (light_level i 0 0) ''lighting off'')"

definition scene_activate :: "nat \<Rightarrow> command" where
  "scene_activate i =
     when_listed K_task i (queue_command (task_activate i) (numbered_text ''task'' i '' activation''))"

section \<open>The alarm entity\<close>

datatype entity_error =
    From_coordinator ha_error
  | Invalid_pin
  | Area_command_failed string nat py_error
  | Output_switch_only
  | Counter_only
  | Unknown_prefix string

type_synonym entity_command = "coordinator \<Rightarrow> coordinator \<times> (entity_error + bool)"

definition get_code_val :: "code_argument \<Rightarrow> entity_error + int" where
  "get_code_val code =
     (case code of
        No_code \<Rightarrow> Inr 0
      | Code_int n \<Rightarrow> Inr n
      | Code_text s \<Rightarrow>
          if s = [] then Inr 0
          else (case py_int 10 s of Inr n \<Rightarrow> Inr n | Inl e \<Rightarrow> Inl Invalid_pin))"

text \<open>\<open>_async_run_command\<close>: an error of Home Assistant passes, any other becomes one.\<close>

definition run_command :: "nat \<Rightarrow> string \<Rightarrow> command \<Rightarrow> entity_command" where
  "run_command area_index action_desc coro c =
     (case coro c of
        (c, Inr b) \<Rightarrow> (c, Inr b)
      | (c, Inl (Uncaught e)) \<Rightarrow> (c, Inl (Area_command_failed action_desc (area_index + 1) e))
      | (c, Inl e) \<Rightarrow> (c, Inl (From_coordinator e)))"

definition run_coded :: "nat \<Rightarrow> string \<Rightarrow> code_argument \<Rightarrow> (int \<Rightarrow> command) \<Rightarrow> entity_command" where
  "run_coded area_index action_desc code cmd c =
     (case get_code_val code of
        Inl e \<Rightarrow> (c, Inl e)
      | Inr n \<Rightarrow> run_command area_index action_desc (cmd n) c)"

datatype alarm_request =
    Disarm | Arm_home | Arm_away | Arm_night | Arm_vacation | Arm_custom_bypass | Trigger
  | Arm_home_instant | Arm_night_instant | Bypass | Force_arm_away | Force_arm_stay | Clear_bypass

definition alarm_entity_command ::
  "alarm_request \<Rightarrow> nat \<Rightarrow> code_argument \<Rightarrow> (string \<times> payload) list \<Rightarrow> entity_command" where
  "alarm_entity_command r i code arrivals =
     (case r of
        Disarm \<Rightarrow> run_coded i ''disarming'' code (\<lambda>n. alarm_disarm i n arrivals)
      | Arm_home \<Rightarrow> run_coded i ''arming home'' code (\<lambda>n. alarm_arm_home i n arrivals)
      | Arm_away \<Rightarrow> run_coded i ''arming away'' code (\<lambda>n. alarm_arm_away i n arrivals)
      | Arm_night \<Rightarrow> run_coded i ''arming night'' code (\<lambda>n. alarm_arm_night i n arrivals)
      | Arm_vacation \<Rightarrow> run_coded i ''arming vacation'' code (\<lambda>n. alarm_arm_vacation i n arrivals)
      | Arm_custom_bypass \<Rightarrow> run_coded i ''arming custom bypass'' code (\<lambda>n. alarm_arm_custom_bypass i n arrivals)
      | Trigger \<Rightarrow> (\<lambda>c. (c, Inl (From_coordinator Panic_not_supported)))
      | Arm_home_instant \<Rightarrow> run_coded i ''arming home instant'' code (\<lambda>n. alarm_arm_home_instant i n arrivals)
      | Arm_night_instant \<Rightarrow> run_coded i ''arming night instant'' code (\<lambda>n. alarm_arm_night_instant i n arrivals)
      | Bypass \<Rightarrow> run_command i ''bypassing'' (bypass_area i code arrivals)
      | Force_arm_away \<Rightarrow> run_coded i ''force arming away'' code (\<lambda>n. alarm_force_arm_away i n arrivals)
      | Force_arm_stay \<Rightarrow> run_coded i ''force arming stay'' code (\<lambda>n. alarm_force_arm_stay i n arrivals)
      | Clear_bypass \<Rightarrow> run_command i ''clearing bypass on'' (clear_bypass_area i code arrivals))"

section \<open>Brightness\<close>

lemma py_round_near: "\<bar>of_int (py_round r) - r\<bar> \<le> 1 / 2"
proof -
  have "of_int \<lfloor>r\<rfloor> \<le> r" "r < of_int \<lfloor>r\<rfloor> + 1" by linarith+
  then show ?thesis by (auto simp: py_round_def Let_def)
qed

lemma round_fraction:
  assumes "0 < n"
  shows "\<bar>2 * (n * py_round (of_int a / of_int n) - a)\<bar> \<le> n"
proof -
  let ?d = "of_int (py_round (of_int a / of_int n)) - of_int a / of_int n :: rat"
  have "of_int (2 * (n * py_round (of_int a / of_int n) - a)) = 2 * of_int n * ?d"
    using assms by (simp add: field_simps)
  then have "\<bar>of_int (2 * (n * py_round (of_int a / of_int n) - a)) :: rat\<bar> = 2 * of_int n * \<bar>?d\<bar>"
    using assms by (simp add: abs_mult)
  also have "\<dots> \<le> 2 * of_int n * (1 / 2)"
    using assms py_round_near by (intro mult_left_mono) simp_all
  finally have "of_int \<bar>2 * (n * py_round (of_int a / of_int n) - a)\<bar> \<le> (of_int n :: rat)" by simp
  then show ?thesis by (simp only: of_int_le_iff)
qed

text \<open>The status the panel reports for a light that was given a level: 1 when it is fully on.\<close>

definition status_after :: "int \<Rightarrow> int" where
  "status_after level = (if level \<le> 0 then 0 else if level \<ge> 98 then 1 else level)"

lemma level_near:
  obtains r where "brightness_level x = max r 2" and "510 * r \<le> 200 * x + 255" and "200 * x \<le> 510 * r + 255"
  using round_fraction [of 255 "x * 100"]
  by (intro that [of "py_round (of_int (x * 100) / of_int 255)"])
    (simp_all add: brightness_level_def ELK_MAX_LEVEL_def HA_MAX_BRIGHTNESS_def abs_le_iff)

lemma shown_near:
  assumes "2 \<le> l" and "l \<le> 99"
  shows "200 * shown_brightness l \<le> 510 * l + 100" and "510 * l \<le> 200 * shown_brightness l + 100"
  using round_fraction [of 100 "l * 255"] assms
  by (simp_all add: shown_brightness_def ELK_MAX_LEVEL_def HA_MAX_BRIGHTNESS_def min_def abs_le_iff)

lemma level_again:
  assumes "2 \<le> l" and "l \<le> 97"
  shows "brightness_level (shown_brightness l) = l"
proof -
  obtain r where r: "brightness_level (shown_brightness l) = max r 2" "510 * r \<le> 200 * shown_brightness l + 255"
    "200 * shown_brightness l \<le> 510 * r + 255" by (rule level_near)
  then have "r = l" using shown_near [of l] assms by linarith
  then show ?thesis using r(1) assms by simp
qed



section \<open>What a confirmed command leaves\<close>

lemma sound_sender:
  assumes "cd_elk c = Some h" and "hub_reachable h" and "keeps sizes_ok st" and "keeps registry_ok st"
  shows "elk_holds hub_sound (fst (on_elk st (add_waiting r c)))"
proof -
  have "elk_holds sizes_ok c" "elk_holds registry_ok c"
    using assms(1) hub_reachable_inv [OF assms(2)] by (simp_all add: elk_holds_def hub_inv_def)
  then show ?thesis
    unfolding elk_holds_sound using assms(3,4) by (auto intro: sizes.holds_sender registry.holds_sender)
qed

lemma keeps_counter_set: "keeps sizes_ok (counter_set i v)" "keeps registry_ok (counter_set i v)"
  using sizes.keeps_send registry.keeps_send by (auto simp: keeps_def counter_set_def)

lemma keeps_thermostat_set: "keeps sizes_ok (thermostat_set i e v)" "keeps registry_ok (thermostat_set i e v)"
  using sizes.keeps_send registry.keeps_send by (auto simp: keeps_def thermostat_set_def)

lemma hub_sound_nth: "hub_sound h \<Longrightarrow> j < max_elements k \<Longrightarrow> j < length (elems h k)"
  by (simp add: hub_sound_def sizes_ok_def)

lemma counter_report_sets:
  assumes "hub_sound h" and "i < MAX_COUNTERS"
  shows "numeric (get_attr (elems (notify ''CV'' (P_CV (int i) v) h) K_counter ! i) ''value'') = Some (of_int v)"
proof -
  have "notify ''CV'' (P_CV (int i) v) h = fst (cv_handler (int i) v h)"
    using assms(1) by (simp add: notify_one base_handlers_def registrations_def run_handler_def hub_sound_def)
  also have "\<dots> = map_elem K_counter i (set_attr ''value'' (V_int v) True) h"
    using hub_sound_nth [OF assms(1), of i K_counter] assms(2)
    by (simp add: cv_handler_def with_elem_nat elem_set_run)
  finally show ?thesis
    using hub_sound_nth [OF assms(1), of i K_counter] assms(2)
      get_attr_set_attr_same [of "''value''" "V_int v" True "elems h K_counter ! i"]
    by (simp add: elems_map_elem py_eq_def split: option.splits)
qed

lemma thermostat_report_sets:
  assumes "hub_sound h" and "i < MAX_THERMOSTATS"
  shows "get_attr (elems (notify ''TR'' (P_TR (int i) m hold fan cur heat cool hum) h) K_thermostat ! i) ''mode'' = V_tmode m"
proof -
  have len: "i < length (elems h K_thermostat)" using hub_sound_nth [OF assms(1), of i K_thermostat] assms(2) by simp
  have "notify ''TR'' (P_TR (int i) m hold fan cur heat cool hum) h = fst (tr_handler (int i) m hold fan cur heat cool hum h)"
    using assms(1) by (simp add: notify_one base_handlers_def registrations_def run_handler_def hub_sound_def)
  then show ?thesis using len
    by (simp add: tr_handler_def with_elem_nat elem_set_run elems_map_elem get_attr_set_attr_other get_attr_set_attr_exact)
qed

text \<open>From the first refresh on the snapshot lists every element of the hub.\<close>

definition lists_all :: "coordinator \<Rightarrow> bool" where
  "lists_all c = (elk_holds sizes_ok c \<and> (\<forall>k. pd_listed (cd_data c) k = max_elements k))"

lemma lists_push: "keeps lists_all push_update"
proof (rule keepsI)
  fix c
  assume c: "lists_all c"
  have "pd_listed d k = max_elements k" if "coordinator_data c = Inr d" for d k
    using that c build_lists(1) by (cases "cd_elk c") (auto simp: coordinator_data_def lists_all_def elk_holds_def sizes_ok_def)
  then show "lists_all (fst (push_update c))"
    using c by (auto simp: push_update_def eval_then_def update_st_def lists_all_def elk_holds_def split: sum.split)
qed

lemma lists_on_elk: "keeps sizes_ok st \<Longrightarrow> keeps lists_all (on_elk st)"
  by (auto simp: keeps_def on_elk_def elk_holds_def lists_all_def split: option.splits prod.splits)

lemma lists_handlers:
  "keeps lists_all (handle_user_code user keypad)" "keeps lists_all (handle_login b)"
  "keeps lists_all (handle_timer_event area is_exit t1 t2 armed)"
  "keeps lists_all (handle_log_event area entry)" "keeps lists_all (handle_alarm_memory bs)"
  "keeps lists_all (handle_trouble_status text)" "keeps lists_all (count_broadcast ty)"
  "keeps lists_all handle_disconnected"
  unfolding handle_user_code_def handle_login_def handle_timer_event_def handle_log_event_def
    handle_alarm_memory_def handle_trouble_status_def count_broadcast_def handle_disconnected_def Let_def
  by (intro keeps_seq_Nil keeps_seq_Cons keeps_when keeps_eval keeps_do lists_push;
      simp add: lists_all_def elk_holds_def fire_bus_def)+

lemma lists_integration:
  assumes "st \<in> set (integration_handlers ty p)"
  shows "keeps lists_all st"
  using assms lists_handlers lists_on_elk [OF sizes.keeps_all_lights] lists_on_elk [OF sizes.keeps_zone_definitions]
  by (cases p) (auto simp: integration_handlers_def message_handlers_def split: if_splits)

lemma lists_dispatch: "lists_all c \<Longrightarrow> lists_all (dispatch ty p c)"
  unfolding dispatch_def
  by (rule fold_keeps [where P = lists_all, OF lists_integration])
    (auto simp: lists_all_def elk_holds_def intro: sizes.P_notify)

lemma lists_await: "lists_all c \<Longrightarrow> lists_all (fst (await_match r pred arrivals c))"
  by (induction r pred arrivals c rule: await_match.induct) (simp_all add: Let_def lists_dispatch)

lemma lists_confirm:
  assumes "lists_all c" and "keeps sizes_ok sender" and "confirm_command sender r desc pred arrivals c = (c', x)"
  shows "lists_all c'"
proof -
  have waiting: "lists_all (add_waiting ty c) = lists_all c" "lists_all (remove_waiting ty c) = lists_all c"
    "lists_all (c\<lparr>cd_last_command_timeout := o1\<rparr>) = lists_all c" for ty c o1
    by (simp_all add: lists_all_def elk_holds_def add_waiting_def remove_waiting_def)
  obtain c1 e where c1: "on_elk sender (add_waiting r c) = (c1, e)" by fastforce
  then have l1: "lists_all c1"
    using keepsD [OF lists_on_elk [OF assms(2)], of "add_waiting r c"] assms(1) by (simp add: waiting)
  obtain c2 b where c2: "await_match r pred arrivals c1 = (c2, b)" by fastforce
  then have l2: "lists_all c2" using lists_await [OF l1, of r pred arrivals] by simp
  show ?thesis
    using assms(1,3) c1 c2 l1 l2
    by (auto simp: confirm_command_def waiting split: option.splits bool.splits)
qed

text \<open>C36. A counter that was set is the value asked for: when the command is reported as done, the number
  entity shows the number that was written, as the panel reported it.\<close>

theorem counter_set_confirmed:
  assumes "cd_elk c = Some h" and "hub_reachable h" and "\<forall>k. pd_listed (cd_data c) k = max_elements k"
    and "counter_set_command i v arrivals c = (c', Inr True)"
  shows "counter_native_value i c' = Inr (Some (of_int v))"
proof -
  have i: "i < MAX_COUNTERS" and cmd: "confirm_command (counter_set i v) ''CV''
      (numbered_text ''counter'' i '' update'') (is_counter_report i (\<lambda>x. x = v)) arrivals c = (c', Inr True)"
    using assms(3,4) by (auto simp: counter_set_command_def when_listed_def split: if_splits)
  have "lists_all c" using assms(1-3) hub_reachable_inv by (simp add: lists_all_def elk_holds_def hub_inv_def)
  then have l: "lists_all c'" by (rule lists_confirm [OF _ keeps_counter_set(1) cmd])
  obtain p c1 h1 where p: "is_counter_report i (\<lambda>x. x = v) p" "cd_elk c1 = Some h1" "hub_sound h1"
    "cd_elk c' = cd_elk (dispatch ''CV'' p c1)"
    using confirmed_last [OF cmd assms(1) sound_sender [OF assms(1,2) keeps_counter_set]] by (elim exE conjE) (rule that)
  then have "p = P_CV (int i) v" by (cases p) (auto simp: is_counter_report_def)
  then have "get_obj K_counter i c' = Some (elems (notify ''CV'' (P_CV (int i) v) h1) K_counter ! i)"
    using p(2,4) l i by (simp add: get_obj_def lists_all_def dispatch_plain integration_handlers_def message_handlers_def)
  moreover have num: "numeric (get_attr (elems (notify ''CV'' (P_CV (int i) v) h1) K_counter ! i) ''value'') = Some (of_int v)"
    by (rule counter_report_sets [OF p(3) i])
  moreover have "get_attr (elems (notify ''CV'' (P_CV (int i) v) h1) K_counter ! i) ''value'' \<noteq> V_none"
    using num by auto
  ultimately show ?thesis by (simp add: counter_native_value_def py_float_def)
qed

text \<open>A thermostat's mode: when a change of the mode is reported as done, the thermostat is in the mode of
  a report about it that arrived in time; so if all of these carry the mode that was asked for, the mode
  Home Assistant shows is the requested one.\<close>

theorem hvac_mode_confirmed:
  assumes "cd_elk c = Some h" and "hub_reachable h" and "\<forall>k. pd_listed (cd_data c) k = max_elements k"
    and "set_hvac_mode i m arrivals c = (c', Inr True)"
  shows "\<exists>mode hold fan cur heat cool hum.
    (''TR'', P_TR (int i) mode hold fan cur heat cool hum) \<in> set arrivals \<and>
    thermostat_hvac_mode i c' = Inr (Some (elk_mode_to_hvac mode)) \<and>
    (mode = hvac_mode_to_elk m \<longrightarrow> thermostat_hvac_mode i c' = Inr (Some m))"
proof -
  have i: "i < MAX_THERMOSTATS" and cmd: "confirm_command (thermostat_set i TSet_MODE (TV_mode (hvac_mode_to_elk m))) ''TR''
      (numbered_text ''thermostat'' i '' mode change'') (is_thermostat_report i) arrivals c = (c', Inr True)"
    using assms(3,4) by (auto simp: set_hvac_mode_def set_thermostat_def when_listed_def split: if_splits)
  have "lists_all c" using assms(1-3) hub_reachable_inv by (simp add: lists_all_def elk_holds_def hub_inv_def)
  then have l: "lists_all c'" by (rule lists_confirm [OF _ keeps_thermostat_set(1) cmd])
  obtain p c1 h1 where p: "(''TR'', p) \<in> set arrivals" "is_thermostat_report i p" "cd_elk c1 = Some h1" "hub_sound h1"
    "cd_elk c' = cd_elk (dispatch ''TR'' p c1)"
    using confirmed_last [OF cmd assms(1) sound_sender [OF assms(1,2) keeps_thermostat_set]] by (elim exE conjE) (rule that)
  then obtain mode hold fan cur heat cool hum where tr: "p = P_TR (int i) mode hold fan cur heat cool hum"
    by (cases p) (auto simp: is_thermostat_report_def)
  have "get_obj K_thermostat i c' = Some (elems (notify ''TR'' p h1) K_thermostat ! i)"
    using p(3,5) l i unfolding tr
    by (simp add: get_obj_def lists_all_def dispatch_plain integration_handlers_def message_handlers_def)
  moreover have "get_attr (elems (notify ''TR'' p h1) K_thermostat ! i) ''mode'' = V_tmode mode"
    unfolding tr by (rule thermostat_report_sets [OF p(4) i])
  ultimately have "thermostat_hvac_mode i c' = Inr (Some (elk_mode_to_hvac mode))"
    by (cases mode) (simp_all add: thermostat_hvac_mode_def enum_value_plain_def int_of_rat_def enum_lookup_def
        thermostat_mode_members_def)
  moreover have "elk_mode_to_hvac (hvac_mode_to_elk m) = m" by (cases m) simp_all
  ultimately show ?thesis using p(1) unfolding tr by metis
qed

section \<open>At concrete inputs\<close>

text \<open>A hub with an open connection, as a coordinator has it after a refresh.\<close>

definition open_hub :: hub where
  "open_hub = (hub_init 0)\<lparr>hb_conn := transport_open connection_init\<rparr>"

lemma open_hub_ok: "hub_reachable open_hub"
  using hub_next [OF hub_start on_connection [OF step_open]]
  by (simp add: open_hub_def hub_init_def fold_attach_simps connection_init_def)

lemma open_hub_sends: "hub_send m p open_hub =
    (open_hub\<lparr>hb_conn := queue_write \<lparr>qw_msg = me_message m, qw_response_cmd = me_response_command m\<rparr> p
      (transport_open connection_init)\<rparr>, None)"
  by (simp add: open_hub_def idle_sends)

lemma open_coordinator:
  "cd_elk (refreshed open_hub) = Some open_hub" "\<forall>k. pd_listed (cd_data (refreshed open_hub)) k = max_elements k"
  "ensure_command_ready (refreshed open_hub) = None"
proof -
  show c: "cd_elk (refreshed open_hub) = Some open_hub" by (rule refreshed_current(1) [OF open_hub_ok])
  show "\<forall>k. pd_listed (cd_data (refreshed open_hub)) k = max_elements k"
    using snapshot_lists(1) [OF refreshed_current [OF open_hub_ok]] hub_reachable_inv [OF open_hub_ok]
    by (simp add: hub_inv_def sizes_ok_def)
  show "ensure_command_ready (refreshed open_hub) = None"
    by (simp add: ensure_command_ready_def c) (simp add: open_hub_def transport_open_def connection_init_def)
qed

lemma confirm_at_once:
  assumes "snd (sender open_hub) = None" and "pred p"
  shows "\<exists>c'. confirm_command sender r desc pred [(r, p)] (refreshed open_hub) = (c', Inr True)"
  using assms open_coordinator
  by (auto simp: confirm_command_def on_elk_def add_waiting_def Let_def split: prod.split)

theorem counter_set_confirmed_witness:
  "\<exists>c'. counter_set_command 4 77 [(''CV'', P_CV 4 77)] (refreshed open_hub) = (c', Inr True) \<and>
    counter_native_value 4 c' = Inr (Some 77)"
proof -
  have "\<exists>c'. confirm_command (counter_set 4 77) ''CV'' (numbered_text ''counter'' 4 '' update'')
      (is_counter_report 4 (\<lambda>v. v = 77)) [(''CV'', P_CV 4 77)] (refreshed open_hub) = (c', Inr True)"
    by (rule confirm_at_once) (simp_all add: counter_set_def open_hub_sends is_counter_report_def)
  then obtain c' where c: "counter_set_command 4 77 [(''CV'', P_CV 4 77)] (refreshed open_hub) = (c', Inr True)"
    using open_coordinator(2) by (auto simp: counter_set_command_def when_listed_def MAX_COUNTERS_def)
  show ?thesis
    using counter_set_confirmed [OF open_coordinator(1) open_hub_ok open_coordinator(2) c] c by auto
qed

text \<open>Any report about the thermostat confirms a command to it, also one that shows another mode.\<close>

lemma any_report_confirms:
  "\<exists>c'. set_hvac_mode 1 HVAC_cool [(''TR'', P_TR 1 mode False TFan_AUTO 70 60 75 40)] (refreshed open_hub) =
    (c', Inr True)"
proof -
  have "\<exists>c'. confirm_command (thermostat_set 1 TSet_MODE (TV_mode (hvac_mode_to_elk HVAC_cool))) ''TR''
      (numbered_text ''thermostat'' 1 '' mode change'') (is_thermostat_report 1)
      [(''TR'', P_TR 1 mode False TFan_AUTO 70 60 75 40)] (refreshed open_hub) = (c', Inr True)"
    by (rule confirm_at_once) (simp_all add: thermostat_set_def open_hub_sends is_thermostat_report_def)
  then show ?thesis
    using open_coordinator(2)
    by (auto simp: set_hvac_mode_def set_thermostat_def when_listed_def MAX_THERMOSTATS_def)
qed

theorem hvac_mode_confirmed_witness:
  "\<exists>c'. set_hvac_mode 1 HVAC_cool [(''TR'', P_TR 1 TMode_COOL False TFan_AUTO 70 60 75 40)] (refreshed open_hub) = (c', Inr True) \<and>
    thermostat_hvac_mode 1 c' = Inr (Some HVAC_cool)"
proof -
  obtain c' where c: "set_hvac_mode 1 HVAC_cool [(''TR'', P_TR 1 TMode_COOL False TFan_AUTO 70 60 75 40)]
      (refreshed open_hub) = (c', Inr True)" using any_report_confirms by blast
  show ?thesis
    using hvac_mode_confirmed [OF open_coordinator(1) open_hub_ok open_coordinator(2) c] c by auto
qed

section \<open>What goes wrong\<close>

lemma thermostat_confirmation_is_weak:
  "\<exists>c'. set_hvac_mode 1 HVAC_cool [(''TR'', P_TR 1 TMode_OFF False TFan_AUTO 70 60 75 40)] (refreshed open_hub) =
    (c', Inr True)"
  by (rule any_report_confirms)

text \<open>The code zero, which the services' schema accepts, is the stored PIN: so are a missing code and, for the
  arming commands, a negative one.\<close>

lemma code_zero_is_the_stored_pin:
  "bypass_zone n (Code_int 0) arrivals c = bypass_zone n No_code arrivals c"
  "bypass_area i (Code_int 0) arrivals c = bypass_area i No_code arrivals c"
  "alarm_entity_command Disarm i (Code_text ''0'') arrivals c = alarm_entity_command Disarm i No_code arrivals c"
proof -
  have "py_int 10 ''0'' = Inr 0" by (rule int_of_digit(1))
  then show "alarm_entity_command Disarm i (Code_text ''0'') arrivals c = alarm_entity_command Disarm i No_code arrivals c"
    by (simp add: alarm_entity_command_def run_coded_def get_code_val_def)
qed (simp_all add: bypass_zone_def bypass_area_def active_pin_text_def)

end
