(* ===== verification/Ha_Services.thy ===== *)
theory Ha_Services
  imports Ha_Controls
begin

text \<open>
  The registered services of the integration (\<open>services.py\<close>, with the schemas of \<open>const.py\<close>) and its device
  actions (\<open>device_action.py\<close>). A service reaches an entity or the coordinator with the configured prefix;
  what its schema refuses never reaches the code. The schema is a predicate on the values it has coerced.
\<close>

section \<open>Schemas\<close>

definition user_code_schema :: "int \<Rightarrow> bool" where "user_code_schema code = (0 \<le> code \<and> code \<le> 999999)"
definition counter_set_schema :: "int \<Rightarrow> bool" where "counter_set_schema v = (0 \<le> v \<and> v \<le> 65535)"

text \<open>A duration in microseconds, from one second to 65535.\<close>

definition turn_on_for_schema :: "int \<Rightarrow> bool" where
  "turn_on_for_schema d = (1 * 1000000 \<le> d \<and> d \<le> 65535 * 1000000)"

definition speak_schema :: "int \<Rightarrow> bool" where "speak_schema n = (0 \<le> n \<and> n \<le> 999)"

record display_request =
  dr_area :: int
  dr_line1 :: string
  dr_line2 :: string
  dr_beep :: bool
  dr_clear :: int
  dr_timeout :: int

definition default_display :: display_request where
  "default_display =
     \<lparr>dr_area = 1, dr_line1 = [], dr_line2 = [], dr_beep = False, dr_clear = 1, dr_timeout = 0\<rparr>"

definition display_schema :: "display_request \<Rightarrow> bool" where
  "display_schema d =
     (1 \<le> dr_area d \<and> dr_area d \<le> 8 \<and> length (dr_line1 d) \<le> 16 \<and> length (dr_line2 d) \<le> 16 \<and>
      0 \<le> dr_clear d \<and> dr_clear d \<le> 2 \<and> 0 \<le> dr_timeout d \<and> dr_timeout d \<le> 65535)"

section \<open>Finding the coordinator\<close>

text \<open>
  The config entries of the integration, in Home Assistant's order: the prefix of an entry's runtime data
  with its coordinator, nothing for an entry that has none.
\<close>

type_synonym 'c entries = "(string \<times> 'c) option list"

fun find_coordinator_by_prefix :: "string \<Rightarrow> 'c entries \<Rightarrow> nat option" where
  "find_coordinator_by_prefix prefix [] = None"
| "find_coordinator_by_prefix prefix (entry # entries) =
     (case entry of
        Some (p, coordinator) \<Rightarrow>
          if p = prefix then Some 0 else map_option Suc (find_coordinator_by_prefix prefix entries)
      | None \<Rightarrow> map_option Suc (find_coordinator_by_prefix prefix entries))"

text \<open>A service on the coordinator of a prefix; the others stay as they are.\<close>

definition on_coordinator ::
  "string \<Rightarrow> command \<Rightarrow> coordinator entries \<Rightarrow> coordinator entries \<times> (entity_error + bool)" where
  "on_coordinator prefix cmd entries =
     (case find_coordinator_by_prefix prefix entries of
        None \<Rightarrow> (entries, Inl (Unknown_prefix prefix))
      | Some k \<Rightarrow>
          (case entries ! k of
             None \<Rightarrow> (entries, Inl (Unknown_prefix prefix))
           | Some (p, c) \<Rightarrow>
               (case cmd c of (c', r) \<Rightarrow> (entries[k := Some (p, c')], map_sum From_coordinator id r))))"

definition speak_word_service where
  "speak_word_service prefix number = on_coordinator prefix (coordinator_speak_word number)"

definition speak_phrase_service where
  "speak_phrase_service prefix number = on_coordinator prefix (coordinator_speak_phrase number)"

definition set_time_service where
  "set_time_service prefix now second arrivals = on_coordinator prefix (set_panel_time now second arrivals)"

definition display_message_service where
  "display_message_service prefix d =
     on_coordinator prefix
       (coordinator_display_message (nat (dr_area d - 1)) (dr_line1 d) (dr_line2 d) (dr_beep d) (dr_clear d) (dr_timeout d))"

definition programming_session_start :: "string \<Rightarrow> string \<Rightarrow> string \<Rightarrow> int \<Rightarrow> tracker \<Rightarrow> tracker" where
  "programming_session_start source user purpose now = async_claim source user purpose now"

definition programming_session_end :: "string \<Rightarrow> string \<Rightarrow> int \<Rightarrow> tracker \<Rightarrow> tracker" where
  "programming_session_end source user now = async_end source user now"

section \<open>The security summary\<close>

record security_summary =
  ss_total_faulted :: nat
  ss_is_ready_to_arm :: bool
  ss_faulted_zone_numbers :: "nat list"

definition security_summary_of :: "panel_data \<Rightarrow> security_summary" where
  "security_summary_of d =
     (let faulted_zones = map (\<lambda>idx. idx + 1) (pd_zones_faulted d)
      in \<lparr>ss_total_faulted = length faulted_zones,
          ss_is_ready_to_arm = list_all (\<lambda>(i, area). ad_arm_up_state area \<in> {1, 2}) (pd_areas d),
          ss_faulted_zone_numbers = faulted_zones\<rparr>)"

definition get_security_summary :: "string \<Rightarrow> coordinator entries \<Rightarrow> entity_error + security_summary" where
  "get_security_summary prefix entries =
     (case find_coordinator_by_prefix prefix entries of
        None \<Rightarrow> Inl (Unknown_prefix prefix)
      | Some k \<Rightarrow>
          (case entries ! k of
             None \<Rightarrow> Inl (Unknown_prefix prefix)
           | Some (p, c) \<Rightarrow> Inr (security_summary_of (cd_data c))))"

section \<open>The entity services\<close>

datatype entity_service =
    Sv_alarm alarm_request code_argument
  | Sv_counter_refresh | Sv_counter_set int
  | Sv_zone_bypass code_argument | Sv_zone_trigger
  | Sv_turn_on_for int

text \<open>Which entities a service is registered for: those of a platform, and the two services of sensors.\<close>

definition registered :: "entity_service \<Rightarrow> platform list" where
  "registered s =
     (case s of
        Sv_alarm r code \<Rightarrow> [On_alarm_control_panel]
      | Sv_counter_refresh \<Rightarrow> [On_number]
      | Sv_counter_set v \<Rightarrow> [On_number]
      | Sv_zone_bypass code \<Rightarrow> [On_sensor, On_binary_sensor]
      | Sv_zone_trigger \<Rightarrow> [On_sensor]
      | Sv_turn_on_for d \<Rightarrow> [On_switch])"

text \<open>The services that are registered with a code have the schema of a number.\<close>

definition service_schema :: "entity_service \<Rightarrow> bool" where
  "service_schema s =
     (case s of
        Sv_alarm r code \<Rightarrow>
          r \<in> {Bypass, Clear_bypass, Arm_home_instant, Arm_night_instant, Force_arm_away, Force_arm_stay} \<and>
          (\<exists>n. code = Code_int n \<and> user_code_schema n)
      | Sv_counter_set v \<Rightarrow> counter_set_schema v
      | Sv_zone_bypass code \<Rightarrow> \<exists>n. code = Code_int n \<and> user_code_schema n
      | Sv_turn_on_for d \<Rightarrow> turn_on_for_schema d
      | _ \<Rightarrow> True)"

definition as_entity :: "command \<Rightarrow> entity_command" where
  "as_entity cmd c = (case cmd c of (c, r) \<Rightarrow> (c, map_sum From_coordinator id r))"

text \<open>
  The method a service calls on an entity; \<open>None\<close> is an entity of the platform without the method, where
  the call raises \<open>AttributeError\<close>.
\<close>

definition call_entity_service ::
  "entity_service \<Rightarrow> elk_entity \<Rightarrow> (string \<times> payload) list \<Rightarrow> entity_command option" where
  "call_entity_service s e arrivals =
     (case (s, e) of
        (Sv_alarm r code, E_alarm i) \<Rightarrow> Some (alarm_entity_command r i code arrivals)
      | (Sv_counter_refresh, E_counter i) \<Rightarrow> Some (as_entity (counter_refresh i arrivals))
      | (Sv_counter_refresh, E_custom_value i) \<Rightarrow> Some (\<lambda>c. (c, Inl Counter_only))
      | (Sv_counter_set v, E_counter i) \<Rightarrow> Some (as_entity (counter_set_command i v arrivals))
      | (Sv_counter_set v, E_custom_value i) \<Rightarrow> Some (\<lambda>c. (c, Inl Counter_only))
      | (Sv_zone_bypass code, E_zone i) \<Rightarrow> Some (as_entity (bypass_zone (int i + 1) code arrivals))
      | (Sv_zone_bypass code, E_zone_sensor i) \<Rightarrow> Some (as_entity (bypass_zone (int i + 1) code arrivals))
      | (Sv_zone_trigger, E_zone_sensor i) \<Rightarrow> Some (as_entity (trigger_zone (int i + 1)))
      | (Sv_turn_on_for d, E_output i) \<Rightarrow> Some (as_entity (output_on_for i d))
      | (Sv_turn_on_for d, E_em_heat i) \<Rightarrow> Some (\<lambda>c. (c, Inl Output_switch_only))
      | _ \<Rightarrow> None)"

section \<open>Device actions\<close>

datatype device_action = Action_speak_phrase "int option" | Action_display_message "string option"

datatype service_call = Call_speak_phrase "int option" | Call_display_message string

definition call_action_from_config :: "device_action \<Rightarrow> service_call" where
  "call_action_from_config a =
     (case a of
        Action_speak_phrase phrase_number \<Rightarrow> Call_speak_phrase phrase_number
      | Action_display_message line1 \<Rightarrow> Call_display_message (case line1 of Some s \<Rightarrow> s | None \<Rightarrow> []))"

text \<open>The call runs with the default prefix; a missing phrase number is no number for the schema.\<close>

definition run_service_call ::
  "service_call \<Rightarrow> coordinator entries \<Rightarrow> (coordinator entries \<times> (entity_error + bool)) option" where
  "run_service_call call entries =
     (case call of
        Call_speak_phrase None \<Rightarrow> None
      | Call_speak_phrase (Some n) \<Rightarrow> if speak_schema n then Some (speak_phrase_service [] n entries) else None
      | Call_display_message line1 \<Rightarrow>
          (let d = default_display\<lparr>dr_line1 := line1\<rparr>
           in if display_schema d then Some (display_message_service [] d entries) else None))"

section \<open>The summary of a prefix\<close>

lemma find_first:
  assumes "\<forall>e \<in> set before. \<forall>p d. e = Some (p, d) \<longrightarrow> p \<noteq> prefix"
  shows "find_coordinator_by_prefix prefix (before @ Some (prefix, c) # rest) = Some (length before)"
  using assms by (induction before) (auto split: option.splits)

lemma every_area:
  assumes "mapr (\<lambda>a. bindr (f a) (\<lambda>d. Inr (g a, d))) xs = Inr ys"
  shows "list_all (\<lambda>(i, d). P d) ys \<longleftrightarrow> (\<forall>a \<in> set xs. \<forall>d. f a = Inr d \<longrightarrow> P d)"
  using assms by (induction xs arbitrary: ys) (auto simp: bindr_eq_Inr)

lemma area_snapshot_up: "area_snapshot a = Inr d \<Longrightarrow> ad_arm_up_state d = numeric_value (get_attr a ''arm_up_state'')"
  by (auto simp: area_snapshot_def Let_def bindr_eq_Inr)

lemma ready_area:
  assumes "element_typed (attr_tests K_area) a"
  shows "(\<forall>d. area_snapshot a = Inr d \<longrightarrow> ad_arm_up_state d \<in> {1, 2}) \<longleftrightarrow>
    arm_up_of a \<in> {Some ArmUp_READY_TO_ARM, Some ArmUp_CAN_BE_FORCE_ARMED}"
proof -
  have up: "get_attr a ''arm_up_state'' = (case arm_up_of a of None \<Rightarrow> V_none | Some s \<Rightarrow> V_arm_up s)"
    using typed_area [OF assms] by blast
  obtain d where d: "area_snapshot a = Inr d" by (rule area_snapshot_typed [OF assms])
  have "ad_arm_up_state d \<in> {1, 2} \<longleftrightarrow> arm_up_of a \<in> {Some ArmUp_READY_TO_ARM, Some ArmUp_CAN_BE_FORCE_ARMED}"
    unfolding area_snapshot_up [OF d] up by (cases "arm_up_of a") (auto simp: numeric_arm_up split: arm_up_state.split)
  then show ?thesis using d by simp
qed

text \<open>C37. The security summary: for the first entry with the prefix, the summary has the numbers, counted
  from one, of exactly the configured violated zones of its hub in ascending order with their count, and is
  ready to arm exactly when every configured area reports that it is ready or can be force armed.\<close>

theorem security_summary_correct:
  assumes "hub_reachable h" and "cd_elk c = Some h" and "coordinator_data c = Inr (cd_data c)"
    and "\<forall>e \<in> set before. \<forall>p d. e = Some (p, d) \<longrightarrow> p \<noteq> prefix"
  shows "get_security_summary prefix (before @ Some (prefix, c) # rest) = Inr
    \<lparr>ss_total_faulted = length (pd_zones_faulted (cd_data c)),
     ss_is_ready_to_arm = (\<forall>a \<in> set (configured_areas (elems h K_area)).
        arm_up_of a \<in> {Some ArmUp_READY_TO_ARM, Some ArmUp_CAN_BE_FORCE_ARMED}),
     ss_faulted_zone_numbers = map Suc (filter (\<lambda>z. el_configured (elems h K_zone ! z) \<and>
        get_attr (elems h K_zone ! z) ''logical_status'' = V_logical ZL_VIOLATED) [0..<208])\<rparr>"
proof -
  have b: "build_normalized_data h (cd_raw_trouble_status c) (cd_last_user c) (cd_last_keypad c) (cd_last_user_time c) =
      Inr (cd_data c)" using assms(2,3) by (simp add: coordinator_data_def)
  obtain as where as: "mapr (\<lambda>a. bindr (area_snapshot a) (\<lambda>d. Inr (el_index a, d))) (configured_areas (elems h K_area)) = Inr as"
    "pd_areas (cd_data c) = as" "pd_zones_faulted (cd_data c) = map el_index (zones_with_status 2 h)"
    by (rule build_parts [OF b])
  have "list_all (\<lambda>(i, area). ad_arm_up_state area \<in> {1, 2}) as \<longleftrightarrow>
      (\<forall>a \<in> set (configured_areas (elems h K_area)). \<forall>d. area_snapshot a = Inr d \<longrightarrow> ad_arm_up_state d \<in> {1, 2})"
    by (rule every_area [OF as(1)])
  also have "\<dots> \<longleftrightarrow> (\<forall>a \<in> set (configured_areas (elems h K_area)).
        arm_up_of a \<in> {Some ArmUp_READY_TO_ARM, Some ArmUp_CAN_BE_FORCE_ARMED})"
    by (rule ball_cong [OF refl], rule ready_area, rule reachable_typed [OF assms(1)], erule configured_areas_sub)
  finally have ready: "list_all (\<lambda>(i, area). ad_arm_up_state area \<in> {1, 2}) as \<longleftrightarrow> (\<forall>a \<in> set (configured_areas (elems h K_area)).
        arm_up_of a \<in> {Some ArmUp_READY_TO_ARM, Some ArmUp_CAN_BE_FORCE_ARMED})" .
  obtain numbers where n: "numbers = filter (\<lambda>z. el_configured (elems h K_zone ! z) \<and>
        get_attr (elems h K_zone ! z) ''logical_status'' = V_logical ZL_VIOLATED) [0..<208]" by blast
  have "pd_zones_faulted (cd_data c) = numbers" unfolding as(3) n by (rule faulted_zones [OF assms(1)])
  then show ?thesis
    unfolding get_security_summary_def find_first [OF assms(4)] n [symmetric]
    by (simp add: nth_append security_summary_of_def Let_def as(2) ready del: insert_iff)
qed

theorem security_summary_correct_witness:
  "\<exists>s. get_security_summary ''house'' [None, Some (''shed'', refreshed (hub_init 0)), Some (''house'', refreshed (hub_init 0))] = Inr s \<and>
    \<not> ss_is_ready_to_arm s"
proof -
  let ?c = "refreshed (hub_init 0)" and ?a = "elems (hub_init 0) K_area ! 0"
  have el: "elems (hub_init 0) K_area =
      map (\<lambda>i. new_element i ((''name'', V_str (default_name K_area i)) # area_attrs)) [0..<8]"
    by (simp add: elems_def hub_init_def fold_attach_simps new_coll_def class_attrs_def MAX_AREAS_def)
  have "configured_areas (elems (hub_init 0) K_area) = [?a]"
    unfolding el by (simp add: configured_areas_def new_element_def upt_rec filter_empty_conv)
  moreover have "arm_up_of ?a = None"
    unfolding el by (simp add: new_element_def arm_up_of_def get_attr_def area_attrs_def)
  ultimately show ?thesis
    using security_summary_correct [OF hub_start refreshed_current [OF hub_start],
        where before = "[None, Some (''shed'', ?c)]" and prefix = "''house''" and rest = "[]", of 0]
    by (simp del: upt_rec_numeral)
qed

section \<open>What the schemas grant the panel\<close>

text \<open>Whatever a schema lets pass fits the request that carries it.\<close>

lemma coded_requests_fit:
  assumes "user_code_schema code"
  shows "0 \<le> area \<Longrightarrow> area < 8 \<Longrightarrow>
      well_formed_request [CHR ''a'', arm_level_value level] 15 (me_message (al_encode level area code))"
    and "0 \<le> zone \<Longrightarrow> zone < 208 \<Longrightarrow> well_formed_request ''zb'' 18 (me_message (zb_encode zone 0 code))"
proof -
  have c: "0 \<le> code" "code < 1000000" using assms by (simp_all add: user_code_schema_def)
  show "0 \<le> area \<Longrightarrow> area < 8 \<Longrightarrow>
      well_formed_request [CHR ''a'', arm_level_value level] 15 (me_message (al_encode level area code))"
    using requests_well_formed [of area code 0 0 0 0 0 0 0 0 0 0 0 0 0] c by simp
  show "0 \<le> zone \<Longrightarrow> zone < 208 \<Longrightarrow> well_formed_request ''zb'' 18 (me_message (zb_encode zone 0 code))"
    using requests_well_formed [of 0 code zone 0 0 0 0 0 0 0 0 0 0 0 0] c by simp
qed

lemma counter_request_fits:
  "counter_set_schema v \<Longrightarrow> 0 \<le> counter \<Longrightarrow> counter < 64 \<Longrightarrow> well_formed_request ''cx'' 15 (me_message (cx_encode counter v))"
  using requests_well_formed [of 0 0 0 0 0 counter v 0 0 0 0 0 0 0 0] by (simp add: counter_set_schema_def)

lemma speak_request_fits:
  "speak_schema n \<Longrightarrow> well_formed_request ''sw'' 11 (me_message (sw_encode n)) \<and> well_formed_request ''sp'' 11 (me_message (sp_encode n))"
  using requests_well_formed [of 0 0 0 0 0 0 0 0 0 0 0 0 n 0 0] by (simp add: speak_schema_def)

lemma display_request_fits:
  "display_schema d \<Longrightarrow> well_formed_request ''dm'' 48
     (me_message (dm_encode (dr_area d - 1) (dr_clear d) (dr_beep d) (dr_timeout d) (dr_line1 d) (dr_line2 d)))"
  using requests_well_formed [of "dr_area d - 1" 0 0 0 "dr_timeout d" 0 0 0 0 0 0 0 0 "dr_clear d" 0]
  by (simp add: display_schema_def)

lemma turn_on_for_fits:
  assumes "turn_on_for_schema d" and "0 \<le> output" "output < 208"
  shows "well_formed_request ''cn'' 16 (me_message (cn_encode output \<lceil>of_int d / 1000000 :: rat\<rceil>))"
proof -
  define s where "s = \<lceil>of_int d / 1000000 :: rat\<rceil>"
  have "(of_int d :: rat) \<ge> of_int 1000000" "(of_int d :: rat) \<le> of_int (65535 * 1000000)"
    using assms(1) unfolding turn_on_for_schema_def of_int_le_iff by simp_all
  then have "0 \<le> s" "s \<le> 65535" by (simp_all add: s_def le_ceiling_iff ceiling_le_iff field_simps)
  then show ?thesis
    unfolding s_def [symmetric] using requests_well_formed [of 0 0 0 "output" s 0 0 0 0 0 0 0 0 0 0] assms(2,3) by simp
qed

section \<open>What goes wrong\<close>

text \<open>
  The configuration dialogue gives an entry the prefix elkm1 when none is typed, the services look for the
  empty prefix when none is given, and a device action gives none.
\<close>

lemma default_prefixes_do_not_meet:
  "run_service_call (call_action_from_config (Action_display_message (Some ''hello''))) [Some (''elkm1'', c)] =
    Some ([Some (''elkm1'', c)], Inl (Unknown_prefix []))"
  by (simp add: run_service_call_def call_action_from_config_def display_schema_def default_display_def
      display_message_service_def on_coordinator_def)

text \<open>The arm request stands on the platform the timed switch service is registered for, without its method.\<close>

lemma arm_request_lacks_the_method:
  "platform_of E_arm_request \<in> set (registered (Sv_turn_on_for d)) \<and> call_entity_service (Sv_turn_on_for d) E_arm_request arrivals = None"
  by (simp add: registered_def call_entity_service_def)

end
