(* ===== verification/Ha_Config.thy ===== *)
theory Ha_Config
  imports Elk_Prelude "HOL-Library.AList"
begin

text \<open>
  The config entries of the integration: the dialogues that make and change them (\<open>config_flow.py\<close>) and the
  migration of older ones (\<open>__init__.py\<close>). Home Assistant's list of entries is the state; the serial
  devices and the probe of a port are arguments of the steps, since both may change between them.
\<close>

section \<open>Entries\<close>

text \<open>The data of an entry is a dictionary of plain values; a missing key reads as None.\<close>

datatype conf_value = Cv_none | Cv_bool bool | Cv_int int | Cv_text string

type_synonym conf_dict = "(string \<times> conf_value) list"

definition dict_get :: "string \<Rightarrow> conf_dict \<Rightarrow> conf_value" where
  "dict_get key d = (case map_of d key of Some v \<Rightarrow> v | None \<Rightarrow> Cv_none)"

definition conf_str :: "conf_value \<Rightarrow> string" where
  "conf_str v =
     (case v of
        Cv_none \<Rightarrow> ''None'' | Cv_bool b \<Rightarrow> (if b then ''True'' else ''False'') | Cv_int n \<Rightarrow> fmt_dec 1 n
      | Cv_text s \<Rightarrow> s)"

definition conf_truthy :: "conf_value \<Rightarrow> bool" where
  "conf_truthy v = (v \<notin> {Cv_none, Cv_bool False, Cv_int 0, Cv_text []})"

record config_entry =
  ce_id :: string
  ce_title :: string
  ce_version :: nat
  ce_minor_version :: nat
  ce_unique_id :: "string option"
  ce_data :: conf_dict
  ce_options :: conf_dict

definition VERSION :: nat where "VERSION = 3"
definition MINOR_VERSION :: nat where "MINOR_VERSION = 1"
definition DEFAULT_POLL_INTERVAL :: int where "DEFAULT_POLL_INTERVAL = 30"
definition MIN_POLL_INTERVAL :: int where "MIN_POLL_INTERVAL = 5"
definition MAX_POLL_INTERVAL :: int where "MAX_POLL_INTERVAL = 300"

section \<open>Serial ports\<close>

text \<open>The file system: where a path leads (nothing when it cannot be told) and what a directory holds.\<close>

record serial_devices =
  sd_realpath :: "string \<Rightarrow> string option"
  sd_glob :: "string \<Rightarrow> string list"

fun linked_path :: "serial_devices \<Rightarrow> string \<Rightarrow> string list \<Rightarrow> string option" where
  "linked_path dev target [] = None"
| "linked_path dev target (symlink # symlinks) =
     (case sd_realpath dev symlink of
        None \<Rightarrow> linked_path dev target symlinks
      | Some path \<Rightarrow> if path = target then Some symlink else linked_path dev target symlinks)"

fun linked_from :: "serial_devices \<Rightarrow> string \<Rightarrow> string list \<Rightarrow> string option" where
  "linked_from dev target [] = None"
| "linked_from dev target (directory # directories) =
     (case linked_path dev target (sd_glob dev directory) of
        Some symlink \<Rightarrow> Some symlink | None \<Rightarrow> linked_from dev target directories)"

definition get_persistent_port_path :: "serial_devices \<Rightarrow> string \<Rightarrow> string" where
  "get_persistent_port_path dev device_path =
     (case sd_realpath dev device_path of
        None \<Rightarrow> device_path
      | Some resolved_target \<Rightarrow>
          (case linked_from dev resolved_target [''/dev/serial/by-id'', ''/dev/serial/by-path''] of
             Some symlink \<Rightarrow> symlink | None \<Rightarrow> device_path))"

text \<open>
  \<open>hostname_from_url\<close> of a text that begins with serial://, as far as \<open>urlparse\<close> goes for it: the part up to
  a slash, question mark or hash, behind the last at sign, before the first colon, in lower case up to a
  percent sign; without one, the text with every serial:// taken out. (Brackets, for addresses of
  networks, are left out.)
\<close>

definition ascii_lower :: "char \<Rightarrow> char" where
  "ascii_lower c = (let n = pyord c in if 65 \<le> n \<and> n \<le> 90 then char_of (n + 32) else c)"

definition before_any :: "string \<Rightarrow> string \<Rightarrow> string" where
  "before_any stops s = takeWhile (\<lambda>c. c \<notin> set stops) s"

definition after_last :: "char \<Rightarrow> string \<Rightarrow> string" where
  "after_last sep s = rev (takeWhile (\<lambda>c. c \<noteq> sep) (rev s))"

definition lower_hostname :: "string \<Rightarrow> string" where
  "lower_hostname s =
     map ascii_lower (takeWhile (\<lambda>c. c \<noteq> CHR ''%'') s) @ dropWhile (\<lambda>c. c \<noteq> CHR ''%'') s"

fun remove_text :: "string \<Rightarrow> nat \<Rightarrow> string \<Rightarrow> string" where
  "remove_text old skipped [] = []"
| "remove_text old 0 (c # s) =
     (if take (length old) (c # s) = old \<and> old \<noteq> [] then remove_text old (length old - 1) s
      else c # remove_text old 0 s)"
| "remove_text old (Suc n) (c # s) = remove_text old n s"

definition hostname_from_url :: "string \<Rightarrow> string" where
  "hostname_from_url url =
     (let rest = filter (\<lambda>c. pyord c \<notin> {9, 10, 13}) (drop 9 url);
          hostinfo = after_last (CHR ''@'') (before_any ''/?#'' rest);
          hostname = lower_hostname (before_any '':'' hostinfo)
      in if hostname \<noteq> [] then hostname else remove_text ''serial://'' 0 url)"

section \<open>The dialogues\<close>

text \<open>What the probe of a port comes to: a speed, one of the expected errors, or another one.\<close>

datatype probe_result = Probe_baud nat | Probe_refused | Probe_broke

type_synonym prober = "string \<Rightarrow> conf_value \<Rightarrow> probe_result"

datatype form_error = Cannot_connect | Unknown_error

record port_input =
  pi_serial_port :: string
  pi_prefix :: "string option"
  pi_pin :: conf_value

definition entered_pin :: "conf_value \<Rightarrow> string" where
  "entered_pin raw_pin =
     (if raw_pin \<notin> {Cv_none, Cv_text [], Cv_int 0, Cv_bool False, Cv_text ''0''}
      then strip_by str_space (conf_str raw_pin) else [])"

definition port_device_id :: "string \<Rightarrow> string" where
  "port_device_id port = ''serial:'' @ port"

definition port_data :: "string \<Rightarrow> nat \<Rightarrow> port_input \<Rightarrow> conf_dict" where
  "port_data port baud inp =
     [(''connection_type'', Cv_text ''serial''), (''serial_port'', Cv_text port),
      (''device_id'', Cv_text (port_device_id port)), (''baud_rate'', Cv_int (int baud)),
      (''prefix'', Cv_text (case pi_prefix inp of Some p \<Rightarrow> p | None \<Rightarrow> ''elkm1'')),
      (''pin'', Cv_text (entered_pin (pi_pin inp)))]"

text \<open>What the first step of the dialogue ends in; the last carries on to the options.\<close>

datatype user_outcome = User_form "form_error option" | Already_configured | Ask_options string string conf_dict

definition step_user ::
  "serial_devices \<Rightarrow> prober \<Rightarrow> config_entry list \<Rightarrow> port_input option \<Rightarrow> user_outcome" where
  "step_user dev probe entries user_input =
     (case user_input of
        None \<Rightarrow> User_form None
      | Some inp \<Rightarrow>
          (let port = get_persistent_port_path dev (pi_serial_port inp)
           in case probe port Cv_none of
                Probe_refused \<Rightarrow> User_form (Some Cannot_connect)
              | Probe_broke \<Rightarrow> User_form (Some Unknown_error)
              | Probe_baud baud \<Rightarrow>
                  (let device_id = port_device_id port
                   in if Some device_id \<in> ce_unique_id ` set entries then Already_configured
                      else Ask_options (''Elk-M1 Serial @ '' @ port) device_id (port_data port baud inp))))"

definition options_schema :: "int \<Rightarrow> bool" where
  "options_schema poll_interval = (MIN_POLL_INTERVAL \<le> poll_interval \<and> poll_interval \<le> MAX_POLL_INTERVAL)"

text \<open>
  \<open>async_create_entry\<close> at the end of the options step. Two dialogues may be open for one port: Home
  Assistant then removes the entry that has the unique id already.
\<close>

definition step_elkm1_options ::
  "string \<Rightarrow> string \<times> string \<times> conf_dict \<Rightarrow> int \<Rightarrow> config_entry list \<Rightarrow> config_entry list" where
  "step_elkm1_options entry_id pending poll_interval entries =
     (case pending of (title, device_id, data) \<Rightarrow>
        filter (\<lambda>e. ce_unique_id e \<noteq> Some device_id) entries @
        [\<lparr>ce_id = entry_id, ce_title = title, ce_version = VERSION, ce_minor_version = MINOR_VERSION,
          ce_unique_id = Some device_id, ce_data = data,
          ce_options = [(''poll_interval'', Cv_int poll_interval)]\<rparr>])"

datatype reconfigure_outcome = Reconfigure_form "form_error option" | Wrong_device | Reconfigured config_entry

definition dict_merge :: "conf_dict \<Rightarrow> conf_dict \<Rightarrow> conf_dict" where
  "dict_merge updates d = fold (\<lambda>(k, v). AList.update k v) updates d"

definition step_reconfigure ::
  "serial_devices \<Rightarrow> prober \<Rightarrow> config_entry \<Rightarrow> port_input option \<Rightarrow> reconfigure_outcome" where
  "step_reconfigure dev probe e user_input =
     (case user_input of
        None \<Rightarrow> Reconfigure_form None
      | Some inp \<Rightarrow>
          (let port = get_persistent_port_path dev (pi_serial_port inp)
           in case probe port (dict_get ''baud_rate'' (ce_data e)) of
                Probe_refused \<Rightarrow> Reconfigure_form (Some Cannot_connect)
              | Probe_broke \<Rightarrow> Reconfigure_form (Some Unknown_error)
              | Probe_baud baud \<Rightarrow>
                  (let device_id = port_device_id port
                   in if ce_unique_id e \<noteq> Some device_id then Wrong_device
                      else Reconfigured (e\<lparr>ce_unique_id := Some device_id,
                        ce_data := dict_merge (port_data port baud inp) (ce_data e)\<rparr>))))"

definition options_step_init :: "int \<Rightarrow> config_entry \<Rightarrow> config_entry" where
  "options_step_init poll_interval e = e\<lparr>ce_options := [(''poll_interval'', Cv_int poll_interval)]\<rparr>"

text \<open>\<open>_on_baud_detected\<close> of the set-up keeps a newly found speed.\<close>

definition on_baud_detected :: "nat \<Rightarrow> config_entry \<Rightarrow> config_entry" where
  "on_baud_detected baud e =
     (if dict_get ''baud_rate'' (ce_data e) \<noteq> Cv_int (int baud)
      then e\<lparr>ce_data := AList.update ''baud_rate'' (Cv_int (int baud)) (ce_data e)\<rparr> else e)"

section \<open>Migration\<close>

datatype migration = Migrated config_entry | Too_new | Network_unsupported string

definition async_migrate_entry :: "config_entry \<Rightarrow> migration" where
  "async_migrate_entry e =
     (if ce_version e > 3 then Too_new
      else
        let data = ce_data e;
            serial_port = dict_get ''serial_port'' data;
            legacy_host = (case map_of data ''host'' of Some v \<Rightarrow> conf_str v | None \<Rightarrow> [])
        in if \<not> conf_truthy serial_port \<and> take 9 legacy_host \<noteq> ''serial://''
           then Network_unsupported (''network_entry_unsupported_'' @ ce_id e)
           else
             let serial_port' = (if conf_truthy serial_port then serial_port else Cv_text (hostname_from_url legacy_host));
                 data = (if conf_truthy serial_port then data else AList.update ''serial_port'' serial_port' data);
                 data = AList.delete ''host'' data;
                 data = AList.update ''connection_type'' (Cv_text ''serial'') data;
                 device = dict_get ''device_id'' data;
                 device_id = conf_str (if conf_truthy device then device else Cv_text (''serial:'' @ conf_str serial_port'));
                 data = AList.update ''device_id'' (Cv_text device_id) data
             in Migrated (e\<lparr>ce_data := data, ce_unique_id := Some device_id, ce_version := 3, ce_minor_version := 1\<rparr>))"

section \<open>The list of entries over time\<close>

text \<open>
  What can happen to the entries: the steps of the dialogues (several may be open at once, each with the
  data it has collected), a newly found speed, and the removal of an entry.
\<close>

datatype config_op =
    Op_user serial_devices prober port_input
  | Op_options nat string int
  | Op_reconfigure nat serial_devices prober port_input
  | Op_set_options nat int
  | Op_baud nat nat
  | Op_remove nat

type_synonym config_state = "config_entry list \<times> (string \<times> string \<times> conf_dict) list"

definition change_entry :: "nat \<Rightarrow> (config_entry \<Rightarrow> config_entry) \<Rightarrow> config_entry list \<Rightarrow> config_entry list" where
  "change_entry i f es = (if i < length es then es[i := f (es ! i)] else es)"

fun config_step :: "config_op \<Rightarrow> config_state \<Rightarrow> config_state" where
  "config_step (Op_user dev probe inp) (es, ps) =
     (case step_user dev probe es (Some inp) of
        Ask_options title device_id data \<Rightarrow> (es, ps @ [(title, device_id, data)])
      | _ \<Rightarrow> (es, ps))"
| "config_step (Op_options i entry_id poll) (es, ps) =
     (if i < length ps \<and> options_schema poll
      then (step_elkm1_options entry_id (ps ! i) poll es, take i ps @ drop (Suc i) ps) else (es, ps))"
| "config_step (Op_reconfigure i dev probe inp) (es, ps) =
     (if i < length es
      then (case step_reconfigure dev probe (es ! i) (Some inp) of
              Reconfigured e \<Rightarrow> (es[i := e], ps) | _ \<Rightarrow> (es, ps))
      else (es, ps))"
| "config_step (Op_set_options i poll) (es, ps) =
     (if options_schema poll then (change_entry i (options_step_init poll) es, ps) else (es, ps))"
| "config_step (Op_baud i baud) (es, ps) = (change_entry i (on_baud_detected baud) es, ps)"
| "config_step (Op_remove i) (es, ps) = (take i es @ drop (Suc i) es, ps)"

definition config_run :: "config_op list \<Rightarrow> config_state" where
  "config_run ops = fold config_step ops ([], [])"

section \<open>Ports\<close>

lemma linked_path_leads: "linked_path dev target symlinks = Some s \<Longrightarrow> sd_realpath dev s = Some target"
  by (induction symlinks) (auto split: option.splits if_splits)

lemma linked_from_leads: "linked_from dev target directories = Some s \<Longrightarrow> sd_realpath dev s = Some target"
  by (induction directories) (auto split: option.splits dest: linked_path_leads)

text \<open>The path an entry is made of is found again as long as the links stay.\<close>

lemma persistent_path_stable:
  "get_persistent_port_path dev (get_persistent_port_path dev p) = get_persistent_port_path dev p"
proof (cases "\<exists>target symlink. sd_realpath dev p = Some target \<and>
    linked_from dev target [''/dev/serial/by-id'', ''/dev/serial/by-path''] = Some symlink")
  case True
  then obtain target symlink where t: "sd_realpath dev p = Some target"
    "linked_from dev target [''/dev/serial/by-id'', ''/dev/serial/by-path''] = Some symlink" by blast
  then have "get_persistent_port_path dev p = symlink"
    by (simp only: get_persistent_port_path_def option.case)
  then show ?thesis
    using t linked_from_leads [OF t(2)] by (simp only: get_persistent_port_path_def option.case)
next
  case False
  then have "get_persistent_port_path dev p = p"
    unfolding get_persistent_port_path_def by (metis (no_types, lifting) not_Some_eq option.simps(4) option.simps(5))
  then show ?thesis by simp
qed

section \<open>Dictionaries\<close>

lemma update_same: "map_of d k = Some v \<Longrightarrow> AList.update k v d = d"
  by (induction d) auto

lemma delete_absent: "map_of d k = None \<Longrightarrow> AList.delete k d = d"
  by (induction d) (auto split: if_splits)

lemma dict_get_update: "dict_get k (AList.update k' v d) = (if k = k' then v else dict_get k d)"
  by (simp add: dict_get_def update_conv')

lemma dict_get_delete: "dict_get k (AList.delete k' d) = (if k = k' then Cv_none else dict_get k d)"
  by (simp add: dict_get_def delete_conv')

lemmas dict_simps = dict_get_update dict_get_delete

lemma conf_str_truthy: "conf_truthy v \<Longrightarrow> conf_str v \<noteq> []"
  by (cases v) (auto simp: conf_truthy_def conf_str_def fmt_dec_def zfill_def to_digits_nonempty)

lemma port_data_merge: "dict_merge (port_data port baud inp) (port_data port' baud' inp') = port_data port baud inp"
  by (simp add: dict_merge_def port_data_def)

lemma port_data_baud:
  "AList.update ''baud_rate'' (Cv_int (int b)) (port_data port baud inp) = port_data port b inp"
  by (simp add: port_data_def)

section \<open>Entries of the dialogues\<close>

definition dialogue_of :: "string \<Rightarrow> config_entry \<Rightarrow> bool" where
  "dialogue_of port e \<longleftrightarrow> ce_version e = 3 \<and> ce_minor_version e = 1 \<and> port \<noteq> [] \<and>
     ce_unique_id e = Some (port_device_id port) \<and>
     (\<exists>baud inp. ce_data e = port_data port baud inp) \<and>
     (\<exists>poll. ce_options e = [(''poll_interval'', Cv_int poll)] \<and> options_schema poll)"

definition dialogue_entry :: "config_entry \<Rightarrow> bool" where
  "dialogue_entry e = (\<exists>port. dialogue_of port e)"

text \<open>The probe answers for no empty path.\<close>

definition probes_ports :: "config_op \<Rightarrow> bool" where
  "probes_ports op =
     (case op of
        Op_user dev probe inp \<Rightarrow> \<forall>cached baud. probe [] cached \<noteq> Probe_baud baud
      | _ \<Rightarrow> True)"

definition config_inv :: "config_state \<Rightarrow> bool" where
  "config_inv = (\<lambda>(es, ps). distinct (map ce_unique_id es) \<and> (\<forall>e \<in> set es. dialogue_entry e) \<and>
     (\<forall>(title, device_id, data) \<in> set ps. \<exists>port baud inp. port \<noteq> [] \<and> device_id = port_device_id port \<and>
        data = port_data port baud inp))"

lemma port_data_gets:
  "map_of (port_data port baud inp) ''host'' = None"
  "map_of (port_data port baud inp) ''serial_port'' = Some (Cv_text port)"
  "map_of (port_data port baud inp) ''connection_type'' = Some (Cv_text ''serial'')"
  "map_of (port_data port baud inp) ''device_id'' = Some (Cv_text (port_device_id port))"
  by (simp_all add: port_data_def)

lemma dialogue_of_migrates:
  assumes "dialogue_of port e"
  shows "async_migrate_entry e = Migrated e"
proof -
  obtain baud inp where d: "ce_data e = port_data port baud inp" and e: "ce_version e = 3" "ce_minor_version e = 1"
    "port \<noteq> []" "ce_unique_id e = Some (port_device_id port)"
    using assms by (auto simp: dialogue_of_def)
  have "conf_truthy (Cv_text port)" "conf_truthy (Cv_text (port_device_id port))"
    using e(3) by (simp_all add: conf_truthy_def port_device_id_def)
  moreover have "AList.delete ''host'' (ce_data e) = ce_data e" by (rule delete_absent) (simp add: d port_data_gets)
  moreover have "AList.update ''connection_type'' (Cv_text ''serial'') (ce_data e) = ce_data e"
    by (rule update_same) (simp add: d port_data_gets)
  moreover have "AList.update ''device_id'' (Cv_text (port_device_id port)) (ce_data e) = ce_data e"
    by (rule update_same) (simp add: d port_data_gets)
  moreover have "dict_get ''serial_port'' (ce_data e) = Cv_text port" "dict_get ''device_id'' (ce_data e) = Cv_text (port_device_id port)"
    by (simp_all add: dict_get_def d port_data_gets)
  ultimately show ?thesis using e by (simp add: async_migrate_entry_def Let_def conf_str_def)
qed

lemma dialogue_entry_migrates: "dialogue_entry e \<Longrightarrow> async_migrate_entry e = Migrated e"
  by (auto simp: dialogue_entry_def intro: dialogue_of_migrates)

lemma port_device_id_inj: "port_device_id p = port_device_id q \<longleftrightarrow> p = q"
  by (simp add: port_device_id_def)

lemma dialogue_baud:
  assumes "dialogue_of port e"
  shows "dialogue_of port (on_baud_detected baud e)"
proof -
  obtain b inp where "ce_data e = port_data port b inp" using assms by (auto simp: dialogue_of_def)
  then show ?thesis using assms by (auto simp: dialogue_of_def on_baud_detected_def port_data_baud)
qed

lemma dialogue_options: "dialogue_of port e \<Longrightarrow> options_schema poll \<Longrightarrow> dialogue_of port (options_step_init poll e)"
  by (simp add: dialogue_of_def options_step_init_def)

lemma dialogue_reconfigured:
  assumes "dialogue_of port e" and "step_reconfigure dev probe e (Some inp) = Reconfigured e'"
  shows "dialogue_of port e'"
proof -
  obtain b i where d: "ce_data e = port_data port b i" using assms(1) by (auto simp: dialogue_of_def)
  obtain baud where "e' = e\<lparr>ce_unique_id := Some (port_device_id port), ce_data := port_data port baud inp\<rparr>"
    using assms by (auto simp: step_reconfigure_def dialogue_of_def d port_data_merge port_device_id_inj Let_def
        split: probe_result.splits if_splits)
  then show ?thesis using assms(1) by (auto simp: dialogue_of_def)
qed

lemma dialogue_unique_id: "dialogue_of port e \<Longrightarrow> ce_unique_id e = Some (port_device_id port)"
  by (simp add: dialogue_of_def)

lemma config_inv_nth:
  assumes "config_inv (es, ps)" and "i < length es"
  obtains port where "dialogue_of port (es ! i)"
  using assms nth_mem [OF assms(2)] by (fastforce simp: config_inv_def dialogue_entry_def)

lemma put_entry_inv:
  assumes "config_inv (es, ps)" and "i < length es" "dialogue_of port (es ! i)" "dialogue_of port e"
  shows "config_inv (es[i := e], ps)"
proof -
  have "map ce_unique_id (es[i := e]) = map ce_unique_id es"
    using assms(2-4) by (simp add: map_update dialogue_unique_id list_update_same_conv)
  moreover have "\<forall>x \<in> set (es[i := e]). dialogue_entry x"
    using assms(1,4) set_update_subset_insert [of es i e] by (auto simp: config_inv_def dialogue_entry_def)
  ultimately show ?thesis using assms(1) by (simp add: config_inv_def)
qed

lemma change_entry_inv:
  assumes "config_inv (es, ps)" and "\<And>port e. dialogue_of port e \<Longrightarrow> dialogue_of port (f e)"
  shows "config_inv (change_entry i f es, ps)"
proof (cases "i < length es")
  case True
  from config_inv_nth [OF assms(1) True] obtain port where "dialogue_of port (es ! i)" .
  then show ?thesis using put_entry_inv [OF assms(1) True] assms(2) True by (simp add: change_entry_def)
qed (use assms(1) in \<open>simp add: change_entry_def\<close>)

lemma without_nth:
  "set (take i xs @ drop (Suc i) xs) \<subseteq> set xs" "distinct (map f xs) \<Longrightarrow> distinct (map f (take i xs @ drop (Suc i) xs))"
proof -
  show "set (take i xs @ drop (Suc i) xs) \<subseteq> set xs" using set_take_subset set_drop_subset by fastforce
  assume d: "distinct (map f xs)"
  show "distinct (map f (take i xs @ drop (Suc i) xs))"
  proof (cases "i < length xs")
    case True
    then have "distinct (map f (take i xs @ xs ! i # drop (Suc i) xs))" using d by (simp add: id_take_nth_drop [symmetric])
    then show ?thesis by auto
  qed (use d in simp)
qed

lemma created_inv:
  assumes "config_inv (es, ps)" and "i < length ps" "options_schema poll"
  shows "config_inv (step_elkm1_options entry_id (ps ! i) poll es, take i ps @ drop (Suc i) ps)"
proof -
  obtain title port baud inp where p: "ps ! i = (title, port_device_id port, port_data port baud inp)" "port \<noteq> []"
    using assms(1,2) nth_mem [of i ps] by (cases "ps ! i") (fastforce simp: config_inv_def)
  then have "distinct (map ce_unique_id (step_elkm1_options entry_id (ps ! i) poll es))"
    using assms(1) by (auto simp: step_elkm1_options_def config_inv_def distinct_map_filter)
  moreover have "\<forall>e \<in> set (step_elkm1_options entry_id (ps ! i) poll es). dialogue_entry e"
    using assms(1,3) p
    by (auto simp: step_elkm1_options_def config_inv_def dialogue_entry_def dialogue_of_def VERSION_def MINOR_VERSION_def)
  ultimately show ?thesis using assms(1) without_nth(1) [of i ps] by (auto simp: config_inv_def)
qed

lemma config_inv_step:
  assumes "config_inv (es, ps)" and "probes_ports op"
  shows "config_inv (config_step op (es, ps))"
proof (cases op)
  case (Op_user dev probe inp)
  have "port \<noteq> []" if "probe port Cv_none = Probe_baud baud" for port baud
    using assms(2) that by (auto simp: probes_ports_def Op_user)
  then show ?thesis
    using assms(1) by (auto simp: Op_user step_user_def Let_def config_inv_def split: probe_result.splits)
next
  case (Op_options i entry_id poll)
  then show ?thesis using assms(1) created_inv [OF assms(1), of i poll entry_id] by auto
next
  case (Op_reconfigure i dev probe inp)
  show ?thesis
  proof (cases "i < length es \<and> (\<exists>e. step_reconfigure dev probe (es ! i) (Some inp) = Reconfigured e)")
    case True
    then obtain e where e: "i < length es" "step_reconfigure dev probe (es ! i) (Some inp) = Reconfigured e" by blast
    from config_inv_nth [OF assms(1) e(1)] obtain port where p: "dialogue_of port (es ! i)" .
    show ?thesis
      using put_entry_inv [OF assms(1) e(1) p dialogue_reconfigured [OF p e(2)]] e by (simp add: Op_reconfigure)
  qed (use assms(1) in \<open>auto simp: Op_reconfigure split: reconfigure_outcome.split\<close>)
next
  case (Op_set_options i poll)
  then show ?thesis using assms(1) change_entry_inv [OF assms(1) dialogue_options] by simp
next
  case (Op_baud i baud)
  then show ?thesis using change_entry_inv [OF assms(1) dialogue_baud] by simp
next
  case (Op_remove i)
  then show ?thesis using assms(1) without_nth(1) [of i es] without_nth(2) [of ce_unique_id es i] by (auto simp: config_inv_def)
qed

lemma config_run_inv: "list_all probes_ports ops \<Longrightarrow> config_inv (config_run ops)"
proof (induction ops rule: rev_induct)
  case Nil
  show ?case by (simp add: config_run_def config_inv_def)
next
  case (snoc op ops)
  then show ?case using config_inv_step [of "fst (config_run ops)" "snd (config_run ops)" op] by (simp add: config_run_def)
qed

text \<open>C30. The entries of the dialogues: whatever dialogues run, also several at once, while devices and links
  change, no two entries have the same port, and every entry is one of the current version for the port
  its unique id names, with a polling interval from 5 to 300 seconds; migrating it changes nothing.\<close>

theorem entries_sound:
  assumes "list_all probes_ports ops"
  shows "distinct (map ce_unique_id (fst (config_run ops))) \<and>
    (\<forall>e \<in> set (fst (config_run ops)).
      async_migrate_entry e = Migrated e \<and>
      (\<exists>port. dict_get ''serial_port'' (ce_data e) = Cv_text port \<and> ce_unique_id e = Some (''serial:'' @ port)) \<and>
      (\<exists>n. ce_options e = [(''poll_interval'', Cv_int n)] \<and> 5 \<le> n \<and> n \<le> 300))"
proof -
  have inv: "config_inv (config_run ops)" by (rule config_run_inv [OF assms])
  have "(\<exists>port. dict_get ''serial_port'' (ce_data e) = Cv_text port \<and> ce_unique_id e = Some (''serial:'' @ port)) \<and>
      (\<exists>n. ce_options e = [(''poll_interval'', Cv_int n)] \<and> 5 \<le> n \<and> n \<le> 300)" if "dialogue_entry e" for e
    using that by (auto simp: dialogue_entry_def dialogue_of_def dict_get_def port_data_gets port_device_id_def
        options_schema_def MIN_POLL_INTERVAL_def MAX_POLL_INTERVAL_def)
  then show ?thesis
    using inv dialogue_entry_migrates by (auto simp: config_inv_def split: prod.splits)
qed

theorem entries_sound_witness:
  "let dev = \<lparr>sd_realpath = Some, sd_glob = (\<lambda>_. [])\<rparr>;
       probe = (\<lambda>port _. if port = [] then Probe_refused else Probe_baud 9600);
       inp = \<lparr>pi_serial_port = ''/dev/ttyS0'', pi_prefix = None, pi_pin = Cv_text ''1234 ''\<rparr>;
       es = fst (config_run [Op_user dev probe inp, Op_user dev probe inp, Op_options 0 ''a'' 30, Op_options 0 ''b'' 5])
   in es = [es ! 0] \<and> async_migrate_entry (es ! 0) = Migrated (es ! 0) \<and>
      dict_get ''pin'' (ce_data (es ! 0)) = Cv_text ''1234''"
proof -
  define dev where "dev = \<lparr>sd_realpath = Some, sd_glob = (\<lambda>_. [])\<rparr>"
  define probe :: prober where "probe = (\<lambda>port _. if port = [] then Probe_refused else Probe_baud 9600)"
  define inp where "inp = \<lparr>pi_serial_port = ''/dev/ttyS0'', pi_prefix = None, pi_pin = Cv_text ''1234 ''\<rparr>"
  let ?ops = "[Op_user dev probe inp, Op_user dev probe inp, Op_options 0 ''a'' 30, Op_options 0 ''b'' 5]"
  have "list_all probes_ports ?ops" by (simp add: probes_ports_def probe_def)
  note ok = entries_sound [OF this]
  have one: "fst (config_run ?ops) = [fst (config_run ?ops) ! 0]"
    by (simp add: config_run_def step_user_def get_persistent_port_path_def dev_def probe_def inp_def Let_def
        step_elkm1_options_def options_schema_def MIN_POLL_INTERVAL_def MAX_POLL_INTERVAL_def)
  have "dict_get ''pin'' (ce_data (fst (config_run ?ops) ! 0)) = Cv_text ''1234''"
    by (simp add: config_run_def step_user_def get_persistent_port_path_def dev_def probe_def inp_def Let_def
        step_elkm1_options_def options_schema_def MIN_POLL_INTERVAL_def MAX_POLL_INTERVAL_def port_data_def dict_get_def
        entered_pin_def conf_str_def strip_by_def str_space_def pyord_def)
  moreover have "fst (config_run ?ops) ! 0 \<in> set (fst (config_run ?ops))" by (subst (2) one) simp
  ultimately show ?thesis using ok one by (simp add: Let_def dev_def probe_def inp_def)
qed

section \<open>Older entries\<close>

text \<open>What a migrated entry looks like.\<close>

lemma migrated_parts:
  assumes "async_migrate_entry e = Migrated e'"
  shows "ce_version e' = 3" "ce_minor_version e' = 1" "ce_id e' = ce_id e" "ce_title e' = ce_title e"
    "ce_options e' = ce_options e"
    "map_of (ce_data e') ''host'' = None" "map_of (ce_data e') ''connection_type'' = Some (Cv_text ''serial'')"
    "\<exists>device_id. device_id \<noteq> [] \<and> map_of (ce_data e') ''device_id'' = Some (Cv_text device_id) \<and> ce_unique_id e' = Some device_id"
    "k \<notin> {''host'', ''serial_port'', ''connection_type'', ''device_id''} \<Longrightarrow> map_of (ce_data e') k = map_of (ce_data e) k"
    "map_of (ce_data e') ''serial_port'' =
       (if conf_truthy (dict_get ''serial_port'' (ce_data e)) then map_of (ce_data e) ''serial_port''
        else map_option (\<lambda>host. Cv_text (hostname_from_url (conf_str host))) (map_of (ce_data e) ''host''))"
proof -
  have id: "conf_truthy v \<Longrightarrow> conf_str v \<noteq> []" for v by (rule conf_str_truthy)
  note defs = async_migrate_entry_def Let_def update_conv' delete_conv' dict_simps
  show "ce_version e' = 3" "ce_minor_version e' = 1" "ce_id e' = ce_id e" "ce_title e' = ce_title e"
    "ce_options e' = ce_options e"
    "map_of (ce_data e') ''host'' = None" "map_of (ce_data e') ''connection_type'' = Some (Cv_text ''serial'')"
    "k \<notin> {''host'', ''serial_port'', ''connection_type'', ''device_id''} \<Longrightarrow> map_of (ce_data e') k = map_of (ce_data e) k"
    using assms by (auto simp: defs split: if_splits)
  show "\<exists>device_id. device_id \<noteq> [] \<and> map_of (ce_data e') ''device_id'' = Some (Cv_text device_id) \<and> ce_unique_id e' = Some device_id"
    using assms id by (auto simp: defs conf_str_def split: if_splits)
  show "map_of (ce_data e') ''serial_port'' =
       (if conf_truthy (dict_get ''serial_port'' (ce_data e)) then map_of (ce_data e) ''serial_port''
        else map_option (\<lambda>host. Cv_text (hostname_from_url (conf_str host))) (map_of (ce_data e) ''host''))"
    using assms by (auto simp: defs split: if_splits option.splits)
qed

lemma migrates_again:
  assumes "async_migrate_entry e = Migrated e'" and "conf_truthy (dict_get ''serial_port'' (ce_data e'))"
  shows "async_migrate_entry e' = Migrated e'"
proof -
  note m = migrated_parts [OF assms(1)]
  obtain device_id where d: "device_id \<noteq> []" "map_of (ce_data e') ''device_id'' = Some (Cv_text device_id)"
    "ce_unique_id e' = Some device_id" using m(8) by blast
  have "AList.delete ''host'' (ce_data e') = ce_data e'" by (rule delete_absent) (rule m(6))
  moreover have "AList.update ''connection_type'' (Cv_text ''serial'') (ce_data e') = ce_data e'"
    by (rule update_same) (rule m(7))
  moreover have "AList.update ''device_id'' (Cv_text device_id) (ce_data e') = ce_data e'" by (rule update_same) (rule d(2))
  moreover have "dict_get ''device_id'' (ce_data e') = Cv_text device_id" "conf_truthy (Cv_text device_id)"
    using d(1,2) by (simp_all add: dict_get_def conf_truthy_def)
  ultimately show ?thesis using assms(2) m(1,2) d(3) by (simp add: async_migrate_entry_def Let_def conf_str_def)
qed

text \<open>C31. Migration: an entry of a known version that names a serial port, or a serial URL, becomes one of the
  current version that keeps its port and everything else but the host, has a device id and that as its
  unique id; unless its port is empty, migrating it again changes nothing. Only a newer entry is refused,
  and only an entry of a network panel is reported.\<close>

theorem migration_normalises:
  "case async_migrate_entry e of
     Migrated e' \<Rightarrow>
       ce_version e' = 3 \<and> ce_minor_version e' = 1 \<and> map_of (ce_data e') ''host'' = None \<and>
       (\<exists>device_id. device_id \<noteq> [] \<and> map_of (ce_data e') ''device_id'' = Some (Cv_text device_id) \<and> ce_unique_id e' = Some device_id) \<and>
       (\<forall>k. k \<notin> {''host'', ''serial_port'', ''connection_type'', ''device_id''} \<longrightarrow> map_of (ce_data e') k = map_of (ce_data e) k) \<and>
       map_of (ce_data e') ''serial_port'' =
         (if conf_truthy (dict_get ''serial_port'' (ce_data e)) then map_of (ce_data e) ''serial_port''
          else map_option (\<lambda>host. Cv_text (hostname_from_url (conf_str host))) (map_of (ce_data e) ''host'')) \<and>
       (conf_truthy (dict_get ''serial_port'' (ce_data e')) \<longrightarrow> async_migrate_entry e' = Migrated e')
   | Too_new \<Rightarrow> ce_version e > 3
   | Network_unsupported issue_id \<Rightarrow>
       ce_version e \<le> 3 \<and> \<not> conf_truthy (dict_get ''serial_port'' (ce_data e)) \<and>
       (\<forall>rest. map_of (ce_data e) ''host'' \<noteq> Some (Cv_text (''serial://'' @ rest)))"
proof (cases "async_migrate_entry e")
  case (Migrated e')
  then show ?thesis using migrated_parts [OF Migrated] migrates_again [OF Migrated] by simp
next
  case (Network_unsupported issue_id)
  then show ?thesis by (auto simp: async_migrate_entry_def Let_def conf_str_def split: if_splits option.splits)
qed (auto simp: async_migrate_entry_def Let_def split: if_splits)

theorem migration_normalises_witness:
  "\<exists>e'. async_migrate_entry \<lparr>ce_id = ''x'', ce_title = ''panel'', ce_version = 1, ce_minor_version = 1,
      ce_unique_id = None, ce_data = [(''host'', Cv_text ''serial:///dev/ttyS0''), (''pin'', Cv_int 42)], ce_options = []\<rparr> = Migrated e' \<and>
    async_migrate_entry e' = Migrated e' \<and> map_of (ce_data e') ''serial_port'' = Some (Cv_text ''/dev/ttyS0'')"
proof -
  define e where "e = \<lparr>ce_id = ''x'', ce_title = ''panel'', ce_version = 1, ce_minor_version = 1,
      ce_unique_id = None, ce_data = [(''host'', Cv_text ''serial:///dev/ttyS0''), (''pin'', Cv_int 42)], ce_options = []\<rparr>"
  obtain e' where e': "async_migrate_entry e = Migrated e'"
    by (simp add: e_def async_migrate_entry_def Let_def conf_str_def)
  have "hostname_from_url ''serial:///dev/ttyS0'' = ''/dev/ttyS0''"
    by code_simp
  then have p: "map_of (ce_data e') ''serial_port'' = Some (Cv_text ''/dev/ttyS0'')"
    using migration_normalises [of e] e' by (simp add: e_def dict_get_def conf_truthy_def conf_str_def)
  then have "async_migrate_entry e' = Migrated e'"
    using migration_normalises [of e] e' by (simp add: dict_get_def conf_truthy_def)
  then show ?thesis using e' p unfolding e_def by blast
qed

text \<open>A port that is written as a host is put into lower case; an empty one makes the entry unusable.\<close>

lemma port_name_is_lowered: "hostname_from_url ''serial://COM3'' = ''com3'' \<and> hostname_from_url ''serial://'' = []"
  by code_simp

end
