(* ===== verification/Ha_Setup.thy ===== *)
theory Ha_Setup
  imports Ha_Services Ha_Config
begin

text \<open>
  The set-up of an entry: the first connection (\<open>coordinator.py\<close>), the steps of \<open>async_setup_entry\<close>
  (\<open>__init__.py\<close>), the check of the panel's settings (\<open>panel_settings.py\<close>) and the search for the zones of
  the alarm add-on (\<open>alarmo_integration.py\<close>). What happens while the set-up waits for the login is a list of
  events: those before the wait is over.
\<close>

section \<open>The first connection\<close>

text \<open>The two callbacks the integration registers: the push of the elements, and the voice of the panel.\<close>

definition push_observer :: nat where "push_observer = 0"
definition voice_observer :: nat where "voice_observer = 1"

definition pushing_kinds :: "kind list" where
  "pushing_kinds = [K_area, K_zone, K_output, K_task, K_thermostat, K_light, K_counter, K_setting]"

definition add_callbacks :: "kind \<Rightarrow> hub \<Rightarrow> hub" where
  "add_callbacks k h = fold (\<lambda>j. map_elem k j (add_callback push_observer)) [0..<length (elems h k)] h"

definition register_push_callbacks :: "hub \<Rightarrow> hub" where
  "register_push_callbacks = fold add_callbacks pushing_kinds"

definition cached_baud :: "conf_dict \<Rightarrow> nat option" where
  "cached_baud conf = (case dict_get ''baud_rate'' conf of Cv_int n \<Rightarrow> Some (nat n) | _ \<Rightarrow> None)"

text \<open>The coordinator once the hub is made and the connection task started; the handlers are in \<open>dispatch\<close>.\<close>

definition start_connection :: "conf_dict \<Rightarrow> coordinator \<Rightarrow> coordinator" where
  "start_connection conf c =
     (let h = hub_init (cd_now c)
      in c\<lparr>cd_elk := Some (h\<lparr>hb_panel := add_callback voice_observer (hb_panel h)\<rparr>),
           cd_manager := Some (manager_start (manager_init (cached_baud conf)))\<rparr>)"

text \<open>A message, or the connection task opening the port or failing to.\<close>

datatype setup_event = Ev_message string payload | Ev_opened nat | Ev_open_failed transport_error

definition opening_manager :: "(manager \<Rightarrow> manager) \<Rightarrow> coordinator \<Rightarrow> coordinator" where
  "opening_manager f c = c\<lparr>cd_manager := map_option (\<lambda>m. if mg_task m = Opening then f m else m) (cd_manager c)\<rparr>"

primrec on_setup_event :: "setup_event \<Rightarrow> coordinator \<Rightarrow> coordinator" where
  "on_setup_event (Ev_message ty p) c = dispatch ty p c"
| "on_setup_event (Ev_opened baud) c =
     (case (cd_elk c, cd_manager c) of
        (Some h, Some m) \<Rightarrow>
          if mg_task m = Opening \<and> \<not> cn_writer (hb_conn h) \<and> cn_task (hb_conn h) = No_task
          then opening_manager (opened baud) (c\<lparr>cd_elk := Some (h\<lparr>hb_conn := transport_open (hb_conn h)\<rparr>)\<rparr>) else c
      | _ \<Rightarrow> c)"
| "on_setup_event (Ev_open_failed err) c = opening_manager (open_failed err) c"

datatype setup_error = Setup_cancelled | Invalid_auth | Connect_timed_out

definition abandon_setup :: "coordinator \<Rightarrow> coordinator" where
  "abandon_setup c = c\<lparr>cd_manager := map_option manager_stop (cd_manager c), cd_elk := None\<rparr>"

definition login_event :: "bool \<Rightarrow> setup_event" where
  "login_event succeeded = Ev_message ''login'' (P_LOGIN succeeded)"

definition first_connection ::
  "conf_dict \<Rightarrow> setup_event list \<Rightarrow> bool \<Rightarrow> coordinator \<Rightarrow> coordinator \<times> setup_error option" where
  "first_connection conf events cancelled c =
     (let c = fold on_setup_event events (start_connection conf c)
      in if cancelled then (abandon_setup c, Some Setup_cancelled)
         else if login_event False \<in> set events then (abandon_setup c, Some Invalid_auth)
         else if login_event True \<notin> set events then (abandon_setup c, Some Connect_timed_out)
         else (c\<lparr>cd_elk := map_option register_push_callbacks (cd_elk c)\<rparr>, None))"

section \<open>Setting up an entry\<close>

record runtime_data =
  rt_prefix :: string
  rt_mac :: "string option"
  rt_auto_configure :: conf_value
  rt_config :: conf_dict

datatype setup_result =
    Set_up runtime_data
  | Port_not_configured
  | Cannot_connect_to string
  | Auth_failed
  | Cancelled

definition default_get :: "conf_value \<Rightarrow> string \<Rightarrow> conf_dict \<Rightarrow> conf_value" where
  "default_get d key conf = (case map_of conf key of Some v \<Rightarrow> v | None \<Rightarrow> d)"

text \<open>
  The first refresh runs the first connection and then a poll, whose messages are \<open>arrivals\<close>; Home
  Assistant's coordinator takes the data of a poll that succeeds.
\<close>

definition async_setup_entry ::
  "config_entry \<Rightarrow> nat \<Rightarrow> setup_event list \<Rightarrow> bool \<Rightarrow> (string \<times> payload) list \<Rightarrow> tracker \<Rightarrow>
    (coordinator \<times> tracker) \<times> setup_result" where
  "async_setup_entry e now events cancelled arrivals t =
     (let c = coordinator_init (conf_str (default_get (Cv_text []) ''pin'' (ce_data e))) now
      in if \<not> conf_truthy (dict_get ''serial_port'' (ce_data e)) then ((c, t), Port_not_configured)
         else
           let url = ''serial://'' @ conf_str (dict_get ''serial_port'' (ce_data e));
               conf = AList.update ''connection_type'' (Cv_text ''serial'') (ce_data e)
           in case first_connection conf events cancelled c of
                (c, Some Setup_cancelled) \<Rightarrow> ((c, t), Cancelled)
              | (c, Some Invalid_auth) \<Rightarrow> ((c, t), Auth_failed)
              | (c, Some Connect_timed_out) \<Rightarrow> ((async_disconnect c, t), Cannot_connect_to url)
              | (c, None) \<Rightarrow>
                  (case async_update_data (ce_id e) arrivals (c, t) of
                     ((c, t), Inl err) \<Rightarrow> ((async_disconnect c, t), Cannot_connect_to url)
                   | ((c, t), Inr d) \<Rightarrow>
                       ((c\<lparr>cd_data := d, cd_update_ok := True\<rparr>, t),
                        Set_up \<lparr>rt_prefix = conf_str (default_get (Cv_text []) ''prefix'' conf),
                                rt_mac = ce_unique_id e,
                                rt_auto_configure = default_get (Cv_bool False) ''auto_configure'' conf,
                                rt_config = conf\<rparr>)))"

text \<open>Home Assistant unloads the platforms first; when that fails the coordinator stays.\<close>

definition async_unload_entry :: "bool \<Rightarrow> coordinator \<Rightarrow> coordinator \<times> bool" where
  "async_unload_entry unload_ok c = (if unload_ok then async_disconnect c else c, unload_ok)"

section \<open>The panel's settings\<close>

definition REQUIRED_SETTINGS :: "(nat \<times> string \<times> string) list" where
  "REQUIRED_SETTINGS =
     [(35, ''Transmit Event Log (G35)'', ''LD''), (36, ''Transmit Zone Changes (G36)'', ''ZC''),
      (37, ''Transmit Output Changes (G37)'', ''CC''), (38, ''Transmit Automation Task Changes (G38)'', ''TC''),
      (39, ''Transmit Light Changes (G39)'', ''PC''), (40, ''Transmit Keypad Changes (G40)'', ''KC'')]"

record setting_status =
  st_name :: string
  st_message_type :: string
  st_enabled :: bool
  st_broadcast_count :: nat

definition broadcast_count :: "coordinator \<Rightarrow> string \<Rightarrow> nat" where
  "broadcast_count c ty = (case map_of (cd_broadcast_counts c) ty of Some n \<Rightarrow> n | None \<Rightarrow> 0)"

definition check_required_settings :: "coordinator \<Rightarrow> (nat \<times> setting_status) list" where
  "check_required_settings c =
     map (\<lambda>(location, name, msg_type).
       (location, \<lparr>st_name = name, st_message_type = msg_type, st_enabled = (broadcast_count c msg_type > 0),
                   st_broadcast_count = broadcast_count c msg_type\<rparr>)) REQUIRED_SETTINGS"

text \<open>A version in its parts; what is no number counts as zero.\<close>

fun split_at_dot :: "string \<Rightarrow> string \<Rightarrow> string list" where
  "split_at_dot cur [] = [rev cur]"
| "split_at_dot cur (c # cs) =
     (if c = CHR ''.'' then rev cur # split_at_dot [] cs else split_at_dot (c # cur) cs)"

definition version_part :: "string list \<Rightarrow> nat \<Rightarrow> int result" where
  "version_part parts i = (if i < length parts \<and> is_digit_text (parts ! i) then py_int 10 (parts ! i) else Inr 0)"

definition version_tuple :: "string \<Rightarrow> (int \<times> int \<times> int) result" where
  "version_tuple version =
     (let parts = split_at_dot [] version
      in bindr (version_part parts 0) (\<lambda>major. bindr (version_part parts 1) (\<lambda>minor.
         bindr (version_part parts 2) (\<lambda>patch. Inr (major, minor, patch)))))"

text \<open>Tuples are compared from the left.\<close>

definition at_least :: "int \<times> int \<times> int \<Rightarrow> int \<times> int \<times> int \<Rightarrow> bool" where
  "at_least v least =
     (case (v, least) of ((a, b, c), (x, y, z)) \<Rightarrow> a > x \<or> a = x \<and> (b > y \<or> b = y \<and> c \<ge> z))"

definition version_supported :: "int \<times> int \<times> int \<Rightarrow> bool" where
  "version_supported v = (at_least v (5, 2, 0) \<or> fst v = 4 \<and> at_least v (4, 6, 8))"

text \<open>
  \<open>check_panel_version\<close>: the version at the first reading that has one, of sixteen; with it what the log says
  of it. An exception counts as no version.
\<close>

definition check_panel_version :: "pyval list \<Rightarrow> (string \<times> bool) option" where
  "check_panel_version readings =
     (case find truthy (take 16 readings) of
        Some (V_str version) \<Rightarrow>
          (case version_tuple version of Inr v \<Rightarrow> Some (version, version_supported v) | Inl e \<Rightarrow> None)
      | _ \<Rightarrow> None)"

type_synonym issues = "(string \<times> string list) list"

text \<open>The issue of an entry names the settings that no broadcast has confirmed.\<close>

definition verify_panel_configuration ::
  "string \<Rightarrow> pyval list \<Rightarrow> coordinator \<Rightarrow> issues \<Rightarrow> issues \<times> bool" where
  "verify_panel_configuration entry_id readings c issues =
     (let version = check_panel_version readings;
          unconfirmed = map (\<lambda>(location, s). st_name s) (filter (\<lambda>(location, s). \<not> st_enabled s) (check_required_settings c));
          issue_id = ''outdated_panel_broadcasts_'' @ entry_id
      in (if unconfirmed \<noteq> [] then AList.update issue_id unconfirmed issues else AList.delete issue_id issues,
          version \<noteq> None))"

section \<open>The zones for the alarm add-on\<close>

record registered_entity =
  re_entity_id :: string
  re_domain :: string
  re_platform :: string
  re_unique_id :: string
  re_original_name :: string
  re_name :: string

definition contains_text :: "string \<Rightarrow> string \<Rightarrow> bool" where
  "contains_text needle s = list_ex (\<lambda>i. take (length needle) (drop i s) = needle) [0..<Suc (length s)]"

definition is_elk_zone :: "registered_entity \<Rightarrow> bool" where
  "is_elk_zone entity =
     (re_domain entity = ''binary_sensor'' \<and> re_platform entity = ''elkm1'' \<and> re_unique_id entity \<noteq> [] \<and>
      contains_text ''_zone_'' (re_unique_id entity))"

definition shown_name :: "registered_entity \<Rightarrow> string" where
  "shown_name entity =
     (if re_original_name entity \<noteq> [] then re_original_name entity
      else if re_name entity \<noteq> [] then re_name entity else re_entity_id entity)"

datatype notification = Auto_setup_failed | Alarmo_not_found | Zones_found "(string \<times> string) list"

definition handle_auto_setup_alarmo :: "registered_entity list \<Rightarrow> bool \<Rightarrow> notification" where
  "handle_auto_setup_alarmo entities alarmo_installed =
     (let elk_zones = map (\<lambda>entity. (shown_name entity, re_entity_id entity)) (filter is_elk_zone entities)
      in if elk_zones = [] then Auto_setup_failed
         else if \<not> alarmo_installed then Alarmo_not_found else Zones_found elk_zones)"

section \<open>What set-up keeps of the hub\<close>

lemma reach_send: "keeps hub_reachable (hub_send m b)"
proof (rule keepsI)
  fix h assume "hub_reachable h"
  then have "hub_reachable (h\<lparr>hb_conn := fst (conn_send m b (hb_conn h))\<rparr>)"
    by (rule hub_next [OF _ on_connection [OF step_send]])
  then show "hub_reachable (fst (hub_send m b h))" by (simp add: hub_send_def split_beta)
qed

lemma reach_elem_set: "well_typed k a v \<Longrightarrow> keeps hub_reachable (elem_set k j a v close)"
  unfolding elem_set_def by (intro keeps_do) (rule hub_next [OF _ on_element_update [OF upd_set]])

interpretation reached: hub_keeper hub_reachable
proof
  show "hub_reachable h \<Longrightarrow> hub_reachable (notify ty p h)" for h ty p by (rule hub_next [OF _ on_message])
  show "keeps hub_reachable (handle_all_lights house code)" for house code
    unfolding handle_all_lights_def with_elem_def
    by (intro keeps_when keeps_for keeps_eval reach_elem_set well_typed_intros)
  have "keeps hub_reachable (zone_get_voltage j)" for j
    using reach_send by (auto simp: keeps_def zone_get_voltage_def)
  then show "keeps hub_reachable (handle_zone_definitions types)" for types
    unfolding handle_zone_definitions_def with_elem_def by (intro keeps_for) (auto intro!: keeps_when keeps_eval)
  show "keeps hub_reachable (hub_send m b)" for m b by (rule reach_send)
qed

text \<open>Which callbacks the elements of a collection have.\<close>

definition observed_by :: "(kind \<Rightarrow> nat list) \<Rightarrow> hub \<Rightarrow> bool" where
  "observed_by obs h = (\<forall>k. \<forall>e \<in> set (elems h k). el_observers e = obs k)"

lemma elem_update_observers: "elem_update k f \<Longrightarrow> el_observers (f e) = el_observers e"
  by (induction rule: elem_update.induct) (simp_all add: set_attr_def Let_def put_attr_def)

interpretation observed: hub_predicate "observed_by obs" for obs
proof
  fix k f h j
  assume f: "elem_update k f" and h: "observed_by obs h"
  show "observed_by obs (map_elem k j f h)"
    unfolding observed_by_def
    by (intro allI ballI) (rule all_elems_map_elem [where Q = "\<lambda>k e. el_observers e = obs k"],
      use f h in \<open>auto simp: elem_update_observers observed_by_def\<close>)
qed (simp_all add: observed_by_def elems_def set_text_desc_def attach_def detach_def)

definition pushed :: "kind \<Rightarrow> nat list" where
  "pushed k = (if k \<in> set pushing_kinds then [push_observer] else [])"

lemma length_fold_map_elem: "length (elems (fold (\<lambda>j. map_elem k j f) js h) k') = length (elems h k')"
  by (induction js arbitrary: h) (simp_all add: length_elems_map_elem)

lemma elems_add_callbacks:
  "elems (add_callbacks k h) k' = (if k' = k then map (add_callback push_observer) (elems h k) else elems h k')"
proof (cases "k' = k")
  case True
  then show ?thesis
    unfolding add_callbacks_def
    by (intro nth_equalityI) (simp_all add: length_fold_map_elem fold_map_elem_nth)
qed (simp add: add_callbacks_def fold_map_elem_other)

lemma register_observed:
  assumes "observed_by (\<lambda>_. []) h"
  shows "observed_by pushed (register_push_callbacks h)"
  using assms
  by (auto simp: register_push_callbacks_def pushing_kinds_def observed_by_def pushed_def elems_add_callbacks
      add_callback_def)

lemma reach_register: "hub_reachable h \<Longrightarrow> hub_reachable (register_push_callbacks h)"
proof -
  have "hub_reachable h \<Longrightarrow> hub_reachable (fold (\<lambda>j. map_elem k j (add_callback push_observer)) js h)" for k js h
    by (induction js arbitrary: h) (auto intro: hub_next [OF _ on_add_callback])
  then have "hub_reachable h \<Longrightarrow> hub_reachable (fold add_callbacks ks h)" for ks h
    by (induction ks arbitrary: h) (simp_all add: add_callbacks_def)
  then show "hub_reachable h \<Longrightarrow> hub_reachable (register_push_callbacks h)" by (simp add: register_push_callbacks_def)
qed

lemma start_observed: "observed_by (\<lambda>_. []) (hub_init now)"
  by (auto simp: observed_by_def elems_def hub_init_def fold_attach_simps new_coll_def new_element_def)

section \<open>The events of the first connection\<close>

lemma opened_hub: "\<not> cn_writer (hb_conn h) \<Longrightarrow> cn_task (hb_conn h) = No_task \<Longrightarrow> hub_reachable h \<Longrightarrow>
    hub_reachable (h\<lparr>hb_conn := transport_open (hb_conn h)\<rparr>)"
  by (rule hub_next [OF _ on_connection [OF step_open]])

lemma opening_simps [simp]:
  "cd_elk (opening_manager f c) = cd_elk c" "cd_manager (opening_manager f c) = None \<longleftrightarrow> cd_manager c = None"
  by (simp_all add: opening_manager_def)

text \<open>While the set-up waits, there is a hub, reached by its own steps, with no callbacks, and a manager.\<close>

definition connecting :: "coordinator \<Rightarrow> bool" where
  "connecting c \<longleftrightarrow> cd_manager c \<noteq> None \<and>
     (\<exists>h. cd_elk c = Some h \<and> hub_reachable h \<and> observed_by (\<lambda>_. []) h)"

lemma connecting_start: "connecting (start_connection conf c)"
proof -
  let ?h = "hub_init (cd_now c)"
  have "hub_reachable (?h\<lparr>hb_panel := add_callback voice_observer (hb_panel ?h)\<rparr>)"
    by (rule hub_next [OF hub_start on_panel_callback])
  moreover have "observed_by (\<lambda>_. []) (?h\<lparr>hb_panel := add_callback voice_observer (hb_panel ?h)\<rparr>)"
    using start_observed [of "cd_now c"] by (simp add: observed_by_def elems_def)
  ultimately show ?thesis by (simp add: connecting_def start_connection_def Let_def)
qed

lemma connecting_event: "connecting c \<Longrightarrow> connecting (on_setup_event ev c)"
proof (cases ev)
  case (Ev_message ty p)
  assume c: "connecting c"
  then have "elk_holds hub_reachable c" "elk_holds (observed_by (\<lambda>_. [])) c" by (auto simp: connecting_def elk_holds_def)
  then have "elk_holds hub_reachable (dispatch ty p c)" "elk_holds (observed_by (\<lambda>_. [])) (dispatch ty p c)"
    by (auto intro: reached.holds_dispatch observed.holds_dispatch)
  moreover have "cd_elk (dispatch ty p c) \<noteq> None" "cd_manager (dispatch ty p c) \<noteq> None"
    using dispatch_frame [of ty c p] c by (auto simp: same_frame_def connecting_def)
  ultimately show ?thesis by (auto simp: Ev_message connecting_def elk_holds_def)
next
  case (Ev_opened baud)
  assume "connecting c"
  then show ?thesis
    by (auto simp: Ev_opened connecting_def opened_hub observed_by_def elems_def opening_manager_def split: option.split)
next
  case (Ev_open_failed err)
  assume "connecting c"
  then show ?thesis by (simp add: Ev_open_failed connecting_def)
qed

lemma connecting_events: "connecting c \<Longrightarrow> connecting (fold on_setup_event evs c)"
  by (induction evs arbitrary: c) (simp_all add: connecting_event)

section \<open>The poll of the first refresh\<close>

lemma poll_success:
  assumes "async_update_data entry_id arrivals (c, t) = ((c', t'), Inr d)"
  obtains c1 where "on_elk poll_requests (add_poll_handlers c) = (c1, None)"
    and "snd (await_all poll_expected arrivals c1) = []"
    and "c' = (remove_poll_handlers (fst (await_all poll_expected arrivals c1)))
      \<lparr>cd_poll_timeouts := 0, cd_last_poll_success := Some (cd_now (remove_poll_handlers (fst (await_all poll_expected arrivals c1))))\<rparr>"
  using assms
  by (fastforce simp: async_update_data_def Let_def split: option.splits if_splits prod.splits list.splits sum.splits)

context hub_keeper
begin

lemma holds_poll:
  assumes "elk_holds P c" and "async_update_data entry_id arrivals (c, t) = ((c', t'), Inr d)"
  shows "elk_holds P c'"
proof -
  from poll_success [OF assms(2)] obtain c1 where s: "on_elk poll_requests (add_poll_handlers c) = (c1, None)"
    and c': "c' = (remove_poll_handlers (fst (await_all poll_expected arrivals c1)))
      \<lparr>cd_poll_timeouts := 0, cd_last_poll_success := Some (cd_now (remove_poll_handlers (fst (await_all poll_expected arrivals c1))))\<rparr>"
    by blast
  have "elk_holds P (add_poll_handlers c)" using assms(1) by (simp add: elk_holds_def)
  then have "elk_holds P c1" using keepsD [OF holds_poll_requests, of "add_poll_handlers c"] s by simp
  then have "elk_holds P (fst (await_all poll_expected arrivals c1))" by (rule holds_await_all)
  then show ?thesis by (simp add: c' elk_holds_def)
qed

end

lemma poll_data: "async_update_data entry_id arrivals (c, t) = ((c', t'), Inr d) \<Longrightarrow> coordinator_data c' = Inr d"
  by (auto simp: async_update_data_def Let_def split: option.splits if_splits prod.splits list.splits sum.splits)

lemma poll_frame:
  assumes "async_update_data entry_id arrivals (c, t) = ((c', t'), r)"
  shows "cd_manager c' = None \<longleftrightarrow> cd_manager c = None" and "cd_elk c' = None \<longleftrightarrow> cd_elk c = None"
proof -
  obtain c1 err where s: "on_elk poll_requests (add_poll_handlers c) = (c1, err)" by fastforce
  obtain c2 missing where w: "await_all poll_expected arrivals c1 = (c2, missing)" by fastforce
  obtain n where f: "same_frame n (add_poll_handlers c) c2" "same_frame (cd_poll_timeouts c) (add_poll_handlers c) c1"
    using poll_waits(1,2) [OF s w] by blast
  have timed: "(cd_manager (poll_timed_out c2) = None \<longleftrightarrow> cd_manager c2 = None) \<and> (cd_elk (poll_timed_out c2) = None \<longleftrightarrow> cd_elk c2 = None)"
    by (auto simp: poll_timed_out_def Let_def force_reconnect_def split: option.split)
  show "cd_manager c' = None \<longleftrightarrow> cd_manager c = None" "cd_elk c' = None \<longleftrightarrow> cd_elk c = None"
    using assms f timed s w
    by (auto simp: async_update_data_def Let_def same_frame_def split: option.splits if_splits list.splits sum.splits)
qed

section \<open>The outcome of a set-up\<close>

lemma first_connection_done:
  assumes "first_connection conf events cancelled c0 = (c, r)"
  shows "cd_manager c \<noteq> None"
    and "r \<noteq> None \<Longrightarrow> cd_elk c = None \<and> (\<forall>m. cd_manager c = Some m \<longrightarrow> mg_task m = No_connect)"
    and "r = None \<Longrightarrow> \<exists>h. cd_elk c = Some h \<and> hub_reachable h \<and> observed_by pushed h"
    and "r = None \<Longrightarrow> login_event True \<in> set events \<and> login_event False \<notin> set events \<and> \<not> cancelled"
proof -
  let ?c = "fold on_setup_event events (start_connection conf c0)"
  obtain m h where c: "cd_manager ?c = Some m" "cd_elk ?c = Some h" "hub_reachable h" "observed_by (\<lambda>_. []) h"
    using connecting_events [OF connecting_start, of events conf c0] by (auto simp: connecting_def)
  show "cd_manager c \<noteq> None"
    and "r \<noteq> None \<Longrightarrow> cd_elk c = None \<and> (\<forall>m. cd_manager c = Some m \<longrightarrow> mg_task m = No_connect)"
    and "r = None \<Longrightarrow> \<exists>h. cd_elk c = Some h \<and> hub_reachable h \<and> observed_by pushed h"
    and "r = None \<Longrightarrow> login_event True \<in> set events \<and> login_event False \<notin> set events \<and> \<not> cancelled"
    using assms c reach_register register_observed
    by (auto simp: first_connection_def Let_def abandon_setup_def manager_stop_def split: if_splits)
qed

lemma poll_replies:
  assumes "async_update_data entry_id arrivals (c, t) = ((c', t'), Inr d)"
  shows "set poll_expected \<subseteq> fst ` set arrivals"
proof -
  from poll_success [OF assms] obtain c1 where "snd (await_all poll_expected arrivals c1) = []" by blast
  then have "filter (\<lambda>m. m \<notin> fst ` set arrivals) poll_expected = []"
    using await_all_missing [of poll_expected arrivals c1] by (simp add: poll_expected_def)
  then show ?thesis unfolding filter_empty_conv by blast
qed

lemma polled_parts:
  assumes "\<exists>h. cd_elk c1 = Some h \<and> hub_reachable h \<and> observed_by pushed h"
    and p: "async_update_data entry_id arrivals (c1, t) = ((c2, t2), Inr d)"
  shows "\<exists>h. cd_elk c2 = Some h \<and> hub_reachable h \<and> observed_by pushed h"
    and "coordinator_data (c2\<lparr>cd_data := d, cd_update_ok := True\<rparr>) = Inr d"
    and "pd_listed d k = max_elements k"
proof -
  obtain h where h: "cd_elk c2 = Some h" "hub_reachable h" "observed_by pushed h"
    using assms(1) poll_frame(2) [OF p] reached.holds_poll [OF _ p] observed.holds_poll [OF _ p, of pushed]
    by (fastforce simp: elk_holds_def)
  then show "\<exists>h. cd_elk c2 = Some h \<and> hub_reachable h \<and> observed_by pushed h"
    and "coordinator_data (c2\<lparr>cd_data := d, cd_update_ok := True\<rparr>) = Inr d"
    using poll_data [OF p] by (simp_all add: coordinator_data_def)
  show "pd_listed d k = max_elements k"
    using poll_data [OF p] h(1) hub_reachable_inv [OF h(2)] build_lists(1)
    by (fastforce simp: coordinator_data_def hub_inv_def sizes_ok_def)
qed


section \<open>A set-up that succeeds\<close>

lemma sends_run:
  assumes "cn_writer (hb_conn h)" and "\<not> cn_paused (hb_conn h)"
  shows "\<exists>q. for_each ms (\<lambda>m. hub_send m False) h = (h\<lparr>hb_conn := q\<rparr>, None)"
  using assms
proof (induction ms arbitrary: h)
  case Nil
  show ?case by (intro exI [of _ "hb_conn h"]) (simp add: skip_def)
next
  case (Cons m ms)
  let ?h = "h\<lparr>hb_conn := queue_write \<lparr>qw_msg = me_message m, qw_response_cmd = me_response_command m\<rparr> False (hb_conn h)\<rparr>"
  have "\<exists>q. for_each ms (\<lambda>m. hub_send m False) ?h = (?h\<lparr>hb_conn := q\<rparr>, None)"
    using Cons.prems by (intro Cons.IH) (simp_all add: queue_write_def)
  then show ?case using hub_send_run [OF Cons.prems] by (simp add: and_then_def)
qed

lemma poll_succeeds:
  assumes "cd_elk c = Some h" and "hub_reachable h" and "cn_writer (hb_conn h)" "\<not> cn_paused (hb_conn h)"
    and "set poll_expected \<subseteq> fst ` set arrivals"
  shows "\<exists>c' t' d. async_update_data entry_id arrivals (c, t) = ((c', t'), Inr d)"
proof -
  obtain q where "poll_requests h = (h\<lparr>hb_conn := q\<rparr>, None)"
    using sends_run [OF assms(3,4)] unfolding poll_requests_def by blast
  then have s: "on_elk poll_requests (add_poll_handlers c) = ((add_poll_handlers c)\<lparr>cd_elk := Some (h\<lparr>hb_conn := q\<rparr>)\<rparr>, None)"
    (is "_ = (?c1, None)") using assms(1) by (simp add: on_elk_def)
  obtain c2 missing where w: "await_all poll_expected arrivals ?c1 = (c2, missing)" by fastforce
  have "missing = []"
    using poll_waits(3) [OF s w] assms(5) by (simp add: poll_expected_def)
  moreover have "elk_holds hub_reachable ?c1"
    using keepsD [OF reached.holds_poll_requests, of "add_poll_handlers c"] assms(1,2) s by (simp add: elk_holds_def)
  then have "elk_holds hub_reachable c2" using reached.holds_await_all [of ?c1 poll_expected arrivals] w by simp
  moreover obtain n where "same_frame n (add_poll_handlers c) c2" using poll_waits(2) [OF s w] ..
  then obtain h2 where h2: "cd_elk c2 = Some h2" using assms(1) by (auto simp: same_frame_def)
  ultimately have "hub_reachable h2" by (simp add: elk_holds_def)
  then obtain d where "build_normalized_data h2 (cd_raw_trouble_status c2) (cd_last_user c2) (cd_last_keypad c2) (cd_last_user_time c2) = Inr d"
    by (rule build_ok)
  then have "coordinator_data (remove_poll_handlers c2\<lparr>cd_poll_timeouts := 0, cd_last_poll_success := Some (cd_now (remove_poll_handlers c2))\<rparr>) = Inr d"
    using h2 by (simp add: coordinator_data_def remove_poll_handlers_def poll_expected_def remove_waiting_def)
  then show ?thesis
    using assms(1,3) s w \<open>missing = []\<close> by (simp add: async_update_data_def Let_def)
qed

text \<open>The panel logs in at once and answers the poll.\<close>

definition demo_entry :: config_entry where
  "demo_entry =
     \<lparr>ce_id = ''x'', ce_title = ''Elk-M1'', ce_version = 3, ce_minor_version = 1, ce_unique_id = Some ''serial:/dev/ttyS0'',
      ce_data = [(''serial_port'', Cv_text ''/dev/ttyS0''), (''prefix'', Cv_text ''house''), (''pin'', Cv_text ''1234'')],
      ce_options = []\<rparr>"

lemma login_run:
  assumes "cd_elk c = Some h" and "registry_ok h" and "\<not> cn_writer (hb_conn h)"
  shows "dispatch ''login'' (P_LOGIN True) c =
    c\<lparr>cd_elk := Some (h\<lparr>hb_logged_in := True\<rparr>), cd_manager := map_option (mark_login True) (cd_manager c)\<rparr>"
proof -
  have "notify ''login'' (P_LOGIN True) h = fst (run_handler (notify_depth 3) H_login_status (P_LOGIN True) h)"
    using assms(2) by (rule notify_one) (simp_all add: base_handlers_def registrations_def)
  then have "notify ''login'' (P_LOGIN True) h = h\<lparr>hb_logged_in := True\<rparr>"
    by (simp add: run_handler_def login_status_def update_st_def when_st_def and_then_def skip_def)
  then show ?thesis
    using assms(1,3) by (simp add: dispatch_def integration_handlers_def message_handlers_def handle_login_def
        update_st_def when_st_def and_then_def skip_def)
qed

definition demo_replies :: "(string \<times> payload) list" where
  "demo_replies =
     [(''AS'', P_AS [] [] [] None), (''AZ'', P_AZ []), (''CS'', P_CS []), (''LW'', P_LW [] []), (''SS'', P_SS [])]"

lemma demo_connection:
  "\<exists>c h. first_connection conf [login_event True, Ev_opened 9600] False (coordinator_init pin 0) = (c, None) \<and>
    cd_elk c = Some h \<and> cn_writer (hb_conn h) \<and> \<not> cn_paused (hb_conn h)"
proof -
  let ?h = "hub_init 0" let ?p = "?h\<lparr>hb_panel := add_callback voice_observer (hb_panel ?h)\<rparr>"
  let ?c = "start_connection conf (coordinator_init pin 0)"
  have c: "cd_elk ?c = Some ?p" "cd_manager ?c = Some (manager_start (manager_init (cached_baud conf)))"
    by (simp_all add: start_connection_def Let_def coordinator_init_def)
  have conn: "hb_conn ?h = connection_init" by (simp add: hub_init_def fold_attach_simps)
  have "registry_ok ?p" using hub_reachable_inv [OF hub_next [OF hub_start on_panel_callback]] by (simp add: hub_inv_def)
  then have l: "dispatch ''login'' (P_LOGIN True) ?c = ?c\<lparr>cd_elk := Some (?p\<lparr>hb_logged_in := True\<rparr>),
      cd_manager := map_option (mark_login True) (cd_manager ?c)\<rparr>"
    by (rule login_run [OF c(1)]) (simp add: conn connection_init_def)
  have reg: "hb_conn (register_push_callbacks h) = hb_conn h" for h
  proof -
    have "hb_conn (fold (\<lambda>j. map_elem k j f) js h) = hb_conn h" for k f js h
      by (induction js arbitrary: h) (simp_all add: map_elem_def)
    then have "hb_conn (fold add_callbacks ks h) = hb_conn h" for ks h
      by (induction ks arbitrary: h) (simp_all add: add_callbacks_def)
    then show ?thesis by (simp add: register_push_callbacks_def)
  qed
  show ?thesis
    by (simp add: first_connection_def Let_def login_event_def l c conn opening_manager_def reg connection_init_def
        transport_open_def mark_login_def manager_start_def manager_init_def)
qed


section \<open>The settings and the zones\<close>

text \<open>The issue of an entry stands exactly while some broadcast that is needed was never seen.\<close>

lemma settings_issue:
  "map_of (fst (verify_panel_configuration entry_id readings c issues)) (''outdated_panel_broadcasts_'' @ entry_id) \<noteq> None \<longleftrightarrow>
    (\<exists>ty \<in> {''LD'', ''ZC'', ''CC'', ''TC'', ''PC'', ''KC''}. broadcast_count c ty = 0)"
  by (auto simp: verify_panel_configuration_def Let_def check_required_settings_def REQUIRED_SETTINGS_def
      update_conv' delete_conv' filter_empty_conv)

lemma supported_versions:
  "0 \<le> c \<Longrightarrow> version_supported (a, b, c) \<longleftrightarrow> a = 4 \<and> (b > 6 \<or> b = 6 \<and> c \<ge> 8) \<or> a = 5 \<and> b \<ge> 2 \<or> a > 5"
  by (auto simp: version_supported_def at_least_def)

text \<open>The search for the zones also finds the sensor of every zone's bypass.\<close>

lemma bypass_sensors_are_found: "contains_text ''_zone_'' (unique_id entry_id prefix (E_zone_bypass i))"
  unfolding contains_text_def list_ex_iff
  by (intro bexI [of _ "length entry_id"]) (simp_all add: unique_id_def numbered_def)

end
