(* ===== verification/App_Json.thy ===== *)
theory App_Json
  imports Elk_Prelude "HOL-Library.List_Lexorder" "HOL-Library.Char_ord"
begin

text \<open>
  The JSON values the programmer writes to its files and their canonical text,
  \<open>json.dumps(v, sort_keys=True, separators=(",", ":"))\<close>: what the audit chain of \<open>security.py\<close>
  hashes. A dictionary is an association list with distinct keys; numbers are integers, the only
  ones the program writes. The text determines the value: \<open>dumps_determines\<close> reads it off the text,
  even when more text follows, as the previous hash does in the chain.
\<close>

section \<open>Values and their text\<close>

datatype json =
    Js_null
  | Js_bool bool
  | Js_int int
  | Js_str string
  | Js_list "json list"
  | Js_obj "(string \<times> json) list"

type_synonym jobj = "(string \<times> json) list"

text \<open>\<open>json.dumps\<close> of a string, with \<open>ensure_ascii\<close>.\<close>

definition hex_lower :: "nat \<Rightarrow> char" where
  "hex_lower d = (if d < 10 then char_of (48 + d) else char_of (87 + d))"

definition escape_char :: "char \<Rightarrow> string" where
  "escape_char c =
     (if pyord c = 34 \<or> pyord c = 92 then [CHR 0x5C, c]
      else if pyord c = 10 then [CHR 0x5C, CHR ''n'']
      else if pyord c = 13 then [CHR 0x5C, CHR ''r'']
      else if pyord c = 9 then [CHR 0x5C, CHR ''t'']
      else if pyord c = 12 then [CHR 0x5C, CHR ''f'']
      else if pyord c = 8 then [CHR 0x5C, CHR ''b'']
      else if 32 \<le> pyord c \<and> pyord c \<le> 126 then [c]
      else [CHR 0x5C, CHR ''u'', CHR ''0'', CHR ''0'', hex_lower (pyord c div 16), hex_lower (pyord c mod 16)])"

definition json_string :: "string \<Rightarrow> string" where
  "json_string s = CHR 0x22 # concat (map escape_char s) @ [CHR 0x22]"

text \<open>The elements of a list or an object, after the opening bracket.\<close>

fun json_items :: "char \<Rightarrow> string list \<Rightarrow> string" where
  "json_items close [] = [close]"
| "json_items close [t] = t @ [close]"
| "json_items close (t # ts) = t @ CHR '','' # json_items close ts"

definition json_member :: "string \<Rightarrow> string \<Rightarrow> string" where
  "json_member k t = json_string k @ CHR '':'' # t"

fun json_text :: "json \<Rightarrow> string" where
  "json_text Js_null = ''null''"
| "json_text (Js_bool b) = (if b then ''true'' else ''false'')"
| "json_text (Js_int i) = fmt_dec 0 i"
| "json_text (Js_str s) = json_string s"
| "json_text (Js_list xs) = CHR ''['' # json_items (CHR '']'') (map json_text xs)"
| "json_text (Js_obj kvs) = CHR ''{'' # json_items (CHR ''}'') (map (\<lambda>(k, v). json_member k (json_text v)) kvs)"

fun sort_keys :: "json \<Rightarrow> json" where
  "sort_keys (Js_list xs) = Js_list (map sort_keys xs)"
| "sort_keys (Js_obj kvs) = Js_obj (sort_key fst (map (\<lambda>(k, v). (k, sort_keys v)) kvs))"
| "sort_keys j = j"

definition json_dumps :: "json \<Rightarrow> string" where
  "json_dumps j = json_text (sort_keys j)"

section \<open>Python's \<open>str\<close> of a value\<close>

definition repr_char :: "char \<Rightarrow> char \<Rightarrow> string" where
  "repr_char q c =
     (if c = q \<or> pyord c = 92 then [CHR 0x5C, c]
      else if pyord c = 10 then [CHR 0x5C, CHR ''n'']
      else if pyord c = 13 then [CHR 0x5C, CHR ''r'']
      else if pyord c = 9 then [CHR 0x5C, CHR ''t'']
      else if pyord c < 32 \<or> 127 \<le> pyord c \<and> pyord c \<le> 160 \<or> pyord c = 173
        then [CHR 0x5C, CHR ''x'', hex_lower (pyord c div 16), hex_lower (pyord c mod 16)]
      else [c])"

definition repr_string :: "string \<Rightarrow> string" where
  "repr_string s =
     (let q = (if CHR 0x27 \<in> set s \<and> CHR 0x22 \<notin> set s then CHR 0x22 else CHR 0x27)
      in q # concat (map (repr_char q) s) @ [q])"

fun repr_items :: "string list \<Rightarrow> string" where
  "repr_items [] = []"
| "repr_items [t] = t"
| "repr_items (t # ts) = t @ '', '' @ repr_items ts"

fun py_repr :: "json \<Rightarrow> string" where
  "py_repr Js_null = ''None''"
| "py_repr (Js_bool b) = (if b then ''True'' else ''False'')"
| "py_repr (Js_int i) = fmt_dec 0 i"
| "py_repr (Js_str s) = repr_string s"
| "py_repr (Js_list xs) = CHR ''['' # repr_items (map py_repr xs) @ '']''"
| "py_repr (Js_obj kvs) = CHR ''{'' # repr_items (map (\<lambda>(k, v). repr_string k @ '': '' @ py_repr v) kvs) @ ''}''"

definition py_str :: "json \<Rightarrow> string" where
  "py_str j = (case j of Js_str s \<Rightarrow> s | _ \<Rightarrow> py_repr j)"

lemma py_str_string [simp]: "py_str (Js_str s) = s"
  by (simp add: py_str_def)

section \<open>The text determines the value\<close>

definition unhex :: "char \<Rightarrow> nat" where
  "unhex c = (if pyord c < 58 then pyord c - 48 else pyord c - 87)"

lemma unhex_hex_lower [simp]: "d < 16 \<Longrightarrow> unhex (hex_lower d) = d"
  by (simp add: unhex_def hex_lower_def)

definition unescape :: "string \<Rightarrow> char \<times> string" where
  "unescape s =
     (let a = hd s; b = hd (tl s); r = tl (tl s) in
      if a \<noteq> CHR 0x5C then (a, tl s)
      else if b = CHR ''n'' then (CHR 0x0A, r)
      else if b = CHR ''r'' then (CHR 0x0D, r)
      else if b = CHR ''t'' then (CHR 0x09, r)
      else if b = CHR ''f'' then (CHR 0x0C, r)
      else if b = CHR ''b'' then (CHR 0x08, r)
      else if b = CHR ''u'' then (char_of (16 * unhex (r ! 2) + unhex (r ! 3)), drop 4 r)
      else (b, r))"

lemma pyord_eq_literal:
  "pyord c = 34 \<longleftrightarrow> c = CHR 0x22" "pyord c = 92 \<longleftrightarrow> c = CHR 0x5C"
  "pyord c = 10 \<longleftrightarrow> c = CHR 0x0A" "pyord c = 13 \<longleftrightarrow> c = CHR 0x0D" "pyord c = 9 \<longleftrightarrow> c = CHR 0x09"
  "pyord c = 12 \<longleftrightarrow> c = CHR 0x0C" "pyord c = 8 \<longleftrightarrow> c = CHR 0x08"
  by (simp_all add: pyord_inj [symmetric]) (simp_all add: pyord_def)

lemma char_of_pyord: "char_of (pyord c) = c"
  by (simp add: pyord_def)

lemma unescape_escape_char [simp]: "unescape (escape_char c @ x) = (c, x)"
proof -
  have "pyord c div 16 < 16" "pyord c mod 16 < 16" using pyord_less [of c] by linarith+
  then show ?thesis
    unfolding escape_char_def pyord_eq_literal
    by (simp add: unescape_def char_of_pyord)
qed

lemma escape_char_prefix: "escape_char c @ x = escape_char d @ y \<Longrightarrow> c = d \<and> x = y"
  by (drule arg_cong [of _ _ unescape]) simp

lemma escape_char_not_quote: "escape_char c @ x \<noteq> CHR 0x22 # y"
  by (simp add: escape_char_def pyord_eq_literal)

lemma escapes_prefix:
  "concat (map escape_char u) @ CHR 0x22 # x = concat (map escape_char v) @ CHR 0x22 # y \<Longrightarrow> u = v \<and> x = y"
proof (induction u arbitrary: v)
  case Nil
  then show ?case using escape_char_not_quote [symmetric] by (cases v) auto
next
  case (Cons c u)
  show ?case
  proof (cases v)
    case Nil
    then show ?thesis using Cons.prems escape_char_not_quote by auto
  next
    case v: (Cons d w)
    then have "c = d \<and> concat (map escape_char u) @ CHR 0x22 # x = concat (map escape_char w) @ CHR 0x22 # y"
      using Cons.prems by (auto dest: escape_char_prefix)
    then show ?thesis using Cons.IH v by blast
  qed
qed

lemma json_string_prefix: "json_string u @ x = json_string v @ y \<Longrightarrow> u = v \<and> x = y"
  by (auto simp: json_string_def dest: escapes_prefix)

lemma json_member_prefix:
  "json_member k t @ x = json_member k' t' @ y \<Longrightarrow> k = k' \<and> t @ x = t' @ y"
  by (auto simp: json_member_def dest: json_string_prefix)

text \<open>A number ends before a character that is no digit.\<close>

definition ends :: "string \<Rightarrow> bool" where
  "ends s = (case s of [] \<Rightarrow> True | c # _ \<Rightarrow> \<forall>d < 10. c \<noteq> digit_char d)"

lemma ends_simps [simp]:
  "ends []" "ends (CHR '','' # s)" "ends (CHR '']'' # s)" "ends (CHR ''}'' # s)"
proof -
  have "d < 10 \<Longrightarrow> pyord (digit_char d) = 48 + d" for d by (simp add: pyord_digit_char)
  then have "c \<noteq> digit_char d" if "d < 10" "pyord c < 48 \<or> 57 < pyord c" for c d
    using that by fastforce
  moreover have "pyord CHR '','' = 44" "pyord CHR '']'' = 93" "pyord CHR ''}'' = 125" by (simp_all add: pyord_def)
  ultimately show "ends (CHR '','' # s)" "ends (CHR '']'' # s)" "ends (CHR ''}'' # s)"
    by (simp_all add: ends_def)
  show "ends []" by (simp add: ends_def)
qed

lemma digits_prefix:
  "all_digits 10 u \<Longrightarrow> all_digits 10 v \<Longrightarrow> u @ x = v @ y \<Longrightarrow> ends x \<Longrightarrow> ends y \<Longrightarrow> u = v \<and> x = y"
proof (induction u arbitrary: v)
  case Nil
  then show ?case by (cases v) (auto simp: all_digits_def ends_def)
next
  case (Cons c u)
  then obtain w where "v = c # w" by (cases v) (auto simp: all_digits_def ends_def)
  then show ?case using Cons by (auto simp: all_digits_def)
qed

lemma fmt_dec_prefix:
  assumes "fmt_dec 0 i @ x = fmt_dec 0 j @ y" "ends x" "ends y"
  shows "i = j \<and> x = y"
proof -
  let ?d = "\<lambda>i. to_digits 10 (nat \<bar>i\<bar>)"
  have f: "fmt_dec 0 k = (if k < 0 then CHR ''-'' # ?d k else ?d k)" for k
    by (simp add: fmt_dec_def zfill_def)
  have digits: "all_digits 10 (?d k)" for k by (rule all_digits_to_digits) simp_all
  have head: "?d k @ z \<noteq> CHR ''-'' # w" for k z w
    using digits [of k] by (cases "?d k") (auto simp: all_digits_def digit_char_neq)
  have same: "i < 0 \<longleftrightarrow> j < 0" using assms(1) head [of i] head [of j, symmetric] by (auto simp: f split: if_splits)
  then have "?d i @ x = ?d j @ y" using assms(1) by (auto simp: f split: if_splits)
  then have "?d i = ?d j \<and> x = y" by (rule digits_prefix [OF digits digits _ assms(2,3)])
  then have "digits_value 10 0 (?d i) = digits_value 10 0 (?d j)" and "x = y" by simp_all
  then have "nat \<bar>i\<bar> = nat \<bar>j\<bar>" and "x = y" by (simp_all add: digits_value_to_digits)
  then show ?thesis using same by auto
qed

text \<open>What the first character of a text says about the value.\<close>

definition first_char_tag :: "char \<Rightarrow> nat" where
  "first_char_tag c =
     (if c = CHR ''n'' then 0 else if c \<in> {CHR ''t'', CHR ''f''} then 1 else if c = CHR 0x22 then 3
      else if c = CHR ''['' then 4 else if c = CHR ''{'' then 5 else if c \<in> {CHR '']'', CHR ''}''} then 6 else 2)"

fun json_tag :: "json \<Rightarrow> nat" where
  "json_tag Js_null = 0" | "json_tag (Js_bool _) = 1" | "json_tag (Js_int _) = 2"
| "json_tag (Js_str _) = 3" | "json_tag (Js_list _) = 4" | "json_tag (Js_obj _) = 5"

lemma digit_char_tag: "d < 10 \<Longrightarrow> first_char_tag (digit_char d) = 2"
  by (simp add: first_char_tag_def pyord_inj [symmetric] pyord_digit_char) (simp add: pyord_def)

lemma json_text_head: "\<exists>c r. json_text j = c # r \<and> first_char_tag c = json_tag j"
proof (cases j)
  case (Js_int i)
  obtain c r where d: "to_digits 10 (nat \<bar>i\<bar>) = c # r" by (cases "to_digits 10 (nat \<bar>i\<bar>)") auto
  moreover have "all_digits 10 (to_digits 10 (nat \<bar>i\<bar>))" by (rule all_digits_to_digits) simp_all
  ultimately have "first_char_tag c = 2" using digit_char_tag by (auto simp: all_digits_def)
  moreover have "first_char_tag CHR ''-'' = 2" by (simp add: first_char_tag_def)
  ultimately show ?thesis using d by (auto simp: Js_int fmt_dec_def zfill_def)
qed (auto simp: first_char_tag_def json_string_def)

lemma json_text_tag:
  assumes "json_text a @ s = json_text b @ t"
  shows "json_tag a = json_tag b"
  using json_text_head [of a] json_text_head [of b] assms by auto

lemma json_items_Cons:
  "json_items close (t # ts) = t @ (if ts = [] then [close] else CHR '','' # json_items close ts)"
  by (cases ts) simp_all

lemma items_prefix:
  assumes prefix: "\<And>x y s t. x \<in> set xs \<Longrightarrow> g x @ s = g y @ t \<Longrightarrow> ends s \<Longrightarrow> ends t \<Longrightarrow> x = y \<and> s = t"
    and start: "\<And>x s u. g x @ s \<noteq> close # u"
    and close: "close = CHR '']'' \<or> close = CHR ''}''"
    and same: "json_items close (map g xs) @ s = json_items close (map g ys) @ t"
  shows "xs = ys \<and> s = t"
  using prefix same
proof (induction xs arbitrary: ys)
  case Nil
  then show ?case using start [symmetric] by (cases ys) (auto simp: json_items_Cons)
next
  case (Cons x xs)
  let ?rest = "\<lambda>zs u. (if map g zs = [] then [close] else CHR '','' # json_items close (map g zs)) @ u"
  have ends: "ends (?rest zs u)" for zs u using close by auto
  obtain y zs where ys: "ys = y # zs" using Cons.prems(2) start by (cases ys) (auto simp: json_items_Cons)
  then have "g x @ ?rest xs s = g y @ ?rest zs t" using Cons.prems(2) by (simp add: json_items_Cons)
  then have both: "x = y \<and> ?rest xs s = ?rest zs t" by (rule Cons.prems(1) [OF list.set_intros(1) _ ends ends])
  note rest = conjunct2 [OF both]
  have "xs = zs \<and> s = t"
  proof (cases "xs = [] \<or> zs = []")
    case True
    then show ?thesis using rest close by (auto split: if_splits)
  next
    case False
    then have "json_items close (map g xs) @ s = json_items close (map g zs) @ t" using rest by simp
    then show ?thesis by (rule Cons.IH [rotated]) (erule (2) Cons.prems(1) [OF list.set_intros(2)])
  qed
  then show ?case using ys both by (simp only: simp_thms)
qed

lemma json_text_start: "close = CHR '']'' \<or> close = CHR ''}'' \<Longrightarrow> json_text j @ s \<noteq> close # u"
proof
  assume "close = CHR '']'' \<or> close = CHR ''}''" "json_text j @ s = close # u"
  then have "json_tag j = 6" using json_text_head [of j] by (auto simp: first_char_tag_def)
  then show False by (cases j) simp_all
qed

lemma members_prefix:
  assumes prefix: "\<And>x w b s t. x \<in> set kvs \<Longrightarrow> w \<in> Basic_BNFs.snds x \<Longrightarrow> json_text w @ s = json_text b @ t \<Longrightarrow>
      ends s \<Longrightarrow> ends t \<Longrightarrow> w = b \<and> s = t"
    and same: "json_text (Js_obj kvs) @ s = json_text (Js_obj lws) @ t"
  shows "kvs = lws \<and> s = t"
proof (rule items_prefix [of kvs "\<lambda>(k, v). json_member k (json_text v)" "CHR ''}''"])
  let ?g = "\<lambda>(k, v). json_member k (json_text v)"
  show "json_items CHR ''}'' (map ?g kvs) @ s = json_items CHR ''}'' (map ?g lws) @ t" using same by simp
  show "x = y \<and> u = v" if x: "x \<in> set kvs" and eq: "?g x @ u = ?g y @ v" and e: "ends u" "ends v" for x y u v
  proof -
    obtain k w l z where xy: "x = (k, w)" "y = (l, z)" by (cases x, cases y)
    then have k: "k = l" and w: "json_text w @ u = json_text z @ v" using eq by (auto dest: json_member_prefix)
    have "w \<in> Basic_BNFs.snds x" using xy by (simp add: snds.simps)
    then have "w = z \<and> u = v" by (rule prefix [OF x _ w e])
    then show ?thesis using k xy by simp
  qed
  show "?g x @ u \<noteq> CHR ''}'' # v" for x u v by (cases x) (simp add: json_member_def json_string_def)
qed simp

lemma json_text_prefix:
  "json_text a @ s = json_text b @ t \<Longrightarrow> ends s \<Longrightarrow> ends t \<Longrightarrow> a = b \<and> s = t"
proof (induction a arbitrary: b s t)
  case Js_null
  then show ?case using json_text_tag [OF Js_null(1)] by (cases b) auto
next
  case (Js_bool v)
  then show ?case using json_text_tag [OF Js_bool(1)] by (cases b) (auto split: if_splits)
next
  case (Js_int i)
  then show ?case using json_text_tag [OF Js_int(1)] by (cases b) (auto dest: fmt_dec_prefix)
next
  case (Js_str v)
  then show ?case using json_text_tag [OF Js_str(1)] by (cases b) (auto dest: json_string_prefix)
next
  case (Js_list xs)
  obtain ys where b: "b = Js_list ys" using json_text_tag [OF Js_list(2)] by (cases b) auto
  have "xs = ys \<and> s = t"
  proof (rule items_prefix [of xs json_text "CHR '']''"])
    show "json_items CHR '']'' (map json_text xs) @ s = json_items CHR '']'' (map json_text ys) @ t"
      using Js_list(2) b by simp
  qed (use Js_list(1) json_text_start in auto)
  then show ?case using b by simp
next
  case (Js_obj kvs)
  obtain lws where b: "b = Js_obj lws" using json_text_tag [OF Js_obj(2)] by (cases b) auto
  have "kvs = lws \<and> s = t"
    by (rule members_prefix [OF Js_obj(1)]) (use Js_obj(2) b in simp_all)
  then show ?case using b by simp
qed

text \<open>Two dictionaries of the same canonical text are the same, up to the order of their keys, and
  whatever follows the text.\<close>

lemma json_dumps_determines:
  assumes "json_dumps (Js_obj a) @ s = json_dumps (Js_obj b) @ t"
  shows "sort_keys (Js_obj a) = sort_keys (Js_obj b) \<and> s = t"
  using members_prefix [OF json_text_prefix] assms by (auto simp: json_dumps_def)

end
