(* ===== verification/App_Security.thy ===== *)
theory App_Security
  imports App_Json "HOL-Library.AList"
begin

text \<open>
  \<open>security.py\<close>: who may use the programmer behind Home Assistant. One passphrase kept as a salted
  hash, sessions that die when idle and may write for a quarter of an hour after the passphrase was given
  again, a lockout after five failures, and a log of records each of which commits to the one before.

  The two hash functions of \<open>hashlib\<close> are parameters (\<open>crypto\<close>), and so are the random salts and tokens;
  every theorem holds for all of them. A time is a number of microseconds; the clock of the model is a
  component of the state that moves in \<open>time.sleep\<close> and between the calls. A line of the log is what
  reading it yields: nothing, a dictionary, or an exception (of \<open>json.loads\<close>, or of the dictionary
  operation that follows when the line holds another JSON value).
\<close>

section \<open>Constants and errors\<close>

text \<open>In seconds.\<close>

definition SESSION_TTL :: int where "SESSION_TTL = 15 * 60"
definition STEP_UP_TTL :: int where "STEP_UP_TTL = 15 * 60"
definition LOCKOUT_FAILURES :: nat where "LOCKOUT_FAILURES = 5"
definition LOCKOUT_SECONDS :: int where "LOCKOUT_SECONDS = 15 * 60"
definition FAILURE_DELAY :: int where "FAILURE_DELAY = 1"
definition SCRYPT_N :: int where "SCRYPT_N = 2 ^ 14"

abbreviation seconds :: "int \<Rightarrow> int" where "seconds n \<equiv> n * 1000000"

datatype auth_error =
    Auth_error string
  | Not_set_up string
  | Locked_out string
  | Bad_passphrase string
  | Value_error string

record crypto =
  cr_scrypt :: "string \<Rightarrow> 8 word list \<Rightarrow> 8 word list"
  cr_sha :: "string \<Rightarrow> string"

text \<open>\<open>time.strftime("%Y-%m-%dT%H:%M:%SZ", time.gmtime())\<close>, by the proleptic Gregorian calendar.\<close>

definition civil :: "int \<Rightarrow> int \<times> int \<times> int" where
  "civil days =
     (let z = days + 719468; era = z div 146097; doe = z mod 146097;
          yoe = (doe - doe div 1460 + doe div 36524 - doe div 146096) div 365;
          doy = doe - (365 * yoe + yoe div 4 - yoe div 100);
          mp = (5 * doy + 2) div 153;
          d = doy - (153 * mp + 2) div 5 + 1;
          m = (if mp < 10 then mp + 3 else mp - 9)
      in (yoe + era * 400 + (if m \<le> 2 then 1 else 0), m, d))"

definition iso_utc :: "int \<Rightarrow> string" where
  "iso_utc now =
     (let s = now div 1000000; (y, m, d) = civil (s div 86400); t = s mod 86400
      in fmt_dec 4 y @ ''-'' @ fmt_dec 2 m @ ''-'' @ fmt_dec 2 d @ ''T'' @ fmt_dec 2 (t div 3600) @ '':'' @
         fmt_dec 2 (t div 60 mod 60) @ '':'' @ fmt_dec 2 (t mod 60) @ ''Z'')"

section \<open>The passphrase\<close>

record passphrase_doc =
  pd_salt :: "8 word list"
  pd_hash :: "8 word list"
  pd_n :: int

text \<open>The file, if it exists.\<close>

type_synonym passphrase_file = "passphrase_doc option"

definition pass_is_set :: "passphrase_file \<Rightarrow> bool" where
  "pass_is_set f \<longleftrightarrow> f \<noteq> None"

definition pass_set :: "crypto \<Rightarrow> 8 word list \<Rightarrow> string \<Rightarrow> passphrase_file \<Rightarrow> auth_error + passphrase_file" where
  "pass_set k salt passphrase f =
     (if length passphrase < 12 then Inl (Value_error ''passphrase must be at least 12 characters'')
      else Inr (Some \<lparr>pd_salt = salt, pd_hash = cr_scrypt k passphrase salt, pd_n = SCRYPT_N\<rparr>))"

definition pass_check :: "crypto \<Rightarrow> string \<Rightarrow> passphrase_file \<Rightarrow> auth_error + bool" where
  "pass_check k passphrase f =
     (case f of
        None \<Rightarrow> Inl (Not_set_up ''no passphrase has been set'')
      | Some d \<Rightarrow> Inr (cr_scrypt k passphrase (pd_salt d) = pd_hash d))"

section \<open>Sessions and the lockout\<close>

text \<open>\<open>write_until\<close> is \<open>None\<close> for \<open>float("inf")\<close>.\<close>

record app_session =
  as_token :: string
  as_user_id :: string
  as_user_name :: string
  as_created :: int
  as_last_seen :: int
  as_write_until :: "int option"

definition session_alive :: "app_session \<Rightarrow> int \<Rightarrow> bool" where
  "session_alive s now \<longleftrightarrow> now - as_last_seen s < seconds SESSION_TTL"

definition session_can_write :: "app_session \<Rightarrow> int \<Rightarrow> bool" where
  "session_can_write s now = (case as_write_until s of None \<Rightarrow> True | Some t \<Rightarrow> now < t)"

record lockout =
  lk_failures :: nat
  lk_until :: int

definition lockout_check :: "int \<Rightarrow> lockout \<Rightarrow> auth_error option" where
  "lockout_check now l =
     (if now < lk_until l
      then Some (Locked_out (''locked out for '' @ fmt_dec 0 ((lk_until l - now) div 1000000) @ '' more seconds''))
      else None)"

definition lockout_failed :: "int \<Rightarrow> lockout \<Rightarrow> lockout \<times> bool" where
  "lockout_failed now l =
     (if LOCKOUT_FAILURES \<le> Suc (lk_failures l)
      then (l\<lparr>lk_failures := 0, lk_until := now + seconds LOCKOUT_SECONDS\<rparr>, True)
      else (l\<lparr>lk_failures := Suc (lk_failures l)\<rparr>, False))"

definition lockout_succeeded :: "lockout \<Rightarrow> lockout" where
  "lockout_succeeded l = l\<lparr>lk_failures := 0\<rparr>"

section \<open>The audit log\<close>

datatype log_line = Blank_line | Record_line jobj | Broken_line py_error

record audit_log =
  au_file :: "log_line list option"
  au_last_hash :: string
  au_hooked :: bool
  au_hook_calls :: nat

text \<open>\<open>_tail_hash\<close>: of the last line that is not blank.\<close>

definition tail_hash :: "log_line list option \<Rightarrow> string result" where
  "tail_hash f =
     (case f of
        None \<Rightarrow> Inr []
      | Some ls \<Rightarrow>
          (case filter (\<lambda>l. l \<noteq> Blank_line) ls of
             [] \<Rightarrow> Inr []
           | full \<Rightarrow>
               (case last full of
                  Record_line d \<Rightarrow> Inr (py_str (case map_of d ''hash'' of None \<Rightarrow> Js_str [] | Some v \<Rightarrow> v))
                | Broken_line e \<Rightarrow> Inl e
                | Blank_line \<Rightarrow> Inr [])))"

definition audit_open :: "log_line list option \<Rightarrow> audit_log result" where
  "audit_open f =
     bindr (tail_hash f)
       (\<lambda>h. Inr \<lparr>au_file = f, au_last_hash = h, au_hooked = False, au_hook_calls = 0\<rparr>)"

definition audit_payload :: "jobj \<Rightarrow> string \<Rightarrow> string" where
  "audit_payload content previous = json_dumps (Js_obj content) @ previous"

definition audit_digest :: "crypto \<Rightarrow> jobj \<Rightarrow> string \<Rightarrow> string" where
  "audit_digest k content previous = cr_sha k (audit_payload content previous)"

definition audit_content :: "int \<Rightarrow> string \<Rightarrow> string \<Rightarrow> string \<Rightarrow> jobj \<Rightarrow> string \<Rightarrow> jobj" where
  "audit_content now event user_id user_name details previous =
     [(''time'', Js_str (iso_utc now)), (''event'', Js_str event), (''user_id'', Js_str user_id),
      (''user_name'', Js_str user_name), (''details'', Js_obj details), (''previous'', Js_str previous)]"

text \<open>\<open>record\<close> in the three sections between which another thread may run: the entry, the line
  written, the chain moved on.\<close>

definition record_entry :: "crypto \<Rightarrow> int \<Rightarrow> string \<Rightarrow> string \<Rightarrow> string \<Rightarrow> jobj \<Rightarrow> audit_log \<Rightarrow> jobj" where
  "record_entry k now event user_id user_name details a =
     (let content = audit_content now event user_id user_name details (au_last_hash a)
      in content @ [(''hash'', Js_str (audit_digest k content (au_last_hash a)))])"

definition record_append :: "jobj \<Rightarrow> audit_log \<Rightarrow> audit_log" where
  "record_append entry a =
     a\<lparr>au_file := Some ((case au_file a of None \<Rightarrow> [] | Some ls \<Rightarrow> ls) @ [Record_line entry])\<rparr>"

definition record_finish :: "jobj \<Rightarrow> audit_log \<Rightarrow> audit_log" where
  "record_finish entry a =
     (let a1 = a\<lparr>au_last_hash := (case map_of entry ''hash'' of Some v \<Rightarrow> py_str v | None \<Rightarrow> [])\<rparr>
      in if au_hooked a1 then a1\<lparr>au_hook_calls := Suc (au_hook_calls a1)\<rparr> else a1)"

definition audit_record :: "crypto \<Rightarrow> int \<Rightarrow> string \<Rightarrow> string \<Rightarrow> string \<Rightarrow> jobj \<Rightarrow> audit_log \<Rightarrow> audit_log" where
  "audit_record k now event user_id user_name details a =
     (let entry = record_entry k now event user_id user_name details a
      in record_finish entry (record_append entry a))"

text \<open>\<open>verify\<close>.\<close>

definition without_hash :: "jobj \<Rightarrow> jobj" where
  "without_hash d = filter (\<lambda>kv. fst kv \<noteq> ''hash'') d"

fun verify_lines :: "crypto \<Rightarrow> string \<Rightarrow> nat \<Rightarrow> log_line list \<Rightarrow> (bool \<times> nat) result" where
  "verify_lines k previous n [] = Inr (True, n)"
| "verify_lines k previous n (Blank_line # ls) = verify_lines k previous n ls"
| "verify_lines k previous n (Broken_line e # ls) = Inl e"
| "verify_lines k previous n (Record_line d # ls) =
     (let stored = (case map_of d ''hash'' of None \<Rightarrow> Js_str [] | Some v \<Rightarrow> v); entry = without_hash d
      in if map_of entry ''previous'' \<noteq> Some (Js_str previous)
            \<or> Js_str (audit_digest k entry previous) \<noteq> stored
         then Inr (False, Suc n)
         else verify_lines k (audit_digest k entry previous) (Suc n) ls)"

definition audit_verify :: "crypto \<Rightarrow> audit_log \<Rightarrow> (bool \<times> nat) result" where
  "audit_verify k a = (case au_file a of None \<Rightarrow> Inr (True, 0) | Some ls \<Rightarrow> verify_lines k [] 0 ls)"

section \<open>Access control\<close>

record access =
  ac_allowed :: "string list"
  ac_pass :: passphrase_file
  ac_audit :: audit_log
  ac_sessions :: "(string \<times> app_session) list"
  ac_lockout :: lockout
  ac_clock :: int

definition access_init :: "string list \<Rightarrow> passphrase_file \<Rightarrow> log_line list option \<Rightarrow> int \<Rightarrow> access result" where
  "access_init allowed pass_file log_file now =
     bindr (audit_open log_file)
       (\<lambda>log. Inr \<lparr>ac_allowed = allowed, ac_pass = pass_file, ac_audit = log, ac_sessions = [],
                    ac_lockout = \<lparr>lk_failures = 0, lk_until = 0\<rparr>, ac_clock = now\<rparr>)"

definition user_allowed :: "string \<Rightarrow> access \<Rightarrow> bool" where
  "user_allowed user_id ac \<longleftrightarrow> user_id \<noteq> [] \<and> user_id \<in> set (ac_allowed ac)"

text \<open>\<open>self.audit.record(...)\<close> at the present time.\<close>

definition note_event :: "crypto \<Rightarrow> string \<Rightarrow> string \<Rightarrow> string \<Rightarrow> jobj \<Rightarrow> access \<Rightarrow> access" where
  "note_event k event user_id user_name details ac =
     ac\<lparr>ac_audit := audit_record k (ac_clock ac) event user_id user_name details (ac_audit ac)\<rparr>"

definition ac_setup ::
    "crypto \<Rightarrow> 8 word list \<Rightarrow> string \<Rightarrow> string \<Rightarrow> string \<Rightarrow> access \<Rightarrow> access \<times> (auth_error + unit)" where
  "ac_setup k salt user_id user_name passphrase ac =
     (if pass_is_set (ac_pass ac) then (ac, Inl (Auth_error ''a passphrase is already set; rotate it instead''))
      else case pass_set k salt passphrase (ac_pass ac) of
             Inl e \<Rightarrow> (ac, Inl e)
           | Inr f \<Rightarrow> (note_event k ''setup'' user_id user_name [] (ac\<lparr>ac_pass := f\<rparr>), Inr ()))"

text \<open>\<open>_check\<close>: the part before the failure delay, and the part after it.\<close>

definition check_begin ::
    "crypto \<Rightarrow> string \<Rightarrow> string \<Rightarrow> string \<Rightarrow> access \<Rightarrow> access \<times> (auth_error + bool)" where
  "check_begin k user_id user_name passphrase ac =
     (case lockout_check (ac_clock ac) (ac_lockout ac) of
        Some e \<Rightarrow> (ac, Inl e)
      | None \<Rightarrow>
          (case pass_check k passphrase (ac_pass ac) of
             Inl e \<Rightarrow> (note_event k ''login_failed'' user_id user_name [(''reason'', Js_str ''not set up'')] ac, Inl e)
           | Inr True \<Rightarrow> (ac\<lparr>ac_lockout := lockout_succeeded (ac_lockout ac)\<rparr>, Inr True)
           | Inr False \<Rightarrow> (ac, Inr False)))"

definition check_failed ::
    "crypto \<Rightarrow> int \<Rightarrow> string \<Rightarrow> string \<Rightarrow> string \<Rightarrow> access \<Rightarrow> access \<times> auth_error" where
  "check_failed k now user_id user_name purpose ac =
     (let (l, locked) = lockout_failed now (ac_lockout ac);
          ac1 = note_event k ''login_failed'' user_id user_name [(''purpose'', Js_str purpose)] (ac\<lparr>ac_lockout := l\<rparr>)
      in if locked
         then (note_event k ''lockout'' user_id user_name [(''seconds'', Js_int LOCKOUT_SECONDS)] ac1,
               Locked_out ''too many failures; locked out'')
         else (ac1, Bad_passphrase ''wrong passphrase''))"

definition time_sleep :: "int \<Rightarrow> access \<Rightarrow> access" where
  "time_sleep d ac = ac\<lparr>ac_clock := ac_clock ac + d\<rparr>"

definition ac_check ::
    "crypto \<Rightarrow> string \<Rightarrow> string \<Rightarrow> string \<Rightarrow> string \<Rightarrow> access \<Rightarrow> access \<times> auth_error option" where
  "ac_check k user_id user_name passphrase purpose ac =
     (case check_begin k user_id user_name passphrase ac of
        (ac1, Inl e) \<Rightarrow> (ac1, Some e)
      | (ac1, Inr True) \<Rightarrow> (ac1, None)
      | (ac1, Inr False) \<Rightarrow>
          (case check_failed k (ac_clock ac) user_id user_name purpose (time_sleep (seconds FAILURE_DELAY) ac1) of
             (ac2, e) \<Rightarrow> (ac2, Some e)))"

definition ac_rotate ::
    "crypto \<Rightarrow> 8 word list \<Rightarrow> app_session \<Rightarrow> string \<Rightarrow> string \<Rightarrow> access \<Rightarrow> access \<times> (auth_error + unit)" where
  "ac_rotate k salt session current new_pass ac =
     (case ac_check k (as_user_id session) (as_user_name session) current ''rotate'' ac of
        (ac1, Some e) \<Rightarrow> (ac1, Inl e)
      | (ac1, None) \<Rightarrow>
          (case pass_set k salt new_pass (ac_pass ac1) of
             Inl e \<Rightarrow> (ac1, Inl e)
           | Inr f \<Rightarrow> (note_event k ''rotate'' (as_user_id session) (as_user_name session) [] (ac1\<lparr>ac_pass := f\<rparr>), Inr ())))"

definition ac_login ::
    "crypto \<Rightarrow> string \<Rightarrow> string \<Rightarrow> string \<Rightarrow> string \<Rightarrow> access \<Rightarrow> access \<times> (auth_error + app_session)" where
  "ac_login k token user_id user_name passphrase ac =
     (case ac_check k user_id user_name passphrase ''login'' ac of
        (ac1, Some e) \<Rightarrow> (ac1, Inl e)
      | (ac1, None) \<Rightarrow>
          (let now = ac_clock ac1;
               session = \<lparr>as_token = token, as_user_id = user_id, as_user_name = user_name,
                          as_created = now, as_last_seen = now, as_write_until = Some 0\<rparr>
           in (note_event k ''login'' user_id user_name []
                 (ac1\<lparr>ac_sessions := AList.update token session (ac_sessions ac1)\<rparr>), Inr session)))"

text \<open>The session objects live in the dictionary: assigning an attribute of one that is still there.\<close>

definition set_session :: "string \<Rightarrow> (app_session \<Rightarrow> app_session) \<Rightarrow> access \<Rightarrow> access" where
  "set_session token f ac =
     ac\<lparr>ac_sessions := AList.map_entry token f (ac_sessions ac)\<rparr>"

definition ac_resolve :: "crypto \<Rightarrow> string option \<Rightarrow> string \<Rightarrow> access \<Rightarrow> access \<times> app_session option" where
  "ac_resolve k token user_id ac =
     (if token = None \<or> token = Some [] then (ac, None)
      else let t = the token; now = ac_clock ac in
        case map_of (ac_sessions ac) t of
          None \<Rightarrow> (ac, None)
        | Some s \<Rightarrow>
            if \<not> session_alive s now then (ac\<lparr>ac_sessions := AList.delete t (ac_sessions ac)\<rparr>, None)
            else if as_user_id s \<noteq> user_id
              then (note_event k ''session_user_mismatch'' user_id [] [(''session_user'', Js_str (as_user_id s))] ac, None)
            else (set_session t (\<lambda>x. x\<lparr>as_last_seen := now\<rparr>) ac, Some (s\<lparr>as_last_seen := now\<rparr>)))"

definition ac_step_up ::
    "crypto \<Rightarrow> app_session \<Rightarrow> string \<Rightarrow> access \<Rightarrow> access \<times> (auth_error + unit)" where
  "ac_step_up k session passphrase ac =
     (case ac_check k (as_user_id session) (as_user_name session) passphrase ''step_up'' ac of
        (ac1, Some e) \<Rightarrow> (ac1, Inl e)
      | (ac1, None) \<Rightarrow>
          (note_event k ''step_up'' (as_user_id session) (as_user_name session) []
             (set_session (as_token session) (\<lambda>x. x\<lparr>as_write_until := Some (ac_clock ac1 + seconds STEP_UP_TTL)\<rparr>) ac1),
           Inr ()))"

definition ac_logout :: "crypto \<Rightarrow> app_session \<Rightarrow> access \<Rightarrow> access" where
  "ac_logout k session ac =
     note_event k ''logout'' (as_user_id session) (as_user_name session) []
       (ac\<lparr>ac_sessions := AList.delete (as_token session) (ac_sessions ac)\<rparr>)"

text \<open>\<open>None\<close> is \<open>float("inf")\<close>.\<close>

definition idle_time :: "access \<Rightarrow> int option" where
  "idle_time ac =
     (let now = ac_clock ac; live = map as_last_seen (filter (\<lambda>s. session_alive s now) (map snd (ac_sessions ac)))
      in if live = [] then None else Some (now - Max (set live)))"

section \<open>Sequences of calls\<close>

text \<open>What a running service does with its access control. The methods that take a session get one of
  the dictionary; \<open>Note\<close> is any other record of the log, \<open>Wait\<close> the time between two calls.\<close>

datatype access_call =
    Setup "8 word list" string string string
  | Rotate "8 word list" string string string
  | Login string string string string
  | Resolve "string option" string
  | Step_up string string
  | Logout string
  | Note string string string jobj
  | Wait nat

definition with_session :: "string \<Rightarrow> access \<Rightarrow> (app_session \<Rightarrow> access) \<Rightarrow> access" where
  "with_session token ac f = (case map_of (ac_sessions ac) token of None \<Rightarrow> ac | Some s \<Rightarrow> f s)"

fun call_step :: "crypto \<Rightarrow> access_call \<Rightarrow> access \<Rightarrow> access" where
  "call_step k (Setup salt user_id user_name pw) ac = fst (ac_setup k salt user_id user_name pw ac)"
| "call_step k (Rotate salt token cur new) ac = with_session token ac (\<lambda>s. fst (ac_rotate k salt s cur new ac))"
| "call_step k (Login token user_id user_name pw) ac = fst (ac_login k token user_id user_name pw ac)"
| "call_step k (Resolve token user_id) ac = fst (ac_resolve k token user_id ac)"
| "call_step k (Step_up token pw) ac = with_session token ac (\<lambda>s. fst (ac_step_up k s pw ac))"
| "call_step k (Logout token) ac = with_session token ac (\<lambda>s. ac_logout k s ac)"
| "call_step k (Note event user_id user_name details) ac = note_event k event user_id user_name details ac"
| "call_step k (Wait d) ac = time_sleep (int d) ac"

definition run_calls :: "crypto \<Rightarrow> access_call list \<Rightarrow> access \<Rightarrow> access" where
  "run_calls k calls ac = foldl (\<lambda>a c. call_step k c a) ac calls"

lemma run_calls_simps [simp]:
  "run_calls k [] ac = ac"
  "run_calls k (c # cs) ac = run_calls k cs (call_step k c ac)"
  "run_calls k (cs @ ds) ac = run_calls k ds (run_calls k cs ac)"
  by (simp_all add: run_calls_def)

text \<open>The passphrase was compared in a call, and with which result.\<close>

fun guess_of :: "access_call \<Rightarrow> access \<Rightarrow> string option" where
  "guess_of (Rotate salt token cur new) ac = map_option (\<lambda>s. cur) (map_of (ac_sessions ac) token)"
| "guess_of (Login token user_id user_name pw) ac = Some pw"
| "guess_of (Step_up token pw) ac = map_option (\<lambda>s. pw) (map_of (ac_sessions ac) token)"
| "guess_of c ac = None"

definition right_pass :: "crypto \<Rightarrow> string \<Rightarrow> access \<Rightarrow> bool" where
  "right_pass k pw ac = (pass_check k pw (ac_pass ac) = Inr True)"

definition compared :: "crypto \<Rightarrow> access_call \<Rightarrow> access \<Rightarrow> bool option" where
  "compared k c ac =
     (case guess_of c ac of
        None \<Rightarrow> None
      | Some pw \<Rightarrow> if ac_clock ac < lk_until (ac_lockout ac) \<or> ac_pass ac = None then None
                   else Some (right_pass k pw ac))"

text \<open>How often a wrong passphrase, or the right one, was compared in a run.\<close>

fun count_compared :: "crypto \<Rightarrow> bool \<Rightarrow> access_call list \<Rightarrow> access \<Rightarrow> nat" where
  "count_compared k b [] ac = 0"
| "count_compared k b (c # cs) ac =
     (if compared k c ac = Some b then 1 else 0) + count_compared k b cs (call_step k c ac)"

section \<open>What the operations change\<close>

lemma note_event_sel [simp]:
  "ac_allowed (note_event k ev u n d ac) = ac_allowed ac" "ac_pass (note_event k ev u n d ac) = ac_pass ac"
  "ac_sessions (note_event k ev u n d ac) = ac_sessions ac" "ac_lockout (note_event k ev u n d ac) = ac_lockout ac"
  "ac_clock (note_event k ev u n d ac) = ac_clock ac"
  by (simp_all add: note_event_def)

lemma time_sleep_sel [simp]:
  "ac_pass (time_sleep d ac) = ac_pass ac" "ac_sessions (time_sleep d ac) = ac_sessions ac"
  "ac_lockout (time_sleep d ac) = ac_lockout ac" "ac_audit (time_sleep d ac) = ac_audit ac"
  "ac_clock (time_sleep d ac) = ac_clock ac + d"
  by (simp_all add: time_sleep_def)

lemma set_session_sel [simp]:
  "ac_pass (set_session t f ac) = ac_pass ac" "ac_lockout (set_session t f ac) = ac_lockout ac"
  "ac_audit (set_session t f ac) = ac_audit ac" "ac_clock (set_session t f ac) = ac_clock ac"
  "map_of (ac_sessions (set_session t f ac)) u =
     (if u = t then map_option f (map_of (ac_sessions ac) u) else map_of (ac_sessions ac) u)"
  by (simp_all add: set_session_def map_of_map_entry map_option_case)

text \<open>A check leaves the sessions and the passphrase alone; it succeeds on the right passphrase only.\<close>

lemma check_keeps:
  assumes "ac_check k u n pw p ac = (ac', r)"
  shows "ac_sessions ac' = ac_sessions ac" "ac_pass ac' = ac_pass ac"
    "ac_clock ac \<le> ac_clock ac'" "r = None \<Longrightarrow> ac_clock ac' = ac_clock ac"
    "r = None \<longleftrightarrow> \<not> ac_clock ac < lk_until (ac_lockout ac) \<and> right_pass k pw ac"
  using assms
  by (auto simp: ac_check_def check_begin_def check_failed_def lockout_check_def right_pass_def pass_check_def Let_def FAILURE_DELAY_def
      split: option.splits bool.splits prod.splits if_splits sum.splits)

text \<open>What a check does to the lockout.\<close>

definition lockout_after :: "crypto \<Rightarrow> string \<Rightarrow> access \<Rightarrow> lockout" where
  "lockout_after k pw ac =
     (if ac_clock ac < lk_until (ac_lockout ac) \<or> ac_pass ac = None then ac_lockout ac
      else if right_pass k pw ac then (ac_lockout ac)\<lparr>lk_failures := 0\<rparr>
      else fst (lockout_failed (ac_clock ac) (ac_lockout ac)))"

lemma check_lockout:
  assumes "ac_check k u n pw p ac = (ac', r)"
  shows "ac_lockout ac' = lockout_after k pw ac"
  using assms
  by (auto simp: ac_check_def check_begin_def check_failed_def lockout_check_def right_pass_def pass_check_def Let_def
      lockout_after_def lockout_succeeded_def
      split: option.splits bool.splits prod.splits if_splits)

lemma setup_keeps: "ac_lockout (fst (ac_setup k salt u n pw ac)) = ac_lockout ac"
    "ac_sessions (fst (ac_setup k salt u n pw ac)) = ac_sessions ac"
    "ac_clock (fst (ac_setup k salt u n pw ac)) = ac_clock ac"
  by (simp_all add: ac_setup_def split: sum.splits)

lemma resolve_keeps:
    "ac_lockout (fst (ac_resolve k t u ac)) = ac_lockout ac" "ac_pass (fst (ac_resolve k t u ac)) = ac_pass ac"
    "ac_clock (fst (ac_resolve k t u ac)) = ac_clock ac"
  by (simp_all add: ac_resolve_def Let_def split: option.splits)

lemma logout_keeps [simp]:
  "ac_lockout (ac_logout k s ac) = ac_lockout ac" "ac_pass (ac_logout k s ac) = ac_pass ac"
  "ac_clock (ac_logout k s ac) = ac_clock ac"
  by (simp_all add: ac_logout_def)

text \<open>The three operations that check the passphrase, by the result of the check.\<close>

lemma login_cases:
  assumes "ac_check k u n pw ''login'' ac = (ac1, r)"
  shows "ac_login k token u n pw ac =
    (case r of
       Some e \<Rightarrow> (ac1, Inl e)
     | None \<Rightarrow>
         (let s = \<lparr>as_token = token, as_user_id = u, as_user_name = n, as_created = ac_clock ac1,
                   as_last_seen = ac_clock ac1, as_write_until = Some 0\<rparr>
          in (note_event k ''login'' u n [] (ac1\<lparr>ac_sessions := AList.update token s (ac_sessions ac1)\<rparr>), Inr s)))"
  using assms by (simp add: ac_login_def Let_def split: option.split)

lemma guess_lockout:
  "ac_lockout (fst (ac_login k token u n pw ac)) = lockout_after k pw ac"
  "ac_lockout (fst (ac_step_up k s pw ac)) = lockout_after k pw ac"
  "ac_lockout (fst (ac_rotate k salt s pw new ac)) = lockout_after k pw ac"
  by (auto simp: ac_login_def ac_step_up_def ac_rotate_def Let_def dest!: check_lockout
      split: prod.split option.split sum.split)

lemma guess_clock:
  "ac_clock ac \<le> ac_clock (fst (ac_login k token u n pw ac))"
  "ac_clock ac \<le> ac_clock (fst (ac_step_up k s pw ac))"
  "ac_clock ac \<le> ac_clock (fst (ac_rotate k salt s pw new ac))"
  by (auto simp: ac_login_def ac_step_up_def ac_rotate_def Let_def dest!: check_keeps(3)
      split: prod.split option.split sum.split)

lemma call_lockout:
  "ac_lockout (call_step k c ac) =
     (case guess_of c ac of None \<Rightarrow> ac_lockout ac | Some pw \<Rightarrow> lockout_after k pw ac)"
  by (cases c) (simp_all add: with_session_def guess_lockout setup_keeps resolve_keeps split: option.split)

lemma call_clock: "ac_clock ac \<le> ac_clock (call_step k c ac)"
  by (cases c) (simp_all add: with_session_def guess_clock setup_keeps resolve_keeps split: option.split)

lemma run_clock: "ac_clock ac \<le> ac_clock (run_calls k calls ac)"
  by (induction calls arbitrary: ac) (auto intro: order_trans call_clock)

section \<open>The lockout limits guessing\<close>

text \<open>After \<open>n\<close> wrong guesses since the time \<open>t0\<close>, of which \<open>l\<close> fives led to a lockout.\<close>

definition guess_state :: "int \<Rightarrow> nat \<Rightarrow> nat \<Rightarrow> access \<Rightarrow> bool" where
  "guess_state t0 n l ac \<longleftrightarrow>
     n = LOCKOUT_FAILURES * l + lk_failures (ac_lockout ac) \<and> lk_failures (ac_lockout ac) < LOCKOUT_FAILURES \<and>
     t0 \<le> ac_clock ac \<and>
     (0 < l \<longrightarrow> t0 + seconds LOCKOUT_SECONDS * int l \<le> lk_until (ac_lockout ac)) \<and>
     (0 < l \<longrightarrow> t0 + seconds LOCKOUT_SECONDS * (int l - 1) \<le> ac_clock ac) \<and>
     (0 < lk_failures (ac_lockout ac) \<longrightarrow> t0 + seconds LOCKOUT_SECONDS * int l \<le> ac_clock ac)"

definition guesses_ok :: "int \<Rightarrow> nat \<Rightarrow> access \<Rightarrow> bool" where
  "guesses_ok t0 n ac \<longleftrightarrow> (\<exists>l. guess_state t0 n l ac)"

lemma guess_state_wait:
  assumes state: "guess_state t0 n l ac" and same: "ac_lockout ac' = ac_lockout ac" and later: "ac_clock ac \<le> ac_clock ac'"
  shows "guess_state t0 n l ac'"
  using state later unfolding guess_state_def same by (elim conjE) (intro conjI impI; simp)

lemma guesses_ok_wait:
  "guesses_ok t0 n ac \<Longrightarrow> ac_lockout ac' = ac_lockout ac \<Longrightarrow> ac_clock ac \<le> ac_clock ac' \<Longrightarrow> guesses_ok t0 n ac'"
  unfolding guesses_ok_def using guess_state_wait by blast

lemma guesses_ok_wrong:
  assumes ok: "guesses_ok t0 n ac"
    and now: "lk_until (ac_lockout ac) \<le> ac_clock ac" "ac_clock ac \<le> ac_clock ac'"
    and failed: "ac_lockout ac' = fst (lockout_failed (ac_clock ac) (ac_lockout ac))"
  shows "guesses_ok t0 (Suc n) ac'"
proof -
  obtain l where l: "n = LOCKOUT_FAILURES * l + lk_failures (ac_lockout ac)" "lk_failures (ac_lockout ac) < LOCKOUT_FAILURES"
    "t0 \<le> ac_clock ac"
    "0 < l \<longrightarrow> t0 + seconds LOCKOUT_SECONDS * int l \<le> lk_until (ac_lockout ac)"
    using ok unfolding guesses_ok_def guess_state_def by blast
  then have since: "t0 + seconds LOCKOUT_SECONDS * int l \<le> ac_clock ac" using now by (cases "l = 0") auto
  show ?thesis
  proof (cases "LOCKOUT_FAILURES \<le> Suc (lk_failures (ac_lockout ac))")
    case True
    then have "Suc n = LOCKOUT_FAILURES * Suc l" "lk_failures (ac_lockout ac') = 0"
      "lk_until (ac_lockout ac') = ac_clock ac + seconds LOCKOUT_SECONDS"
      using l failed by (simp_all add: lockout_failed_def)
    then show ?thesis using since l(3) now(2) unfolding guesses_ok_def guess_state_def
      by (intro exI [of _ "Suc l"]) (simp add: LOCKOUT_FAILURES_def algebra_simps)
  next
    case False
    then have "lk_failures (ac_lockout ac') = Suc (lk_failures (ac_lockout ac))"
      "lk_until (ac_lockout ac') = lk_until (ac_lockout ac)"
      using failed by (simp_all add: lockout_failed_def)
    then show ?thesis using since l now False unfolding guesses_ok_def guess_state_def
      by (intro exI [of _ l]) (auto simp: LOCKOUT_SECONDS_def)
  qed
qed

lemma run_guesses:
  "guesses_ok t0 n ac \<Longrightarrow> count_compared k True calls ac = 0 \<Longrightarrow>
   guesses_ok t0 (n + count_compared k False calls ac) (run_calls k calls ac)"
proof (induction calls arbitrary: n ac)
  case (Cons c cs)
  let ?ac = "call_step k c ac"
  have right: "compared k c ac \<noteq> Some True" "count_compared k True cs ?ac = 0"
    using Cons.prems(2) by (simp_all split: if_splits)
  have step: "guesses_ok t0 (n + (if compared k c ac = Some False then 1 else 0)) ?ac"
  proof (cases "compared k c ac = Some False")
    case True
    then have "lk_until (ac_lockout ac) \<le> ac_clock ac"
      "ac_lockout ?ac = fst (lockout_failed (ac_clock ac) (ac_lockout ac))"
      by (auto simp: compared_def call_lockout lockout_after_def split: option.splits if_splits)
    then show ?thesis using guesses_ok_wrong [OF Cons.prems(1) _ call_clock] True by simp
  next
    case False
    then have "ac_lockout ?ac = ac_lockout ac"
      using right(1) by (auto simp: compared_def call_lockout lockout_after_def split: option.splits if_splits)
    then show ?thesis using guesses_ok_wait [OF Cons.prems(1) _ call_clock] False by simp
  qed
  show ?case using Cons.IH [OF step right(2)] by (simp add: add.assoc)
qed simp

lemma guesses_bound:
  assumes "guesses_ok t0 n ac"
  shows "int n \<le> 5 * ((ac_clock ac - t0) div seconds LOCKOUT_SECONDS) + 5"
proof -
  obtain l where l: "n = 5 * l + lk_failures (ac_lockout ac)" "lk_failures (ac_lockout ac) < 5" "t0 \<le> ac_clock ac"
    "0 < l \<longrightarrow> t0 + seconds LOCKOUT_SECONDS * (int l - 1) \<le> ac_clock ac"
    "0 < lk_failures (ac_lockout ac) \<longrightarrow> t0 + seconds LOCKOUT_SECONDS * int l \<le> ac_clock ac"
    using assms unfolding guesses_ok_def guess_state_def by (auto simp: LOCKOUT_FAILURES_def)
  let ?f = "int (lk_failures (ac_lockout ac))" and ?q = "(ac_clock ac - t0) div seconds LOCKOUT_SECONDS"
  have q: "m * seconds LOCKOUT_SECONDS \<le> ac_clock ac - t0 \<Longrightarrow> m \<le> ?q" for m
    using zdiv_mono1 [of "m * seconds LOCKOUT_SECONDS" "ac_clock ac - t0" "seconds LOCKOUT_SECONDS"]
    by (simp add: LOCKOUT_SECONDS_def)
  have "0 \<le> ?q" using q [of 0] l(3) by simp
  show ?thesis
  proof (cases "lk_failures (ac_lockout ac) = 0")
    case True
    have "int l - 1 \<le> ?q" using q [of "int l - 1"] l(4) \<open>0 \<le> ?q\<close> by (cases "l = 0") (auto simp: algebra_simps)
    then show ?thesis using l(1) True by simp
  next
    case False
    then have "int l \<le> ?q" using q [of "int l"] l(5) by (simp add: algebra_simps)
    then show ?thesis using l(1,2) by simp
  qed
qed

section \<open>How a session got its rights\<close>

definition tokens_ok :: "access \<Rightarrow> bool" where
  "tokens_ok ac \<longleftrightarrow> (\<forall>t s. map_of (ac_sessions ac) t = Some s \<longrightarrow> as_token s = t)"

text \<open>Where a session of the dictionary comes from in one call: it was there, perhaps stepped up by the
  call, or the call opened it.\<close>

definition kept_from :: "access_call \<Rightarrow> crypto \<Rightarrow> access \<Rightarrow> string \<Rightarrow> app_session \<Rightarrow> bool" where
  "kept_from c k ac t s' \<longleftrightarrow>
     (\<exists>s. map_of (ac_sessions ac) t = Some s \<and> as_user_id s' = as_user_id s \<and> as_token s' = as_token s \<and>
        (as_write_until s' = as_write_until s \<or>
         (\<exists>pw. c = Step_up t pw \<and> compared k c ac = Some True \<and>
               as_write_until s' = Some (ac_clock ac + seconds STEP_UP_TTL))))"

definition opened_by :: "access_call \<Rightarrow> crypto \<Rightarrow> access \<Rightarrow> string \<Rightarrow> app_session \<Rightarrow> bool" where
  "opened_by c k ac t s' \<longleftrightarrow>
     (\<exists>u n pw. c = Login t u n pw \<and> compared k c ac = Some True \<and> as_token s' = t \<and> as_user_id s' = u \<and>
        as_write_until s' = Some 0)"

lemma kept_same: "map_of (ac_sessions ac) t = Some s \<Longrightarrow> kept_from c k ac t s"
  unfolding kept_from_def by blast

lemma compared_True:
  assumes "guess_of c ac = Some pw" "ac_check k u n pw p ac = (ac1, None)"
  shows "compared k c ac = Some True"
proof -
  have "\<not> ac_clock ac < lk_until (ac_lockout ac)" "right_pass k pw ac"
    using check_keeps(5) [OF assms(2)] by simp_all
  moreover have "ac_pass ac \<noteq> None" using \<open>right_pass k pw ac\<close> by (auto simp: right_pass_def pass_check_def split: option.splits)
  ultimately show ?thesis using assms(1) by (simp add: compared_def)
qed

lemma login_sessions:
  assumes "map_of (ac_sessions (fst (ac_login k token u n pw ac))) t = Some s'"
  shows "kept_from (Login token u n pw) k ac t s' \<or> opened_by (Login token u n pw) k ac t s'"
proof -
  obtain ac1 r where check: "ac_check k u n pw ''login'' ac = (ac1, r)" by fastforce
  note keeps = check_keeps [OF check]
  show ?thesis
  proof (cases r)
    case None
    have "compared k (Login token u n pw) ac = Some True"
      by (rule compared_True [of _ _ pw]) (use check None in simp_all)
    then show ?thesis using assms keeps(1) None login_cases [OF check, of token]
      by (cases "t = token") (auto simp: Let_def update_conv opened_by_def intro: kept_same)
  next
    case (Some e)
    then show ?thesis using assms keeps(1) login_cases [OF check, of token] by (simp add: kept_same)
  qed
qed

lemma step_up_sessions:
  assumes "tokens_ok ac" "map_of (ac_sessions ac) token = Some s"
    and "map_of (ac_sessions (fst (ac_step_up k s pw ac))) t = Some s'"
  shows "kept_from (Step_up token pw) k ac t s'"
proof -
  obtain ac1 r where check: "ac_check k (as_user_id s) (as_user_name s) pw ''step_up'' ac = (ac1, r)" by fastforce
  note keeps = check_keeps [OF check]
  have token: "as_token s = token" using assms(1,2) by (simp add: tokens_ok_def)
  show ?thesis
  proof (cases r)
    case None
    have "compared k (Step_up token pw) ac = Some True"
      by (rule compared_True [of _ _ pw]) (use check None assms(2) in simp_all)
    then show ?thesis
      using assms(2,3) keeps(1) keeps(4) [OF None] check None token
      by (cases "t = token") (auto simp: ac_step_up_def kept_from_def)
  next
    case (Some e)
    then show ?thesis using assms(3) keeps(1) check by (simp add: ac_step_up_def kept_same)
  qed
qed

lemma rotate_sessions:
  "ac_sessions (fst (ac_rotate k salt s cur new ac)) = ac_sessions ac"
  by (auto simp: ac_rotate_def dest!: check_keeps(1) split: prod.split option.split sum.split)

lemma resolve_sessions:
  "map_of (ac_sessions (fst (ac_resolve k token u ac))) t = Some s' \<Longrightarrow> kept_from (Resolve token u) k ac t s'"
  by (auto simp: ac_resolve_def Let_def kept_from_def delete_conv' split: if_splits option.splits)

lemma call_sessions:
  assumes ok: "tokens_ok ac" and s': "map_of (ac_sessions (call_step k c ac)) t = Some s'"
  shows "kept_from c k ac t s' \<or> opened_by c k ac t s'"
proof (cases c)
  case (Login token u n pw)
  then show ?thesis using login_sessions s' by simp
next
  case (Resolve token u)
  then show ?thesis using resolve_sessions s' by simp
next
  case (Step_up token pw)
  then show ?thesis using s' step_up_sessions [OF ok]
    by (auto simp: with_session_def kept_same split: option.splits)
next
  case (Logout token)
  then show ?thesis using s'
    by (auto simp: with_session_def ac_logout_def delete_conv' intro: kept_same split: option.splits if_splits)
next
  case (Rotate salt token cur new)
  then show ?thesis using s'
    by (auto simp: with_session_def rotate_sessions intro: kept_same split: option.splits)
qed (use s' in \<open>auto simp: setup_keeps intro: kept_same\<close>)

text \<open>What the calls so far say about a session.\<close>

definition logged_in_by :: "crypto \<Rightarrow> access \<Rightarrow> access_call list \<Rightarrow> string \<Rightarrow> string \<Rightarrow> bool" where
  "logged_in_by k ac calls t u \<longleftrightarrow>
     (\<exists>pre n pw post. calls = pre @ Login t u n pw # post \<and>
        compared k (Login t u n pw) (run_calls k pre ac) = Some True)"

definition stepped_up_at :: "crypto \<Rightarrow> access \<Rightarrow> access_call list \<Rightarrow> string \<Rightarrow> int \<Rightarrow> bool" where
  "stepped_up_at k ac calls t time \<longleftrightarrow>
     (\<exists>pre pw post. calls = pre @ Step_up t pw # post \<and>
        compared k (Step_up t pw) (run_calls k pre ac) = Some True \<and> ac_clock (run_calls k pre ac) = time)"

lemma logged_in_snoc: "logged_in_by k ac calls t u \<Longrightarrow> logged_in_by k ac (calls @ [c]) t u"
  unfolding logged_in_by_def by (metis append_Cons append_assoc)

lemma stepped_up_snoc: "stepped_up_at k ac calls t w \<Longrightarrow> stepped_up_at k ac (calls @ [c]) t w"
  unfolding stepped_up_at_def by (metis append_Cons append_assoc)

definition session_earned :: "crypto \<Rightarrow> access \<Rightarrow> access_call list \<Rightarrow> string \<Rightarrow> app_session \<Rightarrow> bool" where
  "session_earned k ac calls t s \<longleftrightarrow>
     as_token s = t \<and> logged_in_by k ac calls t (as_user_id s) \<and>
     (\<exists>w. as_write_until s = Some w \<and> (w = 0 \<or> stepped_up_at k ac calls t (w - seconds STEP_UP_TTL)))"

lemma kept_earned:
  assumes kept: "kept_from c k (run_calls k calls ac) t s'"
    and earned: "\<And>s. map_of (ac_sessions (run_calls k calls ac)) t = Some s \<Longrightarrow> session_earned k ac calls t s"
  shows "session_earned k ac (calls @ [c]) t s'"
proof -
  let ?now = "run_calls k calls ac"
  obtain s where s: "map_of (ac_sessions ?now) t = Some s" "as_user_id s' = as_user_id s" "as_token s' = as_token s"
    and w: "as_write_until s' = as_write_until s \<or>
        (\<exists>pw. c = Step_up t pw \<and> compared k c ?now = Some True \<and>
               as_write_until s' = Some (ac_clock ?now + seconds STEP_UP_TTL))"
    using kept unfolding kept_from_def by blast
  have e: "session_earned k ac calls t s" by (rule earned [OF s(1)])
  have "\<exists>w. as_write_until s' = Some w \<and> (w = 0 \<or> stepped_up_at k ac (calls @ [c]) t (w - seconds STEP_UP_TTL))"
    using w
  proof
    assume "as_write_until s' = as_write_until s"
    then show ?thesis using e stepped_up_snoc unfolding session_earned_def by auto
  next
    assume "\<exists>pw. c = Step_up t pw \<and> compared k c ?now = Some True \<and>
               as_write_until s' = Some (ac_clock ?now + seconds STEP_UP_TTL)"
    then have "stepped_up_at k ac (calls @ [c]) t (ac_clock ?now)"
      "as_write_until s' = Some (ac_clock ?now + seconds STEP_UP_TTL)"
      unfolding stepped_up_at_def by auto
    then show ?thesis by simp
  qed
  then show ?thesis using e s(2,3) logged_in_snoc unfolding session_earned_def by auto
qed

lemma opened_earned:
  assumes "opened_by c k (run_calls k calls ac) t s'"
  shows "session_earned k ac (calls @ [c]) t s'"
  using assms unfolding opened_by_def session_earned_def logged_in_by_def by auto

lemma sessions_earned:
  assumes "ac_sessions ac = []"
  shows "map_of (ac_sessions (run_calls k calls ac)) t = Some s \<Longrightarrow> session_earned k ac calls t s"
proof (induction calls arbitrary: t s rule: rev_induct)
  case Nil
  then show ?case using assms by simp
next
  case (snoc c calls)
  have "tokens_ok (run_calls k calls ac)"
    unfolding tokens_ok_def using snoc.IH unfolding session_earned_def by blast
  then have "kept_from c k (run_calls k calls ac) t s \<or> opened_by c k (run_calls k calls ac) t s"
    by (rule call_sessions) (use snoc.prems in simp)
  then show ?case using kept_earned snoc.IH opened_earned by blast
qed

section \<open>The chain of the audit log\<close>

definition log_lines :: "audit_log \<Rightarrow> log_line list" where
  "log_lines a = (case au_file a of None \<Rightarrow> [] | Some ls \<Rightarrow> ls)"

definition stored_hash :: "jobj \<Rightarrow> json" where
  "stored_hash d = (case map_of d ''hash'' of None \<Rightarrow> Js_str [] | Some v \<Rightarrow> v)"

text \<open>The records of a file.\<close>

fun records :: "log_line list \<Rightarrow> jobj list" where
  "records [] = []"
| "records (Record_line d # ls) = d # records ls"
| "records (l # ls) = records ls"

text \<open>Each record names the hash before it and carries its own.\<close>

fun chained :: "crypto \<Rightarrow> string \<Rightarrow> jobj list \<Rightarrow> bool" where
  "chained k p [] = True"
| "chained k p (d # ds) =
     (map_of (without_hash d) ''previous'' = Some (Js_str p) \<and>
      stored_hash d = Js_str (audit_digest k (without_hash d) p) \<and>
      chained k (audit_digest k (without_hash d) p) ds)"

definition chain_end :: "string \<Rightarrow> jobj list \<Rightarrow> string" where
  "chain_end p ds = (if ds = [] then p else py_str (stored_hash (last ds)))"

lemma verify_chained:
  "verify_lines k p n ls = Inr (True, m) \<longleftrightarrow>
     (\<forall>e. Broken_line e \<notin> set ls) \<and> chained k p (records ls) \<and> m = n + length (records ls)"
proof (induction ls arbitrary: p n)
  case (Cons l ls)
  show ?case
  proof (cases l)
    case (Record_line d)
    have step: "verify_lines k p n (l # ls) =
        (if map_of (without_hash d) ''previous'' = Some (Js_str p) \<and> stored_hash d = Js_str (audit_digest k (without_hash d) p)
         then verify_lines k (audit_digest k (without_hash d) p) (Suc n) ls else Inr (False, Suc n))"
      unfolding Record_line verify_lines.simps Let_def stored_hash_def [symmetric] by (auto simp: eq_commute [of "stored_hash d"])
    show ?thesis unfolding step using Cons.IH Record_line by auto
  qed (use Cons.IH in auto)
qed auto

lemma records_append [simp]: "records (ls @ ms) = records ls @ records ms"
  by (induction ls rule: records.induct) simp_all

lemma records_lines [simp]: "records (map Record_line ds) = ds"
  by (induction ds) simp_all

lemma chain_end_Cons:
  "stored_hash d = Js_str h \<Longrightarrow> chain_end p (d # ds) = chain_end h ds"
  by (cases ds rule: rev_cases) (simp_all add: chain_end_def)

lemma chained_append:
  "chained k p (ds @ es) \<longleftrightarrow> chained k p ds \<and> chained k (chain_end p ds) es"
proof (induction ds arbitrary: p)
  case Nil
  then show ?case by (simp add: chain_end_def)
next
  case (Cons d ds)
  then show ?case by (cases "stored_hash d = Js_str (audit_digest k (without_hash d) p)") (simp_all add: chain_end_Cons)
qed

lemma tail_hash_records:
  assumes "\<forall>e. Broken_line e \<notin> set ls"
  shows "tail_hash (Some ls) = Inr (chain_end [] (records ls))"
proof -
  have "filter (\<lambda>l. l \<noteq> Blank_line) ls = map Record_line (records ls)"
    using assms by (induction ls rule: records.induct) auto
  then show ?thesis
    by (cases "records ls" rule: rev_cases)
      (simp_all add: tail_hash_def chain_end_def stored_hash_def list.case_eq_if)
qed

text \<open>A log in memory that continues an intact file.\<close>

definition log_ok :: "crypto \<Rightarrow> audit_log \<Rightarrow> bool" where
  "log_ok k a \<longleftrightarrow>
     (\<forall>e. Broken_line e \<notin> set (log_lines a)) \<and> chained k [] (records (log_lines a)) \<and>
     au_last_hash a = chain_end [] (records (log_lines a))"

lemma log_ok_verify:
  assumes "log_ok k a"
  shows "audit_verify k a = Inr (True, length (records (log_lines a)))"
proof (cases "au_file a")
  case (Some ls)
  then show ?thesis using assms verify_chained [of k "[]" 0 ls] by (simp add: audit_verify_def log_ok_def log_lines_def)
qed (simp add: audit_verify_def log_lines_def)

lemma opened_log_ok:
  assumes "audit_open f = Inr a" and "audit_verify k a = Inr (True, n)"
  shows "log_ok k a"
proof (cases f)
  case None
  then show ?thesis using assms(1) by (auto simp: audit_open_def tail_hash_def log_ok_def log_lines_def chain_end_def)
next
  case (Some ls)
  then have a: "au_file a = Some ls" using assms(1) by (auto simp: audit_open_def bindr_eq_Inr)
  then have v: "(\<forall>e. Broken_line e \<notin> set ls) \<and> chained k [] (records ls)"
    using assms(2) verify_chained [of k "[]" 0 ls n] by (simp add: audit_verify_def)
  then have "au_last_hash a = chain_end [] (records ls)"
    using assms(1) Some tail_hash_records [of ls] by (auto simp: audit_open_def)
  then show ?thesis using v a by (simp add: log_ok_def log_lines_def)
qed

text \<open>The log only grows, and stays intact.\<close>

definition log_grows :: "crypto \<Rightarrow> audit_log \<Rightarrow> audit_log \<Rightarrow> bool" where
  "log_grows k a a' \<longleftrightarrow>
     (\<exists>new. log_lines a' = log_lines a @ map Record_line new) \<and> (log_ok k a \<longrightarrow> log_ok k a')"

lemma log_grows_refl [simp, intro]: "log_grows k a a"
  unfolding log_grows_def by (intro conjI exI [of _ "[]"]) simp_all

lemma log_grows_trans [trans]: "log_grows k a b \<Longrightarrow> log_grows k b c \<Longrightarrow> log_grows k a c"
  unfolding log_grows_def by (metis append_assoc map_append)

lemma record_grows: "log_grows k a (audit_record k now ev u n d a)"
proof -
  let ?c = "audit_content now ev u n d (au_last_hash a)"
  let ?h = "audit_digest k ?c (au_last_hash a)" and ?e = "record_entry k now ev u n d a" and ?a = "audit_record k now ev u n d a"
  have e: "?e = ?c @ [(''hash'', Js_str ?h)]" by (simp add: record_entry_def Let_def)
  have c: "without_hash ?e = ?c" "stored_hash ?e = Js_str ?h"
    "map_of (without_hash ?e) ''previous'' = Some (Js_str (au_last_hash a))"
    unfolding e by (simp_all add: audit_content_def without_hash_def stored_hash_def)
  have lines: "log_lines ?a = log_lines a @ map Record_line [?e]" and last: "au_last_hash ?a = ?h"
    unfolding audit_record_def Let_def
    by (simp_all add: record_append_def record_finish_def log_lines_def Let_def split: option.split)
       (simp add: e audit_content_def)
  have "log_ok k ?a" if ok: "log_ok k a"
    using ok c last unfolding log_ok_def lines
    by (simp add: chained_append chain_end_def)
  then show ?thesis unfolding log_grows_def using lines by blast
qed

text \<open>Every operation of the access control.\<close>

abbreviation grows :: "crypto \<Rightarrow> access \<Rightarrow> access \<Rightarrow> bool" where
  "grows k ac ac' \<equiv> log_grows k (ac_audit ac) (ac_audit ac')"

named_theorems grow_intros \<open>the audit log grows\<close>

lemma note_grows [grow_intros]: "ac_audit ac1 = ac_audit ac \<Longrightarrow> grows k ac (note_event k ev u n d ac1)"
  by (simp add: note_event_def record_grows [of k "ac_audit ac", simplified])

lemma note_after [grow_intros]: "grows k ac ac1 \<Longrightarrow> grows k ac (note_event k ev u n d ac1)"
  by (rule log_grows_trans [OF _ note_grows]) simp_all

lemma check_grows:
  assumes "ac_check k u n pw p ac = (ac', r)"
  shows "grows k ac ac'"
proof -
  have "grows k ac (fst (check_begin k u n pw ac))"
    by (auto simp: check_begin_def lockout_check_def intro: grow_intros split: option.split bool.split sum.split)
  moreover have "grows k a (fst (check_failed k now u n p a))" for a now
    by (auto simp: check_failed_def Let_def intro!: grow_intros split: prod.split)
  then have "grows k a (fst (check_failed k now u n p (time_sleep t a)))" for a now t
    by (metis time_sleep_sel(4))
  ultimately show ?thesis
    using assms unfolding ac_check_def
    by (auto split: prod.splits sum.splits bool.splits dest: log_grows_trans) (metis fst_conv log_grows_trans)
qed

lemma op_grows:
  "grows k ac (fst (ac_setup k salt u n pw ac))"
  "grows k ac (fst (ac_login k token u n pw ac))"
  "grows k ac (fst (ac_step_up k s pw ac))"
  "grows k ac (fst (ac_rotate k salt s pw new ac))"
  "grows k ac (fst (ac_resolve k t u ac))"
  "grows k ac (ac_logout k s ac)"
proof -
  show "grows k ac (fst (ac_setup k salt u n pw ac))"
    by (auto simp: ac_setup_def intro: grow_intros split: sum.split)
  show "grows k ac (fst (ac_resolve k t u ac))"
    by (auto simp: ac_resolve_def Let_def set_session_def intro: grow_intros split: option.split)
  show "grows k ac (ac_logout k s ac)"
    by (auto simp: ac_logout_def intro: grow_intros)
  have after: "grows k ac ac1 \<Longrightarrow> ac_audit ac2 = ac_audit ac1 \<Longrightarrow> grows k ac (note_event k ev u n d ac2)" for ac1 ac2 ev u n d
    by (rule log_grows_trans [OF _ note_grows]) simp_all
  show "grows k ac (fst (ac_login k token u n pw ac))"
    by (auto simp: ac_login_def Let_def intro: after dest: check_grows split: prod.split option.split)
  show "grows k ac (fst (ac_step_up k s pw ac))"
    by (auto simp: ac_step_up_def intro: after dest: check_grows split: prod.split option.split)
  show "grows k ac (fst (ac_rotate k salt s pw new ac))"
    by (auto simp: ac_rotate_def intro: after dest: check_grows split: prod.split option.split sum.split)
qed

lemma call_grows: "grows k ac (call_step k c ac)"
  by (cases c) (auto simp: with_session_def op_grows intro: grow_intros split: option.split)

lemma run_grows: "grows k ac (run_calls k calls ac)"
  by (induction calls arbitrary: ac) (auto intro: log_grows_trans call_grows)

section \<open>A changed log is noticed\<close>

definition previous_text :: "jobj \<Rightarrow> string" where
  "previous_text d = (case map_of (without_hash d) ''previous'' of Some v \<Rightarrow> py_str v | None \<Rightarrow> [])"

text \<open>What was hashed for a record, and what the record says, the order of its keys aside.\<close>

definition hashed_text :: "jobj \<Rightarrow> string" where
  "hashed_text d = audit_payload (without_hash d) (previous_text d)"

definition meaning :: "jobj \<Rightarrow> json \<times> json" where
  "meaning d = (sort_keys (Js_obj (without_hash d)), stored_hash d)"

lemma chained_snoc:
  "chained k p (ds @ [d]) \<longleftrightarrow>
     chained k p ds \<and> map_of (without_hash d) ''previous'' = Some (Js_str (chain_end p ds)) \<and>
     stored_hash d = Js_str (cr_sha k (hashed_text d)) \<and> previous_text d = chain_end p ds"
proof (cases "map_of (without_hash d) ''previous'' = Some (Js_str (chain_end p ds))")
  case True
  then have p: "previous_text d = chain_end p ds" by (simp add: previous_text_def)
  then have "audit_digest k (without_hash d) (chain_end p ds) = cr_sha k (hashed_text d)"
    by (simp add: audit_digest_def hashed_text_def)
  then show ?thesis using True p unfolding chained_append by simp
next
  case False
  then show ?thesis unfolding chained_append by simp
qed

lemma hashed_text_determines:
  assumes "hashed_text d = hashed_text e"
  shows "sort_keys (Js_obj (without_hash d)) = sort_keys (Js_obj (without_hash e)) \<and> previous_text d = previous_text e"
  using assms unfolding hashed_text_def audit_payload_def by (rule json_dumps_determines)

lemma chains_agree:
  assumes "length ds = length es"
    and "chained k [] ds" "chained k [] es" "chain_end [] ds = chain_end [] es"
    and sound: "\<And>d e. d \<in> set ds \<Longrightarrow> e \<in> set es \<Longrightarrow> cr_sha k (hashed_text d) = cr_sha k (hashed_text e) \<Longrightarrow>
      hashed_text d = hashed_text e"
  shows "map meaning ds = map meaning es"
  using assms
proof (induction ds arbitrary: es rule: rev_induct)
  case (snoc d ds)
  obtain e es' where es: "es = es' @ [e]" using snoc.prems(1) by (cases es rule: rev_cases) auto
  have d: "chained k [] ds" "stored_hash d = Js_str (cr_sha k (hashed_text d))" "previous_text d = chain_end [] ds"
    using snoc.prems(2) by (simp_all add: chained_snoc)
  have e: "chained k [] es'" "stored_hash e = Js_str (cr_sha k (hashed_text e))" "previous_text e = chain_end [] es'"
    using snoc.prems(3) es by (simp_all add: chained_snoc)
  have "cr_sha k (hashed_text d) = cr_sha k (hashed_text e)"
    using snoc.prems(4) d(2) e(2) es by (simp add: chain_end_def)
  then have same: "hashed_text d = hashed_text e" using snoc.prems(5) es by simp
  note parts = hashed_text_determines [OF same]
  have "map meaning ds = map meaning es'"
  proof (rule snoc.IH)
    show "chain_end [] ds = chain_end [] es'" using parts d(3) e(3) by simp
    show "x \<in> set ds \<Longrightarrow> y \<in> set es' \<Longrightarrow> cr_sha k (hashed_text x) = cr_sha k (hashed_text y) \<Longrightarrow>
      hashed_text x = hashed_text y" for x y using snoc.prems(5) es by simp
  qed (use snoc.prems(1) es d(1) e(1) in simp_all)
  moreover have "meaning d = meaning e" using parts same d(2) e(2) by (simp add: meaning_def)
  ultimately show ?case using es by simp
qed simp

section \<open>Two threads at once\<close>

text \<open>The endpoints that write the log are plain functions, which the web framework runs on worker
  threads. When two of them take the last hash before either has written, the chain breaks for good:
  \<open>verify\<close> reports the second record although nobody has touched the file.\<close>

lemma concurrent_records_break_the_chain:
  assumes ok: "log_ok k a"
    and e1: "e1 = record_entry k now1 ev1 u1 n1 d1 a" and e2: "e2 = record_entry k now2 ev2 u2 n2 d2 a"
    and moved: "stored_hash e1 \<noteq> Js_str (au_last_hash a)"
  shows "audit_verify k (record_finish e2 (record_finish e1 (record_append e2 (record_append e1 a)))) \<noteq>
         Inr (True, m)"
proof
  assume "audit_verify k (record_finish e2 (record_finish e1 (record_append e2 (record_append e1 a)))) = Inr (True, m)"
  moreover have "au_file (record_finish e2 (record_finish e1 (record_append e2 (record_append e1 a)))) =
      Some (log_lines a @ [Record_line e1, Record_line e2])"
    by (simp add: record_finish_def record_append_def log_lines_def Let_def split: option.split)
  ultimately have "chained k [] (records (log_lines a) @ [e1, e2])"
    using verify_chained [of k "[]" 0] by (simp add: audit_verify_def)
  then have "chained k [] ((records (log_lines a) @ [e1]) @ [e2])" by simp
  then have "previous_text e2 = py_str (stored_hash e1)" unfolding chained_snoc by (simp add: chain_end_def)
  moreover have "previous_text e2 = au_last_hash a"
    by (simp add: e2 record_entry_def Let_def previous_text_def without_hash_def audit_content_def)
  moreover have "\<exists>h. stored_hash e1 = Js_str h"
    by (simp add: e1 record_entry_def Let_def stored_hash_def audit_content_def)
  ultimately show False using moved by auto
qed

text \<open>Requests that compare the passphrase at the same time are all compared, however many they are:
  the failures are counted only after the delay.\<close>

lemma concurrent_guesses_are_all_compared:
  assumes "\<not> ac_clock ac < lk_until (ac_lockout ac)" "ac_pass ac \<noteq> None"
    and "\<And>pw. pw \<in> set pws \<Longrightarrow> \<not> right_pass k pw ac"
  shows "map (\<lambda>pw. check_begin k u n pw ac) pws = replicate (length pws) (ac, Inr False)"
  using assms(3)
  by (induction pws)
    (use assms(1,2) in \<open>auto simp: check_begin_def lockout_check_def right_pass_def pass_check_def split: bool.splits\<close>)

section \<open>Properties\<close>


definition plain_crypto :: crypto where
  "plain_crypto = \<lparr>cr_scrypt = \<lambda>p salt. map (\<lambda>c. of_nat (pyord c)) p, cr_sha = \<lambda>p. ''h''\<rparr>"

definition fresh_access :: "passphrase_file \<Rightarrow> access" where
  "fresh_access f =
     \<lparr>ac_allowed = [''u1''], ac_pass = f,
      ac_audit = \<lparr>au_file = None, au_last_hash = [], au_hooked = False, au_hook_calls = 0\<rparr>,
      ac_sessions = [], ac_lockout = \<lparr>lk_failures = 0, lk_until = 0\<rparr>, ac_clock = 0\<rparr>"


text \<open>C14. Write access: in every reachable state a session belongs to a user who logged in with the right
  passphrase, and it may write only while less than a quarter of an hour has passed since the right
  passphrase was given again for it.\<close>

theorem write_access_earned:
  assumes "access_init allowed pass_file log_file t0 = Inr ac" and "0 \<le> t0"
    and "map_of (ac_sessions (run_calls k calls ac)) t = Some s"
  shows "logged_in_by k ac calls t (as_user_id s) \<and>
    (session_can_write s (ac_clock (run_calls k calls ac)) \<longrightarrow>
     (\<exists>time. stepped_up_at k ac calls t time \<and>
             ac_clock (run_calls k calls ac) < time + seconds STEP_UP_TTL))"
proof -
  have ac: "ac_sessions ac = []" "ac_clock ac = t0" using assms(1) by (auto simp: access_init_def bindr_eq_Inr)
  have earned: "session_earned k ac calls t s" by (rule sessions_earned [OF ac(1) assms(3)])
  have "0 \<le> ac_clock (run_calls k calls ac)" using run_clock [of ac k calls] ac(2) assms(2) by simp
  then show ?thesis
    using earned unfolding session_earned_def session_can_write_def by force
qed

theorem write_access_earned_witness:
  "logged_in_by plain_crypto (fresh_access None)
     [Setup [] ''u1'' ''n'' ''correct horse'', Login ''t'' ''u1'' ''n'' ''correct horse'', Step_up ''t'' ''correct horse'']
     ''t'' ''u1''"
proof -
  let ?calls = "[Setup [] ''u1'' ''n'' ''correct horse'', Login ''t'' ''u1'' ''n'' ''correct horse'', Step_up ''t'' ''correct horse'']"
  have "access_init [''u1''] None None 0 = Inr (fresh_access None)"
    by (simp add: access_init_def audit_open_def tail_hash_def fresh_access_def)
  moreover have "\<exists>s. map_of (ac_sessions (run_calls plain_crypto ?calls (fresh_access None))) ''t'' = Some s \<and> as_user_id s = ''u1''"
    by (simp add: fresh_access_def ac_setup_def pass_is_set_def pass_set_def ac_login_def ac_check_def check_begin_def
        lockout_check_def pass_check_def plain_crypto_def Let_def with_session_def ac_step_up_def lockout_succeeded_def)
  ultimately show ?thesis using write_access_earned [of "[''u1'']" None None 0 "fresh_access None" plain_crypto ?calls "''t''"] by auto
qed

text \<open>C16. Audit chain: on an intact file every sequence of calls only appends records, and the chain
  stays intact.\<close>

theorem audit_log_intact:
  assumes "access_init allowed pass_file log_file t0 = Inr ac" and "audit_verify k (ac_audit ac) = Inr (True, n)"
  shows "\<exists>new. log_lines (ac_audit (run_calls k calls ac)) = log_lines (ac_audit ac) @ map Record_line new \<and>
    audit_verify k (ac_audit (run_calls k calls ac)) = Inr (True, n + length new)"
proof -
  obtain a where "audit_open log_file = Inr a" "ac_audit ac = a"
    using assms(1) by (auto simp: access_init_def bindr_eq_Inr)
  then have ok: "log_ok k (ac_audit ac)" using opened_log_ok assms(2) by blast
  obtain new where new: "log_lines (ac_audit (run_calls k calls ac)) = log_lines (ac_audit ac) @ map Record_line new"
    and ok': "log_ok k (ac_audit (run_calls k calls ac))"
    using run_grows [of k ac calls] ok unfolding log_grows_def by blast
  have "n = length (records (log_lines (ac_audit ac)))" using log_ok_verify [OF ok] assms(2) by simp
  then show ?thesis using new log_ok_verify [OF ok'] by auto
qed

theorem audit_log_intact_witness:
  "\<exists>new. log_lines (ac_audit (run_calls plain_crypto [Note ''idle_stop'' [] [] [], Note ''setup'' ''u1'' ''n'' []] (fresh_access None))) =
      map Record_line new \<and> length new = 2"
proof -
  have "access_init [] None None 0 = Inr (fresh_access None\<lparr>ac_allowed := []\<rparr>)"
    by (simp add: access_init_def audit_open_def tail_hash_def fresh_access_def)
  moreover have "audit_verify plain_crypto (ac_audit (fresh_access None\<lparr>ac_allowed := []\<rparr>)) = Inr (True, 0)"
    by (simp add: audit_verify_def fresh_access_def)
  ultimately obtain new where
    "log_lines (ac_audit (run_calls plain_crypto [Note ''idle_stop'' [] [] [], Note ''setup'' ''u1'' ''n'' []] (fresh_access None\<lparr>ac_allowed := []\<rparr>))) =
      log_lines (ac_audit (fresh_access None\<lparr>ac_allowed := []\<rparr>)) @ map Record_line new"
    using audit_log_intact [of "[]" None None 0 "fresh_access None\<lparr>ac_allowed := []\<rparr>" plain_crypto 0] by blast
  then have new: "log_lines (ac_audit (run_calls plain_crypto [Note ''idle_stop'' [] [] [], Note ''setup'' ''u1'' ''n'' []] (fresh_access None))) =
      map Record_line new"
    by (simp add: fresh_access_def note_event_def log_lines_def)
  from arg_cong [OF this, of length] have "length new = 2"
    by (simp add: fresh_access_def note_event_def log_lines_def audit_record_def record_append_def record_finish_def Let_def)
  then show ?thesis using new by blast
qed

text \<open>C17. Tamper evidence: two logs that verify, have as many records and end in the same hash say the
  same, record by record, unless two different texts hashed in them have the same hash.\<close>

theorem tamper_evident:
  assumes "audit_verify k a = Inr (True, n)" and "audit_verify k b = Inr (True, n)"
    and "tail_hash (au_file a) = tail_hash (au_file b)"
    and "\<And>d e. d \<in> set (records (log_lines a)) \<Longrightarrow> e \<in> set (records (log_lines b)) \<Longrightarrow>
      cr_sha k (hashed_text d) = cr_sha k (hashed_text e) \<Longrightarrow> hashed_text d = hashed_text e"
  shows "map meaning (records (log_lines a)) = map meaning (records (log_lines b))"
proof -
  have chain: "chained k [] (records (log_lines x)) \<and> n = length (records (log_lines x)) \<and>
      tail_hash (au_file x) = Inr (chain_end [] (records (log_lines x)))" if "audit_verify k x = Inr (True, n)" for x
  proof (cases "au_file x")
    case None
    then show ?thesis using that by (simp add: audit_verify_def log_lines_def tail_hash_def chain_end_def)
  next
    case (Some ls)
    then have "(\<forall>e. Broken_line e \<notin> set ls) \<and> chained k [] (records ls) \<and> n = length (records ls)"
      using that verify_chained [of k "[]" 0 ls n] by (simp add: audit_verify_def)
    then show ?thesis using Some tail_hash_records [of ls] by (simp add: log_lines_def)
  qed
  show ?thesis
    by (rule chains_agree [of _ _ k]) (use chain [OF assms(1)] chain [OF assms(2)] assms(3,4) in simp_all)
qed

definition one_line :: "string \<Rightarrow> audit_log" where
  "one_line user =
     audit_record (plain_crypto\<lparr>cr_sha := id\<rparr>) 0 ''setup'' user ''n'' []
       \<lparr>au_file = None, au_last_hash = [], au_hooked = False, au_hook_calls = 0\<rparr>"

theorem tamper_evident_witness:
  "map meaning (records (log_lines (one_line ''u1''))) =
   map meaning (records (Blank_line # log_lines (one_line ''u1'')))"
proof -
  let ?k = "plain_crypto\<lparr>cr_sha := id\<rparr>" and ?a = "one_line ''u1''"
  let ?b = "?a\<lparr>au_file := Some (Blank_line # log_lines ?a)\<rparr>"
  have "log_ok ?k \<lparr>au_file = None, au_last_hash = [], au_hooked = False, au_hook_calls = 0\<rparr>"
    by (simp add: log_ok_def log_lines_def chain_end_def)
  then have "log_ok ?k ?a" using record_grows unfolding log_grows_def one_line_def by blast
  then have a: "audit_verify ?k ?a = Inr (True, length (records (log_lines ?a)))" by (rule log_ok_verify)
  have in_file: "au_file ?a = Some (log_lines ?a)"
    by (simp add: one_line_def audit_record_def record_append_def record_finish_def log_lines_def Let_def)
  have "audit_verify ?k ?b = audit_verify ?k ?a" using in_file by (simp add: audit_verify_def)
  moreover have "tail_hash (au_file ?a) = tail_hash (au_file ?b)" unfolding in_file by (simp add: tail_hash_def)
  moreover have "log_lines ?b = Blank_line # log_lines ?a" by (simp add: log_lines_def)
  ultimately show ?thesis using tamper_evident [of ?k ?a _ ?b] a by (simp add: plain_crypto_def)
qed

end
