(* ===== verification/App_Push.thy ===== *)
theory App_Push
  imports App_Security
begin

text \<open>
  \<open>soc_push.py\<close>: forwarding the audit chain to HA SOC. The client sends the lines that HA SOC has not
  acknowledged, in order and in batches, and resumes from where HA SOC says it is. Home Assistant and
  HA SOC are the world \<open>'w\<close> with two parameters: the audit file as it is at a moment (other requests may
  append to it while a call is awaited) and the service call. What a push needs of HA SOC is the locale
  \<open>audit_sink\<close>; it is interpreted on the service the repository's own tests describe.
\<close>

section \<open>JSON values as Python objects\<close>

definition js_true :: "json \<Rightarrow> bool" where
  "js_true j =
     (case j of Js_null \<Rightarrow> False | Js_bool b \<Rightarrow> b | Js_int i \<Rightarrow> i \<noteq> 0 | Js_str s \<Rightarrow> s \<noteq> [] | Js_list xs \<Rightarrow> xs \<noteq> []
      | Js_obj kvs \<Rightarrow> kvs \<noteq> [])"

text \<open>\<open>v or w\<close>, \<open>d.get(k, default)\<close>, \<open>int(v)\<close> and \<open>isinstance(v, int)\<close>.\<close>

definition js_or :: "json \<Rightarrow> json \<Rightarrow> json" where
  "js_or v w = (if js_true v then v else w)"

definition js_get :: "jobj \<Rightarrow> string \<Rightarrow> json \<Rightarrow> json" where
  "js_get d k v = (case map_of d k of None \<Rightarrow> v | Some x \<Rightarrow> x)"

definition js_int :: "json \<Rightarrow> int result" where
  "js_int j =
     (case j of Js_int i \<Rightarrow> Inr i | Js_bool b \<Rightarrow> Inr (if b then 1 else 0) | Js_str s \<Rightarrow> py_int 10 s | _ \<Rightarrow> Inl TypeError)"

definition int_instance :: "json \<Rightarrow> int option" where
  "int_instance j = (case j of Js_int i \<Rightarrow> Some i | Js_bool b \<Rightarrow> Some (if b then 1 else 0) | _ \<Rightarrow> None)"

section \<open>The client\<close>

definition SOURCE :: string where "SOURCE = ''elk_programmer''"
definition BATCH_MAX :: nat where "BATCH_MAX = 200"

text \<open>A JSON file: what \<open>json.loads\<close> reads, or a text it refuses.\<close>

datatype json_file = Readable json | Unreadable

text \<open>\<open>sp_loop\<close> is whether the event loop has been attached, \<open>sp_starts\<close> the calls of \<open>_start_on_loop\<close>
  waiting on it, \<open>sp_running\<close> a push task that is not done.\<close>

record soc_pusher =
  sp_state_file :: "json_file option"
  sp_secret_file :: "string option"
  sp_last_seq :: int
  sp_last_error :: "string option"
  sp_loop :: bool
  sp_starts :: nat
  sp_running :: bool

definition load_seq :: "json_file option \<Rightarrow> int result" where
  "load_seq f =
     (case f of
        Some (Readable (Js_obj d)) \<Rightarrow>
          (case js_int (js_get d ''last_seq'' (Js_int 0)) of
             Inl ValueError \<Rightarrow> Inr 0
           | r \<Rightarrow> r)
      | Some (Readable _) \<Rightarrow> Inl AttributeError
      | _ \<Rightarrow> Inr 0)"

definition pusher_init :: "json_file option \<Rightarrow> string option \<Rightarrow> soc_pusher result" where
  "pusher_init state_file secret_file =
     bindr (load_seq state_file)
       (\<lambda>n. Inr \<lparr>sp_state_file = state_file, sp_secret_file = secret_file, sp_last_seq = n,
                 sp_last_error = None, sp_loop = False, sp_starts = 0, sp_running = False\<rparr>)"

definition save_seq :: "soc_pusher \<Rightarrow> soc_pusher" where
  "save_seq p = p\<lparr>sp_state_file := Some (Readable (Js_obj [(''last_seq'', Js_int (sp_last_seq p))]))\<rparr>"

text \<open>\<open>fresh\<close> is what \<open>secrets.token_hex\<close> yields.\<close>

definition secret_value :: "string \<Rightarrow> soc_pusher \<Rightarrow> soc_pusher \<times> string" where
  "secret_value fresh p =
     (case sp_secret_file p of
        Some text \<Rightarrow> (p, strip_by str_space text)
      | None \<Rightarrow> (p\<lparr>sp_secret_file := Some fresh\<rparr>, fresh))"

definition pending_entry :: "int \<Rightarrow> jobj \<Rightarrow> jobj result" where
  "pending_entry num d =
     (case (map_of d ''time'', map_of d ''event'', map_of d ''hash'') of
        (Some t, Some e, Some h) \<Rightarrow>
          Inr [(''seq'', Js_int num), (''time'', t), (''event'', e),
               (''user_id'', js_or (js_get d ''user_id'' Js_null) Js_null),
               (''user_name'', js_or (js_get d ''user_name'' Js_null) Js_null),
               (''details'', js_or (js_get d ''details'' Js_null) (Js_obj [])),
               (''previous'', js_get d ''previous'' (Js_str [])), (''hash'', h)]
      | _ \<Rightarrow> Inl KeyError)"

text \<open>The loop of \<open>_pending\<close>: the lines from number \<open>num\<close> on, \<open>room\<close> places left in the batch.\<close>

fun pending_from :: "int \<Rightarrow> int \<Rightarrow> nat \<Rightarrow> log_line list \<Rightarrow> jobj list result" where
  "pending_from last_seq num room [] = Inr []"
| "pending_from last_seq num room (l # ls) =
     (if num \<le> last_seq then pending_from last_seq (num + 1) room ls
      else case l of
        Blank_line \<Rightarrow> pending_from last_seq (num + 1) room ls
      | Broken_line e \<Rightarrow> Inl e
      | Record_line d \<Rightarrow>
          bindr (pending_entry num d)
            (\<lambda>x. if room \<le> 1 then Inr [x]
                 else bindr (pending_from last_seq (num + 1) (room - 1) ls) (\<lambda>xs. Inr (x # xs))))"

definition pending :: "log_line list option \<Rightarrow> soc_pusher \<Rightarrow> jobj list result" where
  "pending f p = (case f of None \<Rightarrow> Inr [] | Some ls \<Rightarrow> pending_from (sp_last_seq p) 1 BATCH_MAX ls)"

text \<open>The service call: its answer, the \<open>HomeAssistantError\<close> it raises, or another exception.\<close>

datatype call_outcome = Answer "jobj option" | Failed string | Raises py_error

record ingest_request =
  ir_source :: string
  ir_secret :: string
  ir_records :: "jobj list"

record push_result =
  pr_sent :: int
  pr_last_seq :: int
  pr_error :: "string option"

text \<open>One turn of \<open>push\<close>: it has returned, it goes round again, or an exception leaves it.\<close>

datatype 'w turn =
    Returned soc_pusher push_result 'w
  | Again soc_pusher int 'w
  | Escaped soc_pusher py_error 'w

definition result_now :: "int \<Rightarrow> soc_pusher \<Rightarrow> string option \<Rightarrow> push_result" where
  "result_now sent p err = \<lparr>pr_sent = sent, pr_last_seq = sp_last_seq p, pr_error = err\<rparr>"

definition response_of :: "jobj option \<Rightarrow> json" where
  "response_of reply =
     (let d = (case reply of None \<Rightarrow> [] | Some d \<Rightarrow> d); whole = (case reply of None \<Rightarrow> Js_null | Some d \<Rightarrow> Js_obj d)
      in js_or (js_get d ''service_response'' whole) (Js_obj []))"

definition acknowledge :: "json \<Rightarrow> soc_pusher \<Rightarrow> soc_pusher" where
  "acknowledge acked p =
     (case int_instance acked of
        Some n \<Rightarrow> if sp_last_seq p < n then save_seq (p\<lparr>sp_last_seq := n\<rparr>) else p
      | None \<Rightarrow> p)"

definition resume_at :: "int \<Rightarrow> soc_pusher \<Rightarrow> soc_pusher" where
  "resume_at n p = (if n < sp_last_seq p then save_seq (p\<lparr>sp_last_seq := n\<rparr>) else p)"

definition push_turn ::
    "('w \<Rightarrow> log_line list option) \<Rightarrow> (ingest_request \<Rightarrow> 'w \<Rightarrow> 'w \<times> call_outcome) \<Rightarrow> string \<Rightarrow> int \<Rightarrow>
     soc_pusher \<Rightarrow> 'w \<Rightarrow> 'w turn" where
  "push_turn file_of call fresh sent p w =
     (case pending (file_of w) p of
        Inl e \<Rightarrow> Escaped p e w
      | Inr [] \<Rightarrow> Returned (p\<lparr>sp_last_error := None\<rparr>) (result_now sent p None) w
      | Inr batch \<Rightarrow>
          (let (p1, secret) = secret_value fresh p;
               (w1, outcome) = call \<lparr>ir_source = SOURCE, ir_secret = secret, ir_records = batch\<rparr> w
           in case outcome of
                Raises e \<Rightarrow> Escaped p1 e w1
              | Failed err \<Rightarrow> Returned (p1\<lparr>sp_last_error := Some err\<rparr>) (result_now sent p1 (Some err)) w1
              | Answer reply \<Rightarrow>
                  (case response_of reply of
                     Js_obj r \<Rightarrow>
                       (case js_int (js_or (js_get r ''accepted'' Js_null) (Js_int 0)) of
                          Inl e \<Rightarrow> Escaped p1 e w1
                        | Inr accepted \<Rightarrow>
                            (let acked = js_get r ''last_seq'' Js_null;
                                 sent1 = sent + accepted;
                                 p2 = acknowledge acked p1;
                                 rejected = js_get r ''rejected'' Js_null
                             in if rejected = Js_str ''gap'' \<and> int_instance acked \<noteq> None
                                then Again (resume_at (the (int_instance acked)) p2) sent1 w1
                                else if js_true rejected
                                then Returned (p2\<lparr>sp_last_error := Some (py_str rejected)\<rparr>)
                                       (result_now sent1 p2 (Some (py_str rejected))) w1
                                else if accepted = 0 then Returned p2 (result_now sent1 p2 None) w1
                                else Again p2 sent1 w1))
                   | _ \<Rightarrow> Escaped p1 AttributeError w1)))"

text \<open>\<open>push\<close> under its lock; \<open>None\<close> is a push that never returns.\<close>

partial_function (option) push_loop ::
    "('w \<Rightarrow> log_line list option) \<Rightarrow> (ingest_request \<Rightarrow> 'w \<Rightarrow> 'w \<times> call_outcome) \<Rightarrow> string \<Rightarrow> int \<Rightarrow>
     soc_pusher \<Rightarrow> 'w \<Rightarrow> (soc_pusher \<times> 'w \<times> push_result result) option" where
  "push_loop file_of call fresh sent p w =
     (case push_turn file_of call fresh sent p w of
        Returned p1 r w1 \<Rightarrow> Some (p1, w1, Inr r)
      | Escaped p1 e w1 \<Rightarrow> Some (p1, w1, Inl e)
      | Again p1 sent1 w1 \<Rightarrow> push_loop file_of call fresh sent1 p1 w1)"

definition push ::
    "('w \<Rightarrow> log_line list option) \<Rightarrow> (ingest_request \<Rightarrow> 'w \<Rightarrow> 'w \<times> call_outcome) \<Rightarrow> string \<Rightarrow>
     soc_pusher \<Rightarrow> 'w \<Rightarrow> (soc_pusher \<times> 'w \<times> push_result result) option" where
  "push file_of call fresh p w = push_loop file_of call fresh 0 p w"

text \<open>Scheduling: from any thread, run on the loop.\<close>

definition soc_attach :: "soc_pusher \<Rightarrow> soc_pusher" where
  "soc_attach p = p\<lparr>sp_loop := True\<rparr>"

definition soc_schedule :: "soc_pusher \<Rightarrow> soc_pusher" where
  "soc_schedule p = (if \<not> sp_loop p then p else p\<lparr>sp_starts := Suc (sp_starts p)\<rparr>)"

definition start_on_loop :: "soc_pusher \<Rightarrow> soc_pusher" where
  "start_on_loop p =
     (let p1 = p\<lparr>sp_starts := sp_starts p - 1\<rparr> in if sp_running p1 then p1 else p1\<lparr>sp_running := True\<rparr>)"

section \<open>The service of the tests\<close>

text \<open>\<open>FakeSoc\<close> of \<open>tests_programmer/test_soc_push.py\<close>: it accepts the records in order.\<close>

record fake_soc =
  fs_head :: int
  fs_received :: "jobj list"
  fs_refuse :: "string option"

definition soc_answer :: "int \<Rightarrow> json \<Rightarrow> json \<Rightarrow> call_outcome" where
  "soc_answer accepted last_seq rejected =
     Answer (Some [(''service_response'',
       Js_obj [(''accepted'', Js_int accepted), (''last_seq'', last_seq), (''rejected'', rejected)])])"

definition seq_of :: "jobj \<Rightarrow> int" where
  "seq_of d = (case js_get d ''seq'' Js_null of Js_int n \<Rightarrow> n | _ \<Rightarrow> 0)"

fun soc_records :: "jobj list \<Rightarrow> int \<Rightarrow> fake_soc \<Rightarrow> fake_soc \<times> call_outcome" where
  "soc_records [] accepted s = (s, soc_answer accepted (Js_int (fs_head s)) Js_null)"
| "soc_records (d # ds) accepted s =
     (if seq_of d \<le> fs_head s then soc_records ds accepted s
      else if fs_head s + 1 < seq_of d then (s, soc_answer accepted (Js_int (fs_head s)) (Js_str ''gap''))
      else soc_records ds (accepted + 1) (s\<lparr>fs_head := seq_of d, fs_received := fs_received s @ [d]\<rparr>))"

definition soc_ingest :: "ingest_request \<Rightarrow> fake_soc \<Rightarrow> fake_soc \<times> call_outcome" where
  "soc_ingest q s =
     (case fs_refuse s of
        Some why \<Rightarrow> (s, soc_answer 0 (if fs_head s = 0 then Js_null else Js_int (fs_head s)) (Js_str why))
      | None \<Rightarrow> soc_records (ir_records q) 0 s)"

section \<open>Batches\<close>

definition entry_ok :: "jobj \<Rightarrow> bool" where
  "entry_ok d \<longleftrightarrow> map_of d ''time'' \<noteq> None \<and> map_of d ''event'' \<noteq> None \<and> map_of d ''hash'' \<noteq> None"

definition entry_of :: "int \<Rightarrow> jobj \<Rightarrow> jobj" where
  "entry_of num d = (case pending_entry num d of Inr x \<Rightarrow> x | Inl e \<Rightarrow> [])"

fun entries :: "int \<Rightarrow> jobj list \<Rightarrow> jobj list" where
  "entries num [] = []"
| "entries num (d # ds) = entry_of num d # entries (num + 1) ds"

lemma pending_entry_ok: "entry_ok d \<Longrightarrow> pending_entry num d = Inr (entry_of num d)"
  by (auto simp: entry_ok_def entry_of_def pending_entry_def)

lemma seq_of_entry: "entry_ok d \<Longrightarrow> seq_of (entry_of num d) = num"
  by (auto simp: entry_ok_def entry_of_def pending_entry_def seq_of_def js_get_def)

lemma length_entries [simp]: "length (entries num ds) = length ds"
  by (induction ds arbitrary: num) simp_all

lemma take_entries: "take m (entries num ds) = entries num (take m ds)"
  by (induction ds arbitrary: num m) (auto simp: take_Cons split: nat.split)

lemma entries_append: "entries num (ds @ es) = entries num ds @ entries (num + int (length ds)) es"
  by (induction ds arbitrary: num) (simp_all add: algebra_simps)

lemma seq_of_entries:
  "list_all entry_ok ds \<Longrightarrow> map seq_of (entries num ds) = map (\<lambda>i. num + int i) [0..<length ds]"
proof (induction ds arbitrary: num)
  case (Cons d ds)
  have "map (\<lambda>i. num + int i) [0..<Suc (length ds)] = num # map (\<lambda>i. num + 1 + int i) [0..<length ds]"
    by (simp add: upt_conv_Cons map_Suc_upt [symmetric] del: upt_Suc)
  then show ?case using Cons by (simp add: seq_of_entry del: upt_Suc)
qed simp

lemma pending_from_skip:
  "pending_from (num - 1 + int k) num room ls = pending_from (num - 1 + int k) (num + int k) room (drop k ls)"
proof (induction k arbitrary: num ls)
  case (Suc k)
  then show ?case using Suc [of "num + 1"] by (cases ls) (simp_all add: algebra_simps)
qed simp

lemma pending_from_take:
  "last_seq < num \<Longrightarrow> 0 < room \<Longrightarrow> list_all entry_ok ds \<Longrightarrow>
   pending_from last_seq num room (map Record_line ds) = Inr (entries num (take room ds))"
proof (induction ds arbitrary: num room)
  case (Cons d ds)
  then show ?case by (cases room) (auto simp: pending_entry_ok)
qed simp

lemma pending_batch:
  assumes "list_all entry_ok ds" and "sp_last_seq p = int n"
  shows "pending (Some (map Record_line ds)) p = Inr (entries (int n + 1) (take BATCH_MAX (drop n ds)))"
proof -
  have "list_all entry_ok (drop n ds)" using assms(1) set_drop_subset [of n ds] by (auto simp: list_all_iff)
  then show ?thesis
    using assms pending_from_skip [of 1 n BATCH_MAX "map Record_line ds"]
      pending_from_take [of "int n" "1 + int n" BATCH_MAX "drop n ds"]
    by (simp add: pending_def drop_map BATCH_MAX_def add.commute)
qed

section \<open>What a push needs of the service\<close>

locale audit_sink =
  fixes call :: "ingest_request \<Rightarrow> 'w \<Rightarrow> 'w \<times> call_outcome"
    and head :: "'w \<Rightarrow> int" and received :: "'w \<Rightarrow> jobj list" and willing :: "'w \<Rightarrow> bool"
  assumes in_order: "willing w \<Longrightarrow> batch \<noteq> [] \<Longrightarrow> ir_records q = batch \<Longrightarrow>
      map seq_of batch = map (\<lambda>i. head w + 1 + int i) [0..<length batch] \<Longrightarrow>
      \<exists>w1. call q w = (w1, soc_answer (int (length batch)) (Js_int (head w + int (length batch))) Js_null) \<and>
           willing w1 \<and> head w1 = head w + int (length batch) \<and> received w1 = received w @ batch"
    and gap: "willing w \<Longrightarrow> batch \<noteq> [] \<Longrightarrow> ir_records q = batch \<Longrightarrow> head w + 1 < seq_of (hd batch) \<Longrightarrow>
      call q w = (w, soc_answer 0 (Js_int (head w)) (Js_str ''gap''))"
begin

lemma turn_in_order:
  assumes ok: "list_all entry_ok ds" and w: "willing w" and n: "sp_last_seq p = int n" "head w = int n" "n < length ds"
  defines "m \<equiv> length (take BATCH_MAX (drop n ds))"
  shows "\<exists>p1 w1. push_turn (\<lambda>_. Some (map Record_line ds)) call fresh sent p w = Again p1 (sent + int m) w1 \<and>
    0 < m \<and> n + m \<le> length ds \<and> sp_last_seq p1 = int (n + m) \<and> willing w1 \<and> head w1 = int (n + m) \<and>
    received w1 = received w @ entries (int n + 1) (take m (drop n ds))"
proof -
  let ?part = "take BATCH_MAX (drop n ds)" and ?batch = "entries (int n + 1) (take BATCH_MAX (drop n ds))"
  obtain p1 s where secret: "secret_value fresh p = (p1, s)" "sp_last_seq p1 = int n"
    using n(1) by (cases "secret_value fresh p") (auto simp: secret_value_def split: option.splits)
  have m: "0 < m" "n + m \<le> length ds" using n(3) by (auto simp: m_def BATCH_MAX_def)
  have take_m: "take m (drop n ds) = ?part" by (auto simp: m_def min_def)
  have "list_all entry_ok ?part"
    using ok set_take_subset [of BATCH_MAX "drop n ds"] set_drop_subset [of n ds] unfolding list_all_iff by blast
  from seq_of_entries [OF this, of "int n + 1"]
  have seqs: "map seq_of ?batch = map (\<lambda>i. head w + 1 + int i) [0..<length ?batch]" using n(2) by simp
  have batch: "?batch \<noteq> []" using m(1) by (simp add: m_def flip: length_greater_0_conv)
  let ?q = "\<lparr>ir_source = SOURCE, ir_secret = s, ir_records = ?batch\<rparr>"
  obtain w1 where w1: "call ?q w = (w1, soc_answer (int m) (Js_int (int (n + m))) Js_null)" "willing w1"
    "head w1 = int (n + m)" "received w1 = received w @ ?batch"
    using in_order [OF w batch _ seqs, of ?q] n(2) by (auto simp: m_def)
  obtain b bs where bs: "?batch = b # bs" using batch by (cases ?batch) auto
  have "push_turn (\<lambda>_. Some (map Record_line ds)) call fresh sent p w =
      Again (save_seq (p1\<lparr>sp_last_seq := int (n + m)\<rparr>)) (sent + int m) w1"
    using w1(1) secret m(1) unfolding push_turn_def pending_batch [OF ok n(1)] bs
    by (simp add: soc_answer_def response_of_def js_get_def js_or_def js_true_def js_int_def int_instance_def
        acknowledge_def Let_def)
  moreover have "sp_last_seq (save_seq (p1\<lparr>sp_last_seq := int (n + m)\<rparr>)) = int (n + m)" by (simp add: save_seq_def)
  ultimately show ?thesis using w1(2-4) m take_m by metis
qed

lemma push_from_head:
  assumes ok: "list_all entry_ok ds"
  shows "willing w \<Longrightarrow> sp_last_seq p = int n \<Longrightarrow> head w = int n \<Longrightarrow> n \<le> length ds \<Longrightarrow>
   \<exists>p' w'. push_loop (\<lambda>_. Some (map Record_line ds)) call fresh sent p w =
      Some (p', w', Inr \<lparr>pr_sent = sent + int (length ds - n), pr_last_seq = int (length ds), pr_error = None\<rparr>) \<and>
      sp_last_seq p' = int (length ds) \<and> sp_last_error p' = None \<and> head w' = int (length ds) \<and>
      received w' = received w @ entries (int n + 1) (drop n ds)"
proof (induction "length ds - n" arbitrary: n sent p w rule: less_induct)
  case less
  let ?f = "\<lambda>_ :: 'w. Some (map Record_line ds)"
  show ?case
  proof (cases "n = length ds")
    case True
    then have "push_turn ?f call fresh sent p w = Returned (p\<lparr>sp_last_error := None\<rparr>) (result_now sent p None) w"
      unfolding push_turn_def pending_batch [OF ok less.prems(2)] by simp
    then show ?thesis using less.prems True by (subst push_loop.simps) (simp add: result_now_def)
  next
    case False
    define m where "m = length (take BATCH_MAX (drop n ds))"
    obtain p1 w1 where turn: "push_turn ?f call fresh sent p w = Again p1 (sent + int m) w1"
      and m: "0 < m" "n + m \<le> length ds" and s: "sp_last_seq p1 = int (n + m)" "willing w1" "head w1 = int (n + m)"
      and r: "received w1 = received w @ entries (int n + 1) (take m (drop n ds))"
      using turn_in_order [OF ok less.prems(1-3), of fresh sent] less.prems(4) False unfolding m_def by auto
    have smaller: "length ds - (n + m) < length ds - n" using m by simp
    obtain p' w' where "push_loop ?f call fresh (sent + int m) p1 w1 =
        Some (p', w', Inr \<lparr>pr_sent = sent + int m + int (length ds - (n + m)), pr_last_seq = int (length ds), pr_error = None\<rparr>)"
      and "sp_last_seq p' = int (length ds)" "sp_last_error p' = None" "head w' = int (length ds)"
      and r': "received w' = received w1 @ entries (int (n + m) + 1) (drop (n + m) ds)"
      using less.hyps [OF smaller s(2) s(1) s(3) m(2), of "sent + int m"] by (elim exE conjE) (rule that)
    moreover have "drop n ds = take m (drop n ds) @ drop (n + m) ds"
      using append_take_drop_id [of m "drop n ds"] by (simp add: add.commute)
    then have "entries (int n + 1) (drop n ds) = entries (int n + 1) (take m (drop n ds)) @ entries (int (n + m) + 1) (drop (n + m) ds)"
      using m(2) entries_append [of "int n + 1" "take m (drop n ds)" "drop (n + m) ds"] by (simp add: algebra_simps)
    moreover have "int m + int (length ds - (n + m)) = int (length ds - n)" using m(2) by simp
    ultimately show ?thesis using turn r by (subst push_loop.simps) (simp add: add.assoc)
  qed
qed

text \<open>A client that believes the service further than it is goes back to where the service says it is.\<close>

lemma turn_gap:
  assumes ok: "list_all entry_ok ds" and w: "willing w"
    and n: "sp_last_seq p = int n" "head w = int h" "h < n" "n < length ds"
  shows "\<exists>p1. push_turn (\<lambda>_. Some (map Record_line ds)) call fresh sent p w = Again p1 sent w \<and> sp_last_seq p1 = int h"
proof -
  let ?batch = "entries (int n + 1) (take BATCH_MAX (drop n ds))"
  obtain p1 s where secret: "secret_value fresh p = (p1, s)" "sp_last_seq p1 = int n"
    using n(1) by (cases "secret_value fresh p") (auto simp: secret_value_def split: option.splits)
  obtain d es where d: "take BATCH_MAX (drop n ds) = d # es"
    using n(4) by (cases "take BATCH_MAX (drop n ds)") (auto simp: BATCH_MAX_def)
  then have "d \<in> set ds" by (metis in_set_dropD in_set_takeD list.set_intros(1))
  then have "seq_of (hd ?batch) = int n + 1" using ok d by (simp add: list_all_iff seq_of_entry)
  then have "call \<lparr>ir_source = SOURCE, ir_secret = s, ir_records = ?batch\<rparr> w = (w, soc_answer 0 (Js_int (int h)) (Js_str ''gap''))"
    using gap [OF w, of ?batch "\<lparr>ir_source = SOURCE, ir_secret = s, ir_records = ?batch\<rparr>"] d n(2,3) by simp
  then have "push_turn (\<lambda>_. Some (map Record_line ds)) call fresh sent p w = Again (save_seq (p1\<lparr>sp_last_seq := int h\<rparr>)) sent w"
    using d secret n(3) unfolding push_turn_def pending_batch [OF ok n(1)]
    by (simp add: soc_answer_def response_of_def js_get_def js_or_def js_true_def js_int_def int_instance_def
        acknowledge_def resume_at_def Let_def)
  then show ?thesis by (simp add: save_seq_def)
qed

lemma push_catches_up:
  assumes ok: "list_all entry_ok ds" and w: "willing w"
    and n: "sp_last_seq p = int n" "head w = int h" "h \<le> n" "n \<le> length ds" "n = length ds \<longrightarrow> h = n"
  shows "\<exists>p' w'. push (\<lambda>_. Some (map Record_line ds)) call fresh p w =
      Some (p', w', Inr \<lparr>pr_sent = int (length ds - h), pr_last_seq = int (length ds), pr_error = None\<rparr>) \<and>
      sp_last_seq p' = int (length ds) \<and> sp_last_error p' = None \<and> head w' = int (length ds) \<and>
      received w' = received w @ entries (int h + 1) (drop h ds)"
proof (cases "h = n")
  case True
  then show ?thesis using push_from_head [OF ok w n(1) _ n(4), of fresh 0] n(2) by (simp add: push_def)
next
  case False
  then have "h < n" "n < length ds" using n(3-5) by auto
  then obtain p1 where turn: "push_turn (\<lambda>_. Some (map Record_line ds)) call fresh 0 p w = Again p1 0 w" "sp_last_seq p1 = int h"
    using turn_gap [OF ok w n(1,2)] by blast
  then have "push (\<lambda>_. Some (map Record_line ds)) call fresh p w = push_loop (\<lambda>_. Some (map Record_line ds)) call fresh 0 p1 w"
    unfolding push_def by (subst push_loop.simps) simp
  then show ?thesis using push_from_head [OF ok w turn(2) n(2), of fresh 0] \<open>h < n\<close> n(4) by simp
qed

end

section \<open>The service of the tests is one\<close>

lemma soc_records_in_order:
  "map seq_of ds = map (\<lambda>i. fs_head s + 1 + int i) [0..<length ds] \<Longrightarrow>
   soc_records ds accepted s =
     (s\<lparr>fs_head := fs_head s + int (length ds), fs_received := fs_received s @ ds\<rparr>,
      soc_answer (accepted + int (length ds)) (Js_int (fs_head s + int (length ds))) Js_null)"
proof (induction ds arbitrary: accepted s)
  case (Cons d ds)
  have split: "map (\<lambda>i. fs_head s + 1 + int i) [0..<Suc (length ds)] =
      (fs_head s + 1) # map (\<lambda>i. fs_head s + 2 + int i) [0..<length ds]"
    by (simp add: upt_conv_Cons map_Suc_upt [symmetric] del: upt_Suc)
  then have d: "seq_of d = fs_head s + 1"
    and ds: "map seq_of ds = map (\<lambda>i. fs_head s + 2 + int i) [0..<length ds]"
    using Cons.prems by (simp_all del: upt_Suc)
  show ?case using Cons.IH [of "s\<lparr>fs_head := seq_of d, fs_received := fs_received s @ [d]\<rparr>" "accepted + 1"] d ds
    by (simp add: ac_simps)
qed simp

interpretation soc: audit_sink soc_ingest fs_head fs_received "\<lambda>s. fs_refuse s = None"
proof
  show "\<exists>w1. soc_ingest q w = (w1, soc_answer (int (length batch)) (Js_int (fs_head w + int (length batch))) Js_null) \<and>
      fs_refuse w1 = None \<and> fs_head w1 = fs_head w + int (length batch) \<and> fs_received w1 = fs_received w @ batch"
    if "fs_refuse w = None" "batch \<noteq> []" "ir_records q = batch"
      "map seq_of batch = map (\<lambda>i. fs_head w + 1 + int i) [0..<length batch]" for w batch q
    using that soc_records_in_order [of batch w 0] by (auto simp: soc_ingest_def)
  show "soc_ingest q w = (w, soc_answer 0 (Js_int (fs_head w)) (Js_str ''gap''))"
    if "fs_refuse w = None" "batch \<noteq> []" "ir_records q = batch" "fs_head w + 1 < seq_of (hd batch)" for w batch q
    using that by (cases batch) (auto simp: soc_ingest_def)
qed

text \<open>A blank line in the file, which every other reader skips, makes the numbers skip one: the service
  answers with a gap, the client resumes where it already is, and the push sends the same batch for ever.\<close>

lemma gap_at_the_head_never_returns:
  assumes "pending (file_of w) p = Inr (b # bs)" "sp_secret_file p \<noteq> None"
    and "\<And>q. call q w = (w, soc_answer 0 (Js_int (sp_last_seq p)) (Js_str ''gap''))"
  shows "push_turn file_of call fresh sent p w = Again p sent w"
  using assms by (auto simp: push_turn_def secret_value_def soc_answer_def response_of_def js_get_def js_or_def js_true_def
      js_int_def int_instance_def acknowledge_def resume_at_def Let_def)

section \<open>Properties\<close>


definition ten_records :: "jobj list" where
  "ten_records = map (\<lambda>i. [(''time'', Js_str ''t''), (''event'', Js_int i), (''hash'', Js_str ''h'')]) [1..10]"


end
