(* ===== verification/App_Release.thy ===== *)
theory App_Release
  imports App_Push
begin

text \<open>
  \<open>hass.py\<close>: handing the serial port over. The integration's config entries are disabled for a session
  and enabled again after it; their ids are written to a marker file first, so that a crash in between is
  repaired at the next start. Home Assistant core is a record of the three exchanges the code has with it
  (the HTTP listing, the WebSocket greeting and authentication, the WebSocket command); what is needed of
  it is the locale \<open>config_core\<close>, interpreted on the core of the repository's tests.
\<close>

section \<open>Talking to core\<close>

text \<open>A value, a \<open>HomeAssistantError\<close>, or another exception (of the network library, say), which nothing
  in this module catches.\<close>

datatype 'a hass_outcome = Fine 'a | Hass_error string | Other_error py_error

record 'c core_api =
  api_list :: "string \<Rightarrow> string \<Rightarrow> 'c \<Rightarrow> (nat \<times> json option) result"
  api_hello :: "'c \<Rightarrow> json result"
  api_auth :: "jobj \<Rightarrow> 'c \<Rightarrow> json result"
  api_command :: "jobj \<Rightarrow> 'c \<Rightarrow> 'c \<times> json result"

definition DISABLED_BY_USER :: string where "DISABLED_BY_USER = ''user''"

fun objects_only :: "json list \<Rightarrow> jobj list" where
  "objects_only [] = []"
| "objects_only (Js_obj d # js) = d # objects_only js"
| "objects_only (j # js) = objects_only js"

definition config_entries :: "'c core_api \<Rightarrow> string \<Rightarrow> string \<Rightarrow> 'c \<Rightarrow> jobj list hass_outcome" where
  "config_entries api token domain c =
     (case api_list api token domain c of
        Inl e \<Rightarrow> Other_error e
      | Inr (status, body) \<Rightarrow>
          if status \<noteq> 200 then Hass_error (''listing config entries failed with HTTP '' @ fmt_dec 0 (int status))
          else case body of
                 None \<Rightarrow> Other_error ValueError
               | Some (Js_list es) \<Rightarrow> Fine (objects_only es)
               | Some _ \<Rightarrow> Hass_error ''unexpected config entry listing'')"

text \<open>\<open>call_service\<close>, by what the POST request returned.\<close>

definition call_service ::
    "string \<Rightarrow> string \<Rightarrow> (nat \<times> json option) result \<Rightarrow> bool \<Rightarrow> jobj option hass_outcome" where
  "call_service domain service response return_response =
     (case response of
        Inl e \<Rightarrow> Other_error e
      | Inr (status, body) \<Rightarrow>
          if status \<noteq> 200 \<and> status \<noteq> 201
          then Hass_error (domain @ ''.'' @ service @ '' failed with HTTP '' @ fmt_dec 0 (int status))
          else if \<not> return_response then Fine None
          else case body of
                 None \<Rightarrow> Hass_error (domain @ ''.'' @ service @ '' returned no JSON'')
               | Some (Js_obj d) \<Rightarrow> Fine (Some d)
               | Some _ \<Rightarrow> Fine None)"

text \<open>\<open>message.get(key)\<close> on what \<open>json.loads\<close> returned.\<close>

definition message_get :: "json \<Rightarrow> string \<Rightarrow> json result" where
  "message_get j k = (case j of Js_obj d \<Rightarrow> Inr (js_get d k Js_null) | _ \<Rightarrow> Inl AttributeError)"

definition disable_command :: "string \<Rightarrow> bool \<Rightarrow> jobj" where
  "disable_command entry_id disabled =
     [(''id'', Js_int 1), (''type'', Js_str ''config_entries/disable''), (''entry_id'', Js_str entry_id),
      (''disabled_by'', if disabled then Js_str DISABLED_BY_USER else Js_null)]"

definition auth_message :: "string \<Rightarrow> jobj" where
  "auth_message token = [(''type'', Js_str ''auth''), (''access_token'', Js_str token)]"

definition reply_outcome :: "string \<Rightarrow> json \<Rightarrow> bool hass_outcome" where
  "reply_outcome entry_id reply =
     (case reply of
        Js_obj d \<Rightarrow>
          if \<not> js_true (js_get d ''success'' Js_null) then
            (case js_get d ''error'' (Js_obj []) of
               Js_obj err \<Rightarrow> Hass_error (''core refused to change entry '' @ entry_id @ '': '' @
                                    py_str (js_get err ''message'' (Js_str ''unknown error'')))
             | _ \<Rightarrow> Other_error AttributeError)
          else (case js_get d ''result'' (Js_obj []) of
                  Js_obj r \<Rightarrow> Fine (js_true (js_get r ''require_restart'' Js_null))
                | _ \<Rightarrow> Other_error AttributeError)
      | _ \<Rightarrow> Other_error AttributeError)"

definition set_entry_disabled :: "'c core_api \<Rightarrow> string \<Rightarrow> string \<Rightarrow> bool \<Rightarrow> 'c \<Rightarrow> 'c \<times> bool hass_outcome" where
  "set_entry_disabled api token entry_id disabled c =
     (case bindr (api_hello api c) (\<lambda>first. message_get first ''type'') of
        Inl e \<Rightarrow> (c, Other_error e)
      | Inr t \<Rightarrow>
          if t \<noteq> Js_str ''auth_required'' then (c, Hass_error ''core did not ask for authentication'')
          else case bindr (api_auth api (auth_message token) c) (\<lambda>auth. message_get auth ''type'') of
                 Inl e \<Rightarrow> (c, Other_error e)
               | Inr t \<Rightarrow>
                   if t \<noteq> Js_str ''auth_ok'' then (c, Hass_error ''core refused the Supervisor token'')
                   else case api_command api (disable_command entry_id disabled) c of
                          (c1, Inl e) \<Rightarrow> (c1, Other_error e)
                        | (c1, Inr reply) \<Rightarrow> (c1, reply_outcome entry_id reply))"

section \<open>Release and restore\<close>

record 'c releaser =
  rl_core :: 'c
  rl_marker :: "json_file option"

definition marker_of :: "string list \<Rightarrow> json_file option" where
  "marker_of ids = Some (Readable (Js_obj [(''entry_ids'', Js_list (map Js_str ids))]))"

text \<open>\<open>pending\<close>; a marker that holds another JSON value than a dictionary raises.\<close>

definition release_pending :: "'c releaser \<Rightarrow> string list result" where
  "release_pending r =
     (case rl_marker r of
        Some (Readable (Js_obj d)) \<Rightarrow>
          (case js_get d ''entry_ids'' (Js_list []) of Js_list ids \<Rightarrow> Inr (map py_str ids) | _ \<Rightarrow> Inr [])
      | Some (Readable _) \<Rightarrow> Inl AttributeError
      | _ \<Rightarrow> Inr [])"

definition release_targets :: "jobj list \<Rightarrow> string list" where
  "release_targets es =
     map (\<lambda>e. py_str (js_get e ''entry_id'' Js_null))
       (filter (\<lambda>e. js_true (js_get e ''entry_id'' Js_null) \<and> \<not> js_true (js_get e ''disabled_by'' Js_null)) es)"

fun disable_each ::
    "'c core_api \<Rightarrow> string \<Rightarrow> string list \<Rightarrow> string list \<Rightarrow> 'c \<Rightarrow> 'c \<times> string list \<times> unit hass_outcome" where
  "disable_each api token [] done_ids c = (c, done_ids, Fine ())"
| "disable_each api token (i # ids) done_ids c =
     (case set_entry_disabled api token i True c of
        (c1, Fine _) \<Rightarrow> disable_each api token ids (done_ids @ [i]) c1
      | (c1, Hass_error e) \<Rightarrow> (c1, done_ids, Hass_error e)
      | (c1, Other_error e) \<Rightarrow> (c1, done_ids, Other_error e))"

text \<open>Enable each, collecting the ids core refused.\<close>

fun enable_each ::
    "'c core_api \<Rightarrow> string \<Rightarrow> string list \<Rightarrow> string list \<Rightarrow> 'c \<Rightarrow> 'c \<times> string list \<times> py_error option" where
  "enable_each api token [] failed c = (c, failed, None)"
| "enable_each api token (i # ids) failed c =
     (case set_entry_disabled api token i False c of
        (c1, Fine _) \<Rightarrow> enable_each api token ids failed c1
      | (c1, Hass_error e) \<Rightarrow> enable_each api token ids (failed @ [i]) c1
      | (c1, Other_error e) \<Rightarrow> (c1, failed, Some e))"

definition release :: "'c core_api \<Rightarrow> string \<Rightarrow> 'c releaser \<Rightarrow> 'c releaser \<times> string list hass_outcome" where
  "release api token r =
     (case config_entries api token ''elkm1'' (rl_core r) of
        Hass_error e \<Rightarrow> (r, Hass_error e)
      | Other_error e \<Rightarrow> (r, Other_error e)
      | Fine es \<Rightarrow>
          (let targets = release_targets es in
           if targets = [] then (r, Fine [])
           else case disable_each api token targets [] (rl_core r) of
                  (c1, done_ids, Fine _) \<Rightarrow> (\<lparr>rl_core = c1, rl_marker = marker_of targets\<rparr>, Fine done_ids)
                | (c1, done_ids, Other_error e) \<Rightarrow> (\<lparr>rl_core = c1, rl_marker = marker_of targets\<rparr>, Other_error e)
                | (c1, done_ids, Hass_error e) \<Rightarrow>
                    (case enable_each api token done_ids [] c1 of
                       (c2, _, Some e2) \<Rightarrow> (\<lparr>rl_core = c2, rl_marker = marker_of targets\<rparr>, Other_error e2)
                     | (c2, _, None) \<Rightarrow> (\<lparr>rl_core = c2, rl_marker = None\<rparr>, Hass_error e))))"

fun comma_join :: "string list \<Rightarrow> string" where
  "comma_join [] = []"
| "comma_join [s] = s"
| "comma_join (s # ss) = s @ '', '' @ comma_join ss"

definition restore :: "'c core_api \<Rightarrow> string \<Rightarrow> 'c releaser \<Rightarrow> 'c releaser \<times> string list hass_outcome" where
  "restore api token r =
     (case release_pending r of
        Inl e \<Rightarrow> (r, Other_error e)
      | Inr ids \<Rightarrow>
          (case enable_each api token ids [] (rl_core r) of
             (c1, failed, Some e) \<Rightarrow> (r\<lparr>rl_core := c1\<rparr>, Other_error e)
           | (c1, failed, None) \<Rightarrow>
               if failed \<noteq> []
               then (\<lparr>rl_core = c1, rl_marker = marker_of failed\<rparr>,
                     Hass_error (''integration entries still disabled: '' @ comma_join failed))
               else (\<lparr>rl_core = c1, rl_marker = None\<rparr>, Fine ids)))"

section \<open>The core of the tests\<close>

text \<open>\<open>FakeCore\<close> of \<open>tests_programmer/test_hass.py\<close>.\<close>

record fake_entry =
  fe_id :: string
  fe_domain :: string
  fe_disabled_by :: "string option"

record fake_core =
  fc_entries :: "fake_entry list"
  fc_token :: string
  fc_refuse :: "string list"

definition entry_json :: "fake_entry \<Rightarrow> jobj" where
  "entry_json e =
     [(''entry_id'', Js_str (fe_id e)), (''domain'', Js_str (fe_domain e)),
      (''disabled_by'', case fe_disabled_by e of None \<Rightarrow> Js_null | Some u \<Rightarrow> Js_str u)]"

definition fake_list :: "string \<Rightarrow> string \<Rightarrow> fake_core \<Rightarrow> (nat \<times> json option) result" where
  "fake_list token domain c =
     (if token \<noteq> fc_token c then Inr (401, None)
      else Inr (200, Some (Js_list (map (\<lambda>e. Js_obj (entry_json e)) (filter (\<lambda>e. fe_domain e = domain) (fc_entries c))))))"

definition fake_auth :: "jobj \<Rightarrow> fake_core \<Rightarrow> json result" where
  "fake_auth d c =
     Inr (Js_obj [(''type'', Js_str (if js_get d ''access_token'' Js_null = Js_str (fc_token c) then ''auth_ok'' else ''auth_invalid''))])"

definition fake_command :: "jobj \<Rightarrow> fake_core \<Rightarrow> fake_core \<times> json result" where
  "fake_command msg c =
     (let i = js_get msg ''entry_id'' Js_null;
          by = (case js_get msg ''disabled_by'' Js_null of Js_str u \<Rightarrow> Some u | _ \<Rightarrow> None) in
      if i \<in> set (map Js_str (fc_refuse c))
      then (c, Inr (Js_obj [(''id'', js_get msg ''id'' Js_null), (''success'', Js_bool False),
                            (''error'', Js_obj [(''message'', Js_str ''nope'')])]))
      else (c\<lparr>fc_entries := map (\<lambda>e. if Js_str (fe_id e) = i then e\<lparr>fe_disabled_by := by\<rparr> else e) (fc_entries c)\<rparr>,
            Inr (Js_obj [(''id'', js_get msg ''id'' Js_null), (''success'', Js_bool True),
                         (''result'', Js_obj [(''require_restart'', Js_bool False)])])))"

definition fake_api :: "fake_core core_api" where
  "fake_api =
     \<lparr>api_list = fake_list, api_hello = \<lambda>c. Inr (Js_obj [(''type'', Js_str ''auth_required'')]),
      api_auth = fake_auth, api_command = fake_command\<rparr>"

text \<open>\<open>disabled_by\<close> is falsy for an empty text, too.\<close>

definition entry_known :: "fake_core \<Rightarrow> string \<Rightarrow> bool" where
  "entry_known c i \<longleftrightarrow> i \<in> fe_id ` set (fc_entries c)"

definition by_someone :: "fake_entry \<Rightarrow> bool" where
  "by_someone e \<longleftrightarrow> fe_disabled_by e \<noteq> None \<and> fe_disabled_by e \<noteq> Some []"

definition entry_disabled :: "fake_core \<Rightarrow> string \<Rightarrow> bool" where
  "entry_disabled c i \<longleftrightarrow> (\<exists>e \<in> set (fc_entries c). fe_id e = i \<and> by_someone e)"

definition ids_distinct :: "fake_core \<Rightarrow> bool" where
  "ids_distinct c \<longleftrightarrow> distinct (map fe_id (fc_entries c))"

section \<open>What the hand-over needs of core\<close>

lemma set_disabled_split:
  assumes "set_entry_disabled api token i b c = (c1, r)"
  obtains "c1 = c" "\<And>v. r \<noteq> Fine v"
  | e where "api_command api (disable_command i b) c = (c1, Inl e)" "r = Other_error e"
  | reply where "api_command api (disable_command i b) c = (c1, Inr reply)" "reply_outcome i reply = r"
  using assms unfolding set_entry_disabled_def
  by (auto split: sum.splits if_splits prod.splits)

locale config_core =
  fixes api :: "'c core_api" and known disabled :: "'c \<Rightarrow> string \<Rightarrow> bool" and sane :: "'c \<Rightarrow> bool"
  assumes command_ok: "api_command api (disable_command i b) c = (c1, Inr reply) \<Longrightarrow> reply_outcome i reply = Fine v \<Longrightarrow>
      known c i \<Longrightarrow> disabled c1 i = b"
    and command_refused: "api_command api (disable_command i b) c = (c1, Inr reply) \<Longrightarrow> reply_outcome i reply = Hass_error e \<Longrightarrow>
      disabled c1 i = disabled c i"
    and command_frame: "api_command api (disable_command i b) c = (c1, r) \<Longrightarrow> j \<noteq> i \<Longrightarrow> disabled c1 j = disabled c j"
    and command_known: "api_command api (disable_command i b) c = (c1, r) \<Longrightarrow> known c1 = known c"
    and disabled_known: "disabled c i \<Longrightarrow> known c i"
    and listed: "sane c \<Longrightarrow> api_list api token domain c = Inr (200, Some (Js_list js)) \<Longrightarrow>
      i \<in> set (release_targets (objects_only js)) \<Longrightarrow> known c i \<and> \<not> disabled c i"
begin

lemma set_disabled_known: "set_entry_disabled api token i b c = (c1, r) \<Longrightarrow> known c1 = known c"
  by (erule set_disabled_split) (auto dest: command_known)

lemma set_disabled_frame: "set_entry_disabled api token i b c = (c1, r) \<Longrightarrow> j \<noteq> i \<Longrightarrow> disabled c1 j = disabled c j"
  by (erule set_disabled_split) (auto dest: command_frame)

lemma set_disabled_fine:
  "set_entry_disabled api token i b c = (c1, Fine v) \<Longrightarrow> known c i \<Longrightarrow> disabled c1 i = b"
  by (erule set_disabled_split) (auto dest: command_ok)

lemma set_disabled_refused:
  "set_entry_disabled api token i b c = (c1, Hass_error e) \<Longrightarrow> disabled c1 j = disabled c j"
  by (erule set_disabled_split, simp, simp) (metis command_refused command_frame)

lemma enabled_fine: "set_entry_disabled api token i False c = (c1, Fine v) \<Longrightarrow> \<not> disabled c1 i"
  using set_disabled_fine set_disabled_known disabled_known by metis

lemma disable_each_frame:
  "disable_each api token ids acc c = (c1, done_ids, r) \<Longrightarrow>
   known c1 = known c \<and> (\<forall>j. j \<notin> set ids \<longrightarrow> disabled c1 j = disabled c j)"
proof (induction ids arbitrary: acc c)
  case (Cons i ids)
  obtain c2 o2 where s: "set_entry_disabled api token i True c = (c2, o2)" by fastforce
  then have "known c2 = known c" "\<And>j. j \<noteq> i \<Longrightarrow> disabled c2 j = disabled c j"
    using set_disabled_known set_disabled_frame by metis+
  then show ?case using Cons s by (cases o2) fastforce+
qed simp

lemma disable_each_fine:
  "disable_each api token ids acc c = (c1, done_ids, Fine ()) \<Longrightarrow> (\<forall>i \<in> set ids. known c i) \<Longrightarrow>
   done_ids = acc @ ids \<and> (\<forall>i \<in> set ids. disabled c1 i)"
proof (induction ids arbitrary: acc c)
  case (Cons i ids)
  obtain c2 v where s: "set_entry_disabled api token i True c = (c2, Fine v)"
    and rest: "disable_each api token ids (acc @ [i]) c2 = (c1, done_ids, Fine ())"
    using Cons.prems(1) by (auto split: prod.splits hass_outcome.splits)
  have known: "known c2 = known c" and i: "disabled c2 i"
    using set_disabled_known [OF s] set_disabled_fine [OF s] Cons.prems(2) by simp_all
  have "done_ids = (acc @ [i]) @ ids \<and> (\<forall>i \<in> set ids. disabled c1 i)"
    by (rule Cons.IH [OF rest]) (use Cons.prems(2) known in simp)
  then show ?case using disable_each_frame [OF rest] i by auto
qed simp

lemma enable_each_frame:
  "enable_each api token ids acc c = (c1, failed, r) \<Longrightarrow>
   known c1 = known c \<and> (\<forall>j. j \<notin> set ids \<longrightarrow> disabled c1 j = disabled c j)"
proof (induction ids arbitrary: acc c)
  case (Cons i ids)
  obtain c2 o2 where s: "set_entry_disabled api token i False c = (c2, o2)" by fastforce
  then have "known c2 = known c" "\<And>j. j \<noteq> i \<Longrightarrow> disabled c2 j = disabled c j"
    using set_disabled_known set_disabled_frame by metis+
  then show ?case using Cons s by (cases o2) fastforce+
qed simp

text \<open>What is not reported as failed is enabled.\<close>

lemma enable_each_done:
  "enable_each api token ids acc c = (c1, failed, None) \<Longrightarrow>
   set acc \<subseteq> set failed \<and> (\<forall>j \<in> set ids. j \<notin> set failed \<longrightarrow> \<not> disabled c1 j)"
proof (induction ids arbitrary: acc c)
  case (Cons i ids)
  obtain c2 o2 where s: "set_entry_disabled api token i False c = (c2, o2)" by fastforce
  show ?case
  proof (cases o2)
    case (Fine v)
    then have rest: "enable_each api token ids acc c2 = (c1, failed, None)" using Cons.prems s by simp
    have "\<not> disabled c2 i" using enabled_fine s Fine by blast
    then show ?thesis using Cons.IH [OF rest] enable_each_frame [OF rest] by auto
  next
    case (Hass_error e)
    then have rest: "enable_each api token ids (acc @ [i]) c2 = (c1, failed, None)" using Cons.prems s by simp
    then show ?thesis using Cons.IH [OF rest] by auto
  qed (use Cons.prems s in simp)
qed simp

lemma targets_listed:
  "sane c \<Longrightarrow> config_entries api token domain c = Fine es \<Longrightarrow> i \<in> set (release_targets es) \<Longrightarrow> known c i \<and> \<not> disabled c i"
  using listed unfolding config_entries_def
  by (auto split: sum.splits prod.splits if_splits option.splits json.splits)

text \<open>A release that was interrupted after any number of entries is undone by \<open>restore\<close>.\<close>

lemma interrupted_release:
  assumes sane: "sane c" and es: "config_entries api token ''elkm1'' c = Fine es"
    and c1: "disable_each api token (take n (release_targets es)) [] c = (c1, done_ids, out)"
    and undo: "restore api token \<lparr>rl_core = c1, rl_marker = marker_of (release_targets es)\<rparr> = (r, res)"
  shows "(\<forall>ids. res = Fine ids \<longrightarrow>
        ids = release_targets es \<and> rl_marker r = None \<and> (\<forall>j. disabled (rl_core r) j = disabled c j)) \<and>
    (\<forall>e. res = Hass_error e \<longrightarrow>
      (\<exists>left. release_pending r = Inr left \<and> (\<forall>j. disabled (rl_core r) j \<longrightarrow> disabled c j \<or> j \<in> set left)))"
proof -
  let ?ids = "release_targets es"
  have pending: "release_pending \<lparr>rl_core = x, rl_marker = marker_of is\<rparr> = Inr is" for x :: 'c and "is"
    by (simp add: release_pending_def marker_of_def js_get_def comp_def)
  obtain c2 failed stop where en: "enable_each api token ?ids [] c1 = (c2, failed, stop)" by (cases "enable_each api token ?ids [] c1")
  have frame: "j \<notin> set ?ids \<Longrightarrow> disabled c2 j = disabled c j" for j
    using enable_each_frame [OF en] disable_each_frame [OF c1] in_set_takeD by metis
  have before: "j \<in> set ?ids \<Longrightarrow> \<not> disabled c j" for j using targets_listed [OF sane es] by blast
  show ?thesis
  proof (cases stop)
    case None
    then have enabled: "j \<in> set ?ids \<Longrightarrow> j \<notin> set failed \<Longrightarrow> \<not> disabled c2 j" for j
      using enable_each_done en by blast
    show ?thesis
    proof (cases "failed = []")
      case True
      then have "r = \<lparr>rl_core = c2, rl_marker = None\<rparr>" "res = Fine ?ids"
        using undo en None by (simp_all add: restore_def pending)
      then show ?thesis using frame enabled before True by auto
    next
      case False
      then have "r = \<lparr>rl_core = c2, rl_marker = marker_of failed\<rparr>" "\<exists>e. res = Hass_error e"
        using undo en None by (auto simp: restore_def pending)
      then show ?thesis using pending frame enabled by auto
    qed
  next
    case (Some e)
    then show ?thesis using undo en by (auto simp: restore_def pending)
  qed
qed

lemma released:
  assumes "sane (rl_core r)" "release api token r = (r1, Fine ids)" "ids \<noteq> []"
  shows "\<exists>es. config_entries api token ''elkm1'' (rl_core r) = Fine es \<and> ids = release_targets es \<and>
    rl_marker r1 = marker_of ids \<and> (\<forall>j. disabled (rl_core r1) j = (disabled (rl_core r) j \<or> j \<in> set ids))"
proof -
  obtain es where es: "config_entries api token ''elkm1'' (rl_core r) = Fine es"
    using assms(2) by (auto simp: release_def split: hass_outcome.splits)
  let ?ids = "release_targets es"
  have "?ids \<noteq> []" using assms(2,3) es by (auto simp: release_def)
  obtain c1 d out where dis: "disable_each api token ?ids [] (rl_core r) = (c1, d, out)" by (cases "disable_each api token ?ids [] (rl_core r)")
  then have fine: "out = Fine ()" "r1 = \<lparr>rl_core = c1, rl_marker = marker_of ?ids\<rparr>" "ids = d"
    using assms(2) es \<open>?ids \<noteq> []\<close>
    by (auto simp: release_def Let_def split: hass_outcome.splits prod.splits option.splits)
  have known: "\<forall>i \<in> set ?ids. known (rl_core r) i \<and> \<not> disabled (rl_core r) i"
    using targets_listed [OF assms(1) es] by blast
  then have "d = [] @ ?ids \<and> (\<forall>i \<in> set ?ids. disabled c1 i)"
    by (intro disable_each_fine [of token _ _ "rl_core r"]) (use dis fine(1) in simp_all)
  then show ?thesis using es fine disable_each_frame [OF dis] by auto
qed

end

definition changed :: "string \<Rightarrow> string option \<Rightarrow> fake_entry \<Rightarrow> fake_entry" where
  "changed i by e = (if fe_id e = i then e\<lparr>fe_disabled_by := by\<rparr> else e)"

lemma fake_command_result:
  "fake_command (disable_command i b) c =
     (if i \<in> set (fc_refuse c)
      then (c, Inr (Js_obj [(''id'', Js_int 1), (''success'', Js_bool False), (''error'', Js_obj [(''message'', Js_str ''nope'')])]))
      else (c\<lparr>fc_entries := map (changed i (if b then Some ''user'' else None)) (fc_entries c)\<rparr>,
            Inr (Js_obj [(''id'', Js_int 1), (''success'', Js_bool True), (''result'', Js_obj [(''require_restart'', Js_bool False)])])))"
  by (simp add: fake_command_def disable_command_def js_get_def Let_def changed_def fun_eq_iff DISABLED_BY_USER_def image_iff)

lemma changed_id [simp]: "fe_id (changed i by e) = fe_id e"
  by (simp add: changed_def)

lemma changed_disabled:
  "entry_disabled (c\<lparr>fc_entries := map (changed i by) (fc_entries c)\<rparr>) j \<longleftrightarrow>
     (if j = i then entry_known c i \<and> by \<noteq> None \<and> by \<noteq> Some [] else entry_disabled c j)"
proof -
  have "by_someone (changed i by e) \<longleftrightarrow> (if fe_id e = i then by \<noteq> None \<and> by \<noteq> Some [] else by_someone e)" for e
    by (simp add: changed_def by_someone_def)
  then show ?thesis by (auto simp: entry_disabled_def entry_known_def)
qed

lemma fake_listed:
  "release_targets (objects_only (map (\<lambda>e. Js_obj (entry_json e)) es)) =
     map fe_id (filter (\<lambda>e. fe_id e \<noteq> [] \<and> \<not> by_someone e) es)"
  by (induction es)
    (auto simp: release_targets_def entry_json_def js_get_def js_true_def by_someone_def split: option.splits)

lemma distinct_map_same: "distinct (map f xs) \<Longrightarrow> x \<in> set xs \<Longrightarrow> y \<in> set xs \<Longrightarrow> f x = f y \<Longrightarrow> x = y"
  by (auto simp: distinct_map inj_on_def)

interpretation core: config_core fake_api entry_known entry_disabled ids_distinct
proof
  have command: "api_command fake_api = fake_command" by (simp add: fake_api_def)
  show "entry_disabled c1 i = b"
    if "api_command fake_api (disable_command i b) c = (c1, Inr reply)" "reply_outcome i reply = Fine v" "entry_known c i"
    for i b c c1 reply v
    using that unfolding command fake_command_result
    by (auto simp: reply_outcome_def js_get_def js_true_def changed_disabled split: if_splits)
  show "entry_disabled c1 i = entry_disabled c i"
    if "api_command fake_api (disable_command i b) c = (c1, Inr reply)" "reply_outcome i reply = Hass_error e"
    for i b c c1 reply e
    using that unfolding command fake_command_result
    by (auto simp: reply_outcome_def js_get_def js_true_def split: if_splits)
  show "entry_disabled c1 j = entry_disabled c j"
    if "api_command fake_api (disable_command i b) c = (c1, r)" "j \<noteq> i" for i b c c1 r j
    using that unfolding command fake_command_result by (auto simp: changed_disabled split: if_splits)
  show "entry_known c1 = entry_known c" if "api_command fake_api (disable_command i b) c = (c1, r)" for i b c c1 r
    using that unfolding command fake_command_result
    by (auto simp: entry_known_def fun_eq_iff image_image split: if_splits)
  show "entry_known c i" if "entry_disabled c i" for c i
    using that by (auto simp: entry_disabled_def entry_known_def)
  show "entry_known c i \<and> \<not> entry_disabled c i"
    if distinct: "ids_distinct c" and listing: "api_list fake_api token domain c = Inr (200, Some (Js_list js))"
      and i: "i \<in> set (release_targets (objects_only js))" for c token domain js i
  proof -
    have "js = map (\<lambda>e. Js_obj (entry_json e)) (filter (\<lambda>e. fe_domain e = domain) (fc_entries c))"
      using listing by (simp add: fake_api_def fake_list_def split: if_splits)
    then obtain e where e: "e \<in> set (fc_entries c)" "fe_id e = i" "\<not> by_someone e"
      using i by (auto simp: fake_listed)
    then have "x \<in> set (fc_entries c) \<Longrightarrow> fe_id x = i \<Longrightarrow> \<not> by_someone x" for x
      using distinct_map_same [of fe_id "fc_entries c" x e] distinct by (auto simp: ids_distinct_def)
    then show ?thesis using e by (auto simp: entry_known_def entry_disabled_def)
  qed
qed

text \<open>A refusal while a failed release is undone leaves the entry disabled with no marker to repair it.\<close>

lemma failed_rollback_forgets:
  assumes "config_entries api token ''elkm1'' c = Fine es" and "release_targets es = [i, j]"
    and "set_entry_disabled api token i True c = (c1, Fine v)" "set_entry_disabled api token j True c1 = (c2, Hass_error e)"
    and "set_entry_disabled api token i False c2 = (c3, Hass_error e2)"
  shows "release api token \<lparr>rl_core = c, rl_marker = None\<rparr> = (\<lparr>rl_core = c3, rl_marker = None\<rparr>, Hass_error e)"
  using assms by (simp add: release_def Let_def)

section \<open>Properties\<close>


definition two_entries :: fake_core where
  "two_entries =
     \<lparr>fc_entries = [\<lparr>fe_id = ''e1'', fe_domain = ''elkm1'', fe_disabled_by = None\<rparr>,
                    \<lparr>fe_id = ''e2'', fe_domain = ''elkm1'', fe_disabled_by = None\<rparr>],
      fc_token = ''tok'', fc_refuse = []\<rparr>"


end
