(* ===== verification/App_Storage.thy ===== *)
theory App_Storage
  imports Rp_Account
begin

text \<open>
  \<open>storage/elksafe.py\<close> and \<open>storage/mdb_import.py\<close>: reading an account out of ElkRP's database. ElkRP
  encrypts some rows with RC4 under a key made of the account id (and, for a user, the code number);
  the import undoes it and decodes the rows with the record tables. The database is a parameter that
  answers queries with rows of cells; a text of it is a list of code points.
\<close>

unbundle bit_operations_syntax

section \<open>RC4\<close>

definition BASE_KEY :: "byte list" where
  "BASE_KEY = [80, 23, 14, 120, 48, 223, 77, 121]"

text \<open>\<open>key[i] ^= ord(ch) & 0xFF\<close> over the first seven characters, then over the next modifier.\<close>

fun mix_chars :: "nat \<Rightarrow> string \<Rightarrow> byte list \<Rightarrow> byte list" where
  "mix_chars i [] key = key"
| "mix_chars i (ch # chs) key = mix_chars (Suc i) chs (key[i := key ! i XOR of_nat (pyord ch)])"

definition derive_key :: "string list \<Rightarrow> byte list" where
  "derive_key modifiers = foldl (\<lambda>key m. mix_chars 0 (take 7 m) key) BASE_KEY modifiers"

definition swap :: "byte \<Rightarrow> byte \<Rightarrow> byte list \<Rightarrow> byte list" where
  "swap i j s = s[unat i := s ! unat j, unat j := s ! unat i]"

definition schedule_step :: "byte list \<Rightarrow> byte list \<times> byte \<Rightarrow> nat \<Rightarrow> byte list \<times> byte" where
  "schedule_step key = (\<lambda>(s, j) i. let j = j + s ! i + key ! (i mod length key) in (swap (of_nat i) j s, j))"

text \<open>The loop that ElkRP runs a second time, without the key.\<close>

definition shuffle_step :: "byte list \<times> byte \<Rightarrow> nat \<Rightarrow> byte list \<times> byte" where
  "shuffle_step = (\<lambda>(s, j) i. let j = j + s ! i in (swap (of_nat i) j s, j))"

definition rc4_state :: "byte list \<Rightarrow> byte list" where
  "rc4_state key =
     fst (foldl shuffle_step (foldl (schedule_step key) (map of_nat [0..<256], 0) [0..<256]) [0..<256])"

fun rc4_stream :: "byte list \<Rightarrow> byte \<Rightarrow> byte \<Rightarrow> byte list \<Rightarrow> byte list" where
  "rc4_stream s i j [] = []"
| "rc4_stream s i j (b # bs) =
     (let i = i + 1; j = j + s ! unat i; s = swap i j s
      in (b XOR s ! unat (s ! unat i + s ! unat j)) # rc4_stream s i j bs)"

text \<open>The key is not empty; the code always passes one of \<open>derive_key\<close>.\<close>

definition rc4 :: "byte list \<Rightarrow> byte list \<Rightarrow> byte list" where
  "rc4 key bytes = rc4_stream (rc4_state key) 0 0 bytes"

definition crypt_columns :: "byte list \<Rightarrow> int list \<Rightarrow> int list" where
  "crypt_columns key vals = map uint (rc4 key (map word_of_int vals))"

text \<open>The escape for NUL.\<close>

definition NUL_TEXT :: string where "NUL_TEXT = ''[ESC]00''"

function unescape_bytes :: "string \<Rightarrow> byte list" where
  "unescape_bytes t =
     (if t = [] then []
      else if take 7 t = NUL_TEXT then 0 # unescape_bytes (drop 7 t)
      else of_nat (pyord (hd t)) # unescape_bytes (tl t))"
  by pat_completeness auto
termination
  by (relation "measure length") (auto simp: NUL_TEXT_def)

declare unescape_bytes.simps [simp del]

definition escape_byte :: "byte \<Rightarrow> string" where
  "escape_byte b = (if b = 0 then NUL_TEXT else [char_of (unat b)])"

definition crypt_string :: "byte list \<Rightarrow> string \<Rightarrow> string" where
  "crypt_string key text = concat (map escape_byte (rc4 key (unescape_bytes text)))"

section \<open>Cells and rows\<close>

datatype cell = C_null | C_int int | C_bool bool | C_text "nat list"

type_synonym db_row = "(string \<times> cell) list"

text \<open>A code point of a name or note is a character of the model (Latin-1).\<close>

definition cell_text :: "nat list \<Rightarrow> string" where
  "cell_text cps = map char_of cps"

definition cell_true :: "cell \<Rightarrow> bool" where
  "cell_true c = (case c of C_null \<Rightarrow> False | C_int i \<Rightarrow> i \<noteq> 0 | C_bool b \<Rightarrow> b | C_text t \<Rightarrow> t \<noteq> [])"

definition cell_str :: "cell \<Rightarrow> string" where
  "cell_str c =
     (case c of C_null \<Rightarrow> ''None'' | C_int i \<Rightarrow> fmt_dec 0 i | C_bool b \<Rightarrow> if b then ''True'' else ''False''
      | C_text t \<Rightarrow> cell_text t)"

definition cell_int :: "cell \<Rightarrow> int result" where
  "cell_int c =
     (case c of C_null \<Rightarrow> Inl TypeError | C_int i \<Rightarrow> Inr i | C_bool b \<Rightarrow> Inr (if b then 1 else 0)
      | C_text t \<Rightarrow> py_int 10 (cell_text t))"

definition row_get :: "db_row \<Rightarrow> string \<Rightarrow> cell" where
  "row_get row c = lookup_or C_null row c"

text \<open>\<open>int(row.get(c) or 0)\<close> and \<open>str(h.get(c) or x)\<close>.\<close>

definition int_or :: "int \<Rightarrow> cell \<Rightarrow> int result" where
  "int_or n c = (if cell_true c then cell_int c else Inr n)"

definition str_or :: "string \<Rightarrow> cell \<Rightarrow> string" where
  "str_or s c = (if cell_true c then cell_str c else s)"

section \<open>Import\<close>

definition ACCOUNT_COLUMNS :: "string list" where
  "ACCOUNT_COLUMNS =
     [''Account'', ''Name'', ''Notes'', ''ControlType'', ''ControlSoftwareVersion'', ''ControlHardwareVersion'',
      ''ControlBootVersion'', ''ControlVoiceListVersion'', ''ControlSerialNumber'', ''IPAddress'', ''IPPort'',
      ''NetNonSecure'', ''HasC1M1'']"

definition WORKGROUP_FILE :: string where "WORKGROUP_FILE = ''SOps2.mdw''"
definition WORKGROUP_USER :: string where "WORKGROUP_USER = ''ElkRP''"

text \<open>The workgroup file next to the database is computed by \<open>pathlib\<close>, hence a parameter.\<close>

definition connection_string :: "string \<Rightarrow> string \<Rightarrow> string \<Rightarrow> string" where
  "connection_string path password workgroup =
     ''DRIVER={Microsoft Access Driver (*.mdb, *.accdb)};DBQ='' @ path @ '';SystemDB='' @ workgroup @
     '';UID='' @ WORKGROUP_USER @ '';PWD='' @ password @ '';''"

text \<open>\<open>source.rows(table, columns, "[Account] = ?", (account_id,))\<close>, or without a condition.\<close>

type_synonym row_source = "string \<Rightarrow> string list \<Rightarrow> string option \<Rightarrow> db_row list"

definition version_text :: "cell \<Rightarrow> string" where
  "version_text value =
     (if value = C_null \<or> value = C_text [] then []
      else case cell_int value of
             Inl e \<Rightarrow> cell_str value
           | Inr n \<Rightarrow> fmt_dec 0 (n div 65536 mod 256) @ ''.'' @ fmt_dec 0 (n div 256 mod 256) @ ''.'' @ fmt_dec 0 (n mod 256))"

definition list_accounts :: "row_source \<Rightarrow> db_row list" where
  "list_accounts source = source ''Accounts'' [''Account'', ''Name'', ''ControlType'', ''ControlSerialNumber''] None"

definition spec_columns :: "record_spec \<Rightarrow> string list" where
  "spec_columns spec =
     (if rs_key spec = [] then [] else [rs_key spec]) @ concat (map column_names (rs_fields spec @ rs_extra spec))"

text \<open>\<open>{**row, **dict(zip(cols, values))}\<close>.\<close>

definition put_columns :: "string list \<Rightarrow> int list \<Rightarrow> db_row \<Rightarrow> db_row" where
  "put_columns cols vals row = foldl (\<lambda>r (c, v). AList.update c (C_int v) r) row (zip cols vals)"

definition encrypted_columns :: "record_spec \<Rightarrow> string list" where
  "encrypted_columns spec =
     concat (map column_names (rs_fields spec)) @ (if rs_name spec = rs_name global_spec then [''AntiTakeover''] else [])"

definition decrypt_row :: "record_spec \<Rightarrow> string \<Rightarrow> db_row \<Rightarrow> db_row result" where
  "decrypt_row spec account_id row =
     (let undo = (\<lambda>key. bindr (mapr (\<lambda>c. int_or 0 (row_get row c)) (encrypted_columns spec))
                         (\<lambda>vals. Inr (put_columns (encrypted_columns spec) (crypt_columns key vals) row)))
      in if rs_name spec = rs_name user_spec then
           bindr (of_option KeyError (map_of row (rs_key spec)))
             (\<lambda>k. undo (derive_key [account_id, cell_str k]))
         else if rs_name spec = rs_name global_spec then undo (derive_key [account_id])
         else Inr row)"

text \<open>\<open>text.encode("cp1252", errors="replace").decode("latin-1")\<close>.\<close>

definition CP1252 :: "(nat \<times> nat) list" where
  "CP1252 =
     [(0x20AC, 0x80), (0x201A, 0x82), (0x0192, 0x83), (0x201E, 0x84), (0x2026, 0x85), (0x2020, 0x86), (0x2021, 0x87),
      (0x02C6, 0x88), (0x2030, 0x89), (0x0160, 0x8A), (0x2039, 0x8B), (0x0152, 0x8C), (0x017D, 0x8E), (0x2018, 0x91),
      (0x2019, 0x92), (0x201C, 0x93), (0x201D, 0x94), (0x2022, 0x95), (0x2013, 0x96), (0x2014, 0x97), (0x02DC, 0x98),
      (0x2122, 0x99), (0x0161, 0x9A), (0x203A, 0x9B), (0x0153, 0x9C), (0x017E, 0x9E), (0x0178, 0x9F)]"

definition cp1252_char :: "nat \<Rightarrow> char" where
  "cp1252_char n =
     (if n < 0x80 \<or> 0xA0 \<le> n \<and> n < 0x100 then char_of n
      else case map_of CP1252 n of Some b \<Rightarrow> char_of b | None \<Rightarrow> CHR ''?'')"

definition decrypt_text :: "string \<Rightarrow> cell \<Rightarrow> string" where
  "decrypt_text account_id value =
     (if \<not> cell_true value then []
      else let raw = (case value of C_text t \<Rightarrow> map cp1252_char t | c \<Rightarrow> cell_str c)
           in strip_by str_space (crypt_string (derive_key [account_id]) raw))"

text \<open>A row of the database as the record tables read it.\<close>

definition import_row :: "record_spec \<Rightarrow> string \<Rightarrow> db_row \<Rightarrow> (int \<times> rec_dict) result" where
  "import_row spec account_id row =
     bindr (if rs_key spec = [] then Inr 1 else bindr (of_option KeyError (map_of row (rs_key spec))) cell_int) (\<lambda>number.
     bindr (decrypt_row spec account_id row) (\<lambda>plain.
     let cols = concat (map column_names (rs_fields spec @ rs_extra spec)) in
     bindr (mapr (\<lambda>c. int_or 0 (row_get plain c)) cols) (\<lambda>vals.
     bindr (record_from_columns spec (zip cols vals)) (\<lambda>r. Inr (number, r)))))"

definition import_table :: "row_source \<Rightarrow> string \<Rightarrow> record_spec \<Rightarrow> rec_table result" where
  "import_table source account_id spec =
     bindr (mapr (import_row spec account_id) (source (rs_table spec) (spec_columns spec) (Some account_id)))
       (\<lambda>rows. Inr (foldl (\<lambda>t (n, r). AList.update n r t) [] rows))"

definition import_identity :: "string \<Rightarrow> db_row \<Rightarrow> panel_identity" where
  "import_identity account_id h =
     \<lparr>pi_control_type = J_str (str_or [] (row_get h ''ControlType'')),
      pi_serial_number = J_str (decrypt_text account_id (row_get h ''ControlSerialNumber'')),
      pi_software_version = J_str (version_text (row_get h ''ControlSoftwareVersion'')),
      pi_hardware_version = J_str (version_text (row_get h ''ControlHardwareVersion'')),
      pi_boot_version = J_str (version_text (row_get h ''ControlBootVersion'')),
      pi_voice_list_version = J_str (version_text (row_get h ''ControlVoiceListVersion''))\<rparr>"

definition import_connection :: "db_row \<Rightarrow> connection_settings result" where
  "import_connection h =
     bindr (int_or 2101 (row_get h ''IPPort'')) (\<lambda>port.
       Inr (default_connection
         \<lparr>cs_method := J_str (if cell_true (row_get h ''IPAddress'') then ''network'' else ''serial''),
          cs_host := J_str (str_or [] (row_get h ''IPAddress'')), cs_port := J_int port,
          cs_secure := J_bool (\<not> cell_true (row_get h ''NetNonSecure''))\<rparr>))"

definition import_account :: "row_source \<Rightarrow> string \<Rightarrow> account result" where
  "import_account source account_id =
     (case source ''Accounts'' ACCOUNT_COLUMNS (Some account_id) of
        [] \<Rightarrow> Inl KeyError
      | h # _ \<Rightarrow>
          bindr (import_connection h) (\<lambda>conn.
          let acct = (new_account (str_or account_id (row_get h ''Name'')))
                \<lparr>ac_notes := str_or [] (row_get h ''Notes''), ac_identity := import_identity account_id h,
                 ac_connection := conn\<rparr>
          in bindr (mapr (\<lambda>spec. bindr (import_table source account_id spec) (\<lambda>t. Inr (rs_name spec, t))) all_specs)
               (\<lambda>tables. Inr (acct\<lparr>ac_tables := tables\<rparr>))))"

section \<open>RC4 is its own inverse\<close>

lemma rc4_stream_length [simp]: "length (rc4_stream s i j bs) = length bs"
  by (induction bs arbitrary: s i j) (simp_all add: Let_def)

lemma rc4_length [simp]: "length (rc4 key bs) = length bs"
  by (simp add: rc4_def)

lemma rc4_stream_involution: "rc4_stream s i j (rc4_stream s i j bs) = bs"
  by (induction bs arbitrary: s i j) (simp_all add: Let_def xor.assoc)

lemma rc4_involution [simp]: "rc4 key (rc4 key bs) = bs"
  by (simp add: rc4_def rc4_stream_involution)

lemma crypt_columns_length [simp]: "length (crypt_columns key vs) = length vs"
  by (simp add: crypt_columns_def)

lemma crypt_columns_involution:
  "crypt_columns key (crypt_columns key vs) = map (\<lambda>v. v mod 256) vs"
  by (simp add: crypt_columns_def comp_def uint_word_of_int take_bit_eq_mod)

text \<open>A text is read back unless its bytes happen to spell the escape.\<close>

definition spells_escape :: "byte list \<Rightarrow> bool" where
  "spells_escape bs \<longleftrightarrow> (\<exists>n. take 7 (concat (map escape_byte (drop n bs))) = NUL_TEXT \<and> n < length bs \<and> bs ! n \<noteq> 0)"

lemma unescape_escape:
  "\<not> spells_escape bs \<Longrightarrow> unescape_bytes (concat (map escape_byte bs)) = bs"
proof (induction bs)
  case (Cons b bs)
  have rest: "\<not> spells_escape bs" using Cons.prems unfolding spells_escape_def by (metis Suc_less_eq drop_Suc_Cons length_Cons nth_Cons_Suc)
  have first: "b \<noteq> 0 \<Longrightarrow> take 7 (concat (map escape_byte (b # bs))) \<noteq> NUL_TEXT"
    using Cons.prems unfolding spells_escape_def by (metis drop0 length_greater_0_conv list.distinct(1) nth_Cons_0)
  show ?case
  proof (cases "b = 0")
    case True
    then show ?thesis using Cons.IH [OF rest]
      by (subst unescape_bytes.simps) (simp add: escape_byte_def [of 0] NUL_TEXT_def)
  next
    case False
    have "unat b < 256" by (rule order_less_le_trans [OF unsigned_less]) simp
    then have "of_nat (pyord (char_of (unat b))) = b" by simp
    then show ?thesis using Cons.IH [OF rest] first [OF False] False
      by (subst unescape_bytes.simps) (simp add: escape_byte_def [of b])
  qed
qed (simp add: unescape_bytes.simps)

lemma crypt_string_involution:
  assumes "\<not> spells_escape (rc4 key (unescape_bytes t))"
  shows "crypt_string key (crypt_string key t) = concat (map escape_byte (unescape_bytes t))"
  using unescape_escape [OF assms] by (simp add: crypt_string_def)

text \<open>Encrypted bytes that spell the escape are read as one zero byte, and the text is lost.\<close>

lemma escape_is_ambiguous:
  "let bs = map (of_nat \<circ> pyord) NUL_TEXT in unescape_bytes (concat (map escape_byte bs)) = [0] \<and> bs \<noteq> [0]"
  by code_simp

section \<open>The import undoes the encryption\<close>

lemma map_of_AList_update: "map_of (AList.update k v m) k' = (if k' = k then Some v else map_of m k')"
  by (simp add: update_conv)

lemma put_columns_other: "c \<notin> set cols \<Longrightarrow> map_of (put_columns cols vals row) c = map_of row c"
  unfolding put_columns_def
proof (induction cols arbitrary: vals row)
  case (Cons d cols)
  then show ?case by (cases vals) (simp_all add: map_of_AList_update)
qed simp

lemma put_columns_same:
  "distinct cols \<Longrightarrow> length vals = length cols \<Longrightarrow> i < length cols \<Longrightarrow>
   map_of (put_columns cols vals row) (cols ! i) = Some (C_int (vals ! i))"
proof (induction cols arbitrary: vals row i)
  case (Cons d cols)
  obtain v vs where vals: "vals = v # vs" using Cons.prems(2) by (cases vals) auto
  have step: "put_columns (d # cols) vals row = put_columns cols vs (AList.update d (C_int v) row)"
    by (simp add: put_columns_def vals)
  show ?case
  proof (cases i)
    case 0
    have "map_of (put_columns (d # cols) vals row) d = Some (C_int v)"
      unfolding step using Cons.prems(1) by (simp add: put_columns_other map_of_AList_update)
    then show ?thesis using 0 by (simp add: vals)
  next
    case (Suc j)
    have "map_of (put_columns (d # cols) vals row) (cols ! j) = Some (C_int (vs ! j))"
      unfolding step using Cons.IH [of vs j] Cons.prems Suc by (simp add: vals)
    then show ?thesis using Suc by (simp add: vals)
  qed
qed simp

lemma int_or_C_int [simp]: "int_or 0 (C_int v) = Inr v"
  by (simp add: int_or_def cell_true_def cell_int_def)

lemma columns_read_back:
  assumes "distinct cols" "length vals = length cols"
  shows "mapr (\<lambda>c. int_or 0 (row_get (put_columns cols vals row) c)) cols = Inr vals"
proof -
  have "int_or 0 (row_get (put_columns cols vals row) (cols ! i)) = Inr (vals ! i)" if "i < length cols" for i
    using put_columns_same [OF assms that, of row] by (simp add: row_get_def lookup_or_def)
  then have "mapr (\<lambda>i. int_or 0 (row_get (put_columns cols vals row) (cols ! i))) [0..<length cols] =
      Inr (map ((!) vals) [0..<length cols])"
    by (intro mapr_Inr_map) simp
  moreover have "map ((!) vals) [0..<length cols] = vals" using assms(2) by (metis map_nth)
  moreover have "mapr (\<lambda>c. int_or 0 (row_get (put_columns cols vals row) c)) (map ((!) cols) [0..<length cols]) =
      mapr (\<lambda>i. int_or 0 (row_get (put_columns cols vals row) (cols ! i))) [0..<length cols]"
    by (simp only: mapr_map comp_def)
  ultimately show ?thesis unfolding map_nth by simp
qed

text \<open>What ElkRP stores: the same row with its record columns encrypted.\<close>

definition row_key :: "record_spec \<Rightarrow> string \<Rightarrow> db_row \<Rightarrow> byte list" where
  "row_key spec account_id row =
     (if rs_name spec = rs_name user_spec then derive_key [account_id, cell_str (row_get row (rs_key spec))]
      else derive_key [account_id])"

definition plain_values :: "record_spec \<Rightarrow> db_row \<Rightarrow> int list" where
  "plain_values spec row =
     map (\<lambda>c. case row_get row c of C_int i \<Rightarrow> i | _ \<Rightarrow> 0) (encrypted_columns spec)"

definition encrypted_row :: "record_spec \<Rightarrow> string \<Rightarrow> db_row \<Rightarrow> db_row" where
  "encrypted_row spec account_id row =
     put_columns (encrypted_columns spec) (crypt_columns (row_key spec account_id row) (plain_values spec row)) row"

definition all_columns :: "record_spec \<Rightarrow> string list" where
  "all_columns spec = concat (map column_names (rs_fields spec @ rs_extra spec))"

text \<open>What the import needs of a record type.\<close>

definition import_wf :: "record_spec \<Rightarrow> bool" where
  "import_wf spec \<longleftrightarrow>
     distinct (encrypted_columns spec) \<and> set (encrypted_columns spec) \<subseteq> set (all_columns spec) \<and>
     rs_key spec \<notin> set (encrypted_columns spec) \<and>
     distinct (spec_keys (rs_fields spec @ rs_extra spec)) \<and>
     list_all (\<lambda>f. field_wf f \<and> length (column_names f) = fs_size f) (rs_fields spec @ rs_extra spec)"

lemma import_specs: "import_wf user_spec" "import_wf global_spec"
   apply code_simp
  apply code_simp
  done

lemma import_wfD:
  assumes "spec \<in> {user_spec, global_spec}"
  shows "distinct (encrypted_columns spec)" "set (encrypted_columns spec) \<subseteq> set (all_columns spec)" "rs_key spec \<notin> set (encrypted_columns spec)"
    "distinct (spec_keys (rs_fields spec @ rs_extra spec))"
    "\<And>f. f \<in> set (rs_fields spec @ rs_extra spec) \<Longrightarrow> field_wf f"
    "\<And>f. f \<in> set (rs_fields spec @ rs_extra spec) \<Longrightarrow> length (column_names f) = fs_size f"
  using import_specs assms unfolding list_all_iff import_wf_def by auto

lemma import_keys: "rs_name user_spec \<noteq> rs_name global_spec" "rs_key user_spec = ''CodeNum''" "rs_key global_spec = []"
  by (simp_all add: user_spec_def global_spec_def)

lemma decrypts:
  assumes spec: "spec \<in> {user_spec, global_spec}"
    and row: "rs_key spec \<noteq> [] \<Longrightarrow> map_of row (rs_key spec) = Some k"
    and bytes: "\<forall>c \<in> set (encrypted_columns spec). \<exists>b :: byte. map_of row c = Some (C_int (uint b))"
  shows "decrypt_row spec account_id (encrypted_row spec account_id row) =
    Inr (put_columns (encrypted_columns spec) (plain_values spec row) (encrypted_row spec account_id row))"
proof -
  let ?key = "row_key spec account_id row" and ?row = "encrypted_row spec account_id row" and ?vals = "plain_values spec row"
  have read: "mapr (\<lambda>c. int_or 0 (row_get ?row c)) (encrypted_columns spec) = Inr (crypt_columns ?key ?vals)"
    unfolding encrypted_row_def by (rule columns_read_back [OF import_wfD(1) [OF spec]]) (simp add: plain_values_def)
  have "map (\<lambda>v. v mod 256) ?vals = ?vals"
  proof (rule map_idI)
    fix v assume "v \<in> set ?vals"
    then obtain c where c: "c \<in> set (encrypted_columns spec)" "v = (case row_get row c of C_int i \<Rightarrow> i | _ \<Rightarrow> 0)"
      by (auto simp: plain_values_def)
    obtain b :: byte where "map_of row c = Some (C_int (uint b))" using bytes c(1) by blast
    then show "v mod 256 = v" using c(2) uint_lt2p [of b] by (simp add: row_get_def lookup_or_def)
  qed
  then have plain: "crypt_columns ?key (crypt_columns ?key ?vals) = ?vals" by (simp add: crypt_columns_involution)
  have k: "map_of ?row (rs_key spec) = map_of row (rs_key spec)"
    unfolding encrypted_row_def by (rule put_columns_other [OF import_wfD(3) [OF spec]])
  show ?thesis
  proof (cases "spec = user_spec")
    case True
    then have c: "map_of row (rs_key spec) = Some k" using row by (simp add: import_keys)
    then have "?key = derive_key [account_id, cell_str k]" using True by (simp add: row_key_def row_get_def lookup_or_def)
    then show ?thesis using True c k read plain by (simp add: decrypt_row_def Let_def)
  next
    case False
    then have "spec = global_spec" using spec by simp
    then have "?key = derive_key [account_id]" using import_keys(1) by (simp add: row_key_def)
    then show ?thesis using \<open>spec = global_spec\<close> import_keys(1) [symmetric] read plain by (simp add: decrypt_row_def Let_def)
  qed
qed

section \<open>A record's columns are read back\<close>

definition field_step :: "(string \<times> int) list \<Rightarrow> rec_dict result \<Rightarrow> field_spec \<Rightarrow> rec_dict result" where
  "field_step row out f =
     bindr out (\<lambda>out.
     let raw = map (\<lambda>c. word_of_int (case map_of row c of None \<Rightarrow> 0 | Some v \<Rightarrow> v)) (column_names f)
     in bindr (decode_field f raw) (\<lambda>v.
        let out = dict_put (fs_name f) v out
        in if fs_kind f = F_TEXT
           then bindr (item raw 0) (\<lambda>b. Inr (dict_put (show_key (fs_name f)) (R_bool (b AND 0x80 \<noteq> 0)) out))
           else Inr out))"

lemma record_from_columns_fold:
  "record_from_columns spec row = foldl (field_step row) (Inr []) (rs_fields spec @ rs_extra spec)"
  unfolding record_from_columns_def field_step_def Let_def by (rule refl)

definition column_bytes :: "(string \<times> int) list \<Rightarrow> field_spec \<Rightarrow> byte list" where
  "column_bytes row f = map (\<lambda>c. word_of_int (case map_of row c of None \<Rightarrow> 0 | Some v \<Rightarrow> v)) (column_names f)"

lemma columns_fold_roundtrip:
  assumes "length vs = length fs" and "\<And>f. f \<in> set fs \<Longrightarrow> field_wf f"
    and "list_all2 (\<lambda>f v. canonical f (fst v)) fs vs"
    and "distinct (map fst out @ spec_keys fs)"
    and "\<And>k v. (k, v) \<in> set (entries fs vs) \<Longrightarrow> map_of d k = Some v"
    and "\<And>f. f \<in> set fs \<Longrightarrow> field_bytes d f = Inr (column_bytes row f)"
  shows "foldl (field_step row) (Inr out) fs = Inr (out @ entries fs vs)"
  using assms
proof (induction fs arbitrary: vs out)
  case (Cons f fs)
  obtain v shown vs' where vs: "vs = (v, shown) # vs'" using Cons.prems(1) by (cases vs) auto
  have "canonical f v" "field_wf f" using Cons.prems(2,3) vs by auto
  moreover have "map_of d (fs_name f) = Some v"
    using Cons.prems(5) [of "fs_name f" v] vs by (simp add: field_entries_def)
  moreover have "fs_kind f = F_TEXT \<Longrightarrow> map_of d (show_key (fs_name f)) = Some (R_bool shown)"
    using Cons.prems(5) [of "show_key (fs_name f)" "R_bool shown"] vs by (simp add: field_entries_def)
  ultimately obtain raw where raw: "field_bytes d f = Inr raw" "decode_field f raw = Inr v"
    "fs_kind f = F_TEXT \<longrightarrow> (\<exists>b. item raw 0 = Inr b \<and> (b AND 0x80 \<noteq> 0 \<longleftrightarrow> shown))"
    using field_bytes_roundtrip [of f v d shown] by blast
  have bytes: "raw = column_bytes row f" using raw(1) Cons.prems(6) [of f] by simp
  let ?out = "out @ field_entries f v shown"
  have fresh: "fs_name f \<notin> fst ` set out"
    "fs_kind f = F_TEXT \<Longrightarrow> show_key (fs_name f) \<notin> fst ` set (out @ [(fs_name f, v)])"
    using Cons.prems(4) by (auto simp: spec_keys_def field_keys_def image_iff)
  have "field_step row (Inr out) f = Inr ?out"
    using raw(2,3) fresh unfolding bytes
    by (auto simp: field_step_def column_bytes_def Let_def field_entries_def dict_put_fresh)
  moreover have "foldl (field_step row) (Inr ?out) fs = Inr (?out @ entries fs vs')"
  proof (rule Cons.IH)
    show "distinct (map fst ?out @ spec_keys fs)" using Cons.prems(4) by (simp add: field_entries_keys spec_keys_def)
  qed (use Cons.prems vs in auto)
  ultimately show ?case by (simp add: vs)
qed simp

lemma record_columns_of_field:
  assumes "record_to_columns spec d = Inr cols" and "f \<in> set (rs_fields spec @ rs_extra spec)"
    and "\<And>c b. (c, b) \<in> set cols \<Longrightarrow> map_of row c = Some (uint b)"
  shows "field_bytes d f = Inr (column_bytes row f)"
proof -
  obtain parts where parts: "mapr (\<lambda>f. bindr (field_bytes d f) (\<lambda>raw.
         if length (column_names f) = length raw then Inr (zip (column_names f) raw) else Inl ValueError))
       (rs_fields spec @ rs_extra spec) = Inr parts" "cols = concat parts"
    using assms(1) by (auto simp: record_to_columns_def bindr_eq_Inr)
  obtain i where i: "i < length (rs_fields spec @ rs_extra spec)" "(rs_fields spec @ rs_extra spec) ! i = f"
    using assms(2) by (auto simp only: in_set_conv_nth)
  obtain raw where raw: "field_bytes d f = Inr raw" "length (column_names f) = length raw"
    "parts ! i = zip (column_names f) raw"
    using mapr_nth [OF parts(1) i(1)] i(2) by (auto simp: bindr_eq_Inr split: if_splits)
  have "parts ! i \<in> set parts" using mapr_length [OF parts(1)] i(1) by simp
  then have sub: "set (zip (column_names f) raw) \<subseteq> set cols" using raw(3) parts(2) by auto
  have "column_bytes row f ! n = raw ! n" if "n < length raw" for n
  proof -
    have "(column_names f ! n, raw ! n) \<in> set (zip (column_names f) raw)" using that raw(2) by (auto simp: set_zip)
    then have "map_of row (column_names f ! n) = Some (uint (raw ! n))" using sub assms(3) by blast
    then show ?thesis using that raw(2) by (simp add: column_bytes_def)
  qed
  then have "column_bytes row f = raw" by (intro nth_equalityI) (simp_all add: column_bytes_def raw(2))
  then show ?thesis using raw(1) by simp
qed

lemma map_of_zip_mapr:
  "mapr g cols = Inr vals \<Longrightarrow> c \<in> set cols \<Longrightarrow> g c = Inr v \<Longrightarrow> map_of (zip cols vals) c = Some v"
  by (induction cols arbitrary: vals) (auto simp: bindr_eq_Inr)

text \<open>The record of a row that holds its columns.\<close>

lemma record_of_columns:
  assumes "spec \<in> {user_spec, global_spec}" and "length vs = length (rs_fields spec @ rs_extra spec)"
    and "list_all2 (\<lambda>f v. canonical f (fst v)) (rs_fields spec @ rs_extra spec) vs"
    and "record_to_columns spec (entries (rs_fields spec @ rs_extra spec) vs) = Inr cols"
    and "\<And>c b. (c, b) \<in> set cols \<Longrightarrow> map_of row c = Some (uint b)"
  shows "record_from_columns spec row = Inr (entries (rs_fields spec @ rs_extra spec) vs)"
proof -
  let ?fs = "rs_fields spec @ rs_extra spec"
  have keys: "distinct (spec_keys ?fs)" by (rule import_wfD(4) [OF assms(1)])
  have "distinct (map fst (entries ?fs vs))" using keys by (simp only: entries_keys assms(2))
  then have look: "\<And>k v. (k, v) \<in> set (entries ?fs vs) \<Longrightarrow> map_of (entries ?fs vs) k = Some v"
    by (rule map_of_is_SomeI)
  have "foldl (field_step row) (Inr []) ?fs = Inr ([] @ entries ?fs vs)"
  proof (rule columns_fold_roundtrip)
    show "field_bytes (entries ?fs vs) f = Inr (column_bytes row f)" if "f \<in> set ?fs" for f
      by (rule record_columns_of_field [OF assms(4) that assms(5)])
    show "distinct (map fst [] @ spec_keys ?fs)" using keys by simp
  qed (rule assms(2) import_wfD(5) [OF assms(1)] assms(3) look, assumption?)+
  then show ?thesis by (simp add: record_from_columns_fold)
qed

lemma plain_row:
  assumes "spec \<in> {user_spec, global_spec}"
    and "\<forall>c \<in> set (encrypted_columns spec). \<exists>b :: byte. map_of row c = Some (C_int (uint b))"
  shows "map_of (put_columns (encrypted_columns spec) (plain_values spec row) (encrypted_row spec account_id row)) c = map_of row c"
proof (cases "c \<in> set (encrypted_columns spec)")
  case True
  then obtain i where i: "i < length (encrypted_columns spec)" "encrypted_columns spec ! i = c"
    by (auto simp: in_set_conv_nth)
  obtain b :: byte where b: "map_of row c = Some (C_int (uint b))" using assms(2) True by blast
  have "plain_values spec row ! i = uint b" using i b by (simp add: plain_values_def row_get_def lookup_or_def)
  then show ?thesis
    using put_columns_same [OF import_wfD(1) [OF assms(1)] _ i(1), of "plain_values spec row"] i(2) b
    by (simp add: plain_values_def)
qed (simp add: encrypted_row_def put_columns_other)

lemma record_columns_names:
  assumes "record_to_columns spec d = Inr cols"
  shows "map fst cols = all_columns spec"
proof -
  have "mapr (\<lambda>f. bindr (field_bytes d f) (\<lambda>raw.
         if length (column_names f) = length raw then Inr (zip (column_names f) raw) else Inl ValueError)) fs = Inr parts \<Longrightarrow>
       map fst (concat parts) = concat (map column_names fs)" for fs parts
    by (induction fs arbitrary: parts) (auto simp: bindr_eq_Inr split: if_splits)
  then show ?thesis using assms by (auto simp: record_to_columns_def all_columns_def bindr_eq_Inr)
qed

lemma record_has_columns:
  assumes "spec \<in> {user_spec, global_spec}" and "length vs = length (rs_fields spec @ rs_extra spec)"
    and "list_all2 (\<lambda>f v. canonical f (fst v)) (rs_fields spec @ rs_extra spec) vs"
  shows "\<exists>cols. record_to_columns spec (entries (rs_fields spec @ rs_extra spec) vs) = Inr cols"
proof -
  let ?fs = "rs_fields spec @ rs_extra spec" and ?d = "entries (rs_fields spec @ rs_extra spec) vs"
  have keys: "distinct (spec_keys ?fs)" by (rule import_wfD(4) [OF assms(1)])
  have "distinct (map fst ?d)" using keys by (simp only: entries_keys assms(2))
  then have look: "\<And>k v. (k, v) \<in> set ?d \<Longrightarrow> map_of ?d k = Some v"
    by (rule map_of_is_SomeI)
  have "\<exists>parts. mapr (field_bytes ?d) ?fs = Inr parts \<and> decode_fields ?fs (concat parts) [] = Inr ([] @ ?d)"
    by (rule decode_fields_roundtrip) (use assms(2,3) import_wfD(5) [OF assms(1)] keys look in auto)
  then obtain parts where parts: "mapr (field_bytes ?d) ?fs = Inr parts" by blast
  have "\<exists>ps. mapr (\<lambda>f. bindr (field_bytes ?d f) (\<lambda>raw.
         if length (column_names f) = length raw then Inr (zip (column_names f) raw) else Inl ValueError)) ?fs = Inr ps"
  proof (rule mapr_total)
    fix f assume f: "f \<in> set ?fs"
    then obtain i where i: "i < length ?fs" "?fs ! i = f" by (auto simp only: in_set_conv_nth)
    have raw: "field_bytes ?d f = Inr (parts ! i)" using mapr_nth [OF parts i(1)] i(2) by simp
    have "length (parts ! i) = length (column_names f)"
      using field_bytes_length [OF import_wfD(5) [OF assms(1) f] raw] import_wfD(6) [OF assms(1) f] by simp
    then show "\<exists>y. bindr (field_bytes ?d f) (\<lambda>raw.
         if length (column_names f) = length raw then Inr (zip (column_names f) raw) else Inl ValueError) = Inr y"
      using raw by simp
  qed
  then show ?thesis by (auto simp: record_to_columns_def)
qed

section \<open>Properties\<close>


lemma user_columns: "distinct (all_columns user_spec)" "''CodeNum'' \<notin> set (all_columns user_spec)"
   apply code_simp
  apply code_simp
  done


end
