(* ===== verification/App_Server.thy ===== *)
theory App_Server
  imports App_Release App_Storage Rp_Sync
begin

text \<open>
  \<open>web/app.py\<close>: the service behind the browser page. It owns the open account, the account files, at most
  one session with the panel, and in app mode the access control. A request is a function of the whole
  state, served without interruption; an awaited dialogue with the panel or with Home Assistant is part of
  it. What those answer is a parameter: the link that opening the port yields (or its failure), the core of
  \<open>App_Release\<close> with the answers of its services, the database of \<open>App_Storage\<close>. Random tokens and salts
  are arguments.
\<close>

section \<open>Settings\<close>

record settings =
  st_mode :: string
  st_users :: "string list"
  st_idle_minutes :: int
  st_read_only :: bool
  st_method :: string
  st_host :: string
  st_port :: int
  st_serial_port :: string
  st_baud :: int
  st_release :: bool
  st_forward :: bool
  st_token :: string

type_synonym environment = "(string \<times> string) list"

fun split_at_comma :: "string \<Rightarrow> string \<Rightarrow> string list" where
  "split_at_comma cur [] = [rev cur]"
| "split_at_comma cur (c # cs) = (if c = CHR '','' then rev cur # split_at_comma [] cs else split_at_comma (c # cur) cs)"

definition lower_char :: "char \<Rightarrow> char" where
  "lower_char c = (if 65 \<le> pyord c \<and> pyord c \<le> 90 then char_of (pyord c + 32) else c)"

definition env_flag :: "environment \<Rightarrow> string \<Rightarrow> bool" where
  "env_flag env k \<longleftrightarrow> map lower_char (lookup_or ''false'' env k) \<in> {''1'', ''true'', ''yes''}"

text \<open>\<open>int(env.get(k, d) or n)\<close>.\<close>

definition env_int :: "environment \<Rightarrow> string \<Rightarrow> int \<Rightarrow> int result" where
  "env_int env k n = (case lookup_or [] env k of [] \<Rightarrow> Inr n | s \<Rightarrow> py_int 10 s)"

definition settings_init :: "environment \<Rightarrow> settings result" where
  "settings_init env =
     bindr (env_int env ''ELK_PROGRAMMER_IDLE_MINUTES'' 0) (\<lambda>idle.
     bindr (env_int env ''ELK_PROGRAMMER_PORT'' 2101) (\<lambda>port.
     bindr (env_int env ''ELK_PROGRAMMER_BAUD'' 115200) (\<lambda>baud.
       Inr \<lparr>st_mode = lookup_or ''standalone'' env ''ELK_PROGRAMMER_MODE'',
            st_users = filter (\<lambda>u. u \<noteq> [])
              (map (strip_by str_space) (split_at_comma [] (lookup_or [] env ''ELK_PROGRAMMER_ALLOWED_USERS''))),
            st_idle_minutes = idle, st_read_only = env_flag env ''ELK_PROGRAMMER_READ_ONLY'',
            st_method = lookup_or ''network'' env ''ELK_PROGRAMMER_CONNECTION'',
            st_host = lookup_or [] env ''ELK_PROGRAMMER_HOST'', st_port = port,
            st_serial_port = lookup_or [] env ''ELK_PROGRAMMER_SERIAL_PORT'', st_baud = baud,
            st_release = env_flag env ''ELK_PROGRAMMER_RELEASE_INTEGRATION'',
            st_forward = env_flag env ''ELK_PROGRAMMER_FORWARD_AUDIT'',
            st_token = lookup_or [] env ''SUPERVISOR_TOKEN''\<rparr>)))"

definition app_mode :: "settings \<Rightarrow> bool" where
  "app_mode st \<longleftrightarrow> st_mode st = ''app''"

section \<open>State, requests and replies\<close>

text \<open>
  \<open>sv_receive\<close> is a receive task that is not done (who started it, and the tables); \<open>sv_idle_watch\<close> the idle
  task. Three fields are what the service has done to its surroundings: the frames written to the port over
  all sessions, the messages broadcast to the trace clients, and the request to stop the app.
\<close>

record shown_entry =
  sh_when :: nat
  sh_direction :: direction
  sh_body :: "byte list"
  sh_note :: string

datatype broadcast = Trace_message shown_entry | Receive_done receive_report

record 'c server =
  sv_settings :: settings
  sv_access :: access
  sv_account :: account
  sv_path :: "string option"
  sv_files :: "(string \<times> document) list"
  sv_session :: "session option"
  sv_receive :: "(string \<times> string \<times> string list) option"
  sv_report :: "receive_report option"
  sv_hass :: bool
  sv_release :: bool
  sv_handover :: "'c releaser"
  sv_soc :: "soc_pusher option"
  sv_idle_watch :: bool
  sv_wire :: "byte list list"
  sv_broadcasts :: "broadcast list"
  sv_stopped :: bool

datatype port = Serial_port string int | Network_port string int

text \<open>Opening a port yields a link or an \<open>OSError\<close>; anything else escapes.\<close>

datatype port_result = Opened link | Not_opened | Open_raises py_error

record read_reply =
  rr_record :: jobject
  rr_hex :: string
  rr_diff :: "(string \<times> jval \<times> rval option) list"

text \<open>\<open>wd_answer\<close>: whether the web framework can serialise the reply, which may hold bytes.\<close>

record 'c world =
  wd_crypto :: crypto
  wd_api :: "'c core_api"
  wd_service :: "string \<Rightarrow> jobj \<Rightarrow> 'c \<Rightarrow> 'c \<times> (nat \<times> json option) result"
  wd_open :: "port \<Rightarrow> port_result"
  wd_stop :: "unit result"
  wd_answer :: "read_reply \<Rightarrow> bool"

record web_request =
  wr_user :: string
  wr_name :: string
  wr_cookie :: "string option"
  wr_path :: string

datatype 'a http = Reply 'a | Refused nat string | Crashed

definition bindh :: "('s \<Rightarrow> 's \<times> 'a http) \<Rightarrow> ('a \<Rightarrow> 's \<Rightarrow> 's \<times> 'b http) \<Rightarrow> 's \<Rightarrow> 's \<times> 'b http" where
  "bindh m f s =
     (case m s of
        (s1, Reply a) \<Rightarrow> f a s1
      | (s1, Refused code text) \<Rightarrow> (s1, Refused code text)
      | (s1, Crashed) \<Rightarrow> (s1, Crashed))"

abbreviation upd_access :: "(access \<Rightarrow> access) \<Rightarrow> 'c server \<Rightarrow> 'c server" where
  "upd_access f s \<equiv> s\<lparr>sv_access := f (sv_access s)\<rparr>"

text \<open>\<open>State.__init__\<close>, from what is on disk.\<close>

definition server_init ::
    "settings \<Rightarrow> passphrase_file \<Rightarrow> log_line list option \<Rightarrow> json_file option \<Rightarrow> string option \<Rightarrow>
     (string \<times> document) list \<Rightarrow> 'c releaser \<Rightarrow> int \<Rightarrow> 'c server result" where
  "server_init st pass log seq_file secret files handover now =
     bindr (access_init (st_users st) pass log now) (\<lambda>ac.
     let hass = app_mode st \<and> st_token st \<noteq> []; base =
           \<lparr>sv_settings = st, sv_access = ac, sv_account = account_blank ''New account'', sv_path = None, sv_files = files,
            sv_session = None, sv_receive = None, sv_report = None, sv_hass = hass,
            sv_release = (hass \<and> st_release st), sv_handover = handover, sv_soc = None,
            sv_idle_watch = False, sv_wire = [], sv_broadcasts = [], sv_stopped = False\<rparr>
     in if hass \<and> st_forward st
        then bindr (pusher_init seq_file secret) (\<lambda>p.
               Inr (base\<lparr>sv_soc := Some p, sv_access := ac\<lparr>ac_audit := (ac_audit ac)\<lparr>au_hooked := True\<rparr>\<rparr>\<rparr>))
        else Inr base)"

section \<open>The gate\<close>

definition LOCAL_USER :: string where "LOCAL_USER = ''local''"

definition remote_user :: "settings \<Rightarrow> web_request \<Rightarrow> string \<times> string" where
  "remote_user st q = (if \<not> app_mode st then (LOCAL_USER, ''local operator'') else (wr_user q, wr_name q))"

definition auth_session :: "crypto \<Rightarrow> web_request \<Rightarrow> 'c server \<Rightarrow> 'c server \<times> app_session option" where
  "auth_session k q s =
     (case ac_resolve k (wr_cookie q) (fst (remote_user (sv_settings s) q)) (sv_access s) of
        (ac, r) \<Rightarrow> (s\<lparr>sv_access := ac\<rparr>, r))"

definition starts_with :: "string \<Rightarrow> string \<Rightarrow> bool" where
  "starts_with p s \<longleftrightarrow> take (length p) s = p"

definition OPEN_PATHS :: "string list" where
  "OPEN_PATHS = [''/api/auth/'', ''/api/version'']"

definition access_gate ::
    "crypto \<Rightarrow> web_request \<Rightarrow> ('c server \<Rightarrow> 'c server \<times> 'a http) \<Rightarrow> 'c server \<Rightarrow> 'c server \<times> 'a http" where
  "access_gate k q call_next s =
     (if \<not> app_mode (sv_settings s) then call_next s
      else let user_id = fst (remote_user (sv_settings s) q) in
        if \<not> user_allowed user_id (sv_access s)
        then (upd_access (note_event k ''refused'' user_id [] [(''path'', Js_str (wr_path q))]) s,
              Refused 403 ''this Home Assistant user is not allowed to use the programmer'')
        else if starts_with ''/api/'' (wr_path q) \<and> \<not> list_ex (\<lambda>p. starts_with p (wr_path q)) OPEN_PATHS
        then (case auth_session k q s of
                (s1, None) \<Rightarrow> (s1, Refused 401 ''log in with the app passphrase first'')
              | (s1, Some _) \<Rightarrow> call_next s1)
        else call_next s)"

definition require_session :: "crypto \<Rightarrow> web_request \<Rightarrow> 'c server \<Rightarrow> 'c server \<times> app_session http" where
  "require_session k q s =
     (if \<not> app_mode (sv_settings s)
      then (s, Reply \<lparr>as_token = ''local'', as_user_id = LOCAL_USER, as_user_name = ''local operator'',
                      as_created = 0, as_last_seen = 0, as_write_until = None\<rparr>)
      else case auth_session k q s of
             (s1, None) \<Rightarrow> (s1, Refused 401 ''log in with the app passphrase first'')
           | (s1, Some session) \<Rightarrow> (s1, Reply session))"

definition require_write :: "crypto \<Rightarrow> web_request \<Rightarrow> 'c server \<Rightarrow> 'c server \<times> app_session http" where
  "require_write k q =
     bindh (require_session k q) (\<lambda>session s.
       if st_read_only (sv_settings s) then (s, Refused 403 ''the app is configured read only'')
       else if app_mode (sv_settings s) \<and> \<not> session_can_write session (ac_clock (sv_access s))
       then (s, Refused 403 ''enable writes with the passphrase first'')
       else (s, Reply session))"

definition audit :: "crypto \<Rightarrow> web_request \<Rightarrow> string \<Rightarrow> jobj \<Rightarrow> 'c server \<Rightarrow> 'c server" where
  "audit k q event details s =
     (let (user_id, user_name) = remote_user (sv_settings s) q
      in upd_access (note_event k event user_id user_name details) s)"

section \<open>Authentication\<close>

fun auth_text :: "auth_error \<Rightarrow> string" where
  "auth_text (Auth_error m) = m" | "auth_text (Not_set_up m) = m" | "auth_text (Locked_out m) = m"
| "auth_text (Bad_passphrase m) = m" | "auth_text (Value_error m) = m"

text \<open>The cookie that a reply sets, or deletes.\<close>

datatype cookie = Keep_cookie | Set_cookie string | Delete_cookie

record auth_state =
  au_mode :: string
  au_user :: string
  au_user_name :: string
  au_set_up :: bool
  au_logged_in :: bool
  au_can_write :: bool
  au_read_only :: bool
  au_intact :: bool

definition auth_status :: "crypto \<Rightarrow> web_request \<Rightarrow> 'c server \<Rightarrow> 'c server \<times> auth_state http" where
  "auth_status k q s =
     (let st = sv_settings s; app = app_mode st;
          (s1, session) = (if app then auth_session k q s else (s, None))
      in case audit_verify k (ac_audit (sv_access s1)) of
           Inl e \<Rightarrow> (s1, Crashed)
         | Inr (intact, n) \<Rightarrow>
             (s1, Reply \<lparr>au_mode = st_mode st, au_user = fst (remote_user st q), au_user_name = snd (remote_user st q),
                         au_set_up = (if app then pass_is_set (ac_pass (sv_access s1)) else True),
                         au_logged_in = (if app then session \<noteq> None else True),
                         au_can_write = (if app then (case session of None \<Rightarrow> False
                                            | Some x \<Rightarrow> session_can_write x (ac_clock (sv_access s1)))
                                         else \<not> st_read_only st),
                         au_read_only = st_read_only st, au_intact = intact\<rparr>))"

text \<open>One call of the access control, its errors mapped to a status.\<close>

definition with_access :: "(access \<Rightarrow> access \<times> (auth_error + 'a)) \<Rightarrow> (auth_error \<Rightarrow> nat) \<Rightarrow> 'c server \<Rightarrow> 'c server \<times> 'a http" where
  "with_access f status s =
     (case f (sv_access s) of
        (ac, Inl e) \<Rightarrow> (s\<lparr>sv_access := ac\<rparr>, Refused (status e) (auth_text e))
      | (ac, Inr a) \<Rightarrow> (s\<lparr>sv_access := ac\<rparr>, Reply a))"

fun login_status :: "auth_error \<Rightarrow> nat" where
  "login_status (Not_set_up m) = 409" | "login_status (Locked_out m) = 429" | "login_status e = 401"

fun step_up_status :: "auth_error \<Rightarrow> nat" where
  "step_up_status (Locked_out m) = 429" | "step_up_status e = 401"

text \<open>In \<open>auth_setup\<close> the login after the setup is not guarded: an error of it is a crash.\<close>

definition auth_setup ::
    "crypto \<Rightarrow> 8 word list \<Rightarrow> string \<Rightarrow> string \<Rightarrow> web_request \<Rightarrow> 'c server \<Rightarrow> 'c server \<times> cookie http" where
  "auth_setup k salt token passphrase q s =
     (if \<not> app_mode (sv_settings s) then (s, Refused 400 ''not in app mode'')
      else let (user_id, user_name) = remote_user (sv_settings s) q in
        bindh (with_access (ac_setup k salt user_id user_name passphrase) (\<lambda>_. 400)) (\<lambda>_ s1.
          case ac_login k token user_id user_name passphrase (sv_access s1) of
            (ac, Inl e) \<Rightarrow> (s1\<lparr>sv_access := ac\<rparr>, Crashed)
          | (ac, Inr session) \<Rightarrow> (s1\<lparr>sv_access := ac\<rparr>, Reply (Set_cookie (as_token session)))) s)"

definition auth_login ::
    "crypto \<Rightarrow> string \<Rightarrow> string \<Rightarrow> web_request \<Rightarrow> 'c server \<Rightarrow> 'c server \<times> cookie http" where
  "auth_login k token passphrase q s =
     (if \<not> app_mode (sv_settings s) then (s, Refused 400 ''not in app mode'')
      else let (user_id, user_name) = remote_user (sv_settings s) q in
        bindh (with_access (ac_login k token user_id user_name passphrase) login_status)
          (\<lambda>session s1. (s1, Reply (Set_cookie (as_token session)))) s)"

definition auth_step_up :: "crypto \<Rightarrow> string \<Rightarrow> web_request \<Rightarrow> 'c server \<Rightarrow> 'c server \<times> unit http" where
  "auth_step_up k passphrase q =
     bindh (require_session k q) (\<lambda>session s.
       if st_read_only (sv_settings s) then (s, Refused 403 ''the app is configured read only'')
       else if app_mode (sv_settings s) then with_access (ac_step_up k session passphrase) step_up_status s
       else (s, Reply ()))"

definition auth_rotate ::
    "crypto \<Rightarrow> 8 word list \<Rightarrow> string \<Rightarrow> string \<Rightarrow> web_request \<Rightarrow> 'c server \<Rightarrow> 'c server \<times> unit http" where
  "auth_rotate k salt current new_pass q =
     bindh (require_session k q) (\<lambda>session s.
       if \<not> app_mode (sv_settings s) then (s, Refused 400 ''not in app mode'')
       else with_access (ac_rotate k salt session current new_pass) (\<lambda>_. 400) s)"

definition auth_logout :: "crypto \<Rightarrow> web_request \<Rightarrow> 'c server \<Rightarrow> 'c server \<times> cookie http" where
  "auth_logout k q s =
     (if \<not> app_mode (sv_settings s) then (s, Reply Keep_cookie)
      else case auth_session k q s of
             (s1, None) \<Rightarrow> (s1, Reply Delete_cookie)
           | (s1, Some session) \<Rightarrow> (upd_access (ac_logout k session) s1, Reply Delete_cookie))"

section \<open>The account\<close>

record account_head =
  ah_name :: string
  ah_notes :: string
  ah_identity :: panel_identity
  ah_connection :: connection_settings
  ah_file :: "string option"
  ah_counts :: "(string \<times> nat) list"

definition account_summary :: "'c server \<Rightarrow> account_head" where
  "account_summary s =
     (let a = sv_account s
      in \<lparr>ah_name = ac_name a, ah_notes = ac_notes a, ah_identity = ac_identity a, ah_connection = ac_connection a,
          ah_file = sv_path s,
          ah_counts = map (\<lambda>spec. (rs_name spec, length (lookup_or [] (ac_tables a) (rs_name spec)))) all_specs\<rparr>)"

definition ends_with :: "string \<Rightarrow> string \<Rightarrow> bool" where
  "ends_with suffix s \<longleftrightarrow> length suffix \<le> length s \<and> take_end (length suffix) s = suffix"

definition list_account_files :: "'c server \<Rightarrow> string list \<times> string option" where
  "list_account_files s = (sort (filter (ends_with ''.json'') (map fst (sv_files s))), sv_path s)"

definition new_account_request :: "crypto \<Rightarrow> string \<Rightarrow> web_request \<Rightarrow> 'c server \<Rightarrow> 'c server \<times> account_head http" where
  "new_account_request k name q s =
     (let s1 = audit k q ''account_new'' [(''name'', Js_str name)]
                 (s\<lparr>sv_account := account_blank name, sv_path := None\<rparr>)
      in (s1, Reply (account_summary s1)))"

text \<open>Only a file of the accounts directory itself: \<open>path.parent != accounts_dir\<close> refuses any other, and
  \<open>path.suffix\<close> is empty for a name that is only \<open>.json\<close>.\<close>

definition open_account :: "crypto \<Rightarrow> string \<Rightarrow> web_request \<Rightarrow> 'c server \<Rightarrow> 'c server \<times> account_head http" where
  "open_account k name q s =
     (if CHR ''/'' \<in> set name \<or> \<not> (ends_with ''.json'' name \<and> name \<noteq> ''.json'') then (s, Refused 404 ''no such account file'')
      else case map_of (sv_files s) name of
             None \<Rightarrow> (s, Refused 404 ''no such account file'')
           | Some doc \<Rightarrow>
               (case from_json doc of
                  Inl e \<Rightarrow> (s, Crashed)
                | Inr a \<Rightarrow>
                    let s1 = audit k q ''account_open'' [(''file'', Js_str name)] (s\<lparr>sv_account := a, sv_path := Some name\<rparr>)
                    in (s1, Reply (account_summary s1))))"

text \<open>\<open>str.isalnum\<close> on the characters of the model.\<close>

definition alnum :: "char \<Rightarrow> bool" where
  "alnum c \<longleftrightarrow>
     (let n = pyord c in 48 \<le> n \<and> n \<le> 57 \<or> 65 \<le> n \<and> n \<le> 90 \<or> 97 \<le> n \<and> n \<le> 122 \<or>
        n \<in> {170, 178, 179, 181, 185, 186, 188, 189, 190} \<or> 192 \<le> n \<and> n \<noteq> 215 \<and> n \<noteq> 247)"

definition safe_name :: "string \<Rightarrow> string" where
  "safe_name name =
     (let kept = strip_by str_space (filter (\<lambda>c. alnum c \<or> c \<in> {CHR ''-'', CHR ''_'', CHR '' '', CHR ''.''}) name);
          safe = (if kept = [] then ''account'' else kept)
      in if ends_with ''.json'' safe then safe else safe @ ''.json'')"

definition save_account :: "crypto \<Rightarrow> string option \<Rightarrow> web_request \<Rightarrow> 'c server \<Rightarrow> 'c server \<times> account_head http" where
  "save_account k name q s =
     (let s1 = (case name of
                  Some (c # cs) \<Rightarrow> s\<lparr>sv_path := Some (safe_name (c # cs))\<rparr>
                | _ \<Rightarrow> s)
      in case sv_path s1 of
           None \<Rightarrow> (s1, Refused 400 ''choose a file name first'')
         | Some p \<Rightarrow>
             (let s2 = audit k q ''account_save'' [(''file'', Js_str p)]
                         (s1\<lparr>sv_files := AList.update p (to_json (sv_account s1)) (sv_files s1)\<rparr>)
              in (s2, Reply (account_summary s2))))"

text \<open>\<open>setattr\<close> on the connection for the fields it has; \<open>hasattr\<close> also knows the methods of the object, which
  are left aside.\<close>

definition set_connection :: "connection_settings \<Rightarrow> string \<times> jval \<Rightarrow> connection_settings" where
  "set_connection c = (\<lambda>(k, v).
     if k = ''method'' then c\<lparr>cs_method := v\<rparr> else if k = ''host'' then c\<lparr>cs_host := v\<rparr>
     else if k = ''port'' then c\<lparr>cs_port := v\<rparr> else if k = ''secure'' then c\<lparr>cs_secure := v\<rparr>
     else if k = ''serial_port'' then c\<lparr>cs_serial_port := v\<rparr> else if k = ''baud'' then c\<lparr>cs_baud := v\<rparr> else c)"

definition update_account :: "string \<Rightarrow> string \<Rightarrow> jobject \<Rightarrow> 'c server \<Rightarrow> 'c server \<times> account_head http" where
  "update_account name notes conn s =
     (let a = sv_account s;
          s1 = s\<lparr>sv_account := a\<lparr>ac_name := name, ac_notes := notes, ac_connection := foldl set_connection (ac_connection a) conn\<rparr>\<rparr>
      in (s1, Reply (account_summary s1)))"

section \<open>Records of the account\<close>

definition find_spec :: "string \<Rightarrow> 'c server \<Rightarrow> 'c server \<times> record_spec http" where
  "find_spec name s =
     (case spec_by_name name of None \<Rightarrow> (s, Refused 404 ''unknown table'') | Some spec \<Rightarrow> (s, Reply spec))"

definition list_records :: "string \<Rightarrow> 'c server \<Rightarrow> 'c server \<times> (int \<times> rval) list http" where
  "list_records name =
     bindh (find_spec name) (\<lambda>spec s.
       let table = lookup_or [] (ac_tables (sv_account s)) name;
           title = (case filter (\<lambda>f. fs_kind f = F_TEXT) (rs_fields spec) of
                      [] \<Rightarrow> (\<lambda>r. R_str [])
                    | f # _ \<Rightarrow> (\<lambda>r. lookup_or (R_str []) r (fs_name f)))
       in (s, Reply (map (\<lambda>n. (n, title (the (map_of table n)))) (sort (map fst table)))))"

definition the_record :: "string \<Rightarrow> int \<Rightarrow> 'c server \<Rightarrow> 'c server \<times> rec_dict http" where
  "the_record name number s =
     (case account_record name number (sv_account s) of
        (a, Inl e) \<Rightarrow> (s\<lparr>sv_account := a\<rparr>, Crashed)
      | (a, Inr r) \<Rightarrow> (s\<lparr>sv_account := a\<rparr>, Reply r))"

definition encoded :: "record_spec \<Rightarrow> rec_dict \<Rightarrow> 'c server \<Rightarrow> 'c server \<times> byte list http" where
  "encoded spec r s = (case encode_record spec r of Inl e \<Rightarrow> (s, Crashed) | Inr raw \<Rightarrow> (s, Reply raw))"

definition get_record :: "string \<Rightarrow> int \<Rightarrow> 'c server \<Rightarrow> 'c server \<times> (jobject \<times> byte list) http" where
  "get_record name number =
     bindh (find_spec name) (\<lambda>spec.
     bindh (the_record name number) (\<lambda>r.
     bindh (encoded spec r) (\<lambda>raw s. (s, Reply (jsonable r, raw)))))"

text \<open>The assignments of \<open>put_record\<close>; a value that \<open>bytes.fromhex\<close> refuses leaves those made so far.\<close>

definition jval_true :: "jval \<Rightarrow> bool" where
  "jval_true v = (case v of J_null \<Rightarrow> False | J_int i \<Rightarrow> i \<noteq> 0 | J_str s \<Rightarrow> s \<noteq> [] | J_ints xs \<Rightarrow> xs \<noteq> [] | J_bool b \<Rightarrow> b)"

fun put_fields :: "field_spec list \<Rightarrow> jobject \<Rightarrow> rec_dict \<Rightarrow> rec_dict \<times> py_error option" where
  "put_fields [] body r = (r, None)"
| "put_fields (f # fs) body r =
     (case (case map_of body (fs_name f) of
              None \<Rightarrow> Inr r
            | Some v \<Rightarrow> bindr (field_value f v) (\<lambda>x. Inr (dict_put (fs_name f) x r))) of
        Inl e \<Rightarrow> (r, Some e)
      | Inr r \<Rightarrow>
          (case map_of body (show_key (fs_name f)) of
             Some v \<Rightarrow> if fs_kind f = F_TEXT
                       then put_fields fs body (dict_put (show_key (fs_name f)) (R_bool (jval_true v)) r)
                       else put_fields fs body r
           | None \<Rightarrow> put_fields fs body r))"

definition set_record :: "string \<Rightarrow> int \<Rightarrow> rec_dict \<Rightarrow> 'c server \<Rightarrow> 'c server" where
  "set_record name number r s =
     (let a = sv_account s
      in s\<lparr>sv_account := a\<lparr>ac_tables := AList.update name (AList.update number r (lookup_or [] (ac_tables a) name)) (ac_tables a)\<rparr>\<rparr>)"

definition put_record :: "string \<Rightarrow> int \<Rightarrow> jobject \<Rightarrow> 'c server \<Rightarrow> 'c server \<times> (jobject \<times> byte list) http" where
  "put_record name number body =
     bindh (find_spec name) (\<lambda>spec.
     bindh (the_record name number) (\<lambda>r s.
       case put_fields (rs_fields spec @ rs_extra spec) body r of
         (r1, Some e) \<Rightarrow> (set_record name number r1 s, Crashed)
       | (r1, None) \<Rightarrow> get_record name number (set_record name number r1 s)))"

definition delete_record :: "string \<Rightarrow> int \<Rightarrow> 'c server \<Rightarrow> 'c server \<times> unit http" where
  "delete_record name number s =
     (let a = sv_account s
      in (s\<lparr>sv_account := a\<lparr>ac_tables := AList.map_entry name (AList.delete number) (ac_tables a)\<rparr>\<rparr>, Reply ()))"

text \<open>\<open>import_mdb\<close>: the database opened (or not) by the given path and password.\<close>

datatype import_reply = Found_accounts "db_row list" | Imported account_head

definition import_mdb ::
    "crypto \<Rightarrow> row_source option \<Rightarrow> string option \<Rightarrow> web_request \<Rightarrow> 'c server \<Rightarrow> 'c server \<times> import_reply http" where
  "import_mdb k source account_id q s =
     (case source of
        None \<Rightarrow> (s, Refused 400 ''could not open the database: check the path, the password, and that ElkRP is closed'')
      | Some src \<Rightarrow>
          (case account_id of
             None \<Rightarrow> (s, Reply (Found_accounts (list_accounts src)))
           | Some i \<Rightarrow>
               (case import_account src i of
                  Inl e \<Rightarrow> (s, Crashed)
                | Inr a \<Rightarrow>
                    let s1 = audit k q ''account_import'' [(''account'', Js_str i)] (s\<lparr>sv_account := a, sv_path := None\<rparr>)
                    in (s1, Reply (Imported (account_summary s1))))))"

end
