(* ===== verification/App_Panel.thy ===== *)
theory App_Panel
  imports App_Server
begin

text \<open>
  The rest of \<open>web/app.py\<close>: the claim and the hand-over around a panel session, the requests that talk to
  the panel, the trace with the access code struck out, the audit requests, and the life of the service
  (start, idle watch). A dialogue with the panel is one step of the service; what it wrote to the port and
  recorded in the trace is noted in the state.
\<close>

section \<open>Claim and hand-over\<close>

definition CLAIM_SOURCE :: string where "CLAIM_SOURCE = ''elk_programmer''"

definition log_event :: "crypto \<Rightarrow> string \<Rightarrow> string \<Rightarrow> string \<Rightarrow> jobj \<Rightarrow> 'c server \<Rightarrow> 'c server" where
  "log_event k event user_id user_name details s = upd_access (note_event k event user_id user_name details) s"

definition ask_service ::
    "'c world \<Rightarrow> string \<Rightarrow> jobj \<Rightarrow> 'c server \<Rightarrow> 'c server \<times> jobj option hass_outcome" where
  "ask_service w service payload s =
     (case wd_service w service payload (rl_core (sv_handover s)) of
        (c, r) \<Rightarrow> (s\<lparr>sv_handover := (sv_handover s)\<lparr>rl_core := c\<rparr>\<rparr>, call_service ''elkm1'' service r False))"

definition claim_session :: "'c world \<Rightarrow> string \<Rightarrow> string \<Rightarrow> string \<Rightarrow> 'c server \<Rightarrow> 'c server \<times> unit http" where
  "claim_session w user_id user_name purpose s =
     (if \<not> sv_hass s then (s, Reply ())
      else case ask_service w ''programming_session_start''
             [(''source'', Js_str CLAIM_SOURCE), (''user'', Js_str user_id), (''purpose'', Js_str purpose)] s of
             (s1, Other_error e) \<Rightarrow> (s1, Crashed)
           | (s1, Hass_error e) \<Rightarrow>
               (log_event (wd_crypto w) ''session_claim_failed'' user_id user_name [(''error'', Js_str e)] s1, Reply ())
           | (s1, Fine _) \<Rightarrow>
               (log_event (wd_crypto w) ''session_claimed'' user_id user_name [(''purpose'', Js_str purpose)] s1, Reply ()))"

definition end_claim :: "'c world \<Rightarrow> string \<Rightarrow> string \<Rightarrow> 'c server \<Rightarrow> 'c server \<times> unit http" where
  "end_claim w user_id user_name s =
     (if \<not> sv_hass s then (s, Reply ())
      else case ask_service w ''programming_session_end''
             [(''source'', Js_str CLAIM_SOURCE), (''user'', Js_str user_id)] s of
             (s1, Other_error e) \<Rightarrow> (s1, Crashed)
           | (s1, Hass_error e) \<Rightarrow>
               (log_event (wd_crypto w) ''session_claim_end_failed'' user_id user_name [(''error'', Js_str e)] s1, Reply ())
           | (s1, Fine _) \<Rightarrow> (log_event (wd_crypto w) ''session_claim_ended'' user_id user_name [] s1, Reply ()))"

definition entries_json :: "string list \<Rightarrow> jobj" where
  "entries_json ids = [(''entries'', Js_list (map Js_str ids))]"

definition release_integration :: "'c world \<Rightarrow> string \<Rightarrow> string \<Rightarrow> 'c server \<Rightarrow> 'c server \<times> unit http" where
  "release_integration w user_id user_name s =
     (if \<not> sv_release s then (s, Reply ())
      else case release (wd_api w) (st_token (sv_settings s)) (sv_handover s) of
             (r, Other_error e) \<Rightarrow> (s\<lparr>sv_handover := r\<rparr>, Crashed)
           | (r, Hass_error e) \<Rightarrow>
               bindh (end_claim w user_id user_name)
                 (\<lambda>_ s1. (s1, Refused 502 (''could not release the integration: '' @ e)))
                 (log_event (wd_crypto w) ''integration_release_failed'' user_id user_name [(''error'', Js_str e)]
                    (s\<lparr>sv_handover := r\<rparr>))
           | (r, Fine ids) \<Rightarrow>
               (log_event (wd_crypto w) ''integration_released'' user_id user_name (entries_json ids)
                  (s\<lparr>sv_handover := r\<rparr>), Reply ()))"

definition restore_integration :: "'c world \<Rightarrow> string \<Rightarrow> string \<Rightarrow> 'c server \<Rightarrow> 'c server \<times> unit http" where
  "restore_integration w user_id user_name s =
     (if \<not> sv_release s then (s, Reply ())
      else case release_pending (sv_handover s) of
             Inl e \<Rightarrow> (s, Crashed)
           | Inr [] \<Rightarrow> (s, Reply ())
           | Inr _ \<Rightarrow>
               (case restore (wd_api w) (st_token (sv_settings s)) (sv_handover s) of
                  (r, Other_error e) \<Rightarrow> (s\<lparr>sv_handover := r\<rparr>, Crashed)
                | (r, Hass_error e) \<Rightarrow>
                    (log_event (wd_crypto w) ''integration_restore_failed'' user_id user_name [(''error'', Js_str e)]
                       (s\<lparr>sv_handover := r\<rparr>), Reply ())
                | (r, Fine ids) \<Rightarrow>
                    (log_event (wd_crypto w) ''integration_restored'' user_id user_name (entries_json ids)
                       (s\<lparr>sv_handover := r\<rparr>), Reply ())))"

text \<open>Both, as they end every session.\<close>

definition hand_back :: "'c world \<Rightarrow> string \<Rightarrow> string \<Rightarrow> 'c server \<Rightarrow> 'c server \<times> unit http" where
  "hand_back w user_id user_name =
     bindh (restore_integration w user_id user_name) (\<lambda>_. end_claim w user_id user_name)"

section \<open>The trace\<close>

text \<open>The frames of the login carry the access code: only their header is shown.\<close>

definition show_entry :: "trace_entry \<Rightarrow> shown_entry" where
  "show_entry t =
     \<lparr>sh_when = te_when t, sh_direction = te_direction t,
      sh_body = (if starts_with ''login'' (te_note t)
                 then take 4 (te_body t) @ replicate (length (te_body t) - 4) 63 else te_body t),
      sh_note = te_note t\<rparr>"

text \<open>What a dialogue with the panel did, from the session before and after it: the frames on the wire, and
  \<open>on_trace\<close> for each new entry of the trace.\<close>

definition observe :: "session \<Rightarrow> session \<Rightarrow> 'c server \<Rightarrow> 'c server" where
  "observe x x1 s =
     s\<lparr>sv_wire := sv_wire s @ map snd (drop (length (lk_written (ss_link x))) (lk_written (ss_link x1))),
       sv_broadcasts := sv_broadcasts s @
         map (\<lambda>t. Trace_message (show_entry t)) (drop (length (ss_trace x)) (ss_trace x1))\<rparr>"

definition on_session :: "(session \<Rightarrow> session \<times> 'r) \<Rightarrow> session \<Rightarrow> 'c server \<Rightarrow> 'c server \<times> 'r" where
  "on_session f x s = (case f x of (x1, r) \<Rightarrow> ((observe x x1 s)\<lparr>sv_session := Some x1\<rparr>, r))"

definition panel_trace :: "'c server \<Rightarrow> shown_entry list" where
  "panel_trace s = (case sv_session s of None \<Rightarrow> [] | Some x \<Rightarrow> map show_entry (ss_trace x))"

section \<open>Connecting\<close>

record connect_request =
  cq_method :: string
  cq_host :: string
  cq_port :: int
  cq_serial_port :: string
  cq_baud :: int
  cq_code :: string

text \<open>\<open>body.x or settings.default_x\<close>.\<close>

definition text_or :: "string \<Rightarrow> string \<Rightarrow> string" where
  "text_or a b = (if a \<noteq> [] then a else b)"

definition number_or :: "int \<Rightarrow> int \<Rightarrow> int" where
  "number_or a b = (if a \<noteq> 0 then a else b)"

definition port_of :: "settings \<Rightarrow> connect_request \<Rightarrow> port" where
  "port_of st body =
     (if cq_method body = ''serial''
      then Serial_port (text_or (cq_serial_port body) (st_serial_port st)) (number_or (cq_baud body) (st_baud st))
      else Network_port (text_or (cq_host body) (st_host st)) (number_or (cq_port body) (st_port st)))"

definition connect_target :: "settings \<Rightarrow> connect_request \<Rightarrow> string" where
  "connect_target st body =
     (if cq_method body \<noteq> ''serial'' then text_or (cq_host body) (st_host st) else cq_serial_port body)"

text \<open>Logging in over an open link. A session error closes the link and hands back; any other exception leaves
  everything as it is.\<close>

definition connect_login ::
    "'c world \<Rightarrow> connect_request \<Rightarrow> web_request \<Rightarrow> link \<Rightarrow> 'c server \<Rightarrow> 'c server \<times> login_reply http" where
  "connect_login w body q l s =
     (let (user_id, user_name) = remote_user (sv_settings s) q; x = session_open l in
      case session_login (cq_code body) x of
        (x1, r) \<Rightarrow>
          (let s1 = observe x x1 s in
           case r of
             Inr info \<Rightarrow>
               (audit (wd_crypto w) q ''panel_connect''
                  [(''method'', Js_str (cq_method body)), (''firmware'', Js_str (lr_firmware info)),
                   (''serial'', Js_str (lr_serial_number info))] (s1\<lparr>sv_session := Some x1\<rparr>), Reply info)
           | Inl e \<Rightarrow>
               if \<not> is_session_error e then (s1, Crashed)
               else bindh (hand_back w user_id user_name)
                      (\<lambda>_ s2. (audit (wd_crypto w) q ''panel_login_failed''
                                 [(''method'', Js_str (cq_method body)),
                                  (''target'', Js_str (connect_target (sv_settings s2) body))] s2,
                               Refused 400 (''login failed: '' @ error_text e))) s1))"

text \<open>What follows the two guards of \<open>panel_connect\<close>.\<close>

definition connect_run ::
    "'c world \<Rightarrow> connect_request \<Rightarrow> web_request \<Rightarrow> 'c server \<Rightarrow> 'c server \<times> login_reply http" where
  "connect_run w body q s =
     (let (user_id, user_name) = remote_user (sv_settings s) q in
      bindh (claim_session w user_id user_name ''programming'') (\<lambda>_.
      bindh (release_integration w user_id user_name) (\<lambda>_ s1.
        case wd_open w (port_of (sv_settings s1) body) of
          Open_raises e \<Rightarrow> (s1, Crashed)
        | Not_opened \<Rightarrow>
            bindh (hand_back w user_id user_name)
              (\<lambda>_ s2. (s2, Refused 400 ''could not open the connection to the panel'')) s1
        | Opened l \<Rightarrow> connect_login w body q l s1)) s)"

definition panel_connect ::
    "'c world \<Rightarrow> connect_request \<Rightarrow> web_request \<Rightarrow> 'c server \<Rightarrow> 'c server \<times> login_reply http" where
  "panel_connect w body q =
     bindh (require_session (wd_crypto w) q) (\<lambda>_ s.
       if sv_session s \<noteq> None then (s, Refused 409 ''already connected'') else connect_run w body q s)"

text \<open>\<open>session.close\<close>: an exception that is not a session error escapes.\<close>

definition close_session :: "'c server \<Rightarrow> 'c server \<times> unit http" where
  "close_session s =
     (case sv_session s of
        None \<Rightarrow> (s, Reply ())
      | Some x \<Rightarrow>
          (case on_session session_close x s of
             (s1, Some e) \<Rightarrow> (s1, Crashed)
           | (s1, None) \<Rightarrow> (s1\<lparr>sv_session := None\<rparr>, Reply ())))"

definition panel_disconnect :: "'c world \<Rightarrow> web_request \<Rightarrow> 'c server \<Rightarrow> 'c server \<times> unit http" where
  "panel_disconnect w q s =
     (let (user_id, user_name) = remote_user (sv_settings s) q; connected = sv_session s \<noteq> None in
      bindh close_session (\<lambda>_ s1.
        hand_back w user_id user_name
          (if connected then audit (wd_crypto w) q ''panel_disconnect'' [] s1 else s1)) s)"

record panel_state =
  pn_connected :: bool
  pn_login :: "login_reply option"
  pn_trace_length :: nat

definition panel_status :: "'c server \<Rightarrow> panel_state" where
  "panel_status s =
     (case sv_session s of
        None \<Rightarrow> \<lparr>pn_connected = False, pn_login = None, pn_trace_length = 0\<rparr>
      | Some x \<Rightarrow> \<lparr>pn_connected = True, pn_login = ss_login_reply x, pn_trace_length = length (ss_trace x)\<rparr>)"

section \<open>Reading, writing and verifying a record\<close>

text \<open>\<open>bytes.hex(" ")\<close> and \<open>:04X\<close>.\<close>

fun hex_spaced :: "byte list \<Rightarrow> string" where
  "hex_spaced [] = []"
| "hex_spaced [b] = bytes_hex [b]"
| "hex_spaced (b # bs) = bytes_hex [b] @ '' '' @ hex_spaced bs"

definition fmt_04X :: "int \<Rightarrow> string" where
  "fmt_04X n = zfill 4 (to_digits 16 (nat n))"

text \<open>\<open>local.get(k) != v\<close> for a value \<open>v\<close> that \<open>_jsonable\<close> made: Python compares truth values with numbers, and
  a text never equals bytes.\<close>

definition same_value :: "jval \<Rightarrow> rval option \<Rightarrow> bool" where
  "same_value v r =
     (case (v, r) of
        (J_int i, Some (R_int j)) \<Rightarrow> i = j
      | (J_int i, Some (R_bool b)) \<Rightarrow> i = of_bool b
      | (J_bool b, Some (R_int j)) \<Rightarrow> of_bool b = j
      | (J_bool b, Some (R_bool c)) \<Rightarrow> b = c
      | (J_str t, Some (R_str u)) \<Rightarrow> t = u
      | (J_ints xs, Some (R_words ys)) \<Rightarrow> xs = ys
      | _ \<Rightarrow> False)"

definition record_diff :: "rec_dict \<Rightarrow> rec_dict \<Rightarrow> (string \<times> jval \<times> rval option) list" where
  "record_diff panel mine =
     map (\<lambda>(k, v). (k, v, map_of mine k)) (filter (\<lambda>(k, v). \<not> same_value v (map_of mine k)) (jsonable panel))"

definition the_session :: "'c server \<Rightarrow> 'c server \<times> session http" where
  "the_session s = (case sv_session s of None \<Rightarrow> (s, Refused 409 ''not connected'') | Some x \<Rightarrow> (s, Reply x))"

text \<open>\<open>SPECS_BY_NAME[...]\<close> and \<open>wire_for\<close>.\<close>

definition spec_and_wire :: "string \<Rightarrow> 'c server \<Rightarrow> 'c server \<times> (record_spec \<times> wire_map) http" where
  "spec_and_wire name s =
     (case spec_by_name name of
        None \<Rightarrow> (s, Crashed)
      | Some spec \<Rightarrow> (case wire_for name of Inl e \<Rightarrow> (s, Refused 400 e) | Inr wm \<Rightarrow> (s, Reply (spec, wm))))"

text \<open>An exception of a dialogue with the panel.\<close>

definition panel_failure :: "session_error \<Rightarrow> 'a http" where
  "panel_failure e = (if is_session_error e then Refused 502 (error_text e) else Crashed)"

definition panel_read ::
    "'c world \<Rightarrow> string \<Rightarrow> int \<Rightarrow> web_request \<Rightarrow> 'c server \<Rightarrow> 'c server \<times> read_reply http" where
  "panel_read w name number q =
     bindh (require_session (wd_crypto w) q) (\<lambda>_.
     bindh the_session (\<lambda>x.
     bindh (spec_and_wire name) (\<lambda>(spec, wm) s.
       case on_session (session_read_record (wm_record wm) (wire_item wm number) (wm_size wm) (wm_sub wm)) x s of
         (s1, Inl e) \<Rightarrow> (s1, panel_failure e)
       | (s1, Inr raw) \<Rightarrow>
           (case decode_record spec raw of
              Inl e \<Rightarrow> (s1, Crashed)
            | Inr r \<Rightarrow>
                bindh (the_record name number) (\<lambda>mine s2.
                  let diff = record_diff r mine;
                      reply = \<lparr>rr_record = jsonable r, rr_hex = hex_spaced raw, rr_diff = diff\<rparr>;
                      s3 = audit (wd_crypto w) q ''record_read''
                             [(''table'', Js_str name), (''number'', Js_int number),
                              (''differs'', Js_list (map Js_str (sort (map fst diff))))] s2
                  in (s3, if wd_answer w reply then Reply reply else Crashed)) s1))))"

datatype write_reply = Dry_run "byte list" "byte list" | Written "byte list" "byte list"

definition write_request :: "wire_map \<Rightarrow> int \<Rightarrow> byte list \<Rightarrow> 'c server \<Rightarrow> 'c server \<times> (request \<times> byte list) http" where
  "write_request wm number payload s =
     (case write_record (wm_record wm) (wire_item wm number) payload (wm_sub wm) of
        Inl e \<Rightarrow> (s, Crashed)
      | Inr rq \<Rightarrow> (case encode_frame (rq_body rq) of Inl e \<Rightarrow> (s, Crashed) | Inr frame \<Rightarrow> (s, Reply (rq, frame))))"

text \<open>\<open>send_record\<close> in the state.\<close>

definition send_to_panel :: "string \<Rightarrow> int \<Rightarrow> session \<Rightarrow> 'c server \<Rightarrow> 'c server \<times> (session_error + byte list)" where
  "send_to_panel name number x s =
     (case send_record name number x (sv_account s) of
        (x1, a, r) \<Rightarrow> ((observe x x1 s)\<lparr>sv_session := Some x1, sv_account := a\<rparr>, r))"

definition panel_write ::
    "'c world \<Rightarrow> string \<Rightarrow> int \<Rightarrow> bool \<Rightarrow> web_request \<Rightarrow> 'c server \<Rightarrow> 'c server \<times> write_reply http" where
  "panel_write w name number dry_run q =
     bindh (spec_and_wire name) (\<lambda>(spec, wm).
     bindh (the_record name number) (\<lambda>r.
     bindh (encoded spec r) (\<lambda>payload.
     bindh (write_request wm number payload) (\<lambda>(rq, frame).
       if dry_run then bindh (require_session (wd_crypto w) q) (\<lambda>_ s. (s, Reply (Dry_run (rq_body rq) frame)))
       else bindh (require_write (wd_crypto w) q) (\<lambda>_.
            bindh the_session (\<lambda>x s.
              case send_to_panel name number x s of
                (s1, Inl e) \<Rightarrow>
                  if is_session_error e
                  then (audit (wd_crypto w) q ''record_send_failed''
                          [(''table'', Js_str name), (''number'', Js_int number), (''error'', Js_str (error_text e))] s1,
                        Refused 502 (error_text e))
                  else (s1, Crashed)
              | (s1, Inr reply) \<Rightarrow>
                  (audit (wd_crypto w) q ''record_sent''
                     [(''table'', Js_str name), (''number'', Js_int number), (''frame'', Js_str (hex_spaced frame)),
                      (''reply'', Js_str (hex_spaced reply))] s1,
                   Reply (Written frame reply))))))))"

definition panel_verify ::
    "'c world \<Rightarrow> string \<Rightarrow> int \<Rightarrow> web_request \<Rightarrow> 'c server \<Rightarrow> 'c server \<times> (string \<times> string \<times> bool) http" where
  "panel_verify w name number q =
     bindh (require_session (wd_crypto w) q) (\<lambda>_.
     bindh the_session (\<lambda>x s.
       if map_of WIRE name = None then (s, Refused 400 ''table has no wire mapping'')
       else case verify_record name number x (sv_account s) of
              (x1, a, r) \<Rightarrow>
                (let s1 = (observe x x1 s)\<lparr>sv_session := Some x1, sv_account := a\<rparr> in
                 case r of
                   Inl e \<Rightarrow> (s1, panel_failure e)
                 | Inr (panel_crc, local_crc) \<Rightarrow>
                     (audit (wd_crypto w) q ''record_verify''
                        [(''table'', Js_str name), (''number'', Js_int number),
                         (''match'', Js_bool (panel_crc = local_crc))] s1,
                      Reply (fmt_04X panel_crc, fmt_04X local_crc, panel_crc = local_crc)))))"

section \<open>Receiving\<close>

definition panel_receive ::
    "'c world \<Rightarrow> string list option \<Rightarrow> web_request \<Rightarrow> 'c server \<Rightarrow> 'c server \<times> string list http" where
  "panel_receive w tables q =
     bindh (require_session (wd_crypto w) q) (\<lambda>_.
     bindh the_session (\<lambda>_ s.
       if sv_receive s \<noteq> None then (s, Refused 409 ''a receive is already running'')
       else let names = (case tables of Some (t # ts) \<Rightarrow> t # ts | _ \<Rightarrow> RECEIVE_ORDER) in
         (case filter (\<lambda>t. map_of WIRE t = None) names of
            t # _ \<Rightarrow> (s, Refused 400 (t @ '' is not sendable or receivable''))
          | [] \<Rightarrow>
              let (user_id, user_name) = remote_user (sv_settings s) q in
              ((log_event (wd_crypto w) ''receive_started'' user_id user_name
                  [(''tables'', Js_list (map Js_str names))] (s\<lparr>sv_report := None\<rparr>))
                 \<lparr>sv_receive := Some (user_id, user_name, names)\<rparr>, Reply names))))"

definition report_json :: "receive_report \<Rightarrow> jobj" where
  "report_json r =
     [(''read'', Js_obj (map (\<lambda>(t, n). (t, Js_int (int n))) (rp_read r))),
      (''changed'', Js_obj (map (\<lambda>(t, ns). (t, Js_list (map Js_int ns))) (rp_changed r))),
      (''errors'', Js_list (map Js_str (rp_errors r)))]"

text \<open>The task: without a session its assertion fails; an exception ends it without a report.\<close>

definition receive_run :: "crypto \<Rightarrow> 'c server \<Rightarrow> 'c server" where
  "receive_run k s =
     (case sv_receive s of
        None \<Rightarrow> s
      | Some (user_id, user_name, names) \<Rightarrow>
          (case sv_session s of
             None \<Rightarrow> s\<lparr>sv_receive := None\<rparr>
           | Some x \<Rightarrow>
               (case receive_all names [] x (sv_account s) of
                  (st, f) \<Rightarrow>
                    (let s1 = (observe x (rc_session st) s)\<lparr>sv_session := Some (rc_session st),
                                sv_account := rc_account st, sv_receive := None\<rparr>
                     in case f of
                          Raise e \<Rightarrow> s1
                        | _ \<Rightarrow>
                            let s2 = log_event k ''receive_finished'' user_id user_name (report_json (rc_report st))
                                       (s1\<lparr>sv_report := Some (rc_report st)\<rparr>)
                            in s2\<lparr>sv_broadcasts := sv_broadcasts s2 @ [Receive_done (rc_report st)]\<rparr>))))"

definition panel_receive_status :: "'c server \<Rightarrow> bool \<times> receive_report option" where
  "panel_receive_status s = (sv_receive s \<noteq> None, sv_report s)"

section \<open>The other requests\<close>

text \<open>\<open>connection_defaults\<close>.\<close>

record defaults =
  df_from_app :: bool
  df_method :: string
  df_host :: string
  df_port :: int
  df_serial_port :: string
  df_baud :: int
  df_release :: bool

definition connection_defaults :: "'c server \<Rightarrow> defaults" where
  "connection_defaults s =
     (let st = sv_settings s
      in \<lparr>df_from_app = app_mode st, df_method = st_method st, df_host = st_host st, df_port = st_port st,
          df_serial_port = st_serial_port st, df_baud = st_baud st, df_release = sv_release s\<rparr>)"

definition explain :: "string \<Rightarrow> string \<Rightarrow> int \<Rightarrow> 'c server \<Rightarrow> 'c server \<times> (string \<times> int) list http" where
  "explain name field v s =
     (case spec_by_name name of
        None \<Rightarrow> (s, Crashed)
      | Some spec \<Rightarrow>
          (case filter (\<lambda>f. fs_name f = field) (rs_fields spec @ rs_extra spec) of
             [] \<Rightarrow> (s, Crashed)
           | f # _ \<Rightarrow> (s, Reply (explain_flags f v))))"

datatype forwarding = Not_forwarded | Forwarded int bool "string option"

definition audit_forwarding :: "crypto \<Rightarrow> web_request \<Rightarrow> 'c server \<Rightarrow> 'c server \<times> forwarding http" where
  "audit_forwarding k q =
     bindh (require_session k q) (\<lambda>_ s.
       (s, Reply (case sv_soc s of
                    None \<Rightarrow> Not_forwarded
                  | Some p \<Rightarrow> Forwarded (sp_last_seq p) (sp_running p) (sp_last_error p))))"

text \<open>\<open>lines[-limit:]\<close>: all of them for 0, and for a negative limit all but the first.\<close>

definition last_lines :: "int \<Rightarrow> 'a list \<Rightarrow> 'a list" where
  "last_lines limit ls =
     (if limit = 0 then ls else if 0 < limit then take_end (nat limit) ls else drop (nat (- limit)) ls)"

text \<open>\<open>json.loads\<close> of each line: a blank line is no JSON.\<close>

fun line_json :: "log_line \<Rightarrow> jobj result" where
  "line_json (Record_line d) = Inr d" | "line_json (Broken_line e) = Inl e" | "line_json Blank_line = Inl ValueError"

definition audit_tail ::
    "crypto \<Rightarrow> int \<Rightarrow> web_request \<Rightarrow> 'c server \<Rightarrow> 'c server \<times> (bool \<times> nat \<times> jobj list) http" where
  "audit_tail k limit q =
     bindh (require_session k q) (\<lambda>_ s.
       let a = ac_audit (sv_access s); ls = (case au_file a of None \<Rightarrow> [] | Some ls \<Rightarrow> ls) in
       (s, case audit_verify k a of
             Inl e \<Rightarrow> Crashed
           | Inr (intact, count) \<Rightarrow>
               (case mapr line_json (last_lines limit ls) of
                  Inl e \<Rightarrow> Crashed | Inr ds \<Rightarrow> Reply (intact, count, ds))))"

text \<open>\<open>ws_trace\<close>: whether the client is accepted. The middleware does not see WebSocket requests.\<close>

definition ws_trace :: "crypto \<Rightarrow> web_request \<Rightarrow> 'c server \<Rightarrow> 'c server \<times> bool" where
  "ws_trace k q s =
     (if \<not> app_mode (sv_settings s) then (s, True)
      else if \<not> user_allowed (wr_user q) (sv_access s) then (s, False)
      else case ac_resolve k (wr_cookie q) (wr_user q) (sv_access s) of
             (ac, r) \<Rightarrow> (s\<lparr>sv_access := ac\<rparr>, r \<noteq> None))"

definition index_page :: "web_request \<Rightarrow> 'c server \<Rightarrow> 'c server \<times> unit http" where
  "index_page q s =
     (if app_mode (sv_settings s) \<and> \<not> user_allowed (fst (remote_user (sv_settings s) q)) (sv_access s)
      then (s, Refused 403 ''this Home Assistant user is not allowed to use the programmer'') else (s, Reply ()))"

section \<open>The life of the service\<close>

text \<open>One turn of \<open>_idle_watch\<close>, every thirty seconds. \<open>idle_seconds\<close> is infinite without a session. An
  exception ends the task, and so does the stop.\<close>

definition idle_watch :: "'c world \<Rightarrow> 'c server \<Rightarrow> 'c server" where
  "idle_watch w s =
     (let limit = st_idle_minutes (sv_settings s) * 60 in
      if \<not> sv_idle_watch s then s
      else if sv_receive s \<noteq> None \<or> (case idle_time (sv_access s) of None \<Rightarrow> False | Some t \<Rightarrow> t < seconds limit) then s
      else (case (bindh close_session (\<lambda>_. hand_back w [] []))
                   (log_event (wd_crypto w) ''idle_stop'' [] [] [(''after_seconds'', Js_int limit)]
                      (s\<lparr>sv_idle_watch := False\<rparr>)) of
              (s1, Reply _) \<Rightarrow>
                if st_token (sv_settings s1) \<noteq> [] \<and> wd_stop w = Inr () then s1\<lparr>sv_stopped := True\<rparr> else s1
            | (s1, _) \<Rightarrow> s1))"

text \<open>\<open>_lifespan\<close> up to its \<open>yield\<close>; an exception of the restore keeps the service from starting.\<close>

definition start_up :: "'c world \<Rightarrow> 'c server \<Rightarrow> 'c server \<times> unit http" where
  "start_up w s =
     (let start = (\<lambda>s.
            let st = sv_settings s; s = (if app_mode st \<and> 0 < st_idle_minutes st then s\<lparr>sv_idle_watch := True\<rparr> else s)
            in (case sv_soc s of None \<Rightarrow> s | Some p \<Rightarrow> s\<lparr>sv_soc := Some (soc_schedule (soc_attach p))\<rparr>))
      in if \<not> sv_release s then (start s, Reply ())
         else case release_pending (sv_handover s) of
                Inl e \<Rightarrow> (s, Crashed)
              | Inr [] \<Rightarrow> (start s, Reply ())
              | Inr _ \<Rightarrow>
                  (case restore (wd_api w) (st_token (sv_settings s)) (sv_handover s) of
                     (r, Other_error e) \<Rightarrow> (s\<lparr>sv_handover := r\<rparr>, Crashed)
                   | (r, Hass_error e) \<Rightarrow> (start (s\<lparr>sv_handover := r\<rparr>), Reply ())
                   | (r, Fine ids) \<Rightarrow>
                       (start (log_event (wd_crypto w) ''integration_restored_after_restart'' [] [] (entries_json ids)
                          (s\<lparr>sv_handover := r\<rparr>)), Reply ())))"

end
