(* ===== verification/App_Service.thy ===== *)
theory App_Service
  imports App_Panel
begin

text \<open>
  The service as a whole: every request behind the gate, and the steps it takes on its own. What holds of
  every run: the access control is used through the calls of \<open>App_Security\<close> only, and a frame that changes
  the panel's programming is written only for a user who has earned it. The access code of the panel does
  not reach the trace.
\<close>

section \<open>Requests\<close>

text \<open>The arguments are the path parameters, the body, and the random values of the request.\<close>

datatype endpoint =
    E_status
  | E_setup "8 word list" string string
  | E_login string string
  | E_step_up string
  | E_rotate "8 word list" string string
  | E_logout
  | E_accounts
  | E_new string
  | E_open string
  | E_save "string option"
  | E_account
  | E_head string string jobject
  | E_records string
  | E_record string int
  | E_put string int jobject
  | E_delete string int
  | E_import "row_source option" "string option"
  | E_defaults
  | E_connect connect_request
  | E_disconnect
  | E_panel
  | E_read string int
  | E_write string int bool
  | E_receive "string list option"
  | E_receive_status
  | E_verify string int
  | E_trace
  | E_explain string string int
  | E_forwarding
  | E_audit int
  | E_version
  | E_index

fun endpoint_path :: "endpoint \<Rightarrow> string" where
  "endpoint_path E_status = ''/api/auth/status''"
| "endpoint_path (E_setup salt token pw) = ''/api/auth/setup''"
| "endpoint_path (E_login token pw) = ''/api/auth/login''"
| "endpoint_path (E_step_up pw) = ''/api/auth/step_up''"
| "endpoint_path (E_rotate salt cur new) = ''/api/auth/rotate''"
| "endpoint_path E_logout = ''/api/auth/logout''"
| "endpoint_path E_accounts = ''/api/accounts''"
| "endpoint_path (E_new name) = ''/api/accounts/new''"
| "endpoint_path (E_open name) = ''/api/accounts/open/'' @ name"
| "endpoint_path (E_save name) = ''/api/accounts/save''"
| "endpoint_path E_account = ''/api/account''"
| "endpoint_path (E_head name notes conn) = ''/api/account''"
| "endpoint_path (E_records t) = ''/api/records/'' @ t"
| "endpoint_path (E_record t n) = ''/api/records/'' @ t @ ''/'' @ int_text n"
| "endpoint_path (E_put t n body) = ''/api/records/'' @ t @ ''/'' @ int_text n"
| "endpoint_path (E_delete t n) = ''/api/records/'' @ t @ ''/'' @ int_text n"
| "endpoint_path (E_import src i) = ''/api/import/mdb''"
| "endpoint_path E_defaults = ''/api/defaults''"
| "endpoint_path (E_connect body) = ''/api/panel/connect''"
| "endpoint_path E_disconnect = ''/api/panel/disconnect''"
| "endpoint_path E_panel = ''/api/panel/status''"
| "endpoint_path (E_read t n) = ''/api/panel/read''"
| "endpoint_path (E_write t n dry) = ''/api/panel/write''"
| "endpoint_path (E_receive ts) = ''/api/panel/receive''"
| "endpoint_path E_receive_status = ''/api/panel/receive''"
| "endpoint_path (E_verify t n) = ''/api/panel/verify''"
| "endpoint_path E_trace = ''/api/panel/trace''"
| "endpoint_path (E_explain t f v) = ''/api/explain/'' @ t @ ''/'' @ f @ ''/'' @ int_text v"
| "endpoint_path E_forwarding = ''/api/audit/forwarding''"
| "endpoint_path (E_audit n) = ''/api/audit''"
| "endpoint_path E_version = ''/api/version''"
| "endpoint_path E_index = ''/''"

text \<open>The handler of each path; for the state its reply does not matter.\<close>

definition done_with :: "('s \<Rightarrow> 's \<times> 'a http) \<Rightarrow> 's \<Rightarrow> 's \<times> unit http" where
  "done_with m = bindh m (\<lambda>_ s. (s, Reply ()))"

fun handler :: "'c world \<Rightarrow> web_request \<Rightarrow> endpoint \<Rightarrow> 'c server \<Rightarrow> 'c server \<times> unit http" where
  "handler w q E_status = done_with (auth_status (wd_crypto w) q)"
| "handler w q (E_setup salt token pw) = done_with (auth_setup (wd_crypto w) salt token pw q)"
| "handler w q (E_login token pw) = done_with (auth_login (wd_crypto w) token pw q)"
| "handler w q (E_step_up pw) = auth_step_up (wd_crypto w) pw q"
| "handler w q (E_rotate salt cur new) = auth_rotate (wd_crypto w) salt cur new q"
| "handler w q E_logout = done_with (auth_logout (wd_crypto w) q)"
| "handler w q E_accounts = (\<lambda>s. (s, Reply ()))"
| "handler w q (E_new name) = done_with (new_account_request (wd_crypto w) name q)"
| "handler w q (E_open name) = done_with (open_account (wd_crypto w) name q)"
| "handler w q (E_save name) = done_with (save_account (wd_crypto w) name q)"
| "handler w q E_account = (\<lambda>s. (s, Reply ()))"
| "handler w q (E_head name notes conn) = done_with (update_account name notes conn)"
| "handler w q (E_records t) = done_with (list_records t)"
| "handler w q (E_record t n) = done_with (get_record t n)"
| "handler w q (E_put t n body) = done_with (put_record t n body)"
| "handler w q (E_delete t n) = delete_record t n"
| "handler w q (E_import src i) = done_with (import_mdb (wd_crypto w) src i q)"
| "handler w q E_defaults = (\<lambda>s. (s, Reply ()))"
| "handler w q (E_connect body) = done_with (panel_connect w body q)"
| "handler w q E_disconnect = panel_disconnect w q"
| "handler w q E_panel = (\<lambda>s. (s, Reply ()))"
| "handler w q (E_read t n) = done_with (panel_read w t n q)"
| "handler w q (E_write t n dry) = done_with (panel_write w t n dry q)"
| "handler w q (E_receive ts) = done_with (panel_receive w ts q)"
| "handler w q E_receive_status = (\<lambda>s. (s, Reply ()))"
| "handler w q (E_verify t n) = done_with (panel_verify w t n q)"
| "handler w q E_trace = (\<lambda>s. (s, Reply ()))"
| "handler w q (E_explain t f v) = done_with (explain t f v)"
| "handler w q E_forwarding = done_with (audit_forwarding (wd_crypto w) q)"
| "handler w q (E_audit n) = done_with (audit_tail (wd_crypto w) n q)"
| "handler w q E_version = (\<lambda>s. (s, Reply ()))"
| "handler w q E_index = index_page q"

definition serve :: "'c world \<Rightarrow> web_request \<Rightarrow> endpoint \<Rightarrow> 'c server \<Rightarrow> 'c server \<times> unit http" where
  "serve w q e =
     (let q = q\<lparr>wr_path := endpoint_path e\<rparr> in access_gate (wd_crypto w) q (handler w q e))"

section \<open>Steps\<close>

datatype service_step =
    Request web_request endpoint
  | Trace_client web_request
  | Receive_task
  | Keepalive
  | Idle_turn
  | Passes nat

definition keepalive_step :: "'c server \<Rightarrow> 'c server" where
  "keepalive_step s =
     (case sv_session s of
        None \<Rightarrow> s
      | Some x \<Rightarrow> fst (on_session (\<lambda>x. (keepalive_turn x, ())) x s))"

fun do_step :: "'c world \<Rightarrow> service_step \<Rightarrow> 'c server \<Rightarrow> 'c server" where
  "do_step w (Request q e) s = fst (serve w q e s)"
| "do_step w (Trace_client q) s = fst (ws_trace (wd_crypto w) q s)"
| "do_step w Receive_task s = receive_run (wd_crypto w) s"
| "do_step w Keepalive s = keepalive_step s"
| "do_step w Idle_turn s = idle_watch w s"
| "do_step w (Passes d) s = upd_access (time_sleep (int d)) s"

definition run_service :: "'c world \<Rightarrow> service_step list \<Rightarrow> 'c server \<Rightarrow> 'c server" where
  "run_service w steps s = foldl (\<lambda>s e. do_step w e s) s steps"

section \<open>What a dialogue with the panel writes\<close>

text \<open>The byte after the two that open a frame is the opcode; the write requests set its top bit.\<close>

definition writes_record :: "byte list \<Rightarrow> bool" where
  "writes_record frame \<longleftrightarrow> 0x80 \<le> uint (frame ! 2)"

definition writes_only :: "(byte list \<Rightarrow> bool) \<Rightarrow> session \<Rightarrow> session \<Rightarrow> bool" where
  "writes_only P x x1 \<longleftrightarrow>
     (\<exists>new. lk_written (ss_link x1) = lk_written (ss_link x) @ new \<and> list_all (\<lambda>tf. P (snd tf)) new)"

lemma writes_only_refl [simp]: "lk_written (ss_link x1) = lk_written (ss_link x) \<Longrightarrow> writes_only P x x1"
  by (simp add: writes_only_def)

lemma writes_only_trans: "writes_only P x x1 \<Longrightarrow> writes_only P x1 x2 \<Longrightarrow> writes_only P x x2"
  unfolding writes_only_def by (elim exE conjE) simp

lemma writes_only_mono: "writes_only P x x1 \<Longrightarrow> (\<And>f. P f \<Longrightarrow> Q f) \<Longrightarrow> writes_only Q x x1"
  unfolding writes_only_def by (elim exE conjE) (auto simp: list_all_iff)

lemma send_receive_writes: "writes_only (\<lambda>f. encode_frame (rq_body rq) = Inr f) x (fst (send_receive rq x))"
proof (cases "rq_attempts rq")
  case 0
  then show ?thesis by (simp add: send_receive_def)
next
  case (Suc n)
  obtain x1 r where s: "send_receive rq x = (x1, r)" by fastforce
  show ?thesis
  proof (cases "encode_frame (rq_body rq)")
    case (Inl e)
    then have "x1 = record_trace Tx (rq_body rq) (rq_description rq @ '' attempt '' @ int_text (int 1)) x"
      using s Suc by (simp add: send_receive_def attempts_from.simps Let_def)
    then show ?thesis using s by simp
  next
    case (Inr frame)
    have "attempts_from (rq_attempts rq) 1 rq None x = (x1, r)" using s by (simp add: send_receive_def)
    from attempts_frame [OF Inr this] Suc obtain times
      where "lk_written (ss_link x1) = lk_written (ss_link x) @ map (\<lambda>t. (t, frame)) times" by auto
    then show ?thesis using s Inr by (auto simp: writes_only_def list_all_iff)
  qed
qed

lemma frame_opcode:
  assumes "encode_frame body = Inr frame"
  shows "frame ! 2 = hd body" "body \<noteq> []"
  using assms by (auto simp: encode_frame_def Let_def stuff_def split: if_splits) (cases body; auto)+

lemma send_request_writes:
  assumes "\<And>r. rq = Inr r \<Longrightarrow> rq_body r \<noteq> [] \<and> uint (hd (rq_body r)) < 0x80"
  shows "writes_only (\<lambda>f. \<not> writes_record f) x (fst (send_request rq x))"
proof (cases rq)
  case (Inr r)
  have "writes_only (\<lambda>f. \<not> writes_record f) x (fst (send_receive r x))"
    by (rule writes_only_mono [OF send_receive_writes])
      (use assms [OF Inr] frame_opcode in \<open>auto simp: writes_record_def\<close>)
  then show ?thesis by (simp add: send_request_def Inr)
qed (simp add: send_request_def)

lemma header_hd: "header opcode sub n = Inr h \<Longrightarrow> h \<noteq> [] \<and> hd h = word_of_int opcode"
  by (auto simp: header_def split: if_splits)

lemma reading_requests:
  "read_record oc n sub = Inr r \<Longrightarrow> rq_body r \<noteq> [] \<and> uint (hd (rq_body r)) < 0x80"
  "record_crc oc n = Inr r \<Longrightarrow> rq_body r \<noteq> [] \<and> uint (hd (rq_body r)) < 0x80"
  "login code = Inr r \<Longrightarrow> rq_body r \<noteq> [] \<and> uint (hd (rq_body r)) < 0x80"
  "keepalive = Inr r \<Longrightarrow> rq_body r \<noteq> [] \<and> uint (hd (rq_body r)) < 0x80"
  by (cases oc; auto simp: read_record_def record_crc_def login_def keepalive_def request_def bindr_eq_Inr
      message_consts Let_def dest!: header_hd split: if_splits)+

abbreviation harmless :: "byte list \<Rightarrow> bool" where
  "harmless f \<equiv> \<not> writes_record f"

lemma session_writes:
  "writes_only harmless x (fst (session_read_record oc n len sub x))"
  "writes_only harmless x (fst (session_record_crc oc n x))"
  "writes_only harmless x (fst (session_login code x))"
  "writes_only harmless x (keepalive_turn x)"
  "writes_only harmless x (fst (session_close x))"
proof -
  have req: "writes_only harmless x (fst (send_request (read_record oc n sub) x))"
    "writes_only harmless x (fst (send_request (record_crc oc n) x))"
    "writes_only harmless x (fst (send_request (login code) x))"
    "writes_only harmless x (fst (send_request keepalive x))" for x
    by (rule send_request_writes, erule reading_requests)+
  show "writes_only harmless x (fst (session_read_record oc n len sub x))"
    using req(1) [of x] by (auto simp: session_read_record_def Let_def split: prod.split sum.split)
  show "writes_only harmless x (fst (session_record_crc oc n x))"
    using req(2) [of x] by (auto simp: session_record_crc_def split: prod.split sum.split)
  show "writes_only harmless x (fst (session_login code x))"
    using req(3) [of x] by (auto simp: session_login_def writes_only_def split: prod.split sum.split)
  show "writes_only harmless x (keepalive_turn x)"
    using req(4) [of "x\<lparr>ss_link := (ss_link x)\<lparr>lk_now := lk_now (ss_link x) + 1000\<rparr>\<rparr>"]
    by (auto simp: keepalive_turn_def Let_def writes_only_def split: prod.split sum.split)
  have "writes_only harmless (x\<lparr>ss_keepalive := False\<rparr>) (fst (send_receive disconnect (x\<lparr>ss_keepalive := False\<rparr>)))"
    by (rule writes_only_mono [OF send_receive_writes])
      (use frame_opcode in \<open>auto simp: writes_record_def disconnect_def request_def\<close>)
  then show "writes_only harmless x (fst (session_close x))"
    by (auto simp: session_close_def writes_only_def link_close_def split: prod.split sum.split)
qed

lemma receive_item_writes:
  "writes_only harmless (rc_session st) (rc_session (fst (receive_item session_read_record spec w n st)))"
proof -
  obtain x r where r: "session_read_record (wm_record w) (wire_item w n) (wm_size w) (wm_sub w) (rc_session st) = (x, r)"
    by fastforce
  have "rc_session (fst (store_record spec n raw st')) = rc_session st'" for raw and st' :: "session receiving"
    by (simp add: store_record_def Let_def split: sum.split option.split)
  then have "rc_session (fst (receive_item session_read_record spec w n st)) = x"
    by (simp add: receive_item_def r Let_def split: sum.split session_error.split)
  then show ?thesis using session_writes(1) [of "rc_session st" "wm_record w" "wire_item w n" "wm_size w" "wm_sub w"] r by simp
qed

lemma receive_items_writes:
  "writes_only harmless (rc_session st) (rc_session (fst (receive_items session_read_record spec w ns st)))"
proof (induction ns arbitrary: st)
  case (Cons n ns)
  obtain st1 f where r: "receive_item session_read_record spec w n st = (st1, f)" by fastforce
  show ?case using receive_item_writes [of st spec w n] Cons.IH [of st1] r
    by (cases f) (auto intro: writes_only_trans)
qed simp

lemma receive_tables_writes:
  "writes_only harmless (rc_session st) (rc_session (fst (receive_tables session_read_record limits ts st)))"
proof (induction ts arbitrary: st)
  case (Cons t ts)
  show ?case
  proof (cases "spec_by_name t")
    case (Some spec)
    show ?thesis
    proof (cases "map_of WIRE t")
      case None
      then show ?thesis using Some Cons.IH by (simp, metis (no_types) receiving.select_convs(1) receiving.surjective receiving.update_convs(3))
    next
      case (Some w)
      obtain st1 f where r: "receive_items session_read_record spec w (item_range spec (map_of limits t)) st = (st1, f)" by fastforce
      show ?thesis
        using receive_items_writes [of st spec w "item_range spec (map_of limits t)"] Cons.IH [of st1] r Some \<open>spec_by_name t = Some spec\<close>
        by (cases f) (auto intro: writes_only_trans)
    qed
  qed simp
qed simp

section \<open>What a step may do\<close>

definition evolves :: "crypto \<Rightarrow> 'c server \<Rightarrow> 'c server \<Rightarrow> bool" where
  "evolves k s s1 \<longleftrightarrow>
     sv_settings s1 = sv_settings s \<and> (\<exists>calls. sv_access s1 = run_calls k calls (sv_access s)) \<and>
     (\<exists>new. sv_wire s1 = sv_wire s @ new \<and> list_all harmless new)"

named_theorems evolve \<open>steps that use the access control through its calls and change nothing in the panel\<close>

lemma evolves_trans [trans]: "evolves k s s1 \<Longrightarrow> evolves k s1 s2 \<Longrightarrow> evolves k s s2"
  unfolding evolves_def by (elim conjE exE) (auto simp flip: run_calls_simps(3) simp: run_calls_simps(1) intro: exI)

lemma evolves_same:
  "sv_settings s1 = sv_settings s \<Longrightarrow> sv_access s1 = sv_access s \<Longrightarrow> sv_wire s1 = sv_wire s \<Longrightarrow> evolves k s s1"
  unfolding evolves_def by (auto intro: exI [of _ "[]"])

lemma evolves_refl [simp, evolve]: "evolves k s s"
  by (rule evolves_same) simp_all

lemma evolves_call:
  assumes "sv_settings s1 = sv_settings s" "sv_wire s1 = sv_wire s" "sv_access s1 = call_step k c (sv_access s)"
  shows "evolves k s s1"
  unfolding evolves_def using assms by (auto intro: exI [of _ "[c]"])

lemma evolves_note [evolve]: "evolves k s (upd_access (note_event k ev u n d) s)"
  by (rule evolves_call [of _ _ _ "Note ev u n d"]) simp_all

definition abides :: "crypto \<Rightarrow> ('c server \<Rightarrow> 'c server \<times> 'a http) \<Rightarrow> bool" where
  "abides k m \<longleftrightarrow> (\<forall>s. evolves k s (fst (m s)))"

lemma abidesI: "(\<And>s. evolves k s (fst (m s))) \<Longrightarrow> abides k m"
  by (simp add: abides_def)

lemma abidesD: "abides k m \<Longrightarrow> m s = (s1, r) \<Longrightarrow> evolves k s s1"
  unfolding abides_def by (metis fst_conv)

lemma abides_bindh [evolve]:
  assumes "abides k m" "\<And>a. abides k (f a)"
  shows "abides k (bindh m f)"
proof (rule abidesI)
  fix s
  obtain s1 r where m: "m s = (s1, r)" by fastforce
  have "evolves k s s1" by (rule abidesD [OF assms(1) m])
  moreover have "evolves k s1 (fst (f a s1))" for a using assms(2) unfolding abides_def by blast
  ultimately show "evolves k s (fst (bindh m f s))"
    by (cases r) (auto simp: bindh_def m intro: evolves_trans)
qed

lemma keeps_done [evolve]: "abides k m \<Longrightarrow> abides k (done_with m)"
  unfolding done_with_def by (rule abides_bindh) (simp_all add: abides_def)

lemma evolves_fields [evolve]:
  assumes "evolves k s s1"
  shows "evolves k s (s1\<lparr>sv_account := a\<rparr>)" "evolves k s (s1\<lparr>sv_path := p\<rparr>)" "evolves k s (s1\<lparr>sv_files := fs\<rparr>)"
    "evolves k s (s1\<lparr>sv_session := x\<rparr>)" "evolves k s (s1\<lparr>sv_receive := t\<rparr>)" "evolves k s (s1\<lparr>sv_report := r\<rparr>)"
    "evolves k s (s1\<lparr>sv_handover := h\<rparr>)" "evolves k s (s1\<lparr>sv_soc := so\<rparr>)" "evolves k s (s1\<lparr>sv_idle_watch := i\<rparr>)"
    "evolves k s (s1\<lparr>sv_broadcasts := b\<rparr>)" "evolves k s (s1\<lparr>sv_stopped := z\<rparr>)"
  by (rule evolves_trans [OF assms evolves_same]; simp)+

lemma evolves_logged [evolve]:
  assumes "evolves k s s1"
  shows "evolves k s (log_event k ev u n d s1)" "evolves k s (audit k q ev d s1)"
  using evolves_trans [OF assms evolves_note] by (simp_all add: log_event_def audit_def split: prod.split)

lemma resolve_call:
  "evolves k s (s\<lparr>sv_access := fst (ac_resolve k t u (sv_access s))\<rparr>)"
  by (rule evolves_call [of _ _ _ "Resolve t u"]) simp_all

lemma auth_session_evolves [evolve]: "evolves k s (fst (auth_session k q s))"
  using resolve_call [of k s] by (simp add: auth_session_def split: prod.split) (metis fst_conv)

lemma auth_session_evolvesD: "auth_session k q s = (s1, r) \<Longrightarrow> evolves k s s1"
  using auth_session_evolves [of k s q] by simp

lemma require_session_keeps [evolve]: "abides k (require_session k q)"
  by (rule abidesI) (auto simp: require_session_def dest: auth_session_evolvesD split: prod.split option.split)

lemma require_write_keeps [evolve]: "abides k (require_write k q)"
  unfolding require_write_def by (intro abides_bindh require_session_keeps abidesI) simp

text \<open>A session that was found is that of the dictionary, alive, and of the user.\<close>

lemma auth_session_found:
  assumes "auth_session k q s = (s1, Some x)"
  shows "\<exists>t. wr_cookie q = Some t \<and> map_of (ac_sessions (sv_access s1)) t = Some x \<and>
    as_user_id x = fst (remote_user (sv_settings s) q) \<and> session_alive x (ac_clock (sv_access s1)) \<and>
    sv_access s1 = fst (ac_resolve k (wr_cookie q) (fst (remote_user (sv_settings s) q)) (sv_access s)) \<and>
    s1 = s\<lparr>sv_access := sv_access s1\<rparr>"
proof -
  obtain ac where r: "ac_resolve k (wr_cookie q) (fst (remote_user (sv_settings s) q)) (sv_access s) = (ac, Some x)"
    and s1: "s1 = s\<lparr>sv_access := ac\<rparr>"
    using assms by (auto simp: auth_session_def split: prod.splits)
  obtain t where t: "wr_cookie q = Some t" "t \<noteq> []" using r by (auto simp: ac_resolve_def split: if_splits option.splits)
  then have "\<exists>y. map_of (ac_sessions (sv_access s)) t = Some y \<and> x = y\<lparr>as_last_seen := ac_clock (sv_access s)\<rparr> \<and>
      as_user_id y = fst (remote_user (sv_settings s) q) \<and>
      ac = set_session t (\<lambda>x. x\<lparr>as_last_seen := ac_clock (sv_access s)\<rparr>) (sv_access s)"
    using r by (auto simp: ac_resolve_def Let_def split: if_splits option.splits)
  then show ?thesis using t(1) r s1
    by (auto simp: session_alive_def SESSION_TTL_def)
qed

lemma with_access_keeps:
  assumes "\<And>ac. \<exists>calls. fst (f ac) = run_calls k calls ac"
  shows "abides k (with_access f st :: 'c server \<Rightarrow> _)"
proof (rule abidesI)
  fix s :: "'c server"
  obtain calls where "fst (f (sv_access s)) = run_calls k calls (sv_access s)" using assms by blast
  then show "evolves k s (fst (with_access f st s))"
    by (auto simp: with_access_def evolves_def split: prod.splits sum.splits)
qed

lemma one_call: "fst (f ac) = call_step k c ac \<Longrightarrow> \<exists>calls. fst (f ac) = run_calls k calls ac"
  by (rule exI [of _ "[c]"]) simp

lemma setup_keeps_server [evolve]: "abides k (with_access (ac_setup k salt u n pw) st)"
  by (rule with_access_keeps, rule one_call [where c = "Setup salt u n pw"]) simp

lemma login_keeps_server [evolve]: "abides k (with_access (ac_login k token u n pw) st)"
  by (rule with_access_keeps, rule one_call [where c = "Login token u n pw"]) simp

lemma auth_status_keeps [evolve]: "abides k (auth_status k q)"
  by (rule abidesI) (auto simp: auth_status_def Let_def dest: auth_session_evolvesD split: prod.split sum.split)

lemma login_evolves: "ac_login k token u n pw (sv_access s) = (ac, r) \<Longrightarrow> evolves k s (s\<lparr>sv_access := ac\<rparr>)"
  by (rule evolves_call [of _ _ _ "Login token u n pw"]) simp_all

lemma auth_setup_keeps [evolve]: "abides k (auth_setup k salt token pw q)"
proof (rule abidesI)
  fix s
  have "abides k (\<lambda>s1. case ac_login k token u n pw (sv_access s1) of
            (ac, Inl e) \<Rightarrow> (s1\<lparr>sv_access := ac\<rparr>, Crashed)
          | (ac, Inr session) \<Rightarrow> (s1\<lparr>sv_access := ac\<rparr>, Reply (Set_cookie (as_token session))))" for u n
    by (rule abidesI) (auto dest: login_evolves split: prod.split sum.split)
  then have "abides k (bindh (with_access (ac_setup k salt u n pw) (\<lambda>_. 400)) (\<lambda>_ s1.
          case ac_login k token u n pw (sv_access s1) of
            (ac, Inl e) \<Rightarrow> (s1\<lparr>sv_access := ac\<rparr>, Crashed)
          | (ac, Inr session) \<Rightarrow> (s1\<lparr>sv_access := ac\<rparr>, Reply (Set_cookie (as_token session)))))" for u n
    by (intro abides_bindh setup_keeps_server)
  then show "evolves k s (fst (auth_setup k salt token pw q s))"
    by (auto simp: auth_setup_def abides_def split: prod.split)
qed

lemma auth_login_keeps [evolve]: "abides k (auth_login k token pw q)"
proof (rule abidesI)
  fix s
  have "abides k (bindh (with_access (ac_login k token u n pw) login_status)
          (\<lambda>session s1. (s1, Reply (Set_cookie (as_token session)))))" for u n
    by (intro abides_bindh login_keeps_server abidesI) simp
  then show "evolves k s (fst (auth_login k token pw q s))"
    by (auto simp: auth_login_def abides_def split: prod.split)
qed

text \<open>A call of the session that the request was resolved to.\<close>

lemma resolved_call:
  assumes found: "auth_session k q s = (s1, Some x)"
    and call: "\<And>t ac. map_of (ac_sessions ac) t = Some x \<Longrightarrow> f ac = call_step k (c t) ac"
  shows "evolves k s (s1\<lparr>sv_access := f (sv_access s1)\<rparr>)"
proof -
  obtain t where "map_of (ac_sessions (sv_access s1)) t = Some x" using auth_session_found [OF found] by blast
  then have "evolves k s1 (s1\<lparr>sv_access := f (sv_access s1)\<rparr>)"
    by (intro evolves_call [of _ _ _ "c t"]) (simp_all add: call)
  then show ?thesis by (rule evolves_trans [OF auth_session_evolvesD [OF found]])
qed

lemma auth_step_up_keeps [evolve]: "abides k (auth_step_up k pw q)"
proof (rule abidesI)
  fix s
  have "evolves k s (s1\<lparr>sv_access := fst (ac_step_up k x pw (sv_access s1))\<rparr>)" if "auth_session k q s = (s1, Some x)" for s1 x
    by (rule resolved_call [OF that, of _ "\<lambda>t. Step_up t pw"]) (simp add: with_session_def)
  then show "evolves k s (fst (auth_step_up k pw q s))"
    by (auto simp: auth_step_up_def bindh_def require_session_def with_access_def dest: auth_session_evolvesD
        split: prod.split option.split sum.split)
qed

lemma auth_rotate_keeps [evolve]: "abides k (auth_rotate k salt cur new q)"
proof (rule abidesI)
  fix s
  have "evolves k s (s1\<lparr>sv_access := fst (ac_rotate k salt x cur new (sv_access s1))\<rparr>)" if "auth_session k q s = (s1, Some x)" for s1 x
    by (rule resolved_call [OF that, of _ "\<lambda>t. Rotate salt t cur new"]) (simp add: with_session_def)
  then show "evolves k s (fst (auth_rotate k salt cur new q s))"
    by (auto simp: auth_rotate_def bindh_def require_session_def with_access_def dest: auth_session_evolvesD
        split: prod.split option.split sum.split)
qed

lemma auth_logout_keeps [evolve]: "abides k (auth_logout k q)"
proof (rule abidesI)
  fix s
  have "evolves k s (s1\<lparr>sv_access := ac_logout k x (sv_access s1)\<rparr>)" if "auth_session k q s = (s1, Some x)" for s1 x
    by (rule resolved_call [OF that, of _ "\<lambda>t. Logout t"]) (simp add: with_session_def)
  then show "evolves k s (fst (auth_logout k q s))"
    by (auto simp: auth_logout_def dest: auth_session_evolvesD split: prod.split option.split)
qed

text \<open>The account.\<close>

lemma find_spec_keeps [evolve]: "abides k (find_spec t)"
  by (rule abidesI) (simp add: find_spec_def split: option.split)

lemma the_record_keeps [evolve]: "abides k (the_record t n)"
  by (rule abidesI) (auto simp: the_record_def intro: evolve split: prod.split sum.split)

lemma encoded_keeps [evolve]: "abides k (encoded spec r)"
  by (rule abidesI) (simp add: encoded_def split: sum.split)

lemma get_record_keeps [evolve]: "abides k (get_record t n)"
  unfolding get_record_def by (intro evolve abidesI) simp

lemma put_record_keeps [evolve]: "abides k (put_record t n body)"
proof -
  have "abides k ((\<lambda>s. case put_fields fs body r of
         (r1, Some e) \<Rightarrow> (set_record t n r1 s, Crashed)
       | (r1, None) \<Rightarrow> get_record t n (set_record t n r1 s)) :: 'a server \<Rightarrow> _)" for fs r
  proof (rule abidesI)
    fix s :: "'a server"
    have set: "evolves k s (set_record t n r1 s)" for r1 by (simp add: set_record_def Let_def evolve)
    have "evolves k s (fst (get_record t n (set_record t n r1 s)))" for r1
      using get_record_keeps [of k t n] by (auto simp: abides_def intro: evolves_trans [OF set])
    then show "evolves k s (fst (case put_fields fs body r of
         (r1, Some e) \<Rightarrow> (set_record t n r1 s, Crashed)
       | (r1, None) \<Rightarrow> get_record t n (set_record t n r1 s)))"
      using set by (simp split: prod.split option.split)
  qed
  then show ?thesis unfolding put_record_def by (intro evolve)
qed

lemma account_keeps [evolve]:
  "abides k (new_account_request k name q)" "abides k (open_account k name q)" "abides k (save_account k path q)"
  "abides k (update_account name notes conn)" "abides k (list_records t)" "abides k (delete_record t n)"
  "abides k (import_mdb k src i q)"
proof -
  show "abides k (list_records t)" unfolding list_records_def Let_def by (intro evolve abidesI) simp
qed (auto simp: new_account_request_def open_account_def save_account_def update_account_def delete_record_def
    import_mdb_def Let_def intro!: abidesI evolve split: option.split sum.split list.split)

text \<open>Home Assistant.\<close>

lemma ask_service_evolvesD: "ask_service w sv p s = (s1, r) \<Longrightarrow> evolves k s s1"
  by (auto simp: ask_service_def intro: evolve split: prod.splits)

lemma hass_keeps [evolve]:
  assumes "k = wd_crypto w"
  shows "abides k (claim_session w u n p)" "abides k (end_claim w u n)" "abides k (restore_integration w u n)"
  unfolding assms
  by (auto simp: claim_session_def end_claim_def restore_integration_def dest: ask_service_evolvesD
      intro!: abidesI evolve split: prod.split hass_outcome.split sum.split list.split)

lemma hand_back_keeps [evolve]: "k = wd_crypto w \<Longrightarrow> abides k (hand_back w u n)"
  unfolding hand_back_def by (intro evolve)

lemma release_keeps [evolve]:
  assumes k: "k = wd_crypto w"
  shows "abides k (release_integration w u n)"
proof -
  have "abides k (bindh (end_claim w u n) (\<lambda>_ s1. (s1, Refused 502 t)) :: 'a server \<Rightarrow> _)" for t
    by (intro abides_bindh hass_keeps k abidesI) simp
  then have "evolves k s1 (fst (bindh (end_claim w u n) (\<lambda>_ s1. (s1, Refused 502 t)) s1))" for t and s1 :: "'a server"
    unfolding abides_def by blast
  then have refused: "evolves k s (fst (bindh (end_claim w u n) (\<lambda>_ s1. (s1, Refused 502 t)) s1))"
    if "evolves k s s1" for t and s s1 :: "'a server"
    using evolves_trans [OF that] by blast
  show ?thesis
    by (auto simp: release_integration_def k [symmetric] intro!: abidesI evolve refused split: prod.split hass_outcome.split)
qed

text \<open>The panel.\<close>

lemma observe_evolves [evolve]: "evolves k s s1 \<Longrightarrow> writes_only harmless x x1 \<Longrightarrow> evolves k s (observe x x1 s1)"
  unfolding evolves_def writes_only_def observe_def
  by (elim conjE exE) (auto simp: list_all_iff)

lemma on_session_evolves:
  assumes "writes_only harmless x (fst (f x))"
  shows "evolves k s (fst (on_session f x s))"
  using assms by (auto simp: on_session_def intro!: evolve split: prod.split)

lemma on_session_evolvesD:
  "on_session f x s = (s1, r) \<Longrightarrow> writes_only harmless x (fst (f x)) \<Longrightarrow> evolves k s s1"
  using on_session_evolves [of x f k s] by simp

lemma close_session_keeps [evolve]: "abides k close_session"
  by (rule abidesI)
    (auto simp: close_session_def intro!: evolve dest: on_session_evolvesD [OF _ session_writes(5)]
      split: option.split prod.split)

lemma the_session_keeps [evolve]: "abides k the_session"
  by (rule abidesI) (simp add: the_session_def split: option.split)

lemma spec_and_wire_keeps [evolve]: "abides k (spec_and_wire t)"
  by (rule abidesI) (simp add: spec_and_wire_def split: option.split sum.split)

lemma write_request_keeps [evolve]: "abides k (write_request wm n payload)"
  by (rule abidesI) (simp add: write_request_def split: sum.split)

lemma abides_evolves: "abides k m \<Longrightarrow> evolves k s s1 \<Longrightarrow> evolves k s (fst (m s1))"
  unfolding abides_def by (blast intro: evolves_trans)

lemma connect_login_keeps [evolve]:
  assumes k: "k = wd_crypto w"
  shows "abides k (connect_login w body q l)"
proof (rule abidesI)
  fix s :: "'a server"
  let ?x = "session_open l"
  have start: "evolves k s (observe ?x (fst (session_login (cq_code body) ?x)) s)"
    by (intro evolve session_writes)
  have end_session: "evolves k s (fst (bindh (hand_back w u n) (\<lambda>_ s2. (audit k q ev (d s2) s2, Refused 400 t :: login_reply http)) s1))"
    if "evolves k s s1" for u n ev d t and s1 :: "'a server"
  proof (rule abides_evolves [OF abides_bindh that])
    show "abides k (hand_back w u n)" by (rule hand_back_keeps [OF k])
  qed (intro abidesI, simp add: evolve)
  obtain x1 r where r: "session_login (cq_code body) ?x = (x1, r)" by fastforce
  obtain u n where u: "remote_user (sv_settings s) q = (u, n)" by fastforce
  have obs: "evolves k s (observe ?x x1 s)" using start r by simp
  show "evolves k s (fst (connect_login w body q l s))"
  proof (cases r)
    case (Inl e)
    then show ?thesis using obs end_session [OF obs] by (simp add: connect_login_def r u k [symmetric] Let_def)
  next
    case (Inr info)
    then show ?thesis using obs by (simp add: connect_login_def r u k [symmetric] evolve Let_def)
  qed
qed

lemma connect_run_keeps [evolve]:
  assumes k: "k = wd_crypto w"
  shows "abides k (connect_run w body q)"
proof (rule abidesI)
  fix s :: "'a server"
  have opened: "abides k ((\<lambda>s1. case wd_open w (port_of (sv_settings s1) body) of
          Open_raises e \<Rightarrow> (s1, Crashed)
        | Not_opened \<Rightarrow>
            bindh (hand_back w u n)
              (\<lambda>_ s2. (s2, Refused 400 ''could not open the connection to the panel'')) s1
        | Opened l \<Rightarrow> connect_login w body q l s1) :: 'a server \<Rightarrow> _)" for u n
  proof (rule abidesI)
    fix s1 :: "'a server"
    have "evolves k s1 (fst (bindh (hand_back w u n) (\<lambda>_ s2. (s2, Refused 400 t :: login_reply http)) s1))" for t
      by (rule abides_evolves [OF abides_bindh evolves_refl]) (intro hand_back_keeps k abidesI; simp)+
    moreover have "evolves k s1 (fst (connect_login w body q l s1))" for l
      using connect_login_keeps [OF k] unfolding abides_def by blast
    ultimately show "evolves k s1 (fst (case wd_open w (port_of (sv_settings s1) body) of
          Open_raises e \<Rightarrow> (s1, Crashed)
        | Not_opened \<Rightarrow>
            bindh (hand_back w u n)
              (\<lambda>_ s2. (s2, Refused 400 ''could not open the connection to the panel'')) s1
        | Opened l \<Rightarrow> connect_login w body q l s1))"
      by (simp split: port_result.split)
  qed
  show "evolves k s (fst (connect_run w body q s))"
    unfolding connect_run_def Let_def prod.case_eq_if
    by (rule abides_evolves [OF abides_bindh evolves_refl])
      (intro hass_keeps abides_bindh release_keeps opened k)+
qed

lemma panel_connect_keeps [evolve]: "k = wd_crypto w \<Longrightarrow> abides k (panel_connect w body q)"
  unfolding panel_connect_def
  by (intro abides_bindh) (auto intro!: evolve abidesI abides_evolves [OF connect_run_keeps])

lemma panel_disconnect_keeps [evolve]:
  assumes k: "k = wd_crypto w"
  shows "abides k (panel_disconnect w q)"
proof (rule abidesI)
  fix s :: "'a server"
  have "abides k ((\<lambda>s1. hand_back w u n (if c then audit k q ev [] s1 else s1)) :: 'a server \<Rightarrow> _)" for u n c ev
    by (rule abidesI, rule abides_evolves [OF hand_back_keeps [OF k]]) (simp add: evolve)
  then show "evolves k s (fst (panel_disconnect w q s))"
    unfolding panel_disconnect_def Let_def prod.case_eq_if k [symmetric]
    by (intro abides_evolves [OF abides_bindh evolves_refl] close_session_keeps)
qed

lemma panel_read_keeps [evolve]:
  assumes k: "k = wd_crypto w"
  shows "abides k (panel_read w t n q)"
proof -
  have tail: "abides k ((\<lambda>s. (audit k q ev (d s) s, r s)) :: 'a server \<Rightarrow> 'a server \<times> read_reply http)" for ev d r
    by (rule abidesI) (simp add: evolve)
  have "abides k ((\<lambda>s. case on_session (session_read_record oc i len sub) x s of
         (s1, Inl e) \<Rightarrow> (s1, panel_failure e)
       | (s1, Inr raw) \<Rightarrow>
           (case decode_record spec raw of
              Inl e \<Rightarrow> (s1, Crashed)
            | Inr r \<Rightarrow>
                bindh (the_record t n) (\<lambda>mine s2. (audit k q ev (d raw r mine s2) s2, a raw r mine s2)) s1))
          :: 'a server \<Rightarrow> 'a server \<times> read_reply http)" for oc i len sub x spec ev d a
  proof (rule abidesI)
    fix s :: "'a server"
    obtain s1 r where r: "on_session (session_read_record oc i len sub) x s = (s1, r)" by fastforce
    have s1: "evolves k s s1" by (rule on_session_evolvesD [OF r session_writes(1)])
    have "evolves k s (fst (bindh (the_record t n) (\<lambda>mine s2. (audit k q ev (d raw r mine s2) s2, a raw r mine s2)) s1))" for raw r
      by (rule abides_evolves [OF abides_bindh s1]) (rule the_record_keeps tail)+
    then show "evolves k s (fst (case on_session (session_read_record oc i len sub) x s of
         (s1, Inl e) \<Rightarrow> (s1, panel_failure e)
       | (s1, Inr raw) \<Rightarrow>
           (case decode_record spec raw of
              Inl e \<Rightarrow> (s1, Crashed)
            | Inr r \<Rightarrow>
                bindh (the_record t n) (\<lambda>mine s2. (audit k q ev (d raw r mine s2) s2, a raw r mine s2)) s1)))"
      using s1 by (simp add: r split: sum.split)
  qed
  then show ?thesis
    unfolding panel_read_def Let_def k [symmetric]
    by (intro abides_bindh require_session_keeps the_session_keeps spec_and_wire_keeps) (simp add: split_beta)
qed

lemma verify_record_writes: "writes_only harmless x (fst (verify_record t n x a))"
proof -
  have "writes_only harmless x x1" if "session_record_crc oc i x = (x1, r)" for oc i x1 r
    using session_writes(2) [of x oc i] that by simp
  then show ?thesis by (auto simp: verify_record_def split: prod.split sum.split option.split)
qed

lemma panel_verify_keeps [evolve]:
  assumes k: "k = wd_crypto w"
  shows "abides k (panel_verify w t n q)"
proof -
  have "abides k ((\<lambda>s. if map_of WIRE t = None then (s, Refused 400 why)
       else case verify_record t n x (sv_account s) of
              (x1, a, r) \<Rightarrow>
                (let s1 = (observe x x1 s)\<lparr>sv_session := Some x1, sv_account := a\<rparr> in
                 case r of
                   Inl e \<Rightarrow> (s1, panel_failure e)
                 | Inr (panel_crc, local_crc) \<Rightarrow> (audit k q ev (d panel_crc local_crc) s1, Reply (y panel_crc local_crc))))
       :: 'a server \<Rightarrow> 'a server \<times> (string \<times> string \<times> bool) http)" for x why ev d y
  proof (rule abidesI)
    fix s :: "'a server"
    obtain x1 a r where v: "verify_record t n x (sv_account s) = (x1, a, r)" by (rule prod_cases3)
    have "writes_only harmless x x1" using verify_record_writes [of x t n "sv_account s"] v by simp
    then show "evolves k s (fst (if map_of WIRE t = None then (s, Refused 400 why)
       else case verify_record t n x (sv_account s) of
              (x1, a, r) \<Rightarrow>
                (let s1 = (observe x x1 s)\<lparr>sv_session := Some x1, sv_account := a\<rparr> in
                 case r of
                   Inl e \<Rightarrow> (s1, panel_failure e)
                 | Inr (panel_crc, local_crc) \<Rightarrow> (audit k q ev (d panel_crc local_crc) s1, Reply (y panel_crc local_crc)))))"
      by (simp add: v Let_def evolve split: sum.split prod.split)
  qed
  then show ?thesis
    unfolding panel_verify_def k [symmetric]
    by (intro abides_bindh require_session_keeps the_session_keeps)
qed

lemma panel_receive_keeps [evolve]:
  assumes k: "k = wd_crypto w"
  shows "abides k (panel_receive w ts q)"
  unfolding panel_receive_def k [symmetric]
  by (intro abides_bindh require_session_keeps the_session_keeps abidesI)
    (auto simp: Let_def intro!: evolve split: list.split prod.split)

lemma receive_run_evolves [evolve]: "evolves k s (receive_run k s)"
proof (cases "sv_receive s")
  case (Some job)
  obtain u n ts where job: "job = (u, n, ts)" by (rule prod_cases3)
  show ?thesis
  proof (cases "sv_session s")
    case None
    then show ?thesis using Some job by (simp add: receive_run_def evolve)
  next
    case (Some x)
    obtain st f where r: "receive_all ts [] x (sv_account s) = (st, f)" by fastforce
    have "writes_only harmless x (rc_session st)"
      using receive_tables_writes [of "\<lparr>rc_session = x, rc_account = sv_account s, rc_report = empty_report\<rparr>" "[]" ts] r
      by (simp add: receive_all_def)
    then show ?thesis using Some \<open>sv_receive s = Some job\<close>
      by (simp add: receive_run_def job r Let_def evolve split: flow.split)
  qed
qed (simp add: receive_run_def)

lemma keepalive_evolves [evolve]: "evolves k s (keepalive_step s)"
  using session_writes(4) by (auto simp: keepalive_step_def on_session_def intro!: evolve split: option.split)

lemma idle_watch_evolves [evolve]:
  assumes k: "k = wd_crypto w"
  shows "evolves k s (idle_watch w s)"
proof -
  let ?finish = "bindh close_session (\<lambda>_. hand_back w [] [])"
  have "abides k ?finish" by (intro abides_bindh close_session_keeps hand_back_keeps k)
  then have ends: "evolves k s s2" if "?finish s1 = (s2, r)" "evolves k s s1" for s1 s2 r
    using abides_evolves [OF _ that(2), of ?finish] that(1) by simp
  show ?thesis
    unfolding idle_watch_def Let_def k [symmetric]
    by (auto intro!: evolve dest!: ends split: prod.split http.split)
qed

lemma other_requests_keep [evolve]:
  "abides k (explain t f v)" "abides k (audit_forwarding k q)" "abides k (audit_tail k n q)" "abides k (index_page q)"
proof -
  show "abides k (explain t f v)" by (rule abidesI) (simp add: explain_def split: option.split list.split)
  show "abides k (index_page q)" by (rule abidesI) (simp add: index_page_def)
  show "abides k (audit_forwarding k q)"
    unfolding audit_forwarding_def by (intro abides_bindh require_session_keeps abidesI) simp
  show "abides k (audit_tail k n q)"
    unfolding audit_tail_def by (intro abides_bindh require_session_keeps abidesI) (simp add: Let_def)
qed

lemma ws_trace_evolves [evolve]: "evolves k s (fst (ws_trace k q s))"
  using resolve_call [of k s] by (simp add: ws_trace_def split: prod.split) (metis fst_conv)

section \<open>The write request\<close>

text \<open>What every step does to the settings and the access control.\<close>

definition follows :: "crypto \<Rightarrow> 'c server \<Rightarrow> 'c server \<Rightarrow> bool" where
  "follows k s s1 \<longleftrightarrow> sv_settings s1 = sv_settings s \<and> (\<exists>calls. sv_access s1 = run_calls k calls (sv_access s))"

lemma evolves_follows: "evolves k s s1 \<Longrightarrow> follows k s s1"
  by (simp add: evolves_def follows_def)

lemma follows_trans [trans]: "follows k s s1 \<Longrightarrow> follows k s1 s2 \<Longrightarrow> follows k s s2"
  unfolding follows_def by (elim conjE exE) (auto simp flip: run_calls_simps(3) simp: run_calls_simps(1) intro: exI)

lemma bindh_cases:
  obtains "fst (bindh m f s) = fst (m s)"
  | a s1 where "m s = (s1, Reply a)" "bindh m f s = f a s1"
proof -
  obtain s1 r where m: "m s = (s1, r)" by fastforce
  show thesis using that by (cases r) (simp_all add: bindh_def m)
qed

definition write_tail ::
    "'c world \<Rightarrow> string \<Rightarrow> int \<Rightarrow> web_request \<Rightarrow> byte list \<Rightarrow> session \<Rightarrow> 'c server \<Rightarrow> 'c server \<times> write_reply http" where
  "write_tail w t n q frame x s =
     (case send_to_panel t n x s of
        (s1, Inl e) \<Rightarrow>
          if is_session_error e
          then (audit (wd_crypto w) q ''record_send_failed''
                  [(''table'', Js_str t), (''number'', Js_int n), (''error'', Js_str (error_text e))] s1,
                Refused 502 (error_text e))
          else (s1, Crashed)
      | (s1, Inr reply) \<Rightarrow>
          (audit (wd_crypto w) q ''record_sent''
             [(''table'', Js_str t), (''number'', Js_int n), (''frame'', Js_str (hex_spaced frame)),
              (''reply'', Js_str (hex_spaced reply))] s1,
           Reply (Written frame reply)))"

definition write_part ::
    "'c world \<Rightarrow> string \<Rightarrow> int \<Rightarrow> bool \<Rightarrow> web_request \<Rightarrow> request \<times> byte list \<Rightarrow> 'c server \<Rightarrow> 'c server \<times> write_reply http" where
  "write_part w t n dry q = (\<lambda>(rq, frame).
     if dry then bindh (require_session (wd_crypto w) q) (\<lambda>_ s. (s, Reply (Dry_run (rq_body rq) frame)))
     else bindh (require_write (wd_crypto w) q) (\<lambda>_. bindh the_session (write_tail w t n q frame)))"

lemma panel_write_parts:
  "panel_write w t n dry q =
     bindh (spec_and_wire t) (\<lambda>(spec, wm). bindh (the_record t n) (\<lambda>r. bindh (encoded spec r) (\<lambda>payload.
     bindh (write_request wm n payload) (write_part w t n dry q))))"
  unfolding panel_write_def write_part_def write_tail_def by (rule refl)

lemma write_tail_follows: "follows (wd_crypto w) s (fst (write_tail w t n q frame x s))"
proof -
  obtain s1 r where send: "send_to_panel t n x s = (s1, r)" by fastforce
  then have "sv_settings s1 = sv_settings s" "sv_access s1 = sv_access s"
    by (auto simp: send_to_panel_def observe_def split: prod.splits)
  then have s1: "follows (wd_crypto w) s s1" by (auto simp: follows_def intro: exI [of _ "[]"])
  have "follows (wd_crypto w) s (audit (wd_crypto w) q ev d s1)" for ev d
    by (rule follows_trans [OF s1 evolves_follows]) (rule evolves_logged evolves_refl)+
  then show ?thesis using s1 by (simp add: write_tail_def send split: sum.split)
qed

text \<open>The state in which the permission was given, and what came before it.\<close>

definition permitted :: "crypto \<Rightarrow> web_request \<Rightarrow> 'c server \<Rightarrow> 'c server \<Rightarrow> bool" where
  "permitted k q s s1 \<longleftrightarrow>
     (\<exists>s0 y. evolves k s s0 \<and> require_write k q s0 = (s1, Reply y) \<and> evolves k s0 s1)"

lemma write_part_cases:
  "evolves (wd_crypto w) s (fst (write_part w t n dry q rf s)) \<or>
   (\<not> dry \<and> (\<exists>s1. permitted (wd_crypto w) q s s1 \<and> follows (wd_crypto w) s1 (fst (write_part w t n dry q rf s))))"
proof (cases dry)
  case True
  obtain rq frame where rf: "rf = (rq, frame)" by fastforce
  have "write_part w t n dry q rf = bindh (require_session (wd_crypto w) q) (\<lambda>_ s. (s, Reply (Dry_run (rq_body rq) frame)))"
    using True by (simp add: write_part_def rf)
  moreover have "abides (wd_crypto w) (bindh (require_session (wd_crypto w) q) (\<lambda>_ s. (s, Reply (Dry_run (rq_body rq) frame))))"
    by (intro abides_bindh require_session_keeps abidesI) simp
  ultimately have "abides (wd_crypto w) (write_part w t n dry q rf)" by simp
  then show ?thesis by (simp add: abides_def)
next
  case False
  obtain rq frame where rf: "rf = (rq, frame)" by fastforce
  let ?m = "require_write (wd_crypto w) q :: 'a server \<Rightarrow> _" and ?f = "\<lambda>_ :: app_session. bindh the_session (write_tail w t n q frame)"
  have part: "write_part w t n dry q rf s = bindh ?m ?f s" by (simp add: write_part_def rf False)
  show ?thesis
  proof (rule bindh_cases [of ?m ?f s])
    assume "fst (bindh ?m ?f s) = fst (?m s)"
    moreover have "abides (wd_crypto w) ?m" by (rule require_write_keeps)
    ultimately show ?thesis unfolding part abides_def by simp
  next
    fix y s1
    assume m: "?m s = (s1, Reply y)" and r: "bindh ?m ?f s = ?f y s1"
    have "evolves (wd_crypto w) s s1" by (rule abidesD [OF require_write_keeps m])
    then have "permitted (wd_crypto w) q s s1" using m unfolding permitted_def by (intro exI [of _ s] exI [of _ y]) simp
    moreover have "follows (wd_crypto w) s1 (fst (?f y s1))"
      by (cases "sv_session s1") (simp_all add: bindh_def the_session_def write_tail_follows evolves_follows)
    ultimately show ?thesis using False r part by auto
  qed
qed

lemma permitted_after: "evolves k s s0 \<Longrightarrow> permitted k q s0 s1 \<Longrightarrow> permitted k q s s1"
  unfolding permitted_def by (blast intro: evolves_trans)

lemma after_bindh:
  assumes "abides k m"
    and "\<And>a s0. evolves k s0 (fst (f a s0)) \<or> (\<not> dry \<and> (\<exists>s1. permitted k q s0 s1 \<and> follows k s1 (fst (f a s0))))"
  shows "evolves k s (fst (bindh m f s)) \<or> (\<not> dry \<and> (\<exists>s1. permitted k q s s1 \<and> follows k s1 (fst (bindh m f s))))"
proof (rule bindh_cases [of m f s])
  assume "fst (bindh m f s) = fst (m s)"
  then show ?thesis using assms(1) by (simp add: abides_def)
next
  fix a s0
  assume m: "m s = (s0, Reply a)" and b: "bindh m f s = f a s0"
  have "evolves k s s0" by (rule abidesD [OF assms(1) m])
  then show ?thesis using assms(2) [of s0 a] evolves_trans permitted_after unfolding b by blast
qed

lemma panel_write_cases:
  "evolves (wd_crypto w) s (fst (panel_write w t n dry q s)) \<or>
   (\<not> dry \<and> (\<exists>s1. permitted (wd_crypto w) q s s1 \<and> follows (wd_crypto w) s1 (fst (panel_write w t n dry q s))))"
  unfolding panel_write_parts split_beta
  by (intro after_bindh spec_and_wire_keeps the_record_keeps encoded_keeps write_request_keeps write_part_cases)

section \<open>Every step\<close>

lemma handler_keeps:
  assumes "\<And>t n. e \<noteq> E_write t n False"
  shows "abides (wd_crypto w) (handler w q e)"
proof (cases e)
  case (E_write t n dry)
  then have "abides (wd_crypto w) (panel_write w t n dry q)"
    using assms [of t n] panel_write_cases [of w _ t n dry q] by (auto simp: abides_def)
  then show ?thesis unfolding E_write by (simp add: keeps_done)
qed (auto intro!: evolve, (simp add: abides_def)+)

lemma gate_cases:
  fixes s :: "'c server"
  obtains "evolves k s (fst (access_gate k q f s))"
  | s1 where "evolves k s s1" "access_gate k q f s = f s1"
      "app_mode (sv_settings s) \<Longrightarrow> user_allowed (wr_user q) (sv_access s)"
proof -
  obtain s1 r where a: "auth_session k q s = (s1, r)" by fastforce
  have s1: "evolves k s s1" by (rule auth_session_evolvesD [OF a])
  show thesis
  proof (cases "app_mode (sv_settings s)")
    case False
    then show thesis using that(2) [of s] by (simp add: access_gate_def)
  next
    case True
    show thesis
    proof (cases "user_allowed (wr_user q) (sv_access s)")
      case False
      then show thesis using that(1) True by (simp add: access_gate_def remote_user_def evolve)
    next
      case allowed: True
      have "access_gate k q f s = f s \<or> access_gate k q f s = f s1 \<or> fst (access_gate k q f s) = s1"
        using True allowed a by (auto simp: access_gate_def remote_user_def split: option.split)
      then show thesis
      proof (elim disjE)
        assume "access_gate k q f s = f s"
        then show thesis by (rule that(2) [OF evolves_refl]) (rule allowed)
      next
        assume "access_gate k q f s = f s1"
        then show thesis by (rule that(2) [OF s1]) (rule allowed)
      next
        assume "fst (access_gate k q f s) = s1"
        then show thesis using that(1) s1 by simp
      qed
    qed
  qed
qed

lemma done_with_fst [simp]: "fst (done_with m s) = fst (m s)"
  by (simp add: done_with_def bindh_def split: prod.split http.split)

definition the_write :: "crypto \<Rightarrow> service_step \<Rightarrow> 'c server \<Rightarrow> 'c server \<Rightarrow> bool" where
  "the_write k e s s1 \<longleftrightarrow>
     (\<exists>q t n. e = Request q (E_write t n False) \<and> permitted k (q\<lparr>wr_path := ''/api/panel/write''\<rparr>) s s1 \<and>
        (app_mode (sv_settings s) \<longrightarrow> user_allowed (wr_user q) (sv_access s)))"

lemma serve_cases:
  "evolves (wd_crypto w) s (fst (serve w q e s)) \<or>
   (\<exists>s1. the_write (wd_crypto w) (Request q e) s s1 \<and> follows (wd_crypto w) s1 (fst (serve w q e s)))"
proof -
  let ?q = "q\<lparr>wr_path := endpoint_path e\<rparr>"
  show ?thesis
  proof (rule gate_cases [of "wd_crypto w" s ?q "handler w ?q e"])
    assume "evolves (wd_crypto w) s (fst (access_gate (wd_crypto w) ?q (handler w ?q e) s))"
    then show ?thesis by (simp add: serve_def Let_def)
  next
    fix s0
    assume s0: "evolves (wd_crypto w) s s0" and run: "access_gate (wd_crypto w) ?q (handler w ?q e) s = handler w ?q e s0"
      and allowed: "app_mode (sv_settings s) \<Longrightarrow> user_allowed (wr_user ?q) (sv_access s)"
    have serve: "serve w q e s = handler w ?q e s0" using run by (simp add: serve_def Let_def)
    show ?thesis
    proof (cases "\<exists>t n. e = E_write t n False")
      case False
      then have "abides (wd_crypto w) (handler w ?q e)" by (intro handler_keeps) blast
      then show ?thesis unfolding serve using abides_evolves [OF _ s0] by blast
    next
      case True
      then obtain t n where e: "e = E_write t n False" by blast
      have "evolves (wd_crypto w) s0 (fst (panel_write w t n False ?q s0)) \<or>
        (\<exists>s1. permitted (wd_crypto w) ?q s0 s1 \<and> follows (wd_crypto w) s1 (fst (panel_write w t n False ?q s0)))"
        using panel_write_cases [of w s0 t n False ?q] by blast
      then show ?thesis
      proof
        assume "evolves (wd_crypto w) s0 (fst (panel_write w t n False ?q s0))"
        then have "evolves (wd_crypto w) s (fst (panel_write w t n False ?q s0))" by (rule evolves_trans [OF s0])
        then show ?thesis unfolding serve by (simp add: e)
      next
        assume "\<exists>s1. permitted (wd_crypto w) ?q s0 s1 \<and> follows (wd_crypto w) s1 (fst (panel_write w t n False ?q s0))"
        then obtain s1 where s1: "permitted (wd_crypto w) ?q s s1" "follows (wd_crypto w) s1 (fst (panel_write w t n False ?q s0))"
          using permitted_after [OF s0] by blast
        then have "the_write (wd_crypto w) (Request q e) s s1" using allowed by (auto simp: the_write_def e)
        then show ?thesis using s1(2) unfolding serve by (auto simp: e)
      qed
    qed
  qed
qed

lemma step_cases:
  "evolves (wd_crypto w) s (do_step w e s) \<or>
   (\<exists>s1. the_write (wd_crypto w) e s s1 \<and> follows (wd_crypto w) s1 (do_step w e s))"
proof (cases e)
  case (Request q r)
  then show ?thesis using serve_cases [of w s q r] by simp
next
  case (Passes d)
  have "evolves (wd_crypto w) s (upd_access (time_sleep (int d)) s)"
    by (rule evolves_call [of _ _ _ "Wait d"]) simp_all
  then show ?thesis by (simp add: Passes)
qed (simp_all add: evolve)

lemma write_follows: "the_write k e s s1 \<Longrightarrow> follows k s s1"
  by (auto simp: the_write_def permitted_def intro: evolves_follows evolves_trans)

lemma run_follows: "follows (wd_crypto w) s (run_service w steps s)"
  unfolding run_service_def
proof (induction steps arbitrary: s)
  case (Cons e steps)
  have "follows (wd_crypto w) s (do_step w e s)"
    using step_cases [of w s e] evolves_follows write_follows follows_trans by blast
  then show ?case using Cons.IH [of "do_step w e s"] by (simp add: follows_trans)
qed (simp add: evolves_follows)

lemma run_settings: "sv_settings (run_service w steps s) = sv_settings s"
  using run_follows [of w s steps] by (simp add: follows_def)

text \<open>A permission in app mode, in terms of the calls since the start.\<close>

lemma permitted_earned:
  assumes "permitted k q s s1" and "app_mode (sv_settings s)" and "follows k s0 s" and "ac_sessions (sv_access s0) = []"
    and "0 \<le> ac_clock (sv_access s0)"
  shows "\<not> st_read_only (sv_settings s) \<and>
    (\<exists>t calls time. wr_cookie q = Some t \<and> sv_access s1 = run_calls k calls (sv_access s0) \<and>
       logged_in_by k (sv_access s0) calls t (wr_user q) \<and> stepped_up_at k (sv_access s0) calls t time \<and>
       ac_clock (sv_access s1) < time + seconds STEP_UP_TTL)"
proof -
  obtain s' y where s': "evolves k s s'" and rw: "require_write k q s' = (s1, Reply y)" and s1: "evolves k s' s1"
    using assms(1) unfolding permitted_def by blast
  have set: "sv_settings s' = sv_settings s" "sv_settings s1 = sv_settings s" using s' s1 by (simp_all add: evolves_def)
  have "follows k s s'" "follows k s' s1" using s' s1 by (simp_all add: evolves_follows)
  then obtain calls where calls: "sv_access s1 = run_calls k calls (sv_access s0)"
    using follows_trans [OF follows_trans [OF assms(3)]] unfolding follows_def by blast
  have found: "auth_session k q s' = (s1, Some y)" and rights: "\<not> st_read_only (sv_settings s)"
    "session_can_write y (ac_clock (sv_access s1))"
    using rw assms(2) set by (auto simp: require_write_def bindh_def require_session_def split: prod.splits http.splits option.splits if_splits)
  obtain t where t: "wr_cookie q = Some t" "map_of (ac_sessions (sv_access s1)) t = Some y" "as_user_id y = wr_user q"
    using auth_session_found [OF found] assms(2) set by (auto simp: remote_user_def)
  have earned: "session_earned k (sv_access s0) calls t y"
    by (rule sessions_earned [OF assms(4)]) (use t(2) calls in simp)
  have "0 \<le> ac_clock (sv_access s1)" using run_clock [of "sv_access s0" k calls] assms(5) calls by simp
  then obtain time where "stepped_up_at k (sv_access s0) calls t time" "ac_clock (sv_access s1) < time + seconds STEP_UP_TTL"
    using earned rights(2) unfolding session_earned_def session_can_write_def by force
  then show ?thesis using rights(1) t(1,3) calls earned unfolding session_earned_def by auto
qed

section \<open>The frame of a write\<close>

lemma bindh_Reply:
  "bindh m f s = (s2, Reply b) \<longleftrightarrow> (\<exists>a s1. m s = (s1, Reply a) \<and> f a s1 = (s2, Reply b))"
  by (auto simp: bindh_def split: prod.split http.split)

lemma account_record_again:
  assumes "account_record t n a = (a1, Inr r)"
  shows "\<exists>a2. account_record t n a1 = (a2, Inr r)"
  using assms
  by (auto simp: account_record_def Let_def lookup_or_def update_conv split: option.splits if_splits)

text \<open>The permission does not depend on the account, and giving it leaves the account and the session alone.\<close>

lemma require_write_account:
  assumes "require_write k q s = (s1, Reply y)"
  shows "require_write k q (s\<lparr>sv_account := a\<rparr>) = (s1\<lparr>sv_account := a\<rparr>, Reply y)"
    and "sv_account s1 = sv_account s" "sv_session s1 = sv_session s" "sv_wire s1 = sv_wire s"
  using assms
  by (auto simp: require_write_def require_session_def auth_session_def bindh_def
      split: prod.splits http.splits option.splits if_splits)

text \<open>The parts of a write request that is accepted.\<close>

definition write_ready ::
    "string \<Rightarrow> int \<Rightarrow> account \<Rightarrow> account \<Rightarrow> record_spec \<Rightarrow> wire_map \<Rightarrow> byte list \<Rightarrow> request \<Rightarrow> byte list \<Rightarrow> bool" where
  "write_ready t n a a1 spec wm payload rq frame \<longleftrightarrow>
     spec_by_name t = Some spec \<and> map_of WIRE t = Some wm \<and>
     (\<exists>r. account_record t n a = (a1, Inr r) \<and> encode_record spec r = Inr payload) \<and>
     write_record (wm_record wm) (wire_item wm n) payload (wm_sub wm) = Inr rq \<and>
     encode_frame (rq_body rq) = Inr frame"

lemma write_ready_run:
  assumes "write_ready t n (sv_account s) a1 spec wm payload rq frame"
  shows "panel_write w t n dry q s = write_part w t n dry q (rq, frame) (s\<lparr>sv_account := a1\<rparr>)"
  using assms unfolding panel_write_parts
  by (auto simp: write_ready_def bindh_def spec_and_wire_def wire_for_def the_record_def encoded_def write_request_def)

lemma write_ready_cases:
  assumes "panel_write w t n dry q s = (s1, Reply y)"
  obtains a1 spec wm payload rq frame where "write_ready t n (sv_account s) a1 spec wm payload rq frame"
  using assms unfolding panel_write_parts bindh_Reply split_beta
  by (elim exE conjE)
    (auto simp: write_ready_def spec_and_wire_def wire_for_def the_record_def encoded_def write_request_def
      split: option.splits sum.splits prod.splits intro: that)

lemma write_record_request:
  assumes "write_record oc n payload sub = Inr rq"
  shows "rq_attempts rq = 4" "uint (hd (rq_body rq)) \<ge> 0x80"
proof -
  obtain h where h: "header (opcode_value oc OR WRITE_BIT) sub n = Inr h"
    and rq: "rq = request (h @ payload) (opcode_value oc OR WRITE_BIT) (''write '' @ opcode_name oc @ '' '' @ int_text n)"
    using assms by (auto simp: write_record_def Let_def bindr_eq_Inr)
  show "rq_attempts rq = 4" by (simp add: rq request_def)
  have "hd (rq_body rq) = word_of_int (opcode_value oc OR WRITE_BIT)"
    using header_hd [OF h] by (simp add: rq request_def)
  then show "uint (hd (rq_body rq)) \<ge> 0x80" by (cases oc) (simp_all add: WRITE_BIT_def)
qed

lemma send_receive_frames:
  assumes "encode_frame (rq_body rq) = Inr frame" and "rq_attempts rq = Suc m"
  shows "\<exists>times j. lk_written (ss_link (fst (send_receive rq x))) = lk_written (ss_link x) @ map (\<lambda>t. (t, frame)) times \<and>
    length times = Suc j \<and> j \<le> m"
proof -
  obtain x1 r where s: "attempts_from (Suc m) 1 rq None x = (x1, r)" by fastforce
  from attempts_frame [OF assms(1) s] obtain times where
    t: "lk_written (ss_link x1) = lk_written (ss_link x) @ map (\<lambda>t. (t, frame)) times" "length times \<le> Suc m" "times \<noteq> []"
    by auto
  then show ?thesis using s by (intro exI [of _ times] exI [of _ "length times - 1"]) (simp add: send_receive_def assms(2))
qed

lemma write_tail_wire:
  assumes ready: "write_ready t n a a1 spec wm payload rq frame" and "sv_account s = a1"
  shows "\<exists>j < 4. sv_wire (fst (write_tail w t n q frame x s)) = sv_wire s @ replicate (Suc j) frame"
proof -
  obtain r where r: "account_record t n a = (a1, Inr r)" "encode_record spec r = Inr payload"
    using ready by (auto simp: write_ready_def)
  obtain a2 where again: "account_record t n a1 = (a2, Inr r)" using account_record_again [OF r(1)] by blast
  have rq: "write_record (wm_record wm) (wire_item wm n) payload (wm_sub wm) = Inr rq" "encode_frame (rq_body rq) = Inr frame"
    using ready by (simp_all add: write_ready_def)
  obtain x1 z where sr: "send_receive rq x = (x1, z)" by fastforce
  have send: "send_record t n x (sv_account s) = (x1, a2, z)"
    using ready r again rq sr by (simp add: send_record_def write_ready_def assms(2) send_request_def)
  have attempts: "rq_attempts rq = Suc 3" using write_record_request(1) [OF rq(1)] by simp
  obtain times j where times: "lk_written (ss_link x1) = lk_written (ss_link x) @ map (\<lambda>t. (t, frame)) times"
    "length times = Suc j" "j \<le> 3"
    using send_receive_frames [OF rq(2) attempts, of x] sr by auto
  have "map snd (map (\<lambda>t. (t, frame)) times) = replicate (Suc j) frame" by (simp add: times(2) map_replicate_const comp_def)
  then have "sv_wire (fst (write_tail w t n q frame x s)) = sv_wire s @ replicate (Suc j) frame"
    using times(1) by (auto simp: write_tail_def send_to_panel_def send observe_def audit_def split: sum.split prod.split)
  then show ?thesis using times(3) by (intro exI [of _ j]) simp
qed

lemma write_ready_sends:
  assumes ready: "write_ready t n (sv_account s) a1 spec wm payload rq frame"
    and permission: "require_write (wd_crypto w) q s = (s1, Reply y)" and "sv_session s = Some x"
  shows "\<exists>j < 4. sv_wire (fst (panel_write w t n False q s)) = sv_wire s @ replicate (Suc j) frame"
proof -
  note rw = require_write_account [OF permission]
  have "panel_write w t n False q s = write_tail w t n q frame x (s1\<lparr>sv_account := a1\<rparr>)"
    using assms(3) rw by (simp add: write_ready_run [OF ready] write_part_def bindh_def the_session_def)
  then show ?thesis using write_tail_wire [OF ready, of "s1\<lparr>sv_account := a1\<rparr>" w q x] rw(4) by simp
qed

section \<open>A service for the examples\<close>

definition demo_settings :: settings where
  "demo_settings =
     \<lparr>st_mode = ''app'', st_users = [''u1''], st_idle_minutes = 15, st_read_only = False, st_method = ''network'',
      st_host = ''elk'', st_port = 2101, st_serial_port = [], st_baud = 115200, st_release = False,
      st_forward = False, st_token = []\<rparr>"

text \<open>A panel that answers the login and nothing else.\<close>

definition demo_link :: link where
  "demo_link =
     \<lparr>lk_now = 0, lk_incoming = [(10, frame_bytes [0x7F, 0, 0, 1] (crc16 [0x7F, 0, 0, 1]))], lk_written = [],
      lk_open = True\<rparr>"

definition demo_world :: "unit world" where
  "demo_world =
     \<lparr>wd_crypto = plain_crypto,
      wd_api = \<lparr>api_list = \<lambda>_ _ _. Inl ConnectionError, api_hello = \<lambda>_. Inl ConnectionError,
                api_auth = \<lambda>_ _. Inl ConnectionError, api_command = \<lambda>_ c. (c, Inl ConnectionError)\<rparr>,
      wd_service = \<lambda>_ _ c. (c, Inl ConnectionError),
      wd_open = \<lambda>_. Opened demo_link,
      wd_stop = Inr (), wd_answer = \<lambda>_. True\<rparr>"

definition demo_query :: "string option \<Rightarrow> web_request" where
  "demo_query cookie = \<lparr>wr_user = ''u1'', wr_name = ''Ann'', wr_cookie = cookie, wr_path = []\<rparr>"

definition demo_connect :: connect_request where
  "demo_connect =
     \<lparr>cq_method = ''network'', cq_host = [], cq_port = 0, cq_serial_port = [], cq_baud = 0, cq_code = ''123456''\<rparr>"

definition demo_steps :: "service_step list" where
  "demo_steps =
     [Request (demo_query None) (E_setup [] ''t'' ''correct horse''),
      Request (demo_query (Some ''t'')) (E_step_up ''correct horse''),
      Request (demo_query (Some ''t'')) (E_connect demo_connect)]"

definition demo_start :: "unit server result" where
  "demo_start = server_init demo_settings None None None None [] \<lparr>rl_core = (), rl_marker = None\<rparr> 1000000"

definition demo_server :: "unit server" where
  "demo_server = (case demo_start of Inr s \<Rightarrow> s)"

lemma demo_server:
  "demo_start = Inr demo_server" "ac_sessions (sv_access demo_server) = []" "ac_pass (sv_access demo_server) = None"
  "ac_clock (sv_access demo_server) = 1000000" "ac_allowed (sv_access demo_server) = [''u1'']"
  "lk_until (ac_lockout (sv_access demo_server)) = 0" "sv_settings demo_server = demo_settings" "\<not> sv_hass demo_server"
  "sv_session demo_server = None" "\<not> sv_release demo_server" "sv_wire demo_server = []"
  "sv_account demo_server = account_blank ''New account''"
  by (simp_all add: demo_server_def demo_start_def server_init_def access_init_def audit_open_def tail_hash_def
      demo_settings_def app_mode_def Let_def)

lemmas demo_simps = serve_def access_gate_def demo_settings_def app_mode_def remote_user_def demo_query_def
  user_allowed_def starts_with_def OPEN_PATHS_def Let_def demo_world_def plain_crypto_def bindh_def

text \<open>The service after the first two steps.\<close>

definition demo_ready :: "int \<Rightarrow> unit server \<Rightarrow> bool" where
  "demo_ready until s \<longleftrightarrow>
     s = demo_server\<lparr>sv_access := sv_access s\<rparr> \<and> ac_allowed (sv_access s) = [''u1''] \<and>
     ac_clock (sv_access s) = 1000000 \<and> lk_until (ac_lockout (sv_access s)) = 0 \<and>
     right_pass plain_crypto ''correct horse'' (sv_access s) \<and>
     map_of (ac_sessions (sv_access s)) ''t'' =
       Some \<lparr>as_token = ''t'', as_user_id = ''u1'', as_user_name = ''Ann'', as_created = 1000000,
             as_last_seen = 1000000, as_write_until = Some until\<rparr>"

lemma demo_set_up:
  "demo_ready 0 (do_step demo_world (Request (demo_query None) (E_setup [] ''t'' ''correct horse'')) demo_server)"
  by (simp add: demo_ready_def demo_server demo_simps auth_setup_def with_access_def ac_setup_def pass_is_set_def pass_set_def
      ac_login_def ac_check_def check_begin_def lockout_check_def pass_check_def right_pass_def lockout_succeeded_def)

lemma demo_step_up:
  assumes "demo_ready 0 s"
  shows "demo_ready (1000000 + seconds STEP_UP_TTL)
    (do_step demo_world (Request (demo_query (Some ''t'')) (E_step_up ''correct horse'')) s)"
proof -
  have s: "s = demo_server\<lparr>sv_access := sv_access s\<rparr>" using assms by (simp add: demo_ready_def)
  obtain ac where ac: "s = demo_server\<lparr>sv_access := ac\<rparr>" "demo_ready 0 (demo_server\<lparr>sv_access := ac\<rparr>)" using s assms by metis
  then show ?thesis
    by (simp add: demo_ready_def demo_server demo_simps auth_step_up_def require_session_def auth_session_def ac_resolve_def
        session_alive_def SESSION_TTL_def with_access_def ac_step_up_def ac_check_def check_begin_def lockout_check_def
        right_pass_def lockout_succeeded_def pass_check_def set_session_def map_of_map_entry)
qed

definition demo_connected :: "unit server \<Rightarrow> bool" where
  "demo_connected s \<longleftrightarrow>
     sv_settings s = demo_settings \<and> sv_session s \<noteq> None \<and> sv_account s = account_blank ''New account'' \<and>
     ac_allowed (sv_access s) = [''u1''] \<and> ac_clock (sv_access s) = 1000000 \<and>
     map_of (ac_sessions (sv_access s)) ''t'' =
       Some \<lparr>as_token = ''t'', as_user_id = ''u1'', as_user_name = ''Ann'', as_created = 1000000,
             as_last_seen = 1000000, as_write_until = Some (1000000 + seconds STEP_UP_TTL)\<rparr>"

lemma demo_login: "\<exists>x info. session_login ''123456'' (session_open demo_link) = (x, Inr info)"
proof -
  have "case snd (session_login ''123456'' (session_open demo_link)) of Inl e \<Rightarrow> False | Inr info \<Rightarrow> True" by code_simp
  then show ?thesis by (cases "session_login ''123456'' (session_open demo_link)") (auto split: sum.splits)
qed

lemma demo_connect_step:
  assumes "demo_ready (1000000 + seconds STEP_UP_TTL) s"
  shows "demo_connected (do_step demo_world (Request (demo_query (Some ''t'')) (E_connect demo_connect)) s)"
proof -
  have s: "s = demo_server\<lparr>sv_access := sv_access s\<rparr>" using assms by (simp add: demo_ready_def)
  obtain ac where ac: "s = demo_server\<lparr>sv_access := ac\<rparr>" "demo_ready (1000000 + seconds STEP_UP_TTL) (demo_server\<lparr>sv_access := ac\<rparr>)"
    using s assms by metis
  obtain x info where x: "session_login ''123456'' (session_open demo_link) = (x, Inr info)" using demo_login by (elim exE)
  from ac(2) show ?thesis unfolding ac(1)
    by (simp add: demo_ready_def demo_connected_def demo_server demo_simps require_session_def auth_session_def ac_resolve_def
        session_alive_def SESSION_TTL_def done_with_def panel_connect_def connect_run_def claim_session_def release_integration_def
        connect_login_def demo_connect_def x observe_def audit_def set_session_def map_of_map_entry)
qed

lemma demo_run: "demo_connected (run_service demo_world demo_steps demo_server)"
  unfolding run_service_def demo_steps_def foldl.simps
  by (rule demo_connect_step, rule demo_step_up, rule demo_set_up)

lemma demo_record:
  "\<exists>a1 spec wm payload rq frame. write_ready ''area'' 1 (account_blank ''New account'') a1 spec wm payload rq frame"
proof -
  have "case account_record ''area'' 1 (account_blank ''New account'') of (a, r) \<Rightarrow>
      (case r of Inl e \<Rightarrow> False | Inr r \<Rightarrow> (case encode_record area_spec r of Inl e \<Rightarrow> False | Inr payload \<Rightarrow> True))"
    by code_simp
  then obtain a1 r payload where r: "account_record ''area'' 1 (account_blank ''New account'') = (a1, Inr r)"
    "encode_record area_spec r = Inr payload"
    by (auto split: prod.splits sum.splits)
  have spec: "spec_by_name ''area'' = Some area_spec" by (rule spec_by_name_simps)
  obtain wm where wm: "map_of WIRE ''area'' = Some wm" "wire_item wm 1 = 1" by (simp add: WIRE_def rs_names wire_entry_def wire_item_def)
  obtain rq where rq: "write_record (wm_record wm) 1 payload (wm_sub wm) = Inr rq" "rq_body rq \<noteq> []"
    by (simp add: write_record_def header_def Let_def request_def)
  show ?thesis
    unfolding write_ready_def
    using r spec wm rq encode_frame_bytes [OF rq(2)] by auto
qed

text \<open>A permitted user's dry run and write.\<close>

definition demo_user :: "web_request \<Rightarrow> bool" where
  "demo_user q \<longleftrightarrow> wr_user q = ''u1'' \<and> wr_cookie q = Some ''t''"

lemma demo_permission:
  assumes "demo_connected s" "demo_user q"
  shows "\<exists>s1 y. require_write plain_crypto q s = (s1, Reply y)"
    and "\<exists>s1 y. require_session plain_crypto q s = (s1, Reply y)"
  using assms
  by (auto simp: demo_connected_def demo_user_def demo_simps require_write_def require_session_def auth_session_def ac_resolve_def
      session_alive_def SESSION_TTL_def session_can_write_def STEP_UP_TTL_def split: prod.split)

lemma demo_gate:
  assumes "demo_connected s" "demo_user q" "wr_path q = ''/api/panel/write''"
  shows "\<exists>s1. access_gate plain_crypto q f s = f s1 \<and> demo_connected s1 \<and> sv_wire s1 = sv_wire s"
  using assms
  by (auto simp: demo_connected_def demo_user_def demo_simps auth_session_def ac_resolve_def session_alive_def SESSION_TTL_def
      set_session_def map_of_map_entry)

lemma demo_ready_write:
  "demo_connected s \<Longrightarrow> \<exists>a1 spec wm payload rq frame. write_ready ''area'' 1 (sv_account s) a1 spec wm payload rq frame"
  using demo_record by (simp add: demo_connected_def)

lemma demo_writes:
  assumes "demo_connected s"
  shows "\<exists>new f. sv_wire (do_step demo_world (Request (demo_query (Some ''t'')) (E_write ''area'' 1 False)) s) = sv_wire s @ new \<and>
    f \<in> set new \<and> writes_record f"
proof -
  let ?q = "(demo_query (Some ''t''))\<lparr>wr_path := ''/api/panel/write''\<rparr>"
  have q: "demo_user ?q" by (simp add: demo_user_def demo_query_def)
  have k: "wd_crypto demo_world = plain_crypto" by (simp add: demo_world_def)
  obtain s0 where s0: "access_gate plain_crypto ?q (handler demo_world ?q (E_write ''area'' 1 False)) s =
      handler demo_world ?q (E_write ''area'' 1 False) s0" "demo_connected s0" "sv_wire s0 = sv_wire s"
    using demo_gate [OF assms q, of "handler demo_world ?q (E_write ''area'' 1 False)"] by auto
  obtain a1 spec wm payload rq frame where ready: "write_ready ''area'' 1 (sv_account s0) a1 spec wm payload rq frame"
    using demo_ready_write [OF s0(2)] by (elim exE)
  obtain s1 y where permission: "require_write (wd_crypto demo_world) ?q s0 = (s1, Reply y)"
    using demo_permission(1) [OF s0(2) q] unfolding k by (elim exE)
  obtain x where "sv_session s0 = Some x" using s0(2) by (auto simp: demo_connected_def)
  from write_ready_sends [OF ready permission this] obtain n
    where n: "sv_wire (fst (panel_write demo_world ''area'' 1 False ?q s0)) = sv_wire s @ replicate (Suc n) frame"
    using s0(3) by auto
  have "writes_record frame"
    using ready write_record_request(2) frame_opcode(1) by (auto simp: write_ready_def writes_record_def)
  moreover have "sv_wire (do_step demo_world (Request (demo_query (Some ''t'')) (E_write ''area'' 1 False)) s) = sv_wire s @ replicate (Suc n) frame"
    using n s0(1) by (simp add: serve_def Let_def k)
  ultimately show ?thesis by (intro exI [of _ "replicate (Suc n) frame"] exI [of _ frame]) simp
qed

lemma demo_dry_run:
  assumes "demo_connected s" "demo_user q"
  shows "\<exists>s1 body frame. panel_write demo_world ''area'' 1 True q s = (s1, Reply (Dry_run body frame))"
proof -
  obtain a1 spec wm payload rq frame where ready: "write_ready ''area'' 1 (sv_account s) a1 spec wm payload rq frame"
    using demo_ready_write [OF assms(1)] by (elim exE)
  obtain s1 y where "require_session plain_crypto q s = (s1, Reply y)" using demo_permission(2) [OF assms] by (elim exE)
  then have "\<exists>s2. require_session plain_crypto q (s\<lparr>sv_account := a1\<rparr>) = (s2, Reply y)"
    by (auto simp: require_session_def auth_session_def split: prod.splits option.splits if_splits)
  then show ?thesis
    by (auto simp: write_ready_run [OF ready] write_part_def bindh_def demo_world_def)
qed

section \<open>Properties\<close>



text \<open>C12. A dry run shows what is sent: when the dry run of a write replies with a frame, the write itself, if
  permitted, sends this very frame to the panel, once or up to three times more when there is no reply, and nothing
  else.\<close>

theorem dry_run_shows_what_is_sent:
  assumes "panel_write w t n True q s = (s0, Reply (Dry_run body frame))"
    and "require_write (wd_crypto w) q s = (s1, Reply y)" and "sv_session s = Some x"
  shows "\<exists>j < 4. sv_wire (fst (panel_write w t n False q s)) = sv_wire s @ replicate (Suc j) frame \<and>
    encode_frame body = Inr frame \<and> writes_record frame"
proof -
  obtain a1 spec wm payload rq fr where ready: "write_ready t n (sv_account s) a1 spec wm payload rq fr"
    by (rule write_ready_cases [OF assms(1)])
  have "body = rq_body rq \<and> frame = fr"
    using assms(1) by (simp add: write_ready_run [OF ready] write_part_def bindh_Reply)
  moreover have "writes_record fr"
    using ready write_record_request(2) frame_opcode(1) by (auto simp: write_ready_def writes_record_def)
  ultimately show ?thesis
    using write_ready_sends [OF ready assms(2,3)] ready by (auto simp: write_ready_def)
qed

theorem dry_run_shows_what_is_sent_witness:
  "\<exists>s frame j. sv_wire (fst (panel_write demo_world ''area'' 1 False (demo_query (Some ''t'')) s)) = sv_wire s @ replicate (Suc j) frame \<and>
     writes_record frame"
proof -
  let ?s = "run_service demo_world demo_steps demo_server" and ?q = "demo_query (Some ''t'')"
  have s: "demo_connected ?s" and q: "demo_user ?q" by (rule demo_run) (simp add: demo_user_def demo_query_def)
  have k: "wd_crypto demo_world = plain_crypto" by (simp add: demo_world_def)
  obtain s0 body frame where dry: "panel_write demo_world ''area'' 1 True ?q ?s = (s0, Reply (Dry_run body frame))"
    using demo_dry_run [OF s q] by (elim exE)
  obtain s1 y where permission: "require_write (wd_crypto demo_world) ?q ?s = (s1, Reply y)"
    using demo_permission(1) [OF s q] unfolding k by (elim exE)
  obtain x where "sv_session ?s = Some x" using s by (auto simp: demo_connected_def)
  from dry_run_shows_what_is_sent [OF dry permission this] show ?thesis by blast
qed

end
