(* ===== verification/App_Secret.thy ===== *)
theory App_Secret
  imports App_Service
begin

text \<open>
  What the service tells of the panel's access code: two connections that differ in the code alone, over a
  link that answers in the same way, give the same replies, the same trace and the same audit log.
\<close>

section \<open>Sessions that look alike\<close>

text \<open>Everything of a session but the frames written and the struck-out bytes of its trace.\<close>

definition view ::
    "session \<Rightarrow> (nat \<times> (nat \<times> byte list) list \<times> bool) \<times> decoder \<times> shown_entry list \<times> login_reply option \<times> bool \<times> nat" where
  "view x =
     ((lk_now (ss_link x), lk_incoming (ss_link x), lk_open (ss_link x)), ss_decoder x, map show_entry (ss_trace x),
      ss_login_reply x, ss_keepalive x, ss_last_activity x)"

definition alike :: "session \<Rightarrow> session \<Rightarrow> bool" where
  "alike x y \<longleftrightarrow> view x = view y"

lemma alike_refl [simp]: "alike x x"
  by (simp add: alike_def)

lemma alikeD:
  assumes "alike x y"
  shows "lk_now (ss_link y) = lk_now (ss_link x)" "lk_incoming (ss_link y) = lk_incoming (ss_link x)"
    "lk_open (ss_link y) = lk_open (ss_link x)" "ss_decoder y = ss_decoder x"
    "map show_entry (ss_trace y) = map show_entry (ss_trace x)" "ss_login_reply y = ss_login_reply x"
    "ss_keepalive y = ss_keepalive x" "ss_last_activity y = ss_last_activity x"
  using assms by (simp_all add: alike_def view_def)

lemma record_alike:
  assumes "alike x y"
    and "\<And>t. show_entry \<lparr>te_when = t, te_direction = d, te_body = b, te_note = n\<rparr> =
              show_entry \<lparr>te_when = t, te_direction = d, te_body = c, te_note = n\<rparr>"
  shows "alike (record_trace d b n x) (record_trace d c n y)"
  using alikeD [OF assms(1)] assms(2) by (simp add: alike_def view_def record_trace_def)

lemma handle_events_alike:
  assumes "rq_expect rq' = rq_expect rq" and "alike x y"
    and "handle_events rq evs x = (x1, r)" and "handle_events rq' evs y = (y1, r')"
  shows "r' = r \<and> alike x1 y1"
  using assms
proof (induction evs arbitrary: x y)
  case (Cons ev evs)
  let ?x = "record_trace Rx (ev_body ev) (kind_value (ev_kind ev)) x" and ?y = "record_trace Rx (ev_body ev) (kind_value (ev_kind ev)) y"
  have a: "alike ?x ?y" by (rule record_alike [OF Cons.prems(2)]) (rule refl)
  note IH = Cons.IH [OF Cons.prems(1) a]
  show ?case
  proof (cases "ev_kind ev")
    case MESSAGE
    then show ?thesis using Cons.prems(1,3,4) a by (cases "ev_body ev") (auto simp: Let_def split: if_splits)
  qed (use Cons.prems(1,3,4) a IH in \<open>auto simp: Let_def split: if_splits\<close>)
qed simp

lemma read_alike:
  assumes "alike x y" and "link_read t (ss_link x) = (l, data)" and "link_read t (ss_link y) = (l', data')"
  shows "data' = data \<and> alike (x\<lparr>ss_link := l\<rparr>) (y\<lparr>ss_link := l'\<rparr>)"
  using alikeD [OF assms(1)] assms(2,3)
  by (auto simp: link_read_def alike_def view_def split: list.splits if_splits)

lemma await_alike:
  assumes "rq_expect rq' = rq_expect rq" "rq_description rq' = rq_description rq" and "alike x y"
    and "await_reply rq deadline x = (x1, r)" and "await_reply rq' deadline y = (y1, r')"
  shows "r' = r \<and> alike x1 y1"
  using assms
proof (induction rq deadline x arbitrary: y x1 y1 r r' rule: await_reply.induct)
  case (1 rq deadline x)
  let ?now = "lk_now (ss_link x)"
  note now = alikeD(1) [OF "1.prems"(3)]
  show ?case
  proof (cases "deadline \<le> ?now")
    case True
    then show ?thesis using "1.prems" now
      by (subst (asm) (1 2) await_reply.simps) (simp add: Let_def)
  next
    case False
    obtain l data where l: "link_read (deadline - ?now) (ss_link x) = (l, data)" by fastforce
    obtain l' data' where l': "link_read (deadline - ?now) (ss_link y) = (l', data')" by fastforce
    have same: "data' = data" and a: "alike (x\<lparr>ss_link := l\<rparr>) (y\<lparr>ss_link := l'\<rparr>)"
      using read_alike [OF "1.prems"(3) l l'] by simp_all
    show ?thesis
    proof (cases "data = []")
      case True
      have "await_reply rq deadline (x\<lparr>ss_link := l\<rparr>) = (x1, r)"
        using "1.prems"(4) False l True by (subst (asm) await_reply.simps) (simp add: Let_def)
      moreover have "await_reply rq' deadline (y\<lparr>ss_link := l'\<rparr>) = (y1, r')"
        using "1.prems"(5) False l' True same now by (subst (asm) await_reply.simps) (simp add: Let_def)
      ultimately show ?thesis
        using "1.IH"(1) [OF refl False refl l [symmetric] refl True "1.prems"(1,2) a] by blast
    next
      case data: False
      obtain d evs where f: "feed data (ss_decoder (x\<lparr>ss_link := l\<rparr>)) = (d, evs)" by fastforce
      have f': "feed data (ss_decoder (y\<lparr>ss_link := l'\<rparr>)) = (d, evs)" using f alikeD(4) [OF "1.prems"(3)] by simp
      obtain x2 o1 where h: "handle_events rq evs (x\<lparr>ss_link := l, ss_decoder := d\<rparr>) = (x2, o1)" by fastforce
      obtain y2 o2 where h': "handle_events rq' evs (y\<lparr>ss_link := l', ss_decoder := d\<rparr>) = (y2, o2)" by fastforce
      have "alike (x\<lparr>ss_link := l, ss_decoder := d\<rparr>) (y\<lparr>ss_link := l', ss_decoder := d\<rparr>)"
        using a by (simp add: alike_def view_def)
      from handle_events_alike [OF "1.prems"(1) this h h'] have eq: "o2 = o1" and a2: "alike x2 y2" by simp_all
      show ?thesis
      proof (cases o1)
        case None
        have "await_reply rq deadline x2 = (x1, r)"
          using "1.prems"(4) False l data f h None by (subst (asm) await_reply.simps) (simp add: Let_def)
        moreover have "await_reply rq' deadline y2 = (y1, r')"
          using "1.prems"(5) False l' data same now f' h' None eq by (subst (asm) await_reply.simps) (simp add: Let_def)
        ultimately show ?thesis
          using "1.IH"(2) [OF refl False refl l [symmetric] refl data refl f [symmetric] h [symmetric] None "1.prems"(1,2) a2] by blast
      next
        case (Some z)
        have "(x2, z) = (x1, r)"
          using "1.prems"(4) False l data f h Some by (subst (asm) await_reply.simps) (simp add: Let_def)
        moreover have "(y2, z) = (y1, r')"
          using "1.prems"(5) False l' data same now f' h' Some eq by (subst (asm) await_reply.simps) (simp add: Let_def)
        ultimately show ?thesis using a2 by simp
      qed
    qed
  qed
qed

text \<open>Two requests that differ in a body that the trace does not show.\<close>

definition same_but_body :: "request \<Rightarrow> request \<Rightarrow> bool" where
  "same_but_body rq rq' \<longleftrightarrow>
     rq' = rq\<lparr>rq_body := rq_body rq'\<rparr> \<and>
     (\<forall>t n. show_entry \<lparr>te_when = t, te_direction = Tx, te_body = rq_body rq, te_note = rq_description rq @ '' attempt '' @ n\<rparr> =
            show_entry \<lparr>te_when = t, te_direction = Tx, te_body = rq_body rq', te_note = rq_description rq @ '' attempt '' @ n\<rparr>) \<and>
     (\<exists>frame. encode_frame (rq_body rq) = Inr frame) \<and> (\<exists>frame. encode_frame (rq_body rq') = Inr frame)"

lemma same_but_bodyD:
  assumes "same_but_body rq rq'"
  shows "rq_expect rq' = rq_expect rq" "rq_description rq' = rq_description rq" "rq_timeout_ms rq' = rq_timeout_ms rq"
    "rq_attempts rq' = rq_attempts rq"
proof -
  have "rq' = rq\<lparr>rq_body := rq_body rq'\<rparr>" using assms by (simp add: same_but_body_def)
  then show "rq_expect rq' = rq_expect rq" "rq_description rq' = rq_description rq" "rq_timeout_ms rq' = rq_timeout_ms rq"
    "rq_attempts rq' = rq_attempts rq"
    by (metis request.ext_inject request.surjective request.update_convs(1))+
qed

lemma attempt_alike:
  assumes same: "same_but_body rq rq'" and "alike x y"
    and "attempt n rq frame x = (x1, r)" and "attempt n rq' frame' y = (y1, r')"
  shows "r' = r \<and> alike x1 y1"
proof -
  note eq = same_but_bodyD [OF same]
  let ?note = "rq_description rq @ '' attempt '' @ int_text (int n)"
  let ?x = "record_trace Tx (rq_body rq) ?note x" and ?y = "record_trace Tx (rq_body rq') ?note y"
  let ?x = "?x\<lparr>ss_link := link_write frame (ss_link ?x)\<rparr>" and ?y = "?y\<lparr>ss_link := link_write frame' (ss_link ?y)\<rparr>"
  have "alike (record_trace Tx (rq_body rq) ?note x) (record_trace Tx (rq_body rq') ?note y)"
    by (rule record_alike [OF assms(2)]) (use same in \<open>simp add: same_but_body_def\<close>)
  then have a: "alike ?x ?y" by (simp add: alike_def view_def link_write_def)
  obtain x2 r2 where ax: "await_reply rq (lk_now (ss_link ?x) + rq_timeout_ms rq) ?x = (x2, r2)" by fastforce
  obtain y2 s2 where ay: "await_reply rq' (lk_now (ss_link ?x) + rq_timeout_ms rq) ?y = (y2, s2)" by fastforce
  have res: "s2 = r2 \<and> alike x2 y2" by (rule await_alike [OF eq(1,2) a ax ay])
  have now: "lk_now (ss_link ?y) = lk_now (ss_link ?x)" by (rule alikeD(1) [OF a])
  have "(x2\<lparr>ss_last_activity := lk_now (ss_link x2)\<rparr>, r2) = (x1, r)"
    using assms(3) ax by (simp add: attempt_def Let_def)
  moreover have "(y2\<lparr>ss_last_activity := lk_now (ss_link y2)\<rparr>, s2) = (y1, r')"
    using assms(4) ay now by (simp add: attempt_def Let_def eq)
  ultimately show ?thesis using res by (auto simp: alike_def view_def)
qed

lemma attempts_alike:
  assumes same: "same_but_body rq rq'"
  shows "alike x y \<Longrightarrow> attempts_from k n rq e x = (x1, r) \<Longrightarrow> attempts_from k n rq' e y = (y1, r') \<Longrightarrow> r' = r \<and> alike x1 y1"
proof (induction k arbitrary: n e x y)
  case 0
  then show ?case by (simp split: option.splits)
next
  case (Suc k)
  obtain frame frame' where f: "encode_frame (rq_body rq) = Inr frame" and f': "encode_frame (rq_body rq') = Inr frame'"
    using same by (auto simp: same_but_body_def)
  obtain x2 r2 where ax: "attempt n rq frame x = (x2, r2)" by fastforce
  obtain y2 s2 where ay: "attempt n rq' frame' y = (y2, s2)" by fastforce
  have res: "s2 = r2 \<and> alike x2 y2" by (rule attempt_alike [OF same Suc.prems(1) ax ay])
  show ?case
    using Suc.prems(2,3) res Suc.IH [of x2 y2 "n + 1" "Some (projl r2)"]
    by (simp add: attempts_Suc [OF f ax] attempts_Suc [OF f' ay] split: if_splits)
qed

lemma login_requests:
  assumes "login c1 = Inr r1" and "login c2 = Inr r2"
  shows "same_but_body r1 r2"
proof -
  have body: "\<exists>digits. length digits = 6 \<and> r = (request ([0x7F, 0, 0, 1] @ digits) SYSTEM ''login'')\<lparr>rq_timeout_ms := 1600\<rparr>"
    if l: "login c = Inr r" for c r
  proof -
    obtain ds where ds: "str_digits c = Inr ds" "length ds \<le> 6"
      "r = (request ([0x7F, 0, 0, 1] @ rev (replicate (6 - length ds) 0 @ ds)) SYSTEM ''login'')\<lparr>rq_timeout_ms := 1600\<rparr>"
      using l by (auto simp: login_def header_def bindr_eq_Inr Let_def SYSTEM_def split: if_splits)
    then show ?thesis by (intro exI [of _ "rev (replicate (6 - length ds) 0 @ ds)"]) simp
  qed
  obtain d1 d2 where "length d1 = 6" "r1 = (request ([0x7F, 0, 0, 1] @ d1) SYSTEM ''login'')\<lparr>rq_timeout_ms := 1600\<rparr>"
    "length d2 = 6" "r2 = (request ([0x7F, 0, 0, 1] @ d2) SYSTEM ''login'')\<lparr>rq_timeout_ms := 1600\<rparr>"
    using body [OF assms(1)] body [OF assms(2)] by blast
  then show ?thesis
    by (auto simp: same_but_body_def request_def show_entry_def starts_with_def encode_frame_def Let_def)
qed

lemma login_alike:
  assumes "login c1 = Inr r1" "login c2 = Inr r2"
    and "session_login c1 x = (x1, r)" "session_login c2 x = (x2, r')"
  shows "r' = r \<and> alike x1 x2"
proof -
  note same = login_requests [OF assms(1,2)]
  obtain y1 z1 where s1: "send_receive r1 x = (y1, z1)" by fastforce
  obtain y2 z2 where s2: "send_receive r2 x = (y2, z2)" by fastforce
  have "z2 = z1 \<and> alike y1 y2"
    using attempts_alike [OF same, of x x "rq_attempts r1" 1 None y1 z1 y2 z2] s1 s2 same_but_bodyD(4) [OF same]
    by (simp add: send_receive_def)
  then show ?thesis
    using assms s1 s2
    by (auto simp: session_login_def send_request_def alike_def view_def split: sum.splits if_splits)
qed

section \<open>Service states that look alike\<close>

text \<open>Everything of the service but the frames on the wire, and its session up to likeness.\<close>

definition same_outside :: "'c server \<Rightarrow> 'c server \<Rightarrow> bool" where
  "same_outside s s' \<longleftrightarrow>
     s'\<lparr>sv_session := None, sv_wire := []\<rparr> = s\<lparr>sv_session := None, sv_wire := []\<rparr> \<and>
     (case (sv_session s, sv_session s') of
        (None, None) \<Rightarrow> True | (Some x, Some y) \<Rightarrow> alike x y | _ \<Rightarrow> False)"

lemma same_outside_refl [simp]: "same_outside s s"
  by (simp add: same_outside_def split: option.split)

lemma same_outside_wire [simp]: "same_outside s (s\<lparr>sv_wire := v\<rparr>)"
  by (simp add: same_outside_def split: option.split)

text \<open>Handing back does not look at the wire.\<close>

definition blind :: "('c server \<Rightarrow> 'c server \<times> 'a http) \<Rightarrow> bool" where
  "blind m \<longleftrightarrow> (\<forall>s v. m (s\<lparr>sv_wire := v\<rparr>) = ((fst (m s))\<lparr>sv_wire := v\<rparr>, snd (m s)))"

lemma blind_bindh:
  assumes "blind m" "\<And>a. blind (f a)"
  shows "blind (bindh m f)"
  using assms by (auto simp: blind_def bindh_def split: prod.split http.split)

lemma end_claim_blind: "blind (end_claim w u n)"
  by (auto simp: blind_def end_claim_def ask_service_def log_event_def split: prod.split hass_outcome.split)

lemma restore_blind: "blind (restore_integration w u n)"
  by (auto simp: blind_def restore_integration_def log_event_def split: prod.split hass_outcome.split sum.split list.split)

lemma hand_back_blind: "blind (hand_back w u n)"
  unfolding hand_back_def by (intro blind_bindh restore_blind end_claim_blind)

lemma blind_same: "blind m \<Longrightarrow> m s = (s1, r) \<Longrightarrow> m (s\<lparr>sv_wire := v\<rparr>) = (s1\<lparr>sv_wire := v\<rparr>, r)"
  by (simp add: blind_def)

lemma observe_alike:
  assumes "alike x1 x2" and "ss_trace x = []"
  shows "observe x x2 s = (observe x x1 s)\<lparr>sv_wire := sv_wire (observe x x2 s)\<rparr>"
proof -
  have "map (\<lambda>t. Trace_message (show_entry t)) (ss_trace x2) = map Trace_message (map show_entry (ss_trace x2))" by simp
  also have "\<dots> = map (\<lambda>t. Trace_message (show_entry t)) (ss_trace x1)" by (simp add: alikeD(5) [OF assms(1)])
  finally show ?thesis by (simp add: observe_def assms(2))
qed

lemma connect_login_secret:
  assumes c1: "login c1 = Inr r1" and c2: "login c2 = Inr r2"
    and run1: "connect_login w (body\<lparr>cq_code := c1\<rparr>) q l s = (s1, a1)"
    and run2: "connect_login w (body\<lparr>cq_code := c2\<rparr>) q l s = (s2, a2)"
  shows "a2 = a1 \<and> same_outside s1 s2"
proof -
  let ?x = "session_open l"
  obtain x1 z1 where x1: "session_login c1 ?x = (x1, z1)" by fastforce
  obtain x2 z2 where x2: "session_login c2 ?x = (x2, z2)" by fastforce
  have z: "z2 = z1" and alike: "alike x1 x2" using login_alike [OF c1 c2 x1 x2] by simp_all
  obtain u n where u: "remote_user (sv_settings s) q = (u, n)" by fastforce
  let ?o = "observe ?x x1 s"
  obtain v where o2: "observe ?x x2 s = ?o\<lparr>sv_wire := v\<rparr>"
    using observe_alike [OF alike, of ?x s] by (simp add: session_open_def)
  have target: "connect_target st (body\<lparr>cq_code := c\<rparr>) = connect_target st body" for st c by (simp add: connect_target_def)
  show ?thesis
  proof (cases z1)
    case (Inr info)
    then show ?thesis
      using run1 run2 alike u
      by (auto simp: connect_login_def x1 x2 z o2 Let_def audit_def same_outside_def split: prod.splits)
  next
    case (Inl e)
    show ?thesis
    proof (cases "is_session_error e")
      case False
      then show ?thesis using run1 run2 Inl
        by (auto simp: connect_login_def x1 x2 z o2 Let_def u)
    next
      case True
      obtain s3 h where h: "hand_back w u n ?o = (s3, h)" by fastforce
      have h2: "hand_back w u n (?o\<lparr>sv_wire := v\<rparr>) = (s3\<lparr>sv_wire := v\<rparr>, h)" by (rule blind_same [OF hand_back_blind h])
      show ?thesis using run1 run2 Inl True
        by (cases h) (auto simp: connect_login_def x1 x2 z o2 Let_def u bindh_def h h2 target audit_def same_outside_def
            split: prod.splits option.split)
    qed
  qed
qed

text \<open>What comes before the login does not look at the code.\<close>

lemma connect_run_secret:
  assumes c1: "login c1 = Inr r1" and c2: "login c2 = Inr r2"
    and run1: "connect_run w (body\<lparr>cq_code := c1\<rparr>) q s = (s1, a1)"
    and run2: "connect_run w (body\<lparr>cq_code := c2\<rparr>) q s = (s2, a2)"
  shows "a2 = a1 \<and> same_outside s1 s2"
proof -
  obtain u n where u: "remote_user (sv_settings s) q = (u, n)" by fastforce
  obtain s3 h3 where claim: "claim_session w u n ''programming'' s = (s3, h3)" by fastforce
  obtain s4 h4 where rel: "release_integration w u n s3 = (s4, h4)" by fastforce
  have port: "port_of st (body\<lparr>cq_code := c\<rparr>) = port_of st body" for st c by (simp add: port_of_def)
  show ?thesis
  proof (cases h3)
    case (Reply y)
    show ?thesis
    proof (cases h4)
      case (Reply z)
      show ?thesis
      proof (cases "wd_open w (port_of (sv_settings s4) body)")
        case (Opened l)
        then show ?thesis
          using run1 run2 claim rel u \<open>h3 = Reply y\<close> Reply connect_login_secret [OF c1 c2]
          by (simp add: connect_run_def bindh_def port)
      qed (use run1 run2 claim rel u \<open>h3 = Reply y\<close> Reply in \<open>auto simp: connect_run_def bindh_def port\<close>)
    qed (use run1 run2 claim rel u Reply in \<open>auto simp: connect_run_def bindh_def\<close>)
  qed (use run1 run2 claim u in \<open>auto simp: connect_run_def bindh_def\<close>)
qed

section \<open>Property\<close>


lemma demo_connects:
  assumes "demo_ready (1000000 + seconds STEP_UP_TTL) s"
  shows "\<exists>s1 info. panel_connect demo_world (demo_connect\<lparr>cq_code := ''123456''\<rparr>) (demo_query (Some ''t'')) s = (s1, Reply info) \<and>
    sv_session s1 \<noteq> None"
proof -
  have s: "s = demo_server\<lparr>sv_access := sv_access s\<rparr>" using assms by (simp add: demo_ready_def)
  obtain ac where ac: "s = demo_server\<lparr>sv_access := ac\<rparr>" "demo_ready (1000000 + seconds STEP_UP_TTL) (demo_server\<lparr>sv_access := ac\<rparr>)"
    using s assms by metis
  obtain x info where x: "session_login ''123456'' (session_open demo_link) = (x, Inr info)" using demo_login by (elim exE)
  from ac(2) show ?thesis unfolding ac(1)
    by (simp add: demo_ready_def demo_server demo_simps require_session_def auth_session_def ac_resolve_def
        session_alive_def SESSION_TTL_def panel_connect_def connect_run_def claim_session_def release_integration_def
        connect_login_def demo_connect_def x observe_def audit_def)
qed


end
