(* ===== verification/App_Handback.thy ===== *)
theory App_Handback
  imports App_Secret
begin

text \<open>
  Two promises of the service beside the panel: a session that could not be opened hands the port back to
  Home Assistant, and an account that was saved can be opened again. With them the three ways in which the
  code as it is does less than it means to: an access code that cannot be sent, two connects at once, the
  idle watch.
\<close>

section \<open>Handing back\<close>

text \<open>The audit log from the state \<open>s\<close> on holds a failed restore.\<close>

definition restore_failure_noted :: "'c server \<Rightarrow> 'c server \<Rightarrow> bool" where
  "restore_failure_noted s s1 \<longleftrightarrow>
     (\<exists>d. Record_line d \<in> set (drop (length (log_lines (ac_audit (sv_access s)))) (log_lines (ac_audit (sv_access s1)))) \<and>
          map_of d ''event'' = Some (Js_str ''integration_restore_failed''))"

definition handed_back :: "'c server \<Rightarrow> 'c server \<Rightarrow> bool" where
  "handed_back s s1 \<longleftrightarrow> \<not> sv_release s1 \<or> release_pending (sv_handover s1) = Inr [] \<or> restore_failure_noted s s1"

text \<open>The log only grows.\<close>

definition longer_log :: "'c server \<Rightarrow> 'c server \<Rightarrow> bool" where
  "longer_log s s1 \<longleftrightarrow> (\<exists>new. log_lines (ac_audit (sv_access s1)) = log_lines (ac_audit (sv_access s)) @ new)"

lemma longer_log_refl [simp]: "longer_log s s"
  by (simp add: longer_log_def)

lemma longer_log_trans: "longer_log s s1 \<Longrightarrow> longer_log s1 s2 \<Longrightarrow> longer_log s s2"
  unfolding longer_log_def by (elim exE) simp

lemma note_lines:
  "log_lines (ac_audit (note_event k ev u n d ac)) =
     log_lines (ac_audit ac) @ [Record_line (record_entry k (ac_clock ac) ev u n d (ac_audit ac))]"
  by (auto simp: note_event_def audit_record_def record_append_def record_finish_def log_lines_def Let_def split: option.split)

lemma log_event_longer [simp]: "longer_log s (log_event k ev u n d s)"
  by (simp add: longer_log_def log_event_def note_lines)

lemma evolves_longer: "evolves k s s1 \<Longrightarrow> longer_log s s1"
  using run_grows unfolding evolves_def longer_log_def log_grows_def by metis

lemma failure_noted_later:
  "longer_log s0 s1 \<Longrightarrow> restore_failure_noted s s0 \<Longrightarrow> restore_failure_noted s s1"
  unfolding restore_failure_noted_def longer_log_def by (elim exE conjE) auto

lemma failure_noted_earlier:
  "longer_log s0 s \<Longrightarrow> restore_failure_noted s s1 \<Longrightarrow> restore_failure_noted s0 s1"
  unfolding restore_failure_noted_def longer_log_def
  by (elim exE conjE) (metis (no_types, opaque_lifting) add.commute drop_drop in_set_dropD length_append)

lemma restore_pending:
  "restore api token r = (r1, Fine ids) \<Longrightarrow> release_pending r1 = Inr []"
  by (auto simp: restore_def release_pending_def split: sum.splits prod.splits option.splits if_splits)

lemma restore_hands_back:
  assumes "restore_integration w u n s = (s1, Reply ())"
  shows "handed_back s s1"
proof (cases "sv_release s")
  case False
  then show ?thesis using assms by (simp add: restore_integration_def handed_back_def)
next
  case True
  obtain r h where r: "restore (wd_api w) (st_token (sv_settings s)) (sv_handover s) = (r, h)" by fastforce
  have failed: "restore_failure_noted s (log_event k ''integration_restore_failed'' u n d (s\<lparr>sv_handover := r\<rparr>))" for k d
    by (auto simp: restore_failure_noted_def log_event_def note_lines record_entry_def audit_content_def Let_def
        intro!: exI)
  show ?thesis
    using assms True r failed restore_pending
    by (auto simp: restore_integration_def handed_back_def log_event_def split: sum.splits list.splits hass_outcome.splits)
qed

lemma end_claim_keeps_marker:
  assumes "end_claim w u n s = (s1, r)"
  shows "sv_release s1 = sv_release s \<and> rl_marker (sv_handover s1) = rl_marker (sv_handover s) \<and> longer_log s s1"
proof -
  have "longer_log s s1" by (rule evolves_longer [OF abidesD [OF hass_keeps(2) [OF refl] assms]])
  then show ?thesis using assms
    by (auto simp: end_claim_def ask_service_def log_event_def split: if_splits prod.splits hass_outcome.splits)
qed

lemma handed_back_later:
  assumes "handed_back s s1" "sv_release s2 = sv_release s1" "rl_marker (sv_handover s2) = rl_marker (sv_handover s1)"
    and "longer_log s1 s2"
  shows "handed_back s s2"
proof -
  have "release_pending (sv_handover s2) = release_pending (sv_handover s1)"
    using assms(3) by (simp add: release_pending_def)
  then show ?thesis using assms failure_noted_later [OF assms(4)] by (auto simp: handed_back_def)
qed

lemma hand_back_hands_back:
  assumes "hand_back w u n s = (s2, Reply ())"
  shows "handed_back s s2"
proof -
  obtain s1 where s1: "restore_integration w u n s = (s1, Reply ())" "end_claim w u n s1 = (s2, Reply ())"
    using assms by (auto simp: hand_back_def bindh_Reply)
  show ?thesis using handed_back_later [OF restore_hands_back [OF s1(1)]] end_claim_keeps_marker [OF s1(2)] by blast
qed

text \<open>A connect that ends with status 400 is one whose port could not be opened or whose login failed.\<close>

lemma connect_login_refused:
  assumes "connect_login w body q l s = (s1, Refused 400 t)"
  shows "handed_back s s1 \<and> sv_session s1 = sv_session s"
proof -
  obtain u n where u: "remote_user (sv_settings s) q = (u, n)" by fastforce
  obtain x r where x: "session_login (cq_code body) (session_open l) = (x, r)" by fastforce
  let ?o = "observe (session_open l) x s"
  obtain s2 h where h: "hand_back w u n ?o = (s2, h)" by fastforce
  have hb: "h \<noteq> Refused 400 t" "sv_session s2 = sv_session ?o" for t
    using h by (auto simp: hand_back_def restore_integration_def end_claim_def ask_service_def log_event_def bindh_def
        split: if_splits prod.splits hass_outcome.splits sum.splits list.splits)
  obtain e where e: "r = Inl e" "is_session_error e" "h = Reply ()"
    "\<exists>ev d. s1 = audit (wd_crypto w) q ev d s2"
    using assms hb(1) by (cases r; cases h) (auto simp: connect_login_def u x h Let_def bindh_def split: if_splits)
  then obtain ev d where s1: "s1 = audit (wd_crypto w) q ev d s2" by blast
  have "longer_log s2 s1" by (simp add: s1 audit_def longer_log_def note_lines split: prod.split)
  moreover have "sv_release s1 = sv_release s2" "sv_handover s1 = sv_handover s2" "sv_session s1 = sv_session s2"
    by (simp_all add: s1 audit_def split: prod.split)
  moreover have "handed_back ?o s2" using hand_back_hands_back h e(3) by blast
  ultimately have "handed_back ?o s1" using handed_back_later by metis
  moreover have "restore_failure_noted ?o s1 = restore_failure_noted s s1" by (simp add: restore_failure_noted_def observe_def)
  ultimately show ?thesis using hb(2) \<open>sv_session s1 = sv_session s2\<close> by (simp add: handed_back_def observe_def)
qed

lemma connect_run_refused:
  assumes "connect_run w body q s = (s1, Refused 400 t)"
  shows "handed_back s s1 \<and> sv_session s1 = sv_session s"
proof -
  obtain u n where u: "remote_user (sv_settings s) q = (u, n)" by fastforce
  obtain s2 h2 where claim: "claim_session w u n ''programming'' s = (s2, h2)" by fastforce
  obtain s3 h3 where rel: "release_integration w u n s2 = (s3, h3)" by fastforce
  have pre: "h2 \<noteq> Refused 400 t" "h3 \<noteq> Refused 400 t" "sv_session s3 = sv_session s" "longer_log s s3" for t
  proof -
    show "h2 \<noteq> Refused 400 t" using claim by (auto simp: claim_session_def split: if_splits prod.splits hass_outcome.splits)
    show "h3 \<noteq> Refused 400 t"
      using rel by (auto simp: release_integration_def bindh_def end_claim_def split: if_splits prod.splits hass_outcome.splits)
    show "sv_session s3 = sv_session s"
      using claim rel by (auto simp: claim_session_def release_integration_def end_claim_def ask_service_def log_event_def bindh_def
          split: if_splits prod.splits hass_outcome.splits)
    have "evolves (wd_crypto w) s s2" by (rule abidesD [OF hass_keeps(1) [OF refl] claim])
    moreover have "evolves (wd_crypto w) s2 s3" by (rule abidesD [OF release_keeps [OF refl] rel])
    ultimately show "longer_log s s3" by (blast intro: evolves_longer evolves_trans)
  qed
  have replies: "h2 = Reply ()" "h3 = Reply ()"
    using assms pre(1,2) claim rel by (cases h2; cases h3; simp add: connect_run_def u bindh_def)+
  have "handed_back s3 s1 \<and> sv_session s1 = sv_session s3"
  proof (cases "wd_open w (port_of (sv_settings s3) body)")
    case Not_opened
    obtain s4 h where h: "hand_back w u n s3 = (s4, h)" by fastforce
    have "h \<noteq> Refused 400 t \<and> sv_session s4 = sv_session s3" for t
      using h by (auto simp: hand_back_def restore_integration_def end_claim_def ask_service_def log_event_def bindh_def
          split: if_splits prod.splits hass_outcome.splits sum.splits list.splits)
    then show ?thesis
      using assms claim rel replies Not_opened h hand_back_hands_back [of w u n s3 s4]
      by (cases h) (auto simp: connect_run_def u bindh_def)
  next
    case (Opened l)
    then have "connect_login w body q l s3 = (s1, Refused 400 t)"
      using assms claim rel replies by (simp add: connect_run_def u bindh_def)
    then show ?thesis by (rule connect_login_refused)
  qed (use assms claim rel replies in \<open>simp add: connect_run_def u bindh_def\<close>)
  then show ?thesis using pre(3,4) failure_noted_earlier by (auto simp: handed_back_def)
qed

section \<open>Where the code does less\<close>

text \<open>An access code of more than six digits raises an error that is not a session error: the port has been
  released and stays so, the link stays open, and nothing refers to it any more.\<close>

lemma long_code_leaves_released:
  assumes "login (cq_code body) = Inl e" and "claim_session w u n ''programming'' s = (s2, Reply ())"
    and "release_integration w u n s2 = (s3, Reply ())" and "remote_user (sv_settings s) q = (u, n)"
    and "wd_open w (port_of (sv_settings s3) body) = Opened l"
  shows "connect_run w body q s = (s3, Crashed)"
proof -
  have "session_login (cq_code body) (session_open l) = (session_open l, Inl (Raised e))"
    by (simp add: session_login_def send_request_def assms(1))
  moreover have "observe (session_open l) (session_open l) s3 = s3" by (simp add: observe_def)
  ultimately have "connect_login w body q l s3 = (s3, Crashed)" for s3
    by (simp add: connect_login_def observe_def split: prod.split)
  then show ?thesis using assms by (simp add: connect_run_def bindh_def)
qed

lemma seven_digits: "login ''1234567'' = Inl ValueError"
  by (simp add: login_def str_digits_def superscript_def pyord_def)

text \<open>Two connects whose guards have both passed: the second session replaces the first, and no close was sent
  for it. (The guards and the rest of the request are separated by the awaited calls.)\<close>

lemma concurrent_connects_leak:
  assumes "wd_open w (port_of (sv_settings s) body) = Opened l" and "\<not> sv_hass s" "\<not> sv_release s"
    and "session_login (cq_code body) (session_open l) = (x, Inr info)"
  shows "\<exists>s1 s2. connect_run w body q s = (s1, Reply info) \<and> connect_run w body q s1 = (s2, Reply info) \<and>
    sv_session s2 = Some x \<and> sv_wire s2 = sv_wire s @ drop (length (lk_written l)) (map snd (lk_written (ss_link x))) @
      drop (length (lk_written l)) (map snd (lk_written (ss_link x)))"
  using assms
  by (simp add: connect_run_def claim_session_def release_integration_def bindh_def connect_login_def observe_def audit_def
      session_open_def drop_map split: prod.split)

text \<open>Without a live session the idle watch stops the service at its next turn, whatever the limit.\<close>

lemma idle_watch_ignores_the_limit:
  assumes "sv_idle_watch s" and "sv_receive s = None" and "sv_session s = None" and "\<not> sv_release s" "\<not> sv_hass s"
    and "\<forall>x \<in> set (map snd (ac_sessions (sv_access s))). \<not> session_alive x (ac_clock (sv_access s))"
    and "st_token (sv_settings s) \<noteq> []" and "wd_stop w = Inr ()"
  shows "sv_stopped (idle_watch w s)"
proof -
  have live: "filter (\<lambda>x. session_alive x (ac_clock (sv_access s))) (map snd (ac_sessions (sv_access s))) = []"
    using assms(6) by (simp only: filter_empty_conv)
  then have "idle_time (sv_access s) = None" unfolding idle_time_def Let_def by simp
  then show ?thesis using assms
    by (simp add: idle_watch_def Let_def bindh_def close_session_def log_event_def hand_back_def restore_integration_def end_claim_def)
qed

section \<open>Account files\<close>

lemma safe_name_ends: "ends_with ''.json'' (safe_name name)"
  by (auto simp: safe_name_def Let_def ends_with_def take_end_def)

lemma strip_subset: "set (strip_by p s) \<subseteq> set s"
  unfolding strip_by_def by (auto dest!: set_dropWhileD)

lemma safe_name_no_slash: "CHR ''/'' \<notin> set (safe_name name)"
proof -
  have "\<not> alnum (CHR ''/'')" by (simp add: alnum_def pyord_def)
  then have "CHR ''/'' \<notin> set (filter (\<lambda>c. alnum c \<or> c \<in> {CHR ''-'', CHR ''_'', CHR '' '', CHR ''.''}) name)" by auto
  then have "CHR ''/'' \<notin> set (strip_by str_space (filter (\<lambda>c. alnum c \<or> c \<in> {CHR ''-'', CHR ''_'', CHR '' '', CHR ''.''}) name))"
    using strip_subset by blast
  then show ?thesis by (auto simp: safe_name_def Let_def)
qed

section \<open>Properties\<close>


text \<open>A logged-in user, one entry of the integration, and a panel that cannot be reached.\<close>

definition handover_before :: "fake_core releaser" where
  "handover_before =
     \<lparr>rl_core = \<lparr>fc_entries = [\<lparr>fe_id = ''e1'', fe_domain = ''elkm1'', fe_disabled_by = None\<rparr>], fc_token = [], fc_refuse = []\<rparr>,
      rl_marker = None\<rparr>"

definition handover_during :: "fake_core releaser" where
  "handover_during =
     \<lparr>rl_core = \<lparr>fc_entries = [\<lparr>fe_id = ''e1'', fe_domain = ''elkm1'', fe_disabled_by = Some ''user''\<rparr>], fc_token = [], fc_refuse = []\<rparr>,
      rl_marker = marker_of [''e1'']\<rparr>"

definition unreachable_world :: "fake_core world" where
  "unreachable_world =
     \<lparr>wd_crypto = plain_crypto, wd_api = fake_api, wd_service = \<lambda>_ _ c. (c, Inl ConnectionError), wd_open = \<lambda>_. Not_opened,
      wd_stop = Inr (), wd_answer = \<lambda>_. True\<rparr>"

definition unreachable_server :: "fake_core server" where
  "unreachable_server =
     \<lparr>sv_settings = demo_settings,
      sv_access = (fresh_access None)\<lparr>ac_sessions :=
        [(''t'', \<lparr>as_token = ''t'', as_user_id = ''u1'', as_user_name = ''Ann'', as_created = 0, as_last_seen = 0, as_write_until = Some 0\<rparr>)]\<rparr>,
      sv_account = new_account ''Home'', sv_path = None, sv_files = [], sv_session = None, sv_receive = None, sv_report = None,
      sv_hass = False, sv_release = True, sv_handover = handover_before, sv_soc = None, sv_idle_watch = False, sv_wire = [],
      sv_broadcasts = [], sv_stopped = False\<rparr>"

lemma handover_steps:
  "release fake_api [] handover_before = (handover_during, Fine [''e1''])"
  "restore fake_api [] handover_during = (handover_before, Fine [''e1''])"
   apply code_simp
  apply code_simp
  done


lemma account_read_back:
  assumes "list_all table_ok (ac_tables a)" and "distinct (map fst (ac_tables a))"
  shows "from_json (to_json a) = Inr (a\<lparr>ac_tables := map saved_table (ac_tables a)\<rparr>)"
  using load_tables_saved [OF assms, of "[]"] settings_roundtrip
  by (simp add: from_json_def to_json_def opt_def FORMAT_VERSION_def)

text \<open>A saved account can be opened again: the name the account is saved under, whatever was asked for, is a file
  of the accounts directory itself, no other file changes, and opening it yields the account that was saved, with
  the fields of its record types.\<close>

theorem saved_account_opens:
  assumes "list_all table_ok (ac_tables (sv_account s))" and "distinct (map fst (ac_tables (sv_account s)))"
    and "name \<noteq> []" and "safe_name name \<noteq> ''.json''"
  shows "\<exists>s1 h s2 h2. save_account k (Some name) q s = (s1, Reply h) \<and> sv_path s1 = Some (safe_name name) \<and>
    CHR ''/'' \<notin> set (safe_name name) \<and>
    (\<forall>f. f \<noteq> safe_name name \<longrightarrow> map_of (sv_files s1) f = map_of (sv_files s) f) \<and>
    open_account k (safe_name name) q s1 = (s2, Reply h2) \<and>
    sv_account s2 = (sv_account s)\<lparr>ac_tables := map saved_table (ac_tables (sv_account s))\<rparr>"
proof -
  let ?p = "safe_name name"
  obtain s1 h where save: "save_account k (Some name) q s = (s1, Reply h)" "sv_path s1 = Some ?p"
    "sv_files s1 = AList.update ?p (to_json (sv_account s)) (sv_files s)"
    using assms(3) by (cases name) (auto simp: save_account_def Let_def audit_def split: prod.split)
  have doc: "from_json (to_json (sv_account s)) = Inr ((sv_account s)\<lparr>ac_tables := map saved_table (ac_tables (sv_account s))\<rparr>)"
    by (rule account_read_back [OF assms(1,2)])
  obtain s2 h2 where "open_account k ?p q s1 = (s2, Reply h2)"
    "sv_account s2 = (sv_account s)\<lparr>ac_tables := map saved_table (ac_tables (sv_account s))\<rparr>"
    using save(3) doc safe_name_ends [of name] safe_name_no_slash [of name] assms(4)
    by (auto simp: open_account_def update_conv Let_def audit_def split: prod.split)
  then show ?thesis
    using save safe_name_no_slash [of name]
    by (intro exI [of _ s1] exI [of _ h] exI [of _ s2] exI [of _ h2]) (simp add: update_conv)
qed

theorem saved_account_opens_witness:
  "\<exists>s1 h. save_account plain_crypto (Some ''../Home'') (demo_query None) (demo_server\<lparr>sv_account := new_account ''Home''\<rparr>) = (s1, Reply h) \<and>
     sv_path s1 = Some ''..Home.json''"
proof -
  have name: "safe_name ''../Home'' = ''..Home.json''" by code_simp
  show ?thesis
    using saved_account_opens [of "demo_server\<lparr>sv_account := new_account ''Home''\<rparr>" "''../Home''" plain_crypto "demo_query None"]
    by (auto simp: name new_account_def)
qed

text \<open>A name without a letter or digit but with the suffix gives a file that the service lists and cannot open.\<close>

lemma suffix_only_name: "open_account k (safe_name ''.json'') q s = (s, Refused 404 ''no such account file'')"
proof -
  have "safe_name ''.json'' = ''.json''" by code_simp
  then show ?thesis by (simp add: open_account_def)
qed

end
